(* ===== verification/Prelude.thy ===== *)
theory Prelude
  imports Main "HOL-Library.Word" "HOL-Library.Product_Lexorder"
begin

text \<open>
  Shared material of the development: the machine-integer types of the C++ code, the
  little-endian byte codec of packed structs, the fixed-width codec interface that lifts
  an element codec to an array of elements, and the lemmas on lists and cardinalities
  that several components use.
\<close>

section \<open>Machine integers and byte strings\<close>

type_synonym byte = "8 word"
type_synonym u16 = "16 word"
type_synonym u32 = "32 word"
type_synonym u64 = "64 word"
type_synonym bytes = "byte list"

named_theorems codec "lengths and round trips of the byte codecs"

text \<open>
  Packed structs are copied byte by byte on a little-endian host: the least significant
  byte comes first.
\<close>

fun le_enc :: "nat \<Rightarrow> nat \<Rightarrow> bytes" where
  "le_enc 0 v = []"
| "le_enc (Suc k) v = of_nat (v mod 256) # le_enc k (v div 256)"

fun le_dec :: "bytes \<Rightarrow> nat" where
  "le_dec [] = 0"
| "le_dec (b # bs) = unat b + 256 * le_dec bs"

lemma length_le_enc [simp, codec]: "length (le_enc k v) = k"
  by (induction k arbitrary: v) auto

lemma unat_width_less: "unat (w :: 'a :: len word) < 2 ^ LENGTH('a)"
  by (rule unsigned_less)

lemma unat_byte_less: "unat (b :: byte) < 256"
  using unat_width_less [of b] by simp

lemma unat_of_nat_byte: "unat (of_nat (v mod 256) :: byte) = v mod 256"
  by (simp add: unat_of_nat)

lemma le_dec_enc: "v < 256 ^ k \<Longrightarrow> le_dec (le_enc k v) = v"
proof (induction k arbitrary: v)
  case (Suc k)
  have "v div 256 < 256 ^ k"
    using Suc.prems by (simp add: less_mult_imp_div_less mult.commute)
  then show ?case
    using Suc.IH unat_of_nat_byte [of v] by simp
qed simp

lemma le_dec_bound: "le_dec bs < 256 ^ length bs"
proof (induction bs)
  case (Cons b bs)
  have "unat b + 256 * le_dec bs < 256 + 256 * le_dec bs"
    using unat_byte_less [of b] by simp
  also have "256 + 256 * le_dec bs = 256 * Suc (le_dec bs)"
    by simp
  also have "\<dots> \<le> 256 * 256 ^ length bs"
    using Cons.IH by (meson Suc_leI mult_le_mono2)
  finally show ?case by simp
qed simp

lemma le_enc_dec: "le_enc (length bs) (le_dec bs) = bs"
proof (induction bs)
  case (Cons b bs)
  have "(unat b + 256 * le_dec bs) mod 256 = unat b"
    using unat_byte_less [of b] by (simp add: mod_less)
  moreover have "(unat b + 256 * le_dec bs) div 256 = le_dec bs"
    using unat_byte_less [of b] by simp
  ultimately show ?case
    using Cons.IH by simp
qed simp

text \<open>Unsigned and signed fields of a packed struct, and reads at an offset.\<close>

definition put_u16 :: "u16 \<Rightarrow> bytes" where
  "put_u16 w = le_enc 2 (unat w)"

definition put_u32 :: "u32 \<Rightarrow> bytes" where
  "put_u32 w = le_enc 4 (unat w)"

definition put_u64 :: "u64 \<Rightarrow> bytes" where
  "put_u64 w = le_enc 8 (unat w)"

definition put_i32 :: "int \<Rightarrow> bytes" where
  "put_i32 i = put_u32 (word_of_int i)"

definition get_u16 :: "bytes \<Rightarrow> nat \<Rightarrow> u16" where
  "get_u16 bs off = of_nat (le_dec (take 2 (drop off bs)))"

definition get_u32 :: "bytes \<Rightarrow> nat \<Rightarrow> u32" where
  "get_u32 bs off = of_nat (le_dec (take 4 (drop off bs)))"

definition get_u64 :: "bytes \<Rightarrow> nat \<Rightarrow> u64" where
  "get_u64 bs off = of_nat (le_dec (take 8 (drop off bs)))"

definition get_i32 :: "bytes \<Rightarrow> nat \<Rightarrow> int" where
  "get_i32 bs off = sint (get_u32 bs off)"

definition in_i32 :: "int \<Rightarrow> bool" where
  "in_i32 i \<longleftrightarrow> - (2 ^ 31) \<le> i \<and> i < 2 ^ 31"

text \<open>Code equations over binary integers, so that evaluation never counts in successors.\<close>

fun le_enc_int :: "nat \<Rightarrow> int \<Rightarrow> bytes" where
  "le_enc_int 0 v = []"
| "le_enc_int (Suc k) v = word_of_int (v mod 256) # le_enc_int k (v div 256)"

fun le_dec_int :: "bytes \<Rightarrow> int" where
  "le_dec_int [] = 0"
| "le_dec_int (b # bs) = uint b + 256 * le_dec_int bs"

lemma le_dec_int: "int (le_dec bs) = le_dec_int bs"
  by (induction bs) simp_all

lemma le_enc_int: "le_enc k v = le_enc_int k (int v)"
proof (induction k arbitrary: v)
  case (Suc k)
  have "int v mod 256 = int (v mod 256)" "int v div 256 = int (v div 256)"
    by (simp_all add: zmod_int zdiv_int)
  then show ?case using Suc.IH by (simp only: le_enc.simps le_enc_int.simps of_int_of_nat_eq)
qed simp

lemma put_code [code]:
  "put_u16 w16 = le_enc_int 2 (uint w16)" "put_u32 w32 = le_enc_int 4 (uint w32)"
  "put_u64 w64 = le_enc_int 8 (uint w64)"
  by (simp_all only: put_u16_def put_u32_def put_u64_def le_enc_int uint_nat)

lemma get_code [code]:
  "get_u16 bs off = word_of_int (le_dec_int (take 2 (drop off bs)))"
  "get_u32 bs off = word_of_int (le_dec_int (take 4 (drop off bs)))"
  "get_u64 bs off = word_of_int (le_dec_int (take 8 (drop off bs)))"
  by (simp_all only: get_u16_def get_u32_def get_u64_def flip: le_dec_int) simp_all

lemma length_put [simp, codec]:
  "length (put_u16 w16) = 2" "length (put_u32 w32) = 4"
  "length (put_u64 w64) = 8" "length (put_i32 i) = 4"
  by (simp_all add: put_u16_def put_u32_def put_u64_def put_i32_def)

lemma get_put_u16 [codec]:
  assumes "length pre = off"
  shows "get_u16 (pre @ put_u16 w @ post) off = w"
proof -
  have "unat w < 256 ^ 2" using unat_width_less [of w] by simp
  then show ?thesis using assms by (simp add: get_u16_def put_u16_def le_dec_enc)
qed

lemma get_put_u32 [codec]:
  assumes "length pre = off"
  shows "get_u32 (pre @ put_u32 w @ post) off = w"
proof -
  have "unat w < 256 ^ 4" using unat_width_less [of w] by simp
  then show ?thesis using assms by (simp add: get_u32_def put_u32_def le_dec_enc)
qed

lemma get_put_u64 [codec]:
  assumes "length pre = off"
  shows "get_u64 (pre @ put_u64 w @ post) off = w"
proof -
  have "unat w < 256 ^ 8" using unat_width_less [of w] by simp
  then show ?thesis using assms by (simp add: get_u64_def put_u64_def le_dec_enc)
qed

lemma sint_word_of_int_i32: "in_i32 i \<Longrightarrow> sint (word_of_int i :: u32) = i"
  by (simp add: in_i32_def signed_of_int signed_take_bit_int_eq_self)

lemma in_i32_sint: "in_i32 (sint (w :: u32))"
  using sint_greater_eq [of w] sint_less [of w] by (simp add: in_i32_def)

lemma get_put_i32 [codec]:
  assumes "length pre = off" and "in_i32 i"
  shows "get_i32 (pre @ put_i32 i @ post) off = i"
  using assms by (simp add: get_i32_def put_i32_def get_put_u32 sint_word_of_int_i32)

lemma in_i32_get_i32 [simp]: "in_i32 (get_i32 bs off)"
  by (simp add: get_i32_def in_i32_sint)

text \<open>Reads past a prefix of known length; the fields of a struct are read this way.\<close>

lemma get_skip:
  assumes "n \<le> off" and "length pre = n"
  shows "get_u16 (pre @ bs) off = get_u16 bs (off - n)"
    and "get_u32 (pre @ bs) off = get_u32 bs (off - n)"
    and "get_u64 (pre @ bs) off = get_u64 bs (off - n)"
    and "get_i32 (pre @ bs) off = get_i32 bs (off - n)"
  using assms by (simp_all add: get_u16_def get_u32_def get_u64_def get_i32_def)

lemma get_head:
  "get_u16 (put_u16 w16 @ r) 0 = w16" "get_u32 (put_u32 w32 @ r) 0 = w32"
  "get_u64 (put_u64 w64 @ r) 0 = w64"
  "in_i32 i \<Longrightarrow> get_i32 (put_i32 i @ r) 0 = i"
  using get_put_u16 [of "[]" 0] get_put_u32 [of "[]" 0] get_put_u64 [of "[]" 0]
    get_put_i32 [of "[]" 0] by simp_all

section \<open>The fixed-width codec interface\<close>

text \<open>
  A packed struct is written by an encoder of constant width and read back by a decoder
  that looks at its first \<open>width\<close> bytes only. What follows holds for every such struct:
  an array of them, written one after the other, is read back element by element.
\<close>

locale fixed_codec =
  fixes enc :: "'a \<Rightarrow> bytes"
    and dec :: "bytes \<Rightarrow> 'a"
    and width :: nat
    and wf :: "'a \<Rightarrow> bool"
  assumes length_enc: "length (enc x) = width"
    and dec_enc: "wf x \<Longrightarrow> dec (enc x @ rest) = x"
begin

lemma length_array: "length (concat (map enc xs)) = length xs * width"
  by (induction xs) (simp_all add: length_enc)

lemma drop_array:
  "i \<le> length xs \<Longrightarrow> drop (i * width) (concat (map enc xs) @ r) = concat (map enc (drop i xs)) @ r"
proof (induction xs arbitrary: i)
  case (Cons x xs)
  show ?case
  proof (cases i)
    case (Suc j)
    then show ?thesis using Cons by (simp add: length_enc)
  qed simp
qed simp

lemma dec_nth_array:
  assumes "i < length xs" and "wf (xs ! i)"
  shows "dec (drop (i * width) (concat (map enc xs) @ r)) = xs ! i"
proof -
  have "drop i xs = xs ! i # drop (Suc i) xs"
    using assms(1) by (rule Cons_nth_drop_Suc [symmetric])
  then show ?thesis
    using assms by (simp add: drop_array dec_enc del: drop_append)
qed

lemma dec_array:
  assumes "\<forall>x \<in> set xs. wf x" and "n = length xs" and "length pre = off"
  shows "map (\<lambda>i. dec (drop (off + i * width) (pre @ concat (map enc xs) @ r))) [0..<n] = xs"
proof (rule nth_equalityI)
  fix i assume "i < length (map (\<lambda>i. dec (drop (off + i * width) (pre @ concat (map enc xs) @ r))) [0..<n])"
  then have "i < length xs" using assms(2) by simp
  moreover have "drop (off + i * width) (pre @ concat (map enc xs) @ r)
      = drop (i * width) (concat (map enc xs) @ r)"
    using assms(3) by simp
  ultimately show "map (\<lambda>i. dec (drop (off + i * width) (pre @ concat (map enc xs) @ r))) [0..<n] ! i = xs ! i"
    using assms dec_nth_array [of i xs r] by simp
qed (simp add: assms(2))

end

lemma in_i32_word: "in_i32 i \<Longrightarrow> get_i32 (put_i32 i @ rest) 0 = i"
  by (rule get_head)

interpretation i32c: fixed_codec put_i32 "\<lambda>bs. get_i32 bs 0" 4 in_i32
  by unfold_locales (simp_all add: get_head)

section \<open>Lists, sets and counting\<close>

text \<open>
  \<open>f + 1\<close> distinct members of a set with at most \<open>f\<close> faulty ones include a
  correct one: the counting argument behind every witness certificate.
\<close>

lemma honest_member:
  assumes "finite S" and "f < card S" and "card (S \<inter> Bad) \<le> f"
  obtains s where "s \<in> S" and "s \<notin> Bad"
proof -
  have "\<not> S \<subseteq> Bad"
  proof
    assume "S \<subseteq> Bad"
    then have "S \<inter> Bad = S" by blast
    with assms show False by simp
  qed
  then show thesis using that by blast
qed

lemma card_overlap:
  assumes "finite M" and "A \<subseteq> M" and "B \<subseteq> M"
  shows "card A + card B \<le> card M + card (A \<inter> B)"
proof -
  have fin: "finite A" "finite B"
    using assms finite_subset by blast+
  then have "card A + card B = card (A \<union> B) + card (A \<inter> B)"
    by (rule card_Un_Int)
  moreover have "card (A \<union> B) \<le> card M"
    using assms by (intro card_mono) auto
  ultimately show ?thesis by simp
qed

lemma filter_unique: "distinct xs \<Longrightarrow> a \<in> set xs \<Longrightarrow> filter (\<lambda>v. v = a) xs = [a]"
  by (induction xs) (auto simp: filter_empty_conv)

lemma find_Some_iff_first:
  "List.find P xs = Some x \<Longrightarrow> x \<in> set xs \<and> P x"
  by (auto simp: find_Some_iff)

end
