(* ===== verification/OrdMap.thy ===== *)
theory OrdMap
  imports Prelude "HOL-Library.List_Lexorder" "HOL-Library.Char_ord"
begin

text \<open>
  The standard containers the code iterates over. \<open>std::map\<close> and \<open>std::set\<close> visit their
  keys in increasing order, and several decisions of the protocol depend on that order, so
  they are kept as lists with strictly increasing keys. The sorted-vector algorithms
  \<open>std::binary_search\<close>, \<open>std::adjacent_find\<close> and \<open>std::unique\<close> are here too.
\<close>

section \<open>Ordered maps\<close>

type_synonym ('k, 'v) omap = "('k \<times> 'v) list"

fun om_put :: "'k :: linorder \<Rightarrow> 'v \<Rightarrow> ('k, 'v) omap \<Rightarrow> ('k, 'v) omap" where
  "om_put k v [] = [(k, v)]"
| "om_put k v ((k', v') # m) =
     (if k < k' then (k, v) # (k', v') # m
      else if k = k' then (k, v) # m
      else (k', v') # om_put k v m)"

definition om_erase :: "'k \<Rightarrow> ('k, 'v) omap \<Rightarrow> ('k, 'v) omap" where
  "om_erase k m = filter (\<lambda>(k', _). k' \<noteq> k) m"

definition om_get :: "('k, 'v) omap \<Rightarrow> 'k \<Rightarrow> 'v option" where
  "om_get m = map_of m"

definition om_ok :: "('k :: linorder, 'v) omap \<Rightarrow> bool" where
  "om_ok m \<longleftrightarrow> sorted_wrt (<) (map fst m)"

definition om_keys :: "('k, 'v) omap \<Rightarrow> 'k list" where
  "om_keys m = map fst m"

text \<open>The contract the protocol code relies on, for any implementation of the map.\<close>

locale keyed_store =
  fixes empty :: "'m"
    and get :: "'m \<Rightarrow> 'k \<Rightarrow> 'v option"
    and put :: "'k \<Rightarrow> 'v \<Rightarrow> 'm \<Rightarrow> 'm"
    and erase :: "'k \<Rightarrow> 'm \<Rightarrow> 'm"
    and inv :: "'m \<Rightarrow> bool"
  assumes get_empty: "get empty k = None"
    and get_put: "get (put k v m) k' = (if k' = k then Some v else get m k')"
    and get_erase: "get (erase k m) k' = (if k' = k then None else get m k')"
    and inv_empty: "inv empty"
    and inv_put: "inv m \<Longrightarrow> inv (put k v m)"
    and inv_erase: "inv m \<Longrightarrow> inv (erase k m)"
begin

lemma get_put_same [simp]: "get (put k v m) k = Some v"
  by (simp add: get_put)

lemma get_put_other [simp]: "k' \<noteq> k \<Longrightarrow> get (put k v m) k' = get m k'"
  by (simp add: get_put)

lemma put_all_kept:
  assumes "\<And>k v. get m k = Some v \<Longrightarrow> P v" and "P w" and "get (put k w m) k' = Some v"
  shows "P v"
  using assms by (auto simp: get_put split: if_splits)

end

lemma om_get_put: "om_get (om_put k v m) k' = (if k' = k then Some v else om_get m k')"
  unfolding om_get_def by (induction k v m rule: om_put.induct) auto

lemma om_keys_put: "set (om_keys (om_put k v m)) = insert k (set (om_keys m))"
  unfolding om_keys_def by (induction k v m rule: om_put.induct) auto

lemma om_ok_put: "om_ok m \<Longrightarrow> om_ok (om_put k v m)"
proof (induction k v m rule: om_put.induct)
  case (2 k v k' v' m)
  have "set (map fst (om_put k v m)) = insert k (set (map fst m))"
    using om_keys_put [of k v m] by (simp add: om_keys_def)
  with 2 show ?case by (auto simp: om_ok_def simp del: set_map)
qed (simp add: om_ok_def)

lemma om_get_erase: "om_get (om_erase k m) k' = (if k' = k then None else om_get m k')"
  unfolding om_get_def om_erase_def by (induction m) auto

lemma om_ok_erase: "om_ok m \<Longrightarrow> om_ok (om_erase k m)"
proof -
  have "map fst (om_erase k m) = filter (\<lambda>x. x \<noteq> k) (map fst m)"
    by (induction m) (auto simp: om_erase_def)
  then show "om_ok m \<Longrightarrow> om_ok (om_erase k m)"
    by (simp add: om_ok_def sorted_wrt_filter)
qed

interpretation om: keyed_store "[]" om_get om_put om_erase om_ok
  by unfold_locales
    (simp_all add: om_get_put om_get_erase om_ok_put om_ok_erase, simp_all add: om_get_def om_ok_def)

lemma om_get_Some_in: "om_get m k = Some v \<Longrightarrow> (k, v) \<in> set m"
  by (simp add: om_get_def map_of_SomeD)

lemma om_get_None: "om_get m k = None \<longleftrightarrow> k \<notin> set (om_keys m)"
  by (simp add: om_get_def om_keys_def map_of_eq_None_iff)

lemma om_in_get:
  assumes "om_ok m" and "(k, v) \<in> set m"
  shows "om_get m k = Some v"
proof -
  have "distinct (map fst m)"
    using assms(1) by (auto simp: om_ok_def strict_sorted_iff)
  then show ?thesis
    using assms(2) by (simp add: om_get_def)
qed

lemma om_ok_distinct: "om_ok m \<Longrightarrow> distinct (om_keys m)"
  by (simp add: om_ok_def om_keys_def strict_sorted_iff)

section \<open>Ordered sets\<close>

text \<open>\<open>insert(x).second\<close> tells whether the element is new.\<close>

fun os_insert :: "'a :: linorder \<Rightarrow> 'a list \<Rightarrow> 'a list" where
  "os_insert x [] = [x]"
| "os_insert x (y # ys) = (if x < y then x # y # ys else if x = y then y # ys else y # os_insert x ys)"

definition os_new :: "'a \<Rightarrow> 'a list \<Rightarrow> bool" where
  "os_new x s \<longleftrightarrow> x \<notin> set s"

lemma set_os_insert [simp]: "set (os_insert x s) = insert x (set s)"
  by (induction x s rule: os_insert.induct) auto

lemma os_insert_sorted: "sorted_wrt (<) s \<Longrightarrow> sorted_wrt (<) (os_insert x s)"
  by (induction x s rule: os_insert.induct) auto

lemma os_insert_old: "sorted_wrt (<) s \<Longrightarrow> x \<in> set s \<Longrightarrow> os_insert x s = s"
  by (induction x s rule: os_insert.induct) auto

lemma length_os_insert:
  assumes "sorted_wrt (<) s"
  shows "length (os_insert x s) = (if x \<in> set s then length s else Suc (length s))"
proof -
  have "length (os_insert x s) = card (set (os_insert x s))" "length s = card (set s)"
    using assms os_insert_sorted [OF assms, of x] distinct_card unfolding strict_sorted_iff by metis+
  then show ?thesis by (simp add: card_insert_if)
qed

section \<open>Algorithms on sorted vectors\<close>

function lower_bound :: "'a :: linorder list \<Rightarrow> nat \<Rightarrow> nat \<Rightarrow> 'a \<Rightarrow> nat" where
  "lower_bound xs first len val =
     (if len = 0 then first
      else let half = len div 2 in
        if xs ! (first + half) < val then lower_bound xs (Suc (first + half)) (len - half - 1) val
        else lower_bound xs first half val)"
  by pat_completeness auto
termination
  by (relation "measure (\<lambda>(xs, first, len, val). len)") auto

declare lower_bound.simps [simp del]

definition binary_search :: "'a :: linorder list \<Rightarrow> 'a \<Rightarrow> bool" where
  "binary_search xs val =
     (let i = lower_bound xs 0 (length xs) val in i < length xs \<and> \<not> val < xs ! i)"

lemma lower_bound_bounds:
  "first + len \<le> length xs \<Longrightarrow> sorted xs \<Longrightarrow> (\<forall>j < first. xs ! j < val) \<Longrightarrow>
   (\<forall>j. first + len \<le> j \<longrightarrow> j < length xs \<longrightarrow> val \<le> xs ! j) \<Longrightarrow>
   lower_bound xs first len val \<le> length xs \<and>
   (\<forall>j < lower_bound xs first len val. xs ! j < val) \<and>
   (\<forall>j. lower_bound xs first len val \<le> j \<longrightarrow> j < length xs \<longrightarrow> val \<le> xs ! j)"
proof (induction xs first len val rule: lower_bound.induct)
  case (1 xs first len val)
  show ?case
  proof (cases "len = 0")
    case True
    then show ?thesis using "1.prems" by (simp add: lower_bound.simps)
  next
    case False
    let ?h = "len div 2"
    have h: "?h < len" "first + ?h < length xs" using False "1.prems"(1) by auto
    have mono: "i \<le> j \<Longrightarrow> j < length xs \<Longrightarrow> xs ! i \<le> xs ! j" for i j
      using "1.prems"(2) by (simp add: sorted_iff_nth_mono)
    show ?thesis
    proof (cases "xs ! (first + ?h) < val")
      case True
      have "\<forall>j < Suc (first + ?h). xs ! j < val"
        using True mono [OF _ h(2)] by (auto simp: less_Suc_eq_le intro: le_less_trans)
      then show ?thesis
        using "1.IH"(1) [OF False refl True] "1.prems" h True False
        by (simp add: lower_bound.simps [of xs first len] Let_def)
    next
      case below: False
      have up: "\<forall>j. first + ?h \<le> j \<longrightarrow> j < length xs \<longrightarrow> val \<le> xs ! j"
        using below mono by (metis linorder_not_less order_trans)
      have eq: "lower_bound xs first len val = lower_bound xs first ?h val"
        using False below by (subst lower_bound.simps) (simp add: Let_def)
      have "first + ?h \<le> length xs" using h by simp
      then show ?thesis
        unfolding eq using "1.IH"(2) [OF False refl below _ "1.prems"(2,3) up] by blast
    qed
  qed
qed

lemma binary_search_sorted:
  assumes "sorted xs"
  shows "binary_search xs val \<longleftrightarrow> val \<in> set xs"
proof -
  let ?i = "lower_bound xs 0 (length xs) val"
  have "(\<forall>j < ?i. xs ! j < val) \<and> (\<forall>j. ?i \<le> j \<longrightarrow> j < length xs \<longrightarrow> val \<le> xs ! j)"
    using lower_bound_bounds [of 0 "length xs" xs val] assms by simp
  then have low: "\<forall>j < ?i. xs ! j < val" and up: "\<forall>j. ?i \<le> j \<longrightarrow> j < length xs \<longrightarrow> val \<le> xs ! j"
    by blast+
  show ?thesis
  proof
    assume "binary_search xs val"
    then have "?i < length xs" "xs ! ?i = val"
      using up by (auto simp: binary_search_def Let_def intro: antisym)
    then show "val \<in> set xs" by (metis nth_mem)
  next
    assume "val \<in> set xs"
    then obtain j where j: "j < length xs" "xs ! j = val" by (auto simp: in_set_conv_nth)
    then have "?i \<le> j" using low by (metis less_irrefl not_less)
    then have "xs ! ?i \<le> val" using assms j by (auto simp: sorted_iff_nth_mono)
    then show "binary_search xs val"
      using \<open>?i \<le> j\<close> j(1) by (auto simp: binary_search_def Let_def)
  qed
qed

fun adjacent_dup :: "'a list \<Rightarrow> bool" where
  "adjacent_dup (x # y # r) = (x = y \<or> adjacent_dup (y # r))"
| "adjacent_dup _ = False"

lemma adjacent_dup_sorted: "sorted (xs :: 'a :: linorder list) \<Longrightarrow> adjacent_dup xs \<longleftrightarrow> \<not> distinct xs"
  by (induction xs rule: adjacent_dup.induct) (auto dest: antisym)

lemma adjacent_dup_sort [simp]: "adjacent_dup (sort xs) \<longleftrightarrow> \<not> distinct (xs :: 'a :: linorder list)"
  by (simp add: adjacent_dup_sorted)

lemma binary_search_sort [simp]: "binary_search (sort xs) x \<longleftrightarrow> x \<in> set xs"
  by (simp add: binary_search_sorted)

lemma distinct_remdups_adj_sorted: "sorted (xs :: 'a :: linorder list) \<Longrightarrow> distinct (remdups_adj xs)"
  by (induction xs rule: remdups_adj.induct) (auto dest: antisym)

lemma sort_eq_Nil [simp]: "sort (xs :: 'a :: linorder list) = [] \<longleftrightarrow> xs = []"
  by (metis length_0_conv length_sort)

end
