(* ===== verification/TextCodec.thy ===== *)
theory TextCodec
  imports OrdMap
begin

text \<open>
  The text helpers of \<^verbatim>\<open>src/v2vbft/app/ResDBUtil.cc\<close> and the standard-library conversions
  the textual wire formats use: splitting at a delimiter, \<open>std::getline\<close> parts, decimal
  printing and parsing, and hexadecimal.
\<close>

section \<open>Splitting and joining\<close>

fun split_acc :: "'a \<Rightarrow> 'a list \<Rightarrow> 'a list \<Rightarrow> 'a list list" where
  "split_acc delim cur [] = [cur]"
| "split_acc delim cur (c # cs) =
     (if c = delim then cur # split_acc delim [] cs else split_acc delim (cur @ [c]) cs)"

definition splitStr :: "'a list \<Rightarrow> 'a \<Rightarrow> 'a list list" where
  "splitStr s delim = split_acc delim [] s"

fun join_with :: "'a \<Rightarrow> 'a list list \<Rightarrow> 'a list" where
  "join_with delim [] = []"
| "join_with delim [p] = p"
| "join_with delim (p # q # ps) = p @ delim # join_with delim (q # ps)"

lemma split_acc_nonempty [simp]: "split_acc delim cur s \<noteq> []"
  by (induction delim cur s rule: split_acc.induct) auto

lemma split_acc_plain: "delim \<notin> set p \<Longrightarrow> split_acc delim cur p = [cur @ p]"
  by (induction p arbitrary: cur) auto

lemma split_acc_delim:
  "delim \<notin> set p \<Longrightarrow> split_acc delim cur (p @ delim # s) = (cur @ p) # split_acc delim [] s"
  by (induction p arbitrary: cur) auto

lemma splitStr_plain: "delim \<notin> set p \<Longrightarrow> splitStr p delim = [p]"
  by (simp add: splitStr_def split_acc_plain)

lemma splitStr_delim: "delim \<notin> set p \<Longrightarrow> splitStr (p @ delim # s) delim = p # splitStr s delim"
  by (simp add: splitStr_def split_acc_delim)

lemma splitStr_join:
  assumes "ps \<noteq> []" and "\<forall>p \<in> set ps. delim \<notin> set p"
  shows "splitStr (join_with delim ps) delim = ps"
  using assms
  by (induction delim ps rule: join_with.induct) (simp_all add: splitStr_plain splitStr_delim)

lemma join_split_acc: "join_with delim (split_acc delim cur s) = cur @ s"
proof (induction delim cur s rule: split_acc.induct)
  case (2 delim cur c cs)
  show ?case
  proof (cases "c = delim")
    case True
    obtain q qs where "split_acc delim [] cs = q # qs"
      by (cases "split_acc delim [] cs") auto
    with True 2 show ?thesis by simp
  qed (use 2 in simp)
qed simp

lemma join_splitStr: "join_with delim (splitStr s delim) = s"
  by (simp add: splitStr_def join_split_acc)

text \<open>Successive \<open>std::getline\<close> calls: a trailing empty part is not delivered.\<close>

definition getline_parts :: "'a list \<Rightarrow> 'a \<Rightarrow> 'a list list" where
  "getline_parts s delim =
     (let ps = splitStr s delim in if last ps = [] then butlast ps else ps)"

section \<open>Decimal numbers\<close>

definition digit_char :: "nat \<Rightarrow> char" where
  "digit_char d = char_of (48 + d)"

fun nat_digits :: "nat \<Rightarrow> string" where
  "nat_digits n = (if n < 10 then [digit_char n] else nat_digits (n div 10) @ [digit_char (n mod 10)])"

declare nat_digits.simps [simp del]

text \<open>\<open>std::to_string\<close> on integers.\<close>

definition to_string :: "int \<Rightarrow> string" where
  "to_string i = (if i < 0 then CHR ''-'' # nat_digits (nat (- i)) else nat_digits (nat i))"

definition digit_val :: "char \<Rightarrow> nat option" where
  "digit_val c = (let v = (of_char c :: nat) in if 48 \<le> v \<and> v \<le> 57 then Some (v - 48) else None)"

fun read_digits :: "nat \<Rightarrow> string \<Rightarrow> nat" where
  "read_digits acc [] = acc"
| "read_digits acc (c # cs) =
     (case digit_val c of Some d \<Rightarrow> read_digits (acc * 10 + d) cs | None \<Rightarrow> acc)"

definition is_space_char :: "char \<Rightarrow> bool" where
  "is_space_char c \<longleftrightarrow> (of_char c :: nat) \<in> {9, 10, 11, 12, 13, 32}"

text \<open>
  \<open>std::stoi\<close>: leading white space and a sign are skipped, digits are read up to the first
  other character, and the call throws when there is no digit or the value leaves the
  range of \<open>int\<close>.
\<close>

definition stoi_unsigned :: "string \<Rightarrow> nat option" where
  "stoi_unsigned s =
     (case s of [] \<Rightarrow> None
      | c # _ \<Rightarrow> if digit_val c = None then None else Some (read_digits 0 s))"

definition stoi :: "string \<Rightarrow> int option" where
  "stoi s =
     (let t = dropWhile is_space_char s;
          (neg, u) = (case t of
             c # r \<Rightarrow> if c = CHR ''-'' then (True, r) else if c = CHR ''+'' then (False, r) else (False, t)
           | [] \<Rightarrow> (False, []))
      in case stoi_unsigned u of
           None \<Rightarrow> None
         | Some v \<Rightarrow> (let i = (if neg then - int v else int v) in if in_i32 i then Some i else None))"

lemma of_char_digit: "d < 10 \<Longrightarrow> (of_char (digit_char d) :: nat) = 48 + d"
  unfolding digit_char_def of_char_of by simp

lemma digit_val_char [simp]: "d < 10 \<Longrightarrow> digit_val (digit_char d) = Some d"
  by (simp add: digit_val_def of_char_digit)

lemma digit_char_neq:
  assumes "d < 10" and "\<not> (48 \<le> (of_char c :: nat) \<and> (of_char c :: nat) \<le> 57)"
  shows "digit_char d \<noteq> c"
proof
  assume "digit_char d = c"
  then have "(of_char c :: nat) = 48 + d" using of_char_digit assms(1) by blast
  with assms show False by simp
qed

lemma set_nat_digits: "c \<in> set (nat_digits n) \<Longrightarrow> \<exists>d < 10. c = digit_char d"
proof (induction n rule: nat_digits.induct)
  case (1 n)
  show ?case
  proof (cases "n < 10")
    case True
    with 1(2) show ?thesis by (subst (asm) nat_digits.simps) auto
  next
    case False
    then have "c \<in> set (nat_digits (n div 10)) \<or> c = digit_char (n mod 10)"
      using 1(2) by (subst (asm) nat_digits.simps) auto
    then show ?thesis
    proof
      assume "c = digit_char (n mod 10)"
      moreover have "n mod 10 < 10" by simp
      ultimately show ?thesis by blast
    qed (rule 1(1) [OF False])
  qed
qed

lemma nat_digits_no:
  "\<not> (48 \<le> (of_char c :: nat) \<and> (of_char c :: nat) \<le> 57) \<Longrightarrow> c \<notin> set (nat_digits n)"
  using set_nat_digits digit_char_neq by blast

lemma nat_digits_nonempty [simp]: "nat_digits n \<noteq> []"
  by (subst nat_digits.simps) simp

lemma to_string_no:
  assumes "\<not> (48 \<le> (of_char c :: nat) \<and> (of_char c :: nat) \<le> 57)" and "c \<noteq> CHR ''-''"
  shows "c \<notin> set (to_string i)"
  using assms nat_digits_no by (simp add: to_string_def)

lemma to_string_no_delim [simp]:
  "CHR ''|'' \<notin> set (to_string i)" "CHR '','' \<notin> set (to_string i)" "CHR '':'' \<notin> set (to_string i)"
  by (rule to_string_no; simp)+

lemma read_digits_append:
  "(\<forall>c \<in> set ds. digit_val c \<noteq> None) \<Longrightarrow> read_digits acc (ds @ cs) = read_digits (read_digits acc ds) cs"
  by (induction ds arbitrary: acc) auto

lemma digits_all: "\<forall>c \<in> set (nat_digits n). digit_val c \<noteq> None"
  using set_nat_digits by fastforce

lemma read_nat_digits_acc: "read_digits 0 (nat_digits n) = n"
proof (induction n rule: nat_digits.induct)
  case (1 n)
  show ?case
  proof (cases "n < 10")
    case True
    then show ?thesis by (subst nat_digits.simps) simp
  next
    case False
    then have "read_digits 0 (nat_digits n) = read_digits (n div 10) [digit_char (n mod 10)]"
      using 1 digits_all [of "n div 10"] by (subst nat_digits.simps) (simp add: read_digits_append)
    then show ?thesis by simp
  qed
qed

lemma stoi_unsigned_digits: "stoi_unsigned (nat_digits n) = Some n"
proof -
  obtain c cs where "nat_digits n = c # cs" by (cases "nat_digits n") auto
  moreover from this have "digit_val c \<noteq> None" using digits_all [of n] by simp
  ultimately show ?thesis
    using read_nat_digits_acc [of n] by (simp add: stoi_unsigned_def)
qed

lemma nat_digits_head:
  assumes "nat_digits n = c # cs"
  shows "\<not> is_space_char c" and "c \<noteq> CHR ''-''" and "c \<noteq> CHR ''+''"
proof -
  have "48 \<le> (of_char c :: nat) \<and> (of_char c :: nat) \<le> 57"
    using nat_digits_no [of c n] assms by auto
  then show "\<not> is_space_char c" "c \<noteq> CHR ''-''" "c \<noteq> CHR ''+''"
    by (auto simp: is_space_char_def)
qed

lemma stoi_to_string:
  assumes "in_i32 i"
  shows "stoi (to_string i) = Some i"
proof -
  obtain c cs where ds: "nat_digits (nat \<bar>i\<bar>) = c # cs" by (cases "nat_digits (nat \<bar>i\<bar>)") auto
  have hd: "\<not> is_space_char c" "c \<noteq> CHR ''-''" "c \<noteq> CHR ''+''"
    using nat_digits_head [OF ds] by blast+
  have val: "stoi_unsigned (c # cs) = Some (nat \<bar>i\<bar>)"
    using stoi_unsigned_digits [of "nat \<bar>i\<bar>"] ds by simp
  show ?thesis
  proof (cases "i < 0")
    case True
    then have "to_string i = CHR ''-'' # c # cs" using ds by (simp add: to_string_def)
    moreover have "\<not> is_space_char CHR ''-''" by (simp add: is_space_char_def)
    ultimately show ?thesis using val True assms by (simp add: stoi_def Let_def)
  next
    case False
    then have "to_string i = c # cs" using ds by (simp add: to_string_def)
    then show ?thesis using val hd False assms by (simp add: stoi_def Let_def)
  qed
qed

lemma to_string_inj: "to_string i = to_string j \<Longrightarrow> i = j"
proof -
  have dec: "i = (case to_string i of c # r \<Rightarrow> if c = CHR ''-'' then - int (read_digits 0 r)
      else int (read_digits 0 (to_string i)) | [] \<Rightarrow> 0)" for i
  proof -
    obtain c cs where ds: "nat_digits (nat i) = c # cs" by (cases "nat_digits (nat i)") auto
    then show ?thesis
      using nat_digits_head(2) [OF ds] read_nat_digits_acc [of "nat i"] read_nat_digits_acc [of "nat (- i)"]
      by (cases "i < 0") (auto simp: to_string_def)
  qed
  assume eq: "to_string i = to_string j"
  have "i = (case to_string i of c # r \<Rightarrow> if c = CHR ''-'' then - int (read_digits 0 r)
      else int (read_digits 0 (to_string i)) | [] \<Rightarrow> 0)"
    by (rule dec)
  also have "\<dots> = j"
    unfolding eq by (rule dec [symmetric])
  finally show "i = j" .
qed

section \<open>Hexadecimal\<close>

definition hex_char :: "nat \<Rightarrow> char" where
  "hex_char d = (if d < 10 then char_of (48 + d) else char_of (87 + d))"

definition toHex :: "bytes \<Rightarrow> string" where
  "toHex v = concat (map (\<lambda>b. [hex_char (unat b div 16), hex_char (unat b mod 16)]) v)"

definition hex_val :: "char \<Rightarrow> nat option" where
  "hex_val c = (let v = (of_char c :: nat) in
     if 48 \<le> v \<and> v \<le> 57 then Some (v - 48)
     else if 97 \<le> v \<and> v \<le> 102 then Some (v - 87)
     else if 65 \<le> v \<and> v \<le> 70 then Some (v - 55) else None)"

fun read_hex :: "nat \<Rightarrow> string \<Rightarrow> nat" where
  "read_hex acc [] = acc"
| "read_hex acc (c # cs) =
     (case hex_val c of Some d \<Rightarrow> read_hex (acc * 16 + d) cs | None \<Rightarrow> acc)"

text \<open>
  \<open>std::stoi(s, nullptr, 16)\<close> on the two-character substrings \<open>fromHex\<close> takes; on two
  characters an \<open>0x\<close> prefix leaves no digit after it and reads as 0.
\<close>

definition stoi16 :: "string \<Rightarrow> int option" where
  "stoi16 s =
     (let t = dropWhile is_space_char s;
          (neg, u) = (case t of
             c # r \<Rightarrow> if c = CHR ''-'' then (True, r) else if c = CHR ''+'' then (False, r) else (False, t)
           | [] \<Rightarrow> (False, []))
      in case u of
           [] \<Rightarrow> None
         | c # _ \<Rightarrow> if hex_val c = None then None
                   else Some (if neg then - int (read_hex 0 u) else int (read_hex 0 u)))"

fun fromHex :: "string \<Rightarrow> bytes option" where
  "fromHex (a # b # r) =
     (case stoi16 [a, b] of None \<Rightarrow> None
      | Some v \<Rightarrow> map_option (Cons (word_of_int v)) (fromHex r))"
| "fromHex _ = Some []"

lemma of_char_hex:
  "d < 16 \<Longrightarrow> (of_char (hex_char d) :: nat) = (if d < 10 then 48 + d else 87 + d)"
  unfolding hex_char_def by (simp add: of_char_of)

lemma hex_val_char [simp]: "d < 16 \<Longrightarrow> hex_val (hex_char d) = Some d"
  by (simp add: hex_val_def of_char_hex Let_def)

lemma hex_char_plain:
  assumes "d < 16"
  shows "\<not> is_space_char (hex_char d)" "hex_char d \<noteq> CHR ''-''" "hex_char d \<noteq> CHR ''+''"
    "hex_char d \<noteq> CHR ''|''" "hex_char d \<noteq> CHR '',''" "hex_char d \<noteq> CHR '':''" "hex_char d \<noteq> CHR '';''"
proof -
  have "(of_char (hex_char d) :: nat) = (if d < 10 then 48 + d else 87 + d)"
    using assms by (rule of_char_hex)
  then have n: "48 \<le> (of_char (hex_char d) :: nat)" "(of_char (hex_char d) :: nat) \<le> 102"
    "(of_char (hex_char d) :: nat) \<noteq> 58" "(of_char (hex_char d) :: nat) \<noteq> 59"
    using assms by auto
  have "hex_char d \<noteq> c" if "(of_char c :: nat) < 48 \<or> 102 < (of_char c :: nat) \<or> (of_char c :: nat) \<in> {58, 59}" for c
    using that n by auto
  then show "hex_char d \<noteq> CHR ''-''" "hex_char d \<noteq> CHR ''+''" "hex_char d \<noteq> CHR ''|''"
    "hex_char d \<noteq> CHR '',''" "hex_char d \<noteq> CHR '':''" "hex_char d \<noteq> CHR '';''"
    by (simp_all)
  show "\<not> is_space_char (hex_char d)" using n by (auto simp: is_space_char_def)
qed

lemma stoi16_pair:
  assumes "a < 16" and "b < 16"
  shows "stoi16 [hex_char a, hex_char b] = Some (int (a * 16 + b))"
  using assms hex_char_plain [OF assms(1)] hex_char_plain [OF assms(2)]
  by (simp add: stoi16_def)

lemma unat_div16: "unat (b :: byte) div 16 < 16"
  using unat_byte_less [of b] by simp

lemma fromHex_toHex: "fromHex (toHex v) = Some v"
proof (induction v)
  case (Cons b v)
  have "stoi16 [hex_char (unat b div 16), hex_char (unat b mod 16)] = Some (int (unat b))"
    using stoi16_pair [OF unat_div16, of "unat b mod 16" b] by simp
  moreover have "word_of_int (int (unat b)) = b" by simp
  ultimately show ?case using Cons by (simp add: toHex_def)
qed (simp add: toHex_def)

lemma toHex_no_delim [simp]:
  "CHR ''|'' \<notin> set (toHex v)" "CHR '','' \<notin> set (toHex v)" "CHR '':'' \<notin> set (toHex v)" "CHR '';'' \<notin> set (toHex v)"
proof -
  have d: "unat b mod 16 < 16" for b :: byte by simp
  show "CHR ''|'' \<notin> set (toHex v)" "CHR '','' \<notin> set (toHex v)" "CHR '':'' \<notin> set (toHex v)" "CHR '';'' \<notin> set (toHex v)"
    using hex_char_plain(4-7) [OF unat_div16] hex_char_plain(4-7) [OF d] by (auto simp: toHex_def) metis+
qed

lemma length_toHex: "length (toHex v) = 2 * length v"
  by (induction v) (simp_all add: toHex_def)

lemma toHex_inj: "toHex v = toHex w \<Longrightarrow> v = w"
  by (metis fromHex_toHex option.inject)

section \<open>Text as bytes\<close>

definition to_bytes :: "string \<Rightarrow> bytes" where
  "to_bytes s = map (\<lambda>c. of_nat (of_char c)) s"

definition of_bytes :: "bytes \<Rightarrow> string" where
  "of_bytes bs = map (\<lambda>b. char_of (unat b)) bs"

lemma of_to_bytes [simp]: "of_bytes (to_bytes s) = s"
  by (simp add: of_bytes_def to_bytes_def o_def unat_of_nat)

lemma of_bytes_append [simp]: "of_bytes (a @ b) = of_bytes a @ of_bytes b"
  by (simp add: of_bytes_def)

lemma length_of_bytes [simp]: "length (of_bytes bs) = length bs"
  by (simp add: of_bytes_def)

lemma length_to_bytes [simp]: "length (to_bytes s) = length s"
  by (simp add: to_bytes_def)

text \<open>Code equations over binary integers, for evaluation.\<close>

definition hex_digit :: "int \<Rightarrow> char" where
  "hex_digit d = (if d < 10 then char_of (48 + d) else char_of (87 + d))"

lemma hex_digit_table [code]:
  "hex_digit d = (if d = 0 then CHR ''0'' else if d = 1 then CHR ''1'' else if d = 2 then CHR ''2'' else if d = 3 then CHR ''3'' else 
      if d = 4 then CHR ''4'' else if d = 5 then CHR ''5'' else if d = 6 then CHR ''6'' else if d = 7 then CHR ''7'' else 
      if d = 8 then CHR ''8'' else if d = 9 then CHR ''9'' else if d = 10 then CHR ''a'' else if d = 11 then CHR ''b'' else 
      if d = 12 then CHR ''c'' else if d = 13 then CHR ''d'' else if d = 14 then CHR ''e'' else if d = 15 then CHR ''f'' else 
      if d < 10 then char_of (48 + d) else char_of (87 + d))"
  by (auto simp: hex_digit_def char_of_def)

lemma digit_char_table [code]:
  "digit_char d = (if d < 10 then hex_digit (int d) else char_of (48 + d))"
proof (cases "d < 10")
  case True
  then have "digit_char d = char_of (48 + d)" "hex_digit (int d) = char_of (int (48 + d))"
    by (simp_all only: digit_char_def hex_digit_def if_True of_nat_add of_nat_numeral of_nat_less_numeral_iff)
  then show ?thesis using True by (simp only: char_of_nat if_True)
qed (simp add: digit_char_def)

lemma hex_char_int: "hex_char d = hex_digit (int d)"
proof (cases "d < 10")
  case True
  then have "hex_char d = char_of (48 + d)" "hex_digit (int d) = char_of (int (48 + d))"
    by (simp_all only: hex_char_def hex_digit_def if_True of_nat_add of_nat_numeral of_nat_less_numeral_iff)
  then show ?thesis by (simp only: char_of_nat)
next
  case False
  then have "hex_char d = char_of (87 + d)" "hex_digit (int d) = char_of (int (87 + d))"
    by (simp_all only: hex_char_def hex_digit_def if_False of_nat_add of_nat_numeral of_nat_less_numeral_iff)
  then show ?thesis by (simp only: char_of_nat)
qed

lemma toHex_code [code]:
  "toHex v = concat (map (\<lambda>b. [hex_digit (uint b div 16), hex_digit (uint b mod 16)]) v)"
  by (simp only: toHex_def hex_char_int zdiv_int zmod_int of_nat_numeral uint_nat)

lemma to_bytes_code [code]: "to_bytes s = map (\<lambda>c. word_of_int (of_char c)) s"
proof -
  have "(of_nat (of_char c) :: byte) = word_of_int (of_char c)" for c
    by (simp only: of_nat_of_char of_int_of_char)
  then show ?thesis by (simp only: to_bytes_def)
qed

lemma of_bytes_code [code]: "of_bytes bs = map (\<lambda>b. char_of (uint b)) bs"
  by (simp only: of_bytes_def uint_nat char_of_nat)

end
