(* ===== verification/AppUtil.thy ===== *)
theory AppUtil
  imports TextCodec "HOL-Library.Signed_Division"
begin

text \<open>
  Enumerations and small helpers of the vehicle application: directions and observed cues
  with their codes and letters (\<^verbatim>\<open>ResDBUtil.cc\<close>, \<^verbatim>\<open>ResDBPerception.cc\<close>), the replica number of
  a vehicle name (\<^verbatim>\<open>ResDBTraCI.cc\<close>), and the text scanning the decoders share.
\<close>

section \<open>Directions and cues\<close>

datatype Direction = DIR_STRAIGHT | DIR_LEFT | DIR_RIGHT | DIR_UNKNOWN

datatype ObservedCue = CUE_STRAIGHT | CUE_LEFT | CUE_RIGHT | CUE_UNKNOWN

fun dirToStr :: "Direction \<Rightarrow> string" where
  "dirToStr DIR_LEFT = ''L''"
| "dirToStr DIR_RIGHT = ''R''"
| "dirToStr DIR_UNKNOWN = ''U''"
| "dirToStr DIR_STRAIGHT = ''S''"

definition strToDir :: "string \<Rightarrow> Direction" where
  "strToDir s = (if s = ''L'' then DIR_LEFT else if s = ''R'' then DIR_RIGHT
     else if s = ''U'' then DIR_UNKNOWN else DIR_STRAIGHT)"

definition phaseToStr :: "int \<Rightarrow> string" where
  "phaseToStr p = (if p = 0 then ''IDLE'' else if p = 1 then ''COLLECTING_CERTS''
     else if p = 2 then ''WAITING_FOR_CLEARANCE'' else if p = 3 then ''PULLING_FORWARD''
     else if p = 4 then ''EXECUTING'' else if p = 5 then ''DEPARTED'' else ''UNKNOWN'')"

definition laneCode :: "string \<Rightarrow> byte" where
  "laneCode lane = (if lane = ''S'' then 1 else if lane = ''E'' then 2 else if lane = ''W'' then 3 else 0)"

fun directionCode :: "Direction \<Rightarrow> byte" where
  "directionCode DIR_LEFT = 1"
| "directionCode DIR_RIGHT = 2"
| "directionCode DIR_UNKNOWN = 3"
| "directionCode DIR_STRAIGHT = 0"

text \<open>The enumerators have the values 0 to 3 in both enumerations.\<close>

fun cue_code :: "ObservedCue \<Rightarrow> int" where
  "cue_code CUE_STRAIGHT = 0"
| "cue_code CUE_LEFT = 1"
| "cue_code CUE_RIGHT = 2"
| "cue_code CUE_UNKNOWN = 3"

definition cueFromCode :: "byte \<Rightarrow> ObservedCue" where
  "cueFromCode code = (if code = 0 then CUE_STRAIGHT else if code = 1 then CUE_LEFT
     else if code = 2 then CUE_RIGHT else CUE_UNKNOWN)"

text \<open>\<open>static_cast<ObservedCue>(direction)\<close>.\<close>

fun cue_of_direction :: "Direction \<Rightarrow> ObservedCue" where
  "cue_of_direction DIR_STRAIGHT = CUE_STRAIGHT"
| "cue_of_direction DIR_LEFT = CUE_LEFT"
| "cue_of_direction DIR_RIGHT = CUE_RIGHT"
| "cue_of_direction DIR_UNKNOWN = CUE_UNKNOWN"

fun cueName :: "ObservedCue \<Rightarrow> string" where
  "cueName CUE_STRAIGHT = ''S''"
| "cueName CUE_LEFT = ''L''"
| "cueName CUE_RIGHT = ''R''"
| "cueName CUE_UNKNOWN = ''UNKNOWN''"

lemma strToDir_dirToStr [simp]: "strToDir (dirToStr d) = d"
  by (cases d) (simp_all add: strToDir_def)

lemma dirToStr_no_delim [simp]:
  "CHR ''|'' \<notin> set (dirToStr d)" "CHR '','' \<notin> set (dirToStr d)" "CHR '':'' \<notin> set (dirToStr d)"
  by (cases d; simp)+

lemma dirToStr_inj: "dirToStr d = dirToStr e \<longleftrightarrow> d = e"
  by (metis strToDir_dirToStr)

lemma cueFromCode_code [simp]: "cueFromCode (word_of_int (cue_code c)) = c"
  by (cases c) (simp_all add: cueFromCode_def)

lemma in_i32_cue [simp]: "in_i32 (cue_code c)"
  by (cases c) (simp_all add: in_i32_def)

lemma cue_code_inj: "cue_code a = cue_code b \<longleftrightarrow> a = b"
  by (cases a; cases b; simp)

lemma cue_of_direction_inj: "cue_of_direction d = cue_of_direction e \<longleftrightarrow> d = e"
  by (cases d; cases e; simp)

definition bool_text :: "bool \<Rightarrow> string" where
  "bool_text b = (if b then ''1'' else ''0'')"

lemma bool_text_simps [simp]:
  "(bool_text b = ''1'') = b" "CHR ''|'' \<notin> set (bool_text b)" "CHR '':'' \<notin> set (bool_text b)"
  by (simp_all add: bool_text_def)

section \<open>Message types\<close>

definition kArrivalAnnounceType :: int where "kArrivalAnnounceType = 1"
definition kArrivalEchoType :: int where "kArrivalEchoType = 4"
definition kArrivalCertType :: int where "kArrivalCertType = 5"

section \<open>Scanning\<close>

text \<open>The text before and after the first delimiter (\<open>find\<close> and two \<open>substr\<close>).\<close>

fun cut_at :: "'a \<Rightarrow> 'a list \<Rightarrow> ('a list \<times> 'a list) option" where
  "cut_at delim [] = None"
| "cut_at delim (c # cs) =
     (if c = delim then Some ([], cs) else map_option (\<lambda>(p, r). (c # p, r)) (cut_at delim cs))"

lemma cut_at_delim [simp]: "delim \<notin> set p \<Longrightarrow> cut_at delim (p @ delim # r) = Some (p, r)"
  by (induction p) auto

lemma cut_at_None: "cut_at delim s = None \<longleftrightarrow> delim \<notin> set s"
  by (induction s) auto

lemma cut_at_Some: "cut_at delim s = Some (p, r) \<Longrightarrow> s = p @ delim # r \<and> delim \<notin> set p"
  by (induction s arbitrary: p) (auto split: if_split_asm)

text \<open>
  The three fields of an authenticator, \<open>key,length,signature\<close>: the first and second comma;
  further commas belong to the third field.
\<close>

definition cut_two :: "'a \<Rightarrow> 'a list \<Rightarrow> ('a list \<times> 'a list \<times> 'a list) option" where
  "cut_two delim s =
     (case cut_at delim s of None \<Rightarrow> None
      | Some (a, r) \<Rightarrow> (case cut_at delim r of None \<Rightarrow> None | Some (b, c) \<Rightarrow> Some (a, b, c)))"

lemma cut_two_delim [simp]:
  "delim \<notin> set a \<Longrightarrow> delim \<notin> set b \<Longrightarrow> cut_two delim (a @ delim # b @ delim # c) = Some (a, b, c)"
  by (simp add: cut_two_def)

text \<open>What follows the \<open>n\<close>-th delimiter, the empty text when there are fewer.\<close>

fun after_nth :: "nat \<Rightarrow> 'a \<Rightarrow> 'a list \<Rightarrow> 'a list" where
  "after_nth 0 delim s = s"
| "after_nth (Suc n) delim s = (case cut_at delim s of None \<Rightarrow> [] | Some (_, r) \<Rightarrow> after_nth n delim r)"

fun delimited :: "'a \<Rightarrow> 'a list list \<Rightarrow> 'a list \<Rightarrow> 'a list" where
  "delimited delim [] r = r"
| "delimited delim (p # ps) r = p @ delim # delimited delim ps r"

lemma splitStr_delimited:
  "\<forall>p \<in> set ps. delim \<notin> set p \<Longrightarrow> splitStr (delimited delim ps r) delim = ps @ splitStr r delim"
  by (induction ps) (simp_all add: splitStr_delim)

lemma after_nth_delimited:
  "\<forall>p \<in> set ps. delim \<notin> set p \<Longrightarrow> n = length ps \<Longrightarrow> after_nth n delim (delimited delim ps r) = r"
  by (induction ps arbitrary: n) simp_all

text \<open>\<open>std::stol\<close> on a 64-bit \<open>long\<close>, and its narrowing to \<open>int32_t\<close>.\<close>

definition stol_unchecked :: "string \<Rightarrow> int option" where
  "stol_unchecked s =
     (let t = dropWhile is_space_char s;
          (neg, u) = (case t of
             c # r \<Rightarrow> if c = CHR ''-'' then (True, r) else if c = CHR ''+'' then (False, r) else (False, t)
           | [] \<Rightarrow> (False, []))
      in map_option (\<lambda>n. if neg then - int n else int n) (stoi_unsigned u))"

definition stol32 :: "string \<Rightarrow> int option" where
  "stol32 s = (case stol_unchecked s of None \<Rightarrow> None
     | Some v \<Rightarrow> if - (2 ^ 63) \<le> v \<and> v < 2 ^ 63 then Some (sint (word_of_int v :: u32)) else None)"

lemma stoi_checked: "stoi s = (case stol_unchecked s of None \<Rightarrow> None | Some v \<Rightarrow> if in_i32 v then Some v else None)"
  by (auto simp: stoi_def stol_unchecked_def Let_def split: option.split prod.split list.split)

lemma stol32_to_string [simp]: "in_i32 i \<Longrightarrow> stol32 (to_string i) = Some i"
proof -
  assume i: "in_i32 i"
  then have "stol_unchecked (to_string i) = Some i"
    using stoi_to_string [OF i] by (simp add: stoi_checked split: option.split_asm if_split_asm)
  then show ?thesis
    using i sint_word_of_int_i32 [OF i] by (simp add: stol32_def in_i32_def)
qed

declare stoi_to_string [simp]

lemma stol32_range: "stol32 s = Some v \<Longrightarrow> in_i32 v"
  by (auto simp: stol32_def in_i32_sint split: option.split_asm if_split_asm)

lemma stoi_range: "stoi s = Some v \<Longrightarrow> in_i32 v"
  by (auto simp: stoi_checked split: option.split_asm if_split_asm)

section \<open>Vehicle names\<close>

definition extractReplicaId :: "string \<Rightarrow> int" where
  "extractReplicaId carId =
     (if length carId < 3 then - 1
      else case stoi (drop 3 carId) of Some v \<Rightarrow> v | None \<Rightarrow> - 1)"

definition veh :: "int \<Rightarrow> string" where
  "veh r = ''veh'' @ to_string r"

lemma extractReplicaId_veh [simp]: "in_i32 r \<Longrightarrow> extractReplicaId (veh r) = r"
  by (simp add: extractReplicaId_def veh_def)

lemma veh_plain [simp]: "CHR ''|'' \<notin> set (veh r)" "CHR '':'' \<notin> set (veh r)" "veh r \<noteq> []"
  by (simp_all add: veh_def)

section \<open>The certificate threshold\<close>

text \<open>
  \<open>(tolerated_faults_ >= 0 ? tolerated_faults_ : (total_vehicles_ - 1) / 3)\<close>, with the
  truncating division of C++.
\<close>

definition fault_bound :: "int \<Rightarrow> int \<Rightarrow> int" where
  "fault_bound tolerated_faults total_vehicles =
     (if tolerated_faults \<ge> 0 then tolerated_faults else (total_vehicles - 1) sdiv 3)"

lemma fault_bound_nonneg: "1 \<le> n \<Longrightarrow> 0 \<le> fault_bound t n"
  by (simp add: fault_bound_def signed_divide_int_def sgn_if)

end
