(* ===== verification/V2VWire.thy ===== *)
theory V2VWire
  imports Prelude
begin

text \<open>
  The signed packet of \<^verbatim>\<open>v2vbft/app/ResdbV2VWire.h\<close>: compressed public key, length of the
  signature, signature and payload. The signing key operation of \<open>CryptoAuth\<close> is a parameter:
  it returns the signature bytes, or \<open>None\<close> on failure.
\<close>

definition CRYPTO_PUBKEY_BYTES :: nat where
  "CRYPTO_PUBKEY_BYTES = 33"

definition CRYPTO_SIG_MAX_BYTES :: nat where
  "CRYPTO_SIG_MAX_BYTES = 72"

record SignedPacketView =
  sp_pubKey :: bytes
  sp_sig :: bytes
  sp_resdbBytes :: bytes

definition unpackSignedPacket :: "bytes \<Rightarrow> SignedPacketView option" where
  "unpackSignedPacket data =
     (if length data < CRYPTO_PUBKEY_BYTES + 1 then None
      else let sigLen = unat (data ! CRYPTO_PUBKEY_BYTES) in
        if sigLen = 0 \<or> sigLen > CRYPTO_SIG_MAX_BYTES then None
        else let headerLen = CRYPTO_PUBKEY_BYTES + 1 + sigLen in
          if length data < headerLen then None
          else Some \<lparr>sp_pubKey = take CRYPTO_PUBKEY_BYTES data,
                 sp_sig = take sigLen (drop (CRYPTO_PUBKEY_BYTES + 1) data),
                 sp_resdbBytes = drop headerLen data\<rparr>)"

text \<open>An empty result is the failure the callers test for.\<close>

definition packSignedPacket :: "(bytes \<Rightarrow> bytes option) \<Rightarrow> bytes \<Rightarrow> bytes \<Rightarrow> bytes" where
  "packSignedPacket sign pubKey resdbBytes =
     (if resdbBytes = [] then []
      else case sign resdbBytes of
        None \<Rightarrow> []
      | Some sig \<Rightarrow> pubKey @ [of_nat (length sig)] @ sig @ resdbBytes)"

lemma unpack_packed:
  assumes "length pubKey = CRYPTO_PUBKEY_BYTES" and "0 < length sig" and "length sig \<le> CRYPTO_SIG_MAX_BYTES"
  shows "unpackSignedPacket (pubKey @ [of_nat (length sig)] @ sig @ r) =
    Some \<lparr>sp_pubKey = pubKey, sp_sig = sig, sp_resdbBytes = r\<rparr>"
proof -
  have "unat (of_nat (length sig) :: byte) = length sig"
    using assms(3) by (simp add: unat_of_nat CRYPTO_SIG_MAX_BYTES_def)
  then show ?thesis
    using assms by (simp add: unpackSignedPacket_def nth_append CRYPTO_PUBKEY_BYTES_def Let_def)
qed

lemma unpack_sound:
  assumes "unpackSignedPacket data = Some v"
  shows "data = sp_pubKey v @ [of_nat (length (sp_sig v))] @ sp_sig v @ sp_resdbBytes v"
    and "length (sp_pubKey v) = CRYPTO_PUBKEY_BYTES"
    and "0 < length (sp_sig v)" and "length (sp_sig v) \<le> CRYPTO_SIG_MAX_BYTES"
proof -
  define n where "n = unat (data ! CRYPTO_PUBKEY_BYTES)"
  have len: "CRYPTO_PUBKEY_BYTES + 1 + n \<le> length data" and n: "0 < n" "n \<le> CRYPTO_SIG_MAX_BYTES"
    and v: "v = \<lparr>sp_pubKey = take CRYPTO_PUBKEY_BYTES data,
        sp_sig = take n (drop (CRYPTO_PUBKEY_BYTES + 1) data),
        sp_resdbBytes = drop (CRYPTO_PUBKEY_BYTES + 1 + n) data\<rparr>"
    using assms by (auto simp: unpackSignedPacket_def Let_def n_def not_less split: if_split_asm)
  have "length (sp_sig v) = n" using len v by simp
  moreover have "data = take CRYPTO_PUBKEY_BYTES data @ data ! CRYPTO_PUBKEY_BYTES #
      drop (CRYPTO_PUBKEY_BYTES + 1) data"
    using len by (simp add: id_take_nth_drop)
  moreover have "drop (CRYPTO_PUBKEY_BYTES + 1) data = sp_sig v @ sp_resdbBytes v"
    by (simp add: v) (metis add.commute add_Suc_right append_take_drop_id drop_drop)
  moreover have "of_nat n = data ! CRYPTO_PUBKEY_BYTES"
    by (simp add: n_def)
  ultimately show "data = sp_pubKey v @ [of_nat (length (sp_sig v))] @ sp_sig v @ sp_resdbBytes v"
    by (simp add: v)
  show "length (sp_pubKey v) = CRYPTO_PUBKEY_BYTES" "0 < length (sp_sig v)"
    "length (sp_sig v) \<le> CRYPTO_SIG_MAX_BYTES"
    using len n by (simp_all add: v)
qed

text \<open>
  Packing and unpacking are inverse. A signed packet unpacks to the sender's key, the
  signature over exactly the payload bytes and the payload; and whatever unpacks is byte
  for byte such a packet, so no two different packets unpack to the same view.
\<close>

theorem signed_packet_roundtrip:
  assumes "length pubKey = CRYPTO_PUBKEY_BYTES" and "sign resdb = Some sig"
    and "0 < length sig" and "length sig \<le> CRYPTO_SIG_MAX_BYTES" and "resdb \<noteq> []"
  shows "unpackSignedPacket (packSignedPacket sign pubKey resdb) =
           Some \<lparr>sp_pubKey = pubKey, sp_sig = sig, sp_resdbBytes = resdb\<rparr> \<and>
         (\<forall>data v. unpackSignedPacket data = Some v \<and> sp_resdbBytes v = resdb \<and> sp_sig v = sig \<and>
            sp_pubKey v = pubKey \<longrightarrow> data = packSignedPacket sign pubKey resdb)"
  using assms unpack_packed [OF assms(1,3,4)] unpack_sound(1)
  by (auto simp: packSignedPacket_def)

theorem signed_packet_roundtrip_witness:
  "unpackSignedPacket (packSignedPacket (\<lambda>m. Some [1, 2, 3]) (replicate 33 7) [9, 9]) =
     Some \<lparr>sp_pubKey = replicate 33 7, sp_sig = [1, 2, 3], sp_resdbBytes = [9, 9]\<rparr>"
  using signed_packet_roundtrip [of "replicate 33 7" "\<lambda>m. Some [1, 2, 3]" "[9, 9]" "[1, 2, 3]"]
  by (simp add: CRYPTO_PUBKEY_BYTES_def CRYPTO_SIG_MAX_BYTES_def)

end
