(* ===== verification/ArrivalCodec.thy ===== *)
theory ArrivalCodec
  imports AppUtil V2VWire
begin

text \<open>
  The arrival messages of \<^verbatim>\<open>v2vbft/app/ResDBArrivalProtocol.cc\<close>: announcements, echoes and
  certificates with their textual wire format. A decoder returns \<open>None\<close> where the C++ code
  leaves with an exception of \<open>std::stoi\<close>, \<open>std::stol\<close> or \<open>std::stod\<close> (or builds a vector from
  a reversed range). The claimed arrival time is a \<open>double\<close>; its type is a parameter
  \<open>'d\<close>, its printing with 17 digits and \<open>std::stod\<close> are the parameters \<open>print_d\<close>, \<open>read_d\<close>.
\<close>

section \<open>Messages\<close>

record 'd ArrivalAnnouncement =
  an_carId :: string
  an_laneId :: string
  an_lane :: string
  an_positionInLane :: int
  an_physicalLaneIndex :: int
  an_lateralClaimCm :: int
  an_direction :: Direction
  an_isAmbulance :: bool
  an_claimedArrivalTime :: 'd
  an_epoch :: int
  an_ambulanceCertBytes :: bytes
  an_ambulanceSigBytes :: bytes
  an_signature :: bytes

record ArrivalEcho =
  ae_echoingReplicaId :: int
  ae_targetCarId :: string
  ae_lane :: string
  ae_positionInLane :: int
  ae_physicalLaneIndex :: int
  ae_lateralClaimCm :: int
  ae_direction :: Direction
  ae_observedCue :: ObservedCue
  ae_claimHash :: bytes
  ae_isAmbulance :: bool
  ae_epoch :: int
  ae_signerPubKey :: bytes
  ae_signature :: bytes
  ae_signatureLen :: byte

record ArrivalCert =
  ac_carId :: string
  ac_lane :: string
  ac_positionInLane :: int
  ac_physicalLaneIndex :: int
  ac_lateralClaimCm :: int
  ac_direction :: Direction
  ac_claimHash :: bytes
  ac_isAmbulance :: bool
  ac_epoch :: int
  ac_echoes :: "ArrivalEcho list"

definition empty_announcement :: "'d \<Rightarrow> 'd ArrivalAnnouncement" where
  "empty_announcement zero = \<lparr>an_carId = [], an_laneId = [], an_lane = [], an_positionInLane = 1,
     an_physicalLaneIndex = 0, an_lateralClaimCm = 0, an_direction = DIR_STRAIGHT,
     an_isAmbulance = False, an_claimedArrivalTime = zero, an_epoch = 0, an_ambulanceCertBytes = [],
     an_ambulanceSigBytes = [], an_signature = []\<rparr>"

definition empty_echo :: ArrivalEcho where
  "empty_echo = \<lparr>ae_echoingReplicaId = - 1, ae_targetCarId = [], ae_lane = [], ae_positionInLane = 1,
     ae_physicalLaneIndex = 0, ae_lateralClaimCm = 0, ae_direction = DIR_STRAIGHT,
     ae_observedCue = CUE_UNKNOWN, ae_claimHash = replicate 32 0, ae_isAmbulance = False,
     ae_epoch = 0, ae_signerPubKey = replicate CRYPTO_PUBKEY_BYTES 0,
     ae_signature = replicate CRYPTO_SIG_MAX_BYTES 0, ae_signatureLen = 0\<rparr>"

definition empty_cert :: ArrivalCert where
  "empty_cert = \<lparr>ac_carId = [], ac_lane = [], ac_positionInLane = 1, ac_physicalLaneIndex = 0,
     ac_lateralClaimCm = 0, ac_direction = DIR_STRAIGHT, ac_claimHash = replicate 32 0,
     ac_isAmbulance = False, ac_epoch = 0, ac_echoes = []\<rparr>"

section \<open>Announcements\<close>

text \<open>\<open>resize\<close> of a byte vector, filled with zeros.\<close>

definition resize :: "nat \<Rightarrow> bytes \<Rightarrow> bytes" where
  "resize n bs = take n bs @ replicate (n - length bs) 0"

definition announcement_fields :: "('d \<Rightarrow> string) \<Rightarrow> 'd ArrivalAnnouncement \<Rightarrow> string list" where
  "announcement_fields print_d ann =
     [an_carId ann, an_laneId ann, an_lane ann, to_string (an_physicalLaneIndex ann),
      to_string (an_lateralClaimCm ann), to_string (an_positionInLane ann),
      dirToStr (an_direction ann), bool_text (an_isAmbulance ann),
      print_d (an_claimedArrivalTime ann), to_string (an_epoch ann),
      toHex (an_ambulanceCertBytes ann), toHex (an_ambulanceSigBytes ann),
      to_string (int (length (an_signature ann)))]"

definition serializeArrivalAnnouncement :: "('d \<Rightarrow> string) \<Rightarrow> 'd ArrivalAnnouncement \<Rightarrow> bytes" where
  "serializeArrivalAnnouncement print_d ann =
     (let hdr = to_bytes (delimited CHR ''|'' (announcement_fields print_d ann) [])
      in resize (length hdr + CRYPTO_SIG_MAX_BYTES) (hdr @ an_signature ann))"

text \<open>
  The signature is taken from the offset after the 13th bar. The sum of the offset and the
  parsed length is one of \<open>size_t\<close>: a negative length that passes the bound check there makes
  a reversed range.
\<close>

definition take_signature :: "bytes \<Rightarrow> nat \<Rightarrow> int \<Rightarrow> bytes option" where
  "take_signature payload offset siglen =
     (if offset < length payload \<and> (int offset + siglen) mod 2 ^ 64 \<le> int (length payload)
      then if siglen < 0 then None else Some (take (nat siglen) (drop offset payload))
      else Some [])"

definition deserializeArrivalAnnouncement ::
  "'d \<Rightarrow> (string \<Rightarrow> 'd option) \<Rightarrow> bytes \<Rightarrow> 'd ArrivalAnnouncement option" where
  "deserializeArrivalAnnouncement zero read_d payload =
     (let s = of_bytes payload; parts = splitStr s CHR ''|'' in
      if length parts < 13 then Some (empty_announcement zero)
      else case stoi (parts ! 3) of None \<Rightarrow> None | Some physicalLaneIndex \<Rightarrow>
        (case stol32 (parts ! 4) of None \<Rightarrow> None | Some lateralClaimCm \<Rightarrow>
        (case stoi (parts ! 5) of None \<Rightarrow> None | Some positionInLane \<Rightarrow>
        (case read_d (parts ! 8) of None \<Rightarrow> None | Some claimedArrivalTime \<Rightarrow>
        (case stoi (parts ! 9) of None \<Rightarrow> None | Some epoch \<Rightarrow>
        (case fromHex (parts ! 10) of None \<Rightarrow> None | Some certBytes \<Rightarrow>
        (case fromHex (parts ! 11) of None \<Rightarrow> None | Some sigBytes \<Rightarrow>
        (case stoi (parts ! 12) of None \<Rightarrow> None | Some siglen \<Rightarrow>
        (case take_signature payload (length s - length (after_nth 13 CHR ''|'' s)) siglen of
           None \<Rightarrow> None
         | Some signature \<Rightarrow>
             Some \<lparr>an_carId = parts ! 0, an_laneId = parts ! 1, an_lane = parts ! 2,
               an_positionInLane = positionInLane, an_physicalLaneIndex = physicalLaneIndex,
               an_lateralClaimCm = lateralClaimCm, an_direction = strToDir (parts ! 6),
               an_isAmbulance = (parts ! 7 = ''1''), an_claimedArrivalTime = claimedArrivalTime,
               an_epoch = epoch, an_ambulanceCertBytes = certBytes,
               an_ambulanceSigBytes = sigBytes, an_signature = signature\<rparr>)))))))))"

definition announcement_wf :: "('d \<Rightarrow> string) \<Rightarrow> 'd ArrivalAnnouncement \<Rightarrow> bool" where
  "announcement_wf print_d ann \<longleftrightarrow>
     CHR ''|'' \<notin> set (an_carId ann) \<and> CHR ''|'' \<notin> set (an_laneId ann) \<and> CHR ''|'' \<notin> set (an_lane ann) \<and>
     CHR ''|'' \<notin> set (print_d (an_claimedArrivalTime ann)) \<and>
     in_i32 (an_physicalLaneIndex ann) \<and> in_i32 (an_lateralClaimCm ann) \<and>
     in_i32 (an_positionInLane ann) \<and> in_i32 (an_epoch ann) \<and>
     length (an_signature ann) \<le> CRYPTO_SIG_MAX_BYTES"

lemma of_bytes_zeros: "of_bytes (replicate n 0) = replicate n (char_of (0::nat))"
  by (simp add: of_bytes_def)

lemma announcement_bytes:
  assumes "announcement_wf print_d ann"
  shows "serializeArrivalAnnouncement print_d ann =
    to_bytes (delimited CHR ''|'' (announcement_fields print_d ann) []) @
    an_signature ann @ replicate (CRYPTO_SIG_MAX_BYTES - length (an_signature ann)) 0"
  using assms by (simp add: serializeArrivalAnnouncement_def resize_def announcement_wf_def Let_def)

lemma delimited_append: "delimited delim ps [] @ r = delimited delim ps r"
  by (induction ps) simp_all

lemma announcement_decoded:
  fixes ann :: "'d ArrivalAnnouncement"
  assumes wf: "announcement_wf print_d ann"
    and time: "read_d (print_d (an_claimedArrivalTime ann)) = Some (an_claimedArrivalTime ann)"
  shows "deserializeArrivalAnnouncement zero read_d (serializeArrivalAnnouncement print_d ann) = Some ann"
proof -
  let ?fs = "announcement_fields print_d ann"
  let ?sig = "an_signature ann"
  let ?pad = "replicate (CRYPTO_SIG_MAX_BYTES - length ?sig) (0 :: byte)"
  let ?hdr = "delimited CHR ''|'' ?fs []"
  define payload where "payload = to_bytes ?hdr @ ?sig @ ?pad"
  have p: "serializeArrivalAnnouncement print_d ann = payload"
    using announcement_bytes [OF wf] by (simp add: payload_def)
  have s: "of_bytes payload = delimited CHR ''|'' ?fs (of_bytes (?sig @ ?pad))"
    by (simp add: payload_def delimited_append)
  have plain: "\<forall>f \<in> set ?fs. CHR ''|'' \<notin> set f"
    using wf by (simp add: announcement_fields_def announcement_wf_def)
  have n: "length ?fs = 13" by (simp add: announcement_fields_def)
  define parts where "parts = splitStr (of_bytes payload) CHR ''|''"
  have split: "parts = ?fs @ splitStr (of_bytes (?sig @ ?pad)) CHR ''|''"
    unfolding parts_def s by (rule splitStr_delimited [OF plain])
  have nth: "\<And>i. i < 13 \<Longrightarrow> parts ! i = ?fs ! i" and len: "\<not> length parts < 13"
    using n by (simp_all add: split nth_append)
  have rest: "after_nth 13 CHR ''|'' (of_bytes payload) = of_bytes (?sig @ ?pad)"
    unfolding s using after_nth_delimited [OF plain] n by simp
  have "length (of_bytes payload) - length (after_nth 13 CHR ''|'' (of_bytes payload)) = length ?hdr"
    unfolding rest by (simp add: payload_def)
  moreover have "length ?sig < 2 ^ 31" "in_i32 (int (length ?sig))"
    using wf by (simp_all add: announcement_wf_def CRYPTO_SIG_MAX_BYTES_def in_i32_def)
  moreover have "take_signature payload (length ?hdr) (int (length ?sig)) = Some ?sig"
  proof -
    have l: "length payload = length ?hdr + CRYPTO_SIG_MAX_BYTES"
      using wf by (simp add: payload_def announcement_wf_def)
    have "(int (length ?hdr) + int (length ?sig)) mod 2 ^ 64 \<le> int (length ?hdr) + int (length ?sig)"
      by (rule zmod_le_nonneg_dividend) simp
    also have "\<dots> \<le> int (length payload)"
      using wf l by (simp add: announcement_wf_def)
    finally show ?thesis
      using l by (simp add: take_signature_def CRYPTO_SIG_MAX_BYTES_def) (simp add: payload_def)
  qed
  ultimately have sig: "take_signature payload (length (of_bytes payload) - length (after_nth 13 CHR ''|'' (of_bytes payload)))
      (int (length ?sig)) = Some ?sig" and i: "in_i32 (int (length ?sig))"
    by simp_all
  have f: "parts ! 0 = an_carId ann" "parts ! 1 = an_laneId ann" "parts ! 2 = an_lane ann"
    "parts ! 3 = to_string (an_physicalLaneIndex ann)" "parts ! 4 = to_string (an_lateralClaimCm ann)"
    "parts ! 5 = to_string (an_positionInLane ann)" "parts ! 6 = dirToStr (an_direction ann)"
    "parts ! 7 = bool_text (an_isAmbulance ann)" "parts ! 8 = print_d (an_claimedArrivalTime ann)"
    "parts ! 9 = to_string (an_epoch ann)" "parts ! 10 = toHex (an_ambulanceCertBytes ann)"
    "parts ! 11 = toHex (an_ambulanceSigBytes ann)" "parts ! 12 = to_string (int (length ?sig))"
    by (simp_all add: nth announcement_fields_def)
  have w: "in_i32 (an_physicalLaneIndex ann)" "in_i32 (an_lateralClaimCm ann)"
    "in_i32 (an_positionInLane ann)" "in_i32 (an_epoch ann)"
    using wf by (simp_all add: announcement_wf_def)
  show ?thesis
    unfolding p deserializeArrivalAnnouncement_def Let_def parts_def [symmetric] f
      stoi_to_string [OF w(1)] stol32_to_string [OF w(2)] stoi_to_string [OF w(3)] time
      stoi_to_string [OF w(4)] fromHex_toHex stoi_to_string [OF i] sig option.case
    using len by simp
qed

section \<open>Authenticators\<close>

text \<open>The text \<open>key,length,signature\<close>; ill-formed parts leave the zeroed fields.\<close>

definition auth_text :: "bytes \<Rightarrow> byte \<Rightarrow> bytes \<Rightarrow> string" where
  "auth_text pub sigLen sig = toHex pub @ CHR '','' # to_string (uint sigLen) @ CHR '','' # toHex sig"

definition parse_auth :: "string \<Rightarrow> (bytes \<times> byte \<times> bytes) option" where
  "parse_auth sf =
     (case cut_two CHR '','' sf of
        None \<Rightarrow> Some (replicate CRYPTO_PUBKEY_BYTES 0, 0, replicate CRYPTO_SIG_MAX_BYTES 0)
      | Some (a, b, c) \<Rightarrow>
          (case fromHex a of None \<Rightarrow> None | Some pubVec \<Rightarrow>
          (case stoi b of None \<Rightarrow> None | Some sigLen \<Rightarrow>
          (case fromHex c of None \<Rightarrow> None | Some sigVec \<Rightarrow>
             let pub = (if length pubVec = CRYPTO_PUBKEY_BYTES then pubVec else replicate CRYPTO_PUBKEY_BYTES 0) in
             if 0 < sigLen \<and> sigLen \<le> int CRYPTO_SIG_MAX_BYTES \<and> length sigVec = CRYPTO_SIG_MAX_BYTES
             then Some (pub, word_of_int sigLen, sigVec)
             else Some (pub, 0, replicate CRYPTO_SIG_MAX_BYTES 0)))))"

lemma in_i32_byte: "in_i32 (uint (b :: byte))"
proof -
  have "- (2 ^ 31) \<le> uint b" by (rule order_trans [OF _ uint_ge_0]) simp
  then show ?thesis using uint_bounded [of b] by (simp add: in_i32_def)
qed

lemma parse_auth_text:
  assumes "length pub = CRYPTO_PUBKEY_BYTES" and "length sig = CRYPTO_SIG_MAX_BYTES"
    and "0 < unat sigLen" and "unat sigLen \<le> CRYPTO_SIG_MAX_BYTES"
  shows "parse_auth (auth_text pub sigLen sig) = Some (pub, sigLen, sig)"
proof -
  have c: "cut_two CHR '','' (auth_text pub sigLen sig) = Some (toHex pub, to_string (uint sigLen), toHex sig)"
    by (simp add: auth_text_def)
  have "0 < uint sigLen" "uint sigLen \<le> int CRYPTO_SIG_MAX_BYTES"
    using assms(3,4) by (simp_all only: uint_nat of_nat_0_less_iff of_nat_le_iff)
  then show ?thesis
    unfolding parse_auth_def c using assms by (simp add: fromHex_toHex stoi_to_string [OF in_i32_byte] Let_def)
qed

lemma parse_auth_lengths:
  assumes "parse_auth sf = Some (pub, sigLen, sig)"
  shows "length pub = CRYPTO_PUBKEY_BYTES" and "length sig = CRYPTO_SIG_MAX_BYTES"
    and "unat sigLen \<le> CRYPTO_SIG_MAX_BYTES"
  using assms
  by (auto simp: parse_auth_def Let_def CRYPTO_SIG_MAX_BYTES_def nat_le_iff unsigned_of_int
        take_bit_int_eq_self split: option.split_asm prod.split_asm if_split_asm)

lemma auth_text_plain [simp]:
  "CHR ''|'' \<notin> set (auth_text pub n sig)" "CHR '':'' \<notin> set (auth_text pub n sig)"
  by (simp_all add: auth_text_def)

definition auth_wf :: "bytes \<Rightarrow> byte \<Rightarrow> bytes \<Rightarrow> bool" where
  "auth_wf pub sigLen sig \<longleftrightarrow> length pub = CRYPTO_PUBKEY_BYTES \<and> length sig = CRYPTO_SIG_MAX_BYTES \<and>
     0 < unat sigLen \<and> unat sigLen \<le> CRYPTO_SIG_MAX_BYTES"

section \<open>Echoes\<close>

definition hashHex :: "bytes \<Rightarrow> string" where
  "hashHex h = toHex h"

definition echo_fields :: "ArrivalEcho \<Rightarrow> string list" where
  "echo_fields e =
     [to_string (ae_echoingReplicaId e), ae_targetCarId e, ae_lane e,
      to_string (ae_physicalLaneIndex e), to_string (ae_lateralClaimCm e),
      to_string (ae_positionInLane e), dirToStr (ae_direction e),
      to_string (cue_code (ae_observedCue e)), hashHex (ae_claimHash e),
      bool_text (ae_isAmbulance e), to_string (ae_epoch e)]"

definition serializeArrivalEcho :: "ArrivalEcho \<Rightarrow> bytes" where
  "serializeArrivalEcho e = to_bytes (delimited CHR ''|'' (echo_fields e)
     (auth_text (ae_signerPubKey e) (ae_signatureLen e) (ae_signature e)))"

definition deserializeArrivalEcho :: "bytes \<Rightarrow> ArrivalEcho option" where
  "deserializeArrivalEcho payload =
     (let parts = splitStr (of_bytes payload) CHR ''|'' in
      if length parts < 12 then Some empty_echo
      else case stoi (parts ! 0) of None \<Rightarrow> None | Some echoingReplicaId \<Rightarrow>
        (case stoi (parts ! 3) of None \<Rightarrow> None | Some physicalLaneIndex \<Rightarrow>
        (case stol32 (parts ! 4) of None \<Rightarrow> None | Some lateralClaimCm \<Rightarrow>
        (case stoi (parts ! 5) of None \<Rightarrow> None | Some positionInLane \<Rightarrow>
        (case stoi (parts ! 7) of None \<Rightarrow> None | Some cue \<Rightarrow>
        (case fromHex (parts ! 8) of None \<Rightarrow> None | Some hashBytes \<Rightarrow>
        (case stoi (parts ! 10) of None \<Rightarrow> None | Some epoch \<Rightarrow>
        (case parse_auth (parts ! 11) of None \<Rightarrow> None | Some (pub, sigLen, sig) \<Rightarrow>
           Some \<lparr>ae_echoingReplicaId = echoingReplicaId, ae_targetCarId = parts ! 1,
             ae_lane = parts ! 2, ae_positionInLane = positionInLane,
             ae_physicalLaneIndex = physicalLaneIndex, ae_lateralClaimCm = lateralClaimCm,
             ae_direction = strToDir (parts ! 6), ae_observedCue = cueFromCode (word_of_int cue),
             ae_claimHash = (if length hashBytes = 32 then hashBytes else replicate 32 0),
             ae_isAmbulance = (parts ! 9 = ''1''), ae_epoch = epoch, ae_signerPubKey = pub,
             ae_signature = sig, ae_signatureLen = sigLen\<rparr>))))))))"

definition echo_wf :: "ArrivalEcho \<Rightarrow> bool" where
  "echo_wf e \<longleftrightarrow>
     CHR ''|'' \<notin> set (ae_targetCarId e) \<and> CHR ''|'' \<notin> set (ae_lane e) \<and>
     in_i32 (ae_echoingReplicaId e) \<and> in_i32 (ae_physicalLaneIndex e) \<and> in_i32 (ae_lateralClaimCm e) \<and>
     in_i32 (ae_positionInLane e) \<and> in_i32 (ae_epoch e) \<and> length (ae_claimHash e) = 32 \<and>
     auth_wf (ae_signerPubKey e) (ae_signatureLen e) (ae_signature e)"

lemma echo_decoded:
  assumes wf: "echo_wf e"
  shows "deserializeArrivalEcho (serializeArrivalEcho e) = Some e"
proof -
  let ?a = "auth_text (ae_signerPubKey e) (ae_signatureLen e) (ae_signature e)"
  define parts where "parts = splitStr (of_bytes (serializeArrivalEcho e)) CHR ''|''"
  have plain: "\<forall>f \<in> set (echo_fields e). CHR ''|'' \<notin> set f"
    using wf by (simp add: echo_fields_def echo_wf_def hashHex_def)
  have split: "parts = echo_fields e @ [?a]"
    unfolding parts_def serializeArrivalEcho_def of_to_bytes splitStr_delimited [OF plain]
    by (simp add: splitStr_plain)
  have f: "parts ! 0 = to_string (ae_echoingReplicaId e)" "parts ! 1 = ae_targetCarId e"
    "parts ! 2 = ae_lane e" "parts ! 3 = to_string (ae_physicalLaneIndex e)"
    "parts ! 4 = to_string (ae_lateralClaimCm e)" "parts ! 5 = to_string (ae_positionInLane e)"
    "parts ! 6 = dirToStr (ae_direction e)" "parts ! 7 = to_string (cue_code (ae_observedCue e))"
    "parts ! 8 = toHex (ae_claimHash e)" "parts ! 9 = bool_text (ae_isAmbulance e)"
    "parts ! 10 = to_string (ae_epoch e)" "parts ! 11 = ?a" and len: "\<not> length parts < 12"
    by (simp_all add: split echo_fields_def hashHex_def)
  have w: "in_i32 (ae_echoingReplicaId e)" "in_i32 (ae_physicalLaneIndex e)"
    "in_i32 (ae_lateralClaimCm e)" "in_i32 (ae_positionInLane e)" "in_i32 (ae_epoch e)"
    and a: "parse_auth ?a = Some (ae_signerPubKey e, ae_signatureLen e, ae_signature e)"
    and h: "length (ae_claimHash e) = 32"
    using wf by (simp_all add: echo_wf_def auth_wf_def parse_auth_text)
  show ?thesis
    unfolding deserializeArrivalEcho_def Let_def parts_def [symmetric] f
      stoi_to_string [OF w(1)] stoi_to_string [OF w(2)] stol32_to_string [OF w(3)]
      stoi_to_string [OF w(4)] stoi_to_string [OF w(5)] stoi_to_string [OF in_i32_cue] a
      fromHex_toHex option.case
    using len h by simp
qed

section \<open>Certificates\<close>

definition cert_fields :: "ArrivalCert \<Rightarrow> string list" where
  "cert_fields cert =
     [ac_carId cert, ac_lane cert, to_string (ac_physicalLaneIndex cert),
      to_string (ac_lateralClaimCm cert), to_string (ac_positionInLane cert),
      dirToStr (ac_direction cert), hashHex (ac_claimHash cert), bool_text (ac_isAmbulance cert),
      to_string (ac_epoch cert)]"

definition cert_echo_text :: "ArrivalEcho \<Rightarrow> string" where
  "cert_echo_text e = to_string (ae_echoingReplicaId e) @ CHR '':'' #
     to_string (cue_code (ae_observedCue e)) @ CHR '':'' #
     auth_text (ae_signerPubKey e) (ae_signatureLen e) (ae_signature e)"

definition serializeArrivalCert :: "ArrivalCert \<Rightarrow> bytes" where
  "serializeArrivalCert cert = to_bytes (join_with CHR ''|'' (cert_fields cert @ map cert_echo_text (ac_echoes cert)))"

text \<open>
  One echo part of a certificate; a part without two colons is skipped, and the fields the
  certificate states once are copied into the echo.
\<close>

definition parse_cert_echo :: "ArrivalCert \<Rightarrow> string \<Rightarrow> ArrivalEcho option option" where
  "parse_cert_echo cert part =
     (case cut_two CHR '':'' part of
        None \<Rightarrow> Some None
      | Some (a, b, sf) \<Rightarrow>
          (case stoi a of None \<Rightarrow> None | Some signer \<Rightarrow>
          (case stoi b of None \<Rightarrow> None | Some cue \<Rightarrow>
          (case parse_auth sf of None \<Rightarrow> None | Some (pub, sigLen, sig) \<Rightarrow>
             Some (Some \<lparr>ae_echoingReplicaId = signer, ae_targetCarId = ac_carId cert,
               ae_lane = ac_lane cert, ae_positionInLane = ac_positionInLane cert,
               ae_physicalLaneIndex = ac_physicalLaneIndex cert,
               ae_lateralClaimCm = ac_lateralClaimCm cert, ae_direction = ac_direction cert,
               ae_observedCue = cueFromCode (word_of_int cue), ae_claimHash = ac_claimHash cert,
               ae_isAmbulance = ac_isAmbulance cert, ae_epoch = ac_epoch cert,
               ae_signerPubKey = pub, ae_signature = sig, ae_signatureLen = sigLen\<rparr>)))))"

fun parse_cert_echoes :: "ArrivalCert \<Rightarrow> string list \<Rightarrow> ArrivalEcho list option" where
  "parse_cert_echoes cert [] = Some []"
| "parse_cert_echoes cert (part # parts) =
     (case parse_cert_echo cert part of
        None \<Rightarrow> None
      | Some None \<Rightarrow> parse_cert_echoes cert parts
      | Some (Some e) \<Rightarrow> map_option (Cons e) (parse_cert_echoes cert parts))"

definition deserializeArrivalCert :: "bytes \<Rightarrow> ArrivalCert option" where
  "deserializeArrivalCert payload =
     (let parts = splitStr (of_bytes payload) CHR ''|'' in
      if length parts < 9 then Some empty_cert
      else case stoi (parts ! 2) of None \<Rightarrow> None | Some physicalLaneIndex \<Rightarrow>
        (case stol32 (parts ! 3) of None \<Rightarrow> None | Some lateralClaimCm \<Rightarrow>
        (case stoi (parts ! 4) of None \<Rightarrow> None | Some positionInLane \<Rightarrow>
        (case fromHex (parts ! 6) of None \<Rightarrow> None | Some claimHash \<Rightarrow>
         if length claimHash \<noteq> 32 then Some empty_cert
         else case stoi (parts ! 8) of None \<Rightarrow> None | Some epoch \<Rightarrow>
           let cert = \<lparr>ac_carId = parts ! 0, ac_lane = parts ! 1, ac_positionInLane = positionInLane,
             ac_physicalLaneIndex = physicalLaneIndex, ac_lateralClaimCm = lateralClaimCm,
             ac_direction = strToDir (parts ! 5), ac_claimHash = claimHash,
             ac_isAmbulance = (parts ! 7 = ''1''), ac_epoch = epoch, ac_echoes = []\<rparr> in
           map_option (\<lambda>es. cert\<lparr>ac_echoes := es\<rparr>) (parse_cert_echoes cert (drop 9 parts))))))"

text \<open>The fields of an echo that a certificate states once for all its echoes.\<close>

definition echo_matches_cert :: "ArrivalEcho \<Rightarrow> ArrivalCert \<Rightarrow> bool" where
  "echo_matches_cert e cert \<longleftrightarrow>
     ae_targetCarId e = ac_carId cert \<and> ae_epoch e = ac_epoch cert \<and> ae_lane e = ac_lane cert \<and>
     ae_physicalLaneIndex e = ac_physicalLaneIndex cert \<and>
     ae_lateralClaimCm e = ac_lateralClaimCm cert \<and>
     ae_positionInLane e = ac_positionInLane cert \<and> ae_direction e = ac_direction cert \<and>
     ae_isAmbulance e = ac_isAmbulance cert \<and> ae_claimHash e = ac_claimHash cert"

definition cert_wf :: "ArrivalCert \<Rightarrow> bool" where
  "cert_wf cert \<longleftrightarrow>
     CHR ''|'' \<notin> set (ac_carId cert) \<and> CHR ''|'' \<notin> set (ac_lane cert) \<and>
     in_i32 (ac_physicalLaneIndex cert) \<and> in_i32 (ac_lateralClaimCm cert) \<and>
     in_i32 (ac_positionInLane cert) \<and> in_i32 (ac_epoch cert) \<and> length (ac_claimHash cert) = 32 \<and>
     list_all (\<lambda>e. echo_matches_cert e cert \<and> in_i32 (ae_echoingReplicaId e) \<and>
       auth_wf (ae_signerPubKey e) (ae_signatureLen e) (ae_signature e)) (ac_echoes cert)"

lemma cert_echo_parsed:
  assumes "echo_matches_cert e cert" and "in_i32 (ae_echoingReplicaId e)"
    and "auth_wf (ae_signerPubKey e) (ae_signatureLen e) (ae_signature e)"
  shows "parse_cert_echo (cert\<lparr>ac_echoes := []\<rparr>) (cert_echo_text e) = Some (Some e)"
proof -
  have c: "cut_two CHR '':'' (cert_echo_text e) = Some (to_string (ae_echoingReplicaId e),
      to_string (cue_code (ae_observedCue e)), auth_text (ae_signerPubKey e) (ae_signatureLen e) (ae_signature e))"
    by (simp add: cert_echo_text_def)
  have a: "parse_auth (auth_text (ae_signerPubKey e) (ae_signatureLen e) (ae_signature e)) =
      Some (ae_signerPubKey e, ae_signatureLen e, ae_signature e)"
    using assms(3) by (simp add: auth_wf_def parse_auth_text)
  show ?thesis
    unfolding parse_cert_echo_def c option.case prod.case stoi_to_string [OF assms(2)]
      stoi_to_string [OF in_i32_cue] a
    using assms(1) by (simp add: echo_matches_cert_def)
qed

lemma cert_echoes_parsed:
  assumes "list_all (\<lambda>e. echo_matches_cert e cert \<and> in_i32 (ae_echoingReplicaId e) \<and>
    auth_wf (ae_signerPubKey e) (ae_signatureLen e) (ae_signature e)) es"
  shows "parse_cert_echoes (cert\<lparr>ac_echoes := []\<rparr>) (map cert_echo_text es) = Some es"
  using assms by (induction es) (simp_all add: cert_echo_parsed)

lemma cert_decoded:
  assumes wf: "cert_wf cert"
  shows "deserializeArrivalCert (serializeArrivalCert cert) = Some cert"
proof -
  define parts where "parts = splitStr (of_bytes (serializeArrivalCert cert)) CHR ''|''"
  have plain: "\<forall>f \<in> set (cert_fields cert @ map cert_echo_text (ac_echoes cert)). CHR ''|'' \<notin> set f"
    using wf by (auto simp: cert_fields_def cert_echo_text_def cert_wf_def hashHex_def)
  have split: "parts = cert_fields cert @ map cert_echo_text (ac_echoes cert)"
    unfolding parts_def serializeArrivalCert_def of_to_bytes
    by (rule splitStr_join [OF _ plain]) (simp add: cert_fields_def)
  have f: "parts ! 0 = ac_carId cert" "parts ! 1 = ac_lane cert"
    "parts ! 2 = to_string (ac_physicalLaneIndex cert)" "parts ! 3 = to_string (ac_lateralClaimCm cert)"
    "parts ! 4 = to_string (ac_positionInLane cert)" "parts ! 5 = dirToStr (ac_direction cert)"
    "parts ! 6 = toHex (ac_claimHash cert)" "parts ! 7 = bool_text (ac_isAmbulance cert)"
    "parts ! 8 = to_string (ac_epoch cert)" "drop 9 parts = map cert_echo_text (ac_echoes cert)"
    and len: "\<not> length parts < 9"
    by (simp_all add: split cert_fields_def hashHex_def)
  have w: "in_i32 (ac_physicalLaneIndex cert)" "in_i32 (ac_lateralClaimCm cert)"
    "in_i32 (ac_positionInLane cert)" "in_i32 (ac_epoch cert)" and h: "length (ac_claimHash cert) = 32"
    and es: "parse_cert_echoes (cert\<lparr>ac_echoes := []\<rparr>) (map cert_echo_text (ac_echoes cert)) = Some (ac_echoes cert)"
    using wf by (simp_all add: cert_wf_def cert_echoes_parsed)
  have c: "\<lparr>ac_carId = ac_carId cert, ac_lane = ac_lane cert, ac_positionInLane = ac_positionInLane cert,
      ac_physicalLaneIndex = ac_physicalLaneIndex cert, ac_lateralClaimCm = ac_lateralClaimCm cert,
      ac_direction = ac_direction cert, ac_claimHash = ac_claimHash cert,
      ac_isAmbulance = ac_isAmbulance cert, ac_epoch = ac_epoch cert, ac_echoes = []\<rparr> = cert\<lparr>ac_echoes := []\<rparr>"
    by simp
  show ?thesis
    unfolding deserializeArrivalCert_def Let_def parts_def [symmetric] f
      stoi_to_string [OF w(1)] stol32_to_string [OF w(2)] stoi_to_string [OF w(3)]
      stoi_to_string [OF w(4)] fromHex_toHex option.case bool_text_simps strToDir_dirToStr c es
    using len h by simp
qed

text \<open>Whatever a certificate decodes to, its echoes carry the statement of the certificate.\<close>

lemma parse_cert_echo_fields:
  assumes "parse_cert_echo cert part = Some (Some e)"
  shows "echo_matches_cert e (cert\<lparr>ac_echoes := es\<rparr>)" and "unat (ae_signatureLen e) \<le> CRYPTO_SIG_MAX_BYTES"
  using assms parse_auth_lengths(3)
  by (auto simp: parse_cert_echo_def echo_matches_cert_def split: option.split_asm prod.split_asm)

lemma parse_cert_echoes_fields:
  "parse_cert_echoes cert parts = Some es \<Longrightarrow> e \<in> set es \<Longrightarrow>
     echo_matches_cert e (cert\<lparr>ac_echoes := any\<rparr>) \<and> unat (ae_signatureLen e) \<le> CRYPTO_SIG_MAX_BYTES"
  using parse_cert_echo_fields
  by (induction parts arbitrary: es) (auto split: option.split_asm)

lemma decoded_echoes_match:
  assumes "deserializeArrivalCert payload = Some cert" and "e \<in> set (ac_echoes cert)"
  shows "echo_matches_cert e cert" and "unat (ae_signatureLen e) \<le> CRYPTO_SIG_MAX_BYTES"
proof -
  have "ac_echoes empty_cert = []" by (simp add: empty_cert_def)
  then obtain c es where c: "cert = c\<lparr>ac_echoes := es\<rparr>"
    and es: "parse_cert_echoes c (drop 9 (splitStr (of_bytes payload) CHR ''|'')) = Some es"
    using assms
    by (auto simp: deserializeArrivalCert_def Let_def simp del: ArrivalCert.update_convs
        split: if_split_asm option.split_asm)
  then show "echo_matches_cert e cert" "unat (ae_signatureLen e) \<le> CRYPTO_SIG_MAX_BYTES"
    using parse_cert_echoes_fields [OF es, of e es] assms(2) by simp_all
qed

section \<open>Properties\<close>

text \<open>
  The three arrival messages survive the radio. A well-formed announcement, echo or
  certificate is decoded to itself from the bytes that were sent, whatever bytes the
  announcement's signature contains; the printing of the arrival time has to be readable.
\<close>

theorem arrival_messages_roundtrip:
  assumes "announcement_wf print_d ann" and "echo_wf e" and "cert_wf cert"
    and "read_d (print_d (an_claimedArrivalTime ann)) = Some (an_claimedArrivalTime ann)"
  shows "deserializeArrivalAnnouncement zero read_d (serializeArrivalAnnouncement print_d ann) = Some ann \<and>
         deserializeArrivalEcho (serializeArrivalEcho e) = Some e \<and>
         deserializeArrivalCert (serializeArrivalCert cert) = Some cert"
  using announcement_decoded [OF assms(1), where read_d = read_d, OF assms(4)] echo_decoded [OF assms(2)] cert_decoded [OF assms(3)]
  by blast

definition demo_announcement :: "int ArrivalAnnouncement" where
  "demo_announcement = \<lparr>an_carId = ''veh2'', an_laneId = ''N2C_0'', an_lane = ''N'',
     an_positionInLane = 1, an_physicalLaneIndex = 0, an_lateralClaimCm = - 5,
     an_direction = DIR_LEFT, an_isAmbulance = True, an_claimedArrivalTime = 42, an_epoch = 0,
     an_ambulanceCertBytes = [1, 255], an_ambulanceSigBytes = [], an_signature = [124, 0, 124]\<rparr>"

definition demo_arrival_echo :: "int \<Rightarrow> bytes \<Rightarrow> ArrivalEcho" where
  "demo_arrival_echo i pub = \<lparr>ae_echoingReplicaId = i, ae_targetCarId = ''veh2'', ae_lane = ''N'',
     ae_positionInLane = 1, ae_physicalLaneIndex = 0, ae_lateralClaimCm = 0,
     ae_direction = DIR_LEFT, ae_observedCue = CUE_LEFT, ae_claimHash = replicate 32 7,
     ae_isAmbulance = False, ae_epoch = 0, ae_signerPubKey = resize CRYPTO_PUBKEY_BYTES pub,
     ae_signature = replicate CRYPTO_SIG_MAX_BYTES 9, ae_signatureLen = 70\<rparr>"

definition demo_arrival_cert :: "ArrivalEcho list \<Rightarrow> ArrivalCert" where
  "demo_arrival_cert es = \<lparr>ac_carId = ''veh2'', ac_lane = ''N'', ac_positionInLane = 1,
     ac_physicalLaneIndex = 0, ac_lateralClaimCm = 0, ac_direction = DIR_LEFT,
     ac_claimHash = replicate 32 7, ac_isAmbulance = False, ac_epoch = 0, ac_echoes = es\<rparr>"

theorem arrival_messages_roundtrip_witness:
  "deserializeArrivalAnnouncement 0 stoi (serializeArrivalAnnouncement to_string demo_announcement) = Some demo_announcement \<and>
   deserializeArrivalEcho (serializeArrivalEcho (demo_arrival_echo 1 [1])) = Some (demo_arrival_echo 1 [1]) \<and>
   deserializeArrivalCert (serializeArrivalCert (demo_arrival_cert [demo_arrival_echo 1 [1], demo_arrival_echo 3 [3]])) =
     Some (demo_arrival_cert [demo_arrival_echo 1 [1], demo_arrival_echo 3 [3]])"
proof (rule arrival_messages_roundtrip)
  show "announcement_wf to_string demo_announcement"
    and "cert_wf (demo_arrival_cert [demo_arrival_echo 1 [1], demo_arrival_echo 3 [3]])"
    and "echo_wf (demo_arrival_echo 1 [1])"
    and "stoi (to_string (an_claimedArrivalTime demo_announcement)) = Some (an_claimedArrivalTime demo_announcement)"
    by code_simp+
qed

text \<open>
  An announcement with a field that is not a number is not dropped but raises: the decoder
  converts the fields outside any handler.
\<close>

lemma malformed_announcement_raises:
  "deserializeArrivalAnnouncement (0 :: int) stoi (to_bytes ''veh2|a|N|x|0|1|L|0|1|0|||0|'') = None"
  by code_simp

end
