(* ===== verification/Gossip.thy ===== *)
theory Gossip
  imports TextCodec
begin

text \<open>
  Post-consensus gossip of \<^verbatim>\<open>v2vbft/app/ResDBDecisionGossip.cc\<close> (epoch-tagged payloads, the vote
  accumulator of decided orders, the once-only relay trackers) and the propagation tracker
  of \<^verbatim>\<open>ResDBPropagationTracker.h\<close>.
\<close>

section \<open>Serialization\<close>

definition serialize_gossip :: "u32 \<Rightarrow> bytes \<Rightarrow> bytes" where
  "serialize_gossip epoch order_bytes = put_u32 epoch @ order_bytes"

text \<open>An empty order is refused after the output parameters are set; the value is then unused.\<close>

definition parse_gossip :: "bytes \<Rightarrow> (u32 \<times> bytes) option" where
  "parse_gossip inner =
     (if length inner < 4 then None
      else if drop 4 inner = [] then None
      else Some (get_u32 inner 0, drop 4 inner))"

definition serializeAnnouncement :: "u32 \<Rightarrow> bytes \<Rightarrow> bytes" where
  "serializeAnnouncement = serialize_gossip"

definition parseAnnouncement :: "bytes \<Rightarrow> (u32 \<times> bytes) option" where
  "parseAnnouncement = parse_gossip"

definition serializeConsensusRelay :: "u32 \<Rightarrow> bytes \<Rightarrow> bytes" where
  "serializeConsensusRelay = serialize_gossip"

definition parseConsensusRelay :: "bytes \<Rightarrow> (u32 \<times> bytes) option" where
  "parseConsensusRelay = parse_gossip"

lemma parse_serialize_gossip: "order \<noteq> [] \<Longrightarrow> parse_gossip (serialize_gossip epoch order) = Some (epoch, order)"
  using get_put_u32 [of "[]" 0 epoch order] by (simp add: parse_gossip_def serialize_gossip_def)

section \<open>Vote accumulator\<close>

type_synonym GossipAccumulator = "(u32, (int, bytes) omap) omap"

definition acc_count :: "GossipAccumulator \<Rightarrow> u32 \<Rightarrow> bytes \<Rightarrow> int" where
  "acc_count entries epoch ref_order =
     (case om_get entries epoch of
        None \<Rightarrow> 0
      | Some votes \<Rightarrow> int (length (filter (\<lambda>(sid, ob). ob = ref_order) votes)))"

definition acc_add :: "int \<Rightarrow> u32 \<Rightarrow> bytes \<Rightarrow> int \<Rightarrow> GossipAccumulator \<Rightarrow> bool \<times> GossipAccumulator" where
  "acc_add sender_id epoch order_bytes threshold entries =
     (let votes = (case om_get entries epoch of None \<Rightarrow> [] | Some vs \<Rightarrow> vs);
          entries' = om_put epoch (om_put sender_id order_bytes votes) entries
      in (acc_count entries' epoch order_bytes \<ge> threshold, entries'))"

definition acc_reset :: "GossipAccumulator \<Rightarrow> GossipAccumulator" where
  "acc_reset entries = []"

text \<open>Verified votes in arrival order; the verdict is the one on the last of them.\<close>

fun acc_run :: "int \<Rightarrow> (int \<times> u32 \<times> bytes) list \<Rightarrow> GossipAccumulator \<Rightarrow> bool \<times> GossipAccumulator" where
  "acc_run threshold [] acc = (False, acc)"
| "acc_run threshold ((s, e, ob) # vs) acc =
     (let r = acc_add s e ob threshold acc in if vs = [] then r else acc_run threshold vs (snd r))"

definition acc_ok :: "GossipAccumulator \<Rightarrow> bool" where
  "acc_ok acc \<longleftrightarrow> om_ok acc \<and> (\<forall>e votes. om_get acc e = Some votes \<longrightarrow> om_ok votes)"

text \<open>The vote a sender holds for an epoch.\<close>

definition acc_vote :: "GossipAccumulator \<Rightarrow> u32 \<Rightarrow> int \<Rightarrow> bytes option" where
  "acc_vote acc e s = (case om_get acc e of None \<Rightarrow> None | Some votes \<Rightarrow> om_get votes s)"

lemma acc_ok_empty: "acc_ok []"
  by (simp add: acc_ok_def om.inv_empty om.get_empty)

lemma acc_ok_add: "acc_ok acc \<Longrightarrow> acc_ok (snd (acc_add s e ob t acc))"
  by (auto simp: acc_ok_def acc_add_def Let_def om.inv_put om_get_put om.inv_empty split: option.splits)

lemma acc_vote_add:
  "acc_vote (snd (acc_add s e ob t acc)) e' s' = (if e' = e \<and> s' = s then Some ob else acc_vote acc e' s')"
  by (auto simp: acc_vote_def acc_add_def Let_def om_get_put om.get_empty split: option.splits)

lemma acc_count_senders:
  assumes "acc_ok acc"
  obtains S where "finite S" and "acc_count acc e ref = int (card S)" and "\<forall>s \<in> S. acc_vote acc e s = Some ref"
proof (cases "om_get acc e")
  case None
  then show thesis by (intro that [of "{}"]) (simp_all add: acc_count_def)
next
  case (Some votes)
  let ?F = "filter (\<lambda>(sid, ob). ob = ref) votes"
  have ok: "om_ok votes" using assms Some by (simp add: acc_ok_def)
  then have "distinct (map fst ?F)"
    using om_ok_distinct [OF ok] by (simp add: om_keys_def distinct_map_filter)
  then have "acc_count acc e ref = int (card (fst ` set ?F))"
    using Some distinct_card [of "map fst ?F"] by (simp add: acc_count_def del: set_filter)
  moreover have "\<forall>s \<in> fst ` set ?F. acc_vote acc e s = Some ref"
    using Some om_in_get [OF ok] by (auto simp: acc_vote_def)
  ultimately show thesis by (intro that [of "fst ` set ?F"]) simp_all
qed

lemma acc_run_ok: "acc_ok acc \<Longrightarrow> acc_ok (snd (acc_run t vs acc))"
  by (induction t vs acc rule: acc_run.induct) (auto simp: Let_def acc_ok_add)

lemma acc_run_vote:
  "acc_vote (snd (acc_run t vs acc)) e s = Some ob \<Longrightarrow>
   acc_vote acc e s = Some ob \<or> (s, e, ob) \<in> set vs"
proof (induction t vs acc rule: acc_run.induct)
  case (2 t s' e' ob' vs acc)
  then show ?case
    by (cases "vs = []") (auto simp: Let_def acc_vote_add split: if_split_asm)
qed simp

lemma acc_run_verdict:
  assumes "fst (acc_run t (vs @ [(s, e, ob)]) acc)"
  shows "acc_count (snd (acc_run t (vs @ [(s, e, ob)]) acc)) e ob \<ge> t"
  using assms
proof (induction vs arbitrary: acc)
  case Nil
  then show ?case by (simp add: acc_add_def Let_def)
next
  case (Cons v vs)
  obtain s' e' ob' where "v = (s', e', ob')" by (metis surj_pair)
  with Cons show ?case by (simp add: Let_def)
qed



section \<open>Relaying at most once\<close>

lemma distinct_count_list: "distinct xs \<Longrightarrow> count_list xs x = (if x \<in> set xs then 1 else 0)"
  by (induction xs) auto

text \<open>The contract of a relay tracker: a key is granted exactly when it is new.\<close>

locale once_tracker =
  fixes seen :: "'s \<Rightarrow> 'k \<Rightarrow> bool"
    and try_relay :: "'k \<Rightarrow> 's \<Rightarrow> bool \<times> 's"
    and eligible :: "'k \<Rightarrow> bool"
  assumes granted: "fst (try_relay k s) \<longleftrightarrow> eligible k \<and> \<not> seen s k"
    and remembered: "seen (snd (try_relay k s)) k' \<longleftrightarrow> (eligible k \<and> k' = k) \<or> seen s k'"
begin

fun grants :: "'k list \<Rightarrow> 's \<Rightarrow> 'k list" where
  "grants [] s = []"
| "grants (k # ks) s =
     (if fst (try_relay k s) then [k] else []) @ grants ks (snd (try_relay k s))"

lemma grants_fresh: "k \<in> set (grants ks s) \<Longrightarrow> \<not> seen s k"
proof (induction ks arbitrary: s)
  case (Cons k' ks)
  then show ?case
    using granted [of k' s] remembered [of k' s k] by (auto split: if_split_asm)
qed simp

lemma grants_once: "distinct (grants ks s)"
proof (induction ks arbitrary: s)
  case (Cons k ks)
  have "k \<notin> set (grants ks (snd (try_relay k s)))" if "fst (try_relay k s)"
    using grants_fresh [of k ks "snd (try_relay k s)"] granted [of k s] remembered [of k s k] that by auto
  with Cons show ?case by simp
qed simp

lemma grants_complete: "k \<in> set ks \<Longrightarrow> eligible k \<Longrightarrow> \<not> seen s k \<Longrightarrow> k \<in> set (grants ks s)"
proof (induction ks arbitrary: s)
  case (Cons k' ks)
  then show ?case
    using granted [of k' s] remembered [of k' s k] by auto
qed simp

lemma grants_sound: "k \<in> set (grants ks s) \<Longrightarrow> k \<in> set ks \<and> eligible k"
proof (induction ks arbitrary: s)
  case (Cons k' ks)
  then show ?case using granted [of k' s] by (auto split: if_split_asm)
qed simp

text \<open>Every eligible key among the requests is granted once, whatever the repetitions.\<close>

lemma grants_exact:
  assumes "\<forall>k. \<not> seen s k"
  shows "count_list (grants ks s) k = (if k \<in> set ks \<and> eligible k then 1 else 0)"
proof (cases "k \<in> set (grants ks s)")
  case True
  then have "count_list (grants ks s) k = 1"
    using grants_once [of ks s] by (simp add: distinct_count_list)
  then show ?thesis using True grants_sound [OF True] by simp
next
  case False
  then show ?thesis using grants_complete [of k ks s] assms by auto
qed

end

type_synonym CertRelayTracker = "string list"

definition cert_tryRelay :: "string \<Rightarrow> CertRelayTracker \<Rightarrow> bool \<times> CertRelayTracker" where
  "cert_tryRelay carId relayed = (os_new carId relayed, os_insert carId relayed)"

type_synonym AnnouncementRelayTracker = "string list"

definition announcement_key :: "u32 \<Rightarrow> string \<Rightarrow> string" where
  "announcement_key epoch carId = to_string (uint epoch) @ '':'' @ carId"

definition announcement_tryRelay ::
  "u32 \<Rightarrow> string \<Rightarrow> AnnouncementRelayTracker \<Rightarrow> bool \<times> AnnouncementRelayTracker" where
  "announcement_tryRelay epoch carId relayed =
     (os_new (announcement_key epoch carId) relayed, os_insert (announcement_key epoch carId) relayed)"

interpretation cert_relay: once_tracker "\<lambda>s k. k \<in> set s" cert_tryRelay "\<lambda>_. True"
  by unfold_locales (auto simp: cert_tryRelay_def os_new_def)

lemma announcement_key_inj:
  assumes "announcement_key e c = announcement_key e' c'"
  shows "e = e' \<and> c = c'"
proof -
  have "splitStr (announcement_key e c) CHR '':'' = to_string (uint e) # splitStr c CHR '':''"
    "splitStr (announcement_key e' c') CHR '':'' = to_string (uint e') # splitStr c' CHR '':''"
    by (simp_all add: announcement_key_def splitStr_delim)
  then have "uint e = uint e'" "splitStr c CHR '':'' = splitStr c' CHR '':''"
    using assms to_string_inj by auto
  then show ?thesis by (metis join_splitStr word_uint_eq_iff)
qed

interpretation announcement_relay: once_tracker
  "\<lambda>s (e, c). announcement_key e c \<in> set s" "\<lambda>(e, c). announcement_tryRelay e c" "\<lambda>_. True"
  by unfold_locales
    (auto simp: announcement_tryRelay_def os_new_def dest: announcement_key_inj split: prod.splits)

section \<open>Propagation of authenticated facts\<close>

type_synonym AuthenticatedPropagationTracker = "(string, int list) omap"

definition carriers_of :: "AuthenticatedPropagationTracker \<Rightarrow> string \<Rightarrow> int list" where
  "carriers_of tr key = (case om_get tr key of None \<Rightarrow> [] | Some cs \<Rightarrow> cs)"

definition observeAuthenticated ::
  "string \<Rightarrow> int \<Rightarrow> AuthenticatedPropagationTracker \<Rightarrow> bool \<times> AuthenticatedPropagationTracker" where
  "observeAuthenticated semanticKey carrierId tr =
     (if semanticKey = [] \<or> carrierId < 0 then (False, tr)
      else (os_new carrierId (carriers_of tr semanticKey),
            om_put semanticKey (os_insert carrierId (carriers_of tr semanticKey)) tr))"

definition propagation_count :: "AuthenticatedPropagationTracker \<Rightarrow> string \<Rightarrow> int" where
  "propagation_count tr semanticKey =
     (case om_get tr semanticKey of None \<Rightarrow> 0 | Some cs \<Rightarrow> int (length cs))"

definition propagation_confirmed :: "AuthenticatedPropagationTracker \<Rightarrow> string \<Rightarrow> int \<Rightarrow> bool" where
  "propagation_confirmed tr semanticKey threshold \<longleftrightarrow>
     threshold > 0 \<and> propagation_count tr semanticKey \<ge> threshold"

definition propagation_reset :: "string \<Rightarrow> AuthenticatedPropagationTracker \<Rightarrow> AuthenticatedPropagationTracker" where
  "propagation_reset semanticKey tr = om_erase semanticKey tr"

interpretation propagation: once_tracker
  "\<lambda>tr (k, c). c \<in> set (carriers_of tr k)" "\<lambda>(k, c). observeAuthenticated k c"
  "\<lambda>(k, c). k \<noteq> [] \<and> 0 \<le> c"
  by unfold_locales
    (auto simp: observeAuthenticated_def os_new_def carriers_of_def om_get_put split: prod.splits)

fun observe_all :: "(string \<times> int) list \<Rightarrow> AuthenticatedPropagationTracker \<Rightarrow> AuthenticatedPropagationTracker" where
  "observe_all [] tr = tr"
| "observe_all ((k, c) # obs) tr = observe_all obs (snd (observeAuthenticated k c tr))"

definition tracker_ok :: "AuthenticatedPropagationTracker \<Rightarrow> bool" where
  "tracker_ok tr \<longleftrightarrow> (\<forall>k cs. om_get tr k = Some cs \<longrightarrow> sorted_wrt (<) cs)"

lemma tracker_ok_observe: "tracker_ok tr \<Longrightarrow> tracker_ok (snd (observeAuthenticated k c tr))"
  by (auto simp: tracker_ok_def observeAuthenticated_def carriers_of_def om_get_put os_insert_sorted
      split: option.splits)

lemma carriers_observe:
  "set (carriers_of (snd (observeAuthenticated k c tr)) k') =
     set (carriers_of tr k') \<union> (if k \<noteq> [] \<and> 0 \<le> c \<and> k' = k then {c} else {})"
  by (auto simp: observeAuthenticated_def carriers_of_def om_get_put)

lemma observe_all_carriers:
  "tracker_ok tr \<Longrightarrow> tracker_ok (observe_all obs tr) \<and>
   set (carriers_of (observe_all obs tr) k) =
     set (carriers_of tr k) \<union> {c. k \<noteq> [] \<and> 0 \<le> c \<and> (k, c) \<in> set obs}"
proof (induction obs arbitrary: tr)
  case (Cons o' obs)
  obtain k' c' where o': "o' = (k', c')" by (metis surj_pair)
  show ?case
    using Cons.IH [OF tracker_ok_observe [OF Cons.prems, of k' c']]
    by (auto simp: o' carriers_observe split: if_split_asm)
qed simp

text \<open>
  A fact is confirmed exactly when enough different carriers were authenticated for it:
  repeated observations of one carrier, negative ids and empty keys never count.
\<close>

theorem propagation_counts_carriers:
  "propagation_confirmed (observe_all obs []) k threshold \<longleftrightarrow>
     0 < threshold \<and> threshold \<le> int (card {c. k \<noteq> [] \<and> 0 \<le> c \<and> (k, c) \<in> set obs})"
proof -
  let ?tr = "observe_all obs []"
  have ok: "tracker_ok ?tr" and cs: "set (carriers_of ?tr k) = {c. k \<noteq> [] \<and> 0 \<le> c \<and> (k, c) \<in> set obs}"
    using observe_all_carriers [of "[]" obs k]
    by (simp_all add: tracker_ok_def carriers_of_def om.get_empty)
  have "sorted_wrt (<) (carriers_of ?tr k)"
    using ok by (auto simp: tracker_ok_def carriers_of_def split: option.splits)
  then have "length (carriers_of ?tr k) = card (set (carriers_of ?tr k))"
    by (simp add: strict_sorted_iff distinct_card)
  moreover have "propagation_count ?tr k = int (length (carriers_of ?tr k))"
    by (simp add: propagation_count_def carriers_of_def split: option.splits)
  ultimately show ?thesis by (simp add: propagation_confirmed_def cs)
qed

text \<open>The pairs a node relays among a sequence of requests.\<close>

fun announcements_relayed :: "(u32 \<times> string) list \<Rightarrow> AnnouncementRelayTracker \<Rightarrow> (u32 \<times> string) list" where
  "announcements_relayed [] relayed = []"
| "announcements_relayed ((e, c) # reqs) relayed =
     (case announcement_tryRelay e c relayed of
        (True, relayed') \<Rightarrow> (e, c) # announcements_relayed reqs relayed'
      | (False, relayed') \<Rightarrow> announcements_relayed reqs relayed')"

lemma announcements_relayed_grants:
  "announcements_relayed reqs relayed = announcement_relay.grants reqs relayed"
  by (induction reqs relayed rule: announcements_relayed.induct)
    (auto split: prod.splits bool.splits)

text \<open>
  Announcements are relayed once. In any sequence of relay requests from a fresh
  tracker, each (epoch, car) pair is granted exactly at its first request, and pairs never
  share a key.
\<close>

theorem announcement_relayed_once:
  "count_list (announcements_relayed reqs []) (e, c) = (if (e, c) \<in> set reqs then 1 else 0)"
  unfolding announcements_relayed_grants using announcement_relay.grants_exact [of "[]" reqs "(e, c)"] by simp

end
