(* ===== verification/SignedQuorum.thy ===== *)
theory SignedQuorum
  imports OrdMap
begin

text \<open>
  The interface of every certificate of the protocol: a scan over signed statements that
  counts distinct signers. Witness certificates, arrival certificates, direction support
  and stopped-distance certificates are its instances; the argument that \<open>f + 1\<close> counted
  signers include a correct one is made here once.
\<close>

locale signed_quorum =
  fixes signer :: "'e \<Rightarrow> int"
    and sound :: "'e \<Rightarrow> bool"
    and eligible :: "int set"
    and scan :: "'e list \<Rightarrow> int list \<Rightarrow> int \<Rightarrow> int option"
  assumes scan_signers: "scan es seen valid = Some n \<Longrightarrow>
      \<exists>S. finite S \<and> S \<inter> set seen = {} \<and> n = valid + int (card S) \<and>
        (\<forall>i \<in> S. \<exists>e \<in> set es. signer e = i \<and> sound e)"
    and sound_eligible: "sound e \<Longrightarrow> signer e \<in> eligible"
begin

lemma counted_signers:
  assumes "scan es [] 0 = Some n"
  obtains S where "finite S" and "n = int (card S)" and "S \<subseteq> eligible"
    and "\<forall>i \<in> S. \<exists>e \<in> set es. signer e = i \<and> sound e"
proof -
  obtain S where S: "finite S" "n = int (card S)" "\<forall>i \<in> S. \<exists>e \<in> set es. signer e = i \<and> sound e"
    using scan_signers [OF assms] by auto
  moreover have "S \<subseteq> eligible"
  proof
    fix i assume "i \<in> S"
    with S(3) obtain e where "signer e = i" "sound e" by auto
    then show "i \<in> eligible" using sound_eligible [of e] by simp
  qed
  ultimately show thesis by (rule_tac that) auto
qed

lemma correct_signer:
  assumes "scan es [] 0 = Some n" and "f < n" and "0 \<le> f"
    and "finite eligible" and "int (card (eligible \<inter> Bad)) \<le> f"
  obtains e where "e \<in> set es" and "sound e" and "signer e \<notin> Bad"
proof -
  obtain S where S: "finite S" "n = int (card S)" "S \<subseteq> eligible"
    "\<forall>i \<in> S. \<exists>e \<in> set es. signer e = i \<and> sound e"
    by (rule counted_signers [OF assms(1)])
  have "card (S \<inter> Bad) \<le> card (eligible \<inter> Bad)"
    using S(3) assms(4) by (intro card_mono) auto
  then have "card (S \<inter> Bad) \<le> nat f" and "nat f < card S"
    using assms(2,3,5) S(2) by linarith+
  then obtain i where "i \<in> S" "i \<notin> Bad"
    using honest_member [OF S(1)] by blast
  with S(4) obtain e where "e \<in> set es" "sound e" "signer e = i" by auto
  with \<open>i \<notin> Bad\<close> show thesis by (intro that) auto
qed

text \<open>The variant with one signer accounted for outside the scan.\<close>

lemma correct_signer_besides:
  assumes "scan es [c] 0 = Some n" and "f \<le> n" and "0 \<le> f" and "finite eligible"
    and "int (card (insert c eligible \<inter> Bad)) \<le> f" and "c \<in> Bad"
  obtains e where "e \<in> set es" and "sound e" and "signer e \<notin> Bad"
proof -
  obtain S where S: "finite S" "c \<notin> S" "n = int (card S)" "\<forall>i \<in> S. \<exists>e \<in> set es. signer e = i \<and> sound e"
    using scan_signers [OF assms(1)] by auto
  have "\<not> S \<subseteq> Bad"
  proof
    assume sub: "S \<subseteq> Bad"
    have "insert c S \<subseteq> insert c eligible \<inter> Bad"
    proof
      fix i assume "i \<in> insert c S"
      then show "i \<in> insert c eligible \<inter> Bad"
      proof (cases "i = c")
        case False
        with \<open>i \<in> insert c S\<close> have "i \<in> S" by simp
        with S(4) obtain e where "signer e = i" "sound e" by auto
        then show ?thesis using sound_eligible [of e] sub \<open>i \<in> S\<close> by auto
      qed (use assms(6) in simp)
    qed
    then have "card (insert c S) \<le> card (insert c eligible \<inter> Bad)"
      using assms(4) by (intro card_mono) auto
    moreover have "card (insert c S) = Suc (card S)"
      using S(1,2) by simp
    ultimately show False using assms(2,5) S(3) by linarith
  qed
  then obtain i where "i \<in> S" "i \<notin> Bad" by blast
  with S(4) obtain e where "e \<in> set es" "sound e" "signer e = i" by auto
  with \<open>i \<notin> Bad\<close> show thesis by (intro that) auto
qed

lemma counted_at_most:
  assumes "scan es [] 0 = Some n" and "finite eligible"
  shows "n \<le> int (card eligible)"
proof -
  obtain S where "n = int (card S)" "S \<subseteq> eligible"
    by (rule counted_signers [OF assms(1)])
  then show ?thesis using card_mono [OF assms(2)] by simp
qed

end

text \<open>
  The step of such a scan: a signer already seen adds nothing, a new one is recorded and
  adds one when its statement is sound.
\<close>

lemma scan_step:
  assumes "\<exists>S. finite S \<and> S \<inter> set (os_insert i seen) = {} \<and> n = (if ok then valid + 1 else valid) + int (card S) \<and>
      (\<forall>j \<in> S. \<exists>e \<in> set es. signer e = j \<and> sound e)"
    and "os_new i seen" and "ok \<Longrightarrow> sound e" and "signer e = i"
  shows "\<exists>S. finite S \<and> S \<inter> set seen = {} \<and> n = valid + int (card S) \<and>
      (\<forall>j \<in> S. \<exists>e' \<in> set (e # es). signer e' = j \<and> sound e')"
proof -
  obtain S where S: "finite S" "S \<inter> set (os_insert i seen) = {}"
    "n = (if ok then valid + 1 else valid) + int (card S)"
    "\<forall>j \<in> S. \<exists>e \<in> set es. signer e = j \<and> sound e"
    using assms(1) by blast
  then have "i \<notin> S" "S \<inter> set seen = {}" "i \<notin> set seen"
    using assms(2) by (auto simp: os_new_def)
  then show ?thesis
    using S assms(3,4) by (intro exI [of _ "if ok then insert i S else S"]) auto
qed

end
