(* ===== verification/WitnessCert.thy ===== *)
theory WitnessCert
  imports Gossip SignedQuorum
begin

text \<open>
  The shared f + 1 witness-certificate machinery of \<^verbatim>\<open>v2vbft/app/ResDBWitnessCert.cc\<close>: the trusted key
  registry, statements and the bytes signed for them, certificate validation, echo
  collection and the retry policy. Signature verification is the parameter \<open>verify\<close>.
\<close>

section \<open>Trusted keys\<close>

type_synonym WitnessKeyRegistry = "(int, bytes) omap"

definition registerKey :: "int \<Rightarrow> bytes \<Rightarrow> WitnessKeyRegistry \<Rightarrow> bool \<times> WitnessKeyRegistry" where
  "registerKey replicaId pubKey keys =
     (case om_get keys replicaId of
        None \<Rightarrow> (True, om_put replicaId pubKey keys)
      | Some k \<Rightarrow> if k = pubKey then (True, keys) else (False, keys))"

definition key_matches :: "WitnessKeyRegistry \<Rightarrow> int \<Rightarrow> bytes \<Rightarrow> bool" where
  "key_matches keys replicaId pubKey =
     (case om_get keys replicaId of None \<Rightarrow> False | Some k \<Rightarrow> k = pubKey)"

definition copyKey :: "WitnessKeyRegistry \<Rightarrow> int \<Rightarrow> bytes option" where
  "copyKey keys replicaId = om_get keys replicaId"

definition key_known :: "WitnessKeyRegistry \<Rightarrow> int \<Rightarrow> bool" where
  "key_known keys replicaId \<longleftrightarrow> om_get keys replicaId \<noteq> None"

definition resetForNewRun :: "WitnessKeyRegistry \<Rightarrow> WitnessKeyRegistry" where
  "resetForNewRun keys = []"

fun register_all :: "(int \<times> bytes) list \<Rightarrow> WitnessKeyRegistry \<Rightarrow> WitnessKeyRegistry" where
  "register_all [] keys = keys"
| "register_all ((i, k) # rs) keys = register_all rs (snd (registerKey i k keys))"

lemma registerKey_keeps: "om_get keys i = Some k \<Longrightarrow> om_get (snd (registerKey j k' keys)) i = Some k"
  by (auto simp: registerKey_def om_get_put split: option.splits)

lemma register_all_keeps: "om_get keys i = Some k \<Longrightarrow> om_get (register_all rs keys) i = Some k"
  by (induction rs keys rule: register_all.induct) (auto intro: registerKey_keeps)

text \<open>
  The first key registered for a replica is its identity for the rest of the run: after
  any further registrations exactly that key matches, and registering another is refused.
\<close>

theorem witness_key_binding:
  assumes "om_get keys i = None"
  shows "let keys' = register_all rs (snd (registerKey i k keys)) in
    (\<forall>pk. key_matches keys' i pk \<longleftrightarrow> pk = k) \<and> (\<forall>pk. fst (registerKey i pk keys') \<longleftrightarrow> pk = k)"
proof -
  have "om_get (snd (registerKey i k keys)) i = Some k"
    using assms by (simp add: registerKey_def om_get_put)
  then have "om_get (register_all rs (snd (registerKey i k keys))) i = Some k"
    by (rule register_all_keeps)
  then show ?thesis by (auto simp: Let_def key_matches_def registerKey_def)
qed

theorem witness_key_binding_witness:
  "key_matches (register_all [(4, [2])] (snd (registerKey 4 [1] []))) 4 [1] \<and>
   \<not> fst (registerKey 4 [2] (register_all [(4, [2])] (snd (registerKey 4 [1] []))))"
  using witness_key_binding [of "[]" 4 "[(4, [2])]" "[1]"] by (simp add: om.get_empty Let_def del: register_all.simps)

section \<open>Statements\<close>

datatype WitnessKind = CANCEL_CRASH | CANCEL_EMERGENCY | CLEAR

primrec kindInt :: "WitnessKind \<Rightarrow> int" where
  "kindInt CANCEL_CRASH = 0"
| "kindInt CANCEL_EMERGENCY = 1"
| "kindInt CLEAR = 2"

record WitnessStatement =
  ws_epoch :: u32
  ws_kind :: WitnessKind
  ws_subjectRef :: string

definition collectorKey :: "WitnessStatement \<Rightarrow> string" where
  "collectorKey st = to_string (uint (ws_epoch st)) @ '':'' @ to_string (kindInt (ws_kind st)) @ '':'' @ ws_subjectRef st"

definition signPayload :: "WitnessStatement \<Rightarrow> int \<Rightarrow> string" where
  "signPayload st signerId = collectorKey st @ '':'' @ to_string signerId"

lemma kindInt_inj: "kindInt a = kindInt b \<Longrightarrow> a = b"
  by (cases a; cases b) simp_all

lemma splitStr_last:
  assumes "delim \<notin> set q"
  shows "splitStr (p @ delim # q) delim = splitStr p delim @ [q]"
proof -
  have "split_acc delim cur (p @ delim # q) = split_acc delim cur p @ [q]" for cur
    using assms by (induction p arbitrary: cur) (simp_all add: split_acc_plain)
  then show ?thesis by (simp add: splitStr_def)
qed

lemma splitStr_signPayload:
  "splitStr (signPayload st i) CHR '':'' =
     to_string (uint (ws_epoch st)) # to_string (kindInt (ws_kind st)) # splitStr (ws_subjectRef st) CHR '':'' @ [to_string i]"
proof -
  have "splitStr (signPayload st i) CHR '':'' = splitStr (collectorKey st) CHR '':'' @ [to_string i]"
    unfolding signPayload_def using splitStr_last [of "CHR '':''" "to_string i" "collectorKey st"] by simp
  then show ?thesis by (simp add: collectorKey_def splitStr_delim)
qed

lemma statement_eqI:
  fixes s t :: WitnessStatement
  shows "uint (ws_epoch s) = uint (ws_epoch t) \<Longrightarrow> kindInt (ws_kind s) = kindInt (ws_kind t) \<Longrightarrow>
   splitStr (ws_subjectRef s) CHR '':'' = splitStr (ws_subjectRef t) CHR '':'' \<Longrightarrow> s = t"
proof -
  assume a: "uint (ws_epoch s) = uint (ws_epoch t)" "kindInt (ws_kind s) = kindInt (ws_kind t)"
    "splitStr (ws_subjectRef s) CHR '':'' = splitStr (ws_subjectRef t) CHR '':''"
  have "ws_subjectRef s = ws_subjectRef t"
    using a(3) by (metis join_splitStr)
  moreover have "ws_epoch s = ws_epoch t" "ws_kind s = ws_kind t"
    using a(1,2) by (simp_all add: word_uint_eq_iff kindInt_inj)
  ultimately show "s = t" by (cases s; cases t) simp
qed

text \<open>
  A signature speaks for one statement and one signer. The signed bytes of two
  (statement, signer) pairs coincide only if the pairs do, whatever the subject contains.
\<close>

theorem sign_payload_injective:
  "signPayload s i = signPayload t j \<longleftrightarrow> s = t \<and> i = j"
proof
  assume "signPayload s i = signPayload t j"
  then have "to_string (uint (ws_epoch s)) = to_string (uint (ws_epoch t))"
    "to_string (kindInt (ws_kind s)) = to_string (kindInt (ws_kind t))"
    "splitStr (ws_subjectRef s) CHR '':'' @ [to_string i] = splitStr (ws_subjectRef t) CHR '':'' @ [to_string j]"
    by (metis list.inject splitStr_signPayload)+
  then show "s = t \<and> i = j"
    using statement_eqI to_string_inj by blast
qed simp

section \<open>Certificates\<close>

record WitnessEcho =
  we_signerId :: int
  we_pubKey :: bytes
  we_sig :: bytes
  we_sigLen :: byte

definition echo_verifies ::
  "(bytes \<Rightarrow> bytes \<Rightarrow> bytes \<Rightarrow> bool) \<Rightarrow> WitnessStatement \<Rightarrow> WitnessEcho \<Rightarrow> bool" where
  "echo_verifies verify stmt echo =
     verify (we_pubKey echo) (to_bytes (signPayload stmt (we_signerId echo)))
       (take (unat (we_sigLen echo)) (we_sig echo))"

text \<open>The loop over the echoes: the ids seen so far and the number of valid ones.\<close>

fun witness_scan ::
  "int set option \<Rightarrow> WitnessKeyRegistry \<Rightarrow> (bytes \<Rightarrow> bytes \<Rightarrow> bytes \<Rightarrow> bool) \<Rightarrow> WitnessStatement \<Rightarrow>
   WitnessEcho list \<Rightarrow> int list \<Rightarrow> int \<Rightarrow> int" where
  "witness_scan view keys verify stmt [] seen valid = valid"
| "witness_scan view keys verify stmt (echo # echoes) seen valid =
     (if we_signerId echo < 0 \<or> we_sigLen echo = 0 then witness_scan view keys verify stmt echoes seen valid
      else if (case view of None \<Rightarrow> False | Some v \<Rightarrow> we_signerId echo \<notin> v)
        then witness_scan view keys verify stmt echoes seen valid
      else if \<not> os_new (we_signerId echo) seen then witness_scan view keys verify stmt echoes seen valid
      else let seen' = os_insert (we_signerId echo) seen in
        if \<not> key_matches keys (we_signerId echo) (we_pubKey echo)
          then witness_scan view keys verify stmt echoes seen' valid
        else if echo_verifies verify stmt echo
          then witness_scan view keys verify stmt echoes seen' (valid + 1)
        else witness_scan view keys verify stmt echoes seen' valid)"

definition validate_witness ::
  "int \<Rightarrow> int set option \<Rightarrow> WitnessKeyRegistry \<Rightarrow> (bytes \<Rightarrow> bytes \<Rightarrow> bytes \<Rightarrow> bool) \<Rightarrow>
   WitnessStatement \<Rightarrow> WitnessEcho list \<Rightarrow> bool \<times> int" where
  "validate_witness f view keys verify stmt echoes =
     (if int (length echoes) < f + 1 then (False, 0)
      else let valid = witness_scan view keys verify stmt echoes [] 0 in (valid \<ge> f + 1, valid))"

definition proper_echo ::
  "int set option \<Rightarrow> WitnessKeyRegistry \<Rightarrow> (bytes \<Rightarrow> bytes \<Rightarrow> bytes \<Rightarrow> bool) \<Rightarrow> WitnessStatement \<Rightarrow> WitnessEcho \<Rightarrow> bool" where
  "proper_echo view keys verify stmt echo \<longleftrightarrow>
     0 \<le> we_signerId echo \<and> we_sigLen echo \<noteq> 0 \<and> (\<forall>v. view = Some v \<longrightarrow> we_signerId echo \<in> v) \<and>
     key_matches keys (we_signerId echo) (we_pubKey echo) \<and> echo_verifies verify stmt echo"

lemma witness_scan_signers:
  "\<exists>S. finite S \<and> S \<inter> set seen = {} \<and> witness_scan view keys verify stmt echoes seen valid = valid + int (card S) \<and>
     (\<forall>i \<in> S. \<exists>echo \<in> set echoes. we_signerId echo = i \<and> proper_echo view keys verify stmt echo)"
proof (induction view keys verify stmt echoes seen valid rule: witness_scan.induct)
  case (1 view keys verify stmt seen valid)
  show ?case by (intro exI [of _ "{}"]) simp
next
  case (2 view keys verify stmt echo echoes seen valid)
  let ?i = "we_signerId echo"
  let ?skip = "?i < 0 \<or> we_sigLen echo = 0 \<or> (case view of None \<Rightarrow> False | Some v \<Rightarrow> ?i \<notin> v) \<or>
      \<not> os_new ?i seen"
  let ?good = "key_matches keys ?i (we_pubKey echo) \<and> echo_verifies verify stmt echo"
  show ?case
  proof (cases ?skip)
    case True
    then have "\<exists>S. finite S \<and> S \<inter> set seen = {} \<and>
        witness_scan view keys verify stmt echoes seen valid = valid + int (card S) \<and>
        (\<forall>i \<in> S. \<exists>echo \<in> set echoes. we_signerId echo = i \<and> proper_echo view keys verify stmt echo)"
      using 2(1-3) by blast
    moreover have "witness_scan view keys verify stmt (echo # echoes) seen valid =
        witness_scan view keys verify stmt echoes seen valid"
      using True by auto
    ultimately show ?thesis by (metis list.set_intros(2))
  next
    case False
    then have "\<exists>S. finite S \<and> S \<inter> set (os_insert ?i seen) = {} \<and>
        witness_scan view keys verify stmt (echo # echoes) seen valid =
          (if ?good then valid + 1 else valid) + int (card S) \<and>
        (\<forall>i \<in> S. \<exists>echo \<in> set echoes. we_signerId echo = i \<and> proper_echo view keys verify stmt echo)"
      using 2(4-6) by (auto simp: Let_def)
    moreover have "proper_echo view keys verify stmt echo" if ?good
      using False that by (auto simp: proper_echo_def split: option.splits)
    moreover have "os_new ?i seen" using False by blast
    ultimately show ?thesis
      by (intro scan_step [where i = ?i and ok = ?good]) (assumption | rule refl | blast)+
  qed
qed

interpretation witness_quorum: signed_quorum we_signerId
  "proper_echo (Some v) keys verify stmt" v
  "\<lambda>es seen valid. Some (witness_scan (Some v) keys verify stmt es seen valid)" for v keys verify stmt
proof unfold_locales
  fix es seen valid n
  assume "Some (witness_scan (Some v) keys verify stmt es seen valid) = Some n"
  then show "\<exists>S. finite S \<and> S \<inter> set seen = {} \<and> n = valid + int (card S) \<and>
      (\<forall>i \<in> S. \<exists>e \<in> set es. we_signerId e = i \<and> proper_echo (Some v) keys verify stmt e)"
    using witness_scan_signers [of seen "Some v" keys verify stmt es valid] by simp
qed (simp add: proper_echo_def)

lemma valid_witness_signer:
  assumes "fst (validate_witness f (Some view) keys verify stmt echoes)" and "0 \<le> f"
    and "finite view" and "int (card (view \<inter> Bad)) \<le> f"
    and unforgeable: "\<forall>i k msg sig. i \<notin> Bad \<and> key_matches keys i k \<and> verify k msg sig \<longrightarrow> msg \<in> signed_by i"
  shows "\<exists>i \<in> view. i \<notin> Bad \<and> to_bytes (signPayload stmt i) \<in> signed_by i"
proof -
  have "f < witness_scan (Some view) keys verify stmt echoes [] 0"
    using assms(1,2) by (auto simp: validate_witness_def Let_def split: if_split_asm)
  then obtain echo where "echo \<in> set echoes" "proper_echo (Some view) keys verify stmt echo" "we_signerId echo \<notin> Bad"
    using assms(2-4) by (rule_tac witness_quorum.correct_signer) auto
  then show ?thesis
    using unforgeable by (intro bexI [of _ "we_signerId echo"]) (auto simp: proper_echo_def echo_verifies_def)
qed

text \<open>
  A valid witness certificate carries the word of a correct replica. If at most \<open>f\<close>
  members of the committed view are faulty and nobody can forge a signature under the
  registered key of a correct replica, some correct member itself signed exactly this
  statement.
\<close>

theorem witness_certificate_has_correct_signer:
  assumes "fst (validate_witness f (Some view) keys verify stmt echoes)" and "0 \<le> f"
    and "finite view" and "int (card (view \<inter> Bad)) \<le> f"
    and unforgeable: "\<forall>i k msg sig. i \<notin> Bad \<and> key_matches keys i k \<and> verify k msg sig \<longrightarrow> msg \<in> signed_by i"
  shows "\<exists>i \<in> view. i \<notin> Bad \<and> to_bytes (signPayload stmt i) \<in> signed_by i"
  using assms by (rule valid_witness_signer)

text \<open>A toy signature scheme for the instances: the key, then the message.\<close>

definition demo_verify :: "bytes \<Rightarrow> bytes \<Rightarrow> bytes \<Rightarrow> bool" where
  "demo_verify pk msg sig \<longleftrightarrow> sig = pk @ msg"

definition demo_statement :: WitnessStatement where
  "demo_statement = \<lparr>ws_epoch = 3, ws_kind = CANCEL_CRASH, ws_subjectRef = ''car1''\<rparr>"

definition demo_echo :: "int \<Rightarrow> bytes \<Rightarrow> WitnessEcho" where
  "demo_echo i pk = \<lparr>we_signerId = i, we_pubKey = pk,
     we_sig = pk @ to_bytes (signPayload demo_statement i),
     we_sigLen = of_nat (length (pk @ to_bytes (signPayload demo_statement i)))\<rparr>"

definition demo_keys :: WitnessKeyRegistry where
  "demo_keys = [(0, [10]), (1, [11]), (2, [12])]"

theorem witness_certificate_has_correct_signer_witness:
  "\<exists>i \<in> {0, 1, 2}. i \<notin> {0} \<and>
     to_bytes (signPayload demo_statement i) \<in> {to_bytes (signPayload demo_statement 1)}"
proof -
  have "fst (validate_witness 1 (Some {0, 1, 2}) demo_keys (\<lambda>k m s. demo_verify k m s \<and> (k = [10] \<or> m = to_bytes (signPayload demo_statement 1)))
      demo_statement [demo_echo 0 [10], demo_echo 1 [11]])"
    by code_simp
  then show ?thesis
    by (rule witness_certificate_has_correct_signer [where Bad = "{0}"])
      (auto simp: key_matches_def demo_keys_def om_get_def split: if_splits)
qed

text \<open>
  A forged echo hides a later genuine one. The signer is recorded as seen before its key
  and signature are checked, so an echo with a wrong key in front of a genuine echo of the
  same signer takes the genuine one out of the count.
\<close>

theorem forged_echo_masks_signer:
  assumes "proper_echo view keys verify stmt good" and "we_signerId forged = we_signerId good"
    and "we_sigLen forged \<noteq> 0" and "\<not> key_matches keys (we_signerId forged) (we_pubKey forged)"
  shows "validate_witness 0 view keys verify stmt [good] = (True, 1) \<and>
         validate_witness 0 view keys verify stmt [forged, good] = (False, 0)"
proof -
  have v: "\<not> (case view of None \<Rightarrow> False | Some v \<Rightarrow> we_signerId good \<notin> v)"
    using assms(1) by (auto simp: proper_echo_def split: option.splits)
  moreover have "\<not> (case view of None \<Rightarrow> False | Some v \<Rightarrow> we_signerId forged \<notin> v)"
    unfolding assms(2) by (rule v)
  ultimately show ?thesis
    using assms by (simp add: validate_witness_def proper_echo_def os_new_def Let_def)
qed

theorem forged_echo_masks_signer_witness:
  "validate_witness 0 (Some {0, 1, 2}) demo_keys demo_verify demo_statement [demo_echo 1 [99], demo_echo 1 [11]] = (False, 0)"
proof -
  have "key_matches demo_keys 1 [11]" "echo_verifies demo_verify demo_statement (demo_echo 1 [11])"
    "we_sigLen (demo_echo 1 [11]) \<noteq> 0" "we_sigLen (demo_echo 1 [99]) \<noteq> 0" "\<not> key_matches demo_keys 1 [99]"
    by code_simp+
  then show ?thesis
    using forged_echo_masks_signer [of "Some {0, 1, 2}" demo_keys demo_verify demo_statement "demo_echo 1 [11]" "demo_echo 1 [99]"]
    by (simp add: proper_echo_def demo_echo_def)
qed

section \<open>Collecting echoes\<close>

record WitnessEchoCollector =
  wc_buckets :: "(string, WitnessEcho list) omap"
  wc_signers :: "(string, int list) omap"

definition empty_collector :: WitnessEchoCollector where
  "empty_collector = \<lparr>wc_buckets = [], wc_signers = []\<rparr>"

definition signers_of :: "WitnessEchoCollector \<Rightarrow> string \<Rightarrow> int list" where
  "signers_of col key = (case om_get (wc_signers col) key of None \<Rightarrow> [] | Some ss \<Rightarrow> ss)"

definition bucket_of :: "WitnessEchoCollector \<Rightarrow> string \<Rightarrow> WitnessEcho list" where
  "bucket_of col key = (case om_get (wc_buckets col) key of None \<Rightarrow> [] | Some es \<Rightarrow> es)"

text \<open>\<open>signers_[key]\<close> creates the set also when the signer is refused.\<close>

definition collector_add ::
  "WitnessStatement \<Rightarrow> WitnessEcho \<Rightarrow> WitnessEchoCollector \<Rightarrow> bool \<times> WitnessEchoCollector" where
  "collector_add stmt echo col =
     (let key = collectorKey stmt; ss = signers_of col key;
          signers' = om_put key (os_insert (we_signerId echo) ss) (wc_signers col)
      in if \<not> os_new (we_signerId echo) ss then (False, col\<lparr>wc_signers := signers'\<rparr>)
         else (True, col\<lparr>wc_signers := signers',
                 wc_buckets := om_put key (bucket_of col key @ [echo]) (wc_buckets col)\<rparr>))"

definition collector_get :: "WitnessEchoCollector \<Rightarrow> string \<Rightarrow> WitnessEcho list option" where
  "collector_get col key = om_get (wc_buckets col) key"

definition reachedThreshold :: "WitnessEchoCollector \<Rightarrow> string \<Rightarrow> int \<Rightarrow> bool" where
  "reachedThreshold col key threshold =
     (case om_get (wc_buckets col) key of None \<Rightarrow> False | Some es \<Rightarrow> int (length es) \<ge> threshold)"

definition collector_ok :: "WitnessEchoCollector \<Rightarrow> bool" where
  "collector_ok col \<longleftrightarrow> (\<forall>key. distinct (map we_signerId (bucket_of col key)) \<and>
     set (map we_signerId (bucket_of col key)) = set (signers_of col key))"

lemma collector_ok_empty: "collector_ok empty_collector"
  by (simp add: collector_ok_def empty_collector_def bucket_of_def signers_of_def om.get_empty)

lemma signers_of_add:
  "set (signers_of (snd (collector_add stmt echo col)) key) =
     set (signers_of col key) \<union> (if key = collectorKey stmt then {we_signerId echo} else {})"
  by (auto simp: collector_add_def signers_of_def Let_def om_get_put)

lemma bucket_of_add:
  "bucket_of (snd (collector_add stmt echo col)) key =
     (if key = collectorKey stmt \<and> we_signerId echo \<notin> set (signers_of col key)
      then bucket_of col key @ [echo] else bucket_of col key)"
  by (auto simp: collector_add_def bucket_of_def Let_def om_get_put os_new_def)

lemma collector_ok_add: "collector_ok col \<Longrightarrow> collector_ok (snd (collector_add stmt echo col))"
  unfolding collector_ok_def by (auto simp: signers_of_add bucket_of_add)


fun collect_all :: "(WitnessStatement \<times> WitnessEcho) list \<Rightarrow> WitnessEchoCollector \<Rightarrow> WitnessEchoCollector" where
  "collect_all [] col = col"
| "collect_all ((stmt, echo) # es) col = collect_all es (snd (collector_add stmt echo col))"

lemma collect_all_ok: "collector_ok col \<Longrightarrow> collector_ok (collect_all es col)"
  by (induction es col rule: collect_all.induct) (auto intro: collector_ok_add)

lemma collect_all_signers:
  "set (signers_of (collect_all es col) key) =
     set (signers_of col key) \<union> {we_signerId echo |stmt echo. (stmt, echo) \<in> set es \<and> collectorKey stmt = key}"
proof (induction es col rule: collect_all.induct)
  case (2 stmt echo es col)
  then show ?case by (auto simp: signers_of_add split: if_split_asm)
qed simp

text \<open>
  The collector counts signers, not messages. After any echoes, a statement has reached
  a positive threshold exactly when that many different signers sent an echo for a statement
  with its key; one signer's repetitions count once.
\<close>

theorem collector_counts_signers:
  assumes "0 < threshold"
  shows "reachedThreshold (collect_all es empty_collector) key threshold \<longleftrightarrow>
    threshold \<le> int (card {we_signerId echo |stmt echo. (stmt, echo) \<in> set es \<and> collectorKey stmt = key})"
proof -
  let ?c = "collect_all es empty_collector"
  have "collector_ok ?c"
    by (rule collect_all_ok [OF collector_ok_empty])
  then have "length (bucket_of ?c key) = card (set (signers_of ?c key))"
    unfolding collector_ok_def by (metis distinct_card length_map)
  moreover have "set (signers_of ?c key) =
      {we_signerId echo |stmt echo. (stmt, echo) \<in> set es \<and> collectorKey stmt = key}"
    unfolding collect_all_signers by (simp add: signers_of_def empty_collector_def om.get_empty)
  ultimately show ?thesis
    using assms by (auto simp: reachedThreshold_def bucket_of_def split: option.splits)
qed

theorem collector_counts_signers_witness:
  "\<not> reachedThreshold (collect_all [(demo_statement, demo_echo 1 [11]), (demo_statement, demo_echo 1 [12])] empty_collector)
     (collectorKey demo_statement) 2"
proof -
  let ?es = "[(demo_statement, demo_echo 1 [11]), (demo_statement, demo_echo 1 [12])]"
  have "{we_signerId echo |stmt echo. (stmt, echo) \<in> set ?es \<and> collectorKey stmt = collectorKey demo_statement} \<subseteq> {1}"
    by (auto simp: demo_echo_def)
  then have "card {we_signerId echo |stmt echo. (stmt, echo) \<in> set ?es \<and>
      collectorKey stmt = collectorKey demo_statement} \<le> card {1 :: int}"
    by (intro card_mono) auto
  then show ?thesis
    using collector_counts_signers [of 2 ?es "collectorKey demo_statement"] by simp
qed

section \<open>Retry policy\<close>

record WitnessRetryEntry =
  wr_certBytes :: bytes
  wr_attempts :: int
  wr_active :: bool

type_synonym WitnessRetryManager = "(string, WitnessRetryEntry) omap"

definition retry_arm :: "string \<Rightarrow> bytes \<Rightarrow> WitnessRetryManager \<Rightarrow> WitnessRetryManager" where
  "retry_arm key certBytes entries =
     om_put key \<lparr>wr_certBytes = certBytes, wr_attempts = 0, wr_active = True\<rparr> entries"

definition retry_resetBackoff :: "string \<Rightarrow> WitnessRetryManager \<Rightarrow> WitnessRetryManager" where
  "retry_resetBackoff key entries =
     (case om_get entries key of None \<Rightarrow> entries | Some e \<Rightarrow> om_put key (e\<lparr>wr_attempts := 0\<rparr>) entries)"

definition retry_stop :: "string \<Rightarrow> WitnessRetryManager \<Rightarrow> WitnessRetryManager" where
  "retry_stop key entries =
     (case om_get entries key of None \<Rightarrow> entries | Some e \<Rightarrow> om_put key (e\<lparr>wr_active := False\<rparr>) entries)"

text \<open>\<open>None\<close> is the negative value that tells the caller to stop retrying.\<close>

definition nextDelaySec :: "string \<Rightarrow> 'd \<Rightarrow> WitnessRetryManager \<Rightarrow> 'd option \<times> WitnessRetryManager" where
  "nextDelaySec key fixedIntervalSec entries =
     (case om_get entries key of
        None \<Rightarrow> (None, entries)
      | Some e \<Rightarrow>
          if \<not> wr_active e then (None, entries)
          else (Some fixedIntervalSec, om_put key (e\<lparr>wr_attempts := wr_attempts e + 1\<rparr>) entries))"

definition retry_entry :: "WitnessRetryManager \<Rightarrow> string \<Rightarrow> WitnessRetryEntry option" where
  "retry_entry entries key = om_get entries key"

lemma nextDelay_stopped: "fst (nextDelaySec key d (retry_stop key entries)) = None"
  by (auto simp: nextDelaySec_def retry_stop_def om_get_put split: option.splits)

lemma nextDelay_armed: "fst (nextDelaySec key d (retry_arm key bs entries)) = Some d"
  by (simp add: nextDelaySec_def retry_arm_def om_get_put)

end
