(* ===== verification/ArrivalCert.thy ===== *)
theory ArrivalCert
  imports ArrivalCodec WitnessCert Complex_Main
begin

text \<open>
  Validation of arrival certificates and the direction a certificate entitles to
  (\<^verbatim>\<open>v2vbft/app/ResDBArrivalProtocol.cc\<close>: \<open>validateArrivalCert\<close>, \<open>directionSupport\<close>,
  \<open>isValidArrivalEchoForCert\<close>, \<open>eligibleDirection\<close>, \<open>physicalLaneAuthorizesDirection\<close>), with the
  projection of a lateral coordinate to a physical lane (\<^verbatim>\<open>ResDBPerception.cc\<close>). Signature
  verification is the parameter \<open>verify\<close>: public key, message, signature.
\<close>

section \<open>Configuration\<close>

datatype LaneObservationMode = CATEGORICAL_CARDINAL | ADJACENT_LATERAL

text \<open>
  The configured values of the module. The perception object is present after
  initialisation; its lane separation is the rational number the \<open>double\<close> stands for.
\<close>

record AppConfig =
  cf_replicaId :: int
  cf_total_vehicles :: int
  cf_tolerated_faults :: int
  cf_lane_observation_mode :: LaneObservationMode
  cf_direction_eligibility_enabled :: bool
  cf_adjacent_lateral_enabled :: bool
  cf_adjacent_lane_separation_m :: rat

definition projectPhysicalLaneIndex :: "AppConfig \<Rightarrow> int \<Rightarrow> int" where
  "projectPhysicalLaneIndex cfg lateralCm =
     (if \<not> cf_adjacent_lateral_enabled cfg then 0
      else let boundaryCm = cf_adjacent_lane_separation_m cfg * 50 in
        if \<bar>of_int lateralCm - boundaryCm\<bar> < 1 / 2 then - 1
        else if of_int lateralCm < boundaryCm then 0 else 1)"

definition cert_fault_bound :: "AppConfig \<Rightarrow> int" where
  "cert_fault_bound cfg = fault_bound (cf_tolerated_faults cfg) (cf_total_vehicles cfg)"

section \<open>Echoes\<close>

definition arrivalEchoSigningPayload :: "ArrivalEcho \<Rightarrow> string" where
  "arrivalEchoSigningPayload echo =
     ae_targetCarId echo @ CHR '':'' # ae_lane echo @ CHR '':'' #
     to_string (ae_physicalLaneIndex echo) @ CHR '':'' # to_string (ae_lateralClaimCm echo) @ CHR '':'' #
     to_string (ae_positionInLane echo) @ CHR '':'' # dirToStr (ae_direction echo) @ CHR '':'' #
     to_string (cue_code (ae_observedCue echo)) @ CHR '':'' # hashHex (ae_claimHash echo) @ CHR '':'' #
     bool_text (ae_isAmbulance echo) @ CHR '':'' # to_string (ae_epoch echo) @ CHR '':'' #
     to_string (ae_echoingReplicaId echo)"

definition isArrivalSignerEligible :: "AppConfig \<Rightarrow> int \<Rightarrow> bool" where
  "isArrivalSignerEligible cfg signerId \<longleftrightarrow> 0 \<le> signerId \<and> signerId < cf_total_vehicles cfg"

definition arrival_echo_verifies :: "(bytes \<Rightarrow> bytes \<Rightarrow> bytes \<Rightarrow> bool) \<Rightarrow> ArrivalEcho \<Rightarrow> bool" where
  "arrival_echo_verifies verify echo =
     verify (ae_signerPubKey echo) (to_bytes (arrivalEchoSigningPayload echo))
       (take (unat (ae_signatureLen echo)) (ae_signature echo))"

definition isValidArrivalEchoForCert ::
  "AppConfig \<Rightarrow> WitnessKeyRegistry \<Rightarrow> (bytes \<Rightarrow> bytes \<Rightarrow> bytes \<Rightarrow> bool) \<Rightarrow> ArrivalEcho \<Rightarrow> ArrivalCert \<Rightarrow> bool" where
  "isValidArrivalEchoForCert cfg keys verify echo cert =
     (if \<not> isArrivalSignerEligible cfg (ae_echoingReplicaId echo) \<or> ae_signatureLen echo = 0 \<or>
         \<not> echo_matches_cert echo cert \<or>
         \<not> key_matches keys (ae_echoingReplicaId echo) (ae_signerPubKey echo)
      then False else arrival_echo_verifies verify echo)"

section \<open>Certificates\<close>

definition physical_lane_ok :: "AppConfig \<Rightarrow> int \<Rightarrow> int \<Rightarrow> bool" where
  "physical_lane_ok cfg physicalLaneIndex lateralClaimCm =
     (case cf_lane_observation_mode cfg of
        ADJACENT_LATERAL \<Rightarrow>
          (physicalLaneIndex = 0 \<or> physicalLaneIndex = 1) \<and>
          projectPhysicalLaneIndex cfg lateralClaimCm = physicalLaneIndex
      | CATEGORICAL_CARDINAL \<Rightarrow> physicalLaneIndex = 0 \<and> lateralClaimCm = 0)"

text \<open>
  The loop over the echoes: \<open>None\<close> when an eligible signer appears twice, otherwise the
  number of valid echoes.
\<close>

fun arrival_scan ::
  "AppConfig \<Rightarrow> WitnessKeyRegistry \<Rightarrow> (bytes \<Rightarrow> bytes \<Rightarrow> bytes \<Rightarrow> bool) \<Rightarrow> ArrivalCert \<Rightarrow>
   ArrivalEcho list \<Rightarrow> int list \<Rightarrow> int \<Rightarrow> int option" where
  "arrival_scan cfg keys verify cert [] seen valid = Some valid"
| "arrival_scan cfg keys verify cert (echo # echoes) seen valid =
     (if \<not> isArrivalSignerEligible cfg (ae_echoingReplicaId echo)
      then arrival_scan cfg keys verify cert echoes seen valid
      else if \<not> os_new (ae_echoingReplicaId echo) seen then None
      else let seen' = os_insert (ae_echoingReplicaId echo) seen in
        if ae_signatureLen echo = 0 then arrival_scan cfg keys verify cert echoes seen' valid
        else if \<not> echo_matches_cert echo cert then arrival_scan cfg keys verify cert echoes seen' valid
        else if \<not> key_matches keys (ae_echoingReplicaId echo) (ae_signerPubKey echo)
          then arrival_scan cfg keys verify cert echoes seen' valid
        else arrival_scan cfg keys verify cert echoes seen'
          (if arrival_echo_verifies verify echo then valid + 1 else valid))"

definition validateArrivalCert ::
  "AppConfig \<Rightarrow> WitnessKeyRegistry \<Rightarrow> (bytes \<Rightarrow> bytes \<Rightarrow> bytes \<Rightarrow> bool) \<Rightarrow> ArrivalCert \<Rightarrow> bool" where
  "validateArrivalCert cfg keys verify cert =
     (if ac_direction cert = DIR_UNKNOWN \<or> ac_carId cert = [] then False
      else if \<not> physical_lane_ok cfg (ac_physicalLaneIndex cert) (ac_lateralClaimCm cert) then False
      else let required = cert_fault_bound cfg + 1 in
        if int (length (ac_echoes cert)) < required then False
        else if int (length (ac_echoes cert)) > max 0 (cf_total_vehicles cfg) then False
        else case arrival_scan cfg keys verify cert (ac_echoes cert) [] 0 of
            None \<Rightarrow> False
          | Some valid \<Rightarrow> valid \<ge> required)"

section \<open>Direction eligibility\<close>

fun support_scan ::
  "AppConfig \<Rightarrow> WitnessKeyRegistry \<Rightarrow> (bytes \<Rightarrow> bytes \<Rightarrow> bytes \<Rightarrow> bool) \<Rightarrow> ArrivalCert \<Rightarrow>
   ArrivalEcho list \<Rightarrow> int list \<Rightarrow> int \<Rightarrow> int" where
  "support_scan cfg keys verify cert [] seen support = support"
| "support_scan cfg keys verify cert (echo # echoes) seen support =
     (if \<not> os_new (ae_echoingReplicaId echo) seen
      then support_scan cfg keys verify cert echoes seen support
      else support_scan cfg keys verify cert echoes (os_insert (ae_echoingReplicaId echo) seen)
        (if isValidArrivalEchoForCert cfg keys verify echo cert \<and>
            ae_observedCue echo = cue_of_direction (ac_direction cert)
         then support + 1 else support))"

definition directionSupport ::
  "AppConfig \<Rightarrow> WitnessKeyRegistry \<Rightarrow> (bytes \<Rightarrow> bytes \<Rightarrow> bytes \<Rightarrow> bool) \<Rightarrow> ArrivalCert \<Rightarrow> int" where
  "directionSupport cfg keys verify cert = support_scan cfg keys verify cert (ac_echoes cert) [] 0"

definition physicalLaneAuthorizesDirection :: "AppConfig \<Rightarrow> ArrivalCert \<Rightarrow> bool" where
  "physicalLaneAuthorizesDirection cfg cert =
     (if cf_lane_observation_mode cfg \<noteq> ADJACENT_LATERAL then True
      else if ac_physicalLaneIndex cert = 0
        then ac_direction cert = DIR_STRAIGHT \<or> ac_direction cert = DIR_RIGHT
      else if ac_physicalLaneIndex cert = 1 then ac_direction cert = DIR_LEFT
      else False)"

definition eligibleDirection ::
  "AppConfig \<Rightarrow> WitnessKeyRegistry \<Rightarrow> (bytes \<Rightarrow> bytes \<Rightarrow> bytes \<Rightarrow> bool) \<Rightarrow> ArrivalCert \<Rightarrow> Direction" where
  "eligibleDirection cfg keys verify cert =
     (if \<not> cf_direction_eligibility_enabled cfg then ac_direction cert
      else if physicalLaneAuthorizesDirection cfg cert \<and>
           directionSupport cfg keys verify cert \<ge> cert_fault_bound cfg + 1
        then ac_direction cert else DIR_UNKNOWN)"

section \<open>The scans count distinct sound signers\<close>

lemma arrival_scan_Cons:
  "arrival_scan cfg keys verify cert (echo # echoes) seen valid =
     (if \<not> isArrivalSignerEligible cfg (ae_echoingReplicaId echo)
      then arrival_scan cfg keys verify cert echoes seen valid
      else if \<not> os_new (ae_echoingReplicaId echo) seen then None
      else arrival_scan cfg keys verify cert echoes (os_insert (ae_echoingReplicaId echo) seen)
        (if isValidArrivalEchoForCert cfg keys verify echo cert then valid + 1 else valid))"
  by (simp add: Let_def isValidArrivalEchoForCert_def)

lemma arrival_scan_signers:
  "arrival_scan cfg keys verify cert echoes seen valid = Some n \<Longrightarrow>
     \<exists>S. finite S \<and> S \<inter> set seen = {} \<and> n = valid + int (card S) \<and>
       (\<forall>i \<in> S. \<exists>e \<in> set echoes. ae_echoingReplicaId e = i \<and> isValidArrivalEchoForCert cfg keys verify e cert)"
proof (induction echoes arbitrary: seen valid)
  case Nil
  then show ?case by (intro exI [of _ "{}"]) simp
next
  case (Cons echo echoes)
  let ?i = "ae_echoingReplicaId echo"
  show ?case
  proof (cases "isArrivalSignerEligible cfg ?i")
    case False
    then have "arrival_scan cfg keys verify cert echoes seen valid = Some n"
      using Cons.prems by simp
    from Cons.IH [OF this] show ?thesis by (metis list.set_intros(2))
  next
    case True
    then have new: "os_new ?i seen"
      and "arrival_scan cfg keys verify cert echoes (os_insert ?i seen)
        (if isValidArrivalEchoForCert cfg keys verify echo cert then valid + 1 else valid) = Some n"
      using Cons.prems unfolding arrival_scan_Cons by (simp_all split: if_split_asm)
    from scan_step [OF Cons.IH [OF this(2)] new] show ?thesis by simp
  qed
qed

lemma support_scan_signers:
  "\<exists>S. finite S \<and> S \<inter> set seen = {} \<and> support_scan cfg keys verify cert echoes seen support = support + int (card S) \<and>
     (\<forall>i \<in> S. \<exists>e \<in> set echoes. ae_echoingReplicaId e = i \<and>
        isValidArrivalEchoForCert cfg keys verify e cert \<and> ae_observedCue e = cue_of_direction (ac_direction cert))"
proof (induction echoes arbitrary: seen support)
  case Nil
  show ?case by (intro exI [of _ "{}"]) simp
next
  case (Cons echo echoes)
  let ?i = "ae_echoingReplicaId echo"
  show ?case
  proof (cases "os_new ?i seen")
    case False
    then have "support_scan cfg keys verify cert (echo # echoes) seen support =
        support_scan cfg keys verify cert echoes seen support" by simp
    then show ?thesis using Cons.IH [of seen support] by (metis list.set_intros(2))
  next
    case True
    then have eq: "support_scan cfg keys verify cert (echo # echoes) seen support =
        support_scan cfg keys verify cert echoes (os_insert ?i seen)
          (if isValidArrivalEchoForCert cfg keys verify echo cert \<and>
              ae_observedCue echo = cue_of_direction (ac_direction cert) then support + 1 else support)"
      by simp
    show ?thesis
      unfolding eq using scan_step [OF Cons.IH True] by simp
  qed
qed

lemma finite_eligible [simp]: "finite {i. isArrivalSignerEligible cfg i}"
proof -
  have "{i. isArrivalSignerEligible cfg i} = {0..<cf_total_vehicles cfg}"
    by (auto simp: isArrivalSignerEligible_def)
  then show ?thesis by simp
qed

interpretation arrival_quorum: signed_quorum ae_echoingReplicaId
  "\<lambda>e. isValidArrivalEchoForCert cfg keys verify e cert" "{i. isArrivalSignerEligible cfg i}"
  "arrival_scan cfg keys verify cert" for cfg keys verify cert
proof unfold_locales
  fix e
  assume "isValidArrivalEchoForCert cfg keys verify e cert"
  then show "ae_echoingReplicaId e \<in> {i. isArrivalSignerEligible cfg i}"
    by (simp add: isValidArrivalEchoForCert_def split: if_split_asm)
qed (rule arrival_scan_signers)

interpretation support_quorum: signed_quorum ae_echoingReplicaId
  "\<lambda>e. isValidArrivalEchoForCert cfg keys verify e cert \<and> ae_observedCue e = cue_of_direction (ac_direction cert)"
  "{i. isArrivalSignerEligible cfg i}"
  "\<lambda>es seen support. Some (support_scan cfg keys verify cert es seen support)" for cfg keys verify cert
proof unfold_locales
  fix es seen valid n
  assume "Some (support_scan cfg keys verify cert es seen valid) = Some n"
  then show "\<exists>S. finite S \<and> S \<inter> set seen = {} \<and> n = valid + int (card S) \<and>
      (\<forall>i \<in> S. \<exists>e \<in> set es. ae_echoingReplicaId e = i \<and>
        isValidArrivalEchoForCert cfg keys verify e cert \<and> ae_observedCue e = cue_of_direction (ac_direction cert))"
    using support_scan_signers [of seen cfg keys verify cert es valid] by simp
qed (auto simp: isValidArrivalEchoForCert_def split: if_split_asm)

section \<open>The signed payload determines the statement\<close>

definition plain_echo :: "ArrivalEcho \<Rightarrow> bool" where
  "plain_echo e \<longleftrightarrow> CHR '':'' \<notin> set (ae_targetCarId e) \<and> CHR '':'' \<notin> set (ae_lane e)"

definition payload_fields :: "ArrivalEcho \<Rightarrow> string list" where
  "payload_fields e = [ae_targetCarId e, ae_lane e, to_string (ae_physicalLaneIndex e),
     to_string (ae_lateralClaimCm e), to_string (ae_positionInLane e), dirToStr (ae_direction e),
     to_string (cue_code (ae_observedCue e)), hashHex (ae_claimHash e), bool_text (ae_isAmbulance e),
     to_string (ae_epoch e)]"

lemma split_payload:
  assumes "plain_echo e"
  shows "splitStr (arrivalEchoSigningPayload e) CHR '':'' = payload_fields e @ [to_string (ae_echoingReplicaId e)]"
proof -
  have "arrivalEchoSigningPayload e = delimited CHR '':'' (payload_fields e) (to_string (ae_echoingReplicaId e))"
    by (simp add: arrivalEchoSigningPayload_def payload_fields_def)
  moreover have "\<forall>p \<in> set (payload_fields e). CHR '':'' \<notin> set p"
    using assms by (simp add: payload_fields_def plain_echo_def hashHex_def)
  ultimately show ?thesis
    by (simp only: splitStr_delimited) (simp add: splitStr_plain)
qed

lemma bool_text_inj: "bool_text a = bool_text b \<longleftrightarrow> a = b"
  by (simp add: bool_text_def)

lemma to_string_eq: "to_string i = to_string j \<longleftrightarrow> i = j"
  using to_string_inj by blast

lemma arrival_payload_inj:
  assumes "arrivalEchoSigningPayload e = arrivalEchoSigningPayload e'" and "plain_echo e" and "plain_echo e'"
  shows "ae_targetCarId e = ae_targetCarId e'" and "ae_lane e = ae_lane e'"
    and "ae_physicalLaneIndex e = ae_physicalLaneIndex e'" and "ae_lateralClaimCm e = ae_lateralClaimCm e'"
    and "ae_positionInLane e = ae_positionInLane e'" and "ae_direction e = ae_direction e'"
    and "ae_observedCue e = ae_observedCue e'" and "ae_claimHash e = ae_claimHash e'"
    and "ae_isAmbulance e = ae_isAmbulance e'" and "ae_epoch e = ae_epoch e'"
    and "ae_echoingReplicaId e = ae_echoingReplicaId e'"
proof -
  have "payload_fields e @ [to_string (ae_echoingReplicaId e)] = payload_fields e' @ [to_string (ae_echoingReplicaId e')]"
    using split_payload [OF assms(2)] split_payload [OF assms(3)] assms(1) by metis
  then show "ae_targetCarId e = ae_targetCarId e'" "ae_lane e = ae_lane e'"
    "ae_physicalLaneIndex e = ae_physicalLaneIndex e'" "ae_lateralClaimCm e = ae_lateralClaimCm e'"
    "ae_positionInLane e = ae_positionInLane e'" "ae_direction e = ae_direction e'"
    "ae_observedCue e = ae_observedCue e'" "ae_claimHash e = ae_claimHash e'"
    "ae_isAmbulance e = ae_isAmbulance e'" "ae_epoch e = ae_epoch e'"
    "ae_echoingReplicaId e = ae_echoingReplicaId e'"
    by (simp_all add: payload_fields_def to_string_eq dirToStr_inj cue_code_inj bool_text_inj hashHex_def)
      (blast dest: toHex_inj)
qed

lemma to_bytes_inj: "to_bytes a = to_bytes b \<longleftrightarrow> a = b"
  by (metis of_to_bytes)

section \<open>What a valid certificate shows\<close>

lemma validate_scan:
  assumes "validateArrivalCert cfg keys verify cert"
  obtains n where "arrival_scan cfg keys verify cert (ac_echoes cert) [] 0 = Some n" and "cert_fault_bound cfg < n"
  using assms by (auto simp: validateArrivalCert_def Let_def split: if_split_asm option.split_asm)

lemma valid_echo_fields:
  assumes "isValidArrivalEchoForCert cfg keys verify e cert"
  shows "isArrivalSignerEligible cfg (ae_echoingReplicaId e)" and "echo_matches_cert e cert"
    and "key_matches keys (ae_echoingReplicaId e) (ae_signerPubKey e)" and "arrival_echo_verifies verify e"
    and "ae_signatureLen e \<noteq> 0"
  using assms by (simp_all add: isValidArrivalEchoForCert_def split: if_split_asm)

text \<open>
  C29: an accepted arrival certificate has a correct witness. When at most the tolerated
  number of configured replicas are faulty and signatures under registered keys of correct
  replicas cannot be forged, one of its echoes is a correct replica's own statement about
  exactly the certified lane, position, direction, ambulance flag, claim hash and epoch.
\<close>

theorem arrival_certificate_has_correct_witness:
  assumes "validateArrivalCert cfg keys verify cert"
    and "0 \<le> cert_fault_bound cfg"
    and "int (card ({i. isArrivalSignerEligible cfg i} \<inter> Bad)) \<le> cert_fault_bound cfg"
    and unforgeable: "\<forall>i k msg sig. i \<notin> Bad \<and> key_matches keys i k \<and> verify k msg sig \<longrightarrow> msg \<in> signed_by i"
  shows "\<exists>e \<in> set (ac_echoes cert). ae_echoingReplicaId e \<notin> Bad \<and> echo_matches_cert e cert \<and>
    isArrivalSignerEligible cfg (ae_echoingReplicaId e) \<and>
    to_bytes (arrivalEchoSigningPayload e) \<in> signed_by (ae_echoingReplicaId e)"
proof -
  obtain n where "arrival_scan cfg keys verify cert (ac_echoes cert) [] 0 = Some n" "cert_fault_bound cfg < n"
    using validate_scan [OF assms(1)] .
  then obtain e where "e \<in> set (ac_echoes cert)" "isValidArrivalEchoForCert cfg keys verify e cert"
    "ae_echoingReplicaId e \<notin> Bad"
    using arrival_quorum.correct_signer assms(2,3) finite_eligible by metis
  then show ?thesis
    using unforgeable valid_echo_fields [of cfg keys verify e cert] unfolding arrival_echo_verifies_def by blast
qed

definition demo_config :: AppConfig where
  "demo_config = \<lparr>cf_replicaId = 0, cf_total_vehicles = 4, cf_tolerated_faults = - 1,
     cf_lane_observation_mode = CATEGORICAL_CARDINAL, cf_direction_eligibility_enabled = True,
     cf_adjacent_lateral_enabled = False, cf_adjacent_lane_separation_m = 3\<rparr>"

definition demo_arrival_keys :: WitnessKeyRegistry where
  "demo_arrival_keys = map (\<lambda>i. (i, resize CRYPTO_PUBKEY_BYTES [word_of_int i])) [0, 1, 2, 3]"

definition demo_signed :: "int \<Rightarrow> ArrivalEcho" where
  "demo_signed i = (demo_arrival_echo i [word_of_int i])\<lparr>ae_claimHash := [7]\<rparr>"

definition demo_signed_cert :: "ArrivalEcho list \<Rightarrow> ArrivalCert" where
  "demo_signed_cert es = (demo_arrival_cert es)\<lparr>ac_claimHash := [7]\<rparr>"

text \<open>The signature scheme of the instances: a signature of 70 equal bytes is by replica 1 to 3.\<close>

definition demo_arrival_verify :: "bytes \<Rightarrow> bytes \<Rightarrow> bytes \<Rightarrow> bool" where
  "demo_arrival_verify pk msg sig \<longleftrightarrow> sig = replicate 70 9 \<and>
     msg \<in> set (map (\<lambda>i. to_bytes (arrivalEchoSigningPayload (demo_signed i))) [1, 2, 3])"

definition demo_signed_by :: "int \<Rightarrow> bytes set" where
  "demo_signed_by i = set (map (\<lambda>j. to_bytes (arrivalEchoSigningPayload (demo_signed j))) [1, 2, 3])"

theorem arrival_certificate_has_correct_witness_witness:
  "\<exists>e \<in> set (ac_echoes (demo_signed_cert [demo_signed 1, demo_signed 3])).
     ae_echoingReplicaId e \<notin> {1} \<and>
     echo_matches_cert e (demo_signed_cert [demo_signed 1, demo_signed 3]) \<and>
     isArrivalSignerEligible demo_config (ae_echoingReplicaId e) \<and>
     to_bytes (arrivalEchoSigningPayload e) \<in> demo_signed_by (ae_echoingReplicaId e)"
proof (rule arrival_certificate_has_correct_witness)
  show "validateArrivalCert demo_config demo_arrival_keys demo_arrival_verify
      (demo_signed_cert [demo_signed 1, demo_signed 3])"
    by code_simp
  have f: "cert_fault_bound demo_config = 1" by code_simp
  then show "0 \<le> cert_fault_bound demo_config" by simp
  have "{i. isArrivalSignerEligible demo_config i} \<inter> {1} = {1}"
    by (auto simp: isArrivalSignerEligible_def demo_config_def)
  then show "int (card ({i. isArrivalSignerEligible demo_config i} \<inter> {1})) \<le> cert_fault_bound demo_config"
    using f by simp
qed (simp add: demo_arrival_verify_def demo_signed_by_def)

text \<open>
  A false turn declaration is quarantined. Suppose every correct replica signs only
  echoes that carry the turn signal it observed on the target in that epoch. If scheduling
  treats a certificate as entitled to its declared direction, then some correct replica
  did observe that signal on the target; with the physical lanes observed, the direction is
  also one the certified lane permits.
\<close>

theorem eligible_direction_was_observed:
  assumes "eligibleDirection cfg keys verify cert \<noteq> DIR_UNKNOWN" and "cf_direction_eligibility_enabled cfg"
    and "0 \<le> cert_fault_bound cfg"
    and "int (card ({i. isArrivalSignerEligible cfg i} \<inter> Bad)) \<le> cert_fault_bound cfg"
    and unforgeable: "\<forall>i k msg sig. i \<notin> Bad \<and> key_matches keys i k \<and> verify k msg sig \<longrightarrow> msg \<in> signed_by i"
    and honest: "\<forall>i msg. i \<notin> Bad \<and> msg \<in> signed_by i \<longrightarrow>
      (\<exists>e. msg = to_bytes (arrivalEchoSigningPayload e) \<and> plain_echo e \<and>
         ae_observedCue e = observed i (ae_targetCarId e) (ae_epoch e))"
    and "CHR '':'' \<notin> set (ac_carId cert)" and "CHR '':'' \<notin> set (ac_lane cert)"
  shows "eligibleDirection cfg keys verify cert = ac_direction cert \<and>
    (\<exists>i. i \<notin> Bad \<and> observed i (ac_carId cert) (ac_epoch cert) = cue_of_direction (ac_direction cert)) \<and>
    (cf_lane_observation_mode cfg = ADJACENT_LATERAL \<longrightarrow>
      (ac_physicalLaneIndex cert = 0 \<and> ac_direction cert \<in> {DIR_STRAIGHT, DIR_RIGHT}) \<or>
      (ac_physicalLaneIndex cert = 1 \<and> ac_direction cert = DIR_LEFT))"
proof -
  have d: "eligibleDirection cfg keys verify cert = ac_direction cert"
    and lane: "physicalLaneAuthorizesDirection cfg cert"
    and sup: "cert_fault_bound cfg < directionSupport cfg keys verify cert"
    using assms(1,2) by (auto simp: eligibleDirection_def split: if_split_asm)
  obtain e where e: "isValidArrivalEchoForCert cfg keys verify e cert"
      "ae_observedCue e = cue_of_direction (ac_direction cert)" "ae_echoingReplicaId e \<notin> Bad"
    using support_quorum.correct_signer [OF refl sup [unfolded directionSupport_def] assms(3) finite_eligible assms(4)]
    by blast
  then have m: "echo_matches_cert e cert"
    and "to_bytes (arrivalEchoSigningPayload e) \<in> signed_by (ae_echoingReplicaId e)"
    using unforgeable valid_echo_fields [of cfg keys verify e cert] unfolding arrival_echo_verifies_def by blast+
  with honest e(3) have "\<exists>e'. to_bytes (arrivalEchoSigningPayload e) = to_bytes (arrivalEchoSigningPayload e') \<and>
      plain_echo e' \<and> ae_observedCue e' = observed (ae_echoingReplicaId e) (ae_targetCarId e') (ae_epoch e')"
    by blast
  then obtain e' where e': "arrivalEchoSigningPayload e = arrivalEchoSigningPayload e'" "plain_echo e'"
      "ae_observedCue e' = observed (ae_echoingReplicaId e) (ae_targetCarId e') (ae_epoch e')"
    unfolding to_bytes_inj by blast
  have "plain_echo e"
    using m assms(7,8) by (simp add: plain_echo_def echo_matches_cert_def)
  with e' m e(2) have "observed (ae_echoingReplicaId e) (ac_carId cert) (ac_epoch cert) =
      cue_of_direction (ac_direction cert)"
    using arrival_payload_inj(1,7,10) [OF e'(1)] by (simp add: echo_matches_cert_def)
  then show ?thesis
    using d lane e(3) by (auto simp: physicalLaneAuthorizesDirection_def split: if_split_asm)
qed

definition demo_verify3 :: "bytes \<Rightarrow> bytes \<Rightarrow> bytes \<Rightarrow> bool" where
  "demo_verify3 k m s \<longleftrightarrow> demo_arrival_verify k m s \<and>
     (k = resize 33 [1] \<or> k = resize 33 [3] \<and> m = to_bytes (arrivalEchoSigningPayload (demo_signed 3)))"

lemma demo_key_owner:
  "key_matches demo_arrival_keys i (resize 33 [1]) \<Longrightarrow> i = 1"
  "key_matches demo_arrival_keys i (resize 33 [3]) \<Longrightarrow> i = 3"
  by (auto simp: key_matches_def demo_arrival_keys_def om_get_def resize_def CRYPTO_PUBKEY_BYTES_def split: if_splits)

theorem eligible_direction_was_observed_witness:
  "\<exists>i. i \<notin> {1 :: int} \<and> (if i = 3 then CUE_LEFT else CUE_STRAIGHT) = CUE_LEFT"
proof -
  let ?cert = "demo_signed_cert [demo_signed 1, demo_signed 3]"
  let ?m3 = "to_bytes (arrivalEchoSigningPayload (demo_signed 3))"
  let ?signed = "\<lambda>i::int. if i = 3 then {?m3} else {}"
  let ?obs = "\<lambda>(i::int) (c::string) (e::int). if i = 3 then CUE_LEFT else CUE_STRAIGHT"
  have f: "cert_fault_bound demo_config = 1" and d: "ac_direction ?cert = DIR_LEFT" by code_simp+
  have "eligibleDirection demo_config demo_arrival_keys demo_verify3 ?cert = ac_direction ?cert \<and>
      (\<exists>i. i \<notin> {1} \<and> ?obs i (ac_carId ?cert) (ac_epoch ?cert) = cue_of_direction (ac_direction ?cert)) \<and>
      (cf_lane_observation_mode demo_config = ADJACENT_LATERAL \<longrightarrow>
        (ac_physicalLaneIndex ?cert = 0 \<and> ac_direction ?cert \<in> {DIR_STRAIGHT, DIR_RIGHT}) \<or>
        (ac_physicalLaneIndex ?cert = 1 \<and> ac_direction ?cert = DIR_LEFT))"
  proof (rule eligible_direction_was_observed [where signed_by = ?signed and observed = ?obs and cert = ?cert and Bad = "{1}"])
    show "eligibleDirection demo_config demo_arrival_keys demo_verify3 ?cert \<noteq> DIR_UNKNOWN" by code_simp
    show "cf_direction_eligibility_enabled demo_config" by code_simp
    show "0 \<le> cert_fault_bound demo_config" using f by simp
    have "{i. isArrivalSignerEligible demo_config i} \<inter> {1} = {1}"
      by (auto simp: isArrivalSignerEligible_def demo_config_def)
    then show "int (card ({i. isArrivalSignerEligible demo_config i} \<inter> {1})) \<le> cert_fault_bound demo_config"
      using f by simp
    show "\<forall>i k msg sig. i \<notin> {1} \<and> key_matches demo_arrival_keys i k \<and> demo_verify3 k msg sig \<longrightarrow> msg \<in> ?signed i"
      by (auto simp: demo_verify3_def dest: demo_key_owner)
    have "plain_echo (demo_signed 3)" "ae_observedCue (demo_signed 3) = CUE_LEFT" by code_simp+
    then show "\<forall>i msg. i \<notin> {1} \<and> msg \<in> ?signed i \<longrightarrow> (\<exists>e. msg = to_bytes (arrivalEchoSigningPayload e) \<and>
        plain_echo e \<and> ae_observedCue e = ?obs i (ae_targetCarId e) (ae_epoch e))"
      by (auto split: if_split_asm)
    show "CHR '':'' \<notin> set (ac_carId ?cert)" "CHR '':'' \<notin> set (ac_lane ?cert)" by code_simp+
  qed
  then show ?thesis using d by auto
qed

end
