(* ===== verification/DistanceCert.thy ===== *)
theory DistanceCert
  imports ArrivalCert
begin

text \<open>
  Stopped-distance attestations, echoes and certificates of \<^verbatim>\<open>ResDBDistanceProtocol.cc\<close>:
  their encodings, the validation of certificates and the queue ranks derived from them.
  The decoders catch every exception and deliver the empty object instead. The digest is the
  parameter \<open>hash\<close>.
\<close>

section \<open>Messages\<close>

record StoppedDistanceAttestation =
  sa_targetCarId :: string
  sa_epoch :: int
  sa_earlyClaimHash :: bytes
  sa_distanceToStopCm :: int
  sa_signature :: bytes

record StoppedDistanceEcho =
  se_echoingReplicaId :: int
  se_targetCarId :: string
  se_epoch :: int
  se_earlyClaimHash :: bytes
  se_attestationHash :: bytes
  se_distanceToStopCm :: int
  se_signerPubKey :: bytes
  se_signature :: bytes
  se_signatureLen :: byte

record StoppedDistanceCert =
  sd_attestation :: StoppedDistanceAttestation
  sd_echoes :: "StoppedDistanceEcho list"

definition empty_attestation :: StoppedDistanceAttestation where
  "empty_attestation = \<lparr>sa_targetCarId = [], sa_epoch = 0, sa_earlyClaimHash = replicate 32 0,
     sa_distanceToStopCm = 0, sa_signature = []\<rparr>"

definition empty_distance_echo :: StoppedDistanceEcho where
  "empty_distance_echo = \<lparr>se_echoingReplicaId = - 1, se_targetCarId = [], se_epoch = 0,
     se_earlyClaimHash = replicate 32 0, se_attestationHash = replicate 32 0, se_distanceToStopCm = 0,
     se_signerPubKey = replicate CRYPTO_PUBKEY_BYTES 0, se_signature = replicate CRYPTO_SIG_MAX_BYTES 0,
     se_signatureLen = 0\<rparr>"

definition empty_distance_cert :: StoppedDistanceCert where
  "empty_distance_cert = \<lparr>sd_attestation = empty_attestation, sd_echoes = []\<rparr>"

section \<open>Attestations\<close>

definition canonicalStoppedDistanceAttestationPayload :: "StoppedDistanceAttestation \<Rightarrow> string" where
  "canonicalStoppedDistanceAttestationPayload att =
     sa_targetCarId att @ CHR ''|'' # to_string (sa_epoch att) @ CHR ''|'' #
     hashHex (sa_earlyClaimHash att) @ CHR ''|'' # to_string (sa_distanceToStopCm att)"

definition serializeStoppedDistanceAttestation :: "StoppedDistanceAttestation \<Rightarrow> bytes" where
  "serializeStoppedDistanceAttestation att =
     (let hdr = to_bytes (canonicalStoppedDistanceAttestationPayload att @ CHR ''|'' #
        to_string (int (length (sa_signature att))) @ ''|'')
      in resize (length hdr + CRYPTO_SIG_MAX_BYTES) (hdr @ sa_signature att))"

definition parse_attestation :: "bytes \<Rightarrow> StoppedDistanceAttestation option" where
  "parse_attestation payload =
     (let text = of_bytes payload; parts = splitStr text CHR ''|'' in
      if length parts < 6 then None
      else case stoi (parts ! 1) of None \<Rightarrow> None | Some epoch \<Rightarrow>
        (case fromHex (parts ! 2) of None \<Rightarrow> None | Some early \<Rightarrow>
         if length early \<noteq> 32 then None
         else case stoi (parts ! 3) of None \<Rightarrow> None | Some distance \<Rightarrow>
        (case stoi (parts ! 4) of None \<Rightarrow> None | Some sigLen \<Rightarrow>
         let delimiter = length text - length (after_nth 5 CHR ''|'' text) in
         if sigLen \<le> 0 \<or> sigLen > int CRYPTO_SIG_MAX_BYTES \<or> delimiter + nat sigLen > length payload then None
         else Some \<lparr>sa_targetCarId = parts ! 0, sa_epoch = epoch, sa_earlyClaimHash = early,
           sa_distanceToStopCm = distance, sa_signature = take (nat sigLen) (drop delimiter payload)\<rparr>)))"

definition deserializeStoppedDistanceAttestation :: "bytes \<Rightarrow> StoppedDistanceAttestation" where
  "deserializeStoppedDistanceAttestation payload =
     (case parse_attestation payload of None \<Rightarrow> empty_attestation | Some att \<Rightarrow> att)"

definition stoppedDistanceAttestationHash :: "(bytes \<Rightarrow> bytes) \<Rightarrow> StoppedDistanceAttestation \<Rightarrow> bytes" where
  "stoppedDistanceAttestationHash hash att = hash (serializeStoppedDistanceAttestation att)"

definition validateStoppedDistanceAttestation ::
  "u32 \<Rightarrow> WitnessKeyRegistry \<Rightarrow> (bytes \<Rightarrow> bytes \<Rightarrow> bytes \<Rightarrow> bool) \<Rightarrow> StoppedDistanceAttestation \<Rightarrow> bool" where
  "validateStoppedDistanceAttestation current_epoch keys verify att =
     (let origin = extractReplicaId (sa_targetCarId att) in
      if origin < 0 \<or> sa_epoch att \<noteq> sint current_epoch \<or> sa_distanceToStopCm att < 0 \<or>
         sa_signature att = [] then False
      else case copyKey keys origin of
          None \<Rightarrow> False
        | Some key \<Rightarrow> verify key (to_bytes (canonicalStoppedDistanceAttestationPayload att))
            (take (length (sa_signature att) mod 256) (sa_signature att)))"

section \<open>Echoes\<close>

definition distance_echo_fields :: "StoppedDistanceEcho \<Rightarrow> string list" where
  "distance_echo_fields echo =
     [to_string (se_echoingReplicaId echo), se_targetCarId echo, to_string (se_epoch echo),
      hashHex (se_earlyClaimHash echo), hashHex (se_attestationHash echo)]"

definition stoppedDistanceEchoSigningPayload :: "StoppedDistanceEcho \<Rightarrow> string" where
  "stoppedDistanceEchoSigningPayload echo =
     delimited CHR ''|'' (distance_echo_fields echo) (to_string (se_distanceToStopCm echo))"

definition serializeStoppedDistanceEcho :: "StoppedDistanceEcho \<Rightarrow> bytes" where
  "serializeStoppedDistanceEcho echo =
     to_bytes (stoppedDistanceEchoSigningPayload echo @ CHR ''|'' #
       auth_text (se_signerPubKey echo) (se_signatureLen echo) (se_signature echo))"

definition parse_distance_echo :: "bytes \<Rightarrow> StoppedDistanceEcho option" where
  "parse_distance_echo payload =
     (let parts = splitStr (of_bytes payload) CHR ''|'' in
      if length parts < 7 then None
      else case stoi (parts ! 0) of None \<Rightarrow> None | Some signer \<Rightarrow>
        (case stoi (parts ! 2) of None \<Rightarrow> None | Some epoch \<Rightarrow>
        (case fromHex (parts ! 3) of None \<Rightarrow> None | Some early \<Rightarrow>
        (case fromHex (parts ! 4) of None \<Rightarrow> None | Some attHash \<Rightarrow>
         if length early \<noteq> 32 \<or> length attHash \<noteq> 32 then None
         else case stoi (parts ! 5) of None \<Rightarrow> None | Some distance \<Rightarrow>
        (case cut_two CHR '','' (parts ! 6) of None \<Rightarrow> None | Some (a, b, c) \<Rightarrow>
        (case fromHex a of None \<Rightarrow> None | Some pub \<Rightarrow>
        (case stoi b of None \<Rightarrow> None | Some sigLen \<Rightarrow>
        (case fromHex c of None \<Rightarrow> None | Some sig \<Rightarrow>
         if length pub \<noteq> CRYPTO_PUBKEY_BYTES \<or> length sig \<noteq> CRYPTO_SIG_MAX_BYTES \<or> sigLen \<le> 0 \<or>
            sigLen > int CRYPTO_SIG_MAX_BYTES then None
         else Some \<lparr>se_echoingReplicaId = signer, se_targetCarId = parts ! 1, se_epoch = epoch,
           se_earlyClaimHash = early, se_attestationHash = attHash, se_distanceToStopCm = distance,
           se_signerPubKey = pub, se_signature = sig, se_signatureLen = word_of_int sigLen\<rparr>))))))))"

definition deserializeStoppedDistanceEcho :: "bytes \<Rightarrow> StoppedDistanceEcho" where
  "deserializeStoppedDistanceEcho payload =
     (case parse_distance_echo payload of None \<Rightarrow> empty_distance_echo | Some echo \<Rightarrow> echo)"

section \<open>Certificates\<close>

text \<open>Big-endian lengths.\<close>

definition appendU32 :: "u32 \<Rightarrow> bytes" where
  "appendU32 value = [ucast (drop_bit 24 value), ucast (drop_bit 16 value),
     ucast (drop_bit 8 value), ucast value]"

definition readU32 :: "bytes \<Rightarrow> nat \<Rightarrow> (u32 \<times> nat) option" where
  "readU32 bs offset =
     (if offset + 4 > length bs then None
      else Some (or (or (or (push_bit 24 (ucast (bs ! offset))) (push_bit 16 (ucast (bs ! (offset + 1)))))
          (push_bit 8 (ucast (bs ! (offset + 2))))) (ucast (bs ! (offset + 3))), offset + 4))"

definition cert_magic :: bytes where
  "cert_magic = to_bytes ''SDC'' @ [1]"

definition serializeStoppedDistanceCert :: "StoppedDistanceCert \<Rightarrow> bytes" where
  "serializeStoppedDistanceCert cert =
     (let att = serializeStoppedDistanceAttestation (sd_attestation cert) in
      cert_magic @ appendU32 (of_nat (length att)) @ att @ appendU32 (of_nat (length (sd_echoes cert))) @
      concat (map (\<lambda>echo. let bs = serializeStoppedDistanceEcho echo in appendU32 (of_nat (length bs)) @ bs)
        (sd_echoes cert)))"

fun read_echoes :: "bytes \<Rightarrow> nat \<Rightarrow> nat \<Rightarrow> (StoppedDistanceEcho list \<times> nat) option" where
  "read_echoes bs 0 offset = Some ([], offset)"
| "read_echoes bs (Suc n) offset =
     (case readU32 bs offset of None \<Rightarrow> None
      | Some (echoLen, offset) \<Rightarrow>
          if echoLen = 0 \<or> offset + unat echoLen > length bs then None
          else map_option (\<lambda>(echoes, offset').
              (deserializeStoppedDistanceEcho (take (unat echoLen) (drop offset bs)) # echoes, offset'))
            (read_echoes bs n (offset + unat echoLen)))"

definition deserializeStoppedDistanceCert :: "int \<Rightarrow> bytes \<Rightarrow> StoppedDistanceCert" where
  "deserializeStoppedDistanceCert total_vehicles bs =
     (if length bs < 12 \<or> take 4 bs \<noteq> cert_magic then empty_distance_cert
      else case readU32 bs 4 of None \<Rightarrow> empty_distance_cert
      | Some (attLen, offset) \<Rightarrow>
          if attLen = 0 \<or> offset + unat attLen > length bs then empty_distance_cert
          else let att = deserializeStoppedDistanceAttestation (take (unat attLen) (drop offset bs)) in
            case readU32 bs (offset + unat attLen) of None \<Rightarrow> empty_distance_cert
            | Some (echoCount, offset) \<Rightarrow>
                if echoCount > word_of_int (max 0 (total_vehicles - 1)) then empty_distance_cert
                else case read_echoes bs (unat echoCount) offset of None \<Rightarrow> empty_distance_cert
                | Some (echoes, offset) \<Rightarrow>
                    if offset \<noteq> length bs then empty_distance_cert
                    else \<lparr>sd_attestation = att, sd_echoes = echoes\<rparr>)"

section \<open>Round trips\<close>

lemma length_appendU32 [simp]: "length (appendU32 v) = 4"
  by (simp add: appendU32_def)

lemma join_bytes:
  fixes v :: u32
  shows "or (or (or (push_bit 24 (ucast (ucast (drop_bit 24 v) :: byte)))
      (push_bit 16 (ucast (ucast (drop_bit 16 v) :: byte))))
      (push_bit 8 (ucast (ucast (drop_bit 8 v) :: byte)))) (ucast (ucast v :: byte)) = v"
proof (rule bit_word_eqI)
  fix n
  assume "n < LENGTH(32)"
  then consider "n < 8" | "8 \<le> n" "n < 16" | "16 \<le> n" "n < 24" | "24 \<le> n" "n < 32"
    by force
  then show "bit (or (or (or (push_bit 24 (ucast (ucast (drop_bit 24 v) :: byte)) :: u32)
      (push_bit 16 (ucast (ucast (drop_bit 16 v) :: byte))))
      (push_bit 8 (ucast (ucast (drop_bit 8 v) :: byte)))) (ucast (ucast v :: byte))) n = bit v n"
    by cases (auto simp: bit_simps)
qed

lemma readU32_append:
  assumes "length pre = offset"
  shows "readU32 (pre @ appendU32 v @ post) offset = Some (v, offset + 4)"
  using assms by (simp add: readU32_def appendU32_def nth_append join_bytes)

definition attestation_wf :: "StoppedDistanceAttestation \<Rightarrow> bool" where
  "attestation_wf att \<longleftrightarrow> CHR ''|'' \<notin> set (sa_targetCarId att) \<and> in_i32 (sa_epoch att) \<and>
     in_i32 (sa_distanceToStopCm att) \<and> length (sa_earlyClaimHash att) = 32 \<and>
     0 < length (sa_signature att) \<and> length (sa_signature att) \<le> CRYPTO_SIG_MAX_BYTES"

definition distance_echo_wf :: "StoppedDistanceEcho \<Rightarrow> bool" where
  "distance_echo_wf e \<longleftrightarrow> CHR ''|'' \<notin> set (se_targetCarId e) \<and> in_i32 (se_echoingReplicaId e) \<and>
     in_i32 (se_epoch e) \<and> in_i32 (se_distanceToStopCm e) \<and> length (se_earlyClaimHash e) = 32 \<and>
     length (se_attestationHash e) = 32 \<and> auth_wf (se_signerPubKey e) (se_signatureLen e) (se_signature e)"

lemma attestation_decoded:
  assumes wf: "attestation_wf att"
  shows "deserializeStoppedDistanceAttestation (serializeStoppedDistanceAttestation att) = att"
proof -
  let ?fs = "[sa_targetCarId att, to_string (sa_epoch att), hashHex (sa_earlyClaimHash att),
    to_string (sa_distanceToStopCm att), to_string (int (length (sa_signature att)))]"
  let ?sig = "sa_signature att"
  let ?pad = "replicate (CRYPTO_SIG_MAX_BYTES - length ?sig) (0 :: byte)"
  let ?hdr = "delimited CHR ''|'' ?fs []"
  define payload where "payload = to_bytes ?hdr @ ?sig @ ?pad"
  have p: "serializeStoppedDistanceAttestation att = payload"
    using wf by (simp add: serializeStoppedDistanceAttestation_def resize_def payload_def attestation_wf_def
        canonicalStoppedDistanceAttestationPayload_def Let_def)
  have s: "of_bytes payload = delimited CHR ''|'' ?fs (of_bytes (?sig @ ?pad))"
    by (simp add: payload_def)
  have plain: "\<forall>f \<in> set ?fs. CHR ''|'' \<notin> set f"
    using wf by (simp add: attestation_wf_def hashHex_def)
  define parts where "parts = splitStr (of_bytes payload) CHR ''|''"
  have split: "parts = ?fs @ splitStr (of_bytes (?sig @ ?pad)) CHR ''|''"
    unfolding parts_def s by (rule splitStr_delimited [OF plain])
  have "splitStr (of_bytes (?sig @ ?pad)) CHR ''|'' \<noteq> []"
    by (simp add: splitStr_def)
  then have len: "\<not> length parts < 6"
    unfolding split by (cases "splitStr (of_bytes (?sig @ ?pad)) CHR ''|''") simp_all
  have f: "parts ! 0 = sa_targetCarId att" "parts ! 1 = to_string (sa_epoch att)"
    "parts ! 2 = toHex (sa_earlyClaimHash att)" "parts ! 3 = to_string (sa_distanceToStopCm att)"
    "parts ! 4 = to_string (int (length ?sig))"
    by (simp_all add: split hashHex_def)
  have rest: "after_nth 5 CHR ''|'' (of_bytes payload) = of_bytes (?sig @ ?pad)"
    unfolding s by (rule after_nth_delimited [OF plain]) simp
  have off: "length (of_bytes payload) - length (after_nth 5 CHR ''|'' (of_bytes payload)) = length ?hdr"
    unfolding rest by (simp add: payload_def)
  have w: "in_i32 (sa_epoch att)" "in_i32 (sa_distanceToStopCm att)" "in_i32 (int (length ?sig))"
    using wf by (simp_all add: attestation_wf_def in_i32_def CRYPTO_SIG_MAX_BYTES_def)
  have sig: "0 < length ?sig" "length ?sig \<le> CRYPTO_SIG_MAX_BYTES" "length (sa_earlyClaimHash att) = 32"
    using wf by (simp_all add: attestation_wf_def)
  have t: "take (length ?sig) (drop (length ?hdr) payload) = ?sig"
    by (simp add: payload_def)
  have l: "length ?hdr + length ?sig \<le> length payload"
    by (simp add: payload_def)
  have "parse_attestation payload = Some att"
    unfolding parse_attestation_def Let_def parts_def [symmetric] f stoi_to_string [OF w(1)]
      stoi_to_string [OF w(2)] stoi_to_string [OF w(3)] fromHex_toHex off option.case
    using len sig t l by simp
  then show ?thesis
    by (simp add: p deserializeStoppedDistanceAttestation_def)
qed

lemma distance_echo_decoded:
  assumes wf: "distance_echo_wf e"
  shows "deserializeStoppedDistanceEcho (serializeStoppedDistanceEcho e) = e"
proof -
  let ?a = "auth_text (se_signerPubKey e) (se_signatureLen e) (se_signature e)"
  let ?fs = "distance_echo_fields e @ [to_string (se_distanceToStopCm e)]"
  define parts where "parts = splitStr (of_bytes (serializeStoppedDistanceEcho e)) CHR ''|''"
  have plain: "\<forall>f \<in> set ?fs. CHR ''|'' \<notin> set f"
    using wf by (simp add: distance_echo_fields_def distance_echo_wf_def hashHex_def)
  have "of_bytes (serializeStoppedDistanceEcho e) = delimited CHR ''|'' ?fs ?a"
    by (simp add: serializeStoppedDistanceEcho_def stoppedDistanceEchoSigningPayload_def distance_echo_fields_def)
  then have split: "parts = ?fs @ [?a]"
    unfolding parts_def by (simp only: splitStr_delimited [OF plain]) (simp add: splitStr_plain)
  have f: "parts ! 0 = to_string (se_echoingReplicaId e)" "parts ! 1 = se_targetCarId e"
    "parts ! 2 = to_string (se_epoch e)" "parts ! 3 = toHex (se_earlyClaimHash e)"
    "parts ! 4 = toHex (se_attestationHash e)" "parts ! 5 = to_string (se_distanceToStopCm e)"
    "parts ! 6 = ?a" and len: "\<not> length parts < 7"
    by (simp_all add: split distance_echo_fields_def hashHex_def)
  have w: "in_i32 (se_echoingReplicaId e)" "in_i32 (se_epoch e)" "in_i32 (se_distanceToStopCm e)"
    and h: "length (se_earlyClaimHash e) = 32" "length (se_attestationHash e) = 32"
    and a: "length (se_signerPubKey e) = CRYPTO_PUBKEY_BYTES" "length (se_signature e) = CRYPTO_SIG_MAX_BYTES"
      "0 < unat (se_signatureLen e)" "unat (se_signatureLen e) \<le> CRYPTO_SIG_MAX_BYTES"
    using wf by (simp_all add: distance_echo_wf_def auth_wf_def)
  have c: "cut_two CHR '','' ?a = Some (toHex (se_signerPubKey e), to_string (uint (se_signatureLen e)), toHex (se_signature e))"
    by (simp add: auth_text_def)
  have u: "0 < uint (se_signatureLen e)" "uint (se_signatureLen e) \<le> int CRYPTO_SIG_MAX_BYTES"
    using a(3,4) by (simp_all only: uint_nat of_nat_0_less_iff of_nat_le_iff)
  have "parse_distance_echo (serializeStoppedDistanceEcho e) = Some e"
    unfolding parse_distance_echo_def Let_def parts_def [symmetric] f stoi_to_string [OF w(1)]
      stoi_to_string [OF w(2)] stoi_to_string [OF w(3)] fromHex_toHex option.case c prod.case
      stoi_to_string [OF in_i32_byte]
    using len h a(1,2) u by simp
  then show ?thesis
    by (simp add: deserializeStoppedDistanceEcho_def)
qed

definition echo_frame :: "StoppedDistanceEcho \<Rightarrow> bytes" where
  "echo_frame e = appendU32 (of_nat (length (serializeStoppedDistanceEcho e))) @ serializeStoppedDistanceEcho e"

lemma unat_of_nat32: "n < 2 ^ 32 \<Longrightarrow> unat (of_nat n :: u32) = n"
  by (simp add: unat_of_nat)

lemma serialized_echo_nonempty: "0 < length (serializeStoppedDistanceEcho e)"
  by (simp add: serializeStoppedDistanceEcho_def auth_text_def)

lemma read_echoes_frames:
  assumes "\<forall>e \<in> set es. distance_echo_wf e \<and> length (serializeStoppedDistanceEcho e) < 2 ^ 32"
  shows "read_echoes (pre @ concat (map echo_frame es)) (length es) (length pre) =
    Some (es, length pre + length (concat (map echo_frame es)))"
  using assms
proof (induction es arbitrary: pre)
  case (Cons e es)
  let ?bs = "serializeStoppedDistanceEcho e"
  let ?rest = "concat (map echo_frame es)"
  let ?pre = "pre @ appendU32 (of_nat (length ?bs)) @ ?bs"
  define W where "W = pre @ concat (map echo_frame (e # es))"
  have n: "unat (of_nat (length ?bs) :: u32) = length ?bs"
    using Cons.prems by (intro unat_of_nat32) simp
  have whole: "W = pre @ appendU32 (of_nat (length ?bs)) @ ?bs @ ?rest"
    by (simp add: W_def echo_frame_def)
  have r: "readU32 W (length pre) = Some (of_nat (length ?bs), length pre + 4)"
    unfolding whole by (rule readU32_append) simp
  have nz: "(of_nat (length ?bs) :: u32) \<noteq> 0"
    using n serialized_echo_nonempty [of e] by (metis less_irrefl unat_0)
  have t: "take (length ?bs) (drop (length pre + 4) W) = ?bs"
    unfolding whole by simp
  have "read_echoes (?pre @ ?rest) (length es) (length ?pre) = Some (es, length ?pre + length ?rest)"
    using Cons.prems by (intro Cons.IH) simp
  moreover have "?pre @ ?rest = W" "length ?pre = length pre + 4 + length ?bs"
    unfolding whole by simp_all
  ultimately have ih: "read_echoes W (length es) (length pre + 4 + length ?bs) =
      Some (es, length ?pre + length ?rest)"
    by metis
  have l: "length W = length pre + 4 + length ?bs + length ?rest"
    unfolding whole by simp
  have d: "deserializeStoppedDistanceEcho ?bs = e"
    using Cons.prems by (simp add: distance_echo_decoded)
  have "read_echoes W (Suc (length es)) (length pre) = Some (e # es, length ?pre + length ?rest)"
    unfolding read_echoes.simps r option.case prod.case n t ih using nz l d by simp
  moreover have "length ?pre + length ?rest = length pre + length (concat (map echo_frame (e # es)))"
    by (simp add: echo_frame_def)
  ultimately show ?case
    unfolding W_def by (simp only: list.size add_0_right add_Suc_right)
qed simp

definition distance_cert_wf :: "int \<Rightarrow> StoppedDistanceCert \<Rightarrow> bool" where
  "distance_cert_wf total_vehicles cert \<longleftrightarrow> attestation_wf (sd_attestation cert) \<and>
     length (serializeStoppedDistanceAttestation (sd_attestation cert)) < 2 ^ 32 \<and>
     list_all (\<lambda>e. distance_echo_wf e \<and> length (serializeStoppedDistanceEcho e) < 2 ^ 32) (sd_echoes cert) \<and>
     int (length (sd_echoes cert)) \<le> total_vehicles - 1 \<and> total_vehicles \<le> 2 ^ 31"

lemma distance_cert_decoded:
  assumes wf: "distance_cert_wf total_vehicles cert"
  shows "deserializeStoppedDistanceCert total_vehicles (serializeStoppedDistanceCert cert) = cert"
proof -
  let ?att = "serializeStoppedDistanceAttestation (sd_attestation cert)"
  let ?es = "sd_echoes cert"
  let ?frames = "concat (map echo_frame ?es)"
  define W where "W = serializeStoppedDistanceCert cert"
  have m: "length cert_magic = 4" by (simp add: cert_magic_def)
  have whole: "W = cert_magic @ appendU32 (of_nat (length ?att)) @ ?att @ appendU32 (of_nat (length ?es)) @ ?frames"
    by (simp add: W_def serializeStoppedDistanceCert_def echo_frame_def [abs_def] Let_def)
  have w: "attestation_wf (sd_attestation cert)" "length ?att < 2 ^ 32"
    and es: "\<forall>e \<in> set ?es. distance_echo_wf e \<and> length (serializeStoppedDistanceEcho e) < 2 ^ 32"
    and count: "int (length ?es) \<le> total_vehicles - 1" "total_vehicles \<le> 2 ^ 31"
    using wf by (simp_all add: distance_cert_wf_def list_all_iff)
  have n: "unat (of_nat (length ?att) :: u32) = length ?att" "unat (of_nat (length ?es) :: u32) = length ?es"
    using w(2) count by (simp_all add: unat_of_nat32)
  have "0 < length ?att"
    by (simp add: serializeStoppedDistanceAttestation_def resize_def Let_def)
  then have nz: "(of_nat (length ?att) :: u32) \<noteq> 0"
    using n(1) by (metis less_irrefl unat_0)
  have r1: "readU32 W 4 = Some (of_nat (length ?att), 8)"
    unfolding whole using readU32_append [OF m] by simp
  have p: "length (cert_magic @ appendU32 (of_nat (length ?att)) @ ?att) = 8 + length ?att"
    by (simp add: m)
  have r2: "readU32 W (8 + length ?att) = Some (of_nat (length ?es), 8 + length ?att + 4)"
    unfolding whole using readU32_append [OF p] by simp
  have t: "take (length ?att) (drop 8 W) = ?att"
    unfolding whole by (simp add: m)
  have p2: "length (cert_magic @ appendU32 (of_nat (length ?att)) @ ?att @ appendU32 (of_nat (length ?es))) = 8 + length ?att + 4"
    by (simp add: m)
  have r3: "read_echoes W (length ?es) (8 + length ?att + 4) = Some (?es, 8 + length ?att + 4 + length ?frames)"
    using read_echoes_frames [OF es, of "cert_magic @ appendU32 (of_nat (length ?att)) @ ?att @ appendU32 (of_nat (length ?es))"]
    unfolding p2 by (simp add: whole)
  have l: "length W = 8 + length ?att + 4 + length ?frames" and h: "take 4 W = cert_magic"
    unfolding whole by (simp_all add: m)
  have le: "\<not> of_nat (length ?es) > (word_of_int (max 0 (total_vehicles - 1)) :: u32)"
  proof -
    have "uint (word_of_int (max 0 (total_vehicles - 1)) :: u32) = max 0 (total_vehicles - 1)"
    proof -
      have "uint (word_of_int k :: u32) = k" if "0 \<le> k" "k < 2 ^ 31" for k
        using that by (simp add: uint_word_of_int)
      then show ?thesis using count by (simp only: max_def split: if_split) simp
    qed
    moreover have "uint (of_nat (length ?es) :: u32) = int (length ?es)"
      using n(2) by (simp only: uint_nat)
    ultimately show ?thesis
      using count by (simp only: word_less_def not_less)
  qed
  have "deserializeStoppedDistanceCert total_vehicles W = cert"
    unfolding deserializeStoppedDistanceCert_def Let_def r1 option.case prod.case n t r2 r3
    using nz l h le by (simp add: attestation_decoded [OF w(1)])
  then show ?thesis by (simp add: W_def)
qed

section \<open>Validation\<close>

definition distance_echo_ok ::
  "AppConfig \<Rightarrow> WitnessKeyRegistry \<Rightarrow> (bytes \<Rightarrow> bytes \<Rightarrow> bytes \<Rightarrow> bool) \<Rightarrow> StoppedDistanceAttestation \<Rightarrow>
   bytes \<Rightarrow> StoppedDistanceEcho \<Rightarrow> bool" where
  "distance_echo_ok cfg keys verify att attHash echo \<longleftrightarrow>
     isArrivalSignerEligible cfg (se_echoingReplicaId echo) \<and> se_signatureLen echo \<noteq> 0 \<and>
     se_targetCarId echo = sa_targetCarId att \<and> se_epoch echo = sa_epoch att \<and>
     se_earlyClaimHash echo = sa_earlyClaimHash att \<and> se_attestationHash echo = attHash \<and>
     se_distanceToStopCm echo = sa_distanceToStopCm att \<and>
     key_matches keys (se_echoingReplicaId echo) (se_signerPubKey echo) \<and>
     verify (se_signerPubKey echo) (to_bytes (stoppedDistanceEchoSigningPayload echo))
       (take (unat (se_signatureLen echo)) (se_signature echo))"

text \<open>The first unsound echo ends the scan; \<open>Some n\<close> counts the echoes passed.\<close>

fun distance_scan ::
  "AppConfig \<Rightarrow> WitnessKeyRegistry \<Rightarrow> (bytes \<Rightarrow> bytes \<Rightarrow> bytes \<Rightarrow> bool) \<Rightarrow> StoppedDistanceAttestation \<Rightarrow>
   bytes \<Rightarrow> StoppedDistanceEcho list \<Rightarrow> int list \<Rightarrow> int \<Rightarrow> int option" where
  "distance_scan cfg keys verify att attHash [] seen passed = Some passed"
| "distance_scan cfg keys verify att attHash (echo # echoes) seen passed =
     (if \<not> os_new (se_echoingReplicaId echo) seen then None
      else if \<not> distance_echo_ok cfg keys verify att attHash echo then None
      else distance_scan cfg keys verify att attHash echoes
        (os_insert (se_echoingReplicaId echo) seen) (passed + 1))"

definition validateStoppedDistanceCert ::
  "AppConfig \<Rightarrow> u32 \<Rightarrow> (bytes \<Rightarrow> bytes) \<Rightarrow> WitnessKeyRegistry \<Rightarrow> (bytes \<Rightarrow> bytes \<Rightarrow> bytes \<Rightarrow> bool) \<Rightarrow>
   StoppedDistanceCert \<Rightarrow> bool" where
  "validateStoppedDistanceCert cfg current_epoch hash keys verify cert =
     (if \<not> validateStoppedDistanceAttestation current_epoch keys verify (sd_attestation cert) then False
      else let required = cert_fault_bound cfg + 1 in
        if 1 + int (length (sd_echoes cert)) < required \<or>
           int (length (sd_echoes cert)) > max 0 (cf_total_vehicles cfg - 1) then False
        else distance_scan cfg keys verify (sd_attestation cert)
            (stoppedDistanceAttestationHash hash (sd_attestation cert)) (sd_echoes cert)
            [extractReplicaId (sa_targetCarId (sd_attestation cert))] 0 \<noteq> None)"

lemma distance_scan_signers:
  "distance_scan cfg keys verify att attHash echoes seen passed = Some n \<Longrightarrow>
     \<exists>S. finite S \<and> S \<inter> set seen = {} \<and> n = passed + int (card S) \<and>
       (\<forall>i \<in> S. \<exists>e \<in> set echoes. se_echoingReplicaId e = i \<and> distance_echo_ok cfg keys verify att attHash e)"
proof (induction echoes arbitrary: seen passed)
  case Nil
  then show ?case by (intro exI [of _ "{}"]) simp
next
  case (Cons echo echoes)
  then have new: "os_new (se_echoingReplicaId echo) seen" and ok: "distance_echo_ok cfg keys verify att attHash echo"
    and "distance_scan cfg keys verify att attHash echoes (os_insert (se_echoingReplicaId echo) seen) (passed + 1) = Some n"
    by (simp_all split: if_split_asm)
  from Cons.IH [OF this(3)] show ?case
    by (intro scan_step [where ok = True, OF _ new]) (simp_all add: ok)
qed

lemma distance_scan_length:
  "distance_scan cfg keys verify att attHash echoes seen passed = Some n \<Longrightarrow> n = passed + int (length echoes)"
proof (induction echoes arbitrary: seen passed)
  case (Cons echo echoes)
  then have "distance_scan cfg keys verify att attHash echoes (os_insert (se_echoingReplicaId echo) seen) (passed + 1) = Some n"
    by (simp split: if_split_asm)
  from Cons.IH [OF this] show ?case by simp
qed simp

interpretation distance_quorum: signed_quorum se_echoingReplicaId
  "distance_echo_ok cfg keys verify att attHash" "{i. isArrivalSignerEligible cfg i}"
  "distance_scan cfg keys verify att attHash" for cfg keys verify att attHash
proof unfold_locales
  show "distance_echo_ok cfg keys verify att attHash e \<Longrightarrow> se_echoingReplicaId e \<in> {i. isArrivalSignerEligible cfg i}" for e
    by (simp add: distance_echo_ok_def)
qed (rule distance_scan_signers)

lemma valid_attestation_signed:
  assumes "validateStoppedDistanceAttestation current_epoch keys verify att"
    and unforgeable: "\<forall>i k msg sig. i \<notin> Bad \<and> key_matches keys i k \<and> verify k msg sig \<longrightarrow> msg \<in> signed_by i"
    and "extractReplicaId (sa_targetCarId att) \<notin> Bad"
  shows "to_bytes (canonicalStoppedDistanceAttestationPayload att) \<in> signed_by (extractReplicaId (sa_targetCarId att))"
proof -
  let ?o = "extractReplicaId (sa_targetCarId att)"
  obtain key where key: "copyKey keys ?o = Some key"
    and v: "verify key (to_bytes (canonicalStoppedDistanceAttestationPayload att))
        (take (length (sa_signature att) mod 256) (sa_signature att))"
    using assms(1) by (auto simp: validateStoppedDistanceAttestation_def Let_def split: if_split_asm option.split_asm)
  from key have "key_matches keys ?o key"
    by (simp add: copyKey_def key_matches_def)
  with v assms(2,3) show ?thesis by blast
qed

text \<open>
  C33: a certified stopping distance was claimed or confirmed by a correct vehicle. Counting
  the claimant among the signers, either the claimant is correct and itself signed this
  distance for this epoch and early claim, or a correct witness other than the claimant
  signed an echo of exactly this attestation.
\<close>

theorem certified_distance_confirmed:
  assumes "validateStoppedDistanceCert cfg current_epoch hash keys verify cert"
    and "0 \<le> cert_fault_bound cfg"
    and "int (card (insert (extractReplicaId (sa_targetCarId (sd_attestation cert)))
        {i. isArrivalSignerEligible cfg i} \<inter> Bad)) \<le> cert_fault_bound cfg"
    and unforgeable: "\<forall>i k msg sig. i \<notin> Bad \<and> key_matches keys i k \<and> verify k msg sig \<longrightarrow> msg \<in> signed_by i"
  shows "let att = sd_attestation cert; claimant = extractReplicaId (sa_targetCarId att) in
    0 \<le> sa_distanceToStopCm att \<and> sa_epoch att = sint current_epoch \<and>
    (claimant \<notin> Bad \<and> to_bytes (canonicalStoppedDistanceAttestationPayload att) \<in> signed_by claimant \<or>
     (\<exists>e \<in> set (sd_echoes cert). se_echoingReplicaId e \<notin> Bad \<and>
        se_distanceToStopCm e = sa_distanceToStopCm att \<and> se_targetCarId e = sa_targetCarId att \<and>
        se_earlyClaimHash e = sa_earlyClaimHash att \<and> se_epoch e = sa_epoch att \<and>
        to_bytes (stoppedDistanceEchoSigningPayload e) \<in> signed_by (se_echoingReplicaId e)))"
proof -
  let ?att = "sd_attestation cert"
  let ?c = "extractReplicaId (sa_targetCarId ?att)"
  have att: "validateStoppedDistanceAttestation current_epoch keys verify ?att"
    and count: "cert_fault_bound cfg \<le> int (length (sd_echoes cert))"
    and scan: "distance_scan cfg keys verify ?att (stoppedDistanceAttestationHash hash ?att) (sd_echoes cert) [?c] 0 \<noteq> None"
    using assms(1) by (auto simp: validateStoppedDistanceCert_def Let_def split: if_split_asm)
  from att have d: "0 \<le> sa_distanceToStopCm ?att" "sa_epoch ?att = sint current_epoch"
    by (simp_all add: validateStoppedDistanceAttestation_def Let_def split: if_split_asm)
  obtain n where n: "distance_scan cfg keys verify ?att (stoppedDistanceAttestationHash hash ?att) (sd_echoes cert) [?c] 0 = Some n"
    using scan by blast
  have f: "cert_fault_bound cfg \<le> n"
    using distance_scan_length [OF n] count by simp
  show ?thesis
  proof (cases "?c \<in> Bad")
    case False
    then show ?thesis
      using d valid_attestation_signed [OF att unforgeable] by (simp add: Let_def)
  next
    case True
    obtain e where "e \<in> set (sd_echoes cert)"
      "distance_echo_ok cfg keys verify ?att (stoppedDistanceAttestationHash hash ?att) e" "se_echoingReplicaId e \<notin> Bad"
      using distance_quorum.correct_signer_besides [OF n f assms(2) finite_eligible assms(3) True] by blast
    then show ?thesis
      using d unforgeable unfolding Let_def distance_echo_ok_def by blast
  qed
qed

text \<open>
  A stopped-distance certificate survives its length-prefixed envelope, with the
  textual attestation and echoes inside it.
\<close>

theorem distance_certificate_roundtrip:
  assumes "distance_cert_wf total_vehicles cert"
  shows "deserializeStoppedDistanceCert total_vehicles (serializeStoppedDistanceCert cert) = cert"
  using assms by (rule distance_cert_decoded)

definition demo_attestation :: StoppedDistanceAttestation where
  "demo_attestation = \<lparr>sa_targetCarId = ''veh2'', sa_epoch = 0, sa_earlyClaimHash = replicate 32 7,
     sa_distanceToStopCm = 350, sa_signature = [5, 5]\<rparr>"

definition demo_distance_echo :: "int \<Rightarrow> StoppedDistanceEcho" where
  "demo_distance_echo i = \<lparr>se_echoingReplicaId = i, se_targetCarId = ''veh2'', se_epoch = 0,
     se_earlyClaimHash = replicate 32 7, se_attestationHash = replicate 32 8, se_distanceToStopCm = 350,
     se_signerPubKey = resize CRYPTO_PUBKEY_BYTES [word_of_int i],
     se_signature = replicate CRYPTO_SIG_MAX_BYTES 9, se_signatureLen = 70\<rparr>"

definition demo_distance_cert :: StoppedDistanceCert where
  "demo_distance_cert = \<lparr>sd_attestation = demo_attestation, sd_echoes = [demo_distance_echo 1]\<rparr>"

definition demo_distance_verify :: "bytes \<Rightarrow> bytes \<Rightarrow> bytes \<Rightarrow> bool" where
  "demo_distance_verify k m s \<longleftrightarrow>
     k = resize CRYPTO_PUBKEY_BYTES [2] \<or>
     k = resize CRYPTO_PUBKEY_BYTES [1] \<and> m = to_bytes (stoppedDistanceEchoSigningPayload (demo_distance_echo 1))"

theorem distance_certificate_roundtrip_witness:
  "deserializeStoppedDistanceCert 4 (serializeStoppedDistanceCert demo_distance_cert) = demo_distance_cert"
proof (rule distance_certificate_roundtrip)
  have "attestation_wf demo_attestation" "distance_echo_wf (demo_distance_echo 1)" by code_simp+
  moreover have "length (serializeStoppedDistanceEcho (demo_distance_echo 1)) < 2 ^ 32"
    "length (serializeStoppedDistanceAttestation demo_attestation) < 2 ^ 32"
    by (simp_all add: serializeStoppedDistanceEcho_def stoppedDistanceEchoSigningPayload_def hashHex_def
        distance_echo_fields_def demo_distance_echo_def auth_text_def length_toHex resize_def to_string_def
        nat_digits.simps CRYPTO_PUBKEY_BYTES_def CRYPTO_SIG_MAX_BYTES_def Let_def demo_attestation_def
        serializeStoppedDistanceAttestation_def canonicalStoppedDistanceAttestationPayload_def)
  ultimately show "distance_cert_wf 4 demo_distance_cert"
    by (simp add: distance_cert_wf_def demo_distance_cert_def)
qed

theorem certified_distance_confirmed_witness:
  "\<exists>e \<in> set (sd_echoes demo_distance_cert). se_echoingReplicaId e \<notin> {2} \<and> se_distanceToStopCm e = 350"
proof -
  have "let att = sd_attestation demo_distance_cert; claimant = extractReplicaId (sa_targetCarId att) in
    0 \<le> sa_distanceToStopCm att \<and> sa_epoch att = sint (0 :: u32) \<and>
    (claimant \<notin> {2} \<and> to_bytes (canonicalStoppedDistanceAttestationPayload att) \<in>
        (if claimant = 1 then {to_bytes (stoppedDistanceEchoSigningPayload (demo_distance_echo 1))} else {}) \<or>
     (\<exists>e \<in> set (sd_echoes demo_distance_cert). se_echoingReplicaId e \<notin> {2} \<and>
        se_distanceToStopCm e = sa_distanceToStopCm att \<and> se_targetCarId e = sa_targetCarId att \<and>
        se_earlyClaimHash e = sa_earlyClaimHash att \<and> se_epoch e = sa_epoch att \<and>
        to_bytes (stoppedDistanceEchoSigningPayload e) \<in>
          (if se_echoingReplicaId e = 1 then {to_bytes (stoppedDistanceEchoSigningPayload (demo_distance_echo 1))} else {})))"
  proof (rule certified_distance_confirmed)
    show "validateStoppedDistanceCert demo_config 0 (\<lambda>_. replicate 32 8) demo_arrival_keys
        demo_distance_verify demo_distance_cert"
      by code_simp
    have f: "cert_fault_bound demo_config = 1" by code_simp
    then show "0 \<le> cert_fault_bound demo_config" by simp
    have "extractReplicaId (sa_targetCarId (sd_attestation demo_distance_cert)) = 2" by code_simp
    then have "insert (extractReplicaId (sa_targetCarId (sd_attestation demo_distance_cert)))
        {i. isArrivalSignerEligible demo_config i} \<inter> {2} = {2}" by auto
    then show "int (card (insert (extractReplicaId (sa_targetCarId (sd_attestation demo_distance_cert)))
        {i. isArrivalSignerEligible demo_config i} \<inter> {2})) \<le> cert_fault_bound demo_config"
      using f by simp
    show "\<forall>i k msg sig. i \<notin> {2} \<and> key_matches demo_arrival_keys i k \<and> demo_distance_verify k msg sig \<longrightarrow>
        msg \<in> (if i = 1 then {to_bytes (stoppedDistanceEchoSigningPayload (demo_distance_echo 1))} else {})"
      by (auto simp: demo_distance_verify_def key_matches_def demo_arrival_keys_def om_get_def resize_def
          CRYPTO_PUBKEY_BYTES_def split: if_splits)
  qed
  moreover have "extractReplicaId (sa_targetCarId (sd_attestation demo_distance_cert)) = 2"
    "sa_distanceToStopCm (sd_attestation demo_distance_cert) = 350"
    by code_simp+
  ultimately show ?thesis unfolding Let_def by auto
qed

end
