(* ===== verification/QueueRanks.thy ===== *)
theory QueueRanks
  imports DistanceCert
begin

text \<open>
  The queue ranks of \<^verbatim>\<open>ResDBDistanceProtocol.cc\<close>: vehicles with both certificates are ordered
  within their lane by certified distance to the stop line.
\<close>

section \<open>Queue ranks\<close>

type_synonym ranks = "(string, byte) omap"

definition queue_key :: "ArrivalCert \<Rightarrow> string" where
  "queue_key cert = ac_lane cert @ CHR '':'' # to_string (ac_physicalLaneIndex cert)"

fun build_queues ::
  "(string, ArrivalCert) omap \<Rightarrow> (string, StoppedDistanceCert) omap \<Rightarrow>
   (string, (int \<times> string) list) omap \<Rightarrow> (string, (int \<times> string) list) omap" where
  "build_queues [] distances queues = queues"
| "build_queues ((carId, cert) # arrivals) distances queues =
     (case om_get distances carId of
        None \<Rightarrow> build_queues arrivals distances queues
      | Some d \<Rightarrow> build_queues arrivals distances
          (om_put (queue_key cert)
            ((case om_get queues (queue_key cert) of None \<Rightarrow> [] | Some q \<Rightarrow> q) @
              [(sa_distanceToStopCm (sd_attestation d), carId)]) queues))"

fun rank_queue :: "nat \<Rightarrow> (int \<times> string) list \<Rightarrow> ranks \<Rightarrow> ranks" where
  "rank_queue i [] ranks = ranks"
| "rank_queue i ((d, carId) # q) ranks =
     rank_queue (i + 1) q (om_put carId (of_nat (min (i + 1) 255)) ranks)"

fun rank_queues :: "(int \<times> string) list list \<Rightarrow> ranks \<Rightarrow> ranks" where
  "rank_queues [] ranks = ranks"
| "rank_queues (q # qs) ranks = rank_queues qs (rank_queue 0 (sort q) ranks)"

definition deriveQueueRanks ::
  "(string, ArrivalCert) omap \<Rightarrow> (string, StoppedDistanceCert) omap \<Rightarrow> ranks" where
  "deriveQueueRanks arrivals distances = rank_queues (map snd (build_queues arrivals distances [])) []"

text \<open>The vehicles of a queue, with the distances that order them.\<close>

definition queue_of ::
  "(string, ArrivalCert) omap \<Rightarrow> (string, StoppedDistanceCert) omap \<Rightarrow> string \<Rightarrow> (int \<times> string) list" where
  "queue_of arrivals distances key =
     concat (map (\<lambda>(carId, cert). case om_get distances carId of
         None \<Rightarrow> []
       | Some d \<Rightarrow> if queue_key cert = key then [(sa_distanceToStopCm (sd_attestation d), carId)] else [])
       arrivals)"

lemma build_queues_get:
  "om_get (build_queues arrivals distances queues) key =
     (if queue_of arrivals distances key = [] then om_get queues key
      else Some ((case om_get queues key of None \<Rightarrow> [] | Some q \<Rightarrow> q) @ queue_of arrivals distances key))"
  by (induction arrivals distances queues rule: build_queues.induct)
    (auto simp: queue_of_def om_get_put split: option.splits)

lemma build_queues_ok: "om_ok queues \<Longrightarrow> om_ok (build_queues arrivals distances queues)"
  by (induction arrivals distances queues rule: build_queues.induct) (auto simp: om_ok_put split: option.splits)

lemma in_queue_of:
  "(d, a) \<in> set (queue_of arrivals distances key) \<longleftrightarrow>
     (\<exists>cert dc. (a, cert) \<in> set arrivals \<and> om_get distances a = Some dc \<and> queue_key cert = key \<and>
        d = sa_distanceToStopCm (sd_attestation dc))"
  by (force simp: queue_of_def split: option.splits if_splits)

lemma queue_names_distinct:
  assumes "distinct (map fst arrivals)"
  shows "distinct (map snd (queue_of arrivals distances key))"
  using assms
proof (induction arrivals)
  case (Cons x arrivals)
  obtain a cert where x: "x = (a, cert)" by fastforce
  have "a \<notin> snd ` set (queue_of arrivals distances key)"
  proof
    assume "a \<in> snd ` set (queue_of arrivals distances key)"
    then obtain d where "(d, a) \<in> set (queue_of arrivals distances key)" by force
    then show False using Cons.prems x unfolding in_queue_of by force
  qed
  then show ?case
    using Cons by (auto simp: x queue_of_def split: option.splits)
qed (simp add: queue_of_def)

lemma rank_queue_other: "a \<notin> snd ` set q \<Longrightarrow> om_get (rank_queue i q R) a = om_get R a"
  by (induction i q R rule: rank_queue.induct) (auto simp: om_get_put)

lemma rank_queue_nth:
  "distinct (map snd q) \<Longrightarrow> j < length q \<Longrightarrow>
     om_get (rank_queue i q R) (snd (q ! j)) = Some (of_nat (min (i + j + 1) 255))"
proof (induction i q R arbitrary: j rule: rank_queue.induct)
  case (2 i d carId q ranks)
  show ?case
  proof (cases j)
    case 0
    then show ?thesis using 2 by (simp add: rank_queue_other om_get_put)
  next
    case (Suc k)
    then show ?thesis using 2 by simp
  qed
qed simp

lemma rank_queues_other:
  "\<forall>q \<in> set qs. a \<notin> snd ` set q \<Longrightarrow> om_get (rank_queues qs R) a = om_get R a"
  by (induction qs R rule: rank_queues.induct) (simp_all add: rank_queue_other)

lemma rank_queues_split:
  assumes "\<forall>q' \<in> set vs. a \<notin> snd ` set q'" and "a \<in> snd ` set q" and "distinct (map snd q)"
    and "j < length q" and "snd (sort q ! j) = a"
  shows "om_get (rank_queues (us @ q # vs) R) a = Some (of_nat (min (j + 1) 255))"
proof (induction us arbitrary: R)
  case Nil
  have "distinct (map snd (sort q))"
    using assms(3) by (simp add: distinct_map)
  then show ?case
    using assms rank_queue_nth [of "sort q" j 0 R] by (simp add: rank_queues_other)
qed simp

lemma sorted_position:
  fixes xs :: "'a :: linorder list"
  assumes "sorted xs" and "distinct xs" and "j < length xs"
  shows "j = card {x \<in> set xs. x < xs ! j}"
proof -
  have s: "sorted_wrt (<) xs"
    using assms(1,2) by (simp add: strict_sorted_iff)
  have "{x \<in> set xs. x < xs ! j} = (\<lambda>i. xs ! i) ` {..<j}"
  proof (rule set_eqI, rule iffI)
    fix x assume "x \<in> {x \<in> set xs. x < xs ! j}"
    then obtain i where i: "i < length xs" "xs ! i = x" "xs ! i < xs ! j"
      by (auto simp: in_set_conv_nth)
    have "i < j"
    proof (rule ccontr)
      assume "\<not> i < j"
      then have "xs ! j \<le> xs ! i"
        using assms(1) i(1) by (simp add: sorted_nth_mono)
      with i(3) show False by simp
    qed
    then show "x \<in> (\<lambda>i. xs ! i) ` {..<j}" using i(2) by blast
  next
    fix x assume "x \<in> (\<lambda>i. xs ! i) ` {..<j}"
    then obtain i where "i < j" "x = xs ! i" by blast
    then show "x \<in> {x \<in> set xs. x < xs ! j}"
      using s assms(3) by (auto simp: sorted_wrt_iff_nth_less)
  qed
  moreover have "inj_on (\<lambda>i. xs ! i) {..<j}"
    using assms(2,3) by (auto simp: inj_on_def nth_eq_iff_index_eq)
  ultimately show ?thesis
    by (simp add: card_image)
qed

lemma queue_key_eq:
  "queue_key c = queue_key d \<longleftrightarrow> ac_lane c = ac_lane d \<and> ac_physicalLaneIndex c = ac_physicalLaneIndex d"
proof
  assume eq: "queue_key c = queue_key d"
  have r: "rev (queue_key x) = rev (to_string (ac_physicalLaneIndex x)) @ CHR '':'' # rev (ac_lane x)" for x
    by (simp add: queue_key_def)
  have "cut_at CHR '':'' (rev (queue_key x)) = Some (rev (to_string (ac_physicalLaneIndex x)), rev (ac_lane x))" for x
    unfolding r by (rule cut_at_delim) simp
  from this [of c] this [of d] show "ac_lane c = ac_lane d \<and> ac_physicalLaneIndex c = ac_physicalLaneIndex d"
    unfolding eq by (simp add: to_string_eq)
qed (simp add: queue_key_def)

definition ahead_of ::
  "(string, ArrivalCert) omap \<Rightarrow> (string, StoppedDistanceCert) omap \<Rightarrow> string \<Rightarrow> string \<Rightarrow> bool" where
  "ahead_of arrivals distances b a \<longleftrightarrow>
     (case (om_get arrivals b, om_get distances b, om_get arrivals a, om_get distances a) of
        (Some cb, Some db, Some ca, Some da) \<Rightarrow>
          ac_lane cb = ac_lane ca \<and> ac_physicalLaneIndex cb = ac_physicalLaneIndex ca \<and>
          (sa_distanceToStopCm (sd_attestation db), b) < (sa_distanceToStopCm (sd_attestation da), a)
      | _ \<Rightarrow> False)"

lemma queue_ahead:
  assumes ok: "om_ok arrivals" and a: "om_get arrivals a = Some cert" "om_get distances a = Some dc"
    and d: "d = sa_distanceToStopCm (sd_attestation dc)"
  shows "{x \<in> set (queue_of arrivals distances (queue_key cert)). x < (d, a)} =
    (\<lambda>b. (sa_distanceToStopCm (sd_attestation (the (om_get distances b))), b)) ` {b. ahead_of arrivals distances b a}"
    (is "?L = ?f ` ?R")
proof (rule set_eqI, rule iffI)
  fix x assume x: "x \<in> ?L"
  obtain e b where xb: "x = (e, b)" by fastforce
  with x obtain cb db where b: "(b, cb) \<in> set arrivals" "om_get distances b = Some db"
    "queue_key cb = queue_key cert" "e = sa_distanceToStopCm (sd_attestation db)" "(e, b) < (d, a)"
    using in_queue_of [of e b arrivals distances "queue_key cert"] by blast
  moreover have "om_get arrivals b = Some cb"
    using ok b(1) by (rule om_in_get)
  ultimately have "ahead_of arrivals distances b a"
    using a d by (simp add: ahead_of_def queue_key_eq)
  then show "x \<in> ?f ` ?R" using xb b(2,4) by force
next
  fix x assume "x \<in> ?f ` ?R"
  then obtain b where x: "x = ?f b" and "ahead_of arrivals distances b a" by blast
  then obtain cb db where "om_get arrivals b = Some cb" "om_get distances b = Some db"
    "queue_key cb = queue_key cert" "(sa_distanceToStopCm (sd_attestation db), b) < (d, a)"
    using a d by (auto simp: ahead_of_def queue_key_eq split: option.split_asm)
  then show "x \<in> ?L"
    using x in_queue_of [of "sa_distanceToStopCm (sd_attestation db)" b arrivals distances "queue_key cert"]
      om_get_Some_in [of arrivals b cb] by auto
qed

lemma queue_rank:
  assumes ok: "om_ok arrivals" and a: "om_get arrivals a = Some cert" "om_get distances a = Some dc"
  shows "om_get (deriveQueueRanks arrivals distances) a =
    Some (of_nat (min (card {b. ahead_of arrivals distances b a} + 1) 255))"
proof -
  define d where "d = sa_distanceToStopCm (sd_attestation dc)"
  define key where "key = queue_key cert"
  define q where "q = queue_of arrivals distances key"
  define Qs where "Qs = build_queues arrivals distances []"
  have Qs: "om_ok Qs" by (simp add: Qs_def build_queues_ok om.inv_empty)
  have in_q: "(d, a) \<in> set q"
    unfolding q_def in_queue_of using a om_get_Some_in [OF a(1)] by (auto simp: d_def key_def)
  then have "q \<noteq> []" by auto
  then have "om_get Qs key = Some q"
    by (simp add: Qs_def build_queues_get q_def om.get_empty)
  then obtain us vs where split: "Qs = us @ (key, q) # vs"
    by (meson om_get_Some_in split_list)
  have dist: "distinct (map snd q)"
    unfolding q_def using om_ok_distinct [OF ok] by (intro queue_names_distinct) (simp add: om_keys_def)
  have other: "\<forall>q' \<in> set (map snd vs). a \<notin> snd ` set q'"
  proof
    fix q' assume "q' \<in> set (map snd vs)"
    then obtain k' where k': "(k', q') \<in> set vs" by auto
    have "k' \<noteq> key"
    proof
      assume "k' = key"
      then have "key \<in> fst ` set vs" using k' by (metis fst_conv image_eqI)
      then show False using om_ok_distinct [OF Qs] by (simp add: split om_keys_def)
    qed
    have "om_get Qs k' = Some q'"
      using k' by (intro om_in_get [OF Qs]) (simp add: split)
    then have q': "q' = queue_of arrivals distances k'"
      by (auto simp: Qs_def build_queues_get om.get_empty split: if_split_asm)
    show "a \<notin> snd ` set q'"
    proof
      assume "a \<in> snd ` set q'"
      then obtain e where "(e, a) \<in> set q'" by force
      then obtain cert' where "(a, cert') \<in> set arrivals" "queue_key cert' = k'"
        unfolding q' in_queue_of by blast
      then have "cert' = cert" using om_in_get [OF ok] a(1) by simp
      with \<open>queue_key cert' = k'\<close> \<open>k' \<noteq> key\<close> show False by (simp add: key_def)
    qed
  qed
  obtain j where j: "j < length q" "sort q ! j = (d, a)"
    using in_q by (metis in_set_conv_nth length_sort set_sort)
  have "distinct q" using dist by (simp add: distinct_map)
  then have "j = card {x \<in> set q. x < (d, a)}"
    using sorted_position [of "sort q" j] j by simp
  also have "\<dots> = card {b. ahead_of arrivals distances b a}"
    unfolding q_def key_def queue_ahead [OF ok a d_def] by (rule card_image) (auto simp: inj_on_def)
  finally have jc: "j = card {b. ahead_of arrivals distances b a}" .
  have "om_get (rank_queues (map snd us @ q # map snd vs) []) a = Some (of_nat (min (j + 1) 255))"
    using in_q j by (intro rank_queues_split [OF other _ dist]) force+
  then show ?thesis
    by (simp add: deriveQueueRanks_def Qs_def [symmetric] split jc)
qed

lemma no_queue_rank:
  assumes "om_ok arrivals" and "om_get arrivals a = None \<or> om_get distances a = None"
  shows "om_get (deriveQueueRanks arrivals distances) a = None"
proof -
  have "\<forall>q \<in> set (map snd (build_queues arrivals distances [])). a \<notin> snd ` set q"
  proof
    fix q assume "q \<in> set (map snd (build_queues arrivals distances []))"
    then obtain k where k: "(k, q) \<in> set (build_queues arrivals distances [])" by auto
    have "om_get (build_queues arrivals distances []) k = Some q"
      by (rule om_in_get [OF build_queues_ok k]) (rule om.inv_empty)
    then have q: "q = queue_of arrivals distances k"
      by (auto simp: build_queues_get om.get_empty split: if_split_asm)
    show "a \<notin> snd ` set q"
    proof
      assume "a \<in> snd ` set q"
      then obtain e where "(e, a) \<in> set q" by force
      then obtain cert dc where "(a, cert) \<in> set arrivals" "om_get distances a = Some dc"
        unfolding q in_queue_of by blast
      then show False using om_in_get [OF assms(1)] assms(2) by auto
    qed
  qed
  then show ?thesis
    unfolding deriveQueueRanks_def by (simp add: rank_queues_other om.get_empty)
qed

text \<open>
  C34: the queue rank of a vehicle is one more than the number of vehicles certified closer
  to the stop line in its lane and physical lane, saturating at 255; a vehicle without both
  certificates has no rank.
\<close>

theorem queue_rank_counts_ahead:
  assumes "om_ok arrivals"
  shows "om_get (deriveQueueRanks arrivals distances) a =
    (if om_get arrivals a = None \<or> om_get distances a = None then None
     else Some (of_nat (min (card {b. ahead_of arrivals distances b a} + 1) 255)))"
  using assms queue_rank no_queue_rank by auto

theorem queue_rank_counts_ahead_witness:
  "let arrivals = [(''veh1'', demo_arrival_cert []), (''veh2'', demo_arrival_cert [])];
       distances = [(''veh1'', demo_distance_cert), (''veh2'', demo_distance_cert)]
   in om_get (deriveQueueRanks arrivals distances) ''veh2'' =
        Some (of_nat (min (card {b. ahead_of arrivals distances b ''veh2''} + 1) 255))"
proof -
  have "om_ok [(''veh1'', demo_arrival_cert []), (''veh2'', demo_arrival_cert [])]" by code_simp
  from queue_rank_counts_ahead [OF this, of _ "''veh2''"] show ?thesis
    unfolding Let_def by (simp add: om_get_def)
qed

end
