(* ===== verification/Evidence.thy ===== *)
theory Evidence
  imports ArrivalCodec WitnessCert
begin

text \<open>
  The evidence of an incident (\<^verbatim>\<open>v2vbft/app/ResDBRollbackProtocol.cc\<close>): CANCEL and CLEAR echoes
  and certificates, their textual wire formats, the reference of a blocked batch, the
  validation of both kinds of certificate by the shared witness validator, and the callback
  through which the consensus bridge asks for CLEAR evidence. A call that throws while
  decoding is \<open>None\<close>.
\<close>

section \<open>References\<close>

definition cleanRef :: "string \<Rightarrow> string" where
  "cleanRef s = map (\<lambda>c. if c = CHR ''|'' then CHR ''_'' else c) s"

text \<open>\<open>std::stoul\<close> on a 64-bit \<open>unsigned long\<close>, narrowed to 32 bits; a minus sign wraps.\<close>

definition stoul :: "string \<Rightarrow> int option" where
  "stoul s =
     (let t = dropWhile is_space_char s;
          (neg, u) = (case t of
             c # r \<Rightarrow> if c = CHR ''-'' then (True, r) else if c = CHR ''+'' then (False, r) else (False, t)
           | [] \<Rightarrow> (False, []))
      in case stoi_unsigned u of None \<Rightarrow> None
         | Some v \<Rightarrow> if int v \<ge> 2 ^ 64 then None
                   else Some (if neg then (2 ^ 64 - int v) mod 2 ^ 64 else int v))"

definition stoul32 :: "string \<Rightarrow> u32 option" where
  "stoul32 s = map_option word_of_int (stoul s)"

record BlockedIncident =
  bi_cancelledEpoch :: u32
  bi_executingBatch :: u32

definition formatBlockedBatchRef :: "u32 \<Rightarrow> u32 \<Rightarrow> string" where
  "formatBlockedBatchRef cancelledEpoch executingBatch =
     ''blocked_batch:'' @ to_string (uint cancelledEpoch) @ '':'' @ to_string (uint executingBatch)"

definition parseBlockedBatchRef :: "string \<Rightarrow> BlockedIncident option" where
  "parseBlockedBatchRef ref =
     (let parts = splitStr ref CHR '':'' in
      if length parts \<noteq> 3 \<or> parts ! 0 \<noteq> ''blocked_batch'' then None
      else case stoul32 (parts ! 1) of None \<Rightarrow> None | Some e \<Rightarrow>
        (case stoul32 (parts ! 2) of None \<Rightarrow> None | Some b \<Rightarrow>
          Some \<lparr>bi_cancelledEpoch = e, bi_executingBatch = b\<rparr>))"

section \<open>Echoes and certificates\<close>

text \<open>The reason is the integer of the enumeration; a decoded one may be any integer.\<close>

type_synonym CancelReason = int

definition reason_crash :: CancelReason where "reason_crash = 0"
definition reason_emergency :: CancelReason where "reason_emergency = 1"

record CancelEcho =
  ce_echoingReplicaId :: int
  ce_cancelledEpoch :: u32
  ce_reason :: CancelReason
  ce_reasonRef :: string
  ce_signerPubKey :: bytes
  ce_signature :: bytes
  ce_signatureLen :: byte

record CancelCert =
  cc_cancelledEpoch :: u32
  cc_reason :: CancelReason
  cc_reasonRef :: string
  cc_echoes :: "CancelEcho list"

record ClearEcho =
  le_echoingReplicaId :: int
  le_cancelledEpoch :: u32
  le_executingBatch :: u32
  le_signerPubKey :: bytes
  le_signature :: bytes
  le_signatureLen :: byte

record ClearCert =
  lc_cancelledEpoch :: u32
  lc_executingBatch :: u32
  lc_echoes :: "ClearEcho list"

definition empty_cancel_echo :: CancelEcho where
  "empty_cancel_echo = \<lparr>ce_echoingReplicaId = - 1, ce_cancelledEpoch = 0, ce_reason = reason_crash,
     ce_reasonRef = [], ce_signerPubKey = replicate CRYPTO_PUBKEY_BYTES 0,
     ce_signature = replicate CRYPTO_SIG_MAX_BYTES 0, ce_signatureLen = 0\<rparr>"

definition empty_cancel_cert :: CancelCert where
  "empty_cancel_cert = \<lparr>cc_cancelledEpoch = 0, cc_reason = reason_crash, cc_reasonRef = [], cc_echoes = []\<rparr>"

definition empty_clear_echo :: ClearEcho where
  "empty_clear_echo = \<lparr>le_echoingReplicaId = - 1, le_cancelledEpoch = 0, le_executingBatch = 0,
     le_signerPubKey = replicate CRYPTO_PUBKEY_BYTES 0,
     le_signature = replicate CRYPTO_SIG_MAX_BYTES 0, le_signatureLen = 0\<rparr>"

definition empty_clear_cert :: ClearCert where
  "empty_clear_cert = \<lparr>lc_cancelledEpoch = 0, lc_executingBatch = 0, lc_echoes = []\<rparr>"

definition toWitnessKind :: "CancelReason \<Rightarrow> WitnessKind" where
  "toWitnessKind r = (if r = reason_crash then CANCEL_CRASH else CANCEL_EMERGENCY)"

definition cancelToWitnessEcho :: "CancelEcho \<Rightarrow> WitnessEcho" where
  "cancelToWitnessEcho e = \<lparr>we_signerId = ce_echoingReplicaId e, we_pubKey = ce_signerPubKey e,
     we_sig = ce_signature e, we_sigLen = ce_signatureLen e\<rparr>"

definition toCancelEcho :: "WitnessEcho \<Rightarrow> u32 \<Rightarrow> CancelReason \<Rightarrow> string \<Rightarrow> CancelEcho" where
  "toCancelEcho we epoch reason reasonRef = \<lparr>ce_echoingReplicaId = we_signerId we,
     ce_cancelledEpoch = epoch, ce_reason = reason, ce_reasonRef = reasonRef,
     ce_signerPubKey = we_pubKey we, ce_signature = we_sig we, ce_signatureLen = we_sigLen we\<rparr>"

definition clearToWitnessEcho :: "ClearEcho \<Rightarrow> WitnessEcho" where
  "clearToWitnessEcho e = \<lparr>we_signerId = le_echoingReplicaId e, we_pubKey = le_signerPubKey e,
     we_sig = le_signature e, we_sigLen = le_signatureLen e\<rparr>"

definition toClearEcho :: "WitnessEcho \<Rightarrow> u32 \<Rightarrow> u32 \<Rightarrow> ClearEcho" where
  "toClearEcho we cancelledEpoch executingBatch = \<lparr>le_echoingReplicaId = we_signerId we,
     le_cancelledEpoch = cancelledEpoch, le_executingBatch = executingBatch,
     le_signerPubKey = we_pubKey we, le_signature = we_sig we, le_signatureLen = we_sigLen we\<rparr>"

definition cancel_statement :: "u32 \<Rightarrow> CancelReason \<Rightarrow> string \<Rightarrow> WitnessStatement" where
  "cancel_statement epoch reason reasonRef =
     \<lparr>ws_epoch = epoch, ws_kind = toWitnessKind reason, ws_subjectRef = reasonRef\<rparr>"

definition cancelReasonKey :: "u32 \<Rightarrow> CancelReason \<Rightarrow> string \<Rightarrow> string" where
  "cancelReasonKey epoch reason reasonRef = collectorKey (cancel_statement epoch reason reasonRef)"

definition clear_statement :: "u32 \<Rightarrow> u32 \<Rightarrow> WitnessStatement" where
  "clear_statement cancelledEpoch executingBatch = \<lparr>ws_epoch = cancelledEpoch, ws_kind = CLEAR,
     ws_subjectRef = formatBlockedBatchRef cancelledEpoch executingBatch\<rparr>"

section \<open>Wire formats\<close>

text \<open>The text \<open>key,signature\<close>, with only the used bytes of the signature.\<close>

definition key_sig_text :: "bytes \<Rightarrow> byte \<Rightarrow> bytes \<Rightarrow> string" where
  "key_sig_text pub sigLen sig = toHex pub @ CHR '','' # toHex (take (unat sigLen) sig)"

definition store_key_sig :: "string \<Rightarrow> string \<Rightarrow> (bytes \<times> byte \<times> bytes) option" where
  "store_key_sig a b =
     (case fromHex a of None \<Rightarrow> None | Some pubVec \<Rightarrow>
     (case fromHex b of None \<Rightarrow> None | Some sigVec \<Rightarrow>
        let pub = (if length pubVec = CRYPTO_PUBKEY_BYTES then pubVec else replicate CRYPTO_PUBKEY_BYTES 0) in
        if length sigVec \<le> CRYPTO_SIG_MAX_BYTES
        then Some (pub, of_nat (length sigVec), resize CRYPTO_SIG_MAX_BYTES sigVec)
        else Some (pub, 0, replicate CRYPTO_SIG_MAX_BYTES 0)))"

definition serializeCancelEcho :: "CancelEcho \<Rightarrow> bytes" where
  "serializeCancelEcho echo = to_bytes (join_with CHR ''|''
     [''CANCEL_ECHO'', to_string (uint (ce_cancelledEpoch echo)), to_string (ce_reason echo),
      cleanRef (ce_reasonRef echo), to_string (ce_echoingReplicaId echo),
      key_sig_text (ce_signerPubKey echo) (ce_signatureLen echo) (ce_signature echo)])"

definition deserializeCancelEcho :: "bytes \<Rightarrow> CancelEcho option" where
  "deserializeCancelEcho payload =
     (let parts = splitStr (of_bytes payload) CHR ''|'' in
      if length parts \<ge> 6 \<and> parts ! 0 = ''CANCEL_ECHO'' then
        (case stoul32 (parts ! 1) of None \<Rightarrow> None | Some epoch \<Rightarrow>
        (case stoi (parts ! 2) of None \<Rightarrow> None | Some reason \<Rightarrow>
        (case stoi (parts ! 4) of None \<Rightarrow> None | Some signer \<Rightarrow>
           let echo = empty_cancel_echo\<lparr>ce_cancelledEpoch := epoch, ce_reason := reason,
             ce_reasonRef := parts ! 3, ce_echoingReplicaId := signer\<rparr> in
           case cut_at CHR '','' (parts ! 5) of None \<Rightarrow> Some echo
           | Some (a, b) \<Rightarrow>
               (case store_key_sig a b of None \<Rightarrow> None | Some (pub, sigLen, sig) \<Rightarrow>
                  Some (echo\<lparr>ce_signerPubKey := pub, ce_signatureLen := sigLen, ce_signature := sig\<rparr>)))))
      else Some empty_cancel_echo)"

definition cert_part :: "int \<Rightarrow> bytes \<Rightarrow> byte \<Rightarrow> bytes \<Rightarrow> string" where
  "cert_part signer pub sigLen sig = to_string signer @ CHR '':'' # key_sig_text pub sigLen sig"

text \<open>
  The echo parts of a certificate: a part without a colon and a comma after it is skipped.
\<close>

fun parse_cert_parts ::
  "(int \<Rightarrow> bytes \<Rightarrow> byte \<Rightarrow> bytes \<Rightarrow> 'e) \<Rightarrow> string list \<Rightarrow> 'e list option" where
  "parse_cert_parts mk [] = Some []"
| "parse_cert_parts mk (part # parts) =
     (case cut_at CHR '':'' part of
        None \<Rightarrow> parse_cert_parts mk parts
      | Some (a, r) \<Rightarrow>
          (case cut_at CHR '','' r of
             None \<Rightarrow> parse_cert_parts mk parts
           | Some (b, c) \<Rightarrow>
               (case stoi a of None \<Rightarrow> None | Some signer \<Rightarrow>
               (case store_key_sig b c of None \<Rightarrow> None | Some (pub, sigLen, sig) \<Rightarrow>
                  map_option (Cons (mk signer pub sigLen sig)) (parse_cert_parts mk parts)))))"

definition serializeCancelCert :: "CancelCert \<Rightarrow> bytes" where
  "serializeCancelCert cert = to_bytes (join_with CHR ''|''
     ([''CANCEL_CERT'', to_string (uint (cc_cancelledEpoch cert)), to_string (cc_reason cert),
       cleanRef (cc_reasonRef cert)] @
      map (\<lambda>e. cert_part (ce_echoingReplicaId e) (ce_signerPubKey e) (ce_signatureLen e) (ce_signature e))
        (cc_echoes cert)))"

definition deserializeCancelCert :: "bytes \<Rightarrow> CancelCert option" where
  "deserializeCancelCert payload =
     (let parts = splitStr (of_bytes payload) CHR ''|'' in
      if length parts < 4 \<or> parts ! 0 \<noteq> ''CANCEL_CERT'' then Some empty_cancel_cert
      else case stoul32 (parts ! 1) of None \<Rightarrow> None | Some epoch \<Rightarrow>
        (case stoi (parts ! 2) of None \<Rightarrow> None | Some reason \<Rightarrow>
          map_option (\<lambda>es. \<lparr>cc_cancelledEpoch = epoch, cc_reason = reason, cc_reasonRef = parts ! 3, cc_echoes = es\<rparr>)
            (parse_cert_parts (\<lambda>signer pub sigLen sig. \<lparr>ce_echoingReplicaId = signer,
                ce_cancelledEpoch = epoch, ce_reason = reason, ce_reasonRef = parts ! 3,
                ce_signerPubKey = pub, ce_signature = sig, ce_signatureLen = sigLen\<rparr>) (drop 4 parts))))"

definition serializeClearEcho :: "ClearEcho \<Rightarrow> bytes" where
  "serializeClearEcho echo = to_bytes (join_with CHR ''|''
     [''CLEAR_ECHO'', to_string (uint (le_cancelledEpoch echo)), to_string (uint (le_executingBatch echo)),
      to_string (le_echoingReplicaId echo),
      key_sig_text (le_signerPubKey echo) (le_signatureLen echo) (le_signature echo)])"

definition deserializeClearEcho :: "bytes \<Rightarrow> ClearEcho option" where
  "deserializeClearEcho payload =
     (let parts = splitStr (of_bytes payload) CHR ''|'' in
      if length parts \<ge> 5 \<and> parts ! 0 = ''CLEAR_ECHO'' then
        (case stoul32 (parts ! 1) of None \<Rightarrow> None | Some epoch \<Rightarrow>
        (case stoul32 (parts ! 2) of None \<Rightarrow> None | Some batch \<Rightarrow>
        (case stoi (parts ! 3) of None \<Rightarrow> None | Some signer \<Rightarrow>
           let echo = empty_clear_echo\<lparr>le_cancelledEpoch := epoch, le_executingBatch := batch,
             le_echoingReplicaId := signer\<rparr> in
           case cut_at CHR '','' (parts ! 4) of None \<Rightarrow> Some echo
           | Some (a, b) \<Rightarrow>
               (case store_key_sig a b of None \<Rightarrow> None | Some (pub, sigLen, sig) \<Rightarrow>
                  Some (echo\<lparr>le_signerPubKey := pub, le_signatureLen := sigLen, le_signature := sig\<rparr>)))))
      else Some empty_clear_echo)"

definition serializeClearCert :: "ClearCert \<Rightarrow> bytes" where
  "serializeClearCert cert = to_bytes (join_with CHR ''|''
     ([''CLEAR_CERT'', to_string (uint (lc_cancelledEpoch cert)), to_string (uint (lc_executingBatch cert))] @
      map (\<lambda>e. cert_part (le_echoingReplicaId e) (le_signerPubKey e) (le_signatureLen e) (le_signature e))
        (lc_echoes cert)))"

definition deserializeClearCert :: "bytes \<Rightarrow> ClearCert option" where
  "deserializeClearCert payload =
     (let parts = splitStr (of_bytes payload) CHR ''|'' in
      if length parts < 3 \<or> parts ! 0 \<noteq> ''CLEAR_CERT'' then Some empty_clear_cert
      else case stoul32 (parts ! 1) of None \<Rightarrow> None | Some epoch \<Rightarrow>
        (case stoul32 (parts ! 2) of None \<Rightarrow> None | Some batch \<Rightarrow>
          map_option (\<lambda>es. \<lparr>lc_cancelledEpoch = epoch, lc_executingBatch = batch, lc_echoes = es\<rparr>)
            (parse_cert_parts (\<lambda>signer pub sigLen sig. \<lparr>le_echoingReplicaId = signer,
                le_cancelledEpoch = epoch, le_executingBatch = batch,
                le_signerPubKey = pub, le_signature = sig, le_signatureLen = sigLen\<rparr>) (drop 3 parts))))"

section \<open>Validation\<close>

definition cancel_witnesses :: "CancelCert \<Rightarrow> WitnessEcho list" where
  "cancel_witnesses cert = map cancelToWitnessEcho (filter (\<lambda>echo.
     ce_cancelledEpoch echo = cc_cancelledEpoch cert \<and> ce_reason echo = cc_reason cert \<and>
     ce_reasonRef echo = cc_reasonRef cert \<and> ce_signatureLen echo \<noteq> 0) (cc_echoes cert))"

definition validateCancelCert ::
  "int \<Rightarrow> int set \<Rightarrow> WitnessKeyRegistry \<Rightarrow> (bytes \<Rightarrow> bytes \<Rightarrow> bytes \<Rightarrow> bool) \<Rightarrow> CancelCert \<Rightarrow> bool" where
  "validateCancelCert f view keys verify cert =
     (if cc_reason cert \<noteq> reason_crash \<and> cc_reason cert \<noteq> reason_emergency then False
      else fst (validate_witness f (Some view) keys verify
        (cancel_statement (cc_cancelledEpoch cert) (cc_reason cert) (cc_reasonRef cert))
        (cancel_witnesses cert)))"

definition clear_witnesses :: "ClearCert \<Rightarrow> WitnessEcho list" where
  "clear_witnesses cert = map clearToWitnessEcho (filter (\<lambda>echo.
     le_cancelledEpoch echo = lc_cancelledEpoch cert \<and>
     le_executingBatch echo = lc_executingBatch cert \<and> le_signatureLen echo \<noteq> 0) (lc_echoes cert))"

definition validateClearCert ::
  "int \<Rightarrow> int set \<Rightarrow> WitnessKeyRegistry \<Rightarrow> (bytes \<Rightarrow> bytes \<Rightarrow> bytes \<Rightarrow> bool) \<Rightarrow> ClearCert \<Rightarrow> bool" where
  "validateClearCert f view keys verify cert =
     fst (validate_witness f (Some view) keys verify
       (clear_statement (lc_cancelledEpoch cert) (lc_executingBatch cert)) (clear_witnesses cert))"

text \<open>
  \<open>clearEvidenceCallback\<close>, asked by the bridge for each CLEAR certificate of a recovery ORDER:
  \<open>None\<close> when decoding throws, otherwise its answer. \<open>gate\<close> is the configured evidence gate.
\<close>

definition clearEvidenceCallback ::
  "bool \<Rightarrow> int \<Rightarrow> int set \<Rightarrow> WitnessKeyRegistry \<Rightarrow> (bytes \<Rightarrow> bytes \<Rightarrow> bytes \<Rightarrow> bool) \<Rightarrow>
   u32 \<Rightarrow> bytes \<Rightarrow> int option" where
  "clearEvidenceCallback gate f view keys verify cancelledEpoch certBytes =
     (if certBytes = [] then Some 0
      else case deserializeClearCert certBytes of None \<Rightarrow> None
      | Some cert \<Rightarrow>
          Some (if lc_cancelledEpoch cert \<noteq> cancelledEpoch then 0
                else if \<not> gate then 1
                else if lc_echoes cert = [] then 0
                else if validateClearCert f view keys verify cert then 1 else 0))"

end
