(* ===== verification/Wire.thy ===== *)
theory Wire
  imports Prelude
begin

text \<open>
  The packed C structs of \<^verbatim>\<open>bridge/resdb_omnet_bridge.h\<close> that travel between the vehicle
  application and the consensus bridge, one record per struct with an encoder and a
  decoder over its declared field order (\<open>#pragma pack(push, 1)\<close>: no padding).
  The round trips are interpretations of the fixed-width codec of the prelude.
\<close>

section \<open>Reads of single fields\<close>

definition get_u8 :: "bytes \<Rightarrow> nat \<Rightarrow> byte" where
  "get_u8 bs off = of_nat (le_dec (take 1 (drop off bs)))"

text \<open>A fixed-size byte array field: short data is zero filled, as by \<open>memset\<close> and \<open>memcpy\<close>.\<close>

definition fit :: "nat \<Rightarrow> bytes \<Rightarrow> bytes" where
  "fit n bs = take n (bs @ replicate n 0)"

definition get_arr :: "nat \<Rightarrow> bytes \<Rightarrow> nat \<Rightarrow> bytes" where
  "get_arr n bs off = fit n (take n (drop off bs))"

lemma length_fit [simp, codec]: "length (fit n bs) = n"
  by (simp add: fit_def)

lemma fit_id [simp]: "length bs = n \<Longrightarrow> fit n bs = bs"
  by (simp add: fit_def)

lemma le_dec_put [simp]:
  "le_dec (put_u16 w16) = unat w16" "le_dec (put_u32 w32) = unat w32"
  "le_dec (put_u64 w64) = unat w64" "le_dec (put_i32 i) = unat (word_of_int i :: u32)"
proof -
  have "unat w16 < 256 ^ 2" "unat w32 < 256 ^ 4" "unat w64 < 256 ^ 8"
    "unat (word_of_int i :: u32) < 256 ^ 4"
    using unat_width_less [of w16] unat_width_less [of w32] unat_width_less [of w64]
      unat_width_less [of "word_of_int i :: u32"] by simp_all
  then show "le_dec (put_u16 w16) = unat w16" "le_dec (put_u32 w32) = unat w32"
    "le_dec (put_u64 w64) = unat w64" "le_dec (put_i32 i) = unat (word_of_int i :: u32)"
    by (simp_all only: put_u16_def put_u32_def put_u64_def put_i32_def le_dec_enc)
qed

lemmas field_reads = get_u8_def get_u16_def get_u32_def get_u64_def get_i32_def get_arr_def
  sint_word_of_int_i32

section \<open>ResdbVehicleEntry\<close>

record ResdbVehicleEntry =
  ve_replica_id :: int
  ve_sim_time_us :: u64
  ve_is_ambulance :: byte
  ve_lane :: byte
  ve_direction :: byte
  ve_position_in_lane :: byte
  ve_cyber_status :: byte
  ve_physical_lane_index :: byte
  ve_lateral_claim_cm :: int

definition wf_entry :: "ResdbVehicleEntry \<Rightarrow> bool" where
  "wf_entry e \<longleftrightarrow> in_i32 (ve_replica_id e) \<and> in_i32 (ve_lateral_claim_cm e)"

definition enc_entry :: "ResdbVehicleEntry \<Rightarrow> bytes" where
  "enc_entry e = put_i32 (ve_replica_id e) @ put_u64 (ve_sim_time_us e) @
     [ve_is_ambulance e, ve_lane e, ve_direction e, ve_position_in_lane e,
      ve_cyber_status e, ve_physical_lane_index e] @ put_i32 (ve_lateral_claim_cm e)"

definition dec_entry :: "bytes \<Rightarrow> ResdbVehicleEntry" where
  "dec_entry bs = \<lparr>
     ve_replica_id = get_i32 bs 0,
     ve_sim_time_us = get_u64 bs 4,
     ve_is_ambulance = get_u8 bs 12,
     ve_lane = get_u8 bs 13,
     ve_direction = get_u8 bs 14,
     ve_position_in_lane = get_u8 bs 15,
     ve_cyber_status = get_u8 bs 16,
     ve_physical_lane_index = get_u8 bs 17,
     ve_lateral_claim_cm = get_i32 bs 18\<rparr>"

definition sizeof_entry :: nat where
  "sizeof_entry = 22"

interpretation entryc: fixed_codec enc_entry dec_entry sizeof_entry wf_entry
  by unfold_locales
    (simp_all add: enc_entry_def dec_entry_def wf_entry_def sizeof_entry_def field_reads)

section \<open>Proposal headers\<close>

record ResdbProposeHdr =
  ph_epoch :: u32
  ph_leader_id :: int
  ph_propose_sim_time_us :: u64
  ph_n_vehicles :: u32

definition enc_propose_hdr :: "ResdbProposeHdr \<Rightarrow> bytes" where
  "enc_propose_hdr h = put_u32 (ph_epoch h) @ put_i32 (ph_leader_id h) @
     put_u64 (ph_propose_sim_time_us h) @ put_u32 (ph_n_vehicles h)"

definition dec_propose_hdr :: "bytes \<Rightarrow> ResdbProposeHdr" where
  "dec_propose_hdr bs = \<lparr>
     ph_epoch = get_u32 bs 0,
     ph_leader_id = get_i32 bs 4,
     ph_propose_sim_time_us = get_u64 bs 8,
     ph_n_vehicles = get_u32 bs 16\<rparr>"

definition sizeof_propose_hdr :: nat where
  "sizeof_propose_hdr = 20"

interpretation prophdrc: fixed_codec enc_propose_hdr dec_propose_hdr sizeof_propose_hdr
  "\<lambda>h. in_i32 (ph_leader_id h)"
  by unfold_locales
    (simp_all add: enc_propose_hdr_def dec_propose_hdr_def sizeof_propose_hdr_def field_reads)

definition RESDB_ORDER_EVIDENCE_MAGIC :: u32 where
  "RESDB_ORDER_EVIDENCE_MAGIC = 0x4F455631"

record ResdbOrderEvidenceHdr =
  eh_magic :: u32
  eh_version :: u16
  eh_n_clear_certs :: u16

definition enc_evidence_hdr :: "ResdbOrderEvidenceHdr \<Rightarrow> bytes" where
  "enc_evidence_hdr h = put_u32 (eh_magic h) @ put_u16 (eh_version h) @ put_u16 (eh_n_clear_certs h)"

definition dec_evidence_hdr :: "bytes \<Rightarrow> ResdbOrderEvidenceHdr" where
  "dec_evidence_hdr bs = \<lparr>eh_magic = get_u32 bs 0, eh_version = get_u16 bs 4,
     eh_n_clear_certs = get_u16 bs 6\<rparr>"

definition sizeof_evidence_hdr :: nat where
  "sizeof_evidence_hdr = 8"

interpretation evhdrc: fixed_codec enc_evidence_hdr dec_evidence_hdr sizeof_evidence_hdr "\<lambda>_. True"
  by unfold_locales
    (simp_all add: enc_evidence_hdr_def dec_evidence_hdr_def sizeof_evidence_hdr_def field_reads)

text \<open>The three bytes \<open>_pad\<close> are written as zeros and never read.\<close>

record ResdbRollbackHdr =
  rh_new_epoch :: u32
  rh_cancelled_epoch :: u32
  rh_reason :: byte
  rh_justification_len :: u32

definition enc_rollback_hdr :: "ResdbRollbackHdr \<Rightarrow> bytes" where
  "enc_rollback_hdr h = put_u32 (rh_new_epoch h) @ put_u32 (rh_cancelled_epoch h) @
     [rh_reason h, 0, 0, 0] @ put_u32 (rh_justification_len h)"

definition dec_rollback_hdr :: "bytes \<Rightarrow> ResdbRollbackHdr" where
  "dec_rollback_hdr bs = \<lparr>rh_new_epoch = get_u32 bs 0, rh_cancelled_epoch = get_u32 bs 4,
     rh_reason = get_u8 bs 8, rh_justification_len = get_u32 bs 12\<rparr>"

definition sizeof_rollback_hdr :: nat where
  "sizeof_rollback_hdr = 16"

interpretation rollhdrc: fixed_codec enc_rollback_hdr dec_rollback_hdr sizeof_rollback_hdr "\<lambda>_. True"
  by unfold_locales
    (simp_all add: enc_rollback_hdr_def dec_rollback_hdr_def sizeof_rollback_hdr_def field_reads)

record ResdbCancelHdr =
  ch_cancelled_epoch :: u32
  ch_reason :: byte
  ch_justification_len :: u32

definition enc_cancel_hdr :: "ResdbCancelHdr \<Rightarrow> bytes" where
  "enc_cancel_hdr h = put_u32 (ch_cancelled_epoch h) @ [ch_reason h, 0, 0, 0] @
     put_u32 (ch_justification_len h)"

definition dec_cancel_hdr :: "bytes \<Rightarrow> ResdbCancelHdr" where
  "dec_cancel_hdr bs = \<lparr>ch_cancelled_epoch = get_u32 bs 0, ch_reason = get_u8 bs 4,
     ch_justification_len = get_u32 bs 8\<rparr>"

definition sizeof_cancel_hdr :: nat where
  "sizeof_cancel_hdr = 12"

interpretation canhdrc: fixed_codec enc_cancel_hdr dec_cancel_hdr sizeof_cancel_hdr "\<lambda>_. True"
  by unfold_locales
    (simp_all add: enc_cancel_hdr_def dec_cancel_hdr_def sizeof_cancel_hdr_def field_reads)

section \<open>Decisions\<close>

definition RESDB_CANCEL_DECISION_MAGIC :: u32 where
  "RESDB_CANCEL_DECISION_MAGIC = 0xCACEC0DE"

record ResdbCancelDecisionHdr =
  dh_magic :: u32
  dh_cancelled_epoch :: u32
  dh_reason :: byte
  dh_cancel_seq :: u64
  dh_payload_digest :: bytes

definition enc_cancel_decision :: "ResdbCancelDecisionHdr \<Rightarrow> bytes" where
  "enc_cancel_decision h = put_u32 (dh_magic h) @ put_u32 (dh_cancelled_epoch h) @
     [dh_reason h, 0, 0, 0] @ put_u64 (dh_cancel_seq h) @ fit 32 (dh_payload_digest h)"

definition dec_cancel_decision :: "bytes \<Rightarrow> ResdbCancelDecisionHdr" where
  "dec_cancel_decision bs = \<lparr>dh_magic = get_u32 bs 0, dh_cancelled_epoch = get_u32 bs 4,
     dh_reason = get_u8 bs 8, dh_cancel_seq = get_u64 bs 12, dh_payload_digest = get_arr 32 bs 20\<rparr>"

definition sizeof_cancel_decision :: nat where
  "sizeof_cancel_decision = 52"

interpretation candecc: fixed_codec enc_cancel_decision dec_cancel_decision sizeof_cancel_decision
  "\<lambda>h. length (dh_payload_digest h) = 32"
  by unfold_locales
    (simp_all add: enc_cancel_decision_def dec_cancel_decision_def sizeof_cancel_decision_def field_reads)

record ResdbCancelCommitRef =
  cr_cancelled_epoch :: u32
  cr_cancel_seq :: u64
  cr_payload_digest :: bytes
  cr_proof_len :: u32

definition enc_commit_ref :: "ResdbCancelCommitRef \<Rightarrow> bytes" where
  "enc_commit_ref h = put_u32 (cr_cancelled_epoch h) @ put_u64 (cr_cancel_seq h) @
     fit 32 (cr_payload_digest h) @ put_u32 (cr_proof_len h)"

definition dec_commit_ref :: "bytes \<Rightarrow> ResdbCancelCommitRef" where
  "dec_commit_ref bs = \<lparr>cr_cancelled_epoch = get_u32 bs 0, cr_cancel_seq = get_u64 bs 4,
     cr_payload_digest = get_arr 32 bs 12, cr_proof_len = get_u32 bs 44\<rparr>"

definition sizeof_commit_ref :: nat where
  "sizeof_commit_ref = 48"

interpretation refc: fixed_codec enc_commit_ref dec_commit_ref sizeof_commit_ref
  "\<lambda>h. length (cr_payload_digest h) = 32"
  by unfold_locales
    (simp_all add: enc_commit_ref_def dec_commit_ref_def sizeof_commit_ref_def field_reads)

record ResdbVehicleDecision =
  vd_replica_id :: int
  vd_batch_index :: u32

definition enc_decision :: "ResdbVehicleDecision \<Rightarrow> bytes" where
  "enc_decision d = put_i32 (vd_replica_id d) @ put_u32 (vd_batch_index d)"

definition dec_decision :: "bytes \<Rightarrow> ResdbVehicleDecision" where
  "dec_decision bs = \<lparr>vd_replica_id = get_i32 bs 0, vd_batch_index = get_u32 bs 4\<rparr>"

definition sizeof_decision :: nat where
  "sizeof_decision = 8"

interpretation decc: fixed_codec enc_decision dec_decision sizeof_decision
  "\<lambda>d. in_i32 (vd_replica_id d)"
  by unfold_locales
    (simp_all add: enc_decision_def dec_decision_def sizeof_decision_def field_reads)

record ResdbOrderHdr =
  oh_epoch :: u32
  oh_n_vehicles :: u32
  oh_n_batches :: u32

definition enc_order_hdr :: "ResdbOrderHdr \<Rightarrow> bytes" where
  "enc_order_hdr h = put_u32 (oh_epoch h) @ put_u32 (oh_n_vehicles h) @ put_u32 (oh_n_batches h)"

definition dec_order_hdr :: "bytes \<Rightarrow> ResdbOrderHdr" where
  "dec_order_hdr bs = \<lparr>oh_epoch = get_u32 bs 0, oh_n_vehicles = get_u32 bs 4,
     oh_n_batches = get_u32 bs 8\<rparr>"

definition sizeof_order_hdr :: nat where
  "sizeof_order_hdr = 12"

interpretation ordhdrc: fixed_codec enc_order_hdr dec_order_hdr sizeof_order_hdr "\<lambda>_. True"
  by unfold_locales
    (simp_all add: enc_order_hdr_def dec_order_hdr_def sizeof_order_hdr_def field_reads)

text \<open>The certificate snapshot entry crosses the C interface in memory only.\<close>

record ResdbCertEntry =
  ce_replica_id :: int
  ce_lane :: byte
  ce_position_in_lane :: byte
  ce_direction :: byte
  ce_is_ambulance :: byte
  ce_physical_lane_index :: byte
  ce_lateral_claim_cm :: int

section \<open>Arrays of entries behind a header\<close>

definition dec_entries :: "nat \<Rightarrow> nat \<Rightarrow> bytes \<Rightarrow> ResdbVehicleEntry list" where
  "dec_entries off n bs = map (\<lambda>i. dec_entry (drop (off + i * sizeof_entry) bs)) [0..<n]"

lemma length_dec_entries [simp]: "length (dec_entries off n bs) = n"
  by (simp add: dec_entries_def)

lemma wf_dec_entry [simp]: "wf_entry (dec_entry bs)"
  by (simp add: wf_entry_def dec_entry_def)

lemma wf_dec_entries: "e \<in> set (dec_entries off n bs) \<Longrightarrow> wf_entry e"
  by (auto simp: dec_entries_def)

lemma dec_entries_enc:
  assumes "\<forall>e \<in> set es. wf_entry e" and "n = length es" and "length pre = off"
  shows "dec_entries off n (pre @ concat (map enc_entry es) @ r) = es"
  unfolding dec_entries_def using assms by (rule entryc.dec_array)

lemma dec_propose_hdr_enc:
  "in_i32 (ph_leader_id h) \<Longrightarrow> dec_propose_hdr (enc_propose_hdr h @ r) = h"
  by (rule prophdrc.dec_enc)

lemma length_enc_propose_hdr [simp]: "length (enc_propose_hdr h) = 20"
  using prophdrc.length_enc [of h] by (simp add: sizeof_propose_hdr_def)

lemma length_enc_entries [simp]: "length (concat (map enc_entry es)) = length es * 22"
  using entryc.length_array [of es] by (simp add: sizeof_entry_def)

end
