(* ===== verification/Proposal.thy ===== *)
theory Proposal
  imports Wire TextCodec
begin

text \<open>
  Classification of a submitted payload in \<^verbatim>\<open>bridge/resdb_omnet_bridge.cc\<close>: an ordinary
  ORDER proposal, a CANCEL proposal or a rollback wrapper around an ORDER, and the
  structural checks of the justifications they carry. The functions that fill a
  \<open>ProposalView\<close> through a pointer return the updated view beside their verdict, also when
  the verdict is \<open>false\<close>.
\<close>

datatype ProposalKind = kNormal | kCancel | kRollback

record ProposalView =
  pv_data :: bytes
  pv_kind :: ProposalKind
  pv_rollback :: ResdbRollbackHdr
  pv_cancel :: ResdbCancelHdr
  pv_cancel_leader_id :: int
  pv_cancel_electors :: "int list"
  pv_raw_payload :: bytes

definition empty_rollback :: ResdbRollbackHdr where
  "empty_rollback = \<lparr>rh_new_epoch = 0, rh_cancelled_epoch = 0, rh_reason = 0, rh_justification_len = 0\<rparr>"

definition empty_cancel :: ResdbCancelHdr where
  "empty_cancel = \<lparr>ch_cancelled_epoch = 0, ch_reason = 0, ch_justification_len = 0\<rparr>"

definition empty_proposal_view :: ProposalView where
  "empty_proposal_view = \<lparr>pv_data = [], pv_kind = kNormal, pv_rollback = empty_rollback,
     pv_cancel = empty_cancel, pv_cancel_leader_id = -1, pv_cancel_electors = [], pv_raw_payload = []\<rparr>"

definition is_rollback :: "ProposalView \<Rightarrow> bool" where
  "is_rollback v \<longleftrightarrow> pv_kind v = kRollback"

definition is_cancel :: "ProposalView \<Rightarrow> bool" where
  "is_cancel v \<longleftrightarrow> pv_kind v = kCancel"

definition ParseNormalProposal :: "bytes \<Rightarrow> ResdbProposeHdr option" where
  "ParseNormalProposal data =
     (if length data < sizeof_propose_hdr then None
      else let hdr = dec_propose_hdr data in
        if ph_n_vehicles hdr > 10000 then None
        else if length data < sizeof_propose_hdr + unat (ph_n_vehicles hdr) * sizeof_entry then None
        else Some hdr)"

definition dec_i32s :: "nat \<Rightarrow> nat \<Rightarrow> bytes \<Rightarrow> int list" where
  "dec_i32s off n bs = map (\<lambda>i. get_i32 (drop (off + i * 4) bs) 0) [0..<n]"

definition ParseCancelTail ::
  "bytes \<Rightarrow> nat \<Rightarrow> nat \<Rightarrow> ProposalView \<Rightarrow> bool \<times> ProposalView" where
  "ParseCancelTail raw just_off just_len view =
     (let tail_off = just_off + just_len in
      if length raw < tail_off + 4 + 4 then (False, view)
      else let leader_id = get_i32 raw tail_off;
               n_electors = get_u32 raw (tail_off + 4);
               electors_off = tail_off + 4 + 4
           in if n_electors > 10000 \<or> length raw < electors_off + unat n_electors * 4 then (False, view)
              else (True, view\<lparr>pv_cancel_leader_id := leader_id,
                      pv_cancel_electors := dec_i32s electors_off (unat n_electors) raw\<rparr>))"

definition CANCEL_CERT_TAG :: bytes where
  "CANCEL_CERT_TAG = to_bytes ''CANCEL_CERT|''"

text \<open>\<open>s.rfind(tag, 0) == 0\<close>: the string starts with the tag.\<close>

definition starts_with :: "bytes \<Rightarrow> bytes \<Rightarrow> bool" where
  "starts_with s tag \<longleftrightarrow> take (length tag) s = tag"

definition LooksLikeCancelProposal :: "bytes \<Rightarrow> ProposalView \<Rightarrow> bool \<times> ProposalView" where
  "LooksLikeCancelProposal raw view =
     (if length raw < sizeof_cancel_hdr then (False, view)
      else let chdr = dec_cancel_hdr raw; just_off = sizeof_cancel_hdr;
               just_len = unat (ch_justification_len chdr) in
        if ch_reason chdr > 1 then (False, view)
        else if just_off + just_len > length raw then (False, view)
        else if ch_justification_len chdr = 0 then (False, view)
        else if \<not> starts_with (take just_len (drop just_off raw)) CANCEL_CERT_TAG then (False, view)
        else if length raw \<ge> sizeof_rollback_hdr \<and>
            (let rhdr = dec_rollback_hdr raw in
             rh_reason rhdr \<le> 1 \<and> rh_new_epoch rhdr = rh_cancelled_epoch rhdr + 1) then (False, view)
        else (case ParseCancelTail raw just_off just_len
                  (view\<lparr>pv_kind := kCancel, pv_cancel := chdr, pv_raw_payload := raw\<rparr>) of
                (False, view') \<Rightarrow> (False, view')
              | (True, view') \<Rightarrow> (True, view'\<lparr>pv_data := raw\<rparr>)))"

definition UnwrapRollbackIfPresent :: "bytes \<Rightarrow> bool \<times> ProposalView" where
  "UnwrapRollbackIfPresent raw =
     (let view0 = empty_proposal_view\<lparr>pv_data := raw, pv_kind := kNormal, pv_cancel_electors := [],
            pv_cancel_leader_id := -1, pv_raw_payload := raw\<rparr>;
          (is_c, view) = LooksLikeCancelProposal raw view0;
          normal = (ParseNormalProposal (pv_data view) \<noteq> None, view) in
      if is_c then (True, view)
      else if length raw < sizeof_rollback_hdr + sizeof_propose_hdr then normal
      else let rhdr = dec_rollback_hdr raw in
        if rh_reason rhdr > 1 then normal
        else if rh_new_epoch rhdr \<noteq> rh_cancelled_epoch rhdr + 1 then normal
        else let inner_off = sizeof_rollback_hdr + unat (rh_justification_len rhdr) in
          if inner_off > length raw then normal
          else (case ParseNormalProposal (drop inner_off raw) of
                  None \<Rightarrow> normal
                | Some inner_hdr \<Rightarrow>
                    if ph_epoch inner_hdr \<noteq> rh_new_epoch rhdr then normal
                    else (True, view\<lparr>pv_data := drop inner_off raw, pv_kind := kRollback,
                            pv_rollback := rhdr\<rparr>)))"

definition StructurallyValidCancelJustification :: "bytes \<Rightarrow> ResdbRollbackHdr \<Rightarrow> bool" where
  "StructurallyValidCancelJustification raw rhdr =
     (let off = sizeof_rollback_hdr; jl = unat (rh_justification_len rhdr) in
      if length raw < off + jl then False
      else if rh_reason rhdr > 1 \<or> rh_justification_len rhdr = 0 then False
      else let just = take jl (drop off raw) in
        if starts_with just CANCEL_CERT_TAG then False
        else if length just < sizeof_commit_ref then False
        else let ref = dec_commit_ref just in
          if cr_cancelled_epoch ref \<noteq> rh_cancelled_epoch rhdr then False
          else if length just < sizeof_commit_ref + unat (cr_proof_len ref) then False
          else True)"

text \<open>The distinct signer names of the certificate text: parts after the fourth, up to a colon.\<close>

definition cancel_signers :: "bytes \<Rightarrow> bytes list" where
  "cancel_signers just =
     map (takeWhile (\<lambda>b. b \<noteq> of_nat (of_char CHR '':'')))
       (filter (\<lambda>part. of_nat (of_char CHR '':'') \<in> set part)
         (drop 4 (getline_parts just (of_nat (of_char CHR ''|'')))))"

definition Check13ValidCancelProposal :: "ProposalView \<Rightarrow> bool" where
  "Check13ValidCancelProposal view =
     (let jl = unat (ch_justification_len (pv_cancel view)); just_off = sizeof_cancel_hdr in
      if \<not> is_cancel view then False
      else if ch_reason (pv_cancel view) > 1 \<or> ch_justification_len (pv_cancel view) = 0 then False
      else if length (pv_raw_payload view) < just_off + jl then False
      else let just = take jl (drop just_off (pv_raw_payload view)) in
        if \<not> starts_with just CANCEL_CERT_TAG then False
        else cancel_signers just \<noteq> [] \<and> pv_cancel_leader_id view \<ge> 0 \<and> pv_cancel_electors view \<noteq> [])"

section \<open>What the encoders of the application produce\<close>

definition enc_proposal :: "ResdbProposeHdr \<Rightarrow> ResdbVehicleEntry list \<Rightarrow> bytes \<Rightarrow> bytes" where
  "enc_proposal hdr es trailer = enc_propose_hdr hdr @ concat (map enc_entry es) @ trailer"

definition enc_cancel_proposal :: "ResdbCancelHdr \<Rightarrow> bytes \<Rightarrow> int \<Rightarrow> int list \<Rightarrow> bytes" where
  "enc_cancel_proposal ch just leader electors =
     enc_cancel_hdr ch @ just @ put_i32 leader @ put_u32 (of_nat (length electors)) @
       concat (map put_i32 electors)"

lemma length_enc_cancel_hdr [simp]: "length (enc_cancel_hdr h) = 12"
  using canhdrc.length_enc [of h] by (simp add: sizeof_cancel_hdr_def)

lemma ParseNormalProposal_sound:
  "ParseNormalProposal data = Some hdr \<Longrightarrow>
   hdr = dec_propose_hdr data \<and> ph_n_vehicles hdr \<le> 10000 \<and>
   sizeof_propose_hdr + unat (ph_n_vehicles hdr) * sizeof_entry \<le> length data"
  by (auto simp: ParseNormalProposal_def Let_def not_less split: if_splits)

lemma ParseNormalProposal_enc:
  assumes "in_i32 (ph_leader_id hdr)" and "unat (ph_n_vehicles hdr) = length es" and "length es \<le> 10000"
  shows "ParseNormalProposal (enc_proposal hdr es trailer) = Some hdr"
proof -
  have "ph_n_vehicles hdr \<le> 10000"
    using assms(2,3) by (simp add: word_le_nat_alt)
  then show ?thesis
    using assms by (simp add: ParseNormalProposal_def enc_proposal_def sizeof_propose_hdr_def sizeof_entry_def
        dec_propose_hdr_enc Let_def not_less)
qed

lemma dec_entries_proposal:
  assumes "\<forall>e \<in> set es. wf_entry e"
  shows "dec_entries sizeof_propose_hdr (length es) (enc_proposal hdr es trailer) = es"
  unfolding enc_proposal_def using assms by (intro dec_entries_enc) (simp_all add: sizeof_propose_hdr_def)

text \<open>A payload whose justification starts with the tag is no ordinary proposal.\<close>

lemma tag_bytes: "CANCEL_CERT_TAG = [67, 65, 78, 67, 69, 76, 95, 67, 69, 82, 84, 124]"
  by (simp add: CANCEL_CERT_TAG_def to_bytes_def)

lemma length_tag: "length CANCEL_CERT_TAG = 12"
  by (simp add: tag_bytes)

lemma starts_with_tag: "starts_with s CANCEL_CERT_TAG \<longleftrightarrow> take 12 s = CANCEL_CERT_TAG"
  by (simp only: starts_with_def length_tag)

lemma starts_with_tag_length: "starts_with s CANCEL_CERT_TAG \<Longrightarrow> 12 \<le> length s"
proof -
  assume "starts_with s CANCEL_CERT_TAG"
  then have "length (take 12 s) = 12" by (simp only: starts_with_tag length_tag)
  then show ?thesis by simp
qed

lemma cancel_not_normal:
  assumes "starts_with (drop 12 raw) CANCEL_CERT_TAG"
  shows "ParseNormalProposal raw = None"
proof -
  have "take 12 (drop 12 raw) = CANCEL_CERT_TAG"
    using assms by (simp only: starts_with_tag)
  then have pre: "drop 12 raw = CANCEL_CERT_TAG @ drop 12 (drop 12 raw)"
    by (metis append_take_drop_id)
  have "drop 16 raw = drop 4 (drop 12 raw)" by simp
  also have "\<dots> = [69, 76, 95, 67, 69, 82, 84, 124] @ drop 12 (drop 12 raw)"
    by (subst pre) (simp add: tag_bytes)
  finally have "get_u32 raw 16 = 0x435F4C45"
    by (simp add: get_u32_def)
  then show ?thesis
    by (simp add: ParseNormalProposal_def dec_propose_hdr_def Let_def)
qed

end
