(* ===== verification/ForcedView.thy ===== *)
theory ForcedView
  imports OrdMap
begin

text \<open>
  The active views of \<^verbatim>\<open>incubator-resilientdb/platform/consensus/ordering/pbft/omnet_forced_view.h\<close>:
  the Byzantine quorum size, the normalised view and the request-scoped registry. An
  exception of \<open>BftQuorumSize\<close> is the value \<open>None\<close>.
\<close>

section \<open>Quorum size\<close>

definition BftQuorumSize :: "int \<Rightarrow> int \<Rightarrow> int option" where
  "BftQuorumSize n f =
     (if n \<le> 0 then Some 0
      else if f < 0 \<or> f > (n - 1) div 3 then None
      else Some (max ((n + f + 2) div 2) 1))"

text \<open>
  What a voting rule owes to a Byzantine protocol: two quorums of one membership share more
  than \<open>f\<close> members, and the correct members alone can form one.
\<close>

locale bft_quorum =
  fixes quorum :: "int \<Rightarrow> int \<Rightarrow> int option"
  assumes overlap: "quorum n f = Some q \<Longrightarrow> 0 < n \<Longrightarrow> n + f < 2 * q"
    and attainable: "quorum n f = Some q \<Longrightarrow> 0 < n \<Longrightarrow> q + f \<le> n"
    and nonneg: "quorum n f = Some q \<Longrightarrow> 0 < n \<Longrightarrow> 0 \<le> f"
begin

lemma common_honest_voter:
  assumes "quorum (int (card M)) f = Some q" and "finite M" and "M \<noteq> {}"
    and "A \<subseteq> M" and "B \<subseteq> M" and "q \<le> int (card A)" and "q \<le> int (card B)"
    and "int (card (M \<inter> Bad)) \<le> f"
  obtains m where "m \<in> A" and "m \<in> B" and "m \<notin> Bad"
proof -
  have "0 < int (card M)" using assms(2,3) by (simp add: card_gt_0_iff)
  then have "int (card M) + f < 2 * q" using assms(1) overlap by blast
  moreover have "card A + card B \<le> card M + card (A \<inter> B)"
    using assms(2,4,5) by (rule card_overlap)
  ultimately have "f < int (card (A \<inter> B))" using assms(6,7) by linarith
  then have "nat f < card (A \<inter> B)"
    using nonneg [OF assms(1) \<open>0 < int (card M)\<close>] by linarith
  moreover have "card ((A \<inter> B) \<inter> Bad) \<le> nat f"
  proof -
    have "card ((A \<inter> B) \<inter> Bad) \<le> card (M \<inter> Bad)"
      using assms(2,4) by (intro card_mono) auto
    with assms(8) show ?thesis by linarith
  qed
  ultimately obtain m where "m \<in> A \<inter> B" "m \<notin> Bad"
    using honest_member finite_subset [OF assms(4,2)] by (metis finite_Int)
  with that show thesis by blast
qed

lemma honest_quorum:
  assumes "quorum (int (card M)) f = Some q" and "finite M" and "M \<noteq> {}"
    and "int (card (M \<inter> Bad)) \<le> f"
  shows "q \<le> int (card (M - Bad))"
proof -
  have "0 < int (card M)" using assms(2,3) by (simp add: card_gt_0_iff)
  then have "q + f \<le> int (card M)" using assms(1) attainable by blast
  moreover have "card (M - Bad) = card M - card (M \<inter> Bad)" "card (M \<inter> Bad) \<le> card M"
    using assms(2) by (simp_all add: card_Diff_subset_Int card_mono)
  ultimately show ?thesis using assms(4) by linarith
qed

end

lemma BftQuorumSize_bounds:
  assumes "BftQuorumSize n f = Some q" and "0 < n"
  shows "n + f < 2 * q" and "q + f \<le> n" and "0 \<le> f" and "0 < q"
proof -
  have f: "0 \<le> f" "f \<le> (n - 1) div 3" and q: "q = max ((n + f + 2) div 2) 1"
    using assms by (auto simp: BftQuorumSize_def split: if_splits)
  have "3 * f + 1 \<le> n" using f(2) by linarith
  then show "n + f < 2 * q" "q + f \<le> n" "0 < q" using q f(1) by auto
  show "0 \<le> f" by (rule f(1))
qed

interpretation bq: bft_quorum BftQuorumSize
  by unfold_locales (auto dest: BftQuorumSize_bounds)

lemma BftQuorumSize_defined: "0 < n \<Longrightarrow> 0 \<le> f \<Longrightarrow> f \<le> (n - 1) div 3 \<Longrightarrow> BftQuorumSize n f \<noteq> None"
  by (simp add: BftQuorumSize_def)

section \<open>Views\<close>

record OmnetForcedView =
  fv_epoch :: u32
  fv_seq :: u64
  fv_request_hash :: string
  fv_primary_omnet :: int
  fv_active_omnet_ids :: "int list"
  fv_f_override :: bool
  fv_f :: int
  fv_quorum :: int

definition empty_view :: OmnetForcedView where
  "empty_view = \<lparr>fv_epoch = 0, fv_seq = 0, fv_request_hash = [], fv_primary_omnet = -1,
     fv_active_omnet_ids = [], fv_f_override = False, fv_f = 0, fv_quorum = 1\<rparr>"

definition IsActiveOmnet :: "OmnetForcedView \<Rightarrow> int \<Rightarrow> bool" where
  "IsActiveOmnet v replica_id = binary_search (fv_active_omnet_ids v) replica_id"

definition ResdbSenderToOmnet :: "int \<Rightarrow> int" where
  "ResdbSenderToOmnet sender_id = (if sender_id \<le> 0 then -1 else sender_id - 1)"

definition IsActiveResdbSender :: "OmnetForcedView \<Rightarrow> int \<Rightarrow> bool" where
  "IsActiveResdbSender v sender_id = IsActiveOmnet v (ResdbSenderToOmnet sender_id)"

definition PrimaryResdbId :: "OmnetForcedView \<Rightarrow> int" where
  "PrimaryResdbId v = fv_primary_omnet v + 1"

definition Normalize :: "OmnetForcedView \<Rightarrow> OmnetForcedView option" where
  "Normalize view =
     (let members = remdups_adj (sort (fv_active_omnet_ids view));
          n = int (length members);
          f = (if \<not> fv_f_override view then (if n > 0 then (n - 1) div 3 else 0) else fv_f view)
      in case BftQuorumSize n f of
           None \<Rightarrow> None
         | Some q \<Rightarrow> Some (view\<lparr>fv_active_omnet_ids := members, fv_f := f, fv_quorum := q\<rparr>))"

text \<open>The fields of the consensus request the bridge reads.\<close>

datatype RequestType = TYPE_PRE_PREPARE | TYPE_NEW_TXNS | TYPE_OTHER

record Request =
  rq_type :: RequestType
  rq_seq :: u64
  rq_hash :: string
  rq_sender_id :: int
  rq_current_view :: u64
  rq_data :: bytes

section \<open>The registry\<close>

type_synonym ViewKey = "u32 \<times> u64 \<times> string"

record OmnetForcedViewRegistry =
  rv_views :: "(ViewKey, OmnetForcedView) omap"
  rv_pending_by_hash :: "(string, OmnetForcedView) omap"
  rv_latest :: "OmnetForcedView option"

definition empty_registry :: OmnetForcedViewRegistry where
  "empty_registry = \<lparr>rv_views = [], rv_pending_by_hash = [], rv_latest = None\<rparr>"

definition view_key :: "OmnetForcedView \<Rightarrow> ViewKey" where
  "view_key v = (fv_epoch v, fv_seq v, fv_request_hash v)"

definition InstallPending ::
  "OmnetForcedView \<Rightarrow> OmnetForcedViewRegistry \<Rightarrow> OmnetForcedViewRegistry option" where
  "InstallPending view reg =
     (case Normalize view of
        None \<Rightarrow> None
      | Some v \<Rightarrow> Some (reg\<lparr>rv_pending_by_hash := om_put (fv_request_hash v) v (rv_pending_by_hash reg),
                           rv_latest := Some v\<rparr>))"

definition InstallForRequest ::
  "Request \<Rightarrow> OmnetForcedView \<Rightarrow> OmnetForcedViewRegistry \<Rightarrow> (bool \<times> OmnetForcedViewRegistry) option" where
  "InstallForRequest request view reg =
     (if rq_hash request = [] then Some (False, reg)
      else case Normalize view of
        None \<Rightarrow> None
      | Some v0 \<Rightarrow>
          (let v = v0\<lparr>fv_seq := rq_seq request, fv_request_hash := rq_hash request\<rparr>;
               key = view_key v;
               conflict = (case om_get (rv_views reg) key of
                  None \<Rightarrow> False
                | Some old \<Rightarrow> fv_active_omnet_ids old \<noteq> fv_active_omnet_ids v)
           in if conflict then Some (False, reg)
              else Some (True, reg\<lparr>rv_views := om_put key v (rv_views reg),
                     rv_pending_by_hash := om_put (fv_request_hash v) v (rv_pending_by_hash reg),
                     rv_latest := Some v\<rparr>)))"

definition FindForRequest ::
  "Request \<Rightarrow> OmnetForcedViewRegistry \<Rightarrow> OmnetForcedView option \<times> OmnetForcedViewRegistry" where
  "FindForRequest request reg =
     (if rq_hash request = [] then (None, reg)
      else case List.find (\<lambda>(k, view). fv_seq view = rq_seq request \<and>
                fv_request_hash view = rq_hash request) (rv_views reg) of
        Some (k, view) \<Rightarrow> (Some view, reg)
      | None \<Rightarrow>
          (case om_get (rv_pending_by_hash reg) (rq_hash request) of
             None \<Rightarrow> (None, reg)
           | Some view \<Rightarrow>
               if rq_seq request \<noteq> 0 then
                 (let v = view\<lparr>fv_seq := rq_seq request\<rparr>
                  in (Some v, reg\<lparr>rv_views := om_put (view_key v) v (rv_views reg), rv_latest := Some v\<rparr>))
               else (Some view, reg)))"

definition Latest :: "OmnetForcedViewRegistry \<Rightarrow> OmnetForcedView option" where
  "Latest reg = rv_latest reg"

definition HasAny :: "OmnetForcedViewRegistry \<Rightarrow> bool" where
  "HasAny reg = (rv_latest reg \<noteq> None)"

section \<open>Normalised views\<close>

definition view_ok :: "OmnetForcedView \<Rightarrow> bool" where
  "view_ok v \<longleftrightarrow> sorted (fv_active_omnet_ids v) \<and> distinct (fv_active_omnet_ids v) \<and>
     BftQuorumSize (int (length (fv_active_omnet_ids v))) (fv_f v) = Some (fv_quorum v)"

lemma Normalize_ok: "Normalize view = Some v \<Longrightarrow> view_ok v"
  by (auto simp: Normalize_def view_ok_def Let_def distinct_remdups_adj_sorted sorted_remdups_adj
      split: option.splits if_splits)

lemma Normalize_members:
  "Normalize view = Some v \<Longrightarrow> set (fv_active_omnet_ids v) = set (fv_active_omnet_ids view)"
  by (auto simp: Normalize_def Let_def split: option.splits if_splits)

lemma view_ok_update [simp]:
  "view_ok (v\<lparr>fv_seq := s\<rparr>) = view_ok v" "view_ok (v\<lparr>fv_seq := s, fv_request_hash := h\<rparr>) = view_ok v"
  by (simp_all add: view_ok_def)

lemma view_ok_active: "view_ok v \<Longrightarrow> IsActiveOmnet v r \<longleftrightarrow> r \<in> set (fv_active_omnet_ids v)"
  by (simp add: view_ok_def IsActiveOmnet_def binary_search_sorted)

section \<open>Reachable registries\<close>

text \<open>
  The registry is shared by the consensus threads; every access holds the mutex, so its
  history is a sequence of the three operations. A call that throws leaves it as it was.
\<close>

inductive registry_step :: "OmnetForcedViewRegistry \<Rightarrow> OmnetForcedViewRegistry \<Rightarrow> bool" where
  install_pending: "InstallPending view reg = Some reg' \<Longrightarrow> registry_step reg reg'"
| install_request: "InstallForRequest request view reg = Some (ok, reg') \<Longrightarrow> registry_step reg reg'"
| find_request: "FindForRequest request reg = (found, reg') \<Longrightarrow> registry_step reg reg'"

inductive registry_reachable :: "OmnetForcedViewRegistry \<Rightarrow> bool" where
  initial: "registry_reachable empty_registry"
| step: "registry_reachable reg \<Longrightarrow> registry_step reg reg' \<Longrightarrow> registry_reachable reg'"

definition registry_ok :: "OmnetForcedViewRegistry \<Rightarrow> bool" where
  "registry_ok reg \<longleftrightarrow>
     om_ok (rv_views reg) \<and> om_ok (rv_pending_by_hash reg) \<and>
     (\<forall>k v. om_get (rv_views reg) k = Some v \<longrightarrow> view_ok v \<and> view_key v = k) \<and>
     (\<forall>h v. om_get (rv_pending_by_hash reg) h = Some v \<longrightarrow> view_ok v \<and> fv_request_hash v = h) \<and>
     (\<forall>v. rv_latest reg = Some v \<longrightarrow> view_ok v)"

lemma registry_okD:
  "registry_ok reg \<Longrightarrow> om_get (rv_views reg) k = Some v \<Longrightarrow> view_ok v \<and> view_key v = k"
  "registry_ok reg \<Longrightarrow> om_get (rv_pending_by_hash reg) h = Some v \<Longrightarrow> view_ok v \<and> fv_request_hash v = h"
  unfolding registry_ok_def by blast+

lemma registry_ok_empty: "registry_ok empty_registry"
  by (simp add: registry_ok_def empty_registry_def om.get_empty om.inv_empty)

lemma registry_ok_put:
  assumes "registry_ok reg" and "view_ok v" and "vs \<in> {rv_views reg, om_put (view_key v) v (rv_views reg)}"
    and "ps \<in> {rv_pending_by_hash reg, om_put (fv_request_hash v) v (rv_pending_by_hash reg)}"
  shows "registry_ok (reg\<lparr>rv_views := vs, rv_pending_by_hash := ps, rv_latest := Some v\<rparr>)"
  using assms unfolding registry_ok_def
  by (auto simp: om.inv_put om_get_put split: if_splits)

lemma InstallPending_ok:
  assumes "registry_ok reg" and "InstallPending view reg = Some reg'"
  shows "registry_ok reg'"
proof -
  obtain v where v: "Normalize view = Some v"
    and reg': "reg' = reg\<lparr>rv_pending_by_hash := om_put (fv_request_hash v) v (rv_pending_by_hash reg), rv_latest := Some v\<rparr>"
    using assms(2) by (auto simp: InstallPending_def split: option.splits)
  have "registry_ok (reg\<lparr>rv_views := rv_views reg,
      rv_pending_by_hash := om_put (fv_request_hash v) v (rv_pending_by_hash reg), rv_latest := Some v\<rparr>)"
    by (rule registry_ok_put [OF assms(1) Normalize_ok [OF v]]) simp_all
  then show ?thesis by (simp add: reg')
qed

lemma InstallForRequest_cases:
  assumes "InstallForRequest request view reg = Some (ok, reg')"
  obtains "\<not> ok" "reg' = reg"
  | v where "ok" "view_ok v" "rq_hash request \<noteq> []" "fv_seq v = rq_seq request" "fv_request_hash v = rq_hash request"
      "set (fv_active_omnet_ids v) = set (fv_active_omnet_ids view)" "fv_epoch v = fv_epoch view"
      "\<forall>old. om_get (rv_views reg) (view_key v) = Some old \<longrightarrow> fv_active_omnet_ids old = fv_active_omnet_ids v"
      "reg' = reg\<lparr>rv_views := om_put (view_key v) v (rv_views reg),
        rv_pending_by_hash := om_put (fv_request_hash v) v (rv_pending_by_hash reg), rv_latest := Some v\<rparr>"
proof (cases "ok")
  case False
  then show thesis
    using assms that(1) by (auto simp: InstallForRequest_def Let_def split: if_splits option.splits)
next
  case True
  then have h: "rq_hash request \<noteq> []" and "Normalize view \<noteq> None"
    using assms by (auto simp: InstallForRequest_def split: if_splits option.splits)
  then obtain v0 where v0: "Normalize view = Some v0" by auto
  have e: "fv_epoch v0 = fv_epoch view"
    using v0 by (auto simp: Normalize_def Let_def split: option.splits)
  let ?v = "v0\<lparr>fv_seq := rq_seq request, fv_request_hash := rq_hash request\<rparr>"
  show thesis
    by (rule that(2) [of ?v])
      (use assms True h v0 e Normalize_ok [OF v0] Normalize_members [OF v0]
        in \<open>auto simp: InstallForRequest_def Let_def split: if_splits option.splits\<close>)
qed

lemma InstallForRequest_ok:
  assumes "registry_ok reg" and "InstallForRequest request view reg = Some (ok, reg')"
  shows "registry_ok reg'"
  using assms(2)
proof (cases rule: InstallForRequest_cases)
  case 1
  with assms(1) show ?thesis by simp
next
  case (2 v)
  with registry_ok_put [OF assms(1), of v] show ?thesis by simp
qed

lemma FindForRequest_cases:
  assumes "FindForRequest request reg = (found, reg')"
  obtains "reg' = reg"
  | view v where "om_get (rv_pending_by_hash reg) (rq_hash request) = Some view"
      "v = view\<lparr>fv_seq := rq_seq request\<rparr>" "found = Some v"
      "\<forall>(k, w) \<in> set (rv_views reg). \<not> (fv_seq w = rq_seq request \<and> fv_request_hash w = rq_hash request)"
      "reg' = reg\<lparr>rv_views := om_put (view_key v) v (rv_views reg), rv_latest := Some v\<rparr>"
  using assms that
  by (fastforce simp: FindForRequest_def Let_def find_None_iff split: if_splits option.splits prod.splits)

lemma FindForRequest_ok:
  assumes "registry_ok reg" and "FindForRequest request reg = (found, reg')"
  shows "registry_ok reg'"
  using assms(2)
proof (cases rule: FindForRequest_cases)
  case 1
  with assms(1) show ?thesis by simp
next
  case (2 view v)
  have "view_ok v" using assms(1) 2(1,2) by (simp add: registry_ok_def)
  then have "registry_ok (reg\<lparr>rv_views := om_put (view_key v) v (rv_views reg),
      rv_pending_by_hash := rv_pending_by_hash reg, rv_latest := Some v\<rparr>)"
    by (rule registry_ok_put [OF assms(1)]) simp_all
  then show ?thesis by (simp add: 2(5))
qed

lemma registry_step_ok: "registry_step reg reg' \<Longrightarrow> registry_ok reg \<Longrightarrow> registry_ok reg'"
  by (induction rule: registry_step.induct)
    (blast intro: InstallPending_ok InstallForRequest_ok FindForRequest_ok)+

lemma registry_reachable_ok: "registry_reachable reg \<Longrightarrow> registry_ok reg"
  by (induction rule: registry_reachable.induct) (blast intro: registry_ok_empty registry_step_ok)+

section \<open>Properties of the registry\<close>

text \<open>
  C20: in every reachable registry, two vote sets that reach a stored view's quorum share a
  correct active member, as long as at most \<open>f\<close> of the view's members are faulty. Two
  conflicting decisions cannot both gather a quorum in one view.
\<close>

theorem forced_view_quorums_intersect:
  assumes "registry_reachable reg" and "om_get (rv_views reg) k = Some v"
    and "fv_active_omnet_ids v \<noteq> []"
    and "A \<subseteq> set (fv_active_omnet_ids v)" and "B \<subseteq> set (fv_active_omnet_ids v)"
    and "fv_quorum v \<le> int (card A)" and "fv_quorum v \<le> int (card B)"
    and "int (card (set (fv_active_omnet_ids v) \<inter> Bad)) \<le> fv_f v"
  shows "\<exists>m \<in> A \<inter> B. m \<notin> Bad \<and> IsActiveOmnet v m"
proof -
  have ok: "view_ok v"
    using registry_okD(1) [OF registry_reachable_ok [OF assms(1)] assms(2)] by simp
  then have "card (set (fv_active_omnet_ids v)) = length (fv_active_omnet_ids v)"
    by (simp add: view_ok_def distinct_card)
  then have "BftQuorumSize (int (card (set (fv_active_omnet_ids v)))) (fv_f v) = Some (fv_quorum v)"
    using ok by (simp add: view_ok_def)
  then obtain m where "m \<in> A" "m \<in> B" "m \<notin> Bad"
    using bq.common_honest_voter [of "set (fv_active_omnet_ids v)"] assms(3-8) by (metis List.finite_set set_empty)
  then show ?thesis
    using assms(4) view_ok_active [OF ok] by blast
qed

definition demo_view :: OmnetForcedView where
  "demo_view = empty_view\<lparr>fv_epoch := 1, fv_primary_omnet := 0, fv_active_omnet_ids := [2, 0, 3, 1]\<rparr>"

definition demo_request :: Request where
  "demo_request = \<lparr>rq_type = TYPE_PRE_PREPARE, rq_seq = 7, rq_hash = ''h'', rq_sender_id = 1,
     rq_current_view = 1, rq_data = []\<rparr>"

definition demo_installed :: OmnetForcedView where
  "demo_installed = demo_view\<lparr>fv_active_omnet_ids := [0, 1, 2, 3], fv_f := 1, fv_quorum := 3,
     fv_seq := 7, fv_request_hash := ''h''\<rparr>"

lemma demo_install:
  "InstallForRequest demo_request demo_view empty_registry =
     Some (True, \<lparr>rv_views = [((1, 7, ''h''), demo_installed)],
       rv_pending_by_hash = [(''h'', demo_installed)], rv_latest = Some demo_installed\<rparr>)"
  by (simp add: InstallForRequest_def demo_request_def demo_view_def demo_installed_def empty_registry_def
      empty_view_def Normalize_def BftQuorumSize_def view_key_def om_get_def Let_def)

lemma demo_reachable:
  "registry_reachable \<lparr>rv_views = [((1, 7, ''h''), demo_installed)],
     rv_pending_by_hash = [(''h'', demo_installed)], rv_latest = Some demo_installed\<rparr>"
  by (rule registry_reachable.step [OF registry_reachable.initial registry_step.install_request [OF demo_install]])

theorem forced_view_quorums_intersect_witness:
  "\<exists>m \<in> {0, 1, 2} \<inter> {1, 2, 3}. m \<notin> {1} \<and> IsActiveOmnet demo_installed m"
  by (rule forced_view_quorums_intersect [OF demo_reachable, of "(1, 7, ''h'')"])
    (simp_all add: om_get_def demo_installed_def)

lemma registry_step_stable:
  assumes "registry_step reg reg'" and "registry_ok reg" and "om_get (rv_views reg) k = Some v"
  shows "\<exists>v'. om_get (rv_views reg') k = Some v' \<and> fv_active_omnet_ids v' = fv_active_omnet_ids v"
  using assms(1)
proof (cases rule: registry_step.cases)
  case (install_pending view)
  then show ?thesis using assms(3) by (auto simp: InstallPending_def split: option.splits)
next
  case (install_request request view ok)
  from this(1) show ?thesis
  proof (cases rule: InstallForRequest_cases)
    case 1
    then show ?thesis using assms(3) by simp
  next
    case (2 w)
    then show ?thesis using assms(3) by (auto simp: om_get_put)
  qed
next
  case (find_request request found)
  from this(1) show ?thesis
  proof (cases rule: FindForRequest_cases)
    case 1
    then show ?thesis using assms(3) by simp
  next
    case (2 view w)
    have "fv_request_hash view = rq_hash request" "view_key v = k"
      using registry_okD [OF assms(2)] assms(3) 2(1) by simp_all
    moreover have "(k, v) \<in> set (rv_views reg)"
      using assms(3) by (rule om_get_Some_in)
    ultimately have "k \<noteq> view_key w"
      using 2(2,4) by (auto simp: view_key_def)
    then show ?thesis using assms(3) 2(5) by (simp add: om_get_put)
  qed
qed

text \<open>
  Once a request is bound to a membership, no later call of the registry changes it:
  a second installation for the same epoch, sequence number and hash with other members is
  refused, and a promoted pending view never replaces a stored one.
\<close>

theorem forced_view_membership_stable:
  assumes "registry_reachable reg" and "registry_step\<^sup>*\<^sup>* reg reg'"
    and "om_get (rv_views reg) k = Some v"
  shows "\<exists>v'. om_get (rv_views reg') k = Some v' \<and> fv_active_omnet_ids v' = fv_active_omnet_ids v"
  using assms(2)
proof (induction rule: rtranclp_induct)
  case base
  then show ?case using assms(3) by blast
next
  case (step y z)
  have "registry_reachable y"
    using step.hyps(1) assms(1) by (induction rule: rtranclp_induct) (blast intro: registry_reachable.step)+
  then show ?case
    using step.IH registry_step_stable [OF step.hyps(2)] registry_reachable_ok by fastforce
qed

theorem forced_view_membership_stable_witness:
  "\<exists>v'. om_get [((1, 7, ''h''), demo_installed)] (1, 7, ''h'') = Some v' \<and>
     fv_active_omnet_ids v' = [0, 1, 2, 3]"
  using forced_view_membership_stable [OF demo_reachable rtranclp.rtrancl_refl, of "(1, 7, ''h'')" demo_installed]
  by (simp add: om_get_def demo_installed_def)

end
