(* ===== verification/Scheduler.thy ===== *)
theory Scheduler
  imports Wire "HOL-Library.Multiset"
begin

text \<open>
  The intersection scheduler of \<^verbatim>\<open>bridge/resdb_intersection_scheduler.cc\<close>: the co-batching
  table, the lane queue order, the ambulance priority queue, the greedy batch loop and the
  order bytes it emits. \<open>placed\<close> is the \<open>unordered_set<int32_t>\<close> of the code as a
  duplicate-free list: the code inserts an id only after testing that it is absent, so
  \<open>placed.size()\<close> is the length of the list.
\<close>

section \<open>The co-batching predicates\<close>

definition kSafe :: "(byte \<times> byte \<times> byte \<times> byte) list" where
  "kSafe = [(0, 0, 1, 0), (2, 0, 3, 0), (0, 2, 1, 2), (0, 2, 2, 2),
            (0, 2, 3, 2), (1, 2, 2, 2), (1, 2, 3, 2), (2, 2, 3, 2),
            (0, 2, 1, 0), (1, 2, 0, 0), (2, 2, 3, 0), (3, 2, 2, 0)]"

definition IsSafeToBatch :: "byte \<Rightarrow> byte \<Rightarrow> byte \<Rightarrow> byte \<Rightarrow> bool" where
  "IsSafeToBatch lane_a dir_a lane_b dir_b \<longleftrightarrow>
     (if lane_a = lane_b then False
      else list_ex (\<lambda>(p0, p1, p2, p3).
        (lane_a = p0 \<and> dir_a = p1 \<and> lane_b = p2 \<and> dir_b = p3) \<or>
        (lane_a = p2 \<and> dir_a = p3 \<and> lane_b = p0 \<and> dir_b = p1)) kSafe)"

definition UINT64_MAX :: u64 where
  "UINT64_MAX = 0xFFFFFFFFFFFFFFFF"

definition IsQuietEntry :: "ResdbVehicleEntry \<Rightarrow> bool" where
  "IsQuietEntry e \<longleftrightarrow> ve_cyber_status e = 0 \<or> ve_sim_time_us e = UINT64_MAX"

definition CompareLaneQueueOrder :: "ResdbVehicleEntry \<Rightarrow> ResdbVehicleEntry \<Rightarrow> int" where
  "CompareLaneQueueOrder a b =
     (if ve_position_in_lane a \<noteq> ve_position_in_lane b
      then uint (ve_position_in_lane a) - uint (ve_position_in_lane b)
      else if ve_replica_id a < ve_replica_id b then -1
      else if ve_replica_id a > ve_replica_id b then 1
      else 0)"

definition AllSameLaneFrontPlaced ::
  "ResdbVehicleEntry \<Rightarrow> ResdbVehicleEntry list \<Rightarrow> int list \<Rightarrow> bool" where
  "AllSameLaneFrontPlaced candidate view placed \<longleftrightarrow>
     list_all (\<lambda>v. ve_lane v = ve_lane candidate \<longrightarrow>
       CompareLaneQueueOrder v candidate < 0 \<longrightarrow> ve_replica_id v \<in> set placed) view"

definition SafeWithWholeBatch :: "ResdbVehicleEntry \<Rightarrow> ResdbVehicleEntry list \<Rightarrow> bool" where
  "SafeWithWholeBatch e batch \<longleftrightarrow> \<not> IsQuietEntry e \<and>
     list_all (\<lambda>b. IsSafeToBatch (ve_lane e) (ve_direction e) (ve_lane b) (ve_direction b)) batch"

section \<open>The work queue\<close>

definition is_signed_ambulance :: "ResdbVehicleEntry \<Rightarrow> bool" where
  "is_signed_ambulance e \<longleftrightarrow> ve_is_ambulance e \<noteq> 0 \<and> ve_cyber_status e = 1"

definition ambulance_lane_of :: "ResdbVehicleEntry list \<Rightarrow> int" where
  "ambulance_lane_of entries =
     (case List.find is_signed_ambulance entries of
        Some e \<Rightarrow> uint (ve_lane e) | None \<Rightarrow> -1)"

text \<open>
  \<open>std::sort\<close> by position and then replica id. The comparator is a strict total order once
  replica ids are distinct, so the sorted sequence is unique; with equal keys the stable
  order is taken here.
\<close>

definition lane_key :: "ResdbVehicleEntry \<Rightarrow> byte \<times> int" where
  "lane_key e = (ve_position_in_lane e, ve_replica_id e)"

definition remaining_key :: "ResdbVehicleEntry \<Rightarrow> byte \<times> int \<times> u64" where
  "remaining_key e = (ve_position_in_lane e, ve_replica_id e, ve_sim_time_us e)"

definition blockers_of :: "ResdbVehicleEntry list \<Rightarrow> ResdbVehicleEntry \<Rightarrow> ResdbVehicleEntry list" where
  "blockers_of entries ambulance = sort_key lane_key
     (filter (\<lambda>v. \<not> (ve_lane v \<noteq> ve_lane ambulance \<or> ve_is_ambulance v \<noteq> 0) \<and>
        CompareLaneQueueOrder v ambulance < 0) entries)"

text \<open>\<open>if (priority_ids.insert(id).second) work_queue.push_back(e)\<close>; the queue keeps the ids.\<close>

definition push_new :: "ResdbVehicleEntry \<Rightarrow> ResdbVehicleEntry list \<Rightarrow> ResdbVehicleEntry list" where
  "push_new e queue =
     (if ve_replica_id e \<in> ve_replica_id ` set queue then queue else queue @ [e])"

definition push_ambulance ::
  "ResdbVehicleEntry list \<Rightarrow> ResdbVehicleEntry \<Rightarrow> ResdbVehicleEntry list \<Rightarrow> ResdbVehicleEntry list" where
  "push_ambulance entries ambulance queue =
     push_new ambulance (fold push_new (blockers_of entries ambulance) queue)"

definition priority_queue_of :: "ResdbVehicleEntry list \<Rightarrow> ResdbVehicleEntry list" where
  "priority_queue_of entries =
     fold (push_ambulance entries)
       (sort_key lane_key (filter is_signed_ambulance entries)) []"

definition work_queue_of :: "ResdbVehicleEntry list \<Rightarrow> ResdbVehicleEntry list" where
  "work_queue_of entries =
     (let prio = priority_queue_of entries in
      prio @ sort_key remaining_key
        (filter (\<lambda>e. ve_replica_id e \<notin> ve_replica_id ` set prio) entries))"

section \<open>The batch loop\<close>

definition schedulable ::
  "ResdbVehicleEntry list \<Rightarrow> int list \<Rightarrow> ResdbVehicleEntry \<Rightarrow> bool" where
  "schedulable entries placed cand \<longleftrightarrow>
     ve_replica_id cand \<notin> set placed \<and> AllSameLaneFrontPlaced cand entries placed"

text \<open>One pass of the inner \<open>for\<close>: the state is the batch, the placed ids and \<open>grew\<close>.\<close>

fun grow_pass :: "ResdbVehicleEntry list \<Rightarrow> ResdbVehicleEntry list \<Rightarrow>
    ResdbVehicleEntry list \<times> int list \<times> bool \<Rightarrow> ResdbVehicleEntry list \<times> int list \<times> bool" where
  "grow_pass entries [] st = st"
| "grow_pass entries (cand # rest) (batch, placed, grew) =
     (if ve_replica_id cand \<in> set placed then grow_pass entries rest (batch, placed, grew)
      else if \<not> AllSameLaneFrontPlaced cand entries placed then grow_pass entries rest (batch, placed, grew)
      else if IsQuietEntry cand then grow_pass entries rest (batch, placed, grew)
      else if \<not> SafeWithWholeBatch cand batch then grow_pass entries rest (batch, placed, grew)
      else grow_pass entries rest (batch @ [cand], ve_replica_id cand # placed, True))"

definition unplaced :: "ResdbVehicleEntry list \<Rightarrow> int list \<Rightarrow> nat" where
  "unplaced queue placed = length (filter (\<lambda>e. ve_replica_id e \<notin> set placed) queue)"

lemma unplaced_mono: "set placed \<subseteq> set placed' \<Longrightarrow> unplaced q placed' \<le> unplaced q placed"
  unfolding unplaced_def by (induction q) auto

lemma unplaced_less:
  assumes "set placed \<subseteq> set placed'" and "e \<in> set q"
    and "ve_replica_id e \<notin> set placed" and "ve_replica_id e \<in> set placed'"
  shows "unplaced q placed' < unplaced q placed"
  using assms(2)
proof (induction q)
  case (Cons x q)
  have "unplaced q placed' \<le> unplaced q placed"
    using assms(1) by (rule unplaced_mono)
  with Cons assms(1,3,4) show ?case
    by (auto simp: unplaced_def)
qed simp

lemma grow_pass_placed_mono:
  "grow_pass entries cs (batch, placed, grew) = (batch', placed', grew') \<Longrightarrow>
   set placed \<subseteq> set placed'"
proof (induction cs arbitrary: batch placed grew)
  case (Cons c cs)
  show ?case
  proof (cases "grow_pass entries (c # cs) (batch, placed, grew) =
      grow_pass entries cs (batch, placed, grew)")
    case True
    with Cons show ?thesis by simp
  next
    case False
    then have "grow_pass entries cs (batch @ [c], ve_replica_id c # placed, True) =
        (batch', placed', grew')"
      using Cons.prems by (simp split: if_splits)
    then show ?thesis
      using Cons.IH by fastforce
  qed
qed simp

lemma grow_pass_grew:
  assumes "grow_pass entries cs (batch, placed, False) = (batch', placed', True)"
  shows "\<exists>c \<in> set cs. ve_replica_id c \<notin> set placed \<and> ve_replica_id c \<in> set placed'"
  using assms
proof (induction cs)
  case (Cons c cs)
  show ?case
  proof (cases "grow_pass entries (c # cs) (batch, placed, False) =
      grow_pass entries cs (batch, placed, False)")
    case True
    with Cons show ?thesis by auto
  next
    case False
    then have "ve_replica_id c \<notin> set placed"
      and "grow_pass entries cs (batch @ [c], ve_replica_id c # placed, True) = (batch', placed', True)"
      using Cons.prems by (auto split: if_splits)
    then show ?thesis
      using grow_pass_placed_mono by fastforce
  qed
qed simp

lemma grow_pass_decreases:
  assumes "grow_pass entries queue (batch, placed, False) = (batch', placed', True)"
  shows "unplaced queue placed' < unplaced queue placed"
proof -
  obtain c where "c \<in> set queue" "ve_replica_id c \<notin> set placed" "ve_replica_id c \<in> set placed'"
    using grow_pass_grew [OF assms] by blast
  with grow_pass_placed_mono [OF assms] show ?thesis
    by (simp add: unplaced_less)
qed

text \<open>The \<open>do ... while (grew)\<close> loop; each further round has placed another queued vehicle.\<close>

function grow_batch :: "ResdbVehicleEntry list \<Rightarrow> ResdbVehicleEntry list \<Rightarrow>
    ResdbVehicleEntry list \<times> int list \<Rightarrow> ResdbVehicleEntry list \<times> int list" where
  "grow_batch entries queue (batch, placed) =
     (case grow_pass entries queue (batch, placed, False) of
        (batch', placed', grew) \<Rightarrow>
          if grew then grow_batch entries queue (batch', placed') else (batch', placed'))"
  by pat_completeness auto
termination
  by (relation "measure (\<lambda>(entries, queue, batch, placed). unplaced queue placed)")
    (auto intro: grow_pass_decreases dest: sym)

declare grow_batch.simps [simp del]

text \<open>
  Whatever one admission step keeps, a pass and the whole loop keep: the rule the batch
  invariants below are proved with.
\<close>

lemma grow_pass_rule:
  assumes step: "\<And>b p c. P b p \<Longrightarrow> c \<in> set queue \<Longrightarrow> ve_replica_id c \<notin> set p \<Longrightarrow>
      AllSameLaneFrontPlaced c entries p \<Longrightarrow> SafeWithWholeBatch c b \<Longrightarrow>
      P (b @ [c]) (ve_replica_id c # p)"
    and "P batch placed" and "set cs \<subseteq> set queue"
    and "grow_pass entries cs (batch, placed, grew) = (batch', placed', grew')"
  shows "P batch' placed'"
  using assms(2-)
proof (induction cs arbitrary: batch placed grew)
  case (Cons c cs)
  show ?case
  proof (cases "grow_pass entries (c # cs) (batch, placed, grew) =
      grow_pass entries cs (batch, placed, grew)")
    case True
    with Cons show ?thesis by simp
  next
    case False
    then have adm: "ve_replica_id c \<notin> set placed" "AllSameLaneFrontPlaced c entries placed"
      "SafeWithWholeBatch c batch"
      and run: "grow_pass entries cs (batch @ [c], ve_replica_id c # placed, True) = (batch', placed', grew')"
      using Cons.prems by (auto split: if_splits)
    have "P (batch @ [c]) (ve_replica_id c # placed)"
      using Cons.prems adm by (intro step) auto
    then show ?thesis
      using Cons.IH run Cons.prems(2) by simp
  qed
qed simp

lemma grow_batch_rule:
  assumes step: "\<And>b p c. P b p \<Longrightarrow> c \<in> set queue \<Longrightarrow> ve_replica_id c \<notin> set p \<Longrightarrow>
      AllSameLaneFrontPlaced c entries p \<Longrightarrow> SafeWithWholeBatch c b \<Longrightarrow>
      P (b @ [c]) (ve_replica_id c # p)"
    and "P batch placed"
    and "grow_batch entries queue (batch, placed) = (batch', placed')"
  shows "P batch' placed'"
  using assms(2,3)
proof (induction "unplaced queue placed" arbitrary: batch placed rule: less_induct)
  case less
  obtain b p g where pass: "grow_pass entries queue (batch, placed, False) = (b, p, g)"
    by (metis surj_pair)
  have "P b p"
    by (rule grow_pass_rule [where P = P, OF step less.prems(1) subset_refl pass])
  moreover have "unplaced queue p < unplaced queue placed" if g
    using grow_pass_decreases [of entries queue batch placed b p] pass that by simp
  ultimately show ?case
    using less pass by (subst (asm) (2) grow_batch.simps) (auto split: if_splits)
qed

lemma grow_batch_length:
  assumes "grow_batch entries queue (batch, placed) = (batch', placed')"
  shows "length placed \<le> length placed'"
  by (rule grow_batch_rule [where P = "\<lambda>b p. length placed \<le> length p", OF _ _ assms]) auto

text \<open>
  The fallback of the code when no head is schedulable, and the outer loop. The flag
  \<open>all_singleton\<close> is the environment variable \<^verbatim>\<open>RESDB_ALL_SINGLETON\<close>.
\<close>

fun place_rest :: "ResdbVehicleEntry list \<Rightarrow> int list \<Rightarrow> ResdbVehicleEntry list list" where
  "place_rest [] placed = []"
| "place_rest (e # es) placed =
     (if ve_replica_id e \<in> set placed then place_rest es placed
      else [e] # place_rest es (ve_replica_id e # placed))"

function batch_loop :: "bool \<Rightarrow> nat \<Rightarrow> ResdbVehicleEntry list \<Rightarrow> ResdbVehicleEntry list \<Rightarrow>
    int list \<Rightarrow> ResdbVehicleEntry list list" where
  "batch_loop all_singleton n entries queue placed =
     (if length placed < n then
        (case List.find (schedulable entries placed) queue of
           None \<Rightarrow> place_rest entries placed
         | Some head \<Rightarrow>
             if all_singleton \<or> IsQuietEntry head
             then [head] # batch_loop all_singleton n entries queue (ve_replica_id head # placed)
             else (case grow_batch entries queue ([head], ve_replica_id head # placed) of
                     (batch, placed') \<Rightarrow> batch # batch_loop all_singleton n entries queue placed'))
      else [])"
  by pat_completeness auto
termination
  by (relation "measure (\<lambda>(s, n, entries, queue, placed). n - length placed)")
    (auto dest!: sym [of "(_, _)"] grow_batch_length)

declare batch_loop.simps [simp del]

section \<open>Decisions and order bytes\<close>

record IntersectionScheduleResult =
  order_bytes :: bytes
  n_batches :: u32
  ambulance_lane :: int

definition schedule_batches :: "bool \<Rightarrow> ResdbVehicleEntry list \<Rightarrow> ResdbVehicleEntry list list" where
  "schedule_batches all_singleton entries =
     batch_loop all_singleton (length entries) entries (work_queue_of entries) []"

definition assign_vehicle :: "ResdbVehicleEntry list \<Rightarrow> nat \<Rightarrow> ResdbVehicleEntry \<Rightarrow>
    ResdbVehicleDecision list \<Rightarrow> ResdbVehicleDecision list" where
  "assign_vehicle entries bi b decisions =
     map2 (\<lambda>e d. if ve_replica_id e = ve_replica_id b
                 then \<lparr>vd_replica_id = ve_replica_id b, vd_batch_index = of_nat bi\<rparr> else d)
       entries decisions"

definition schedule_decisions ::
  "ResdbVehicleEntry list \<Rightarrow> ResdbVehicleEntry list list \<Rightarrow> ResdbVehicleDecision list" where
  "schedule_decisions entries batches =
     fold (\<lambda>(bi, batch) ds. fold (assign_vehicle entries bi) batch ds)
       (enumerate 0 batches)
       (replicate (length entries) \<lparr>vd_replica_id = 0, vd_batch_index = 0\<rparr>)"

definition BuildIntersectionSchedule ::
  "bool \<Rightarrow> ResdbProposeHdr \<Rightarrow> ResdbVehicleEntry list \<Rightarrow> IntersectionScheduleResult" where
  "BuildIntersectionSchedule all_singleton hdr entries =
     (let batches = schedule_batches all_singleton entries;
          nb = of_nat (length batches) :: u32;
          ohdr = \<lparr>oh_epoch = ph_epoch hdr, oh_n_vehicles = of_nat (length entries), oh_n_batches = nb\<rparr>
      in \<lparr>order_bytes = enc_order_hdr ohdr @ concat (map enc_decision (schedule_decisions entries batches)),
          n_batches = nb, ambulance_lane = ambulance_lane_of entries\<rparr>)"

end
