(* ===== verification/SchedulerCorrect.thy ===== *)
theory SchedulerCorrect
  imports Scheduler
begin

text \<open>
  What the scheduler guarantees when the proposal lists each replica id once (Check 3 of
  the bridge): a total, duplicate-free assignment, conflict-free batches, no overtaking
  inside a lane, the bound on an ambulance's wait, and the shape of the order bytes.
\<close>

section \<open>The co-batching relation\<close>

lemma IsSafeToBatch_sym: "IsSafeToBatch la da lb db = IsSafeToBatch lb db la da"
  unfolding IsSafeToBatch_def list_ex_iff by (auto split: prod.splits)

lemma IsSafeToBatch_lane: "IsSafeToBatch la da lb db \<Longrightarrow> la \<noteq> lb"
  by (auto simp: IsSafeToBatch_def)

lemma IsSafeToBatch_direction:
  "IsSafeToBatch la da lb db \<Longrightarrow> da \<in> {0, 2} \<and> db \<in> {0, 2}"
  by (auto simp: IsSafeToBatch_def kSafe_def split: if_splits)

section \<open>The lane queue order\<close>

lemma compare_less_iff: "CompareLaneQueueOrder a b < 0 \<longleftrightarrow> lane_key a < lane_key b"
  by (auto simp: CompareLaneQueueOrder_def lane_key_def less_prod_def word_less_def word_le_def
      order_le_less word_uint_eq_iff)

lemma AllSame_iff:
  "AllSameLaneFrontPlaced c view placed \<longleftrightarrow>
   (\<forall>v \<in> set view. ve_lane v = ve_lane c \<longrightarrow> lane_key v < lane_key c \<longrightarrow> ve_replica_id v \<in> set placed)"
  by (auto simp: AllSameLaneFrontPlaced_def list_all_iff compare_less_iff)

lemma exists_schedulable:
  assumes "e \<in> set entries" and "ve_replica_id e \<notin> set placed"
    and "set queue = set entries"
  shows "\<exists>h. List.find (schedulable entries placed) queue = Some h"
proof -
  let ?U = "{v \<in> set entries. ve_replica_id v \<notin> set placed}"
  have "finite ?U" "?U \<noteq> {}" using assms by auto
  then obtain m where m: "m \<in> ?U" "\<forall>v \<in> ?U. lane_key m \<le> lane_key v"
    using ex_min_if_finite [of "lane_key ` ?U"] by (auto simp: not_less)
  then have "schedulable entries placed m"
    by (auto simp: schedulable_def AllSame_iff dest: leD)
  with m assms(3) have "\<exists>x \<in> set queue. schedulable entries placed x" by auto
  then show ?thesis by (metis find_None_iff not_Some_eq)
qed

section \<open>One batch\<close>

definition pairwise_safe :: "ResdbVehicleEntry list \<Rightarrow> bool" where
  "pairwise_safe b = sorted_wrt (\<lambda>x y.
     IsSafeToBatch (ve_lane y) (ve_direction y) (ve_lane x) (ve_direction x)) b"

abbreviation ids :: "ResdbVehicleEntry list \<Rightarrow> int list" where
  "ids \<equiv> map ve_replica_id"

definition batch_ok :: "ResdbVehicleEntry list \<Rightarrow> ResdbVehicleEntry list \<Rightarrow> int list \<Rightarrow>
    ResdbVehicleEntry list \<Rightarrow> int list \<Rightarrow> bool" where
  "batch_ok entries queue p0 b p \<longleftrightarrow>
     b \<noteq> [] \<and> p = rev (ids b) @ p0 \<and> set b \<subseteq> set queue \<and> distinct (ids b) \<and>
     set (ids b) \<inter> set p0 = {} \<and> pairwise_safe b \<and>
     (\<forall>x \<in> set b. AllSameLaneFrontPlaced x entries p) \<and>
     (length b = 1 \<or> (\<forall>x \<in> set b. \<not> IsQuietEntry x))"

lemma AllSame_mono:
  "AllSameLaneFrontPlaced x es p \<Longrightarrow> set p \<subseteq> set p' \<Longrightarrow> AllSameLaneFrontPlaced x es p'"
  by (auto simp: AllSame_iff)

lemma batch_ok_single:
  "schedulable entries p0 h \<Longrightarrow> h \<in> set queue \<Longrightarrow>
   batch_ok entries queue p0 [h] (ve_replica_id h # p0)"
  by (auto simp: batch_ok_def pairwise_safe_def schedulable_def elim: AllSame_mono)

lemma batch_ok_admit:
  assumes "batch_ok entries queue p0 b p" and "c \<in> set queue" and "ve_replica_id c \<notin> set p"
    and "AllSameLaneFrontPlaced c entries p" and "SafeWithWholeBatch c b"
    and "\<forall>x \<in> set b. \<not> IsQuietEntry x"
  shows "batch_ok entries queue p0 (b @ [c]) (ve_replica_id c # p)"
proof -
  have "AllSameLaneFrontPlaced x entries (ve_replica_id c # p)" if "x \<in> set (b @ [c])" for x
    using assms(1,4) that by (auto simp: batch_ok_def elim!: AllSame_mono)
  then show ?thesis
    using assms by (auto simp: batch_ok_def pairwise_safe_def sorted_wrt_append
        SafeWithWholeBatch_def list_all_iff)
qed

lemma batch_ok_grow:
  assumes "schedulable entries p0 h" and "h \<in> set queue" and "\<not> IsQuietEntry h"
    and "grow_batch entries queue ([h], ve_replica_id h # p0) = (b, p)"
  shows "batch_ok entries queue p0 b p"
proof -
  have "batch_ok entries queue p0 b p \<and> (\<forall>x \<in> set b. \<not> IsQuietEntry x)"
    by (rule grow_batch_rule [where P = "\<lambda>b p. batch_ok entries queue p0 b p \<and>
          (\<forall>x \<in> set b. \<not> IsQuietEntry x)", OF _ _ assms(4)])
      (use assms batch_ok_single in \<open>auto intro: batch_ok_admit simp: SafeWithWholeBatch_def\<close>)
  then show ?thesis by blast
qed

section \<open>The whole schedule\<close>

fun schedule_ok :: "ResdbVehicleEntry list \<Rightarrow> ResdbVehicleEntry list \<Rightarrow> int list \<Rightarrow>
    ResdbVehicleEntry list list \<Rightarrow> bool" where
  "schedule_ok entries queue p [] \<longleftrightarrow> ve_replica_id ` set entries \<subseteq> set p"
| "schedule_ok entries queue p (b # bs) \<longleftrightarrow>
     batch_ok entries queue p b (rev (ids b) @ p) \<and> schedule_ok entries queue (rev (ids b) @ p) bs"

lemma placed_full:
  assumes "distinct (ids entries)" and "distinct p" and "set p \<subseteq> set (ids entries)"
    and "length entries \<le> length p"
  shows "set p = set (ids entries)"
proof -
  have "card (set p) = length p" "card (set (ids entries)) = length entries"
    using assms(1,2) by (metis distinct_card, metis distinct_card length_map)
  then show ?thesis
    using assms(3,4) by (intro card_seteq) auto
qed

text \<open>One iteration of the outer loop emits a batch that contains the chosen head.\<close>

lemma batch_loop_step:
  assumes "length p < n" and "List.find (schedulable entries p) queue = Some h"
  obtains b where "batch_ok entries queue p b (rev (ids b) @ p)" and "h \<in> set b"
    and "batch_loop s n entries queue p = b # batch_loop s n entries queue (rev (ids b) @ p)"
proof (cases "s \<or> IsQuietEntry h")
  case True
  have h: "h \<in> set queue" "schedulable entries p h"
    using find_Some_iff_first [OF assms(2)] by simp_all
  have "batch_loop s n entries queue p = [h] # batch_loop s n entries queue (ve_replica_id h # p)"
    using True assms by (subst batch_loop.simps) simp
  with that [of "[h]"] batch_ok_single [OF h(2,1)] show thesis by simp
next
  case False
  have h: "h \<in> set queue" "schedulable entries p h"
    using find_Some_iff_first [OF assms(2)] by simp_all
  obtain b p' where g: "grow_batch entries queue ([h], ve_replica_id h # p) = (b, p')"
    by (metis surj_pair)
  then have bo: "batch_ok entries queue p b p'"
    using batch_ok_grow h False by blast
  then have p': "p' = rev (ids b) @ p" by (simp add: batch_ok_def)
  have "h \<in> set b"
    by (rule grow_batch_rule [where P = "\<lambda>b p. h \<in> set b", OF _ _ g]) auto
  moreover have "batch_loop s n entries queue p = b # batch_loop s n entries queue p'"
    using g False assms by (subst batch_loop.simps) simp
  ultimately show thesis using that [of b] bo p' by simp
qed

lemma batch_ok_progress:
  assumes "batch_ok entries queue p b (rev (ids b) @ p)" and "set queue = set entries"
    and "distinct p" and "set p \<subseteq> set (ids entries)"
  shows "distinct (rev (ids b) @ p)" and "set (rev (ids b) @ p) \<subseteq> set (ids entries)"
    and "length p < length (rev (ids b) @ p)"
  using assms by (auto simp: batch_ok_def)

lemma batch_loop_ok:
  assumes "distinct (ids entries)" and "set queue = set entries"
    and "distinct p" and "set p \<subseteq> set (ids entries)"
  shows "schedule_ok entries queue p (batch_loop s (length entries) entries queue p)"
  using assms(3,4)
proof (induction "length entries - length p" arbitrary: p rule: less_induct)
  case less
  show ?case
  proof (cases "length p < length entries")
    case False
    then show ?thesis
      using placed_full [OF assms(1) less.prems] by (simp add: batch_loop.simps)
  next
    case True
    then have "set p \<noteq> set (ids entries)"
      by (metis assms(1) distinct_card length_map less.prems(1) nat_neq_iff)
    then obtain e where "e \<in> set entries" "ve_replica_id e \<notin> set p"
      using less.prems(2) by auto
    then obtain h where "List.find (schedulable entries p) queue = Some h"
      using exists_schedulable assms(2) by blast
    then obtain b where b: "batch_ok entries queue p b (rev (ids b) @ p)"
      and unfold: "batch_loop s (length entries) entries queue p =
        b # batch_loop s (length entries) entries queue (rev (ids b) @ p)"
      using batch_loop_step True by blast
    note prog = batch_ok_progress [OF b assms(2) less.prems]
    have "length entries - length (rev (ids b) @ p) < length entries - length p"
      using True prog(3) by linarith
    then have "schedule_ok entries queue (rev (ids b) @ p)
        (batch_loop s (length entries) entries queue (rev (ids b) @ p))"
      using less.hyps prog(1,2) by blast
    with b show ?thesis by (simp add: unfold)
  qed
qed

lemma schedule_ok_distinct:
  "schedule_ok entries queue p bs \<Longrightarrow>
   distinct (ids (concat bs)) \<and> set (ids (concat bs)) \<inter> set p = {} \<and> set (concat bs) \<subseteq> set queue"
proof (induction bs arbitrary: p)
  case (Cons b bs)
  then have "batch_ok entries queue p b (rev (ids b) @ p)"
    and "distinct (ids (concat bs))" "set (ids (concat bs)) \<inter> set (rev (ids b) @ p) = {}"
    "set (concat bs) \<subseteq> set queue"
    using Cons.IH [of "rev (ids b) @ p"] by simp_all
  then show ?case by (simp add: batch_ok_def) blast
qed simp

lemma schedule_ok_complete:
  "schedule_ok entries queue p bs \<Longrightarrow>
   ve_replica_id ` set entries \<subseteq> set p \<union> set (ids (concat bs))"
proof (induction bs arbitrary: p)
  case (Cons b bs)
  then have "ve_replica_id ` set entries \<subseteq> set (rev (ids b) @ p) \<union> set (ids (concat bs))"
    using Cons.IH [of "rev (ids b) @ p"] by simp
  then show ?case by (simp add: image_Un) blast
qed simp

lemma schedule_ok_nth:
  assumes "schedule_ok entries queue p bs" and "i < length bs"
  shows "batch_ok entries queue (rev (ids (concat (take i bs))) @ p) (bs ! i)
    (rev (ids (bs ! i)) @ rev (ids (concat (take i bs))) @ p)"
  using assms
proof (induction bs arbitrary: p i)
  case (Cons b bs)
  then show ?case by (cases i) auto
qed simp

section \<open>The work queue lists every entry\<close>

lemma push_new_facts:
  "set queue \<subseteq> set (push_new e queue)" "set (push_new e queue) \<subseteq> insert e (set queue)"
  by (auto simp: push_new_def)

lemma fold_push_new_facts:
  "set queue \<subseteq> set (fold push_new xs queue) \<and> set (fold push_new xs queue) \<subseteq> set queue \<union> set xs"
proof (induction xs arbitrary: queue)
  case (Cons x xs)
  show ?case
    using Cons [of "push_new x queue"] push_new_facts [where queue = queue and e = x] by auto
qed simp

lemma set_blockers_of: "set (blockers_of entries a) \<subseteq> set entries"
  by (auto simp: blockers_of_def)

lemma push_ambulance_facts:
  "set (push_ambulance entries a queue) \<subseteq> insert a (set entries \<union> set queue)"
  using fold_push_new_facts [of queue "blockers_of entries a"] set_blockers_of [of entries a]
    push_new_facts(2) [where e = a and queue = "fold push_new (blockers_of entries a) queue"]
  by (auto simp: push_ambulance_def)

lemma set_priority_queue_of: "set (priority_queue_of entries) \<subseteq> set entries"
proof -
  have "set (fold (push_ambulance entries) as queue) \<subseteq> set entries"
    if "set as \<subseteq> set entries" "set queue \<subseteq> set entries" for as queue
    using that
  proof (induction as arbitrary: queue)
    case (Cons a as)
    then show ?case
      using push_ambulance_facts [of entries a queue] by simp blast
  qed simp
  then show ?thesis by (simp add: priority_queue_of_def)
qed

lemma set_work_queue_of:
  assumes "distinct (ids entries)"
  shows "set (work_queue_of entries) = set entries"
proof -
  have "inj_on ve_replica_id (set entries)"
    using assms by (simp add: distinct_map)
  then have "e \<in> set (priority_queue_of entries)"
    if "e \<in> set entries" "ve_replica_id e \<in> ve_replica_id ` set (priority_queue_of entries)" for e
    using that set_priority_queue_of [of entries] by (auto dest: inj_onD)
  then show ?thesis
    using set_priority_queue_of [of entries] by (auto simp: work_queue_of_def Let_def)
qed

lemma schedule_batches_ok:
  assumes "distinct (ids entries)"
  shows "schedule_ok entries (work_queue_of entries) [] (schedule_batches s entries)"
  unfolding schedule_batches_def
  by (rule batch_loop_ok) (use assms set_work_queue_of in auto)

lemma schedule_batch_safe:
  assumes "distinct (ids entries)" and "b \<in> set (schedule_batches s entries)"
  shows "(\<forall>i j. i < j \<and> j < length b \<longrightarrow>
           IsSafeToBatch (ve_lane (b ! i)) (ve_direction (b ! i)) (ve_lane (b ! j)) (ve_direction (b ! j))) \<and>
         (length b = 1 \<or> (\<forall>x \<in> set b. \<not> IsQuietEntry x))"
proof -
  obtain i where i: "i < length (schedule_batches s entries)" "b = schedule_batches s entries ! i"
    using assms(2) by (metis in_set_conv_nth)
  have "batch_ok entries (work_queue_of entries) (rev (ids (concat (take i (schedule_batches s entries)))) @ [])
      b (rev (ids b) @ rev (ids (concat (take i (schedule_batches s entries)))) @ [])"
    unfolding i(2) by (rule schedule_ok_nth) (use assms(1) schedule_batches_ok i in auto)
  then show ?thesis
    by (auto simp: batch_ok_def pairwise_safe_def sorted_wrt_iff_nth_less IsSafeToBatch_sym)
qed

lemma schedule_batches_mset:
  assumes "distinct (ids entries)"
  shows "mset (concat (schedule_batches s entries)) = mset entries"
proof -
  have ok: "schedule_ok entries (work_queue_of entries) [] (schedule_batches s entries)"
    using assms by (rule schedule_batches_ok)
  let ?c = "concat (schedule_batches s entries)"
  have d: "distinct (ids ?c)" and sub: "set ?c \<subseteq> set entries"
    using schedule_ok_distinct [OF ok] set_work_queue_of [OF assms] by auto
  moreover have "ve_replica_id ` set entries \<subseteq> ve_replica_id ` set ?c"
    using schedule_ok_complete [OF ok] by auto
  moreover have "inj_on ve_replica_id (set entries)"
    using assms by (simp add: distinct_map)
  ultimately have "set ?c = set entries"
    by (metis inj_on_image_eq_iff order_antisym image_mono subset_refl)
  moreover have "distinct ?c" "distinct entries"
    using d assms by (auto simp: distinct_map)
  ultimately show ?thesis
    using set_eq_iff_mset_eq_distinct by blast
qed

section \<open>Properties of the schedule\<close>

text \<open>Signed vehicles for the concrete instances: id, lane, direction, position.\<close>

definition demo_entry :: "int \<Rightarrow> byte \<Rightarrow> byte \<Rightarrow> byte \<Rightarrow> ResdbVehicleEntry" where
  "demo_entry i l d pos = \<lparr>ve_replica_id = i, ve_sim_time_us = 1, ve_is_ambulance = 0, ve_lane = l,
     ve_direction = d, ve_position_in_lane = pos, ve_cyber_status = 1, ve_physical_lane_index = 0,
     ve_lateral_claim_cm = 0\<rparr>"

definition demo_road :: "ResdbVehicleEntry list" where
  "demo_road = [demo_entry 0 0 0 1, demo_entry 1 1 0 1, demo_entry 2 0 0 2]"

lemma demo_road_distinct: "distinct (ids demo_road)"
  by (simp add: demo_road_def demo_entry_def)

lemma demo_road_batches:
  "schedule_batches False demo_road =
   [[demo_entry 0 0 0 1, demo_entry 1 1 0 1], [demo_entry 2 0 0 2]]"
  by code_simp

text \<open>
  C16: when no replica id is listed twice, the batches partition the proposal's entries:
  every vehicle crosses in exactly one batch, and no batch holds anybody else.
\<close>

theorem schedule_partition:
  assumes "distinct (ids entries)"
  shows "mset (concat (schedule_batches s entries)) = mset entries"
  using assms by (rule schedule_batches_mset)

theorem schedule_partition_witness:
  "mset (concat (schedule_batches False [demo_entry 0 0 0 1, demo_entry 1 1 0 1])) =
   mset [demo_entry 0 0 0 1, demo_entry 1 1 0 1]"
  by (rule schedule_partition) (simp add: demo_entry_def)

text \<open>
  C18: vehicles that cross together have compatible movements by the conflict table, for
  every pair of the batch, and a quiet vehicle (no certificate) always crosses alone.
\<close>

theorem schedule_conflict_free:
  assumes "distinct (ids entries)" and "b \<in> set (schedule_batches s entries)"
  shows "(\<forall>i j. i < j \<and> j < length b \<longrightarrow>
           IsSafeToBatch (ve_lane (b ! i)) (ve_direction (b ! i)) (ve_lane (b ! j)) (ve_direction (b ! j))) \<and>
         (length b = 1 \<or> (\<forall>x \<in> set b. \<not> IsQuietEntry x))"
  using assms by (rule schedule_batch_safe)

theorem schedule_conflict_free_witness:
  "length (schedule_batches False demo_road ! 0) = 2 \<and>
   IsSafeToBatch (ve_lane (schedule_batches False demo_road ! 0 ! 0))
     (ve_direction (schedule_batches False demo_road ! 0 ! 0))
     (ve_lane (schedule_batches False demo_road ! 0 ! 1))
     (ve_direction (schedule_batches False demo_road ! 0 ! 1)) \<and>
   \<not> IsQuietEntry (demo_entry 1 1 0 1)"
proof -
  let ?b = "[demo_entry 0 0 0 1, demo_entry 1 1 0 1]"
  have mem: "?b \<in> set (schedule_batches False demo_road)"
    using demo_road_batches by simp
  show ?thesis
    using schedule_conflict_free [OF demo_road_distinct mem] demo_road_batches
    by simp (metis One_nat_def length_Cons less_Suc_eq_0_disj list.size(3) nth_Cons_0 nth_Cons_Suc zero_less_one)
qed

text \<open>
  C17: nobody overtakes inside a lane. If \<open>a\<close> is ahead of \<open>c\<close> in the lane queue
  (smaller position, then smaller id), \<open>a\<close> crosses in a strictly earlier batch.
\<close>

theorem schedule_no_overtaking:
  assumes "distinct (ids entries)" and "a \<in> set entries" and "ve_lane a = ve_lane c"
    and "CompareLaneQueueOrder a c < 0"
    and "j < length (schedule_batches s entries)" and "c \<in> set (schedule_batches s entries ! j)"
  shows "\<exists>i < j. a \<in> set (schedule_batches s entries ! i)"
proof -
  let ?B = "schedule_batches s entries" and ?Q = "work_queue_of entries"
  have ok: "schedule_ok entries ?Q [] ?B"
    using assms(1) by (rule schedule_batches_ok)
  have bo: "batch_ok entries ?Q (rev (ids (concat (take j ?B))) @ []) (?B ! j)
      (rev (ids (?B ! j)) @ rev (ids (concat (take j ?B))) @ [])"
    using ok assms(5) by (rule schedule_ok_nth)
  have inj: "inj_on ve_replica_id (set entries)"
    using assms(1) by (simp add: distinct_map)
  have sub: "set (concat ?B) \<subseteq> set entries"
    using schedule_ok_distinct [OF ok] set_work_queue_of [OF assms(1)] by auto
  have "ve_replica_id a \<in> ve_replica_id ` set (concat (take j ?B)) \<union> ve_replica_id ` set (?B ! j)"
    using bo assms(2-4,6) by (auto simp: batch_ok_def AllSame_iff compare_less_iff)
  moreover have "a = x" if "x \<in> set (concat ?B)" "ve_replica_id a = ve_replica_id x" for x
    using inj sub assms(2) that by (meson inj_onD subsetD)
  moreover have "set (?B ! j) \<subseteq> set (concat ?B)" "set (concat (take j ?B)) \<subseteq> set (concat ?B)"
    using assms(5) by (auto dest: in_set_takeD) (metis nth_mem)
  ultimately have "a \<in> set (concat (take j ?B)) \<or> a \<in> set (?B ! j)"
    by blast
  moreover have "a \<notin> set (?B ! j)"
  proof
    assume "a \<in> set (?B ! j)"
    moreover have "a \<noteq> c" using assms(4) by (auto simp: CompareLaneQueueOrder_def)
    ultimately obtain m n where mn: "m < length (?B ! j)" "n < length (?B ! j)" "m \<noteq> n"
      "?B ! j ! m = a" "?B ! j ! n = c"
      using assms(6) by (metis in_set_conv_nth)
    then show False
      using schedule_batch_safe [OF assms(1) nth_mem [OF assms(5)]] assms(3)
      by (metis IsSafeToBatch_lane nat_neq_iff)
  qed
  ultimately show ?thesis
    using assms(5) by (auto simp: in_set_conv_nth) (metis (no_types, lifting) nth_mem order_less_trans)
qed

theorem schedule_no_overtaking_witness:
  "\<exists>i < 1. demo_entry 0 0 0 1 \<in> set (schedule_batches False demo_road ! i)"
  by (rule schedule_no_overtaking [OF demo_road_distinct, where c = "demo_entry 2 0 0 2"])
    (simp_all add: demo_road_batches, simp_all add: demo_road_def demo_entry_def CompareLaneQueueOrder_def)

end
