(* ===== verification/SchedulerOrder.thy ===== *)
theory SchedulerOrder
  imports SchedulerCorrect
begin

text \<open>
  The order bytes the scheduler emits (one decision per entry, read back by the
  application) and the bound on an ambulance's wait.
\<close>

section \<open>Decisions\<close>

lemma length_assign_vehicle [simp]:
  "length ds = length entries \<Longrightarrow> length (assign_vehicle entries bi b ds) = length entries"
  by (simp add: assign_vehicle_def)

lemma nth_assign_vehicle:
  "length ds = length entries \<Longrightarrow> k < length entries \<Longrightarrow>
   assign_vehicle entries bi b ds ! k =
     (if ve_replica_id (entries ! k) = ve_replica_id b
      then \<lparr>vd_replica_id = ve_replica_id (entries ! k), vd_batch_index = of_nat bi\<rparr> else ds ! k)"
  by (simp add: assign_vehicle_def)

lemma fold_assign_vehicle:
  assumes "length ds = length entries"
  shows "length (fold (assign_vehicle entries bi) batch ds) = length entries"
    and "k < length entries \<Longrightarrow> fold (assign_vehicle entries bi) batch ds ! k =
     (if ve_replica_id (entries ! k) \<in> set (ids batch)
      then \<lparr>vd_replica_id = ve_replica_id (entries ! k), vd_batch_index = of_nat bi\<rparr> else ds ! k)"
  using assms by (induction batch arbitrary: ds) (auto simp: nth_assign_vehicle)

definition assign_batches :: "ResdbVehicleEntry list \<Rightarrow> nat \<Rightarrow> ResdbVehicleEntry list list \<Rightarrow>
    ResdbVehicleDecision list \<Rightarrow> ResdbVehicleDecision list" where
  "assign_batches entries m batches ds =
     fold (\<lambda>(bi, batch) ds. fold (assign_vehicle entries bi) batch ds) (enumerate m batches) ds"

lemma assign_batches_simps:
  "assign_batches entries m [] ds = ds"
  "assign_batches entries m (b # bs) ds =
     assign_batches entries (Suc m) bs (fold (assign_vehicle entries m) b ds)"
  by (simp_all add: assign_batches_def)

lemma length_assign_batches:
  "length ds = length entries \<Longrightarrow> length (assign_batches entries m bs ds) = length entries"
  by (induction bs arbitrary: m ds) (simp_all add: assign_batches_simps fold_assign_vehicle)

lemma assign_batches_other:
  assumes "length ds = length entries" and "k < length entries"
    and "ve_replica_id (entries ! k) \<notin> set (ids (concat bs))"
  shows "assign_batches entries m bs ds ! k = ds ! k"
  using assms
  by (induction bs arbitrary: m ds) (simp_all add: assign_batches_simps fold_assign_vehicle)

lemma assign_batches_nth:
  assumes "length ds = length entries" and "k < length entries"
    and "j < length bs" and "ve_replica_id (entries ! k) \<in> set (ids (bs ! j))"
    and "distinct (ids (concat bs))"
  shows "assign_batches entries m bs ds ! k =
     \<lparr>vd_replica_id = ve_replica_id (entries ! k), vd_batch_index = of_nat (m + j)\<rparr>"
  using assms
proof (induction bs arbitrary: m ds j)
  case (Cons b bs)
  show ?case
  proof (cases j)
    case 0
    then have "ve_replica_id (entries ! k) \<notin> set (ids (concat bs))"
      using Cons.prems by auto
    with 0 Cons.prems show ?thesis
      by (simp add: assign_batches_simps assign_batches_other fold_assign_vehicle)
  next
    case (Suc i)
    have "assign_batches entries (Suc m) bs (fold (assign_vehicle entries m) b ds) ! k =
        \<lparr>vd_replica_id = ve_replica_id (entries ! k), vd_batch_index = of_nat (Suc m + i)\<rparr>"
      by (rule Cons.IH) (use Cons.prems Suc in \<open>auto simp: fold_assign_vehicle\<close>)
    then show ?thesis by (simp add: Suc assign_batches_simps)
  qed
qed simp

lemma schedule_decisions_alt:
  "schedule_decisions entries batches = assign_batches entries 0 batches
     (replicate (length entries) \<lparr>vd_replica_id = 0, vd_batch_index = 0\<rparr>)"
  by (simp add: schedule_decisions_def assign_batches_def)

lemma length_schedule_decisions [simp]:
  "length (schedule_decisions entries batches) = length entries"
  by (simp add: schedule_decisions_alt length_assign_batches)

lemma schedule_ok_nonempty: "schedule_ok entries queue p bs \<Longrightarrow> b \<in> set bs \<Longrightarrow> b \<noteq> []"
  by (induction bs arbitrary: p) (auto simp: batch_ok_def)

lemma length_le_concat: "(\<forall>b \<in> set bs. b \<noteq> []) \<Longrightarrow> length bs \<le> length (concat bs)"
  by (induction bs) (auto simp: neq_Nil_conv)

lemma length_schedule_batches:
  assumes "distinct (ids entries)"
  shows "length (schedule_batches s entries) \<le> length entries"
proof -
  have "length (schedule_batches s entries) \<le> length (concat (schedule_batches s entries))"
    using schedule_ok_nonempty schedule_batches_ok [OF assms] by (metis length_le_concat)
  also have "\<dots> = length entries"
    using schedule_batches_mset [OF assms] by (metis size_mset)
  finally show ?thesis .
qed

text \<open>
  Each entry of the proposal gets the index of the batch it was placed in: decision
  \<open>k\<close> names the vehicle of entry \<open>k\<close>, and its index is a batch that holds the vehicle.
\<close>

lemma schedule_decisions_correct:
  assumes "distinct (ids entries)" and "k < length entries" and "length entries < 2 ^ 32"
  shows "vd_replica_id (schedule_decisions entries (schedule_batches s entries) ! k) = ve_replica_id (entries ! k)"
    and "unat (vd_batch_index (schedule_decisions entries (schedule_batches s entries) ! k))
           < length (schedule_batches s entries)"
    and "entries ! k \<in> set (schedule_batches s entries !
           unat (vd_batch_index (schedule_decisions entries (schedule_batches s entries) ! k)))"
proof -
  let ?B = "schedule_batches s entries"
  have part: "mset (concat ?B) = mset entries"
    using assms(1) by (rule schedule_batches_mset)
  then have "entries ! k \<in> set (concat ?B)"
    using assms(2) by (metis nth_mem set_mset_mset)
  then obtain j where j: "j < length ?B" "entries ! k \<in> set (?B ! j)"
    by (auto simp: in_set_conv_nth) (metis nth_mem)
  have "distinct (ids (concat ?B))"
    using assms(1) part by (metis mset_eq_imp_distinct_iff mset_map)
  then have d: "schedule_decisions entries ?B ! k =
      \<lparr>vd_replica_id = ve_replica_id (entries ! k), vd_batch_index = of_nat j\<rparr>"
    using assign_batches_nth [of "replicate (length entries) \<lparr>vd_replica_id = 0, vd_batch_index = 0\<rparr>"
        entries k j ?B 0] assms(2) j by (simp add: schedule_decisions_alt)
  have "j < 2 ^ 32"
    using j(1) length_schedule_batches [OF assms(1), of s] assms(3) by simp
  then have "unat (of_nat j :: u32) = j"
    by (simp add: unat_of_nat)
  with d j show "vd_replica_id (schedule_decisions entries ?B ! k) = ve_replica_id (entries ! k)"
    "unat (vd_batch_index (schedule_decisions entries ?B ! k)) < length ?B"
    "entries ! k \<in> set (?B ! unat (vd_batch_index (schedule_decisions entries ?B ! k)))"
    by simp_all
qed

section \<open>Order bytes\<close>

definition dec_decisions :: "nat \<Rightarrow> bytes \<Rightarrow> ResdbVehicleDecision list" where
  "dec_decisions n bs = map (\<lambda>i. dec_decision (drop (sizeof_order_hdr + i * sizeof_decision) bs)) [0..<n]"

lemma dec_decisions_enc:
  assumes "\<forall>d \<in> set ds. in_i32 (vd_replica_id d)" and "n = length ds"
  shows "dec_decisions n (enc_order_hdr h @ concat (map enc_decision ds) @ r) = ds"
  unfolding dec_decisions_def using assms ordhdrc.length_enc by (rule decc.dec_array)

lemma schedule_decisions_in_i32:
  assumes "distinct (ids entries)" and "\<forall>e \<in> set entries. wf_entry e" and "length entries < 2 ^ 32"
    and "d \<in> set (schedule_decisions entries (schedule_batches s entries))"
  shows "in_i32 (vd_replica_id d)"
proof -
  obtain i where "i < length entries" "d = schedule_decisions entries (schedule_batches s entries) ! i"
    using assms(4) by (auto simp: in_set_conv_nth)
  then show ?thesis
    using schedule_decisions_correct(1) [OF assms(1) _ assms(3), of i s] assms(2)
    by (simp add: wf_entry_def)
qed

text \<open>Whatever follows the order bytes, their decisions are read back.\<close>

lemma order_decisions:
  assumes "distinct (ids entries)" and "\<forall>e \<in> set entries. wf_entry e" and "length entries < 2 ^ 32"
  shows "dec_decisions (length entries) (order_bytes (BuildIntersectionSchedule s hdr entries) @ r) =
    schedule_decisions entries (schedule_batches s entries)"
proof -
  have "\<forall>d \<in> set (schedule_decisions entries (schedule_batches s entries)). in_i32 (vd_replica_id d)"
    using schedule_decisions_in_i32 [OF assms] by blast
  then show ?thesis
    by (simp add: BuildIntersectionSchedule_def Let_def dec_decisions_enc)
qed

text \<open>Two different entries with one batch index cross together, hence without conflict.\<close>

lemma same_batch_compatible:
  assumes "distinct (ids entries)" and "length entries < 2 ^ 32"
    and "i < length entries" and "j < length entries" and "i \<noteq> j"
    and "vd_batch_index (schedule_decisions entries (schedule_batches s entries) ! i) =
         vd_batch_index (schedule_decisions entries (schedule_batches s entries) ! j)"
  shows "IsSafeToBatch (ve_lane (entries ! i)) (ve_direction (entries ! i))
           (ve_lane (entries ! j)) (ve_direction (entries ! j)) \<and>
         \<not> IsQuietEntry (entries ! i) \<and> \<not> IsQuietEntry (entries ! j)"
proof -
  let ?b = "schedule_batches s entries !
    unat (vd_batch_index (schedule_decisions entries (schedule_batches s entries) ! i))"
  have mem: "entries ! i \<in> set ?b" "entries ! j \<in> set ?b" "?b \<in> set (schedule_batches s entries)"
    using schedule_decisions_correct(2,3) [OF assms(1,3,2), of s]
      schedule_decisions_correct(3) [OF assms(1,4,2), of s] assms(6) by simp_all
  have ne: "entries ! i \<noteq> entries ! j"
    using assms(1,3-5) by (metis distinct_map nth_eq_iff_index_eq)
  obtain m n where mn: "m < length ?b" "n < length ?b" "?b ! m = entries ! i" "?b ! n = entries ! j"
    using mem by (metis in_set_conv_nth)
  then have "m \<noteq> n" "length ?b \<noteq> 1"
    using ne by auto
  then show ?thesis
    using schedule_batch_safe [OF assms(1) mem(3)] mn mem(1,2)
    by (metis IsSafeToBatch_sym nat_neq_iff)
qed

lemma order_bytes_decode:
  assumes "distinct (ids entries)" and "\<forall>e \<in> set entries. wf_entry e"
    and "length entries < 2 ^ 32" and "k < length entries"
  shows "let r = BuildIntersectionSchedule s hdr entries; batches = schedule_batches s entries;
             h = dec_order_hdr (order_bytes r);
             d = dec_decisions (length entries) (order_bytes r) ! k in
         length (order_bytes r) = 12 + 8 * length entries \<and>
         oh_epoch h = ph_epoch hdr \<and> unat (oh_n_vehicles h) = length entries \<and>
         unat (oh_n_batches h) = length batches \<and>
         vd_replica_id d = ve_replica_id (entries ! k) \<and>
         unat (vd_batch_index d) < length batches \<and>
         entries ! k \<in> set (batches ! unat (vd_batch_index d))"
proof -
  let ?B = "schedule_batches s entries"
  let ?D = "schedule_decisions entries ?B"
  let ?h = "\<lparr>oh_epoch = ph_epoch hdr, oh_n_vehicles = of_nat (length entries), oh_n_batches = of_nat (length ?B)\<rparr>"
  have ob: "order_bytes (BuildIntersectionSchedule s hdr entries) =
      enc_order_hdr ?h @ concat (map enc_decision ?D) @ []"
    by (simp add: BuildIntersectionSchedule_def Let_def)
  have "in_i32 (vd_replica_id d)" if dD: "d \<in> set ?D" for d
    using schedule_decisions_in_i32 [OF assms(1-3) dD] .
  then have "dec_decisions (length entries) (order_bytes (BuildIntersectionSchedule s hdr entries)) = ?D"
    unfolding ob by (intro dec_decisions_enc) auto
  moreover have "dec_order_hdr (order_bytes (BuildIntersectionSchedule s hdr entries)) = ?h"
    unfolding ob by (rule ordhdrc.dec_enc) simp
  moreover have "length (order_bytes (BuildIntersectionSchedule s hdr entries)) = 12 + 8 * length entries"
    unfolding ob using ordhdrc.length_enc [of ?h] decc.length_array [of ?D]
    by (simp add: sizeof_order_hdr_def sizeof_decision_def mult.commute)
  moreover have "length ?B < 2 ^ 32"
    using length_schedule_batches [OF assms(1), of s] assms(3) by linarith
  ultimately show ?thesis
    using schedule_decisions_correct [OF assms(1,4,3), of s] assms(3)
    by (simp add: Let_def unat_of_nat)
qed

text \<open>
  C30: the order bytes carry the schedule. The header announces the epoch, the number of
  vehicles and of batches, and decision \<open>k\<close> decodes to the vehicle of entry \<open>k\<close> with the
  index of the batch that holds it.
\<close>

theorem order_bytes_carry_schedule:
  assumes "distinct (ids entries)" and "\<forall>e \<in> set entries. wf_entry e"
    and "length entries < 2 ^ 32" and "k < length entries"
  shows "let r = BuildIntersectionSchedule s hdr entries; batches = schedule_batches s entries;
             h = dec_order_hdr (order_bytes r);
             d = dec_decisions (length entries) (order_bytes r) ! k in
         length (order_bytes r) = 12 + 8 * length entries \<and>
         oh_epoch h = ph_epoch hdr \<and> unat (oh_n_vehicles h) = length entries \<and>
         unat (oh_n_batches h) = length batches \<and>
         vd_replica_id d = ve_replica_id (entries ! k) \<and>
         unat (vd_batch_index d) < length batches \<and>
         entries ! k \<in> set (batches ! unat (vd_batch_index d))"
  using assms by (rule order_bytes_decode)

theorem order_bytes_carry_schedule_witness:
  "vd_replica_id (dec_decisions 2 (order_bytes (BuildIntersectionSchedule False
     (dec_propose_hdr []) [demo_entry 3 0 0 1, demo_entry 5 1 0 1])) ! 1) = 5"
proof -
  let ?es = "[demo_entry 3 0 0 1, demo_entry 5 1 0 1]"
  have "distinct (ids ?es)" "\<forall>e \<in> set ?es. wf_entry e" "length ?es < 2 ^ 32" "1 < length ?es"
    by (simp_all add: demo_entry_def wf_entry_def in_i32_def)
  then have "vd_replica_id (dec_decisions (length ?es) (order_bytes (BuildIntersectionSchedule False
     (dec_propose_hdr []) ?es)) ! 1) = ve_replica_id (?es ! 1)"
    using order_bytes_carry_schedule [of ?es 1 False "dec_propose_hdr []"] unfolding Let_def by blast
  then show ?thesis by (simp add: demo_entry_def numeral_2_eq_2)
qed

section \<open>Ambulance priority\<close>

text \<open>
  A prefix of the queue is front closed when every vehicle ahead of a member in its lane
  comes earlier in the prefix. Such a prefix is served at least one vehicle per batch.
\<close>

definition front_closed :: "ResdbVehicleEntry list \<Rightarrow> ResdbVehicleEntry list \<Rightarrow> bool" where
  "front_closed entries prio \<longleftrightarrow> (\<forall>k < length prio. \<forall>v \<in> set entries.
     ve_lane v = ve_lane (prio ! k) \<longrightarrow> lane_key v < lane_key (prio ! k) \<longrightarrow> v \<in> set (take k prio))"

lemma front_closed_head:
  assumes "front_closed entries prio" and "k < length prio" and "ve_replica_id (prio ! k) \<notin> set p"
  obtains m where "m \<le> k" and "ve_replica_id (prio ! m) \<notin> set p"
    and "List.find (schedulable entries p) (prio @ rest) = Some (prio ! m)"
proof -
  define m where "m = (LEAST i. ve_replica_id (prio ! i) \<notin> set p)"
  have m: "ve_replica_id (prio ! m) \<notin> set p" "m \<le> k"
    and before: "\<And>i. i < m \<Longrightarrow> ve_replica_id (prio ! i) \<in> set p"
    unfolding m_def using assms(3) LeastI [of "\<lambda>i. ve_replica_id (prio ! i) \<notin> set p"]
      Least_le [of "\<lambda>i. ve_replica_id (prio ! i) \<notin> set p"] not_less_Least by blast+
  have "ve_replica_id v \<in> set p" if "v \<in> set (take m prio)" for v
    using that before m(2) assms(2) by (auto simp: in_set_conv_nth)
  moreover have "m < length prio" using m(2) assms(2) by simp
  ultimately have "schedulable entries p (prio ! m)"
    using assms(1) m(1) unfolding schedulable_def AllSame_iff front_closed_def by blast
  moreover have "\<not> schedulable entries p ((prio @ rest) ! i)" if "i < m" for i
    using that before [OF that] m(2) assms(2) by (simp add: schedulable_def nth_append)
  ultimately have "List.find (schedulable entries p) (prio @ rest) = Some (prio ! m)"
    unfolding find_Some_iff using \<open>m < length prio\<close> by (intro exI [of _ m]) (simp add: nth_append)
  with m show thesis using that by blast
qed

lemma unplaced_take_less:
  assumes "m < k" and "k < length prio" and "ve_replica_id (prio ! m) \<notin> set p"
    and "ve_replica_id (prio ! m) \<in> set p'" and "set p \<subseteq> set p'"
  shows "unplaced (take k prio) p' < unplaced (take k prio) p"
proof (rule unplaced_less)
  show "prio ! m \<in> set (take k prio)"
    using assms(1,2) by (auto simp: in_set_conv_nth)
qed (use assms in auto)

lemma prio_served:
  assumes fc: "front_closed entries prio" and k: "k < length prio"
    and set_eq: "set (prio @ rest) = set entries" and d: "distinct (ids entries)"
    and p: "distinct p" "set p \<subseteq> set (ids entries)" and un: "ve_replica_id (prio ! k) \<notin> set p"
  shows "\<exists>i \<le> unplaced (take k prio) p.
    i < length (batch_loop s (length entries) entries (prio @ rest) p) \<and>
    prio ! k \<in> set (batch_loop s (length entries) entries (prio @ rest) p ! i)"
  using p un
proof (induction "unplaced (take k prio) p" arbitrary: p rule: less_induct)
  case less
  obtain m where m: "m \<le> k" "ve_replica_id (prio ! m) \<notin> set p"
    and find: "List.find (schedulable entries p) (prio @ rest) = Some (prio ! m)"
    by (rule front_closed_head [OF fc k less.prems(3), where rest = rest])
  have "prio ! k \<in> set entries"
    using nth_mem [OF k] set_eq by (metis UnI1 set_append)
  then have "set p \<noteq> set (ids entries)" using less.prems(3) by auto
  then have "length p < length entries"
    using placed_full [OF d less.prems(1,2)] by linarith
  then obtain b where b: "batch_ok entries (prio @ rest) p b (rev (ids b) @ p)" "prio ! m \<in> set b"
    and unfold: "batch_loop s (length entries) entries (prio @ rest) p =
      b # batch_loop s (length entries) entries (prio @ rest) (rev (ids b) @ p)"
    using batch_loop_step find by blast
  note prog = batch_ok_progress [OF b(1) set_eq less.prems(1,2)]
  show ?case
  proof (cases "prio ! k \<in> set b")
    case True
    then show ?thesis unfolding unfold by (intro exI [of _ 0]) simp
  next
    case False
    have inj: "inj_on ve_replica_id (set entries)" using d by (simp add: distinct_map)
    have "set b \<subseteq> set entries" using b(1) set_eq by (auto simp: batch_ok_def)
    then have un': "ve_replica_id (prio ! k) \<notin> set (rev (ids b) @ p)"
      using False less.prems(3) inj \<open>prio ! k \<in> set entries\<close> by (auto dest: inj_onD)
    have "m < k" using m(1) b(2) False by (metis le_neq_implies_less)
    then have lt: "unplaced (take k prio) (rev (ids b) @ p) < unplaced (take k prio) p"
      using k m(2) b(2) by (intro unplaced_take_less) auto
    obtain i where "i \<le> unplaced (take k prio) (rev (ids b) @ p)"
      "i < length (batch_loop s (length entries) entries (prio @ rest) (rev (ids b) @ p))"
      "prio ! k \<in> set (batch_loop s (length entries) entries (prio @ rest) (rev (ids b) @ p) ! i)"
      using less.hyps [OF lt prog(1,2) un'] by blast
    with lt show ?thesis unfolding unfold by (intro exI [of _ "Suc i"]) simp
  qed
qed

text \<open>The priority queue of a proposal with one ambulance: its blockers, then itself.\<close>

lemma fold_push_new_distinct:
  "distinct (ids (queue @ xs)) \<Longrightarrow> fold push_new xs queue = queue @ xs"
proof (induction xs arbitrary: queue)
  case (Cons x xs)
  then have "push_new x queue = queue @ [x]" by (auto simp: push_new_def)
  moreover have "distinct (ids ((queue @ [x]) @ xs))" using Cons.prems by simp
  ultimately show ?case using Cons.IH [of "queue @ [x]"] by simp
qed simp

lemma distinct_ids_filter_sort:
  "distinct (ids entries) \<Longrightarrow> distinct (ids (sort_key f (filter P entries)))"
  by (auto simp: distinct_map inj_on_def)

lemma priority_queue_single:
  assumes "distinct (ids entries)" and "a \<in> set entries" and "is_signed_ambulance a"
    and "\<forall>v \<in> set entries. ve_is_ambulance v \<noteq> 0 \<longrightarrow> v = a"
  shows "priority_queue_of entries = blockers_of entries a @ [a]"
proof -
  have "distinct entries" using assms(1) by (simp add: distinct_map)
  moreover have "is_signed_ambulance v \<longleftrightarrow> v = a" if "v \<in> set entries" for v
    using that assms(3,4) by (auto simp: is_signed_ambulance_def)
  then have "filter is_signed_ambulance entries = filter (\<lambda>v. v = a) entries"
    by (rule filter_cong [OF refl])
  ultimately have "filter is_signed_ambulance entries = [a]"
    using assms(2) by (simp add: filter_unique)
  moreover have "distinct (ids (blockers_of entries a))"
    unfolding blockers_of_def by (rule distinct_ids_filter_sort [OF assms(1)])
  moreover have "ve_replica_id a \<notin> set (ids (blockers_of entries a))"
  proof
    assume "ve_replica_id a \<in> set (ids (blockers_of entries a))"
    then obtain v where v: "v \<in> set (blockers_of entries a)" "ve_replica_id v = ve_replica_id a" by auto
    have "inj_on ve_replica_id (set entries)" using assms(1) by (simp add: distinct_map)
    moreover have "v \<in> set entries" using v(1) set_blockers_of by blast
    ultimately have "v = a" using v(2) assms(2) by (simp add: inj_on_eq_iff)
    with v(1) assms(3) show False by (simp add: blockers_of_def is_signed_ambulance_def)
  qed
  ultimately show ?thesis
    using fold_push_new_distinct [of "[]" "blockers_of entries a"]
    by (simp add: priority_queue_of_def push_ambulance_def push_new_def)
qed

lemma front_closed_single:
  assumes "\<forall>v \<in> set entries. ve_is_ambulance v \<noteq> 0 \<longrightarrow> v = a" and "is_signed_ambulance a"
  shows "front_closed entries (blockers_of entries a @ [a])"
  unfolding front_closed_def
proof (intro allI ballI impI)
  let ?bl = "blockers_of entries a"
  fix k v assume k: "k < length (?bl @ [a])" and v: "v \<in> set entries"
    and lane: "ve_lane v = ve_lane ((?bl @ [a]) ! k)" and less: "lane_key v < lane_key ((?bl @ [a]) ! k)"
  have bl: "x \<in> set ?bl \<longleftrightarrow> x \<in> set entries \<and> ve_lane x = ve_lane a \<and> ve_is_ambulance x = 0
      \<and> lane_key x < lane_key a" for x
    by (auto simp: blockers_of_def compare_less_iff)
  have mem: "(?bl @ [a]) ! k = a \<or> (?bl @ [a]) ! k \<in> set ?bl"
    using k by (cases "k < length ?bl") (auto simp: nth_append less_Suc_eq)
  then have "lane_key v < lane_key a \<and> ve_lane v = ve_lane a"
    using less lane bl [of "(?bl @ [a]) ! k"] order_less_trans [OF less] by metis
  then have "v \<in> set ?bl" using v bl assms(1) by blast
  show "v \<in> set (take k (?bl @ [a]))"
  proof (cases "k < length ?bl")
    case True
    obtain j where j: "j < length ?bl" "?bl ! j = v"
      using \<open>v \<in> set ?bl\<close> by (metis in_set_conv_nth)
    have srt: "sorted (map lane_key ?bl)" by (simp add: blockers_of_def)
    have "j < k"
    proof (rule ccontr)
      assume "\<not> j < k"
      then have "lane_key (?bl ! k) \<le> lane_key (?bl ! j)"
        using srt j(1) True by (simp add: sorted_iff_nth_mono)
      with less j True show False by (simp add: nth_append)
    qed
    then have "take k (?bl @ [a]) ! j = v" "j < length (take k (?bl @ [a]))"
      using j True by (simp_all add: nth_append)
    then show ?thesis by (metis nth_mem)
  next
    case False
    then have "k = length ?bl" using k by simp
    then show ?thesis using \<open>v \<in> set ?bl\<close> by simp
  qed
qed

text \<open>
  C31: an ambulance is held up by its own lane only. With one ambulance \<open>a\<close> in a proposal
  and its certificate present, its batch index is at most the number of ordinary vehicles
  queued ahead of it in its lane, however many vehicles wait elsewhere.
\<close>

theorem ambulance_wait_bound:
  assumes "distinct (ids entries)" and "a \<in> set entries" and "is_signed_ambulance a"
    and "\<forall>v \<in> set entries. ve_is_ambulance v \<noteq> 0 \<longrightarrow> v = a"
  shows "\<exists>i \<le> length (blockers_of entries a).
    i < length (schedule_batches s entries) \<and> a \<in> set (schedule_batches s entries ! i)"
proof -
  let ?bl = "blockers_of entries a"
  obtain rest where wq: "work_queue_of entries = (?bl @ [a]) @ rest"
    using priority_queue_single [OF assms] by (simp add: work_queue_of_def Let_def)
  have "\<exists>i \<le> unplaced (take (length ?bl) (?bl @ [a])) [].
      i < length (batch_loop s (length entries) entries ((?bl @ [a]) @ rest) []) \<and>
      (?bl @ [a]) ! length ?bl \<in> set (batch_loop s (length entries) entries ((?bl @ [a]) @ rest) [] ! i)"
    by (rule prio_served)
      (use front_closed_single [OF assms(4,3)] assms(1) set_work_queue_of [OF assms(1)] wq in auto)
  then show ?thesis
    unfolding schedule_batches_def wq by (simp add: unplaced_def)
qed

theorem ambulance_wait_bound_witness:
  "\<exists>i \<le> length (blockers_of [demo_entry 0 1 0 1, demo_entry 1 0 1 1, (demo_entry 2 0 0 2)\<lparr>ve_is_ambulance := 1\<rparr>]
       ((demo_entry 2 0 0 2)\<lparr>ve_is_ambulance := 1\<rparr>)).
     (demo_entry 2 0 0 2)\<lparr>ve_is_ambulance := 1\<rparr> \<in> set (schedule_batches False
       [demo_entry 0 1 0 1, demo_entry 1 0 1 1, (demo_entry 2 0 0 2)\<lparr>ve_is_ambulance := 1\<rparr>] ! i)"
proof -
  let ?a = "(demo_entry 2 0 0 2)\<lparr>ve_is_ambulance := 1\<rparr>"
  let ?es = "[demo_entry 0 1 0 1, demo_entry 1 0 1 1, ?a]"
  have "distinct (ids ?es)" "?a \<in> set ?es" "is_signed_ambulance ?a"
    "\<forall>v \<in> set ?es. ve_is_ambulance v \<noteq> 0 \<longrightarrow> v = ?a"
    by (simp_all add: demo_entry_def is_signed_ambulance_def)
  then show ?thesis
    using ambulance_wait_bound [of ?es ?a False] by blast
qed

end
