(* ===== verification/Bridge.thy ===== *)
theory Bridge
  imports Proposal ForcedView SchedulerOrder
begin

text \<open>
  The consensus bridge of \<^verbatim>\<open>bridge/resdb_omnet_bridge.cc\<close>: the active view built from a
  proposal, the pre-verification of proposals, the executor of committed payloads and the
  submission entry point. Protobuf parsing, SHA-256 and the application's two callbacks
  are parameters.
\<close>

section \<open>Fault configuration\<close>

definition ResdbIdToOmnetReplica :: "int \<Rightarrow> int" where
  "ResdbIdToOmnetReplica resdb_node_id = (if resdb_node_id \<le> 0 then -1 else resdb_node_id - 1)"

record ToleratedFaultState =
  tf_enabled :: bool
  tf_tolerated_f :: int
  tf_rollback_per_epoch :: bool

definition initial_tolerated_fault :: ToleratedFaultState where
  "initial_tolerated_fault = \<lparr>tf_enabled = False, tf_tolerated_f = -1, tf_rollback_per_epoch = True\<rparr>"

text \<open>The guarded read of the shared state: the tolerated faults when the mode is configured.\<close>

definition configured_faults :: "ToleratedFaultState option \<Rightarrow> ToleratedFaultState option" where
  "configured_faults state =
     (case state of None \<Rightarrow> None
      | Some s \<Rightarrow> if \<not> tf_enabled s \<or> tf_tolerated_f s < 0 then None else Some s)"

definition RollbackFaultsForMembership :: "int \<Rightarrow> int \<Rightarrow> int" where
  "RollbackFaultsForMembership configured_f member_count =
     (if member_count \<le> 0 then -1
      else let max_f = (member_count - 1) div 3 in
        if configured_f \<ge> 0 then min configured_f max_f else max_f)"

definition ResdbOmnetSetToleratedFaults ::
  "int \<Rightarrow> int \<Rightarrow> ToleratedFaultState option \<Rightarrow> int \<times> ToleratedFaultState option" where
  "ResdbOmnetSetToleratedFaults static_n tolerated_f state =
     (if tolerated_f < 0 then (-1, state)
      else let s = (case state of None \<Rightarrow> initial_tolerated_fault | Some s \<Rightarrow> s) in
        if static_n \<le> 0 then (-1, Some s)
        else case BftQuorumSize static_n tolerated_f of
               None \<Rightarrow> (-1, Some s)
             | Some q \<Rightarrow> (0, Some (s\<lparr>tf_enabled := True, tf_tolerated_f := tolerated_f\<rparr>)))"

definition ResdbOmnetSetRollbackFaultMode ::
  "int \<Rightarrow> ToleratedFaultState option \<Rightarrow> int \<times> ToleratedFaultState option" where
  "ResdbOmnetSetRollbackFaultMode per_epoch_mode state =
     (let s = (case state of None \<Rightarrow> initial_tolerated_fault | Some s \<Rightarrow> s)
      in (0, Some (s\<lparr>tf_rollback_per_epoch := (per_epoch_mode \<noteq> 0)\<rparr>)))"

section \<open>Active views of proposals\<close>

text \<open>A request that names a sender must come from the leader; replica 0 means unknown.\<close>

definition sender_is_leader :: "Request option \<Rightarrow> int \<Rightarrow> bool" where
  "sender_is_leader request leader =
     (case request of None \<Rightarrow> True
      | Some r \<Rightarrow> (let sender_omnet = ResdbIdToOmnetReplica (rq_sender_id r) in
           \<not> (sender_omnet \<ge> 0 \<and> sender_omnet \<noteq> leader)))"

definition view_candidate ::
  "u32 \<Rightarrow> Request option \<Rightarrow> int \<Rightarrow> int list \<Rightarrow> bool \<Rightarrow> int \<Rightarrow> OmnetForcedView" where
  "view_candidate epoch request leader members f_override f =
     \<lparr>fv_epoch = epoch, fv_seq = (case request of None \<Rightarrow> 0 | Some r \<Rightarrow> rq_seq r),
      fv_request_hash = (case request of None \<Rightarrow> [] | Some r \<Rightarrow> rq_hash r),
      fv_primary_omnet = leader, fv_active_omnet_ids = members,
      fv_f_override = f_override, fv_f = f, fv_quorum = 1\<rparr>"

definition BuildCancelViewCandidate ::
  "ProposalView \<Rightarrow> int \<Rightarrow> ToleratedFaultState option \<Rightarrow> Request option \<Rightarrow> OmnetForcedView option" where
  "BuildCancelViewCandidate view expected_replicas state request =
     (if \<not> is_cancel view then None
      else case configured_faults state of None \<Rightarrow> None
      | Some s \<Rightarrow>
        (let anchored_f = tf_tolerated_f s; leader = pv_cancel_leader_id view;
             members = sort (pv_cancel_electors view); n_e = int (length members) in
         if leader < 0 \<or> leader \<ge> expected_replicas then None
         else if pv_cancel_electors view = [] then None
         else if adjacent_dup members then None
         else if list_ex (\<lambda>rid. rid < 0 \<or> rid \<ge> expected_replicas) members then None
         else if \<not> binary_search members leader then None
         else if n_e < 3 * anchored_f + 1 then None
         else if BftQuorumSize n_e anchored_f = None then None
         else if \<not> sender_is_leader request leader then None
         else Some (view_candidate (ch_cancelled_epoch (pv_cancel view)) request leader members True anchored_f)))"

definition signed_voter :: "ResdbVehicleEntry \<Rightarrow> bool" where
  "signed_voter e \<longleftrightarrow> ve_cyber_status e = 1 \<and> ve_sim_time_us e \<noteq> UINT64_MAX"

definition proposal_entries :: "ResdbProposeHdr \<Rightarrow> bytes \<Rightarrow> ResdbVehicleEntry list" where
  "proposal_entries hdr data = dec_entries sizeof_propose_hdr (unat (ph_n_vehicles hdr)) data"

definition id_out_of_range :: "int \<Rightarrow> ResdbVehicleEntry \<Rightarrow> bool" where
  "id_out_of_range expected_replicas e \<longleftrightarrow> ve_replica_id e < 0 \<or> ve_replica_id e \<ge> expected_replicas"

definition BuildForcedViewCandidate ::
  "ProposalView \<Rightarrow> ResdbProposeHdr \<Rightarrow> int \<Rightarrow> ToleratedFaultState option \<Rightarrow> Request option \<Rightarrow>
   OmnetForcedView option" where
  "BuildForcedViewCandidate view hdr expected_replicas state request =
     (if \<not> is_rollback view then None
      else case configured_faults state of None \<Rightarrow> None
      | Some s \<Rightarrow>
        (let anchored_f = tf_tolerated_f s; per_epoch = tf_rollback_per_epoch s;
             leader = ph_leader_id hdr; entries = proposal_entries hdr (pv_data view);
             voter_members = sort (map ve_replica_id (filter signed_voter entries));
             voteN = int (length voter_members);
             rollback_f = (if per_epoch then RollbackFaultsForMembership anchored_f voteN else anchored_f) in
         if ph_n_vehicles hdr = 0 \<or> sint (ph_n_vehicles hdr) > expected_replicas then None
         else if leader < 0 \<or> leader \<ge> expected_replicas then None
         else if list_ex (id_out_of_range expected_replicas) entries then None
         else if adjacent_dup voter_members then None
         else if voteN = 0 then None
         else if \<not> binary_search voter_members leader then None
         else if per_epoch \<and> voteN < 4 then None
         else if \<not> per_epoch \<and> voteN < 3 * anchored_f + 1 then None
         else if BftQuorumSize voteN rollback_f = None then None
         else if \<not> sender_is_leader request leader then None
         else if per_epoch then Some (view_candidate (ph_epoch hdr) request leader voter_members False 0)
         else Some (view_candidate (ph_epoch hdr) request leader voter_members True rollback_f)))"

definition BuildToleratedFaultViewCandidate ::
  "ToleratedFaultState option \<Rightarrow> ResdbProposeHdr \<Rightarrow> bytes \<Rightarrow> int \<Rightarrow> Request option \<Rightarrow>
   OmnetForcedView option" where
  "BuildToleratedFaultViewCandidate state hdr proposal_data expected_replicas request =
     (case configured_faults state of None \<Rightarrow> None
      | Some s \<Rightarrow>
        (let tolerated_f = tf_tolerated_f s; leader = ph_leader_id hdr;
             entries = proposal_entries hdr proposal_data;
             members = sort (map ve_replica_id entries) in
         if leader < 0 \<or> leader \<ge> expected_replicas then None
         else if expected_replicas \<le> 0 \<or> ph_n_vehicles hdr = 0 \<or>
             sint (ph_n_vehicles hdr) > expected_replicas then None
         else if list_ex (id_out_of_range expected_replicas) entries then None
         else if adjacent_dup members then None
         else if \<not> binary_search members leader then None
         else if tolerated_f > (int (length members) - 1) div 3 then None
         else if \<not> sender_is_leader request leader then None
         else Some (view_candidate (ph_epoch hdr) request leader members True tolerated_f)))"

definition BuildEpochOrderViewCandidate ::
  "ToleratedFaultState option \<Rightarrow> ResdbProposeHdr \<Rightarrow> bytes \<Rightarrow> int \<Rightarrow> Request option \<Rightarrow>
   OmnetForcedView option" where
  "BuildEpochOrderViewCandidate state hdr proposal_data expected_replicas request =
     (case configured_faults state of None \<Rightarrow> None
      | Some s \<Rightarrow>
        (let anchored_f = tf_tolerated_f s; per_epoch = tf_rollback_per_epoch s;
             leader = ph_leader_id hdr; entries = proposal_entries hdr proposal_data;
             voter_members = sort (map ve_replica_id (filter signed_voter entries));
             voteN = int (length voter_members);
             epoch_f = (if per_epoch then RollbackFaultsForMembership anchored_f voteN else anchored_f) in
         if ph_epoch hdr = 0 then
           BuildToleratedFaultViewCandidate state hdr proposal_data expected_replicas request
         else if leader < 0 \<or> leader \<ge> expected_replicas then None
         else if expected_replicas \<le> 0 \<or> ph_n_vehicles hdr = 0 \<or>
             sint (ph_n_vehicles hdr) > expected_replicas then None
         else if list_ex (id_out_of_range expected_replicas) entries then None
         else if adjacent_dup voter_members then None
         else if voteN = 0 then None
         else if \<not> binary_search voter_members leader then None
         else if per_epoch \<and> epoch_f < 0 then None
         else if \<not> per_epoch \<and> voteN < 3 * anchored_f + 1 then None
         else if BftQuorumSize voteN epoch_f = None then None
         else if \<not> sender_is_leader request leader then None
         else Some (view_candidate (ph_epoch hdr) request leader voter_members True epoch_f)))"

end
