(* ===== verification/PreVerify.thy ===== *)
theory PreVerify
  imports Bridge "HOL-Library.Signed_Division"
begin

text \<open>
  The guarded pre-verification of consensus requests in \<^verbatim>\<open>bridge/resdb_omnet_bridge.cc\<close> (the
  lambda handed to \<open>SetPreVerifyFunc\<close>) with the calls of the consensus manager it makes.
  The state is what the lambda and the manager share; an escaping exception is \<open>None\<close>.
  Protobuf parsing (\<open>parse_batch\<close>) and the application's callbacks (\<open>snap\<close>, \<open>clear_fn\<close>) are
  parameters; a callback that was never registered is \<open>None\<close>.
\<close>

section \<open>The consensus manager's state\<close>

record BridgeState =
  bs_registry :: OmnetForcedViewRegistry
  bs_primary :: int
  bs_view :: u64
  bs_faults :: "ToleratedFaultState option"
  bs_recovery_epochs :: "u32 set"

definition SetPrimary :: "int \<Rightarrow> u64 \<Rightarrow> BridgeState \<Rightarrow> BridgeState" where
  "SetPrimary primary version st =
     (if version > bs_view st then st\<lparr>bs_view := version, bs_primary := primary\<rparr> else st)"

definition follow_view :: "OmnetForcedView \<Rightarrow> BridgeState \<Rightarrow> BridgeState" where
  "follow_view view st =
     (if fv_primary_omnet view \<ge> 0 then st\<lparr>bs_primary := fv_primary_omnet view + 1\<rparr> else st)"

definition InstallOmnetForcedViewForRequest ::
  "Request \<Rightarrow> OmnetForcedView \<Rightarrow> BridgeState \<Rightarrow> (bool \<times> BridgeState) option" where
  "InstallOmnetForcedViewForRequest request view st =
     (case InstallForRequest request view (bs_registry st) of
        None \<Rightarrow> None
      | Some (False, reg) \<Rightarrow> Some (False, st\<lparr>bs_registry := reg\<rparr>)
      | Some (True, reg) \<Rightarrow> Some (True, follow_view view (st\<lparr>bs_registry := reg\<rparr>)))"

definition InstallOmnetPendingForcedView ::
  "OmnetForcedView \<Rightarrow> BridgeState \<Rightarrow> BridgeState option" where
  "InstallOmnetPendingForcedView view st =
     (case InstallPending view (bs_registry st) of
        None \<Rightarrow> None
      | Some reg \<Rightarrow> Some (follow_view view (st\<lparr>bs_registry := reg\<rparr>)))"

section \<open>The checks\<close>

definition requires_clear_evidence :: "ResdbProposeHdr \<Rightarrow> BridgeState \<Rightarrow> bool" where
  "requires_clear_evidence hdr st \<longleftrightarrow> ph_epoch hdr \<in> bs_recovery_epochs st"

definition clear_evidence_ok ::
  "(u32 \<Rightarrow> bytes \<Rightarrow> bool) option \<Rightarrow> ResdbProposeHdr \<Rightarrow> bytes \<Rightarrow> bool" where
  "clear_evidence_ok clear_fn hdr data =
     (let entries_end = sizeof_propose_hdr + unat (ph_n_vehicles hdr) * sizeof_entry in
      if length data < entries_end + sizeof_evidence_hdr then False
      else let ehdr = dec_evidence_hdr (drop entries_end data);
               off = entries_end + sizeof_evidence_hdr in
        if eh_magic ehdr \<noteq> RESDB_ORDER_EVIDENCE_MAGIC \<or> eh_n_clear_certs ehdr < 1 \<or>
           length data < off + 4 then False
        else let cert_len = unat (get_u32 data off) in
          if length data < off + 4 + cert_len then False
          else case clear_fn of None \<Rightarrow> False
               | Some fn \<Rightarrow> fn (ph_epoch hdr - 1) (take cert_len (drop (off + 4) data)))"

definition entry_fields_ok :: "ResdbVehicleEntry \<Rightarrow> bool" where
  "entry_fields_ok e \<longleftrightarrow>
     ve_sim_time_us e \<noteq> 0 \<and> \<not> ve_is_ambulance e > 1 \<and> \<not> ve_cyber_status e > 1 \<and>
     \<not> ve_direction e > 3 \<and> \<not> ve_physical_lane_index e > 1"

text \<open>Checks 1 to 7 of the lambda, on the membership and the fields of the proposal.\<close>

definition membership_ok :: "int \<Rightarrow> ResdbProposeHdr \<Rightarrow> bytes \<Rightarrow> bool" where
  "membership_ok expected hdr data =
     (if ph_n_vehicles hdr = 0 \<or> sint (ph_n_vehicles hdr) > expected then False
      else if length data < sizeof_propose_hdr + unat (ph_n_vehicles hdr) * sizeof_entry then False
      else let entries = proposal_entries hdr data;
               sorted_ids = sort (map ve_replica_id entries) in
        if adjacent_dup sorted_ids then False
        else if \<not> list_all (\<lambda>i. \<not> (i < 0 \<or> i \<ge> expected)) sorted_ids then False
        else if \<not> list_all entry_fields_ok entries then False
        else \<not> (ph_leader_id hdr < 0 \<or> ph_leader_id hdr \<ge> expected))"

definition INT32_MAX :: int where
  "INT32_MAX = 2147483647"

definition signed_slot :: "int \<Rightarrow> ResdbVehicleEntry \<Rightarrow> bool" where
  "signed_slot expected e \<longleftrightarrow> ve_replica_id e \<ge> 0 \<and> ve_replica_id e < expected \<and> signed_voter e"

definition proposal_cert_primary :: "int \<Rightarrow> ResdbVehicleEntry list \<Rightarrow> int" where
  "proposal_cert_primary expected entries =
     fold (\<lambda>e m. min m (ve_replica_id e)) (filter (signed_slot expected) entries) INT32_MAX"

definition leader_is_signed :: "int \<Rightarrow> int \<Rightarrow> ResdbVehicleEntry list \<Rightarrow> bool" where
  "leader_is_signed expected leader entries =
     list_ex (\<lambda>e. ve_replica_id e = leader) (filter (signed_slot expected) entries)"

definition leader_is_cert_primary :: "int \<Rightarrow> ResdbProposeHdr \<Rightarrow> bytes \<Rightarrow> bool" where
  "leader_is_cert_primary expected hdr data =
     (let entries = proposal_entries hdr data in
        ph_leader_id hdr = proposal_cert_primary expected entries \<and>
        leader_is_signed expected (ph_leader_id hdr) entries)"

definition leader_is_pbft_primary :: "int \<Rightarrow> ResdbProposeHdr \<Rightarrow> bytes \<Rightarrow> BridgeState \<Rightarrow> bool" where
  "leader_is_pbft_primary expected hdr data st =
     (ph_leader_id hdr = ResdbIdToOmnetReplica (bs_primary st) \<and>
      leader_is_signed expected (ph_leader_id hdr) (proposal_entries hdr data))"

definition leader_ok :: "int \<Rightarrow> ResdbProposeHdr \<Rightarrow> bytes \<Rightarrow> BridgeState \<Rightarrow> bool" where
  "leader_ok expected hdr data st =
     (if proposal_cert_primary expected (proposal_entries hdr data) = INT32_MAX then False
      else leader_is_cert_primary expected hdr data \<or> leader_is_pbft_primary expected hdr data st)"

section \<open>Checks 9 and 10: the voter's own certificates\<close>

definition state_fields_match :: "ResdbVehicleEntry \<Rightarrow> ResdbCertEntry \<Rightarrow> bool" where
  "state_fields_match pe ce \<longleftrightarrow>
     ve_lane pe = ce_lane ce \<and> ve_position_in_lane pe = ce_position_in_lane ce \<and>
     ve_direction pe = ce_direction ce \<and> ve_is_ambulance pe = ce_is_ambulance ce \<and>
     ve_physical_lane_index pe = ce_physical_lane_index ce \<and>
     ve_lateral_claim_cm pe = ce_lateral_claim_cm ce"

definition proposal_map :: "ResdbVehicleEntry list \<Rightarrow> int \<Rightarrow> ResdbVehicleEntry option" where
  "proposal_map entries = map_of (rev (map (\<lambda>e. (ve_replica_id e, e)) entries))"

text \<open>The loop over the snapshot: \<open>None\<close> on a mismatch, else the number of suppressed entries.\<close>

fun cert_scan :: "(int \<Rightarrow> ResdbVehicleEntry option) \<Rightarrow> ResdbCertEntry list \<Rightarrow> nat \<Rightarrow> nat option" where
  "cert_scan pm [] omitted = Some omitted"
| "cert_scan pm (ce # ces) omitted =
     (case pm (ce_replica_id ce) of
        None \<Rightarrow> cert_scan pm ces omitted
      | Some pe \<Rightarrow>
          if ve_cyber_status pe = 0 \<or> ve_sim_time_us pe = UINT64_MAX
          then cert_scan pm ces (Suc omitted)
          else if \<not> state_fields_match pe ce then None
          else cert_scan pm ces omitted)"

definition uncertified_ambulance :: "int set \<Rightarrow> ResdbVehicleEntry \<Rightarrow> bool" where
  "uncertified_ambulance cert_backed_ids pe \<longleftrightarrow>
     ve_is_ambulance pe \<noteq> 0 \<and>
     (ve_cyber_status pe = 0 \<or> ve_sim_time_us pe = UINT64_MAX \<or> ve_replica_id pe \<notin> cert_backed_ids)"

definition certs_ok ::
  "int \<Rightarrow> bool \<Rightarrow> bool \<Rightarrow> (nat \<Rightarrow> ResdbCertEntry list) option \<Rightarrow> ResdbProposeHdr \<Rightarrow> bytes \<Rightarrow> bool" where
  "certs_ok expected rollback cert_leader snap hdr data =
     (case snap of None \<Rightarrow> True
      | Some snap_fn \<Rightarrow>
        (let entries = proposal_entries hdr data; pm = proposal_map entries;
             certs = snap_fn 256; f = (expected - 1) sdiv 3;
             cert_backed_ids = set (map ce_replica_id certs) in
         if \<not> rollback \<and> ph_leader_id hdr \<notin> cert_backed_ids then False
         else if \<not> rollback \<and> cert_leader \<and>
             list_ex (\<lambda>ce. ce_replica_id ce \<ge> 0 \<and> ce_replica_id ce < expected \<and>
               ce_replica_id ce < ph_leader_id hdr) certs then False
         else if list_ex (\<lambda>e. uncertified_ambulance cert_backed_ids (the (pm (ve_replica_id e)))) entries
           then False
         else case cert_scan pm certs 0 of
             None \<Rightarrow> False
           | Some omitted \<Rightarrow> \<not> int omitted > f))"

section \<open>The verdict\<close>

text \<open>A view is installed under the request for a PRE_PREPARE, as pending for new transactions.\<close>

definition install_for :: "Request \<Rightarrow> OmnetForcedView \<Rightarrow> BridgeState \<Rightarrow> (bool \<times> BridgeState) option" where
  "install_for req view st =
     (case rq_type req of
        TYPE_PRE_PREPARE \<Rightarrow> InstallOmnetForcedViewForRequest req view st
      | TYPE_NEW_TXNS \<Rightarrow> map_option (Pair True) (InstallOmnetPendingForcedView view st)
      | TYPE_OTHER \<Rightarrow> Some (True, st))"

definition PreVerifyCancel ::
  "int \<Rightarrow> ProposalView \<Rightarrow> Request \<Rightarrow> BridgeState \<Rightarrow> (bool \<times> BridgeState) option" where
  "PreVerifyCancel expected view req st =
     (if \<not> Check13ValidCancelProposal view then Some (False, st)
      else case BuildCancelViewCandidate view expected (bs_faults st) (Some req) of
        None \<Rightarrow> Some (False, st)
      | Some cancel_view \<Rightarrow> install_for req cancel_view st)"

text \<open>The tail for an ordinary ORDER: install the epoch's view, then the certified hand-off.\<close>

definition install_order_view ::
  "Request \<Rightarrow> OmnetForcedView option \<Rightarrow> bool \<Rightarrow> int \<Rightarrow> BridgeState \<Rightarrow> (bool \<times> BridgeState) option" where
  "install_order_view req active_view handoff leader st =
     (case (case active_view of None \<Rightarrow> Some (True, st) | Some v \<Rightarrow> install_for req v st) of
        None \<Rightarrow> None
      | Some (False, st') \<Rightarrow> Some (False, st')
      | Some (True, st') \<Rightarrow>
          if rq_type req = TYPE_PRE_PREPARE \<and> handoff
          then Some (True, SetPrimary (leader + 1) (rq_current_view req) st')
          else Some (True, st'))"

definition PreVerifyOrder ::
  "int \<Rightarrow> (nat \<Rightarrow> ResdbCertEntry list) option \<Rightarrow> (u32 \<Rightarrow> bytes \<Rightarrow> bool) option \<Rightarrow>
   bytes \<Rightarrow> ProposalView \<Rightarrow> Request \<Rightarrow> BridgeState \<Rightarrow> (bool \<times> BridgeState) option" where
  "PreVerifyOrder expected snap clear_fn d view req st =
     (let data = pv_data view; hdr = dec_propose_hdr data; rollback = is_rollback view;
          active_view = (if rollback then None
            else BuildEpochOrderViewCandidate (bs_faults st) hdr data expected (Some req));
          cert_leader = (\<not> rollback \<and> leader_is_cert_primary expected hdr data);
          pbft_leader = (\<not> rollback \<and> leader_is_pbft_primary expected hdr data st) in
      if \<not> rollback \<and> ph_epoch hdr > 0 \<and> active_view = None then Some (False, st)
      else if \<not> rollback \<and> requires_clear_evidence hdr st \<and> \<not> clear_evidence_ok clear_fn hdr data
        then Some (False, st)
      else if rollback \<and> \<not> StructurallyValidCancelJustification d (pv_rollback view) then Some (False, st)
      else if \<not> membership_ok expected hdr data then Some (False, st)
      else if \<not> rollback \<and> \<not> leader_ok expected hdr data st then Some (False, st)
      else if \<not> certs_ok expected rollback cert_leader snap hdr data then Some (False, st)
      else if rollback then
        (case BuildForcedViewCandidate view hdr expected (bs_faults st) (Some req) of
           None \<Rightarrow> Some (False, st)
         | Some forced_view \<Rightarrow> install_for req forced_view st)
      else install_order_view req active_view (cert_leader \<and> \<not> pbft_leader) (ph_leader_id hdr) st)"

definition PreVerify ::
  "int \<Rightarrow> (bytes \<Rightarrow> bytes list option) \<Rightarrow> (nat \<Rightarrow> ResdbCertEntry list) option \<Rightarrow>
   (u32 \<Rightarrow> bytes \<Rightarrow> bool) option \<Rightarrow> Request \<Rightarrow> BridgeState \<Rightarrow> (bool \<times> BridgeState) option" where
  "PreVerify expected parse_batch snap clear_fn req st =
     (if rq_type req \<noteq> TYPE_PRE_PREPARE \<and> rq_type req \<noteq> TYPE_NEW_TXNS then Some (True, st)
      else case parse_batch (rq_data req) of
        None \<Rightarrow> Some (False, st)
      | Some [] \<Rightarrow> Some (False, st)
      | Some (d # _) \<Rightarrow>
          (case UnwrapRollbackIfPresent d of
             (False, _) \<Rightarrow> Some (False, st)
           | (True, view) \<Rightarrow>
               if is_cancel view then PreVerifyCancel expected view req st
               else PreVerifyOrder expected snap clear_fn d view req st))"

end
