(* ===== verification/Executor.thy ===== *)
theory Executor
  imports PreVerify
begin

text \<open>
  The executor of committed payloads and the C entry points of
  \<^verbatim>\<open>bridge/resdb_omnet_bridge.cc\<close> that touch consensus state: submission, primary lookup and
  promotion, the pre-verification of the firewall-off experiments. SHA-256 (\<open>sha\<close>) and
  protobuf serialisation (\<open>ser_batch\<close>) are parameters. A handle holds a server and a consensus
  manager; the null-pointer guards of the C entry points are not modelled.
\<close>

unbundle bit_operations_syntax

section \<open>Execution of a committed payload\<close>

definition Sha256Digest :: "(bytes \<Rightarrow> bytes) \<Rightarrow> bytes \<Rightarrow> bytes" where
  "Sha256Digest sha data = fit 32 (sha data)"

definition digest_seq :: "bytes \<Rightarrow> u64" where
  "digest_seq digest = foldl (\<lambda>s b. push_bit 8 s OR ucast b) 0 (take 8 digest)"

definition cancel_decision :: "(bytes \<Rightarrow> bytes) \<Rightarrow> bytes \<Rightarrow> ResdbCancelHdr \<Rightarrow> ResdbCancelDecisionHdr" where
  "cancel_decision sha data ch =
     \<lparr>dh_magic = RESDB_CANCEL_DECISION_MAGIC, dh_cancelled_epoch = ch_cancelled_epoch ch,
      dh_reason = ch_reason ch, dh_cancel_seq = digest_seq (Sha256Digest sha data),
      dh_payload_digest = Sha256Digest sha data\<rparr>"

text \<open>
  The result is the returned bytes, the bytes handed to the order callback (if one is
  registered and reached) and the set of crash-recovery epochs.
\<close>

definition ExecuteData ::
  "bool \<Rightarrow> (bytes \<Rightarrow> bytes) \<Rightarrow> bool \<Rightarrow> bytes \<Rightarrow> u32 set \<Rightarrow> bytes \<times> bytes option \<times> u32 set" where
  "ExecuteData all_singleton sha has_cb data epochs =
     (case UnwrapRollbackIfPresent data of
        (False, _) \<Rightarrow> ([], None, epochs)
      | (True, view) \<Rightarrow>
          if is_cancel view then
            (let dh = cancel_decision sha data (pv_cancel view);
                 epochs' = (if dh_reason dh = 0 then insert (dh_cancelled_epoch dh + 1) epochs else epochs);
                 cancel_bytes = enc_cancel_decision dh
             in (cancel_bytes, if has_cb then Some cancel_bytes else None, epochs'))
          else (let p = pv_data view in
            if length p < sizeof_propose_hdr then ([], None, epochs)
            else let hdr = dec_propose_hdr p in
              if length p - sizeof_propose_hdr < unat (ph_n_vehicles hdr) * sizeof_entry then ([], None, epochs)
              else let entries = proposal_entries hdr p;
                       entries_end = sizeof_propose_hdr + unat (ph_n_vehicles hdr) * sizeof_entry;
                       result = order_bytes (BuildIntersectionSchedule all_singleton hdr entries) @
                         (if length p > entries_end then drop entries_end p else [])
                   in (result, if has_cb then Some result else None, epochs)))"

section \<open>Firewall-off pre-verification\<close>

definition PreVerifyNoFirewall ::
  "int \<Rightarrow> (bytes \<Rightarrow> bytes list option) \<Rightarrow> Request \<Rightarrow> BridgeState \<Rightarrow> (bool \<times> BridgeState) option" where
  "PreVerifyNoFirewall expected parse_batch req st =
     (if rq_type req \<noteq> TYPE_PRE_PREPARE \<and> rq_type req \<noteq> TYPE_NEW_TXNS then Some (True, st)
      else case parse_batch (rq_data req) of
        None \<Rightarrow> Some (True, st)
      | Some [] \<Rightarrow> Some (True, st)
      | Some (d # _) \<Rightarrow>
          (case UnwrapRollbackIfPresent d of
             (False, _) \<Rightarrow> Some (True, st)
           | (True, view) \<Rightarrow>
               if is_cancel view then
                 (if \<not> Check13ValidCancelProposal view then Some (True, st)
                  else case BuildCancelViewCandidate view expected (bs_faults st) (Some req) of
                    None \<Rightarrow> Some (True, st)
                  | Some cancel_view \<Rightarrow>
                      map_option (\<lambda>(_, st'). (True, st')) (install_for req cancel_view st))
               else let hdr = dec_propose_hdr (pv_data view) in
                 if is_rollback view then
                   (if \<not> StructurallyValidCancelJustification d (pv_rollback view) then Some (True, st)
                    else case BuildForcedViewCandidate view hdr expected (bs_faults st) (Some req) of
                      None \<Rightarrow> Some (True, st)
                    | Some forced_view \<Rightarrow>
                        map_option (\<lambda>(_, st'). (True, st')) (install_for req forced_view st))
                 else case BuildEpochOrderViewCandidate (bs_faults st) hdr (pv_data view) expected (Some req) of
                     None \<Rightarrow> Some (\<not> ph_epoch hdr > 0, st)
                   | Some active_view \<Rightarrow>
                       map_option (\<lambda>(_, st'). (True, st')) (install_for req active_view st)))"

section \<open>Submission\<close>

text \<open>\<open>Inl\<close> is the error code of a refused payload, \<open>Inr\<close> the request injected locally.\<close>

definition new_txns_request :: "(bytes list \<Rightarrow> bytes) \<Rightarrow> bytes \<Rightarrow> nat \<Rightarrow> Request" where
  "new_txns_request ser_batch payload tx_counter =
     \<lparr>rq_type = TYPE_NEW_TXNS, rq_seq = 0, rq_hash = ''omnet-tx-'' @ to_string (int tx_counter),
      rq_sender_id = 0, rq_current_view = 0, rq_data = ser_batch [payload]\<rparr>"

definition ResdbOmnetTriggerConsensus ::
  "int \<Rightarrow> (bytes list \<Rightarrow> bytes) \<Rightarrow> bytes \<Rightarrow> nat \<Rightarrow> BridgeState \<Rightarrow> ((int + Request) \<times> BridgeState) option" where
  "ResdbOmnetTriggerConsensus expected ser_batch payload tx_counter st =
     (if payload = [] then Some (Inl (-1), st)
      else let req = new_txns_request ser_batch payload tx_counter in
        case UnwrapRollbackIfPresent payload of
          (False, _) \<Rightarrow> Some (Inr req, st)
        | (True, view) \<Rightarrow>
            if is_cancel view then
              (if \<not> Check13ValidCancelProposal view then Some (Inl (-1), st)
               else case BuildCancelViewCandidate view expected (bs_faults st) None of
                 None \<Rightarrow> Some (Inl (-1), st)
               | Some cancel_view \<Rightarrow>
                   map_option (Pair (Inr req))
                     (InstallOmnetPendingForcedView (cancel_view\<lparr>fv_request_hash := rq_hash req\<rparr>) st))
            else let hdr = dec_propose_hdr (pv_data view) in
              if \<not> is_rollback view then
                (if ph_epoch hdr > 0 \<and>
                    BuildEpochOrderViewCandidate (bs_faults st) hdr (pv_data view) expected (Some req) = None
                 then Some (Inl (-1), st) else Some (Inr req, st))
              else if \<not> StructurallyValidCancelJustification payload (pv_rollback view)
                then Some (Inl (-1), st)
              else if BuildForcedViewCandidate view hdr expected (bs_faults st) None = None
                then Some (Inl (-1), st)
              else Some (Inr req, st))"

section \<open>The primary\<close>

definition ResdbOmnetGetPrimary :: "BridgeState \<Rightarrow> int" where
  "ResdbOmnetGetPrimary st =
     (case Latest (bs_registry st) of
        Some forced \<Rightarrow>
          if fv_primary_omnet forced \<ge> 0 then fv_primary_omnet forced
          else max 0 (ResdbIdToOmnetReplica (bs_primary st))
      | None \<Rightarrow> max 0 (ResdbIdToOmnetReplica (bs_primary st)))"

definition PromotePrimaryFromCert :: "int \<Rightarrow> int \<Rightarrow> BridgeState \<Rightarrow> int \<times> BridgeState" where
  "PromotePrimaryFromCert n_replicas primary_omnet st =
     (if primary_omnet < 0 \<or> primary_omnet \<ge> n_replicas then (-1, st)
      else if ResdbIdToOmnetReplica (bs_primary st) \<noteq> primary_omnet
        then (0, st\<lparr>bs_primary := primary_omnet + 1\<rparr>)
      else (0, st))"

end
