(* ===== verification/ProposalCorrect.thy ===== *)
theory ProposalCorrect
  imports Proposal
begin

text \<open>
  Which encoded payload is read back as what: the round trips of ORDER, rollback and CANCEL
  proposals, and the exact set of CANCEL proposals the classifier loses.
\<close>

section \<open>CANCEL proposals\<close>

text \<open>
  The classifier tells a CANCEL from a rollback by reading the same bytes as a rollback
  header. This is when a CANCEL header passes for one: the low byte of its justification
  length is read as a reason, and its reason as a cancelled epoch.
\<close>

definition cancel_alias :: "ResdbCancelHdr \<Rightarrow> bool" where
  "cancel_alias ch \<longleftrightarrow>
     unat (ch_justification_len ch) mod 256 \<le> 1 \<and> ch_cancelled_epoch ch = ucast (ch_reason ch) + 1"

definition cancel_proposal_wf :: "ResdbCancelHdr \<Rightarrow> bytes \<Rightarrow> int \<Rightarrow> int list \<Rightarrow> bool" where
  "cancel_proposal_wf ch just leader electors \<longleftrightarrow>
     ch_reason ch \<le> 1 \<and> starts_with just CANCEL_CERT_TAG \<and>
     unat (ch_justification_len ch) = length just \<and> length just < 2 ^ 29 \<and>
     in_i32 leader \<and> (\<forall>e \<in> set electors. in_i32 e) \<and> length electors \<le> 10000"

lemma take1_put_u32: "take 1 (put_u32 w) = [of_nat (unat w mod 256)]"
proof -
  have "(4 :: nat) = Suc 3" by simp
  then have "le_enc 4 (unat w) = of_nat (unat w mod 256) # le_enc 3 (unat w div 256)"
    by (simp only: le_enc.simps(2))
  then show ?thesis by (simp only: put_u32_def) simp
qed

lemma cancel_alias_read:
  assumes "12 \<le> length r"
  shows "(let rhdr = dec_rollback_hdr (enc_cancel_hdr ch @ r) in
     rh_reason rhdr \<le> 1 \<and> rh_new_epoch rhdr = rh_cancelled_epoch rhdr + 1) \<longleftrightarrow> cancel_alias ch"
proof -
  let ?raw = "enc_cancel_hdr ch @ r"
  have a: "get_u32 ?raw 0 = ch_cancelled_epoch ch"
    by (simp add: enc_cancel_hdr_def field_reads)
  have b: "get_u32 ?raw 4 = ucast (ch_reason ch)"
  proof -
    have "take 4 (drop 4 ?raw) = [ch_reason ch, 0, 0, 0]"
      by (simp add: enc_cancel_hdr_def)
    then have "get_u32 ?raw 4 = of_nat (unat (ch_reason ch) + 256 * 0)"
      by (simp add: get_u32_def)
    then show ?thesis by (simp only: mult_0_right add_0_right of_nat_unat)
  qed
  have "take 1 (drop 8 ?raw) = take 1 (put_u32 (ch_justification_len ch))"
    by (simp add: enc_cancel_hdr_def)
  then have "get_u8 ?raw 8 = of_nat (unat (of_nat (unat (ch_justification_len ch) mod 256) :: byte))"
    by (simp only: get_u8_def take1_put_u32) simp
  then have "get_u8 ?raw 8 = of_nat (unat (ch_justification_len ch) mod 256)"
    by (simp only: unat_of_nat_byte)
  then have c: "unat (get_u8 ?raw 8) = unat (ch_justification_len ch) mod 256"
    by (simp only: unat_of_nat_byte)
  show ?thesis
    by (simp add: Let_def dec_rollback_hdr_def cancel_alias_def a b word_le_nat_alt c)
qed

lemma cancel_raw_parts:
  assumes "cancel_proposal_wf ch just leader electors" and "raw = enc_cancel_proposal ch just leader electors"
  shows "dec_cancel_hdr raw = ch" and "take (length just) (drop 12 raw) = just"
    and "length raw = 12 + length just + 8 + length electors * 4"
    and "get_i32 raw (12 + length just) = leader"
    and "get_u32 raw (12 + length just + 4) = of_nat (length electors)"
    and "dec_i32s (12 + length just + 4 + 4) (length electors) raw = electors"
    and "drop 12 raw = just @ drop 12 (drop (length just) raw)"
proof -
  show "dec_cancel_hdr raw = ch"
    unfolding assms(2) enc_cancel_proposal_def by (rule canhdrc.dec_enc) simp
  show "take (length just) (drop 12 raw) = just"
    by (simp add: assms(2) enc_cancel_proposal_def)
  show "length raw = 12 + length just + 8 + length electors * 4"
    using i32c.length_array [of electors] by (simp add: assms(2) enc_cancel_proposal_def)
  have "in_i32 leader" using assms(1) by (simp add: cancel_proposal_wf_def)
  then show "get_i32 raw (12 + length just) = leader"
    using get_put_i32 [of "enc_cancel_hdr ch @ just" "12 + length just" leader
        "put_u32 (of_nat (length electors)) @ concat (map put_i32 electors)"]
    by (simp add: assms(2) enc_cancel_proposal_def)
  show "get_u32 raw (12 + length just + 4) = of_nat (length electors)"
    using get_put_u32 [of "enc_cancel_hdr ch @ just @ put_i32 leader" "12 + length just + 4"
        "of_nat (length electors)" "concat (map put_i32 electors)"]
    by (simp add: assms(2) enc_cancel_proposal_def)
  have "\<forall>e \<in> set electors. in_i32 e" using assms(1) by (simp add: cancel_proposal_wf_def)
  then show "dec_i32s (12 + length just + 4 + 4) (length electors) raw = electors"
    using i32c.dec_array [of electors "length electors"
        "enc_cancel_hdr ch @ just @ put_i32 leader @ put_u32 (of_nat (length electors))"
        "12 + length just + 4 + 4" "[]"]
    by (simp add: assms(2) enc_cancel_proposal_def dec_i32s_def)
  show "drop 12 raw = just @ drop 12 (drop (length just) raw)"
    by (simp add: assms(2) enc_cancel_proposal_def)
qed

lemma LooksLike_cancel:
  assumes wf: "cancel_proposal_wf ch just leader electors"
    and raw: "raw = enc_cancel_proposal ch just leader electors"
  shows "LooksLikeCancelProposal raw view =
    (if cancel_alias ch then (False, view)
     else (True, view\<lparr>pv_data := raw, pv_kind := kCancel, pv_cancel := ch, pv_raw_payload := raw,
       pv_cancel_leader_id := leader, pv_cancel_electors := electors\<rparr>))"
proof -
  note parts = cancel_raw_parts [OF wf raw]
  have w: "\<not> ch_reason ch > 1" "starts_with just CANCEL_CERT_TAG"
    "unat (ch_justification_len ch) = length just" "length electors \<le> 10000"
    using wf by (auto simp: cancel_proposal_wf_def not_less)
  have len: "12 \<le> length just" using w(2) by (rule starts_with_tag_length)
  then have "ch_justification_len ch \<noteq> 0" using w(3) by auto
  moreover have "(let rhdr = dec_rollback_hdr raw in
      rh_reason rhdr \<le> 1 \<and> rh_new_epoch rhdr = rh_cancelled_epoch rhdr + 1) \<longleftrightarrow> cancel_alias ch"
    unfolding raw enc_cancel_proposal_def using len by (intro cancel_alias_read) simp
  moreover have "unat (of_nat (length electors) :: u32) = length electors"
    using w(4) by (simp add: unat_of_nat)
  moreover from this have "\<not> (of_nat (length electors) :: u32) > 10000"
    using w(4) by (simp add: word_less_nat_alt)
  ultimately show ?thesis
    using parts w len
    by (simp add: LooksLikeCancelProposal_def Let_def sizeof_cancel_hdr_def sizeof_rollback_hdr_def
        ParseCancelTail_def)
qed

lemma put_i32_nonempty [simp]: "put_i32 i \<noteq> []"
  by (metis length_put(4) list.size(3) zero_neq_numeral)

lemma cancel_lost:
  assumes wf: "cancel_proposal_wf ch just leader electors"
    and raw: "raw = enc_cancel_proposal ch just leader electors" and al: "cancel_alias ch"
  shows "fst (UnwrapRollbackIfPresent raw) = False"
proof -
  note parts = cancel_raw_parts [OF wf raw]
  have w: "starts_with just CANCEL_CERT_TAG" "length just < 2 ^ 29" "length electors \<le> 10000"
    using wf by (simp_all add: cancel_proposal_wf_def)
  have len: "12 \<le> length just" using w(1) by (rule starts_with_tag_length)
  have tag: "starts_with (drop 12 raw) CANCEL_CERT_TAG"
    using w(1) len by (subst parts(7)) (simp add: starts_with_tag)
  have none: "ParseNormalProposal raw = None"
    using tag by (rule cancel_not_normal)
  have "drop 12 raw = CANCEL_CERT_TAG @ drop 12 (drop 12 raw)"
    using tag by (metis append_take_drop_id starts_with_tag)
  then have "get_u32 raw 12 = 0x434E4143"
    by (subst (asm) tag_bytes, simp add: get_u32_def)
  then have "unat (rh_justification_len (dec_rollback_hdr raw)) = 0x434E4143"
    by (simp add: dec_rollback_hdr_def)
  then have big: "sizeof_rollback_hdr + unat (rh_justification_len (dec_rollback_hdr raw)) > length raw"
    using parts(3) w(2,3) by (simp add: sizeof_rollback_hdr_def)
  show ?thesis
    using none big
    by (simp add: UnwrapRollbackIfPresent_def Let_def LooksLike_cancel [OF wf raw] al)
qed

text \<open>
  A CANCEL proposal the application encodes is recognised as a CANCEL with its own
  header, leader and electorate exactly when its header does not pass for a rollback
  header; otherwise it is rejected as malformed.
\<close>

theorem cancel_proposal_classified:
  assumes "cancel_proposal_wf ch just leader electors"
  shows "if cancel_alias ch then fst (UnwrapRollbackIfPresent (enc_cancel_proposal ch just leader electors)) = False
    else (\<exists>v. UnwrapRollbackIfPresent (enc_cancel_proposal ch just leader electors) = (True, v) \<and>
       is_cancel v \<and> pv_cancel v = ch \<and> pv_cancel_leader_id v = leader \<and> pv_cancel_electors v = electors \<and>
       pv_raw_payload v = enc_cancel_proposal ch just leader electors)"
proof (cases "cancel_alias ch")
  case True
  then show ?thesis using cancel_lost [OF assms refl] by simp
next
  case False
  then show ?thesis
    by (simp add: UnwrapRollbackIfPresent_def Let_def LooksLike_cancel [OF assms refl] is_cancel_def)
qed

definition demo_just :: "nat \<Rightarrow> bytes" where
  "demo_just n = CANCEL_CERT_TAG @ to_bytes ''1|0|r|2:ab'' @ replicate n 97"

theorem cancel_proposal_classified_witness:
  "\<exists>v. UnwrapRollbackIfPresent (enc_cancel_proposal
      \<lparr>ch_cancelled_epoch = 1, ch_reason = 0, ch_justification_len = 22\<rparr> (demo_just 0) 2 [0, 1, 2, 3]) = (True, v) \<and>
     is_cancel v \<and> pv_cancel_electors v = [0, 1, 2, 3]"
proof -
  let ?ch = "\<lparr>ch_cancelled_epoch = 1, ch_reason = 0, ch_justification_len = 22\<rparr> :: ResdbCancelHdr"
  have "cancel_proposal_wf ?ch (demo_just 0) 2 [0, 1, 2, 3]"
    by (simp add: cancel_proposal_wf_def demo_just_def starts_with_tag length_tag in_i32_def)
  moreover have "\<not> cancel_alias ?ch" by (simp add: cancel_alias_def)
  ultimately show ?thesis
    using cancel_proposal_classified [of ?ch "demo_just 0" 2 "[0, 1, 2, 3]"] by auto
qed

text \<open>
  The loss is real. A CANCEL of epoch 1 for a crash (reason 0) whose certificate text is
  256 bytes long is refused by the classifier, although every field of it is valid.
\<close>

theorem cancel_of_epoch_one_lost:
  "\<exists>ch just. cancel_proposal_wf ch just 2 [0, 1, 2, 3] \<and> ch_cancelled_epoch ch = 1 \<and> ch_reason ch = 0 \<and>
     length just = 256 \<and>
     fst (UnwrapRollbackIfPresent (enc_cancel_proposal ch just 2 [0, 1, 2, 3])) = False"
proof -
  let ?ch = "\<lparr>ch_cancelled_epoch = 1, ch_reason = 0, ch_justification_len = 256\<rparr> :: ResdbCancelHdr"
  have wf: "cancel_proposal_wf ?ch (demo_just 234) 2 [0, 1, 2, 3]"
    by (simp add: cancel_proposal_wf_def demo_just_def starts_with_tag length_tag in_i32_def)
  have "cancel_alias ?ch" by (simp add: cancel_alias_def)
  then have "fst (UnwrapRollbackIfPresent (enc_cancel_proposal ?ch (demo_just 234) 2 [0, 1, 2, 3])) = False"
    using cancel_lost [OF wf refl] by blast
  with wf show ?thesis
    by (intro exI [of _ ?ch] exI [of _ "demo_just 234"]) (simp add: demo_just_def length_tag)
qed

section \<open>Rollback proposals\<close>

definition enc_rollback_proposal ::
  "ResdbRollbackHdr \<Rightarrow> bytes \<Rightarrow> ResdbProposeHdr \<Rightarrow> ResdbVehicleEntry list \<Rightarrow> bytes" where
  "enc_rollback_proposal rh just hdr es = enc_rollback_hdr rh @ just @ enc_proposal hdr es []"

text \<open>
  A rollback wrapper for epoch \<open>e + 1\<close> around an ORDER of that epoch is unwrapped to
  exactly the inner ORDER, whatever its justification bytes are.
\<close>

theorem rollback_proposal_unwrapped:
  assumes "rh_reason rh \<le> 1" and "rh_new_epoch rh = rh_cancelled_epoch rh + 1"
    and "unat (rh_justification_len rh) = length just" and "ph_epoch hdr = rh_new_epoch rh"
    and "in_i32 (ph_leader_id hdr)" and "unat (ph_n_vehicles hdr) = length es" and "length es \<le> 10000"
    and "\<forall>e \<in> set es. wf_entry e"
  shows "\<exists>v. UnwrapRollbackIfPresent (enc_rollback_proposal rh just hdr es) = (True, v) \<and>
    is_rollback v \<and> pv_rollback v = rh \<and> dec_propose_hdr (pv_data v) = hdr \<and>
    dec_entries sizeof_propose_hdr (length es) (pv_data v) = es"
proof -
  let ?raw = "enc_rollback_proposal rh just hdr es"
  have rh: "dec_rollback_hdr ?raw = rh"
    unfolding enc_rollback_proposal_def by (rule rollhdrc.dec_enc) simp
  have l16: "length (enc_rollback_hdr rh) = 16"
    using rollhdrc.length_enc [of rh] by (simp add: sizeof_rollback_hdr_def)
  have inner: "drop (16 + length just) ?raw = enc_proposal hdr es []"
    by (simp add: enc_rollback_proposal_def l16)
  have len: "16 + length just \<le> length ?raw" "36 \<le> length ?raw"
    by (simp_all add: enc_rollback_proposal_def l16 enc_proposal_def)
  have look: "LooksLikeCancelProposal ?raw view = (False, view)" for view
    using rh assms(1,2) len by (simp add: LooksLikeCancelProposal_def Let_def sizeof_rollback_hdr_def)
  have parse: "ParseNormalProposal (enc_proposal hdr es []) = Some hdr"
    using assms(5-7) by (rule ParseNormalProposal_enc)
  have hdr: "dec_propose_hdr (enc_proposal hdr es []) = hdr"
    using assms(5) by (simp add: enc_proposal_def dec_propose_hdr_enc)
  show ?thesis
    using assms(2-4) not_less [THEN iffD2, OF assms(1)] rh inner len look parse hdr
      dec_entries_proposal [OF assms(8), of hdr "[]"]
    by (simp add: UnwrapRollbackIfPresent_def Let_def sizeof_rollback_hdr_def sizeof_propose_hdr_def
        is_rollback_def)
qed

theorem rollback_proposal_unwrapped_witness:
  "\<exists>v. UnwrapRollbackIfPresent (enc_rollback_proposal
      \<lparr>rh_new_epoch = 3, rh_cancelled_epoch = 2, rh_reason = 1, rh_justification_len = 2\<rparr> [7, 7]
      \<lparr>ph_epoch = 3, ph_leader_id = 0, ph_propose_sim_time_us = 5, ph_n_vehicles = 0\<rparr> []) = (True, v) \<and>
    is_rollback v"
  using rollback_proposal_unwrapped [of
      "\<lparr>rh_new_epoch = 3, rh_cancelled_epoch = 2, rh_reason = 1, rh_justification_len = 2\<rparr>" "[7, 7]"
      "\<lparr>ph_epoch = 3, ph_leader_id = 0, ph_propose_sim_time_us = 5, ph_n_vehicles = 0\<rparr>" "[]"]
  by (auto simp: in_i32_def)

end
