(* ===== verification/BridgeCorrect.thy ===== *)
theory BridgeCorrect
  imports Executor ProposalCorrect
begin

text \<open>
  Correctness of the bridge: the views it builds always normalise to the quorum the code
  computed, a rejected request leaves the consensus state alone, pre-verification never
  throws, and an accepted proposal has the membership, certificate and evidence facts that
  the scheduler and the vehicles rely on.
\<close>

section \<open>Guards\<close>

lemma guard_Some: "((if P then None else X) = Some v) \<longleftrightarrow> \<not> P \<and> X = Some v"
  by auto

lemma refuse_if:
  assumes "(if P then Some (False, st) else X) = Some (False, st')"
    and "X = Some (False, st') \<Longrightarrow> st' = st"
  shows "st' = st"
  using assms by (auto split: if_splits)

lemma defined_if: "((if P then Some x else X) \<noteq> None) \<longleftrightarrow> P \<or> X \<noteq> None"
  by auto

lemma accept_if: "((if P then Some (False, st) else X) = Some (True, st')) \<longleftrightarrow> \<not> P \<and> X = Some (True, st')"
  by auto

section \<open>Candidate views\<close>

definition candidate_ok :: "int \<Rightarrow> OmnetForcedView \<Rightarrow> bool" where
  "candidate_ok expected v \<longleftrightarrow>
     sorted (fv_active_omnet_ids v) \<and> distinct (fv_active_omnet_ids v) \<and>
     fv_primary_omnet v \<in> set (fv_active_omnet_ids v) \<and>
     (\<forall>i \<in> set (fv_active_omnet_ids v). 0 \<le> i \<and> i < expected) \<and>
     (fv_f_override v \<longrightarrow>
        BftQuorumSize (int (length (fv_active_omnet_ids v))) (fv_f v) \<noteq> None)"

lemma candidate_nonempty: "candidate_ok expected v \<Longrightarrow> 0 < int (length (fv_active_omnet_ids v))"
  by (auto simp: candidate_ok_def)

lemma candidate_primary: "candidate_ok expected v \<Longrightarrow> 0 \<le> fv_primary_omnet v \<and> fv_primary_omnet v < expected"
  by (auto simp: candidate_ok_def)

lemma candidate_normalizes:
  assumes "candidate_ok expected v"
  shows "Normalize v \<noteq> None"
proof -
  have "remdups_adj (sort (fv_active_omnet_ids v)) = fv_active_omnet_ids v"
    using assms by (simp add: candidate_ok_def sort_key_id_if_sorted remdups_adj_distinct)
  moreover define n where "n = int (length (fv_active_omnet_ids v))"
  moreover have "0 < n"
    using candidate_nonempty [OF assms] by (simp add: n_def)
  moreover have "BftQuorumSize n (if \<not> fv_f_override v then (n - 1) div 3 else fv_f v) \<noteq> None"
    using assms BftQuorumSize_defined [OF \<open>0 < n\<close>, of "(n - 1) div 3"] pos_imp_zdiv_nonneg_iff [of 3 "n - 1"]
      \<open>0 < n\<close> by (auto simp: candidate_ok_def n_def)
  ultimately show ?thesis
    by (cases "fv_f_override v") (auto simp: Normalize_def Let_def)
qed

lemma configured_faults_nonneg: "configured_faults state = Some s \<Longrightarrow> 0 \<le> tf_tolerated_f s"
  by (auto simp: configured_faults_def split: option.splits if_splits)

lemma view_candidate_ok:
  assumes "\<not> adjacent_dup (sort xs)" and "binary_search (sort xs) leader"
    and "\<forall>x \<in> set xs. 0 \<le> x \<and> x < expected"
    and "ov \<Longrightarrow> BftQuorumSize (int (length xs)) f \<noteq> None"
  shows "candidate_ok expected (view_candidate ep req leader (sort xs) ov f)"
  using assms by (simp add: candidate_ok_def view_candidate_def)

lemma ids_in_range:
  "\<not> list_ex (id_out_of_range expected) es \<Longrightarrow>
   \<forall>x \<in> set (map ve_replica_id (filter P es)). 0 \<le> x \<and> x < expected"
  by (auto simp: list_ex_iff id_out_of_range_def not_le)

lemma BuildCancel_ok:
  assumes "BuildCancelViewCandidate view expected state req = Some v"
  shows "candidate_ok expected v"
proof -
  have "\<forall>x \<in> set xs. 0 \<le> x \<and> x < expected" if "\<not> list_ex (\<lambda>i. i < 0 \<or> i \<ge> expected) (sort xs)" for xs
    using that by (auto simp: list_ex_iff)
  then show ?thesis
    using assms unfolding BuildCancelViewCandidate_def Let_def guard_Some
    by (cases "configured_faults state") (auto simp only: option.case guard_Some option.inject simp_thms
        length_sort intro!: view_candidate_ok)
qed

lemma BuildForced_ok:
  assumes "BuildForcedViewCandidate view hdr expected state req = Some v"
  shows "candidate_ok expected v"
proof (cases "configured_faults state")
  case None
  with assms show ?thesis by (simp add: BuildForcedViewCandidate_def guard_Some)
next
  case (Some s)
  show ?thesis
    using assms ids_in_range unfolding BuildForcedViewCandidate_def Let_def guard_Some Some option.case
    by (cases "tf_rollback_per_epoch s") (auto simp only: guard_Some option.inject simp_thms if_True if_False
        length_sort intro!: view_candidate_ok)
qed

lemma BuildTolerated_ok:
  assumes "BuildToleratedFaultViewCandidate state hdr data expected req = Some v"
  shows "candidate_ok expected v"
proof (cases "configured_faults state")
  case None
  with assms show ?thesis by (simp add: BuildToleratedFaultViewCandidate_def Let_def)
next
  case (Some s)
  let ?ids = "map ve_replica_id (proposal_entries hdr data)"
  have "v = view_candidate (ph_epoch hdr) req (ph_leader_id hdr) (sort ?ids) True (tf_tolerated_f s)"
    and "\<not> adjacent_dup (sort ?ids)" "binary_search (sort ?ids) (ph_leader_id hdr)"
    and f: "tf_tolerated_f s \<le> (int (length ?ids) - 1) div 3"
    and "\<not> list_ex (id_out_of_range expected) (proposal_entries hdr data)"
    using assms unfolding BuildToleratedFaultViewCandidate_def Let_def Some option.case guard_Some
    by (simp_all add: not_less)
  moreover have "BftQuorumSize (int (length ?ids)) (tf_tolerated_f s) \<noteq> None"
    using f configured_faults_nonneg [OF Some] by (cases "?ids = []") (simp_all add: BftQuorumSize_def)
  ultimately show ?thesis
    using ids_in_range [of expected "proposal_entries hdr data" "\<lambda>_. True"] by (auto intro!: view_candidate_ok)
qed

lemma BuildEpoch_ok:
  assumes "BuildEpochOrderViewCandidate state hdr data expected req = Some v"
  shows "candidate_ok expected v"
proof (cases "configured_faults state")
  case None
  with assms show ?thesis by (simp add: BuildEpochOrderViewCandidate_def Let_def)
next
  case (Some s)
  show ?thesis
  proof (cases "ph_epoch hdr = 0")
    case True
    with assms Some show ?thesis
      by (auto simp: BuildEpochOrderViewCandidate_def Let_def intro: BuildTolerated_ok)
  next
    case False
    then show ?thesis
      using assms ids_in_range
      unfolding BuildEpochOrderViewCandidate_def Let_def Some option.case if_not_P [OF False] guard_Some
      by (auto simp only: option.inject length_sort intro!: view_candidate_ok)
  qed
qed

lemmas candidates_ok = BuildCancel_ok BuildForced_ok BuildTolerated_ok BuildEpoch_ok

section \<open>Installation\<close>

lemma InstallForRequest_defined: "Normalize v \<noteq> None \<Longrightarrow> InstallForRequest req v reg \<noteq> None"
  by (auto simp: InstallForRequest_def Let_def split: option.splits)

lemma InstallPending_defined: "Normalize v \<noteq> None \<Longrightarrow> InstallPending v reg \<noteq> None"
  by (auto simp: InstallPending_def split: option.splits)

lemma install_for_defined: "candidate_ok expected v \<Longrightarrow> install_for req v st \<noteq> None"
  using InstallForRequest_defined [OF candidate_normalizes, of expected v req "bs_registry st"]
    InstallPending_defined [OF candidate_normalizes, of expected v "bs_registry st"]
  by (auto simp: install_for_def InstallOmnetForcedViewForRequest_def InstallOmnetPendingForcedView_def
      split: RequestType.splits option.splits bool.splits)

lemma InstallForRequest_refused: "InstallForRequest req v reg = Some (False, reg') \<Longrightarrow> reg' = reg"
  by (auto simp: InstallForRequest_def Let_def split: option.splits if_splits)

lemma install_for_refused: "install_for req v st = Some (False, st') \<Longrightarrow> st' = st"
  by (cases st) (auto simp: install_for_def InstallOmnetForcedViewForRequest_def InstallOmnetPendingForcedView_def
      dest: InstallForRequest_refused split: RequestType.splits option.splits bool.splits)

section \<open>Rejection and totality\<close>

lemma install_order_view_refused: "install_order_view req av h l st = Some (False, st') \<Longrightarrow> st' = st"
  by (auto simp: install_order_view_def dest: install_for_refused split: option.splits bool.splits if_splits)

lemma PreVerifyOrder_refused:
  assumes "PreVerifyOrder expected snap clear_fn d view req st = Some (False, st')"
  shows "st' = st"
  using assms unfolding PreVerifyOrder_def Let_def
  by (elim refuse_if)
    (auto dest: install_order_view_refused install_for_refused split: option.split_asm if_split_asm)

lemma PreVerifyCancel_refused: "PreVerifyCancel expected view req st = Some (False, st') \<Longrightarrow> st' = st"
  unfolding PreVerifyCancel_def
  by (elim refuse_if) (auto dest: install_for_refused split: option.split_asm)

lemma install_order_view_defined:
  "install_order_view req (BuildEpochOrderViewCandidate state hdr data expected (Some req)) h l st \<noteq> None"
  using install_for_defined [OF BuildEpoch_ok, of state hdr data expected "Some req" _ req st]
  by (auto simp: install_order_view_def split: option.splits bool.splits)

lemma PreVerifyOrder_defined: "PreVerifyOrder expected snap clear_fn d view req st \<noteq> None"
  unfolding PreVerifyOrder_def Let_def defined_if
  using install_for_defined [OF BuildForced_ok]
  by (cases "is_rollback view") (auto simp: install_order_view_defined split: option.splits)

lemma PreVerifyCancel_defined: "PreVerifyCancel expected view req st \<noteq> None"
  using install_for_defined [OF BuildCancel_ok]
  by (auto simp: PreVerifyCancel_def split: option.splits)

text \<open>
  A rejected request has no effect: whatever the reason, the registered views, the
  primary, the PBFT view and the fault configuration stay as they were.
\<close>

theorem preverify_rejects_without_effect:
  assumes "PreVerify expected parse_batch snap clear_fn req st = Some (False, st')"
  shows "st' = st"
  using assms PreVerifyOrder_refused PreVerifyCancel_refused
  by (fastforce simp: PreVerify_def split: if_splits option.splits list.splits prod.splits bool.splits)

text \<open>
  Pre-verification always returns a verdict: no view it installs can make the quorum
  computation of the registry throw, for any request, callbacks and state.
\<close>

theorem preverify_total: "\<exists>ok st'. PreVerify expected parse_batch snap clear_fn req st = Some (ok, st')"
proof -
  have "PreVerify expected parse_batch snap clear_fn req st \<noteq> None"
    using PreVerifyOrder_defined PreVerifyCancel_defined
    by (auto simp: PreVerify_def split: option.splits list.splits prod.splits bool.splits)
  then show ?thesis by auto
qed

section \<open>Accepted ORDER proposals\<close>

text \<open>
  \<open>order_submitted\<close>: the request is one the filter looks at, and its first user payload
  \<open>d\<close> classifies as an ORDER (ordinary or wrapped in a rollback) with view \<open>view\<close>.
\<close>

definition order_submitted ::
  "(bytes \<Rightarrow> bytes list option) \<Rightarrow> Request \<Rightarrow> bytes \<Rightarrow> ProposalView \<Rightarrow> bool" where
  "order_submitted parse_batch req d view \<longleftrightarrow>
     rq_type req \<noteq> TYPE_OTHER \<and> (\<exists>ds. parse_batch (rq_data req) = Some (d # ds)) \<and>
     UnwrapRollbackIfPresent d = (True, view) \<and> \<not> is_cancel view"

lemma PreVerify_order:
  "order_submitted parse_batch req d view \<Longrightarrow>
   PreVerify expected parse_batch snap clear_fn req st = PreVerifyOrder expected snap clear_fn d view req st"
  by (cases "rq_type req") (auto simp: order_submitted_def PreVerify_def)

lemma PreVerifyOrder_accepted:
  assumes "PreVerifyOrder expected snap clear_fn d view req st = Some (True, st')"
  defines "hdr \<equiv> dec_propose_hdr (pv_data view)"
  shows "membership_ok expected hdr (pv_data view)"
    and "\<not> is_rollback view \<Longrightarrow> leader_ok expected hdr (pv_data view) st"
    and "\<not> is_rollback view \<Longrightarrow> requires_clear_evidence hdr st \<Longrightarrow> clear_evidence_ok clear_fn hdr (pv_data view)"
    and "certs_ok expected (is_rollback view)
           (\<not> is_rollback view \<and> leader_is_cert_primary expected hdr (pv_data view)) snap hdr (pv_data view)"
    and "\<not> is_rollback view \<Longrightarrow> 0 < ph_epoch hdr \<Longrightarrow>
           BuildEpochOrderViewCandidate (bs_faults st) hdr (pv_data view) expected (Some req) \<noteq> None"
    and "is_rollback view \<Longrightarrow> StructurallyValidCancelJustification d (pv_rollback view) \<and>
           BuildForcedViewCandidate view hdr expected (bs_faults st) (Some req) \<noteq> None"
  using assms(1) unfolding PreVerifyOrder_def Let_def accept_if hdr_def
  by (auto split: option.split_asm)

lemma membership_okD:
  assumes "membership_ok expected hdr data"
  shows "distinct (map ve_replica_id (proposal_entries hdr data))"
    and "e \<in> set (proposal_entries hdr data) \<Longrightarrow> 0 \<le> ve_replica_id e \<and> ve_replica_id e < expected \<and> entry_fields_ok e"
    and "sizeof_propose_hdr + unat (ph_n_vehicles hdr) * sizeof_entry \<le> length data"
    and "0 \<le> ph_leader_id hdr \<and> ph_leader_id hdr < expected"
    and "0 < expected"
  using assms by (auto simp: membership_ok_def Let_def list_all_iff not_less not_le split: if_split_asm)

lemma proposal_entries_facts:
  "length (proposal_entries hdr data) = unat (ph_n_vehicles hdr)"
  "length (proposal_entries hdr data) < 2 ^ 32"
  "\<forall>e \<in> set (proposal_entries hdr data). wf_entry e"
  using unat_width_less [of "ph_n_vehicles hdr"]
  by (auto simp: proposal_entries_def wf_dec_entries)

lemma ExecuteData_order:
  assumes "UnwrapRollbackIfPresent d = (True, view)" and "\<not> is_cancel view"
    and "sizeof_propose_hdr + unat (ph_n_vehicles (dec_propose_hdr (pv_data view))) * sizeof_entry
           \<le> length (pv_data view)"
  shows "\<exists>trailer. fst (ExecuteData all_singleton sha has_cb d epochs) =
    order_bytes (BuildIntersectionSchedule all_singleton (dec_propose_hdr (pv_data view))
      (proposal_entries (dec_propose_hdr (pv_data view)) (pv_data view))) @ trailer"
  using assms by (auto simp: ExecuteData_def Let_def not_less)

lemma accepted_decisions:
  assumes "order_submitted parse_batch req d view"
    and "PreVerify expected parse_batch snap clear_fn req st = Some (True, st')"
    and "entries = proposal_entries (dec_propose_hdr (pv_data view)) (pv_data view)"
    and "ds = dec_decisions (length entries) (fst (ExecuteData all_singleton sha has_cb d epochs))"
  shows "length ds = length entries \<and> distinct (map ve_replica_id entries) \<and>
    (\<forall>i < length entries. vd_replica_id (ds ! i) = ve_replica_id (entries ! i)) \<and>
    (\<forall>i < length entries. \<forall>j < length entries.
       i \<noteq> j \<and> vd_batch_index (ds ! i) = vd_batch_index (ds ! j) \<longrightarrow>
       IsSafeToBatch (ve_lane (entries ! i)) (ve_direction (entries ! i))
         (ve_lane (entries ! j)) (ve_direction (entries ! j)) \<and>
       \<not> IsQuietEntry (entries ! i) \<and> \<not> IsQuietEntry (entries ! j))"
proof -
  let ?hdr = "dec_propose_hdr (pv_data view)"
  have "PreVerifyOrder expected snap clear_fn d view req st = Some (True, st')"
    using assms(2) PreVerify_order [OF assms(1)] by simp
  then have mem: "membership_ok expected ?hdr (pv_data view)"
    by (rule PreVerifyOrder_accepted)
  have dist: "distinct (map ve_replica_id entries)"
    using membership_okD(1) [OF mem] by (simp add: assms(3))
  have small: "length entries < 2 ^ 32" and wf: "\<forall>e \<in> set entries. wf_entry e"
    unfolding assms(3) by (fact proposal_entries_facts)+
  obtain trailer where "fst (ExecuteData all_singleton sha has_cb d epochs) =
      order_bytes (BuildIntersectionSchedule all_singleton ?hdr entries) @ trailer"
    using ExecuteData_order membership_okD(3) [OF mem] assms(1) unfolding order_submitted_def assms(3) by blast
  then have "ds = schedule_decisions entries (schedule_batches all_singleton entries)"
    using order_decisions [OF dist wf small] assms(4) by simp
  moreover have "length (schedule_decisions entries (schedule_batches all_singleton entries)) = length entries"
    by simp
  ultimately show ?thesis
    using dist schedule_decisions_correct(1) [OF dist _ small] same_batch_compatible [OF dist small]
    by blast
qed

text \<open>
  C1: what a voter accepts is safe to drive. When pre-verification accepts an ORDER, the
  executor's decision bytes list, in the proposal's order, every vehicle of the proposal,
  and two vehicles with the same batch index have compatible movements and are both certified
  (not quiet): no two conflicting vehicles are ever released together.
\<close>

theorem accepted_order_is_conflict_free:
  assumes "order_submitted parse_batch req d view"
    and "PreVerify expected parse_batch snap clear_fn req st = Some (True, st')"
    and "entries = proposal_entries (dec_propose_hdr (pv_data view)) (pv_data view)"
    and "ds = dec_decisions (length entries) (fst (ExecuteData all_singleton sha has_cb d epochs))"
  shows "length ds = length entries \<and> distinct (map ve_replica_id entries) \<and>
    (\<forall>i < length entries. vd_replica_id (ds ! i) = ve_replica_id (entries ! i)) \<and>
    (\<forall>i < length entries. \<forall>j < length entries.
       i \<noteq> j \<and> vd_batch_index (ds ! i) = vd_batch_index (ds ! j) \<longrightarrow>
       IsSafeToBatch (ve_lane (entries ! i)) (ve_direction (entries ! i))
         (ve_lane (entries ! j)) (ve_direction (entries ! j)) \<and>
       \<not> IsQuietEntry (entries ! i) \<and> \<not> IsQuietEntry (entries ! j))"
  by (rule accepted_decisions [OF assms])

text \<open>A concrete road: four replicas, three certified vehicles, replica 0 leads epoch 0.\<close>

definition demo_cert :: "ResdbVehicleEntry \<Rightarrow> ResdbCertEntry" where
  "demo_cert e = \<lparr>ce_replica_id = ve_replica_id e, ce_lane = ve_lane e,
     ce_position_in_lane = ve_position_in_lane e, ce_direction = ve_direction e,
     ce_is_ambulance = ve_is_ambulance e, ce_physical_lane_index = ve_physical_lane_index e,
     ce_lateral_claim_cm = ve_lateral_claim_cm e\<rparr>"

definition demo_snapshot :: "nat \<Rightarrow> ResdbCertEntry list" where
  "demo_snapshot n = take n (map demo_cert demo_road)"

definition demo_payload :: "u32 \<Rightarrow> bytes \<Rightarrow> bytes" where
  "demo_payload epoch trailer =
     enc_proposal \<lparr>ph_epoch = epoch, ph_leader_id = 0, ph_propose_sim_time_us = 5, ph_n_vehicles = 3\<rparr>
       demo_road trailer"

definition demo_parse :: "bytes \<Rightarrow> bytes list option" where
  "demo_parse b = Some [b]"

definition demo_pre_prepare :: "bytes \<Rightarrow> Request" where
  "demo_pre_prepare payload = \<lparr>rq_type = TYPE_PRE_PREPARE, rq_seq = 1, rq_hash = ''h'', rq_sender_id = 1,
     rq_current_view = 1, rq_data = payload\<rparr>"

definition demo_state :: "int \<Rightarrow> ToleratedFaultState option \<Rightarrow> u32 set \<Rightarrow> BridgeState" where
  "demo_state primary faults recovery = \<lparr>bs_registry = empty_registry, bs_primary = primary, bs_view = 1,
     bs_faults = faults, bs_recovery_epochs = recovery\<rparr>"

definition demo_preverify :: "bytes \<Rightarrow> BridgeState \<Rightarrow> (bool \<times> BridgeState) option" where
  "demo_preverify payload st =
     PreVerify 4 demo_parse (Some demo_snapshot) (Some (\<lambda>_ _. True)) (demo_pre_prepare payload) st"

definition demo_proposal_view :: "u32 \<Rightarrow> bytes \<Rightarrow> ProposalView" where
  "demo_proposal_view epoch trailer = snd (UnwrapRollbackIfPresent (demo_payload epoch trailer))"

lemma demo_submitted:
  "order_submitted demo_parse (demo_pre_prepare (demo_payload 0 [])) (demo_payload 0 []) (demo_proposal_view 0 [])"
proof -
  have "fst (UnwrapRollbackIfPresent (demo_payload 0 [])) \<and> \<not> is_cancel (demo_proposal_view 0 [])"
    by code_simp
  then show ?thesis
    by (cases "UnwrapRollbackIfPresent (demo_payload 0 [])")
      (simp add: order_submitted_def demo_pre_prepare_def demo_parse_def demo_proposal_view_def)
qed

lemma accepted_state:
  assumes "case r of Some (ok, st') \<Rightarrow> ok | None \<Rightarrow> False"
  obtains st' where "r = Some (True, st')"
  using assms by (cases r) auto

lemma demo_accepted:
  "case demo_preverify (demo_payload 0 []) (demo_state 4 None {}) of Some (ok, st') \<Rightarrow> ok | None \<Rightarrow> False"
  by code_simp

lemma demo_view_entries:
  "proposal_entries (dec_propose_hdr (pv_data (demo_proposal_view 0 []))) (pv_data (demo_proposal_view 0 [])) = demo_road"
  by code_simp

lemma demo_decisions:
  "map vd_batch_index (dec_decisions 3 (fst (ExecuteData False id True (demo_payload 0 []) {}))) = [0, 0, 1]"
  by code_simp

theorem accepted_order_is_conflict_free_witness:
  "length (dec_decisions 3 (fst (ExecuteData False id True (demo_payload 0 []) {}))) = 3 \<and>
   IsSafeToBatch (ve_lane (demo_road ! 0)) (ve_direction (demo_road ! 0))
     (ve_lane (demo_road ! 1)) (ve_direction (demo_road ! 1))"
proof -
  let ?ds = "dec_decisions 3 (fst (ExecuteData False id True (demo_payload 0 []) {}))"
  obtain st' where acc: "PreVerify 4 demo_parse (Some demo_snapshot) (Some (\<lambda>_ _. True))
      (demo_pre_prepare (demo_payload 0 [])) (demo_state 4 None {}) = Some (True, st')"
    using accepted_state [OF demo_accepted [unfolded demo_preverify_def]] .
  have len: "length demo_road = 3" by (simp add: demo_road_def)
  have "vd_batch_index (?ds ! 0) = vd_batch_index (?ds ! 1)"
  proof -
    have "map vd_batch_index ?ds ! 0 = map vd_batch_index ?ds ! 1" by (simp add: demo_decisions)
    moreover have "length ?ds = 3" by (simp add: dec_decisions_def)
    ultimately show ?thesis by simp
  qed
  then show ?thesis
    using accepted_order_is_conflict_free [OF demo_submitted acc demo_view_entries [symmetric],
        of ?ds False id True "{}"] len by simp
qed

section \<open>The voter's own certificates\<close>

definition suppressed :: "ResdbVehicleEntry list \<Rightarrow> ResdbCertEntry \<Rightarrow> bool" where
  "suppressed entries ce \<longleftrightarrow>
     (\<exists>e \<in> set entries. ve_replica_id e = ce_replica_id ce \<and>
        (ve_cyber_status e = 0 \<or> ve_sim_time_us e = UINT64_MAX))"

lemma proposal_map_get:
  assumes "distinct (map ve_replica_id entries)"
  shows "proposal_map entries i = Some e \<longleftrightarrow> e \<in> set entries \<and> ve_replica_id e = i"
proof -
  have "distinct (map fst (rev (map (\<lambda>e. (ve_replica_id e, e)) entries)))"
    using assms by (simp add: rev_map [symmetric] comp_def del: rev_map)
  then show ?thesis
    by (auto simp: proposal_map_def map_of_eq_Some_iff)
qed

lemma cert_scan_Some:
  assumes "cert_scan pm certs k = Some m"
  shows "m = k + length (filter (\<lambda>ce. \<exists>pe. pm (ce_replica_id ce) = Some pe \<and>
             (ve_cyber_status pe = 0 \<or> ve_sim_time_us pe = UINT64_MAX)) certs) \<and>
         (\<forall>ce \<in> set certs. \<forall>pe. pm (ce_replica_id ce) = Some pe \<longrightarrow> ve_cyber_status pe \<noteq> 0 \<longrightarrow>
            ve_sim_time_us pe \<noteq> UINT64_MAX \<longrightarrow> state_fields_match pe ce)"
  using assms
proof (induction certs arbitrary: k)
  case (Cons ce ces)
  show ?case
  proof (cases "pm (ce_replica_id ce)")
    case None
    then show ?thesis using Cons.IH [of k] Cons.prems by simp
  next
    case (Some pe)
    then show ?thesis
      using Cons.IH [of k] Cons.IH [of "Suc k"] Cons.prems by (auto split: if_split_asm)
  qed
qed simp

lemma certs_okD:
  assumes "certs_ok expected rollback cert_leader (Some snap) hdr data"
    and "distinct (map ve_replica_id (proposal_entries hdr data))" and "0 < expected"
  defines "entries \<equiv> proposal_entries hdr data" and "certs \<equiv> snap 256"
  shows "\<not> rollback \<Longrightarrow> ph_leader_id hdr \<in> ce_replica_id ` set certs"
    and "e \<in> set entries \<Longrightarrow> ve_is_ambulance e \<noteq> 0 \<Longrightarrow> ve_replica_id e \<in> ce_replica_id ` set certs"
    and "e \<in> set entries \<Longrightarrow> ve_is_ambulance e \<noteq> 0 \<Longrightarrow> ve_cyber_status e \<noteq> 0 \<and> ve_sim_time_us e \<noteq> UINT64_MAX"
    and "e \<in> set entries \<Longrightarrow> ce \<in> set certs \<Longrightarrow> ce_replica_id ce = ve_replica_id e \<Longrightarrow>
           ve_cyber_status e \<noteq> 0 \<Longrightarrow> ve_sim_time_us e \<noteq> UINT64_MAX \<Longrightarrow> state_fields_match e ce"
    and "int (length (filter (suppressed entries) certs)) \<le> (expected - 1) div 3"
proof -
  note pm = proposal_map_get [OF assms(2), folded entries_def]
  obtain m where amb: "\<not> list_ex (\<lambda>e. uncertified_ambulance (set (map ce_replica_id certs))
        (the (proposal_map entries (ve_replica_id e)))) entries"
    and lead: "rollback \<or> ph_leader_id hdr \<in> set (map ce_replica_id certs)"
    and scan: "cert_scan (proposal_map entries) certs 0 = Some m" and m: "int m \<le> (expected - 1) sdiv 3"
    using assms(1) unfolding certs_ok_def option.case Let_def entries_def certs_def
    by (auto split: if_split_asm option.split_asm)
  have self: "proposal_map entries (ve_replica_id e) = Some e" if "e \<in> set entries" for e
    using pm that by blast
  show "\<not> rollback \<Longrightarrow> ph_leader_id hdr \<in> ce_replica_id ` set certs"
    using lead by auto
  show "e \<in> set entries \<Longrightarrow> ve_is_ambulance e \<noteq> 0 \<Longrightarrow> ve_replica_id e \<in> ce_replica_id ` set certs"
    and "e \<in> set entries \<Longrightarrow> ve_is_ambulance e \<noteq> 0 \<Longrightarrow> ve_cyber_status e \<noteq> 0 \<and> ve_sim_time_us e \<noteq> UINT64_MAX"
    using amb self by (auto simp: list_ex_iff uncertified_ambulance_def)
  show "e \<in> set entries \<Longrightarrow> ce \<in> set certs \<Longrightarrow> ce_replica_id ce = ve_replica_id e \<Longrightarrow>
      ve_cyber_status e \<noteq> 0 \<Longrightarrow> ve_sim_time_us e \<noteq> UINT64_MAX \<Longrightarrow> state_fields_match e ce"
    using cert_scan_Some [OF scan] self by simp
  have "(expected - 1) sdiv 3 = (expected - 1) div 3"
    using assms(3) by (cases "expected = 1") (simp_all add: signed_divide_int_def sgn_if)
  moreover have "m = length (filter (suppressed entries) certs)"
  proof -
    have "(\<lambda>ce. \<exists>pe. proposal_map entries (ce_replica_id ce) = Some pe \<and>
        (ve_cyber_status pe = 0 \<or> ve_sim_time_us pe = UINT64_MAX)) = suppressed entries"
      by (rule ext) (auto simp: suppressed_def pm)
    then show ?thesis using cert_scan_Some [OF scan] by simp
  qed
  ultimately show "int (length (filter (suppressed entries) certs)) \<le> (expected - 1) div 3"
    using m by simp
qed

text \<open>
  C19: an accepted ORDER cannot contradict the voter's own certificates: every signed entry
  the voter holds a certificate for carries the certified lane, position, direction,
  ambulance flag, physical lane and lateral claim; at most \<open>(n - 1) div 3\<close> certified vehicles
  are passed off as quiet; every ambulance is certified; and so is the leader of an
  ordinary ORDER.
\<close>

theorem accepted_order_respects_certificates:
  assumes "order_submitted parse_batch req d view"
    and "PreVerify expected parse_batch (Some snap) clear_fn req st = Some (True, st')"
    and "hdr = dec_propose_hdr (pv_data view)" and "entries = proposal_entries hdr (pv_data view)"
    and "certs = snap 256"
  shows "(\<forall>e \<in> set entries. \<forall>ce \<in> set certs. ce_replica_id ce = ve_replica_id e \<and> signed_voter e \<longrightarrow>
            state_fields_match e ce) \<and>
         int (length (filter (suppressed entries) certs)) \<le> (expected - 1) div 3 \<and>
         (\<forall>e \<in> set entries. ve_is_ambulance e \<noteq> 0 \<longrightarrow>
            signed_voter e \<and> ve_replica_id e \<in> ce_replica_id ` set certs) \<and>
         (is_rollback view \<or> ph_leader_id hdr \<in> ce_replica_id ` set certs)"
proof -
  have acc: "PreVerifyOrder expected (Some snap) clear_fn d view req st = Some (True, st')"
    using assms(2) PreVerify_order [OF assms(1)] by simp
  have mem: "membership_ok expected hdr (pv_data view)"
    using PreVerifyOrder_accepted(1) [OF acc] by (simp add: assms(3))
  note c = certs_okD [OF PreVerifyOrder_accepted(4) [OF acc, folded assms(3)] membership_okD(1,5) [OF mem],
      folded assms(4,5)]
  have "ve_cyber_status e = 1" if "e \<in> set entries" "ve_cyber_status e \<noteq> 0" for e
  proof -
    have "\<not> ve_cyber_status e > 1"
      using membership_okD(2) [OF mem] that(1) by (simp add: assms(4) entry_fields_ok_def)
    then have "unat (ve_cyber_status e) \<le> 1" "unat (ve_cyber_status e) \<noteq> 0"
      using that(2) by (simp_all add: not_less word_le_nat_alt unat_eq_0)
    then have "unat (ve_cyber_status e) = unat (1 :: byte)" by simp
    then show ?thesis by (simp only: word_unat_eq_iff)
  qed
  then show ?thesis
    using c by (simp add: signed_voter_def) blast
qed

theorem accepted_order_respects_certificates_witness:
  "state_fields_match (demo_road ! 2) (demo_snapshot 256 ! 2) \<and>
   int (length (filter (suppressed demo_road) (demo_snapshot 256))) \<le> 1"
proof -
  obtain st' where acc: "PreVerify 4 demo_parse (Some demo_snapshot) (Some (\<lambda>_ _. True))
      (demo_pre_prepare (demo_payload 0 [])) (demo_state 4 None {}) = Some (True, st')"
    using accepted_state [OF demo_accepted [unfolded demo_preverify_def]] .
  have "demo_road ! 2 \<in> set demo_road" "demo_snapshot 256 ! 2 \<in> set (demo_snapshot 256)"
    "ce_replica_id (demo_snapshot 256 ! 2) = ve_replica_id (demo_road ! 2)" "signed_voter (demo_road ! 2)"
    by (simp_all add: demo_snapshot_def demo_road_def demo_cert_def demo_entry_def signed_voter_def UINT64_MAX_def)
  then show ?thesis
    using accepted_order_respects_certificates [OF demo_submitted acc refl demo_view_entries [symmetric] refl]
    by simp
qed

section \<open>Crash recovery\<close>

lemma clear_evidence_okD:
  "clear_evidence_ok clear_fn hdr data \<Longrightarrow>
   \<exists>fn k n. clear_fn = Some fn \<and> fn (ph_epoch hdr - 1) (take n (drop k data))"
  by (auto simp: clear_evidence_ok_def Let_def split: if_split_asm option.split_asm)

lemma recovery_order_evidence:
  assumes "UnwrapRollbackIfPresent dc = (True, cview)" and "is_cancel cview" and "ch_reason (pv_cancel cview) = 0"
    and "snd (snd (ExecuteData all_singleton sha has_cb dc epochs)) \<subseteq> bs_recovery_epochs st"
    and "order_submitted parse_batch req d view" and "\<not> is_rollback view"
    and "ph_epoch (dec_propose_hdr (pv_data view)) = ch_cancelled_epoch (pv_cancel cview) + 1"
    and "PreVerify expected parse_batch snap clear_fn req st = Some (True, st')"
  shows "\<exists>fn k n. clear_fn = Some fn \<and>
    fn (ch_cancelled_epoch (pv_cancel cview)) (take n (drop k (pv_data view)))"
proof -
  have acc: "PreVerifyOrder expected snap clear_fn d view req st = Some (True, st')"
    using assms(8) PreVerify_order [OF assms(5)] by simp
  have "ch_cancelled_epoch (pv_cancel cview) + 1 \<in> bs_recovery_epochs st"
    using assms(1-4) by (auto simp: ExecuteData_def cancel_decision_def Let_def)
  then have "requires_clear_evidence (dec_propose_hdr (pv_data view)) st"
    by (simp add: requires_clear_evidence_def assms(7))
  then have "clear_evidence_ok clear_fn (dec_propose_hdr (pv_data view)) (pv_data view)"
    using PreVerifyOrder_accepted(3) [OF acc assms(6)] by blast
  then show ?thesis
    using clear_evidence_okD assms(7) by fastforce
qed

text \<open>
  After a crash cancellation of epoch \<open>e\<close> has been executed, no voter accepts an ordinary
  ORDER of epoch \<open>e + 1\<close> unless the application's validator approved a CLEAR certificate for
  \<open>e\<close> that is part of the proposal's bytes.
\<close>

theorem crash_recovery_needs_clear_evidence:
  assumes "UnwrapRollbackIfPresent dc = (True, cview)" and "is_cancel cview" and "ch_reason (pv_cancel cview) = 0"
    and "snd (snd (ExecuteData all_singleton sha has_cb dc epochs)) \<subseteq> bs_recovery_epochs st"
    and "order_submitted parse_batch req d view" and "\<not> is_rollback view"
    and "ph_epoch (dec_propose_hdr (pv_data view)) = ch_cancelled_epoch (pv_cancel cview) + 1"
    and "PreVerify expected parse_batch snap clear_fn req st = Some (True, st')"
  shows "\<exists>fn k n. clear_fn = Some fn \<and>
    fn (ch_cancelled_epoch (pv_cancel cview)) (take n (drop k (pv_data view)))"
  using assms by (rule recovery_order_evidence)

definition demo_cancel_payload :: bytes where
  "demo_cancel_payload = enc_cancel_proposal
     \<lparr>ch_cancelled_epoch = 0, ch_reason = 0, ch_justification_len = of_nat (length (demo_just 0))\<rparr>
     (demo_just 0) 0 [0, 1, 2, 3]"

definition demo_evidence :: bytes where
  "demo_evidence = enc_evidence_hdr \<lparr>eh_magic = RESDB_ORDER_EVIDENCE_MAGIC, eh_version = 1, eh_n_clear_certs = 1\<rparr> @
     put_u32 3 @ [67, 76, 82]"

definition demo_faults :: "ToleratedFaultState option" where
  "demo_faults = Some \<lparr>tf_enabled = True, tf_tolerated_f = 1, tf_rollback_per_epoch = True\<rparr>"

lemma demo_accepted_recovery:
  "case demo_preverify (demo_payload 1 demo_evidence) (demo_state 4 demo_faults {1}) of
     Some (ok, st') \<Rightarrow> ok | None \<Rightarrow> False"
  by code_simp

lemma demo_rejected_recovery:
  "case demo_preverify (demo_payload 1 []) (demo_state 4 demo_faults {1}) of
     Some (ok, st') \<Rightarrow> \<not> ok | None \<Rightarrow> False"
  by code_simp

lemma demo_cancel_facts:
  "case UnwrapRollbackIfPresent demo_cancel_payload of (ok, v) \<Rightarrow>
     ok \<and> is_cancel v \<and> ch_reason (pv_cancel v) = 0 \<and> ch_cancelled_epoch (pv_cancel v) = 0"
  by code_simp

lemma demo_recovery_view:
  "case UnwrapRollbackIfPresent (demo_payload 1 demo_evidence) of (ok, v) \<Rightarrow>
     ok \<and> \<not> is_cancel v \<and> \<not> is_rollback v \<and> ph_epoch (dec_propose_hdr (pv_data v)) = 1 \<and>
     pv_data v = demo_payload 1 demo_evidence"
  by code_simp

theorem crash_recovery_needs_clear_evidence_witness:
  "\<exists>fn k n. Some (\<lambda>_ _. True) = Some fn \<and> fn (0 :: u32) (take n (drop k (demo_payload 1 demo_evidence)))"
proof -
  obtain cv where cv: "UnwrapRollbackIfPresent demo_cancel_payload = (True, cv)" "is_cancel cv"
    "ch_reason (pv_cancel cv) = 0" "ch_cancelled_epoch (pv_cancel cv) = 0"
    using demo_cancel_facts by auto
  obtain v where v: "UnwrapRollbackIfPresent (demo_payload 1 demo_evidence) = (True, v)" "\<not> is_cancel v"
    "\<not> is_rollback v" "ph_epoch (dec_propose_hdr (pv_data v)) = 1" "pv_data v = demo_payload 1 demo_evidence"
    using demo_recovery_view by auto
  obtain st' where acc: "PreVerify 4 demo_parse (Some demo_snapshot) (Some (\<lambda>_ _. True))
      (demo_pre_prepare (demo_payload 1 demo_evidence)) (demo_state 4 demo_faults {1}) = Some (True, st')"
    using accepted_state [OF demo_accepted_recovery [unfolded demo_preverify_def]] .
  have sub: "order_submitted demo_parse (demo_pre_prepare (demo_payload 1 demo_evidence)) (demo_payload 1 demo_evidence) v"
    using v by (simp add: order_submitted_def demo_pre_prepare_def demo_parse_def)
  have "snd (snd (ExecuteData False id True demo_cancel_payload {})) \<subseteq> bs_recovery_epochs (demo_state 4 demo_faults {1})"
    using cv by (simp add: ExecuteData_def cancel_decision_def Let_def demo_state_def)
  then show ?thesis
    using crash_recovery_needs_clear_evidence [OF cv(1-3) _ sub v(3) _ acc, of False id True "{}"] v(4) cv(4)
    unfolding v(5) by simp
qed

section \<open>The installed view and the primary\<close>

lemma Normalize_candidate:
  assumes "candidate_ok expected v" and "Normalize v = Some w"
  shows "fv_active_omnet_ids w = fv_active_omnet_ids v" and "fv_primary_omnet w = fv_primary_omnet v"
    and "fv_epoch w = fv_epoch v" and "fv_f_override v \<Longrightarrow> fv_f w = fv_f v"
proof -
  have "remdups_adj (sort (fv_active_omnet_ids v)) = fv_active_omnet_ids v"
    using assms by (simp add: candidate_ok_def sort_key_id_if_sorted remdups_adj_distinct)
  then show "fv_active_omnet_ids w = fv_active_omnet_ids v" "fv_primary_omnet w = fv_primary_omnet v"
    "fv_epoch w = fv_epoch v" "fv_f_override v \<Longrightarrow> fv_f w = fv_f v"
    using assms(2) by (auto simp: Normalize_def Let_def split: option.split_asm)
qed

lemma install_request_view:
  assumes "candidate_ok expected v" and "rq_type req = TYPE_PRE_PREPARE"
    and "install_for req v st = Some (True, st')"
  obtains w where "om_get (rv_views (bs_registry st')) (fv_epoch v, rq_seq req, rq_hash req) = Some w"
    and "fv_active_omnet_ids w = fv_active_omnet_ids v" and "fv_primary_omnet w = fv_primary_omnet v"
    and "fv_f_override v \<Longrightarrow> fv_f w = fv_f v" and "view_ok w"
    and "rv_latest (bs_registry st') = Some w" and "bs_primary st' = fv_primary_omnet v + 1"
    and "bs_view st' = bs_view st"
proof -
  obtain reg where reg: "InstallForRequest req v (bs_registry st) = Some (True, reg)"
    and st': "st' = follow_view v (st\<lparr>bs_registry := reg\<rparr>)"
    using assms(2,3) by (auto simp: install_for_def InstallOmnetForcedViewForRequest_def
        split: option.split_asm bool.split_asm)
  obtain v0 where v0: "Normalize v = Some v0"
    using candidate_normalizes [OF assms(1)] by auto
  define w where "w = v0\<lparr>fv_seq := rq_seq req, fv_request_hash := rq_hash req\<rparr>"
  have "reg = (bs_registry st)\<lparr>rv_views := om_put (view_key w) w (rv_views (bs_registry st)),
      rv_pending_by_hash := om_put (fv_request_hash w) w (rv_pending_by_hash (bs_registry st)), rv_latest := Some w\<rparr>"
    using reg v0 by (auto simp: InstallForRequest_def w_def Let_def split: if_split_asm option.split_asm)
  moreover have "0 \<le> fv_primary_omnet v"
    using candidate_primary [OF assms(1)] by simp
  ultimately show thesis
    using Normalize_candidate [OF assms(1) v0] Normalize_ok [OF v0] st'
    by (intro that [of w]) (auto simp: w_def view_key_def om_get_put follow_view_def)
qed

lemma epoch_order_view:
  assumes "BuildEpochOrderViewCandidate state hdr data expected req = Some v" and "0 < ph_epoch hdr"
  shows "fv_active_omnet_ids v = sort (map ve_replica_id (filter signed_voter (proposal_entries hdr data)))"
    and "fv_primary_omnet v = ph_leader_id hdr" and "fv_epoch v = ph_epoch hdr" and "fv_f_override v"
    and "sender_is_leader req (ph_leader_id hdr)"
proof -
  obtain s where s: "configured_faults state = Some s"
    using assms(1) by (cases "configured_faults state") (auto simp: BuildEpochOrderViewCandidate_def Let_def)
  have ne: "ph_epoch hdr \<noteq> 0" using assms(2) by auto
  show "fv_active_omnet_ids v = sort (map ve_replica_id (filter signed_voter (proposal_entries hdr data)))"
    "fv_primary_omnet v = ph_leader_id hdr" "fv_epoch v = ph_epoch hdr" "fv_f_override v"
    "sender_is_leader req (ph_leader_id hdr)"
    using assms(1) unfolding BuildEpochOrderViewCandidate_def Let_def s option.case if_not_P [OF ne] guard_Some
    by (auto simp: view_candidate_def)
qed

text \<open>
  Accepting a PRE_PREPARE of a later epoch rebinds consensus to the certified vehicles
  of that proposal: the request's active view has exactly the signed voters as members and
  a quorum that is Byzantine safe for its fault bound, and the proposal's leader is both the
  local PBFT primary and what the application is told the primary is.
\<close>

theorem accepted_epoch_binds_voters:
  assumes "order_submitted parse_batch req d view" and "\<not> is_rollback view"
    and "rq_type req = TYPE_PRE_PREPARE" and "hdr = dec_propose_hdr (pv_data view)" and "0 < ph_epoch hdr"
    and "PreVerify expected parse_batch snap clear_fn req st = Some (True, st')"
    and "rq_current_view req \<le> bs_view st"
  shows "\<exists>v. om_get (rv_views (bs_registry st')) (ph_epoch hdr, rq_seq req, rq_hash req) = Some v \<and>
    fv_active_omnet_ids v = sort (map ve_replica_id (filter signed_voter (proposal_entries hdr (pv_data view)))) \<and>
    int (length (fv_active_omnet_ids v)) + fv_f v < 2 * fv_quorum v \<and>
    fv_quorum v + fv_f v \<le> int (length (fv_active_omnet_ids v)) \<and>
    ResdbOmnetGetPrimary st' = ph_leader_id hdr \<and> bs_primary st' = ph_leader_id hdr + 1"
proof -
  have acc: "PreVerifyOrder expected snap clear_fn d view req st = Some (True, st')"
    using assms(6) PreVerify_order [OF assms(1)] by simp
  obtain c where c: "BuildEpochOrderViewCandidate (bs_faults st) hdr (pv_data view) expected (Some req) = Some c"
    using PreVerifyOrder_accepted(5) [OF acc assms(2)] assms(4,5) by auto
  obtain st1 where st1: "install_for req c st = Some (True, st1)"
    and st': "st' = st1 \<or> st' = SetPrimary (ph_leader_id hdr + 1) (rq_current_view req) st1"
    using acc assms(2,3) c unfolding PreVerifyOrder_def Let_def accept_if assms(4) [symmetric]
    by (auto simp: install_order_view_def split: option.split_asm bool.split_asm if_split_asm)
  obtain v where v: "om_get (rv_views (bs_registry st1)) (fv_epoch c, rq_seq req, rq_hash req) = Some v"
    "fv_active_omnet_ids v = fv_active_omnet_ids c" "fv_primary_omnet v = fv_primary_omnet c" "view_ok v"
    "rv_latest (bs_registry st1) = Some v" "bs_primary st1 = fv_primary_omnet c + 1" "bs_view st1 = bs_view st"
    using install_request_view [OF BuildEpoch_ok [OF c] assms(3) st1] by metis
  have "st' = st1"
    using st' assms(7) v(7) by (auto simp: SetPrimary_def)
  moreover have "0 < int (length (fv_active_omnet_ids v))"
    using candidate_nonempty [OF BuildEpoch_ok [OF c]] v(2) by simp
  ultimately show ?thesis
    using v epoch_order_view [OF c assms(5)] candidate_primary [OF BuildEpoch_ok [OF c]]
      BftQuorumSize_bounds(1,2) [of "int (length (fv_active_omnet_ids v))" "fv_f v" "fv_quorum v"]
    by (auto simp: view_ok_def ResdbOmnetGetPrimary_def Latest_def)
qed

theorem accepted_epoch_binds_voters_witness:
  "ResdbOmnetGetPrimary (snd (the (demo_preverify (demo_payload 1 demo_evidence) (demo_state 4 demo_faults {1})))) = 0"
proof -
  obtain v where v: "UnwrapRollbackIfPresent (demo_payload 1 demo_evidence) = (True, v)" "\<not> is_cancel v"
    "\<not> is_rollback v" "ph_epoch (dec_propose_hdr (pv_data v)) = 1" "pv_data v = demo_payload 1 demo_evidence"
    using demo_recovery_view by auto
  obtain st' where acc: "PreVerify 4 demo_parse (Some demo_snapshot) (Some (\<lambda>_ _. True))
      (demo_pre_prepare (demo_payload 1 demo_evidence)) (demo_state 4 demo_faults {1}) = Some (True, st')"
    using accepted_state [OF demo_accepted_recovery [unfolded demo_preverify_def]] .
  have sub: "order_submitted demo_parse (demo_pre_prepare (demo_payload 1 demo_evidence)) (demo_payload 1 demo_evidence) v"
    using v by (simp add: order_submitted_def demo_pre_prepare_def demo_parse_def)
  have "ph_leader_id (dec_propose_hdr (pv_data v)) = 0"
    unfolding v(5) by code_simp
  moreover have "ResdbOmnetGetPrimary st' = ph_leader_id (dec_propose_hdr (pv_data v))"
    using accepted_epoch_binds_voters [OF sub v(3) _ refl _ acc] v(4)
    by (auto simp: demo_pre_prepare_def demo_state_def)
  ultimately show ?thesis
    by (simp add: demo_preverify_def acc)
qed

text \<open>
  Without a configured fault bound, the certified hand-off of an ordinary ORDER changes
  nothing when the request carries the current PBFT view: the proposal is accepted, its
  leader may be the certified primary and not the PBFT primary, and the primary stays.
\<close>

theorem cert_primary_handoff_needs_newer_view:
  assumes "order_submitted parse_batch req d view" and "\<not> is_rollback view"
    and "configured_faults (bs_faults st) = None" and "rq_current_view req \<le> bs_view st"
    and "PreVerify expected parse_batch snap clear_fn req st = Some (True, st')"
  shows "st' = st \<and> ph_epoch (dec_propose_hdr (pv_data view)) = 0"
proof -
  have acc: "PreVerifyOrder expected snap clear_fn d view req st = Some (True, st')"
    using assms(5) PreVerify_order [OF assms(1)] by simp
  have none: "BuildEpochOrderViewCandidate (bs_faults st) (dec_propose_hdr (pv_data view)) (pv_data view) expected
      (Some req) = None"
    using assms(3) by (simp add: BuildEpochOrderViewCandidate_def)
  then have "\<not> 0 < ph_epoch (dec_propose_hdr (pv_data view))"
    using PreVerifyOrder_accepted(5) [OF acc assms(2)] by blast
  moreover have "st' = st"
    using acc assms(2,4) none unfolding PreVerifyOrder_def Let_def accept_if
    by (auto simp: install_order_view_def SetPrimary_def split: if_split_asm)
  ultimately show ?thesis by (simp add: word_neq_0_conv [symmetric])
qed

theorem cert_primary_handoff_needs_newer_view_witness:
  "demo_preverify (demo_payload 0 []) (demo_state 4 None {}) = Some (True, demo_state 4 None {}) \<and>
   ResdbOmnetGetPrimary (demo_state 4 None {}) = 3"
proof -
  obtain st' where acc: "PreVerify 4 demo_parse (Some demo_snapshot) (Some (\<lambda>_ _. True))
      (demo_pre_prepare (demo_payload 0 [])) (demo_state 4 None {}) = Some (True, st')"
    using accepted_state [OF demo_accepted [unfolded demo_preverify_def]] .
  have "\<not> is_rollback (demo_proposal_view 0 [])"
    by code_simp
  then have "st' = demo_state 4 None {}"
    using cert_primary_handoff_needs_newer_view [OF demo_submitted _ _ _ acc]
    by (simp add: demo_state_def demo_pre_prepare_def configured_faults_def)
  then show ?thesis
    by (simp add: demo_preverify_def acc)
      (simp add: demo_state_def ResdbOmnetGetPrimary_def Latest_def empty_registry_def ResdbIdToOmnetReplica_def)
qed

theorem preverify_rejects_without_effect_witness:
  "snd (the (demo_preverify (demo_payload 1 []) (demo_state 4 demo_faults {1}))) = demo_state 4 demo_faults {1}"
proof -
  obtain st' where "PreVerify 4 demo_parse (Some demo_snapshot) (Some (\<lambda>_ _. True))
      (demo_pre_prepare (demo_payload 1 [])) (demo_state 4 demo_faults {1}) = Some (False, st')"
    using demo_rejected_recovery unfolding demo_preverify_def
    by (cases "PreVerify 4 demo_parse (Some demo_snapshot) (Some (\<lambda>_ _. True))
      (demo_pre_prepare (demo_payload 1 [])) (demo_state 4 demo_faults {1})") auto
  then show ?thesis
    using preverify_rejects_without_effect unfolding demo_preverify_def by simp
qed

end
