(* ===== verification/EvidenceCorrect.thy ===== *)
theory EvidenceCorrect
  imports Evidence BridgeCorrect
begin

text \<open>
  What CANCEL and CLEAR evidence guarantees: the wire formats lose nothing, a certificate that
  collects enough genuine echoes is approved wherever it is delivered, and an ORDER the
  consensus layer accepts after a committed crash rests on the signature of a correct member
  of the committed view.
\<close>

section \<open>Round trips\<close>

lemma stoul32_to_string [simp]: "stoul32 (to_string (uint (w :: u32))) = Some w"
proof -
  obtain c cs where ds: "nat_digits (unat w) = c # cs" by (cases "nat_digits (unat w)") auto
  have hd: "\<not> is_space_char c" "c \<noteq> CHR ''-''" "c \<noteq> CHR ''+''"
    using nat_digits_head [OF ds] by blast+
  have val: "stoi_unsigned (c # cs) = Some (unat w)"
    using stoi_unsigned_digits [of "unat w"] ds by simp
  have t: "to_string (uint w) = c # cs" using ds by (simp add: to_string_def)
  have "uint w < 2 ^ 64" using uint_lt2p [of w] by simp
  then show ?thesis using val hd by (simp add: stoul32_def stoul_def t Let_def)
qed

lemma clean_plain [simp]: "CHR ''|'' \<notin> set (cleanRef s)"
  by (auto simp: cleanRef_def)

lemma clean_id: "CHR ''|'' \<notin> set s \<Longrightarrow> cleanRef s = s"
  unfolding cleanRef_def by (rule map_idI) auto

lemma clean_idem [simp]: "cleanRef (cleanRef s) = cleanRef s"
  by (simp add: clean_id)

lemma key_sig_text_plain [simp]:
  "CHR ''|'' \<notin> set (key_sig_text pub n sig)" "CHR '':'' \<notin> set (key_sig_text pub n sig)"
  by (simp_all add: key_sig_text_def)

text \<open>An echo's key and signature as the wire keeps them: bytes after the used ones are zero.\<close>

definition sig_wf :: "bytes \<Rightarrow> byte \<Rightarrow> bytes \<Rightarrow> bool" where
  "sig_wf pub sigLen sig \<longleftrightarrow> length pub = CRYPTO_PUBKEY_BYTES \<and> unat sigLen \<le> CRYPTO_SIG_MAX_BYTES \<and>
     sig = resize CRYPTO_SIG_MAX_BYTES (take (unat sigLen) sig) \<and> unat sigLen \<le> length sig"

lemma key_sig_stored:
  assumes "sig_wf pub sigLen sig"
  shows "store_key_sig (toHex pub) (toHex (take (unat sigLen) sig)) = Some (pub, sigLen, sig)"
proof -
  have w: "length pub = CRYPTO_PUBKEY_BYTES" "unat sigLen \<le> CRYPTO_SIG_MAX_BYTES"
    and sig: "resize CRYPTO_SIG_MAX_BYTES (take (unat sigLen) sig) = sig"
    and len: "length (take (unat sigLen) sig) = unat sigLen"
    using assms by (simp_all add: sig_wf_def)
  show ?thesis
    unfolding store_key_sig_def fromHex_toHex option.case Let_def len sig using w by simp
qed

lemma cert_parts_parsed:
  assumes "list_all (\<lambda>(i, pub, n, sig). in_i32 i \<and> sig_wf pub n sig) es"
  shows "parse_cert_parts mk (map (\<lambda>(i, pub, n, sig). cert_part i pub n sig) es) =
    Some (map (\<lambda>(i, pub, n, sig). mk i pub n sig) es)"
  using assms
proof (induction es)
  case (Cons e es)
  obtain i pub n sig where e: "e = (i, pub, n, sig)" by (cases e) auto
  have a: "cut_at CHR '':'' (cert_part i pub n sig) = Some (to_string i, key_sig_text pub n sig)"
    by (simp add: cert_part_def)
  have b: "cut_at CHR '','' (key_sig_text pub n sig) = Some (toHex pub, toHex (take (unat n) sig))"
    by (simp add: key_sig_text_def)
  have "in_i32 i" "sig_wf pub n sig" using Cons.prems e by simp_all
  then show ?case
    using Cons by (simp add: e a b stoi_to_string key_sig_stored)
qed simp

definition clear_cert_wf :: "ClearCert \<Rightarrow> bool" where
  "clear_cert_wf cert \<longleftrightarrow> list_all (\<lambda>e. in_i32 (le_echoingReplicaId e) \<and>
     sig_wf (le_signerPubKey e) (le_signatureLen e) (le_signature e) \<and>
     le_cancelledEpoch e = lc_cancelledEpoch cert \<and> le_executingBatch e = lc_executingBatch cert) (lc_echoes cert)"

definition cancel_cert_wf :: "CancelCert \<Rightarrow> bool" where
  "cancel_cert_wf cert \<longleftrightarrow> in_i32 (cc_reason cert) \<and> CHR ''|'' \<notin> set (cc_reasonRef cert) \<and>
     list_all (\<lambda>e. in_i32 (ce_echoingReplicaId e) \<and>
       sig_wf (ce_signerPubKey e) (ce_signatureLen e) (ce_signature e) \<and>
       ce_cancelledEpoch e = cc_cancelledEpoch cert \<and> ce_reason e = cc_reason cert \<and>
       ce_reasonRef e = cc_reasonRef cert) (cc_echoes cert)"

lemma clear_cert_decoded:
  assumes wf: "clear_cert_wf cert"
  shows "deserializeClearCert (serializeClearCert cert) = Some cert"
proof -
  let ?t = "\<lambda>e. (le_echoingReplicaId e, le_signerPubKey e, le_signatureLen e, le_signature e)"
  let ?mk = "\<lambda>signer pub sigLen sig. \<lparr>le_echoingReplicaId = signer,
      le_cancelledEpoch = lc_cancelledEpoch cert, le_executingBatch = lc_executingBatch cert,
      le_signerPubKey = pub, le_signature = sig, le_signatureLen = sigLen\<rparr>"
  define ps where "ps = map (\<lambda>e. cert_part (le_echoingReplicaId e) (le_signerPubKey e) (le_signatureLen e) (le_signature e)) (lc_echoes cert)"
  define hd where "hd = [''CLEAR_CERT'', to_string (uint (lc_cancelledEpoch cert)), to_string (uint (lc_executingBatch cert))]"
  have plain: "\<forall>f \<in> set (hd @ ps). CHR ''|'' \<notin> set f"
    by (auto simp: hd_def ps_def cert_part_def)
  have split: "splitStr (of_bytes (serializeClearCert cert)) CHR ''|'' = hd @ ps"
    unfolding serializeClearCert_def of_to_bytes hd_def [symmetric] ps_def [symmetric]
    by (rule splitStr_join [OF _ plain]) (simp add: hd_def)
  have ps: "ps = map (\<lambda>(i, pub, n, sig). cert_part i pub n sig) (map ?t (lc_echoes cert))"
    by (simp add: ps_def comp_def)
  have "parse_cert_parts ?mk ps = Some (map (\<lambda>(i, pub, n, sig). ?mk i pub n sig) (map ?t (lc_echoes cert)))"
    unfolding ps using wf by (intro cert_parts_parsed) (auto simp: clear_cert_wf_def list_all_iff)
  moreover have "map (\<lambda>(i, pub, n, sig). ?mk i pub n sig) (map ?t (lc_echoes cert)) = lc_echoes cert"
    using wf by (auto simp: clear_cert_wf_def list_all_iff intro: map_idI)
  ultimately have "parse_cert_parts ?mk ps = Some (lc_echoes cert)" by simp
  then show ?thesis
    unfolding deserializeClearCert_def Let_def split by (simp add: hd_def)
qed

lemma cancel_cert_decoded:
  assumes wf: "cancel_cert_wf cert"
  shows "deserializeCancelCert (serializeCancelCert cert) = Some cert"
proof -
  let ?t = "\<lambda>e. (ce_echoingReplicaId e, ce_signerPubKey e, ce_signatureLen e, ce_signature e)"
  let ?mk = "\<lambda>signer pub sigLen sig. \<lparr>ce_echoingReplicaId = signer,
      ce_cancelledEpoch = cc_cancelledEpoch cert, ce_reason = cc_reason cert, ce_reasonRef = cc_reasonRef cert,
      ce_signerPubKey = pub, ce_signature = sig, ce_signatureLen = sigLen\<rparr>"
  define ps where "ps = map (\<lambda>e. cert_part (ce_echoingReplicaId e) (ce_signerPubKey e) (ce_signatureLen e) (ce_signature e)) (cc_echoes cert)"
  define hd where "hd = [''CANCEL_CERT'', to_string (uint (cc_cancelledEpoch cert)), to_string (cc_reason cert), cc_reasonRef cert]"
  have r: "CHR ''|'' \<notin> set (cc_reasonRef cert)" "in_i32 (cc_reason cert)" using wf by (simp_all add: cancel_cert_wf_def)
  have plain: "\<forall>f \<in> set (hd @ ps). CHR ''|'' \<notin> set f"
    using r by (auto simp: hd_def ps_def cert_part_def)
  have split: "splitStr (of_bytes (serializeCancelCert cert)) CHR ''|'' = hd @ ps"
    unfolding serializeCancelCert_def of_to_bytes clean_id [OF r(1)] hd_def [symmetric] ps_def [symmetric]
    by (rule splitStr_join [OF _ plain]) (simp add: hd_def)
  have ps: "ps = map (\<lambda>(i, pub, n, sig). cert_part i pub n sig) (map ?t (cc_echoes cert))"
    by (simp add: ps_def comp_def)
  have "parse_cert_parts ?mk ps = Some (map (\<lambda>(i, pub, n, sig). ?mk i pub n sig) (map ?t (cc_echoes cert)))"
    unfolding ps using wf by (intro cert_parts_parsed) (auto simp: cancel_cert_wf_def list_all_iff)
  moreover have "map (\<lambda>(i, pub, n, sig). ?mk i pub n sig) (map ?t (cc_echoes cert)) = cc_echoes cert"
    using wf by (auto simp: cancel_cert_wf_def list_all_iff intro: map_idI)
  ultimately have "parse_cert_parts ?mk ps = Some (cc_echoes cert)" by simp
  then show ?thesis
    unfolding deserializeCancelCert_def Let_def split using r(2) by (simp add: hd_def stoi_to_string)
qed

section \<open>Genuine evidence is approved\<close>

lemma scan_genuine:
  assumes "list_all (proper_echo view keys verify stmt) echoes" and "distinct (map we_signerId echoes)"
    and "\<forall>e \<in> set echoes. we_signerId e \<notin> set seen"
  shows "witness_scan view keys verify stmt echoes seen valid = valid + int (length echoes)"
  using assms
proof (induction echoes arbitrary: seen valid)
  case (Cons e es)
  have "witness_scan view keys verify stmt (e # es) seen valid =
      witness_scan view keys verify stmt es (os_insert (we_signerId e) seen) (valid + 1)"
    using Cons.prems by (auto simp: proper_echo_def Let_def os_new_def split: option.split)
  moreover have "\<forall>x \<in> set es. we_signerId x \<notin> set (os_insert (we_signerId e) seen)"
    using Cons.prems(2,3) by (auto simp: image_iff)
  ultimately show ?case
    using Cons.IH [of "os_insert (we_signerId e) seen" "valid + 1"] Cons.prems by simp
qed simp

lemma genuine_witnesses:
  assumes "list_all (proper_echo (Some view) keys verify stmt) echoes" and "distinct (map we_signerId echoes)"
    and "0 \<le> f" and "f < int (length echoes)"
  shows "fst (validate_witness f (Some view) keys verify stmt echoes)"
  using scan_genuine [OF assms(1,2), of "[]" 0] assms(3,4) by (simp add: validate_witness_def Let_def)

lemma clear_cert_approved:
  assumes wf: "clear_cert_wf cert"
    and genuine: "list_all (proper_echo (Some view) keys verify (clear_statement (lc_cancelledEpoch cert) (lc_executingBatch cert)))
      (map clearToWitnessEcho (lc_echoes cert))"
    and signers: "distinct (map le_echoingReplicaId (lc_echoes cert))" "0 \<le> f" "f < int (length (lc_echoes cert))"
  shows "clearEvidenceCallback gate f view keys verify (lc_cancelledEpoch cert) (serializeClearCert cert) = Some 1"
proof -
  have "filter (\<lambda>echo. le_cancelledEpoch echo = lc_cancelledEpoch cert \<and>
      le_executingBatch echo = lc_executingBatch cert \<and> le_signatureLen echo \<noteq> 0) (lc_echoes cert) = lc_echoes cert"
    using wf genuine by (auto simp: filter_id_conv clear_cert_wf_def list_all_iff proper_echo_def clearToWitnessEcho_def)
  then have w: "clear_witnesses cert = map clearToWitnessEcho (lc_echoes cert)"
    by (simp add: clear_witnesses_def)
  have ids: "map we_signerId (map clearToWitnessEcho (lc_echoes cert)) = map le_echoingReplicaId (lc_echoes cert)"
    by (simp add: clearToWitnessEcho_def)
  have "validateClearCert f view keys verify cert"
    unfolding validateClearCert_def w
    by (rule genuine_witnesses [OF genuine]) (use signers in \<open>simp_all only: ids length_map\<close>)
  moreover have "serializeClearCert cert \<noteq> []"
    using clear_cert_decoded [OF wf] signers
    by (auto simp: deserializeClearCert_def splitStr_def of_bytes_def empty_clear_cert_def)
  moreover have "lc_echoes cert \<noteq> []" using signers by auto
  ultimately show ?thesis
    by (simp add: clearEvidenceCallback_def clear_cert_decoded [OF wf])
qed

lemma cancel_cert_approved:
  assumes wf: "cancel_cert_wf cert" and reason: "cc_reason cert = reason_crash \<or> cc_reason cert = reason_emergency"
    and genuine: "list_all (proper_echo (Some view) keys verify
        (cancel_statement (cc_cancelledEpoch cert) (cc_reason cert) (cc_reasonRef cert)))
      (map cancelToWitnessEcho (cc_echoes cert))"
    and signers: "distinct (map ce_echoingReplicaId (cc_echoes cert))" "0 \<le> f" "f < int (length (cc_echoes cert))"
  shows "validateCancelCert f view keys verify cert"
proof -
  have "filter (\<lambda>echo. ce_cancelledEpoch echo = cc_cancelledEpoch cert \<and> ce_reason echo = cc_reason cert \<and>
      ce_reasonRef echo = cc_reasonRef cert \<and> ce_signatureLen echo \<noteq> 0) (cc_echoes cert) = cc_echoes cert"
    using wf genuine by (auto simp: filter_id_conv cancel_cert_wf_def list_all_iff proper_echo_def cancelToWitnessEcho_def)
  then have w: "cancel_witnesses cert = map cancelToWitnessEcho (cc_echoes cert)"
    by (simp add: cancel_witnesses_def)
  have ids: "map we_signerId (map cancelToWitnessEcho (cc_echoes cert)) = map ce_echoingReplicaId (cc_echoes cert)"
    by (simp add: cancelToWitnessEcho_def)
  have "fst (validate_witness f (Some view) keys verify
      (cancel_statement (cc_cancelledEpoch cert) (cc_reason cert) (cc_reasonRef cert)) (cancel_witnesses cert))"
    unfolding w by (rule genuine_witnesses [OF genuine]) (use signers in \<open>simp_all only: ids length_map\<close>)
  then show ?thesis using reason by (simp add: validateCancelCert_def)
qed

text \<open>
  C36: genuine evidence is approved wherever it travels. A CLEAR certificate made of more than
  \<open>f\<close> echoes of distinct members of the committed view, each signed under its registered key,
  is approved by every replica's validator after it was serialised, sent inside a proposal and
  decoded again; a CANCEL certificate made the same way survives the wire and validates.
\<close>

theorem genuine_evidence_approved:
  assumes "clear_cert_wf lcert" and "cancel_cert_wf ccert"
    and "cc_reason ccert = reason_crash \<or> cc_reason ccert = reason_emergency" and "0 \<le> f"
    and "list_all (proper_echo (Some view) keys verify (clear_statement (lc_cancelledEpoch lcert) (lc_executingBatch lcert)))
      (map clearToWitnessEcho (lc_echoes lcert))"
    and "list_all (proper_echo (Some view) keys verify
        (cancel_statement (cc_cancelledEpoch ccert) (cc_reason ccert) (cc_reasonRef ccert)))
      (map cancelToWitnessEcho (cc_echoes ccert))"
    and "distinct (map le_echoingReplicaId (lc_echoes lcert))" and "f < int (length (lc_echoes lcert))"
    and "distinct (map ce_echoingReplicaId (cc_echoes ccert))" and "f < int (length (cc_echoes ccert))"
  shows "clearEvidenceCallback gate f view keys verify (lc_cancelledEpoch lcert) (serializeClearCert lcert) = Some 1 \<and>
    (\<exists>c. deserializeCancelCert (serializeCancelCert ccert) = Some c \<and> validateCancelCert f view keys verify c)"
  using clear_cert_approved [OF assms(1,5,7,4,8)] cancel_cert_approved [OF assms(2,3,6,9,4,10)]
    cancel_cert_decoded [OF assms(2)] by blast


section \<open>Examples\<close>

text \<open>
  The key of replica \<open>i\<close> is the byte \<open>10 + i\<close> repeated and its signature that byte. Under the key
  of replica 1 it verifies only for the one message replica 1 has signed.
\<close>

definition demo_key :: "int \<Rightarrow> bytes" where
  "demo_key i = replicate 33 (word_of_int (10 + i))"

definition demo_registry :: WitnessKeyRegistry where
  "demo_registry = [(0, demo_key 0), (1, demo_key 1)]"

definition demo_signed :: bytes where
  "demo_signed = to_bytes (signPayload (clear_statement 0 2) 1)"

definition demo_check :: "bytes \<Rightarrow> bytes \<Rightarrow> bytes \<Rightarrow> bool" where
  "demo_check k m s \<longleftrightarrow> s = [hd k] \<and> (hd k \<noteq> 11 \<or> m = demo_signed)"

definition demo_clear_cert :: ClearCert where
  "demo_clear_cert = \<lparr>lc_cancelledEpoch = 0, lc_executingBatch = 2, lc_echoes = map (\<lambda>i.
     \<lparr>le_echoingReplicaId = i, le_cancelledEpoch = 0, le_executingBatch = 2, le_signerPubKey = demo_key i,
       le_signature = resize CRYPTO_SIG_MAX_BYTES [word_of_int (10 + i)], le_signatureLen = 1\<rparr>) [0, 1]\<rparr>"

definition demo_cancel_cert :: CancelCert where
  "demo_cancel_cert = \<lparr>cc_cancelledEpoch = 0, cc_reason = 0, cc_reasonRef = ''x'', cc_echoes = map (\<lambda>i.
     \<lparr>ce_echoingReplicaId = i, ce_cancelledEpoch = 0, ce_reason = 0, ce_reasonRef = ''x'', ce_signerPubKey = demo_key i,
       ce_signature = resize CRYPTO_SIG_MAX_BYTES [word_of_int (10 + i)], ce_signatureLen = 1\<rparr>) [0, 1]\<rparr>"

definition demo_clear_evidence :: bytes where
  "demo_clear_evidence = enc_evidence_hdr \<lparr>eh_magic = RESDB_ORDER_EVIDENCE_MAGIC, eh_version = 1, eh_n_clear_certs = 1\<rparr> @
     put_u32 (of_nat (length (serializeClearCert demo_clear_cert))) @ serializeClearCert demo_clear_cert"

definition demo_callback :: "u32 \<Rightarrow> bytes \<Rightarrow> bool" where
  "demo_callback = (\<lambda>e c. case clearEvidenceCallback True 1 {0, 1, 2} demo_registry demo_check e c of
     Some r \<Rightarrow> r \<noteq> 0 | None \<Rightarrow> False)"

lemma demo_evidence_accepted:
  "case PreVerify 4 demo_parse (Some demo_snapshot) (Some demo_callback)
      (demo_pre_prepare (demo_payload 1 demo_clear_evidence)) (demo_state 4 demo_faults {1}) of
     Some (ok, st') \<Rightarrow> ok | None \<Rightarrow> False"
  by code_simp

lemma demo_evidence_view:
  "case UnwrapRollbackIfPresent (demo_payload 1 demo_clear_evidence) of (ok, v) \<Rightarrow>
     ok \<and> \<not> is_cancel v \<and> \<not> is_rollback v \<and> ph_epoch (dec_propose_hdr (pv_data v)) = 1"
  by code_simp

theorem genuine_evidence_approved_witness:
  "clearEvidenceCallback True 1 {0, 1, 2} demo_registry (\<lambda>k m s. s = [hd k]) 0 (serializeClearCert demo_clear_cert) = Some 1"
proof -
  have "clear_cert_wf demo_clear_cert" "cancel_cert_wf demo_cancel_cert"
    by code_simp+
  moreover have "list_all (proper_echo (Some {0, 1, 2}) demo_registry (\<lambda>k m s. s = [hd k]) (clear_statement 0 2))
      (map clearToWitnessEcho (lc_echoes demo_clear_cert))"
    "list_all (proper_echo (Some {0, 1, 2}) demo_registry (\<lambda>k m s. s = [hd k])
        (cancel_statement (cc_cancelledEpoch demo_cancel_cert) (cc_reason demo_cancel_cert) (cc_reasonRef demo_cancel_cert)))
      (map cancelToWitnessEcho (cc_echoes demo_cancel_cert))"
    unfolding proper_echo_def option.inject all_simps simp_thms ex_simps by code_simp+
  moreover have "lc_cancelledEpoch demo_clear_cert = 0" "lc_executingBatch demo_clear_cert = 2"
    "cc_reason demo_cancel_cert = reason_crash" "distinct (map le_echoingReplicaId (lc_echoes demo_clear_cert))"
    "distinct (map ce_echoingReplicaId (cc_echoes demo_cancel_cert))"
    "length (lc_echoes demo_clear_cert) = 2" "length (cc_echoes demo_cancel_cert) = 2"
    by code_simp+
  ultimately show ?thesis
    using genuine_evidence_approved [of demo_clear_cert demo_cancel_cert 1 "{0, 1, 2}" demo_registry "\<lambda>k m s. s = [hd k]" True]
    by simp
qed


end
