(* ===== verification/AppState.thy ===== *)
theory AppState
  imports QueueRanks Evidence Gossip Executor
begin

text \<open>
  The state of one vehicle's application module (\<^verbatim>\<open>v2vbft/app/ResDBIntersectionApp.h\<close>) as far
  as arrival discovery, stopped-distance collection and the radio queue use it, and the
  environment they read: configuration, keys, cryptography, perception and jitter draws.
  Simulation time is an integer number of ticks. A timer is the time it is scheduled for;
  \<open>None\<close> is a timer that is not scheduled. \<open>'d\<close> is the type of \<open>double\<close> values.
\<close>

section \<open>Enumerations and small records\<close>

datatype ConsensusPhase = IDLE | COLLECTING_CERTS | WAITING_FOR_CLEARANCE | PULLING_FORWARD | EXECUTING | DEPARTED

datatype DiscoveryState = DISCOVERY_INACTIVE | COLLECTING | DRAINING_CERTS | COMPLETE

datatype LocalCertState = NOT_ASSEMBLED | QUEUED | AIRED

datatype DiscoveryCloseReason = CLOSE_NONE | STABILIZED | DEADLINE

datatype CancelState = CANCEL_INACTIVE | CANCEL_WITNESSING | CANCEL_DRAINING | CANCEL_CONSENSUS | CANCEL_COMMITTED

datatype ByzantineType = BYZANTINE_HONEST | BYZANTINE_FALSE_LANE | BYZANTINE_INVALID_SIG |
  BYZANTINE_EQUIVOCATOR | BYZANTINE_SILENT_PRIMARY | BYZANTINE_BAD_PROPOSAL | BYZANTINE_FAKE_AMBULANCE |
  BYZANTINE_FAKE_AMBULANCE_FOLLOWER | BYZANTINE_TAMPER_LANE | BYZANTINE_UPGRADE_UNKNOWN_DIRECTION |
  BYZANTINE_TAMPER_DISTANCE_RANK | BYZANTINE_TAMPER_PHYSICAL_LANE | BYZANTINE_SUPPRESS_CERTS

datatype Phase2AttackKind = PHASE2_NONE | WRONG_APPROACH | FALSE_PHYSICAL_LANE | FALSE_DIRECTION | FALSE_DISTANCE

record DiscoveryRound =
  dr_state :: DiscoveryState
  dr_epoch :: u32
  dr_lastNewIntentAt :: int
  dr_collectionStartedAt :: int
  dr_localCert :: LocalCertState
  dr_localDistanceCert :: LocalCertState
  dr_closeReason :: DiscoveryCloseReason

text \<open>\<open>DiscoveryRound::reset\<close> and the two pairs of queries.\<close>

definition round_reset :: "u32 \<Rightarrow> int \<Rightarrow> DiscoveryRound" where
  "round_reset newEpoch now = \<lparr>dr_state = COLLECTING, dr_epoch = newEpoch, dr_lastNewIntentAt = now,
     dr_collectionStartedAt = 0, dr_localCert = NOT_ASSEMBLED, dr_localDistanceCert = NOT_ASSEMBLED,
     dr_closeReason = CLOSE_NONE\<rparr>"

definition localCertAssembled :: "DiscoveryRound \<Rightarrow> bool" where
  "localCertAssembled r \<longleftrightarrow> dr_localCert r \<noteq> NOT_ASSEMBLED"

definition localCertAired :: "DiscoveryRound \<Rightarrow> bool" where
  "localCertAired r \<longleftrightarrow> dr_localCert r = AIRED"

definition localDistanceCertAssembled :: "DiscoveryRound \<Rightarrow> bool" where
  "localDistanceCertAssembled r \<longleftrightarrow> dr_localDistanceCert r \<noteq> NOT_ASSEMBLED"

definition localDistanceCertAired :: "DiscoveryRound \<Rightarrow> bool" where
  "localDistanceCertAired r \<longleftrightarrow> dr_localDistanceCert r = AIRED"

record VehicleState =
  vs_vehicleId :: string
  vs_lane :: string
  vs_positionInLane :: int
  vs_physicalLaneIndex :: int
  vs_lateralClaimCm :: int
  vs_direction :: Direction
  vs_isAmbulance :: bool
  vs_arrival_time_us :: u64

record PendingDiscoveryTx =
  tx_toReplicaId :: int
  tx_msgType :: int
  tx_payload :: bytes
  tx_fireTime :: int
  tx_epoch :: u32
  tx_localCert :: bool
  tx_witnessTraffic :: bool

record PendingRelay =
  pr_carId :: string
  pr_epoch :: u32
  pr_serializedAnnounce :: bytes
  pr_firstRelayedAt :: int
  pr_relayCount :: int

text \<open>
  A perception sample without the continuous coordinates, which are only logged; a stopped
  distance is kept in centimetres as the code rounds it.
\<close>

record ArrivalPerceptionSample =
  ps_detected :: bool
  ps_trueApproach :: char
  ps_observedApproach :: char
  ps_trueCue :: ObservedCue
  ps_observedCue :: ObservedCue
  ps_observedAt :: int
  ps_knownCueSamples :: int
  ps_lateralCoordinateValid :: bool
  ps_trueLateralCm :: int
  ps_observedLateralCm :: int

definition empty_sample :: ArrivalPerceptionSample where
  "empty_sample = \<lparr>ps_detected = False, ps_trueApproach = CHR ''?'', ps_observedApproach = CHR ''?'',
     ps_trueCue = CUE_UNKNOWN, ps_observedCue = CUE_UNKNOWN, ps_observedAt = 0, ps_knownCueSamples = 0,
     ps_lateralCoordinateValid = False, ps_trueLateralCm = 0, ps_observedLateralCm = 0\<rparr>"

record StoppedDistancePerceptionSample =
  ss_detected :: bool
  ss_stationary :: bool
  ss_distanceValid :: bool
  ss_observedCm :: int

definition empty_stopped_sample :: StoppedDistancePerceptionSample where
  "empty_stopped_sample = \<lparr>ss_detected = False, ss_stationary = False, ss_distanceValid = False, ss_observedCm = 0\<rparr>"

definition kArrivalAnnounceGossipType :: int where "kArrivalAnnounceGossipType = 10"
definition kResdbConsensusRelayType :: int where "kResdbConsensusRelayType = 11"
definition kCancelEchoType :: int where "kCancelEchoType = 12"
definition kCancelCertType :: int where "kCancelCertType = 13"
definition kCancelCommitGossipType :: int where "kCancelCommitGossipType = 14"
definition kClearEchoType :: int where "kClearEchoType = 15"
definition kClearCertType :: int where "kClearCertType = 16"
definition kWaitHeartbeatType :: int where "kWaitHeartbeatType = 17"
definition kStoppedDistanceAttestationType :: int where "kStoppedDistanceAttestationType = 18"
definition kStoppedDistanceEchoType :: int where "kStoppedDistanceEchoType = 19"
definition kStoppedDistanceCertType :: int where "kStoppedDistanceCertType = 20"

lemmas msg_types = kArrivalAnnounceType_def kArrivalEchoType_def kArrivalCertType_def
  kArrivalAnnounceGossipType_def kResdbConsensusRelayType_def kCancelEchoType_def kCancelCertType_def
  kCancelCommitGossipType_def kClearEchoType_def kClearCertType_def kWaitHeartbeatType_def
  kStoppedDistanceAttestationType_def kStoppedDistanceEchoType_def kStoppedDistanceCertType_def

text \<open>
  Consensus packets: what the bridge reports about one (\<open>ResdbPacketRequestInfo\<close>, the fields the
  application reads), the own packets kept for retransmission, keyed by view, sequence number
  and request digest and then by phase, and the packets waiting to be relayed for others.
\<close>

record ResdbPacketRequestInfo =
  pi_parse_ok :: bool
  pi_type :: int
  pi_current_view :: u64
  pi_seq :: u64
  pi_sender_id :: int
  pi_request_hash :: bytes

type_synonym ConsensusRetryKey = "u64 \<times> u64 \<times> bytes"

record ConsensusRetryPacket =
  rp_resdbBytes :: bytes
  rp_type :: int
  rp_attempts :: int

record PendingConsensusRelay =
  pc_raw :: bytes
  pc_info :: ResdbPacketRequestInfo
  pc_fireTime :: int
  pc_relayEpoch :: u32
  pc_rank :: int

definition kResdbConsensusMsgType :: int where "kResdbConsensusMsgType = 8"

section \<open>The environment\<close>

record 'd AppEnv =
  ev_cfg :: AppConfig
  ev_keys :: WitnessKeyRegistry
  ev_verify :: "bytes \<Rightarrow> bytes \<Rightarrow> bytes \<Rightarrow> bool"
  ev_verifyCert :: "bytes \<Rightarrow> string"
  ev_has_key :: bool
  ev_pub_key :: bytes
  ev_sign :: "bytes \<Rightarrow> bytes option"
  ev_hash :: "bytes \<Rightarrow> bytes"
  ev_print_d :: "'d \<Rightarrow> string"
  ev_read_d :: "string \<Rightarrow> 'd option"
  ev_zero_d :: 'd
  ev_arrival_us :: "'d \<Rightarrow> u64"
  ev_observeArrival :: "string \<Rightarrow> int \<Rightarrow> ArrivalPerceptionSample"
  ev_observeStoppedDistance :: "string \<Rightarrow> int \<Rightarrow> StoppedDistancePerceptionSample"
  ev_lateral_tolerance_cm :: int
  ev_longitudinal_tolerance_cm :: int
  ev_is_byzantine :: bool
  ev_byzantine_type :: ByzantineType
  ev_cert_relay_silent :: bool
  ev_false_lane_colluder_ids :: "int list"
  ev_phase2_attack_kind :: Phase2AttackKind
  ev_phase2_attack_target :: int
  ev_phase2_evidence_colluder_ids :: "int list"
  ev_enableAmbulanceCertGate :: bool
  ev_enableRollback :: bool
  ev_gossip_enabled :: bool
  ev_enable_cert_retries :: bool
  ev_cert_retry_interval :: int
  ev_cert_retry_max :: int
  ev_half_second :: int
  ev_cert_collection_timeout :: int
  ev_discovery_intent_settle :: int
  ev_announcement_interval :: int
  ev_collection_window :: int
  ev_attestation_retry_interval :: int
  ev_attestation_retry_max :: int
  ev_viewAgreementSlot :: int
  ev_arrivalSlot :: int
  ev_broadcastSlot :: int
  ev_view_jitter :: "nat \<Rightarrow> int"
  ev_broadcast_jitter :: "nat \<Rightarrow> int"
  ev_inOrPastConflictBox :: "int \<Rightarrow> bool"
  ev_distanceToIntersection :: "int \<Rightarrow> rat"
  ev_speed :: "int \<Rightarrow> rat"
  ev_braking_decel :: rat
  ev_processing_margin :: rat
  ev_hasCleared :: "int \<Rightarrow> string \<Rightarrow> bool"
  ev_retry_base :: rat
  ev_retry_factor :: rat
  ev_retry_cap :: rat
  ev_gossip_retry_base :: rat
  ev_gossip_retry_cap :: rat
  ev_cancel_cert_retry_max :: int
  ev_jitter_max :: int
  ev_gossip_max_retries :: int
  ev_gossip_initial_interval :: int
  ev_hasCompleted :: "int \<Rightarrow> u32 \<Rightarrow> bool"
  ev_anyInBox :: "int \<Rightarrow> bool"
  ev_inBox :: "int \<Rightarrow> string \<Rightarrow> bool"
  ev_halted :: "int \<Rightarrow> string \<Rightarrow> bool"
  ev_crash_dwell :: int
  ev_clearance_timeout :: int
  ev_clear_candidate_slot :: int
  ev_rollback_vc_timeout :: int
  ev_pbft_vc_timeout :: int
  ev_poll_period :: int
  ev_enable_cancel_leader_failover :: bool
  ev_suppress_initial_cancel_leader :: bool
  ev_clear_evidence_gate :: bool
  ev_rollback_per_epoch :: bool
  ev_ticks :: "rat \<Rightarrow> int"
  ev_ticks_per_us :: int
  ev_wait_interval :: int
  ev_wait_max_deferral :: int
  ev_wait_clock_skew :: int
  ev_clear_dwell :: int
  ev_server_replicas :: int
  ev_inject_fabricated_clearance :: bool
  ev_own_laneId :: "int \<Rightarrow> string"
  ev_intended_lane :: string
  ev_intended_direction :: string
  ev_lane_queue :: "int \<Rightarrow> string list"
  ev_own_lateral_cm :: "int \<Rightarrow> int"
  ev_phase2_lateral_offset_cm :: int
  ev_phase2_distance_offset :: rat
  ev_own_distance :: "int \<Rightarrow> rat option"
  ev_is_ambulance :: bool
  ev_has_ambulance_key :: bool
  ev_ambulance_cert :: bytes
  ev_ambulance_sign :: "bytes \<Rightarrow> bytes option"
  ev_vehicle_cert_size :: nat
  ev_cert_public_key :: "bytes \<Rightarrow> bytes"
  ev_sim_seconds :: "int \<Rightarrow> 'd"
  ev_packet_info :: "bytes \<Rightarrow> ResdbPacketRequestInfo"
  ev_vote_progress :: "int \<Rightarrow> bytes \<Rightarrow> int \<Rightarrow> int \<times> int \<times> int"
  ev_consensus_retry_interval :: int
  ev_consensus_retry_max :: int
  ev_relay_carrier_cap :: int
  ev_relay_base_delay :: int
  ev_relay_slot :: int
  ev_stop_distance :: rat
  ev_stop_sign_timeout :: int
  ev_consensus_timeout :: int

section \<open>The state of the module\<close>

record OrderCandidate =
  oc_epoch :: u32
  oc_recovery :: bool
  oc_cancelledEpoch :: u32
  oc_rollbackReason :: CancelReason
  oc_initialPrimary :: int
  oc_certs :: "(string, ArrivalCert) omap"
  oc_distanceCerts :: "(string, StoppedDistanceCert) omap"
  oc_vehicleStates :: "(string, VehicleState) omap"
  oc_observedIntents :: "string list"
  oc_cancelJustification :: bytes
  oc_clearCerts :: "bytes list"
  oc_voterIds :: "int list"

text \<open>
  Calls that leave the module, in the order they were made: a frame handed to the radio
  (receiver, message type, payload, air time), vehicle control, the consensus server, and the
  evaluation of ORDER readiness, which every caller here makes as its last action. \<open>Call_raise\<close> is
  the exception of the simulation kernel for scheduling a timer that is already scheduled.
\<close>

datatype Call =
  Call_evaluateOrderReadiness
| Call_airTx int int bytes int
| Call_stopVehicle
| Call_resumeVehicle int
| Call_triggerConsensus bytes
| Call_advanceExecutor u32
| Call_applyOrder bytes
| Call_deliverPacket int bytes
| Call_setPbftSilent
| Call_markReplicaInactive u32
| Call_forceViewChange
| Call_raise

record CommittedCancelInfo =
  ci_cancel_seq :: u64
  ci_payload_digest :: bytes
  ci_attestation_bytes :: bytes
  ci_gossip_adopted :: bool

datatype IncidentState = BLOCKING | CLEARED

record IncidentRecord =
  ir_state :: IncidentState
  ir_blockedCertBytes :: bytes
  ir_clearCertBytes :: bytes

text \<open>The members of the CANCEL protocol; incidents are keyed by epoch and batch.\<close>

record CancelCtx =
  cx_state :: CancelState
  cx_consensus_pending :: bool
  cx_propose_submitted :: bool
  cx_active_batch :: int
  cx_primary :: int
  cx_leader_candidates :: "int list"
  cx_leader_attack_logged :: bool
  cx_cert_bytes :: bytes
  cx_pending :: bool
  cx_cancel_initiated :: bool
  cx_cancelled_epoch :: u32
  cx_new_epoch :: u32
  cx_reason :: CancelReason
  cx_reason_ref :: string
  cx_justification :: bytes
  cx_local_recallable :: bool
  cx_expected_membership_size :: int
  cx_rotation_index :: int
  cx_committed_cancels :: "(u32, CommittedCancelInfo) omap"
  cx_tombstoned_epochs :: "u32 list"
  cx_gossip_acc :: GossipAccumulator
  cx_gossip_retry_count :: int
  cx_gossip_epoch :: u32
  cx_gossip_bytes :: bytes
  cx_echo_collector :: WitnessEchoCollector
  cx_incidents :: "(u32 \<times> u32, IncidentRecord) omap"
  cx_echo_sent :: "string list"
  cx_cert_seen :: "string list"
  cx_cert_relayed :: "string list"
  cx_cert_carriers :: "(string, int list) omap"
  cx_cert_pending_retries :: CancelCert
  cx_cert_retry_count :: int
  cx_cert_retry_timer :: "int option"
  cx_drain_timer :: "int option"
  cx_vc_timer :: "int option"
  cx_gossip_timer :: "int option"
  cx_fabricated_logged :: bool
  cx_fabricated_active :: bool
  cx_crash_dwell_since :: "(string, int) omap"
  cx_crash_echoed_targets :: "string list"

text \<open>The members of the CLEAR protocol.\<close>

record ClearCtx =
  lx_echo_collector :: WitnessEchoCollector
  lx_echo_sent :: "string list"
  lx_cert_seen :: "string list"
  lx_cert_relayed :: "string list"
  lx_candidate_keys :: "string list"
  lx_tracker :: AuthenticatedPropagationTracker
  lx_candidate :: ClearCert
  lx_candidate_key :: string
  lx_candidate_rank :: int
  lx_candidate_timer :: "int option"
  lx_pending_relay :: ClearCert
  lx_pending_relay_key :: string
  lx_relay_timer :: "int option"
  lx_pending_retries :: ClearCert
  lx_retry_count :: int
  lx_retry_timer :: "int option"
  lx_dwell_since :: "(u32 \<times> u32, int) omap"
  lx_echoed_incidents :: "(u32 \<times> u32) list"

text \<open>The WAIT heartbeat: the leader's counter and the last heartbeat a follower accepted.\<close>

record WaitHeartbeatState =
  wf_active :: bool
  wf_cancelledEpoch :: u32
  wf_executingBatch :: u32
  wf_leaderId :: int
  wf_lastHeartbeatIndex :: u32
  wf_validUntil :: int

record WaitCtx =
  wx_leader_heartbeat_index :: u32
  wx_leader_active :: bool
  wx_follower :: WaitHeartbeatState
  wx_send_timer :: "int option"
  wx_expiry_timer :: "int option"

text \<open>Post-consensus gossip and the committed order.\<close>

record GossipCtx =
  gx_acc :: GossipAccumulator
  gx_timer :: "int option"
  gx_retry_count :: int
  gx_epoch :: u32
  gx_order_bytes :: bytes
  gx_has_committed_order :: bool
  gx_last_committed_epoch :: u32
  gx_committed_order_bytes :: bytes
  gx_committed_vehicle_ids :: "int list"
  gx_committed_batches :: "int list list"
  gx_pending_orders :: "bytes list"
  gx_my_batch_index :: int
  gx_preceding_batch_cars :: "int list"
  gx_poll_timer :: "int option"
  gx_resume_timer :: "int option"
  gx_resume_position :: int
  gx_clearance_started :: int
  gx_stop_sign_timer :: "int option"
  gx_consensus_timer :: "int option"

text \<open>The consensus traffic of the vehicle: packets to send, to retransmit and to relay.\<close>

record RelayCtx =
  rl_outbound :: "(int \<times> bytes) list"
  rl_instances :: "(ConsensusRetryKey, (int, ConsensusRetryPacket) omap) omap"
  rl_retry_timer :: "int option"
  rl_seen :: "string list"
  rl_carriers :: "(string, int list) omap"
  rl_pending :: "(string, PendingConsensusRelay) omap"
  rl_timer :: "int option"

record 'd AppState =
  ap_now :: int
  ap_current_phase :: ConsensusPhase
  ap_is_departed :: bool
  ap_entered_stop_zone :: bool
  ap_propose_submitted :: bool
  ap_order_applied :: bool
  ap_crashCommsDisabled :: bool
  ap_current_epoch :: u32
  ap_cx :: CancelCtx
  ap_lx :: ClearCtx
  ap_gx :: GossipCtx
  ap_wx :: WaitCtx
  ap_rx :: RelayCtx
  ap_last_known_primary :: int
  ap_server :: BridgeState
  ap_discovery :: DiscoveryRound
  ap_stopped_distance_collection_active :: bool
  ap_collected_certs :: "(string, ArrivalCert) omap"
  ap_collected_distance_certs :: "(string, StoppedDistanceCert) omap"
  ap_local_vehicle_states :: "(string, VehicleState) omap"
  ap_local_claim_hashes :: "(string, bytes) omap"
  ap_my_received_echoes :: "(string, ArrivalEcho list) omap"
  ap_my_received_distance_echoes :: "StoppedDistanceEcho list"
  ap_stopped_distance_samples :: "(string, StoppedDistancePerceptionSample) omap"
  ap_pending_distance_attestations :: "(string, StoppedDistanceAttestation) omap"
  ap_local_distance_attestation :: StoppedDistanceAttestation
  ap_stopped_distance_attestation_sent :: bool
  ap_stopped_distance_cert_broadcast :: bool
  ap_attestation_retry_count :: int
  ap_arrival_perception_samples :: "(string, ArrivalPerceptionSample) omap"
  ap_cached_arrival_echoes :: "(string, ArrivalEcho) omap"
  ap_cached_arrival_rejections :: "string list"
  ap_first_arrival_claim_hashes :: "(string, bytes) omap"
  ap_claim_variants :: "(string, (string, 'd ArrivalAnnouncement) omap) omap"
  ap_cached_local_announcements :: "(string, 'd ArrivalAnnouncement) omap"
  ap_observed_intent_cars :: "string list"
  ap_arrival_announcements_received :: "string list"
  ap_echoed_cars :: "string list"
  ap_uncertified_ambulance_claimers :: "string list"
  ap_cert_gate_rejected :: "string list"
  ap_cert_broadcast :: bool
  ap_cert_pending_retries :: ArrivalCert
  ap_cert_retry_count :: int
  ap_threshold_reached_at :: int
  ap_cert_gossip_deadline :: int
  ap_cert_relay_tracker :: CertRelayTracker
  ap_announcement_relay_tracker :: AnnouncementRelayTracker
  ap_pending_relays :: "(u32 \<times> string, PendingRelay) omap"
  ap_order_candidate :: "OrderCandidate option"
  ap_order_vc_requested :: bool
  ap_order_vc_authoritative :: bool
  ap_deadline_timer :: "int option"
  ap_settle_timer :: "int option"
  ap_announce_timer :: "int option"
  ap_finalize_timer :: "int option"
  ap_distance_finalize_timer :: "int option"
  ap_attestation_retry_timer :: "int option"
  ap_cert_retry_timer :: "int option"
  ap_cert_gossip_timer :: "int option"
  ap_vc_trigger :: "int option"
  ap_flush_timer :: "int option"
  ap_pending_txs :: "PendingDiscoveryTx list"
  ap_sequenceNumber :: u32
  ap_sentMessages :: u32
  ap_draws :: nat
  ap_calls :: "Call list"

section \<open>Initial values\<close>

text \<open>The default member initialisers.\<close>

definition initial_discovery :: DiscoveryRound where
  "initial_discovery = \<lparr>dr_state = DISCOVERY_INACTIVE, dr_epoch = 0, dr_lastNewIntentAt = - 1,
     dr_collectionStartedAt = 0, dr_localCert = NOT_ASSEMBLED, dr_localDistanceCert = NOT_ASSEMBLED,
     dr_closeReason = CLOSE_NONE\<rparr>"

definition initial_cancel :: CancelCtx where
  "initial_cancel = \<lparr>cx_state = CANCEL_INACTIVE, cx_consensus_pending = False, cx_propose_submitted = False,
     cx_active_batch = - 1, cx_primary = - 1, cx_leader_candidates = [], cx_leader_attack_logged = False,
     cx_cert_bytes = [], cx_pending = False, cx_cancel_initiated = False, cx_cancelled_epoch = 0,
     cx_new_epoch = 0, cx_reason = reason_crash, cx_reason_ref = [], cx_justification = [],
     cx_local_recallable = False, cx_expected_membership_size = 0, cx_rotation_index = 0,
     cx_committed_cancels = [], cx_tombstoned_epochs = [], cx_gossip_acc = [], cx_gossip_retry_count = 0,
     cx_gossip_epoch = 0, cx_gossip_bytes = [], cx_echo_collector = empty_collector, cx_incidents = [],
     cx_echo_sent = [], cx_cert_seen = [], cx_cert_relayed = [], cx_cert_carriers = [],
     cx_cert_pending_retries = empty_cancel_cert, cx_cert_retry_count = 0, cx_cert_retry_timer = None,
     cx_drain_timer = None, cx_vc_timer = None, cx_gossip_timer = None, cx_fabricated_logged = False,
     cx_fabricated_active = False, cx_crash_dwell_since = [], cx_crash_echoed_targets = []\<rparr>"

definition initial_clear :: ClearCtx where
  "initial_clear = \<lparr>lx_echo_collector = empty_collector, lx_echo_sent = [], lx_cert_seen = [],
     lx_cert_relayed = [], lx_candidate_keys = [], lx_tracker = [], lx_candidate = empty_clear_cert,
     lx_candidate_key = [], lx_candidate_rank = - 1, lx_candidate_timer = None,
     lx_pending_relay = empty_clear_cert, lx_pending_relay_key = [], lx_relay_timer = None,
     lx_pending_retries = empty_clear_cert, lx_retry_count = 0, lx_retry_timer = None,
     lx_dwell_since = [], lx_echoed_incidents = []\<rparr>"

definition initial_wait_follower :: WaitHeartbeatState where
  "initial_wait_follower = \<lparr>wf_active = False, wf_cancelledEpoch = 0, wf_executingBatch = 0,
     wf_leaderId = - 1, wf_lastHeartbeatIndex = 0, wf_validUntil = 0\<rparr>"

definition initial_wait :: WaitCtx where
  "initial_wait = \<lparr>wx_leader_heartbeat_index = 0, wx_leader_active = False,
     wx_follower = initial_wait_follower, wx_send_timer = None, wx_expiry_timer = None\<rparr>"

definition initial_gossip :: GossipCtx where
  "initial_gossip = \<lparr>gx_acc = [], gx_timer = None, gx_retry_count = 0, gx_epoch = 0, gx_order_bytes = [],
     gx_has_committed_order = False, gx_last_committed_epoch = 0, gx_committed_order_bytes = [],
     gx_committed_vehicle_ids = [], gx_committed_batches = [], gx_pending_orders = [],
     gx_my_batch_index = - 1, gx_preceding_batch_cars = [], gx_poll_timer = None, gx_resume_timer = None,
     gx_resume_position = 0, gx_clearance_started = - 1, gx_stop_sign_timer = None, gx_consensus_timer = None\<rparr>"

definition initial_relay :: RelayCtx where
  "initial_relay = \<lparr>rl_outbound = [], rl_instances = [], rl_retry_timer = None, rl_seen = [],
     rl_carriers = [], rl_pending = [], rl_timer = None\<rparr>"

definition initial_app :: "BridgeState \<Rightarrow> 'd AppState" where
  "initial_app server = \<lparr>ap_now = 0, ap_current_phase = IDLE, ap_is_departed = False, ap_entered_stop_zone = False,
     ap_propose_submitted = False, ap_order_applied = False, ap_crashCommsDisabled = False,
     ap_current_epoch = 0, ap_cx = initial_cancel, ap_lx = initial_clear, ap_gx = initial_gossip,
     ap_wx = initial_wait, ap_rx = initial_relay, ap_last_known_primary = 0, ap_server = server, ap_discovery = initial_discovery,
     ap_stopped_distance_collection_active = False, ap_collected_certs = [], ap_collected_distance_certs = [],
     ap_local_vehicle_states = [], ap_local_claim_hashes = [], ap_my_received_echoes = [],
     ap_my_received_distance_echoes = [], ap_stopped_distance_samples = [],
     ap_pending_distance_attestations = [], ap_local_distance_attestation = empty_attestation,
     ap_stopped_distance_attestation_sent = False, ap_stopped_distance_cert_broadcast = False,
     ap_attestation_retry_count = 0, ap_arrival_perception_samples = [], ap_cached_arrival_echoes = [],
     ap_cached_arrival_rejections = [], ap_first_arrival_claim_hashes = [], ap_claim_variants = [],
     ap_cached_local_announcements = [], ap_observed_intent_cars = [],
     ap_arrival_announcements_received = [], ap_echoed_cars = [], ap_uncertified_ambulance_claimers = [],
     ap_cert_gate_rejected = [], ap_cert_broadcast = False, ap_cert_pending_retries = empty_cert,
     ap_cert_retry_count = 0, ap_threshold_reached_at = - 1, ap_cert_gossip_deadline = - 1,
     ap_cert_relay_tracker = [], ap_announcement_relay_tracker = [], ap_pending_relays = [],
     ap_order_candidate = None, ap_order_vc_requested = False, ap_order_vc_authoritative = False,
     ap_deadline_timer = None, ap_settle_timer = None, ap_announce_timer = None, ap_finalize_timer = None,
     ap_distance_finalize_timer = None, ap_attestation_retry_timer = None, ap_cert_retry_timer = None,
     ap_cert_gossip_timer = None, ap_vc_trigger = None, ap_flush_timer = None, ap_pending_txs = [],
     ap_sequenceNumber = 0, ap_sentMessages = 0, ap_draws = 0, ap_calls = []\<rparr>"

section \<open>A sample environment\<close>

text \<open>
  Four replicas, one fault. The key of replica \<open>r\<close> is the byte \<open>10 + r\<close> repeated, its signature
  the byte itself, which verifies under that key for every message. Times are in ticks of
  a millisecond. Only examples use it.
\<close>

definition sample_key :: "int \<Rightarrow> bytes" where
  "sample_key r = replicate 33 (word_of_int (10 + r))"

definition sample_config :: "int \<Rightarrow> AppConfig" where
  "sample_config r = \<lparr>cf_replicaId = r, cf_total_vehicles = 4, cf_tolerated_faults = 1,
     cf_lane_observation_mode = CATEGORICAL_CARDINAL, cf_direction_eligibility_enabled = True,
     cf_adjacent_lateral_enabled = False, cf_adjacent_lane_separation_m = 0\<rparr>"

text \<open>A packet is its type, sequence number and sender, one byte each.\<close>

definition sample_packet_info :: "bytes \<Rightarrow> ResdbPacketRequestInfo" where
  "sample_packet_info b = \<lparr>pi_parse_ok = (length b = 3), pi_type = uint (b ! 0), pi_current_view = 1,
     pi_seq = ucast (b ! 1), pi_sender_id = uint (b ! 2), pi_request_hash = replicate 32 0\<rparr>"

definition sample_env :: "int \<Rightarrow> int AppEnv" where
  "sample_env r = \<lparr>ev_cfg = sample_config r, ev_keys = map (\<lambda>i. (i, sample_key i)) [0, 1, 2, 3],
     ev_verify = (\<lambda>k m s. s = [hd k]), ev_verifyCert = (\<lambda>b. []), ev_has_key = True,
     ev_pub_key = sample_key r, ev_sign = (\<lambda>m. Some [word_of_int (10 + r)]),
     ev_hash = (\<lambda>m. take 32 (m @ replicate 32 0)), ev_print_d = to_string, ev_read_d = stoi, ev_zero_d = 0,
     ev_arrival_us = word_of_int, ev_observeArrival = (\<lambda>c t. empty_sample),
     ev_observeStoppedDistance = (\<lambda>c t. empty_stopped_sample), ev_lateral_tolerance_cm = 50,
     ev_longitudinal_tolerance_cm = 50, ev_is_byzantine = False, ev_byzantine_type = BYZANTINE_HONEST,
     ev_cert_relay_silent = False, ev_false_lane_colluder_ids = [], ev_phase2_attack_kind = PHASE2_NONE,
     ev_phase2_attack_target = - 1, ev_phase2_evidence_colluder_ids = [], ev_enableAmbulanceCertGate = True,
     ev_enableRollback = True, ev_gossip_enabled = True, ev_enable_cert_retries = False,
     ev_cert_retry_interval = 100, ev_cert_retry_max = 30, ev_half_second = 500,
     ev_cert_collection_timeout = 2000, ev_discovery_intent_settle = 1500, ev_announcement_interval = 500,
     ev_collection_window = 250, ev_attestation_retry_interval = 500, ev_attestation_retry_max = 4,
     ev_viewAgreementSlot = 5, ev_arrivalSlot = 5, ev_broadcastSlot = 5, ev_view_jitter = (\<lambda>n. 0),
     ev_broadcast_jitter = (\<lambda>n. 0), ev_inOrPastConflictBox = (\<lambda>t. False),
     ev_distanceToIntersection = (\<lambda>t. 20), ev_speed = (\<lambda>t. 0), ev_braking_decel = 9 / 2,
     ev_processing_margin = 2, ev_hasCleared = (\<lambda>t c. False), ev_retry_base = 1 / 10, ev_retry_factor = 2,
     ev_retry_cap = 2, ev_gossip_retry_base = 1 / 4, ev_gossip_retry_cap = 4, ev_cancel_cert_retry_max = 10,
     ev_jitter_max = 0, ev_gossip_max_retries = 5, ev_gossip_initial_interval = 100,
     ev_hasCompleted = (\<lambda>t e. False), ev_anyInBox = (\<lambda>t. False), ev_inBox = (\<lambda>t c. False),
     ev_halted = (\<lambda>t c. False), ev_crash_dwell = 3000, ev_clearance_timeout = 20000, ev_clear_candidate_slot = 100, ev_rollback_vc_timeout = 3000,
     ev_pbft_vc_timeout = 3000, ev_poll_period = 500, ev_enable_cancel_leader_failover = True,
     ev_suppress_initial_cancel_leader = False, ev_clear_evidence_gate = True, ev_rollback_per_epoch = True,
     ev_ticks = (\<lambda>q. floor (1000 * q)), ev_ticks_per_us = 1, ev_wait_interval = 1000,
     ev_wait_max_deferral = 2500, ev_wait_clock_skew = 0, ev_clear_dwell = 1000, ev_server_replicas = 4,
     ev_inject_fabricated_clearance = False, ev_own_laneId = (\<lambda>t. ''N2C_0''), ev_intended_lane = ''N'',
     ev_intended_direction = ''S'', ev_lane_queue = (\<lambda>t. []), ev_own_lateral_cm = (\<lambda>t. 0),
     ev_phase2_lateral_offset_cm = 0, ev_phase2_distance_offset = 0, ev_own_distance = (\<lambda>t. Some 5),
     ev_is_ambulance = False, ev_has_ambulance_key = False, ev_ambulance_cert = [],
     ev_ambulance_sign = (\<lambda>m. None), ev_vehicle_cert_size = 8, ev_cert_public_key = (\<lambda>b. take 33 b),
     ev_sim_seconds = (\<lambda>t. t div 1000), ev_packet_info = sample_packet_info,
     ev_vote_progress = (\<lambda>t b v. (0, 0, - 1)), ev_consensus_retry_interval = 120, ev_consensus_retry_max = 8,
     ev_relay_carrier_cap = 2, ev_relay_base_delay = 20, ev_relay_slot = 20, ev_stop_distance = 30,
     ev_stop_sign_timeout = 30000, ev_consensus_timeout = 20000\<rparr>"

definition sample_server :: BridgeState where
  "sample_server = \<lparr>bs_registry = empty_registry, bs_primary = 1, bs_view = 1, bs_faults = None, bs_recovery_epochs = {}\<rparr>"

end
