(* ===== verification/Transport.thy ===== *)
theory Transport
  imports AppState
begin

text \<open>
  The radio queue of one vehicle (\<^verbatim>\<open>v2vbft/app/ResDBTransport.cc\<close>): which discovery frames a
  replica may still put on the air, the queue of frames waiting for their slot, its flush
  timer, and the end of a discovery round, which the flush completes
  (\<^verbatim>\<open>ResDBArrivalProtocol.cc\<close>: \<open>maybeCompleteDiscoveryDrain\<close>, \<open>finishDiscoveryRound\<close>). The byte
  and message counters that only feed metrics are left out, except the two that number frames.
\<close>

section \<open>Stopping timers\<close>

definition stopCertBroadcastRetries :: "'d AppState \<Rightarrow> 'd AppState" where
  "stopCertBroadcastRetries s = s\<lparr>ap_cert_retry_timer := None,
     ap_cert_pending_retries := (ap_cert_pending_retries s)\<lparr>ac_carId := [], ac_echoes := []\<rparr>,
     ap_cert_retry_count := 0\<rparr>"

definition stopStopZoneCertGossip :: "'d AppState \<Rightarrow> 'd AppState" where
  "stopStopZoneCertGossip s = s\<lparr>ap_cert_gossip_timer := None, ap_cert_gossip_deadline := - 1\<rparr>"

text \<open>The own consensus packets are no longer retransmitted, and no relay is pending.\<close>

definition cancelPendingConsensusRelays :: "'d AppState \<Rightarrow> 'd AppState" where
  "cancelPendingConsensusRelays s = s\<lparr>ap_rx := (ap_rx s)\<lparr>rl_pending := [], rl_timer := None\<rparr>\<rparr>"

definition clearConsensusRetries :: "'d AppState \<Rightarrow> 'd AppState" where
  "clearConsensusRetries s = cancelPendingConsensusRelays
     (s\<lparr>ap_rx := (ap_rx s)\<lparr>rl_instances := [], rl_retry_timer := None\<rparr>\<rparr>)"

section \<open>Admission\<close>

definition isDiscoveryAirMsgType :: "int \<Rightarrow> bool" where
  "isDiscoveryAirMsgType msgType \<longleftrightarrow>
     msgType = kArrivalAnnounceType \<or> msgType = kArrivalAnnounceGossipType \<or>
     msgType = kArrivalEchoType \<or> msgType = kArrivalCertType \<or>
     msgType = kStoppedDistanceAttestationType \<or> msgType = kStoppedDistanceEchoType \<or>
     msgType = kStoppedDistanceCertType"

definition discoveryAcceptsNewTx :: "'d AppState \<Rightarrow> int \<Rightarrow> bool \<Rightarrow> bool \<Rightarrow> bool" where
  "discoveryAcceptsNewTx s msgType localCert witnessTraffic =
     (if ap_current_phase s = DEPARTED then False
      else if cx_state (ap_cx s) = CANCEL_DRAINING \<or> cx_state (ap_cx s) = CANCEL_CONSENSUS then False
      else if witnessTraffic \<and> msgType = kArrivalEchoType then \<not> ap_stopped_distance_collection_active s
      else if witnessTraffic \<and> msgType = kStoppedDistanceEchoType then True
      else if ap_order_applied s \<or> ap_propose_submitted s then False
      else if dr_state (ap_discovery s) = COLLECTING then
        (if \<not> ap_stopped_distance_collection_active s then True
         else msgType = kStoppedDistanceAttestationType \<or> msgType = kStoppedDistanceEchoType \<or>
           msgType = kStoppedDistanceCertType)
      else dr_state (ap_discovery s) = DRAINING_CERTS \<and> localCert \<and>
        ((msgType = kArrivalCertType \<and> \<not> localCertAired (ap_discovery s)) \<or>
         (msgType = kStoppedDistanceCertType \<and> \<not> localDistanceCertAired (ap_discovery s))))"

section \<open>The queue\<close>

definition air :: "int \<Rightarrow> int \<Rightarrow> bytes \<Rightarrow> int \<Rightarrow> 'd AppState \<Rightarrow> 'd AppState" where
  "air toReplicaId msgType payload airTime s = s\<lparr>ap_sentMessages := ap_sentMessages s + 1,
     ap_sequenceNumber := ap_sequenceNumber s + 1,
     ap_calls := ap_calls s @ [Call_airTx toReplicaId msgType payload airTime]\<rparr>"

definition sendBFTMessageNow :: "int \<Rightarrow> bytes \<Rightarrow> int \<Rightarrow> 'd AppState \<Rightarrow> 'd AppState" where
  "sendBFTMessageNow toReplicaId payload msgType s =
     (if payload = [] then s else if ap_crashCommsDisabled s then s
      else air toReplicaId msgType payload (ap_now s) s)"

fun earliest :: "int \<Rightarrow> PendingDiscoveryTx list \<Rightarrow> int" where
  "earliest t [] = t"
| "earliest t (p # ps) = earliest (if tx_fireTime p < t then tx_fireTime p else t) ps"

definition scheduleDiscoveryTxFlush :: "'d AppState \<Rightarrow> 'd AppState" where
  "scheduleDiscoveryTxFlush s =
     (case ap_pending_txs s of [] \<Rightarrow> s
      | p # ps \<Rightarrow> let next = earliest (tx_fireTime p) (p # ps) in
          (case ap_flush_timer s of
             Some t \<Rightarrow> if t \<le> next then s else s\<lparr>ap_flush_timer := Some next\<rparr>
           | None \<Rightarrow> s\<lparr>ap_flush_timer := Some next\<rparr>))"

definition enqueueDiscoveryTx ::
  "int \<Rightarrow> bytes \<Rightarrow> int \<Rightarrow> int \<Rightarrow> bool \<Rightarrow> bool \<Rightarrow> 'd AppState \<Rightarrow> 'd AppState" where
  "enqueueDiscoveryTx toReplicaId payload msgType fireTime localCert witnessTraffic s =
     (if ap_crashCommsDisabled s then s
      else scheduleDiscoveryTxFlush (s\<lparr>ap_pending_txs := ap_pending_txs s @
        [\<lparr>tx_toReplicaId = toReplicaId, tx_msgType = msgType, tx_payload = payload, tx_fireTime = fireTime,
          tx_epoch = ap_current_epoch s, tx_localCert = localCert, tx_witnessTraffic = witnessTraffic\<rparr>]\<rparr>))"

definition is_cert_type :: "int \<Rightarrow> bool" where
  "is_cert_type msgType \<longleftrightarrow> msgType = kArrivalCertType \<or> msgType = kStoppedDistanceCertType"

definition cancelPendingDiscoveryTxs :: "'d AppState \<Rightarrow> 'd AppState" where
  "cancelPendingDiscoveryTxs s =
     (if ap_pending_txs s = [] \<and> ap_flush_timer s = None then s
      else s\<lparr>ap_pending_txs := [], ap_flush_timer := None\<rparr>)"

definition discardPendingDiscoveryNonCerts :: "'d AppState \<Rightarrow> 'd AppState" where
  "discardPendingDiscoveryNonCerts s = scheduleDiscoveryTxFlush
     (s\<lparr>ap_pending_txs := filter (\<lambda>p. is_cert_type (tx_msgType p)) (ap_pending_txs s), ap_flush_timer := None\<rparr>)"

definition hasPendingDiscoveryCerts :: "'d AppState \<Rightarrow> u32 \<Rightarrow> bool" where
  "hasPendingDiscoveryCerts s epoch \<longleftrightarrow>
     list_ex (\<lambda>p. tx_epoch p = epoch \<and> is_cert_type (tx_msgType p)) (ap_pending_txs s)"

section \<open>The end of a round\<close>

definition evaluateOrderReadiness_call :: "'d AppState \<Rightarrow> 'd AppState" where
  "evaluateOrderReadiness_call s = s\<lparr>ap_calls := ap_calls s @ [Call_evaluateOrderReadiness]\<rparr>"

definition finishDiscoveryRound :: "'d AppState \<Rightarrow> 'd AppState" where
  "finishDiscoveryRound s =
     (if dr_state (ap_discovery s) \<noteq> DRAINING_CERTS then s
      else evaluateOrderReadiness_call (stopStopZoneCertGossip (stopCertBroadcastRetries
        (s\<lparr>ap_discovery := (ap_discovery s)\<lparr>dr_state := COMPLETE\<rparr>\<rparr>))))"

definition maybeCompleteDiscoveryDrain :: "'d AppState \<Rightarrow> 'd AppState" where
  "maybeCompleteDiscoveryDrain s =
     (let d = ap_discovery s in
      if dr_state d \<noteq> DRAINING_CERTS then s
      else if localCertAssembled d \<and> \<not> localCertAired d then s
      else if localDistanceCertAssembled d \<and> \<not> localDistanceCertAired d then s
      else if hasPendingDiscoveryCerts s (dr_epoch d) then s
      else finishDiscoveryRound s)"

section \<open>Flushing\<close>

definition flush_drops :: "'d AppState \<Rightarrow> PendingDiscoveryTx \<Rightarrow> bool" where
  "flush_drops s p =
     (let witnessAllowed = tx_witnessTraffic p \<and>
            (tx_msgType p = kArrivalEchoType \<or> tx_msgType p = kStoppedDistanceEchoType) \<and>
            ap_current_phase s \<noteq> DEPARTED;
          d = ap_discovery s
      in \<not> witnessAllowed \<and> (tx_epoch p \<noteq> dr_epoch d \<or> dr_state d = DISCOVERY_INACTIVE \<or> dr_state d = COMPLETE \<or>
           (dr_state d = DRAINING_CERTS \<and> tx_msgType p \<noteq> kArrivalCertType \<and>
            tx_msgType p \<noteq> kStoppedDistanceCertType)))"

definition flush_one :: "PendingDiscoveryTx \<Rightarrow> 'd AppState \<Rightarrow> 'd AppState" where
  "flush_one p s =
     (if flush_drops s p then s
      else let s1 = sendBFTMessageNow (tx_toReplicaId p) (tx_payload p) (tx_msgType p) s;
               s2 = (if tx_msgType p = kArrivalCertType \<and> tx_localCert p
                 then let s' = s1\<lparr>ap_discovery := (ap_discovery s1)\<lparr>dr_localCert := AIRED\<rparr>\<rparr> in
                   if dr_state (ap_discovery s') = DRAINING_CERTS then stopCertBroadcastRetries s' else s'
                 else s1)
        in if tx_msgType p = kStoppedDistanceCertType \<and> tx_localCert p
           then s2\<lparr>ap_discovery := (ap_discovery s2)\<lparr>dr_localDistanceCert := AIRED\<rparr>\<rparr> else s2)"

fun flush_all :: "PendingDiscoveryTx list \<Rightarrow> 'd AppState \<Rightarrow> 'd AppState" where
  "flush_all [] s = s"
| "flush_all (p # ps) s = flush_all ps (flush_one p s)"

definition flushDueDiscoveryTxs :: "'d AppState \<Rightarrow> 'd AppState" where
  "flushDueDiscoveryTxs s =
     (let due = filter (\<lambda>p. tx_fireTime p \<le> ap_now s) (ap_pending_txs s);
          s1 = s\<lparr>ap_pending_txs := filter (\<lambda>p. \<not> tx_fireTime p \<le> ap_now s) (ap_pending_txs s)\<rparr>
      in maybeCompleteDiscoveryDrain (scheduleDiscoveryTxFlush (flush_all due s1)))"

section \<open>Sending\<close>

text \<open>The FNV-1a hash that spreads distance certificates over sub-slots.\<close>

definition fnv1a :: "bytes \<Rightarrow> u32" where
  "fnv1a payload = fold (\<lambda>b h. (xor h (ucast b)) * 16777619) payload 2166136261"

text \<open>
  The delay of a frame, in ticks: the replica's slot plus a jitter draw. \<open>ap_draws\<close> counts the
  draws made, so two frames never share one.
\<close>

definition tx_delay :: "'d AppEnv \<Rightarrow> 'd AppState \<Rightarrow> int \<Rightarrow> bytes \<Rightarrow> int" where
  "tx_delay env s msgType payload =
     (let r = cf_replicaId (ev_cfg env) in
      if msgType = kArrivalEchoType \<or> msgType = kStoppedDistanceEchoType
      then r * ev_viewAgreementSlot env + ev_view_jitter env (ap_draws s)
      else if is_cert_type msgType then
        r * ev_arrivalSlot env + ev_view_jitter env (ap_draws s) +
        (if msgType = kStoppedDistanceCertType
         then uint (fnv1a payload mod word_of_int (max 1 (cf_total_vehicles (ev_cfg env)))) * ev_broadcastSlot env
         else 0)
      else if msgType = kArrivalAnnounceType \<or> msgType = kArrivalAnnounceGossipType
      then r * ev_arrivalSlot env + ev_broadcast_jitter env (ap_draws s)
      else r * ev_broadcastSlot env + ev_broadcast_jitter env (ap_draws s))"

definition sendBFTMessage ::
  "'d AppEnv \<Rightarrow> int \<Rightarrow> bytes \<Rightarrow> int \<Rightarrow> bool \<Rightarrow> bool \<Rightarrow> 'd AppState \<Rightarrow> 'd AppState" where
  "sendBFTMessage env toReplicaId payload msgType localCert witnessTraffic s =
     (if payload = [] then s
      else if ap_crashCommsDisabled s then s
      else let delay = tx_delay env s msgType payload; s1 = s\<lparr>ap_draws := Suc (ap_draws s)\<rparr> in
        if isDiscoveryAirMsgType msgType then
          (if \<not> discoveryAcceptsNewTx s1 msgType localCert witnessTraffic then s1
           else enqueueDiscoveryTx toReplicaId payload msgType (ap_now s1 + delay) localCert witnessTraffic s1)
        else air toReplicaId msgType payload (ap_now s1 + delay) s1)"

end
