(* ===== verification/Discovery.thy ===== *)
theory Discovery
  imports Transport DistanceCert
begin

text \<open>
  The discovery round of one vehicle (\<^verbatim>\<open>v2vbft/app/ResDBArrivalProtocol.cc\<close>): starting a round,
  its two timers, reopening it for a new intent, the switch to stopped-distance collection, the
  assembly and broadcast of the local certificates, draining and completion. Reason strings,
  which only reach log lines, are left out.

  \<open>finalizeLocalArrivalCert\<close> broadcasts a certificate, which may advance discovery, which may
  begin the drain, which finalizes the local certificates again. The functions on that cycle
  take the nested call to \<open>maybeAdvanceDiscovery\<close> as a parameter; \<open>maybeAdvanceDiscovery\<close> ties
  the knot with three levels, which \<open>DiscoveryCorrect\<close> shows to be enough.
\<close>

section \<open>Membership\<close>

definition localCar :: "'d AppEnv \<Rightarrow> string" where
  "localCar env = veh (cf_replicaId (ev_cfg env))"

definition shouldIncludeInRollbackMembership :: "'d AppEnv \<Rightarrow> 'd AppState \<Rightarrow> int \<Rightarrow> bool" where
  "shouldIncludeInRollbackMembership env s replicaId =
     (if replicaId < 0 then False
      else if replicaId = cf_replicaId (ev_cfg env) then
        cx_local_recallable (ap_cx s) \<and> ap_current_phase s \<noteq> DEPARTED \<and> \<not> ap_is_departed s
      else True)"

definition resetOrderCandidate :: "'d AppState \<Rightarrow> 'd AppState" where
  "resetOrderCandidate s = s\<lparr>ap_order_candidate := None, ap_order_vc_requested := False,
     ap_order_vc_authoritative := False\<rparr>"

definition hasCommittedCancel :: "'d AppState \<Rightarrow> u32 \<Rightarrow> bool" where
  "hasCommittedCancel s epoch \<longleftrightarrow> om_get (cx_committed_cancels (ap_cx s)) epoch \<noteq> None"

definition isEpochTombstoned :: "'d AppState \<Rightarrow> u32 \<Rightarrow> bool" where
  "isEpochTombstoned s epoch =
     (if epoch \<in> set (cx_tombstoned_epochs (ap_cx s)) then True
      else om_get (cx_committed_cancels (ap_cx s)) epoch \<noteq> None)"

fun least_eligible :: "(int \<Rightarrow> bool) \<Rightarrow> int \<Rightarrow> string list \<Rightarrow> int" where
  "least_eligible eligible primary [] = primary"
| "least_eligible eligible primary (carId # cars) =
     (let rid = extractReplicaId carId in
      least_eligible eligible (if eligible rid \<and> (primary < 0 \<or> rid < primary) then rid else primary) cars)"

definition CertPrimary :: "'d AppEnv \<Rightarrow> 'd AppState \<Rightarrow> int" where
  "CertPrimary env s = least_eligible
     (\<lambda>rid. if cx_pending (ap_cx s) then shouldIncludeInRollbackMembership env s rid
        else 0 \<le> rid \<and> rid < cf_total_vehicles (ev_cfg env))
     (- 1) (om_keys (ap_collected_certs s))"

text \<open>
  The loop over the observed intents: intents outside the recovery membership are skipped, the
  first uncertified one ends it.
\<close>

fun view_scan :: "(int \<Rightarrow> bool) \<Rightarrow> (string \<Rightarrow> bool) \<Rightarrow> string \<Rightarrow> string list \<Rightarrow> bool \<Rightarrow> bool \<Rightarrow> bool" where
  "view_scan skip certified localCarId [] hasEligible hasLocal = (hasEligible \<and> hasLocal)"
| "view_scan skip certified localCarId (carId # cars) hasEligible hasLocal =
     (if skip (extractReplicaId carId) then view_scan skip certified localCarId cars hasEligible hasLocal
      else if \<not> certified carId then False
      else view_scan skip certified localCarId cars True (if carId = localCarId then True else hasLocal))"

definition outside_membership :: "'d AppEnv \<Rightarrow> 'd AppState \<Rightarrow> int \<Rightarrow> bool" where
  "outside_membership env s rid \<longleftrightarrow>
     cx_pending (ap_cx s) \<and> \<not> shouldIncludeInRollbackMembership env s rid"

definition discoveryViewCertified :: "'d AppEnv \<Rightarrow> 'd AppState \<Rightarrow> bool" where
  "discoveryViewCertified env s = view_scan (outside_membership env s)
     (\<lambda>c. om_get (ap_collected_certs s) c \<noteq> None \<and> om_get (ap_collected_distance_certs s) c \<noteq> None)
     (localCar env) (ap_observed_intent_cars s) False
     (\<not> cx_pending (ap_cx s) \<or> \<not> cx_local_recallable (ap_cx s))"

definition arrivalViewCertified :: "'d AppEnv \<Rightarrow> 'd AppState \<Rightarrow> bool" where
  "arrivalViewCertified env s = view_scan (outside_membership env s)
     (\<lambda>c. om_get (ap_collected_certs s) c \<noteq> None) (localCar env) (ap_observed_intent_cars s) False True"

section \<open>Starting and reopening a round\<close>

definition cancelArrivalCertFinalizeTimer :: "'d AppState \<Rightarrow> 'd AppState" where
  "cancelArrivalCertFinalizeTimer s = s\<lparr>ap_finalize_timer := None, ap_threshold_reached_at := - 1\<rparr>"

definition cancelStoppedDistanceAttestationRetry :: "'d AppState \<Rightarrow> 'd AppState" where
  "cancelStoppedDistanceAttestationRetry s = s\<lparr>ap_attestation_retry_timer := None\<rparr>"

definition cancelStoppedDistanceFinalizeTimer :: "'d AppState \<Rightarrow> 'd AppState" where
  "cancelStoppedDistanceFinalizeTimer s =
     cancelStoppedDistanceAttestationRetry (s\<lparr>ap_distance_finalize_timer := None\<rparr>)"

definition armDiscoveryTimers :: "'d AppEnv \<Rightarrow> 'd AppState \<Rightarrow> 'd AppState" where
  "armDiscoveryTimers env s =
     (if \<not> ap_entered_stop_zone s \<or> dr_state (ap_discovery s) \<noteq> COLLECTING \<or>
         ap_propose_submitted s \<or> ap_order_applied s then s
      else let s1 = (if ap_deadline_timer s = None
                 then s\<lparr>ap_deadline_timer := Some (ap_now s + ev_cert_collection_timeout env),
                   ap_discovery := (ap_discovery s)\<lparr>dr_collectionStartedAt := ap_now s\<rparr>\<rparr>
                 else s);
               settleAt = dr_lastNewIntentAt (ap_discovery s1) + ev_discovery_intent_settle env
        in s1\<lparr>ap_settle_timer := Some (if settleAt < ap_now s1 then ap_now s1 else settleAt)\<rparr>)"

definition startDiscoveryRound :: "'d AppEnv \<Rightarrow> 'd AppState \<Rightarrow> 'd AppState" where
  "startDiscoveryRound env s =
     (if ap_current_phase s = DEPARTED \<or> ap_is_departed s then s
      else let s1 = cancelStoppedDistanceFinalizeTimer (cancelArrivalCertFinalizeTimer s);
               s2 = s1\<lparr>ap_my_received_distance_echoes := [], ap_local_distance_attestation := empty_attestation,
                 ap_stopped_distance_attestation_sent := False, ap_stopped_distance_cert_broadcast := False,
                 ap_attestation_retry_count := 0, ap_stopped_distance_collection_active := False,
                 ap_deadline_timer := None, ap_settle_timer := None,
                 ap_discovery := round_reset (ap_current_epoch s1) (ap_now s1)\<rparr>;
               s3 = resetOrderCandidate s2
        in if ap_entered_stop_zone s3 then armDiscoveryTimers env s3 else s3)"

definition noteDiscoveryIntent :: "'d AppEnv \<Rightarrow> string \<Rightarrow> 'd AppState \<Rightarrow> 'd AppState" where
  "noteDiscoveryIntent env carId s =
     (if carId = [] \<or> ap_propose_submitted s \<or> ap_order_applied s \<or> ap_current_phase s = DEPARTED then s
      else let s1 = (if dr_state (ap_discovery s) = DRAINING_CERTS \<or> dr_state (ap_discovery s) = COMPLETE
                 then let r = resetOrderCandidate s;
                          r1 = r\<lparr>ap_discovery := (ap_discovery r)\<lparr>dr_state := COLLECTING,
                            dr_closeReason := CLOSE_NONE\<rparr>, ap_vc_trigger := None\<rparr>
                   in if ap_announce_timer r1 = None
                      then r1\<lparr>ap_announce_timer := Some (ap_now r1 + ev_announcement_interval env)\<rparr> else r1
                 else s)
        in armDiscoveryTimers env (s1\<lparr>ap_discovery := (ap_discovery s1)\<lparr>dr_lastNewIntentAt := ap_now s1\<rparr>\<rparr>))"

definition deactivateDiscovery :: "'d AppState \<Rightarrow> 'd AppState" where
  "deactivateDiscovery s =
     (let s1 = cancelStoppedDistanceFinalizeTimer (cancelArrivalCertFinalizeTimer s);
          s2 = s1\<lparr>ap_deadline_timer := None, ap_settle_timer := None\<rparr>;
          s3 = cancelPendingDiscoveryTxs (stopStopZoneCertGossip (stopCertBroadcastRetries s2))
      in s3\<lparr>ap_discovery := (ap_discovery s3)\<lparr>dr_state := DISCOVERY_INACTIVE\<rparr>,
           ap_stopped_distance_collection_active := False\<rparr>)"

section \<open>Stopped-distance collection\<close>

definition is_distance_type :: "int \<Rightarrow> bool" where
  "is_distance_type msgType \<longleftrightarrow> msgType = kStoppedDistanceAttestationType \<or>
     msgType = kStoppedDistanceEchoType \<or> msgType = kStoppedDistanceCertType"

definition beginStoppedDistanceCollection :: "'d AppEnv \<Rightarrow> 'd AppState \<Rightarrow> 'd AppState" where
  "beginStoppedDistanceCollection env s =
     (if ap_stopped_distance_collection_active s \<or> dr_state (ap_discovery s) \<noteq> COLLECTING then s
      else let s1 = stopStopZoneCertGossip (s\<lparr>ap_stopped_distance_collection_active := True,
                 ap_settle_timer := None, ap_announce_timer := None\<rparr>);
               s2 = scheduleDiscoveryTxFlush (s1\<lparr>ap_pending_txs := filter (\<lambda>p. is_distance_type (tx_msgType p)) (ap_pending_txs s1),
                 ap_flush_timer := None\<rparr>)
        in s2\<lparr>ap_deadline_timer := Some (ap_now s2 + ev_cert_collection_timeout env)\<rparr>)"

section \<open>Certificate gossip and retries\<close>

definition scheduleNextCertRetry :: "'d AppEnv \<Rightarrow> 'd AppState \<Rightarrow> 'd AppState" where
  "scheduleNextCertRetry env s =
     (if \<not> ev_enable_cert_retries env \<or> ac_carId (ap_cert_pending_retries s) = [] then s
      else if ap_propose_submitted s \<or> ap_order_applied s then stopCertBroadcastRetries s
      else s\<lparr>ap_cert_retry_timer := Some (ap_now s + ev_cert_retry_interval env)\<rparr>)"

fun send_certs :: "'d AppEnv \<Rightarrow> ArrivalCert list \<Rightarrow> 'd AppState \<Rightarrow> 'd AppState" where
  "send_certs env [] s = s"
| "send_certs env (c # cs) s =
     send_certs env cs (sendBFTMessage env (- 1) (serializeArrivalCert c) kArrivalCertType False False s)"

definition broadcastCollectedCerts :: "'d AppEnv \<Rightarrow> 'd AppState \<Rightarrow> 'd AppState" where
  "broadcastCollectedCerts env s =
     (let certs = map snd (ap_collected_certs s) in
      if certs = [] then s else if ev_cert_relay_silent env then s else send_certs env certs s)"

definition scheduleNextStopZoneCertGossip :: "'d AppEnv \<Rightarrow> 'd AppState \<Rightarrow> 'd AppState" where
  "scheduleNextStopZoneCertGossip env s =
     (if dr_state (ap_discovery s) \<noteq> COLLECTING then s
      else if CertPrimary env s \<noteq> cf_replicaId (ev_cfg env) then s
      else if ap_cert_gossip_deadline s \<ge> 0 \<and> ap_now s \<ge> ap_cert_gossip_deadline s then s
      else if ap_cert_gossip_timer s \<noteq> None then s
      else let interval = max (ev_cert_retry_interval env) (ev_half_second env);
               next_t = ap_now s + interval
        in s\<lparr>ap_cert_gossip_timer := Some
             (if ap_cert_gossip_deadline s \<ge> 0 \<and> next_t > ap_cert_gossip_deadline s
              then ap_cert_gossip_deadline s else next_t)\<rparr>)"

definition startStopZoneCertGossip :: "'d AppEnv \<Rightarrow> bool \<Rightarrow> 'd AppState \<Rightarrow> 'd AppState" where
  "startStopZoneCertGossip env immediate s =
     (if dr_state (ap_discovery s) \<noteq> COLLECTING then s
      else let newDeadline = ap_now s + ev_cert_collection_timeout env;
               s1 = (if ap_cert_gossip_deadline s < newDeadline then s\<lparr>ap_cert_gossip_deadline := newDeadline\<rparr> else s)
        in scheduleNextStopZoneCertGossip env (if immediate then broadcastCollectedCerts env s1 else s1))"

section \<open>CANCEL echoes\<close>

definition store_signature :: "bytes \<Rightarrow> bytes \<times> byte" where
  "store_signature sig = (resize CRYPTO_SIG_MAX_BYTES sig, of_nat (length sig))"

definition beginWitnessing :: "'d AppState \<Rightarrow> 'd AppState" where
  "beginWitnessing s =
     (if cx_state (ap_cx s) = CANCEL_INACTIVE then s\<lparr>ap_cx := (ap_cx s)\<lparr>cx_state := CANCEL_WITNESSING\<rparr>\<rparr> else s)"

definition sendCancelEcho :: "'d AppEnv \<Rightarrow> u32 \<Rightarrow> CancelReason \<Rightarrow> string \<Rightarrow> 'd AppState \<Rightarrow> 'd AppState" where
  "sendCancelEcho env cancelledEpoch reason reasonRef s =
     (if \<not> ev_enableRollback env \<or> \<not> ev_has_key env then s
      else let ref = cleanRef reasonRef; stmt = cancel_statement cancelledEpoch reason ref;
               key = collectorKey stmt; me = cf_replicaId (ev_cfg env) in
        if \<not> os_new key (cx_echo_sent (ap_cx s)) then s
        else let s1 = beginWitnessing (s\<lparr>ap_cx := (ap_cx s)\<lparr>cx_echo_sent := os_insert key (cx_echo_sent (ap_cx s))\<rparr>\<rparr>)
          in case ev_sign env (to_bytes (signPayload stmt me)) of None \<Rightarrow> s1
          | Some sig \<Rightarrow>
              let echo = \<lparr>ce_echoingReplicaId = me, ce_cancelledEpoch = cancelledEpoch, ce_reason = reason,
                    ce_reasonRef = ref, ce_signerPubKey = ev_pub_key env,
                    ce_signature = fst (store_signature sig), ce_signatureLen = snd (store_signature sig)\<rparr>;
                  s2 = sendBFTMessage env (- 1) (serializeCancelEcho echo) kCancelEchoType False False s1
              in s2\<lparr>ap_cx := (ap_cx s2)\<lparr>cx_echo_collector :=
                   snd (collector_add stmt (cancelToWitnessEcho echo) (cx_echo_collector (ap_cx s2)))\<rparr>\<rparr>)"

definition maybeTriggerEmergencyRollback :: "'d AppEnv \<Rightarrow> bool \<Rightarrow> string \<Rightarrow> 'd AppState \<Rightarrow> 'd AppState" where
  "maybeTriggerEmergencyRollback env isAmbulance carId s =
     (if \<not> ev_enableRollback env \<or> \<not> isAmbulance then s
      else if \<not> gx_has_committed_order (ap_gx s) then s
      else if extractReplicaId carId \<in> set (gx_committed_vehicle_ids (ap_gx s)) then s
      else let cancelledEpoch = gx_last_committed_epoch (ap_gx s) in
        if hasCommittedCancel s cancelledEpoch \<or> isEpochTombstoned s cancelledEpoch \<or>
           (cx_pending (ap_cx s) \<and> cx_cancelled_epoch (ap_cx s) = cancelledEpoch) then s
        else sendCancelEcho env cancelledEpoch reason_emergency
          (''amb:'' @ carId @ '':'' @ to_string (uint cancelledEpoch))
          (s\<lparr>ap_cx := (ap_cx s)\<lparr>cx_cancel_initiated := True\<rparr>\<rparr>))"

section \<open>Local certificates\<close>

definition publishArrivalCert :: "'d AppEnv \<Rightarrow> ArrivalCert \<Rightarrow> 'd AppState \<Rightarrow> 'd AppState" where
  "publishArrivalCert env cert s =
     (let me = cf_replicaId (ev_cfg env);
          s1 = s\<lparr>ap_discovery := (ap_discovery s)\<lparr>dr_localCert := QUEUED\<rparr>\<rparr>;
          s2 = sendBFTMessage env (- 1) (serializeArrivalCert cert) kArrivalCertType True False s1;
          s3 = (if ev_enable_cert_retries env
            then scheduleNextCertRetry env (s2\<lparr>ap_cert_pending_retries := cert, ap_cert_retry_count := 0,
              ap_cert_retry_timer := None\<rparr>)
            else s2);
          is_new = (om_get (ap_collected_certs s3) (ac_carId cert) = None);
          s4 = (if is_new then s3\<lparr>ap_collected_certs := om_put (ac_carId cert) cert (ap_collected_certs s3)\<rparr> else s3);
          certPrimary = (if is_new then CertPrimary env s4 else - 1);
          s5 = (if is_new then maybeTriggerEmergencyRollback env (ac_isAmbulance cert) (ac_carId cert) s4 else s4)
      in if ap_entered_stop_zone s5 \<and> dr_state (ap_discovery s5) = COLLECTING
         then startStopZoneCertGossip env (me = certPrimary) s5 else s5)"

definition broadcastArrivalCert_with ::
  "'d AppEnv \<Rightarrow> ('d AppState \<Rightarrow> 'd AppState) \<Rightarrow> ArrivalCert \<Rightarrow> 'd AppState \<Rightarrow> 'd AppState" where
  "broadcastArrivalCert_with env advance cert s = advance (publishArrivalCert env cert s)"

definition local_arrival_cert :: "'d AppEnv \<Rightarrow> VehicleState \<Rightarrow> bytes \<Rightarrow> ArrivalEcho list \<Rightarrow> 'd AppState \<Rightarrow> ArrivalCert" where
  "local_arrival_cert env state claimHash echoes s =
     \<lparr>ac_carId = localCar env, ac_lane = vs_lane state, ac_positionInLane = vs_positionInLane state,
       ac_physicalLaneIndex = vs_physicalLaneIndex state, ac_lateralClaimCm = vs_lateralClaimCm state,
       ac_direction = vs_direction state, ac_claimHash = claimHash, ac_isAmbulance = vs_isAmbulance state,
       ac_epoch = sint (ap_current_epoch s), ac_echoes = echoes\<rparr>"

definition finalizeLocalArrivalCert_with ::
  "'d AppEnv \<Rightarrow> ('d AppState \<Rightarrow> 'd AppState) \<Rightarrow> 'd AppState \<Rightarrow> 'd AppState" where
  "finalizeLocalArrivalCert_with env advance s =
     (if ap_cert_broadcast s then s
      else let car = localCar env; required = cert_fault_bound (ev_cfg env) + 1 in
        case (om_get (ap_local_vehicle_states s) car, om_get (ap_my_received_echoes s) car,
            om_get (ap_local_claim_hashes s) car) of
          (Some state, Some echoes, Some claimHash) \<Rightarrow>
            if int (length echoes) < required then s
            else let s1 = (cancelArrivalCertFinalizeTimer s)\<lparr>ap_cert_broadcast := True\<rparr>
              in broadcastArrivalCert_with env advance (local_arrival_cert env state claimHash echoes s1) s1
        | _ \<Rightarrow> s)"

definition publishDistanceCert :: "'d AppEnv \<Rightarrow> StoppedDistanceCert \<Rightarrow> 'd AppState \<Rightarrow> 'd AppState" where
  "publishDistanceCert env cert s =
     (let s1 = s\<lparr>ap_stopped_distance_cert_broadcast := True,
            ap_discovery := (ap_discovery s)\<lparr>dr_localDistanceCert := QUEUED\<rparr>\<rparr>;
          certBytes = serializeStoppedDistanceCert cert;
          s2 = sendBFTMessage env (- 1) certBytes kStoppedDistanceCertType True False s1;
          retryAt = ap_now s2 + ev_attestation_retry_interval env +
            cf_replicaId (ev_cfg env) * ev_arrivalSlot env;
          s3 = enqueueDiscoveryTx (- 1) certBytes kStoppedDistanceCertType retryAt True False s2
      in s3\<lparr>ap_collected_distance_certs :=
           om_put (sa_targetCarId (sd_attestation cert)) cert (ap_collected_distance_certs s3)\<rparr>)"

definition finalizeLocalStoppedDistanceCert_with ::
  "'d AppEnv \<Rightarrow> ('d AppState \<Rightarrow> 'd AppState) \<Rightarrow> 'd AppState \<Rightarrow> 'd AppState" where
  "finalizeLocalStoppedDistanceCert_with env advance s =
     (if \<not> ap_stopped_distance_attestation_sent s \<or> ap_stopped_distance_cert_broadcast s then s
      else let required = cert_fault_bound (ev_cfg env) + 1 in
        if 1 + int (length (ap_my_received_distance_echoes s)) < required then s
        else let s1 = cancelStoppedDistanceAttestationRetry (cancelStoppedDistanceFinalizeTimer s);
                 cert = \<lparr>sd_attestation = ap_local_distance_attestation s1,
                   sd_echoes = ap_my_received_distance_echoes s1\<rparr>
          in if \<not> validateStoppedDistanceCert (ev_cfg env) (ap_current_epoch s1) (ev_hash env) (ev_keys env)
                 (ev_verify env) cert then s1
             else advance (publishDistanceCert env cert s1))"

section \<open>Draining and advancing\<close>

definition beginDiscoveryDrain_with ::
  "'d AppEnv \<Rightarrow> ('d AppState \<Rightarrow> 'd AppState) \<Rightarrow> bool \<Rightarrow> 'd AppState \<Rightarrow> 'd AppState" where
  "beginDiscoveryDrain_with env advance deadline s =
     (if dr_state (ap_discovery s) \<noteq> COLLECTING then s
      else let s1 = finalizeLocalArrivalCert_with env advance s;
               s2 = finalizeLocalStoppedDistanceCert_with env advance s1;
               s3 = s2\<lparr>ap_discovery := (ap_discovery s2)\<lparr>dr_state := DRAINING_CERTS,
                   dr_closeReason := (if deadline then DEADLINE else STABILIZED)\<rparr>,
                 ap_stopped_distance_collection_active := False, ap_deadline_timer := None,
                 ap_settle_timer := None, ap_announce_timer := None\<rparr>
        in maybeCompleteDiscoveryDrain (discardPendingDiscoveryNonCerts (stopStopZoneCertGossip s3)))"

definition maybeAdvanceDiscovery_with ::
  "'d AppEnv \<Rightarrow> ('d AppState \<Rightarrow> 'd AppState) \<Rightarrow> bool \<Rightarrow> 'd AppState \<Rightarrow> 'd AppState" where
  "maybeAdvanceDiscovery_with env advance deadline s =
     (if dr_state (ap_discovery s) \<noteq> COLLECTING \<or> \<not> ap_entered_stop_zone s \<or>
         ap_propose_submitted s \<or> ap_order_applied s then s
      else if deadline then
        (if \<not> ap_stopped_distance_collection_active s \<and> arrivalViewCertified env s \<and>
            \<not> discoveryViewCertified env s
         then beginStoppedDistanceCollection env s
         else beginDiscoveryDrain_with env advance True s)
      else if ap_now s < dr_lastNewIntentAt (ap_discovery s) + ev_discovery_intent_settle env
      then armDiscoveryTimers env s
      else if dr_epoch (ap_discovery s) = 0 \<and> \<not> ap_stopped_distance_collection_active s then s
      else if \<not> discoveryViewCertified env s then s
      else beginDiscoveryDrain_with env advance False s)"

fun advance_levels :: "nat \<Rightarrow> 'd AppEnv \<Rightarrow> 'd AppState \<Rightarrow> 'd AppState" where
  "advance_levels 0 env s = s"
| "advance_levels (Suc n) env s = maybeAdvanceDiscovery_with env (advance_levels n env) False s"

definition maybeAdvanceDiscovery :: "'d AppEnv \<Rightarrow> bool \<Rightarrow> 'd AppState \<Rightarrow> 'd AppState" where
  "maybeAdvanceDiscovery env deadline s = maybeAdvanceDiscovery_with env (advance_levels 3 env) deadline s"

definition beginDiscoveryDrain :: "'d AppEnv \<Rightarrow> bool \<Rightarrow> 'd AppState \<Rightarrow> 'd AppState" where
  "beginDiscoveryDrain env = beginDiscoveryDrain_with env (maybeAdvanceDiscovery env False)"

definition finalizeLocalArrivalCert :: "'d AppEnv \<Rightarrow> 'd AppState \<Rightarrow> 'd AppState" where
  "finalizeLocalArrivalCert env = finalizeLocalArrivalCert_with env (maybeAdvanceDiscovery env False)"

definition broadcastArrivalCert :: "'d AppEnv \<Rightarrow> ArrivalCert \<Rightarrow> 'd AppState \<Rightarrow> 'd AppState" where
  "broadcastArrivalCert env = broadcastArrivalCert_with env (maybeAdvanceDiscovery env False)"

definition finalizeLocalStoppedDistanceCert :: "'d AppEnv \<Rightarrow> 'd AppState \<Rightarrow> 'd AppState" where
  "finalizeLocalStoppedDistanceCert env =
     finalizeLocalStoppedDistanceCert_with env (maybeAdvanceDiscovery env False)"

section \<open>Timers of the round\<close>

text \<open>
  The retry and gossip branches of \<open>handleSelfMsg\<close> in \<^verbatim>\<open>ResDBIntersectionApp.cc\<close>; a timer that
  fires is no longer scheduled.
\<close>

definition onCertRetryTimer :: "'d AppEnv \<Rightarrow> 'd AppState \<Rightarrow> 'd AppState" where
  "onCertRetryTimer env s =
     (let s0 = s\<lparr>ap_cert_retry_timer := None\<rparr>; d = ap_discovery s0 in
      if ac_carId (ap_cert_pending_retries s0) = [] \<or> dr_state d = DISCOVERY_INACTIVE \<or> dr_state d = COMPLETE \<or>
         (dr_state d = DRAINING_CERTS \<and> localCertAired d) then stopCertBroadcastRetries s0
      else let s1 = sendBFTMessage env (- 1) (serializeArrivalCert (ap_cert_pending_retries s0)) kArrivalCertType
                 True False (s0\<lparr>ap_cert_retry_count := ap_cert_retry_count s0 + 1\<rparr>)
        in if ev_cert_retry_max env > 0 \<and> ap_cert_retry_count s1 \<ge> ev_cert_retry_max env
           then stopCertBroadcastRetries s1
           else scheduleNextCertRetry env s1)"

definition onCertGossipTimer :: "'d AppEnv \<Rightarrow> 'd AppState \<Rightarrow> 'd AppState" where
  "onCertGossipTimer env s =
     (let s0 = s\<lparr>ap_cert_gossip_timer := None\<rparr> in
      if dr_state (ap_discovery s0) \<noteq> COLLECTING \<or> CertPrimary env s0 \<noteq> cf_replicaId (ev_cfg env) \<or>
         (ap_cert_gossip_deadline s0 \<ge> 0 \<and> ap_now s0 \<ge> ap_cert_gossip_deadline s0)
      then s0\<lparr>ap_cert_gossip_deadline := - 1\<rparr>
      else scheduleNextStopZoneCertGossip env (broadcastCollectedCerts env s0))"

text \<open>The timers that end a collection window, settle an intent or reach the deadline.\<close>

definition onArrivalFinalizeTimer :: "'d AppEnv \<Rightarrow> 'd AppState \<Rightarrow> 'd AppState" where
  "onArrivalFinalizeTimer env s = finalizeLocalArrivalCert env (s\<lparr>ap_finalize_timer := None\<rparr>)"

definition onDistanceFinalizeTimer :: "'d AppEnv \<Rightarrow> 'd AppState \<Rightarrow> 'd AppState" where
  "onDistanceFinalizeTimer env s = finalizeLocalStoppedDistanceCert env (s\<lparr>ap_distance_finalize_timer := None\<rparr>)"

definition onFlushTimer :: "'d AppState \<Rightarrow> 'd AppState" where
  "onFlushTimer s = flushDueDiscoveryTxs (s\<lparr>ap_flush_timer := None\<rparr>)"

end
