(* ===== verification/DiscoveryCorrect.thy ===== *)
theory DiscoveryCorrect
  imports Discovery
begin

text \<open>
  Correctness of the discovery round: the nested calls on the finalize-broadcast-advance cycle
  are bounded, so the functions of \<open>Discovery\<close> satisfy the recursion of the code; the round
  refines an abstract machine over its state and the states of the two local certificates; and
  a round completes only after the certificates it announced are on the air.
\<close>

section \<open>What the radio and its bookkeeping leave alone\<close>

text \<open>
  The state without the radio queue, the certificate retries and gossip, and the record of
  CANCEL witnessing: what the sending operations do not change.
\<close>

definition cx_core :: "CancelCtx \<Rightarrow> CancelCtx" where
  "cx_core c = c\<lparr>cx_echo_sent := [], cx_echo_collector := empty_collector, cx_cancel_initiated := False,
     cx_state := (if cx_state c = CANCEL_INACTIVE then CANCEL_WITNESSING else cx_state c)\<rparr>"

definition core :: "'d AppState \<Rightarrow> 'd AppState" where
  "core s = s\<lparr>ap_pending_txs := [], ap_flush_timer := None, ap_draws := 0, ap_sentMessages := 0,
     ap_sequenceNumber := 0, ap_calls := [], ap_cert_retry_timer := None, ap_cert_retry_count := 0,
     ap_cert_pending_retries := empty_cert, ap_cert_gossip_timer := None, ap_cert_gossip_deadline := 0,
     ap_cx := cx_core (ap_cx s)\<rparr>"

lemma core_upd [simp]:
  "core (s\<lparr>ap_pending_txs := a\<rparr>) = core s" "core (s\<lparr>ap_flush_timer := b\<rparr>) = core s"
  "core (s\<lparr>ap_draws := c\<rparr>) = core s" "core (s\<lparr>ap_sentMessages := d\<rparr>) = core s"
  "core (s\<lparr>ap_sequenceNumber := e\<rparr>) = core s" "core (s\<lparr>ap_calls := f\<rparr>) = core s"
  "core (s\<lparr>ap_cert_retry_timer := b\<rparr>) = core s" "core (s\<lparr>ap_cert_retry_count := g\<rparr>) = core s"
  "core (s\<lparr>ap_cert_pending_retries := h\<rparr>) = core s" "core (s\<lparr>ap_cert_gossip_timer := b\<rparr>) = core s"
  "core (s\<lparr>ap_cert_gossip_deadline := g\<rparr>) = core s"
  by (simp_all add: core_def)

lemma core_proj:
  "core (core s) = core s"
  "ap_now (core s) = ap_now s"
  "ap_current_phase (core s) = ap_current_phase s"
  "ap_is_departed (core s) = ap_is_departed s"
  "ap_entered_stop_zone (core s) = ap_entered_stop_zone s"
  "ap_propose_submitted (core s) = ap_propose_submitted s"
  "ap_order_applied (core s) = ap_order_applied s"
  "ap_crashCommsDisabled (core s) = ap_crashCommsDisabled s"
  "ap_current_epoch (core s) = ap_current_epoch s"
  "ap_gx (core s) = ap_gx s"
  "ap_discovery (core s) = ap_discovery s"
  "ap_stopped_distance_collection_active (core s) = ap_stopped_distance_collection_active s"
  "ap_collected_certs (core s) = ap_collected_certs s"
  "ap_collected_distance_certs (core s) = ap_collected_distance_certs s"
  "ap_local_vehicle_states (core s) = ap_local_vehicle_states s"
  "ap_local_claim_hashes (core s) = ap_local_claim_hashes s"
  "ap_my_received_echoes (core s) = ap_my_received_echoes s"
  "ap_my_received_distance_echoes (core s) = ap_my_received_distance_echoes s"
  "ap_local_distance_attestation (core s) = ap_local_distance_attestation s"
  "ap_stopped_distance_attestation_sent (core s) = ap_stopped_distance_attestation_sent s"
  "ap_stopped_distance_cert_broadcast (core s) = ap_stopped_distance_cert_broadcast s"
  "ap_cert_broadcast (core s) = ap_cert_broadcast s"
  "ap_observed_intent_cars (core s) = ap_observed_intent_cars s"
  "ap_deadline_timer (core s) = ap_deadline_timer s"
  "ap_settle_timer (core s) = ap_settle_timer s"
  "ap_announce_timer (core s) = ap_announce_timer s"
  "ap_cached_arrival_echoes (core s) = ap_cached_arrival_echoes s"
  "ap_first_arrival_claim_hashes (core s) = ap_first_arrival_claim_hashes s"
  "ap_order_candidate (core s) = ap_order_candidate s"
  "cx_pending (ap_cx (core s)) = cx_pending (ap_cx s)"
  "cx_local_recallable (ap_cx (core s)) = cx_local_recallable (ap_cx s)"
  by (simp_all add: core_def cx_core_def)

lemma core_eq:
  assumes "core s = core t"
  shows "ap_now s = ap_now t" "ap_current_phase s = ap_current_phase t" "ap_is_departed s = ap_is_departed t"
    "ap_entered_stop_zone s = ap_entered_stop_zone t" "ap_propose_submitted s = ap_propose_submitted t"
    "ap_order_applied s = ap_order_applied t" "ap_crashCommsDisabled s = ap_crashCommsDisabled t"
    "ap_current_epoch s = ap_current_epoch t" "ap_gx s = ap_gx t" "ap_discovery s = ap_discovery t"
    "ap_stopped_distance_collection_active s = ap_stopped_distance_collection_active t"
    "ap_collected_certs s = ap_collected_certs t" "ap_collected_distance_certs s = ap_collected_distance_certs t"
    "ap_local_vehicle_states s = ap_local_vehicle_states t" "ap_local_claim_hashes s = ap_local_claim_hashes t"
    "ap_my_received_echoes s = ap_my_received_echoes t"
    "ap_my_received_distance_echoes s = ap_my_received_distance_echoes t"
    "ap_local_distance_attestation s = ap_local_distance_attestation t"
    "ap_stopped_distance_attestation_sent s = ap_stopped_distance_attestation_sent t"
    "ap_stopped_distance_cert_broadcast s = ap_stopped_distance_cert_broadcast t"
    "ap_cert_broadcast s = ap_cert_broadcast t" "ap_observed_intent_cars s = ap_observed_intent_cars t"
    "ap_deadline_timer s = ap_deadline_timer t" "ap_settle_timer s = ap_settle_timer t"
    "ap_announce_timer s = ap_announce_timer t" "ap_cached_arrival_echoes s = ap_cached_arrival_echoes t"
    "ap_first_arrival_claim_hashes s = ap_first_arrival_claim_hashes t"
    "ap_order_candidate s = ap_order_candidate t"
    "cx_pending (ap_cx s) = cx_pending (ap_cx t)" "cx_local_recallable (ap_cx s) = cx_local_recallable (ap_cx t)"
  using assms by (metis core_proj)+

named_theorems frame "state components an operation leaves alone"

lemma core_ops [simp]:
  "core (scheduleDiscoveryTxFlush s) = core s"
  "core (sendBFTMessageNow to_r payload ty s) = core s"
  "core (evaluateOrderReadiness_call s) = core s"
  "core (stopCertBroadcastRetries s) = core s"
  "core (stopStopZoneCertGossip s) = core s"
  "core (discardPendingDiscoveryNonCerts s) = core s"
  "core (scheduleNextCertRetry env s) = core s"
  "core (scheduleNextStopZoneCertGossip env s) = core s"
  by (simp_all add: scheduleDiscoveryTxFlush_def sendBFTMessageNow_def air_def evaluateOrderReadiness_call_def
      stopCertBroadcastRetries_def stopStopZoneCertGossip_def discardPendingDiscoveryNonCerts_def
      scheduleNextCertRetry_def scheduleNextStopZoneCertGossip_def Let_def split: list.split option.split)

lemma core_send [simp]:
  "core (enqueueDiscoveryTx to_r payload ty t l w s) = core s"
  "core (sendBFTMessage env to_r payload ty l w s) = core s"
  by (simp_all add: enqueueDiscoveryTx_def sendBFTMessage_def air_def Let_def)

lemma core_send_certs [simp]: "core (send_certs env cs s) = core s"
  by (induction env cs s rule: send_certs.induct) simp_all

lemma core_gossip [simp]:
  "core (broadcastCollectedCerts env s) = core s"
  "core (startStopZoneCertGossip env im s) = core s"
  by (simp_all add: broadcastCollectedCerts_def startStopZoneCertGossip_def Let_def)

lemma core_cx: "cx_core c = cx_core (ap_cx s) \<Longrightarrow> core (s\<lparr>ap_cx := c\<rparr>) = core s"
  by (simp add: core_def)

lemma core_cx_upd:
  "core (s\<lparr>ap_cx := (ap_cx s)\<lparr>cx_echo_collector := b\<rparr>\<rparr>) = core s"
  "core (s\<lparr>ap_cx := (ap_cx s)\<lparr>cx_cancel_initiated := c\<rparr>\<rparr>) = core s"
  "core (s\<lparr>ap_cx := (ap_cx s)\<lparr>cx_echo_sent := a\<rparr>\<rparr>) = core s"
  by (rule core_cx, simp add: cx_core_def)+

lemma core_beginWitnessing [simp]: "core (beginWitnessing s) = core s"
  by (simp add: beginWitnessing_def core_def cx_core_def)

lemma core_sendCancelEcho [simp]: "core (sendCancelEcho env e r ref s) = core s"
  unfolding sendCancelEcho_def Let_def
  by (simp only: core_cx_upd core_send core_beginWitnessing simp_thms split: option.split if_split)

lemma core_rollback [simp]: "core (maybeTriggerEmergencyRollback env amb car s) = core s"
  unfolding maybeTriggerEmergencyRollback_def Let_def
  by (simp only: core_sendCancelEcho core_cx_upd simp_thms split: if_split)

lemmas frame_ops [simp] =
  core_eq [OF core_ops(1)] core_eq [OF core_ops(2)] core_eq [OF core_ops(3)] core_eq [OF core_ops(4)]
  core_eq [OF core_ops(5)] core_eq [OF core_ops(6)] core_eq [OF core_ops(7)] core_eq [OF core_ops(8)]
  core_eq [OF core_send(1)] core_eq [OF core_send(2)] core_eq [OF core_send_certs]
  core_eq [OF core_gossip(1)] core_eq [OF core_gossip(2)] core_eq [OF core_sendCancelEcho]
  core_eq [OF core_rollback]

section \<open>The cycle of nested calls\<close>

text \<open>How many of the two local certificates are still to be broadcast.\<close>

definition unsent :: "'d AppState \<Rightarrow> nat" where
  "unsent s = (if ap_cert_broadcast s then 0 else 1) + (if ap_stopped_distance_cert_broadcast s then 0 else 1)"

lemma unsent_core: "core s = core t \<Longrightarrow> unsent s = unsent t"
  using core_eq(20,21) [of s t] by (simp add: unsent_def)

lemma unsent_upd [simp]:
  "unsent (s\<lparr>ap_discovery := d\<rparr>) = unsent s" "unsent (s\<lparr>ap_collected_certs := c\<rparr>) = unsent s"
  "unsent (s\<lparr>ap_collected_distance_certs := e\<rparr>) = unsent s" "unsent (s\<lparr>ap_deadline_timer := t\<rparr>) = unsent s"
  "unsent (s\<lparr>ap_settle_timer := t\<rparr>) = unsent s" "unsent (s\<lparr>ap_announce_timer := t\<rparr>) = unsent s"
  "unsent (s\<lparr>ap_stopped_distance_collection_active := b\<rparr>) = unsent s"
  "unsent (s\<lparr>ap_finalize_timer := t\<rparr>) = unsent s" "unsent (s\<lparr>ap_threshold_reached_at := i\<rparr>) = unsent s"
  "unsent (s\<lparr>ap_attestation_retry_timer := t\<rparr>) = unsent s" "unsent (s\<lparr>ap_distance_finalize_timer := t\<rparr>) = unsent s"
  by (simp_all add: unsent_def)

lemmas unsent_ops [simp] = unsent_core [OF core_ops(1)] unsent_core [OF core_ops(3)] unsent_core [OF core_ops(4)]
  unsent_core [OF core_ops(5)] unsent_core [OF core_ops(6)] unsent_core [OF core_ops(7)] unsent_core [OF core_send(1)]
  unsent_core [OF core_send(2)] unsent_core [OF core_gossip(2)] unsent_core [OF core_rollback]

lemma unsent_complete [simp]: "unsent (maybeCompleteDiscoveryDrain s) = unsent s"
  by (simp add: maybeCompleteDiscoveryDrain_def finishDiscoveryRound_def Let_def)

lemma unsent_arm [simp]:
  "unsent (armDiscoveryTimers env s) = unsent s" "unsent (beginStoppedDistanceCollection env s) = unsent s"
  by (simp_all add: armDiscoveryTimers_def beginStoppedDistanceCollection_def Let_def unsent_core [OF core_upd(1)] unsent_core [OF core_upd(2)])

lemma unsent_cancel_timers [simp]:
  "unsent (cancelArrivalCertFinalizeTimer s) = unsent s"
  "unsent (cancelStoppedDistanceFinalizeTimer s) = unsent s"
  "unsent (cancelStoppedDistanceAttestationRetry s) = unsent s"
  by (simp_all add: cancelArrivalCertFinalizeTimer_def cancelStoppedDistanceFinalizeTimer_def
      cancelStoppedDistanceAttestationRetry_def)

lemma unsent_publish:
  "unsent (publishArrivalCert env cert s) = unsent s"
  "\<not> ap_stopped_distance_cert_broadcast s \<Longrightarrow> unsent (publishDistanceCert env dcert s) < unsent s"
proof -
  show "unsent (publishArrivalCert env cert s) = unsent s"
    by (simp add: publishArrivalCert_def Let_def unsent_core [OF core_upd(7)] unsent_core [OF core_upd(8)]
        unsent_core [OF core_upd(9)] split: prod.split if_split)
  show "\<not> ap_stopped_distance_cert_broadcast s \<Longrightarrow> unsent (publishDistanceCert env dcert s) < unsent s"
    by (simp add: publishDistanceCert_def Let_def) (simp add: unsent_def)
qed

text \<open>
  The nested calls see a state with fewer certificates left to broadcast: two continuations
  that agree on those states give the same result, and nothing ever becomes unsent again.
\<close>

definition agree_below :: "nat \<Rightarrow> ('d AppState \<Rightarrow> 'd AppState) \<Rightarrow> ('d AppState \<Rightarrow> 'd AppState) \<Rightarrow> bool" where
  "agree_below n f g \<longleftrightarrow> (\<forall>t. unsent t < n \<longrightarrow> f t = g t)"

definition keeps_sent :: "('d AppState \<Rightarrow> 'd AppState) \<Rightarrow> bool" where
  "keeps_sent f \<longleftrightarrow> (\<forall>t. unsent (f t) \<le> unsent t)"

lemma finalizeA_step:
  obtains "\<And>f. finalizeLocalArrivalCert_with env f s = s"
  | cert where "\<not> ap_cert_broadcast s" and "\<And>f. finalizeLocalArrivalCert_with env f s =
      f (publishArrivalCert env cert ((cancelArrivalCertFinalizeTimer s)\<lparr>ap_cert_broadcast := True\<rparr>))"
proof (cases "ap_cert_broadcast s")
  case True
  then show thesis by (intro that(1)) (simp add: finalizeLocalArrivalCert_with_def)
next
  case False
  let ?car = "localCar env"
  let ?s1 = "(cancelArrivalCertFinalizeTimer s)\<lparr>ap_cert_broadcast := True\<rparr>"
  show thesis
  proof (cases "om_get (ap_local_vehicle_states s) ?car")
    case None
    then show thesis by (intro that(1)) (simp add: finalizeLocalArrivalCert_with_def Let_def)
  next
    case st: (Some state)
    show thesis
    proof (cases "om_get (ap_my_received_echoes s) ?car")
      case None
      then show thesis by (intro that(1)) (simp add: finalizeLocalArrivalCert_with_def Let_def st)
    next
      case es: (Some echoes)
      show thesis
      proof (cases "om_get (ap_local_claim_hashes s) ?car")
        case None
        then show thesis by (intro that(1)) (simp add: finalizeLocalArrivalCert_with_def Let_def st es)
      next
        case h: (Some claimHash)
        show thesis
        proof (cases "int (length echoes) < cert_fault_bound (ev_cfg env) + 1")
          case True
          then show thesis by (intro that(1)) (simp add: finalizeLocalArrivalCert_with_def Let_def st es h)
        next
          case ok: False
          show thesis
          proof (rule that(2) [OF False])
            show "finalizeLocalArrivalCert_with env f s =
                f (publishArrivalCert env (local_arrival_cert env state claimHash echoes ?s1) ?s1)" for f
              unfolding finalizeLocalArrivalCert_with_def broadcastArrivalCert_with_def Let_def st es h
              using False ok by simp
          qed
        qed
      qed
    qed
  qed
qed

lemma finalizeD_step:
  obtains "\<And>f. finalizeLocalStoppedDistanceCert_with env f s = s"
  | "\<And>f. finalizeLocalStoppedDistanceCert_with env f s =
      cancelStoppedDistanceAttestationRetry (cancelStoppedDistanceFinalizeTimer s)"
  | cert where "\<not> ap_stopped_distance_cert_broadcast s" and "\<And>f. finalizeLocalStoppedDistanceCert_with env f s =
      f (publishDistanceCert env cert (cancelStoppedDistanceAttestationRetry (cancelStoppedDistanceFinalizeTimer s)))"
proof -
  let ?s1 = "cancelStoppedDistanceAttestationRetry (cancelStoppedDistanceFinalizeTimer s)"
  let ?cert = "\<lparr>sd_attestation = ap_local_distance_attestation ?s1, sd_echoes = ap_my_received_distance_echoes ?s1\<rparr>"
  consider (none) "\<not> ap_stopped_distance_attestation_sent s \<or> ap_stopped_distance_cert_broadcast s"
    | (few) "ap_stopped_distance_attestation_sent s" "\<not> ap_stopped_distance_cert_broadcast s"
        "1 + int (length (ap_my_received_distance_echoes s)) < cert_fault_bound (ev_cfg env) + 1"
    | (go) "ap_stopped_distance_attestation_sent s" "\<not> ap_stopped_distance_cert_broadcast s"
        "\<not> 1 + int (length (ap_my_received_distance_echoes s)) < cert_fault_bound (ev_cfg env) + 1" by blast
  then show thesis
  proof cases
    case none
    then show thesis by (intro that(1)) (simp_all add: finalizeLocalStoppedDistanceCert_with_def)
  next
    case few
    then show thesis by (intro that(1)) (simp_all add: finalizeLocalStoppedDistanceCert_with_def Let_def)
  next
    case go
    show thesis
    proof (cases "validateStoppedDistanceCert (ev_cfg env) (ap_current_epoch ?s1) (ev_hash env) (ev_keys env)
        (ev_verify env) ?cert")
      case False
      then have "finalizeLocalStoppedDistanceCert_with env f s = ?s1" for f
        using go by (simp add: finalizeLocalStoppedDistanceCert_with_def Let_def)
      then show thesis by (rule that(2))
    next
      case True
      have "finalizeLocalStoppedDistanceCert_with env f s = f (publishDistanceCert env ?cert ?s1)" for f
        using go True by (simp add: finalizeLocalStoppedDistanceCert_with_def Let_def)
      then show thesis by (rule that(3) [OF go(2)])
    qed
  qed
qed

lemma unsent_published:
  "\<not> ap_cert_broadcast s \<Longrightarrow>
     unsent (publishArrivalCert env cert ((cancelArrivalCertFinalizeTimer s)\<lparr>ap_cert_broadcast := True\<rparr>)) < unsent s"
  "\<not> ap_stopped_distance_cert_broadcast s \<Longrightarrow>
     unsent (publishDistanceCert env dcert
       (cancelStoppedDistanceAttestationRetry (cancelStoppedDistanceFinalizeTimer s))) < unsent s"
proof -
  show "\<not> ap_cert_broadcast s \<Longrightarrow>
      unsent (publishArrivalCert env cert ((cancelArrivalCertFinalizeTimer s)\<lparr>ap_cert_broadcast := True\<rparr>)) < unsent s"
    by (simp only: unsent_publish) (simp add: unsent_def cancelArrivalCertFinalizeTimer_def)
  assume "\<not> ap_stopped_distance_cert_broadcast s"
  then have "\<not> ap_stopped_distance_cert_broadcast (cancelStoppedDistanceAttestationRetry (cancelStoppedDistanceFinalizeTimer s))"
    by (simp add: cancelStoppedDistanceFinalizeTimer_def cancelStoppedDistanceAttestationRetry_def)
  from unsent_publish(2) [OF this] show "unsent (publishDistanceCert env dcert
      (cancelStoppedDistanceAttestationRetry (cancelStoppedDistanceFinalizeTimer s))) < unsent s" by simp
qed

lemma finalizeA_agree:
  "agree_below (unsent s) f g \<Longrightarrow> finalizeLocalArrivalCert_with env f s = finalizeLocalArrivalCert_with env g s"
  by (rule finalizeA_step [of env s]) (simp_all add: agree_below_def unsent_published)

lemma finalizeA_keeps: "keeps_sent f \<Longrightarrow> unsent (finalizeLocalArrivalCert_with env f s) \<le> unsent s"
  by (rule finalizeA_step [of env s])
    (auto simp: keeps_sent_def intro: order_trans less_imp_le [OF unsent_published(1)])

lemma finalizeD_agree:
  "agree_below (unsent s) f g \<Longrightarrow>
     finalizeLocalStoppedDistanceCert_with env f s = finalizeLocalStoppedDistanceCert_with env g s"
  by (rule finalizeD_step [of env s]) (simp_all add: agree_below_def unsent_published)

lemma finalizeD_keeps: "keeps_sent f \<Longrightarrow> unsent (finalizeLocalStoppedDistanceCert_with env f s) \<le> unsent s"
  by (rule finalizeD_step [of env s])
    (auto simp: keeps_sent_def intro: order_trans less_imp_le [OF unsent_published(2)])

lemma agree_below_mono: "agree_below n f g \<Longrightarrow> m \<le> n \<Longrightarrow> agree_below m f g"
  by (auto simp: agree_below_def)

lemma drain_agree:
  assumes "agree_below (unsent s) f g" and "keeps_sent f"
  shows "beginDiscoveryDrain_with env f d s = beginDiscoveryDrain_with env g d s"
proof -
  have a: "finalizeLocalArrivalCert_with env g s = finalizeLocalArrivalCert_with env f s"
    using finalizeA_agree [OF assms(1)] by simp
  have "agree_below (unsent (finalizeLocalArrivalCert_with env f s)) f g"
    using assms finalizeA_keeps agree_below_mono by blast
  then show ?thesis
    by (simp only: beginDiscoveryDrain_with_def Let_def a finalizeD_agree)
qed

lemma drain_keeps:
  assumes "keeps_sent f"
  shows "unsent (beginDiscoveryDrain_with env f d s) \<le> unsent s"
proof -
  let ?s2 = "finalizeLocalStoppedDistanceCert_with env f (finalizeLocalArrivalCert_with env f s)"
  have "unsent (beginDiscoveryDrain_with env f d s) = (if dr_state (ap_discovery s) \<noteq> COLLECTING then unsent s else unsent ?s2)"
    by (simp add: beginDiscoveryDrain_with_def Let_def)
  then show ?thesis
    using finalizeA_keeps [OF assms, of env s] finalizeD_keeps [OF assms, of env "finalizeLocalArrivalCert_with env f s"]
    by simp
qed

lemma advance_agree:
  assumes "agree_below (unsent s) f g" and "keeps_sent f"
  shows "maybeAdvanceDiscovery_with env f d s = maybeAdvanceDiscovery_with env g d s"
  using drain_agree [OF assms] by (simp add: maybeAdvanceDiscovery_with_def)

lemma advance_keeps: "keeps_sent f \<Longrightarrow> unsent (maybeAdvanceDiscovery_with env f d s) \<le> unsent s"
  by (simp add: maybeAdvanceDiscovery_with_def drain_keeps)

lemma levels_keep: "keeps_sent (advance_levels n env)"
  by (induction n) (simp_all add: keeps_sent_def advance_keeps)

lemma levels_enough: "agree_below n (advance_levels n env) (advance_levels (Suc n) env)"
proof (induction n)
  case (Suc n)
  show ?case
    unfolding agree_below_def
  proof (intro allI impI)
    fix t :: "'a AppState"
    assume "unsent t < Suc n"
    then have "agree_below (unsent t) (advance_levels n env) (advance_levels (Suc n) env)"
      using Suc.IH agree_below_mono by (metis less_Suc_eq_le)
    from advance_agree [OF this levels_keep]
    show "advance_levels (Suc n) env t = advance_levels (Suc (Suc n)) env t" by simp
  qed
qed (simp add: agree_below_def)

lemma three_levels: "maybeAdvanceDiscovery env False = advance_levels 3 env"
proof
  fix s :: "'a AppState"
  have "unsent s < 3" by (simp add: unsent_def)
  then have "advance_levels 3 env s = advance_levels (Suc 3) env s"
    using levels_enough [of 3 env] by (simp add: agree_below_def)
  then have "advance_levels 3 env s = maybeAdvanceDiscovery_with env (advance_levels 3 env) False s"
    by (simp only: advance_levels.simps(2))
  then show "maybeAdvanceDiscovery env False s = advance_levels 3 env s"
    by (simp only: maybeAdvanceDiscovery_def)
qed

text \<open>
  The calls of the discovery round terminate. With three nested levels the model satisfies
  the recursion the code is written as, for every state: further levels change nothing.
\<close>

theorem discovery_recursion_bounded:
  "maybeAdvanceDiscovery env deadline s =
     maybeAdvanceDiscovery_with env (maybeAdvanceDiscovery env False) deadline s \<and>
   advance_levels (3 + k) env s = advance_levels 3 env s"
proof
  show "maybeAdvanceDiscovery env deadline s =
      maybeAdvanceDiscovery_with env (maybeAdvanceDiscovery env False) deadline s"
    by (simp only: maybeAdvanceDiscovery_def [of env deadline] three_levels)
  show "advance_levels (3 + k) env s = advance_levels 3 env s"
  proof (induction k)
    case (Suc k)
    have "unsent s < 3 + k" by (simp add: unsent_def)
    then have "advance_levels (3 + k) env s = advance_levels (Suc (3 + k)) env s"
      using levels_enough [of "3 + k" env] by (simp add: agree_below_def)
    with Suc show ?case by (simp del: advance_levels.simps)
  qed simp
qed

end
