(* ===== verification/DiscoveryRefine.thy ===== *)
theory DiscoveryRefine
  imports DiscoveryCorrect
begin

text \<open>
  The discovery round refines an abstract machine that knows only the state of the round and
  the states of the two local certificates. Its rules say what the round promises: a
  certificate is assembled before it is aired and never taken back while the round lasts, and
  the round completes only out of the drain, with no certificate still queued.
\<close>

section \<open>The abstract machine\<close>

type_synonym RoundView = "DiscoveryState \<times> LocalCertState \<times> LocalCertState"

inductive round_rule :: "RoundView \<Rightarrow> RoundView \<Rightarrow> bool" where
  assemble_arrival: "round_rule (st, NOT_ASSEMBLED, d) (st, QUEUED, d)"
| assemble_distance: "round_rule (st, c, NOT_ASSEMBLED) (st, c, QUEUED)"
| air_arrival: "c \<noteq> NOT_ASSEMBLED \<Longrightarrow> round_rule (st, c, d) (st, AIRED, d)"
| air_distance: "d \<noteq> NOT_ASSEMBLED \<Longrightarrow> round_rule (st, c, d) (st, c, AIRED)"
| drain: "round_rule (COLLECTING, c, d) (DRAINING_CERTS, c, d)"
| complete: "c \<noteq> QUEUED \<Longrightarrow> d \<noteq> QUEUED \<Longrightarrow> round_rule (DRAINING_CERTS, c, d) (COMPLETE, c, d)"
| reopen: "st = DRAINING_CERTS \<or> st = COMPLETE \<Longrightarrow> round_rule (st, c, d) (COLLECTING, c, d)"
| deactivate: "round_rule (st, c, d) (DISCOVERY_INACTIVE, c, d)"
| restart: "round_rule (st, c, d) (COLLECTING, NOT_ASSEMBLED, NOT_ASSEMBLED)"

definition round_of :: "'d AppState \<Rightarrow> RoundView" where
  "round_of s = (dr_state (ap_discovery s), dr_localCert (ap_discovery s), dr_localDistanceCert (ap_discovery s))"

section \<open>The invariant\<close>

text \<open>The message types of the own certificates waiting in the radio queue.\<close>

definition own_queued :: "'d AppState \<Rightarrow> int set" where
  "own_queued s = {tx_msgType p | p. p \<in> set (ap_pending_txs s) \<and> tx_localCert p}"

definition retrying :: "'d AppState \<Rightarrow> bool" where
  "retrying s \<longleftrightarrow> ac_carId (ap_cert_pending_retries s) \<noteq> []"

definition round_inv :: "'d AppState \<Rightarrow> bool" where
  "round_inv s \<longleftrightarrow>
     (\<not> ap_cert_broadcast s \<longrightarrow> dr_localCert (ap_discovery s) = NOT_ASSEMBLED) \<and>
     (\<not> ap_stopped_distance_cert_broadcast s \<longrightarrow> dr_localDistanceCert (ap_discovery s) = NOT_ASSEMBLED) \<and>
     (kArrivalCertType \<in> own_queued s \<longrightarrow> dr_localCert (ap_discovery s) \<noteq> NOT_ASSEMBLED) \<and>
     (kStoppedDistanceCertType \<in> own_queued s \<longrightarrow> dr_localDistanceCert (ap_discovery s) \<noteq> NOT_ASSEMBLED) \<and>
     (retrying s \<longrightarrow> dr_localCert (ap_discovery s) \<noteq> NOT_ASSEMBLED)"

text \<open>An operation that leaves the round alone and puts no own certificate in the queue.\<close>

definition quiet :: "'d AppState \<Rightarrow> 'd AppState \<Rightarrow> bool" where
  "quiet s t \<longleftrightarrow> core t = core s \<and> own_queued t \<subseteq> own_queued s \<and> (retrying t \<longrightarrow> retrying s)"

lemma quiet_refl [simp]: "quiet s s"
  by (simp add: quiet_def)

lemma quiet_trans: "quiet s t \<Longrightarrow> quiet t u \<Longrightarrow> quiet s u"
  by (auto simp: quiet_def)

lemma own_queued_upd [simp]:
  "own_queued (s\<lparr>ap_flush_timer := b\<rparr>) = own_queued s" "own_queued (s\<lparr>ap_draws := c\<rparr>) = own_queued s"
  "own_queued (s\<lparr>ap_sentMessages := d\<rparr>) = own_queued s" "own_queued (s\<lparr>ap_sequenceNumber := e\<rparr>) = own_queued s"
  "own_queued (s\<lparr>ap_calls := f\<rparr>) = own_queued s" "own_queued (s\<lparr>ap_cert_retry_timer := b\<rparr>) = own_queued s"
  "own_queued (s\<lparr>ap_cert_retry_count := g\<rparr>) = own_queued s"
  "own_queued (s\<lparr>ap_cert_pending_retries := h\<rparr>) = own_queued s"
  "own_queued (s\<lparr>ap_cert_gossip_timer := b\<rparr>) = own_queued s"
  "own_queued (s\<lparr>ap_cert_gossip_deadline := g\<rparr>) = own_queued s" "own_queued (s\<lparr>ap_cx := x\<rparr>) = own_queued s"
  "own_queued (s\<lparr>ap_discovery := dd\<rparr>) = own_queued s" "own_queued (s\<lparr>ap_collected_certs := cc\<rparr>) = own_queued s"
  "own_queued (s\<lparr>ap_collected_distance_certs := dc\<rparr>) = own_queued s"
  "own_queued (s\<lparr>ap_cert_broadcast := y\<rparr>) = own_queued s"
  "own_queued (s\<lparr>ap_stopped_distance_cert_broadcast := y\<rparr>) = own_queued s"
  by (simp_all add: own_queued_def)

lemma retrying_upd [simp]:
  "retrying (s\<lparr>ap_flush_timer := b\<rparr>) = retrying s" "retrying (s\<lparr>ap_draws := c\<rparr>) = retrying s"
  "retrying (s\<lparr>ap_sentMessages := d\<rparr>) = retrying s" "retrying (s\<lparr>ap_sequenceNumber := e\<rparr>) = retrying s"
  "retrying (s\<lparr>ap_calls := f\<rparr>) = retrying s" "retrying (s\<lparr>ap_cert_retry_timer := b\<rparr>) = retrying s"
  "retrying (s\<lparr>ap_pending_txs := q\<rparr>) = retrying s"
  "retrying (s\<lparr>ap_cert_gossip_timer := b\<rparr>) = retrying s"
  "retrying (s\<lparr>ap_cert_gossip_deadline := g\<rparr>) = retrying s" "retrying (s\<lparr>ap_cx := x\<rparr>) = retrying s"
  "retrying (s\<lparr>ap_discovery := dd\<rparr>) = retrying s" "retrying (s\<lparr>ap_collected_certs := cc\<rparr>) = retrying s"
  "retrying (s\<lparr>ap_collected_distance_certs := dc\<rparr>) = retrying s"
  "retrying (s\<lparr>ap_cert_broadcast := y\<rparr>) = retrying s"
  "retrying (s\<lparr>ap_stopped_distance_cert_broadcast := y\<rparr>) = retrying s"
  by (simp_all add: retrying_def)

lemma pending_schedule [simp]:
  "ap_pending_txs (scheduleDiscoveryTxFlush s) = ap_pending_txs s"
  "ap_cert_pending_retries (scheduleDiscoveryTxFlush s) = ap_cert_pending_retries s"
  by (simp_all add: scheduleDiscoveryTxFlush_def Let_def split: list.split option.split)

lemma own_schedule [simp]:
  "own_queued (scheduleDiscoveryTxFlush s) = own_queued s" "retrying (scheduleDiscoveryTxFlush s) = retrying s"
  by (simp_all add: scheduleDiscoveryTxFlush_def Let_def split: list.split option.split)

lemma own_enqueue:
  "own_queued (enqueueDiscoveryTx r pl ty t l w s) \<subseteq> own_queued s \<union> (if l then {ty} else {})"
  "retrying (enqueueDiscoveryTx r pl ty t l w s) = retrying s"
  by (auto simp: enqueueDiscoveryTx_def own_queued_def)

lemma own_send:
  "own_queued (sendBFTMessage env r pl ty l w s) \<subseteq> own_queued s \<union> (if l then {ty} else {})"
  "retrying (sendBFTMessage env r pl ty l w s) = retrying s"
proof -
  have "own_queued (enqueueDiscoveryTx r pl ty t l w (s\<lparr>ap_draws := Suc (ap_draws s)\<rparr>)) \<subseteq>
      own_queued s \<union> (if l then {ty} else {})" for t
    using own_enqueue(1) [of r pl ty t l w "s\<lparr>ap_draws := Suc (ap_draws s)\<rparr>"] by simp
  then show "own_queued (sendBFTMessage env r pl ty l w s) \<subseteq> own_queued s \<union> (if l then {ty} else {})"
    by (cases l) (simp_all add: sendBFTMessage_def air_def Let_def subset_insertI)
  show "retrying (sendBFTMessage env r pl ty l w s) = retrying s"
    by (simp add: sendBFTMessage_def air_def Let_def own_enqueue(2))
qed

lemma quiet_send: "quiet s (sendBFTMessage env r pl ty False w s)"
  using own_send(1) [of env r pl ty False w s] by (simp add: quiet_def own_send(2))

lemma quiet_send_certs: "quiet s (send_certs env cs s)"
  by (induction env cs s rule: send_certs.induct) (auto intro: quiet_trans [OF quiet_send])

lemma quiet_ops:
  "quiet s (stopCertBroadcastRetries s)" "quiet s (stopStopZoneCertGossip s)" "quiet s (evaluateOrderReadiness_call s)"
  "quiet s (scheduleDiscoveryTxFlush s)" "quiet s (discardPendingDiscoveryNonCerts s)"
  "quiet s (sendBFTMessageNow r pl ty s)" "quiet s (scheduleNextCertRetry env s)"
  "quiet s (scheduleNextStopZoneCertGossip env s)"
proof -
  show "quiet s (stopCertBroadcastRetries s)"
    by (simp add: quiet_def) (simp add: stopCertBroadcastRetries_def retrying_def)
  then show "quiet s (scheduleNextCertRetry env s)"
    by (simp add: quiet_def) (simp add: scheduleNextCertRetry_def)
  show "quiet s (discardPendingDiscoveryNonCerts s)"
    by (simp add: quiet_def) (auto simp: discardPendingDiscoveryNonCerts_def own_queued_def)
qed (simp_all add: quiet_def, simp_all add: stopStopZoneCertGossip_def evaluateOrderReadiness_call_def
    sendBFTMessageNow_def air_def scheduleNextStopZoneCertGossip_def Let_def)

lemma quiet_gossip: "quiet s (broadcastCollectedCerts env s)" "quiet s (startStopZoneCertGossip env im s)"
proof -
  have b: "quiet s (broadcastCollectedCerts env s)" for s :: "'a AppState"
    by (simp add: broadcastCollectedCerts_def Let_def quiet_send_certs)
  then show "quiet s (broadcastCollectedCerts env s)" .
  have d: "quiet s (s\<lparr>ap_cert_gossip_deadline := i\<rparr>)" for i by (simp add: quiet_def)
  show "quiet s (startStopZoneCertGossip env im s)"
    by (simp add: startStopZoneCertGossip_def Let_def quiet_ops(8) quiet_trans [OF d quiet_ops(8)]
        quiet_trans [OF b quiet_ops(8)] quiet_trans [OF d quiet_trans [OF b quiet_ops(8)]])
qed

lemma quiet_cx_upd:
  "quiet s (s\<lparr>ap_cx := (ap_cx s)\<lparr>cx_echo_collector := b\<rparr>\<rparr>)"
  "quiet s (s\<lparr>ap_cx := (ap_cx s)\<lparr>cx_cancel_initiated := c\<rparr>\<rparr>)"
  "quiet s (s\<lparr>ap_cx := (ap_cx s)\<lparr>cx_echo_sent := a\<rparr>\<rparr>)" "quiet s (beginWitnessing s)"
  by (simp_all add: quiet_def core_cx_upd) (simp_all add: beginWitnessing_def)

lemma quiet_sendCancelEcho: "quiet s (sendCancelEcho env e r ref s)"
proof -
  have w: "quiet s (beginWitnessing (s\<lparr>ap_cx := (ap_cx s)\<lparr>cx_echo_sent := a\<rparr>\<rparr>))" for a
    by (rule quiet_trans [OF quiet_cx_upd(3) quiet_cx_upd(4)])
  show ?thesis
    unfolding sendCancelEcho_def Let_def
    by (simp only: quiet_refl w quiet_trans [OF w quiet_trans [OF quiet_send quiet_cx_upd(1)]] simp_thms
        split: option.split if_split)
qed

lemma quiet_rollback: "quiet s (maybeTriggerEmergencyRollback env amb car s)"
  unfolding maybeTriggerEmergencyRollback_def Let_def
  by (simp only: quiet_refl quiet_trans [OF quiet_cx_upd(2) quiet_sendCancelEcho] simp_thms split: if_split)

section \<open>Simulation\<close>

text \<open>
  An operation that leaves the round, the two broadcast flags and the own certificates alone.
\<close>

definition same_round :: "'d AppState \<Rightarrow> 'd AppState \<Rightarrow> bool" where
  "same_round s t \<longleftrightarrow> round_of t = round_of s \<and> ap_cert_broadcast t = ap_cert_broadcast s \<and>
     ap_stopped_distance_cert_broadcast t = ap_stopped_distance_cert_broadcast s \<and>
     own_queued t \<subseteq> own_queued s \<and> (retrying t \<longrightarrow> retrying s)"

definition sim :: "'d AppState \<Rightarrow> 'd AppState \<Rightarrow> bool" where
  "sim s t \<longleftrightarrow> (round_inv s \<longrightarrow> round_inv t \<and> round_rule\<^sup>*\<^sup>* (round_of s) (round_of t))"

lemma quiet_same: "quiet s t \<Longrightarrow> same_round s t"
  using core_eq(10,20,21) [of t s] by (simp add: quiet_def same_round_def round_of_def)

lemma same_refl [simp]: "same_round s s"
  by (simp add: same_round_def)

lemma same_trans: "same_round s t \<Longrightarrow> same_round t u \<Longrightarrow> same_round s u"
  by (auto simp: same_round_def)

lemma same_sim: "same_round s t \<Longrightarrow> sim s t"
  by (auto simp: same_round_def sim_def round_inv_def round_of_def)

lemma sim_refl [simp]: "sim s s"
  by (simp add: sim_def)

lemma sim_trans: "sim s t \<Longrightarrow> sim t u \<Longrightarrow> sim s u"
  by (auto simp: sim_def)

lemma sim_rule:
  assumes "round_rule (round_of s) (round_of t)" and "round_inv s \<Longrightarrow> round_inv t"
  shows "sim s t"
  using assms by (auto simp: sim_def)

lemma same_upd:
  "same_round s (s\<lparr>ap_finalize_timer := a, ap_threshold_reached_at := i\<rparr>)"
  "same_round s (s\<lparr>ap_attestation_retry_timer := a\<rparr>)" "same_round s (s\<lparr>ap_distance_finalize_timer := a\<rparr>)"
  "same_round s (s\<lparr>ap_deadline_timer := a\<rparr>)" "same_round s (s\<lparr>ap_settle_timer := a\<rparr>)"
  by (simp_all add: same_round_def round_of_def own_queued_def retrying_def)

lemma same_cancel_timers:
  "same_round s (cancelArrivalCertFinalizeTimer s)" "same_round s (cancelStoppedDistanceAttestationRetry s)"
  "same_round s (cancelStoppedDistanceFinalizeTimer s)"
  using same_upd(1,2) same_trans [OF same_upd(3) same_upd(2)]
  by (simp_all add: cancelArrivalCertFinalizeTimer_def cancelStoppedDistanceAttestationRetry_def
      cancelStoppedDistanceFinalizeTimer_def)

lemma same_arm: "same_round s (armDiscoveryTimers env s)"
  by (simp add: armDiscoveryTimers_def Let_def same_round_def round_of_def own_queued_def retrying_def)

lemma same_begin_distance: "same_round s (beginStoppedDistanceCollection env s)"
proof -
  have "own_queued (s\<lparr>ap_pending_txs := filter P (ap_pending_txs s)\<rparr>) \<subseteq> own_queued s" for P and s :: "'a AppState"
    by (auto simp: own_queued_def)
  then show ?thesis
    unfolding beginStoppedDistanceCollection_def Let_def same_round_def round_of_def
    by (simp add: stopStopZoneCertGossip_def) (auto simp: own_queued_def retrying_def)
qed

section \<open>Publishing the local certificates\<close>

lemma published_arrival:
  "round_of (publishArrivalCert env cert s) = (dr_state (ap_discovery s), QUEUED, dr_localDistanceCert (ap_discovery s))"
  "ap_cert_broadcast (publishArrivalCert env cert s) = ap_cert_broadcast s"
  "ap_stopped_distance_cert_broadcast (publishArrivalCert env cert s) = ap_stopped_distance_cert_broadcast s"
  "own_queued (publishArrivalCert env cert s) \<subseteq> insert kArrivalCertType (own_queued s)"
proof -
  define s1 where "s1 = s\<lparr>ap_discovery := (ap_discovery s)\<lparr>dr_localCert := QUEUED\<rparr>\<rparr>"
  define s2 where "s2 = sendBFTMessage env (- 1) (serializeArrivalCert cert) kArrivalCertType True False s1"
  define s3 where "s3 = (if ev_enable_cert_retries env
    then scheduleNextCertRetry env (s2\<lparr>ap_cert_pending_retries := cert, ap_cert_retry_count := 0, ap_cert_retry_timer := None\<rparr>)
    else s2)"
  define s4 where "s4 = (if om_get (ap_collected_certs s3) (ac_carId cert) = None
    then s3\<lparr>ap_collected_certs := om_put (ac_carId cert) cert (ap_collected_certs s3)\<rparr> else s3)"
  define s5 where "s5 = (if om_get (ap_collected_certs s3) (ac_carId cert) = None
    then maybeTriggerEmergencyRollback env (ac_isAmbulance cert) (ac_carId cert) s4 else s4)"
  have "\<exists>im. publishArrivalCert env cert s =
      (if ap_entered_stop_zone s5 \<and> dr_state (ap_discovery s5) = COLLECTING then startStopZoneCertGossip env im s5 else s5)"
    unfolding publishArrivalCert_def Let_def s5_def s4_def s3_def s2_def s1_def by (rule exI) (rule refl)
  then obtain im where pub: "publishArrivalCert env cert s =
      (if ap_entered_stop_zone s5 \<and> dr_state (ap_discovery s5) = COLLECTING then startStopZoneCertGossip env im s5 else s5)" ..
  have "own_queued s2 \<subseteq> insert kArrivalCertType (own_queued s)"
    using own_send(1) [of env "- 1" "serializeArrivalCert cert" kArrivalCertType True False s1]
    by (simp add: s2_def s1_def)
  moreover have "own_queued s3 \<subseteq> own_queued s2"
    using quiet_ops(7) [of "s2\<lparr>ap_cert_pending_retries := cert, ap_cert_retry_count := 0, ap_cert_retry_timer := None\<rparr>" env]
    by (simp add: s3_def quiet_def)
  moreover have "own_queued s4 = own_queued s3" by (simp add: s4_def)
  moreover have "own_queued s5 \<subseteq> own_queued s4"
    using quiet_rollback [of s4 env "ac_isAmbulance cert" "ac_carId cert"] by (simp add: s5_def quiet_def)
  moreover have "own_queued (publishArrivalCert env cert s) \<subseteq> own_queued s5"
    using quiet_gossip(2) [of s5 env im] by (simp add: pub quiet_def)
  ultimately show "own_queued (publishArrivalCert env cert s) \<subseteq> insert kArrivalCertType (own_queued s)"
    by blast
  have "ap_discovery s5 = ap_discovery s1" "ap_cert_broadcast s5 = ap_cert_broadcast s"
    "ap_stopped_distance_cert_broadcast s5 = ap_stopped_distance_cert_broadcast s"
    by (simp_all add: s5_def s4_def s3_def s2_def) (simp_all add: s1_def)
  then show "round_of (publishArrivalCert env cert s) =
      (dr_state (ap_discovery s), QUEUED, dr_localDistanceCert (ap_discovery s))"
    "ap_cert_broadcast (publishArrivalCert env cert s) = ap_cert_broadcast s"
    "ap_stopped_distance_cert_broadcast (publishArrivalCert env cert s) = ap_stopped_distance_cert_broadcast s"
    by (simp_all add: pub round_of_def s1_def)
qed

lemma published_distance:
  "round_of (publishDistanceCert env dcert s) = (dr_state (ap_discovery s), dr_localCert (ap_discovery s), QUEUED)"
  "ap_cert_broadcast (publishDistanceCert env dcert s) = ap_cert_broadcast s"
  "ap_stopped_distance_cert_broadcast (publishDistanceCert env dcert s)"
  "own_queued (publishDistanceCert env dcert s) \<subseteq> insert kStoppedDistanceCertType (own_queued s)"
  "retrying (publishDistanceCert env dcert s) = retrying s"
proof -
  let ?s1 = "s\<lparr>ap_stopped_distance_cert_broadcast := True,
      ap_discovery := (ap_discovery s)\<lparr>dr_localDistanceCert := QUEUED\<rparr>\<rparr>"
  let ?s2 = "sendBFTMessage env (- 1) (serializeStoppedDistanceCert dcert) kStoppedDistanceCertType True False ?s1"
  show "own_queued (publishDistanceCert env dcert s) \<subseteq> insert kStoppedDistanceCertType (own_queued s)"
    using own_send(1) [of env "- 1" "serializeStoppedDistanceCert dcert" kStoppedDistanceCertType True False ?s1]
      own_enqueue(1) [of "- 1" "serializeStoppedDistanceCert dcert" kStoppedDistanceCertType _ True False ?s2]
    by (fastforce simp: publishDistanceCert_def Let_def)
qed (simp_all add: publishDistanceCert_def Let_def round_of_def own_send(2) own_enqueue(2))

section \<open>The nested calls\<close>

text \<open>An own certificate is queued and the round has not completed.\<close>

definition own_waiting :: "'d AppState \<Rightarrow> bool" where
  "own_waiting s \<longleftrightarrow> (dr_state (ap_discovery s) = COLLECTING \<or> dr_state (ap_discovery s) = DRAINING_CERTS) \<and>
     (dr_localCert (ap_discovery s) = QUEUED \<or> dr_localDistanceCert (ap_discovery s) = QUEUED)"

definition sound :: "('d AppState \<Rightarrow> 'd AppState) \<Rightarrow> bool" where
  "sound f \<longleftrightarrow> (\<forall>s. sim s (f s)) \<and> (\<forall>s. own_waiting s \<longrightarrow> own_waiting (f s))"

lemma soundD: "sound f \<Longrightarrow> sim s (f s)" "sound f \<Longrightarrow> own_waiting s \<Longrightarrow> own_waiting (f s)"
  by (simp_all add: sound_def)

lemma same_waiting: "same_round s t \<Longrightarrow> own_waiting t = own_waiting s"
  by (auto simp: same_round_def own_waiting_def round_of_def)

lemma waiting_round: "own_waiting s \<longleftrightarrow> (fst (round_of s) = COLLECTING \<or> fst (round_of s) = DRAINING_CERTS) \<and>
    (fst (snd (round_of s)) = QUEUED \<or> snd (snd (round_of s)) = QUEUED)"
  by (simp add: own_waiting_def round_of_def)

lemma publish_arrival_sim:
  assumes "\<not> ap_cert_broadcast s"
  shows "sim s (publishArrivalCert env cert ((cancelArrivalCertFinalizeTimer s)\<lparr>ap_cert_broadcast := True\<rparr>))"
proof -
  let ?s1 = "(cancelArrivalCertFinalizeTimer s)\<lparr>ap_cert_broadcast := True\<rparr>"
  let ?t = "publishArrivalCert env cert ?s1"
  have c: "ap_discovery ?s1 = ap_discovery s" "ap_stopped_distance_cert_broadcast ?s1 = ap_stopped_distance_cert_broadcast s"
    "own_queued ?s1 = own_queued s" "ap_cert_broadcast ?s1"
    by (simp_all add: cancelArrivalCertFinalizeTimer_def own_queued_def)
  note p = published_arrival [of env cert ?s1, unfolded c]
  have "round_rule\<^sup>*\<^sup>* (round_of s) (round_of ?t)" if "round_inv s"
    using that assms round_rule.assemble_arrival [of "dr_state (ap_discovery s)" "dr_localDistanceCert (ap_discovery s)"]
    unfolding p(1) by (simp add: round_inv_def round_of_def)
  moreover have "round_inv ?t" if "round_inv s"
    using that p(1,2,3,4) c(4) by (auto simp: round_inv_def round_of_def msg_types)
  ultimately show ?thesis by (simp add: sim_def)
qed

lemma publish_distance_sim:
  assumes "\<not> ap_stopped_distance_cert_broadcast s"
  shows "sim s (publishDistanceCert env dcert (cancelStoppedDistanceAttestationRetry (cancelStoppedDistanceFinalizeTimer s)))"
proof -
  let ?s1 = "cancelStoppedDistanceAttestationRetry (cancelStoppedDistanceFinalizeTimer s)"
  let ?t = "publishDistanceCert env dcert ?s1"
  have c: "ap_discovery ?s1 = ap_discovery s" "ap_cert_broadcast ?s1 = ap_cert_broadcast s"
    "own_queued ?s1 = own_queued s" "retrying ?s1 = retrying s"
    by (simp_all add: cancelStoppedDistanceFinalizeTimer_def cancelStoppedDistanceAttestationRetry_def own_queued_def retrying_def)
  note p = published_distance [of env dcert ?s1, unfolded c]
  have "round_rule\<^sup>*\<^sup>* (round_of s) (round_of ?t)" if "round_inv s"
    using that assms round_rule.assemble_distance [of "dr_state (ap_discovery s)" "dr_localCert (ap_discovery s)"]
    unfolding p(1) by (simp add: round_inv_def round_of_def)
  moreover have "round_inv ?t" if "round_inv s"
    using that p by (auto simp: round_inv_def round_of_def msg_types)
  ultimately show ?thesis by (simp add: sim_def)
qed

text \<open>Finalizing leaves the state of the round, or leads to one with an own certificate waiting.\<close>

lemma finalizeA_sound:
  assumes "sound f"
  shows "sim s (finalizeLocalArrivalCert_with env f s)"
    and "dr_state (ap_discovery s) = COLLECTING \<or> own_waiting s \<Longrightarrow>
      finalizeLocalArrivalCert_with env f s = s \<or> own_waiting (finalizeLocalArrivalCert_with env f s)"
proof -
  show "sim s (finalizeLocalArrivalCert_with env f s)"
    by (rule finalizeA_step [of env s])
      (simp_all add: sim_trans [OF publish_arrival_sim soundD(1) [OF assms]])
  assume st: "dr_state (ap_discovery s) = COLLECTING \<or> own_waiting s"
  show "finalizeLocalArrivalCert_with env f s = s \<or> own_waiting (finalizeLocalArrivalCert_with env f s)"
  proof (rule finalizeA_step [of env s])
    fix cert
    let ?t = "publishArrivalCert env cert ((cancelArrivalCertFinalizeTimer s)\<lparr>ap_cert_broadcast := True\<rparr>)"
    assume f: "\<And>f. finalizeLocalArrivalCert_with env f s = f ?t"
    have "ap_discovery ((cancelArrivalCertFinalizeTimer s)\<lparr>ap_cert_broadcast := True\<rparr>) = ap_discovery s"
      by (simp add: cancelArrivalCertFinalizeTimer_def)
    then have "own_waiting ?t"
      using st unfolding waiting_round [of ?t] published_arrival(1) by (auto simp: own_waiting_def)
    then show ?thesis using soundD(2) [OF assms] by (simp add: f)
  qed simp
qed

lemma finalizeD_sound:
  assumes "sound f"
  shows "sim s (finalizeLocalStoppedDistanceCert_with env f s)"
    and "dr_state (ap_discovery s) = COLLECTING \<or> own_waiting s \<Longrightarrow>
      same_round s (finalizeLocalStoppedDistanceCert_with env f s) \<or>
      own_waiting (finalizeLocalStoppedDistanceCert_with env f s)"
proof -
  have same: "same_round s (cancelStoppedDistanceAttestationRetry (cancelStoppedDistanceFinalizeTimer s))"
    by (rule same_trans [OF same_cancel_timers(3) same_cancel_timers(2)])
  show "sim s (finalizeLocalStoppedDistanceCert_with env f s)"
    by (rule finalizeD_step [of env s])
      (simp_all add: same_sim [OF same] sim_trans [OF publish_distance_sim soundD(1) [OF assms]])
  assume st: "dr_state (ap_discovery s) = COLLECTING \<or> own_waiting s"
  show "same_round s (finalizeLocalStoppedDistanceCert_with env f s) \<or>
      own_waiting (finalizeLocalStoppedDistanceCert_with env f s)"
  proof (rule finalizeD_step [of env s])
    fix cert
    let ?s1 = "cancelStoppedDistanceAttestationRetry (cancelStoppedDistanceFinalizeTimer s)"
    let ?t = "publishDistanceCert env cert ?s1"
    assume f: "\<And>f. finalizeLocalStoppedDistanceCert_with env f s = f ?t"
    have "ap_discovery ?s1 = ap_discovery s"
      by (simp add: cancelStoppedDistanceFinalizeTimer_def cancelStoppedDistanceAttestationRetry_def)
    then have "own_waiting ?t"
      using st unfolding waiting_round [of ?t] published_distance(1) by (auto simp: own_waiting_def)
    then show ?thesis using soundD(2) [OF assms] by (simp add: f)
  qed (simp_all add: same)
qed

section \<open>Draining and completing\<close>

lemma finished_round:
  assumes "dr_state (ap_discovery s) = DRAINING_CERTS"
  shows "round_of (finishDiscoveryRound s) = (COMPLETE, dr_localCert (ap_discovery s), dr_localDistanceCert (ap_discovery s))"
    and "round_inv s \<Longrightarrow> round_inv (finishDiscoveryRound s)"
proof -
  let ?s1 = "s\<lparr>ap_discovery := (ap_discovery s)\<lparr>dr_state := COMPLETE\<rparr>\<rparr>"
  have "quiet ?s1 (stopStopZoneCertGossip (stopCertBroadcastRetries ?s1))"
    by (rule quiet_trans [OF quiet_ops(1) quiet_ops(2)])
  then have "same_round ?s1 (finishDiscoveryRound s)"
    using assms quiet_same [OF quiet_trans [OF _ quiet_ops(3)]] by (simp add: finishDiscoveryRound_def)
  moreover have "round_of ?s1 = (COMPLETE, dr_localCert (ap_discovery s), dr_localDistanceCert (ap_discovery s))"
    by (simp add: round_of_def)
  moreover have "round_inv s \<Longrightarrow> round_inv ?s1"
    by (simp add: round_inv_def)
  ultimately show
    "round_of (finishDiscoveryRound s) = (COMPLETE, dr_localCert (ap_discovery s), dr_localDistanceCert (ap_discovery s))"
    "round_inv s \<Longrightarrow> round_inv (finishDiscoveryRound s)"
    using same_sim [of ?s1 "finishDiscoveryRound s"] by (simp_all add: sim_def same_round_def)
qed

lemma complete_cases:
  "maybeCompleteDiscoveryDrain s = s \<or>
   (dr_state (ap_discovery s) = DRAINING_CERTS \<and> dr_localCert (ap_discovery s) \<noteq> QUEUED \<and>
    dr_localDistanceCert (ap_discovery s) \<noteq> QUEUED \<and> \<not> hasPendingDiscoveryCerts s (dr_epoch (ap_discovery s)) \<and>
    maybeCompleteDiscoveryDrain s = finishDiscoveryRound s)"
  by (simp add: maybeCompleteDiscoveryDrain_def Let_def localCertAssembled_def localCertAired_def
      localDistanceCertAssembled_def localDistanceCertAired_def)

lemma complete_sim: "sim s (maybeCompleteDiscoveryDrain s)"
  using complete_cases [of s]
proof (elim disjE conjE)
  assume d: "dr_state (ap_discovery s) = DRAINING_CERTS" "dr_localCert (ap_discovery s) \<noteq> QUEUED"
    "dr_localDistanceCert (ap_discovery s) \<noteq> QUEUED" "maybeCompleteDiscoveryDrain s = finishDiscoveryRound s"
  have "round_rule (round_of s) (round_of (finishDiscoveryRound s))"
    unfolding finished_round(1) [OF d(1)] using d by (simp add: round_of_def round_rule.complete)
  then show ?thesis using sim_rule finished_round(2) [OF d(1)] d(4) by metis
qed simp

lemma complete_waits: "own_waiting s \<Longrightarrow> maybeCompleteDiscoveryDrain s = s"
  using complete_cases [of s] by (auto simp: own_waiting_def)

lemma drain_sound:
  assumes "sound f"
  shows "sound (beginDiscoveryDrain_with env f d)"
proof -
  have "sim s (beginDiscoveryDrain_with env f d s) \<and>
      (own_waiting s \<longrightarrow> own_waiting (beginDiscoveryDrain_with env f d s))" for s :: "'a AppState"
  proof (cases "dr_state (ap_discovery s) = COLLECTING")
    case True
    define s2 where "s2 = finalizeLocalStoppedDistanceCert_with env f (finalizeLocalArrivalCert_with env f s)"
    define s3 where "s3 = s2\<lparr>ap_discovery := (ap_discovery s2)\<lparr>dr_state := DRAINING_CERTS,
                   dr_closeReason := (if d then DEADLINE else STABILIZED)\<rparr>,
                 ap_stopped_distance_collection_active := False, ap_deadline_timer := None,
                 ap_settle_timer := None, ap_announce_timer := None\<rparr>"
    define s4 where "s4 = discardPendingDiscoveryNonCerts (stopStopZoneCertGossip s3)"
    have drain: "beginDiscoveryDrain_with env f d s = maybeCompleteDiscoveryDrain s4"
      using True by (simp add: beginDiscoveryDrain_with_def Let_def s2_def s3_def s4_def)
    have A: "finalizeLocalArrivalCert_with env f s = s \<or> own_waiting (finalizeLocalArrivalCert_with env f s)"
      using finalizeA_sound(2) [OF assms] True by blast
    have D: "same_round (finalizeLocalArrivalCert_with env f s) s2 \<or> own_waiting s2"
      using finalizeD_sound(2) [OF assms, of "finalizeLocalArrivalCert_with env f s"] A True
      unfolding s2_def by metis
    have q: "same_round s3 s4"
      unfolding s4_def by (rule quiet_same [OF quiet_trans [OF quiet_ops(2) quiet_ops(5)]])
    have state: "dr_state (ap_discovery s2) = COLLECTING \<or> own_waiting s2"
      using A D True by (metis same_waiting same_round_def round_of_def prod.inject)
    have r3: "round_of s3 = (DRAINING_CERTS, dr_localCert (ap_discovery s2), dr_localDistanceCert (ap_discovery s2))"
      by (simp add: s3_def round_of_def)
    have "round_rule\<^sup>*\<^sup>* (round_of s2) (round_of s3)"
      using state round_rule.drain unfolding r3 by (auto simp: round_of_def own_waiting_def)
    moreover have "round_inv s2 \<Longrightarrow> round_inv s3"
      by (simp add: s3_def round_inv_def own_queued_def retrying_def)
    ultimately have "sim s2 s3" by (simp add: sim_def)
    moreover have "sim s s2"
      unfolding s2_def by (rule sim_trans [OF finalizeA_sound(1) [OF assms] finalizeD_sound(1) [OF assms]])
    ultimately have "sim s (maybeCompleteDiscoveryDrain s4)"
      using same_sim [OF q] complete_sim by (blast intro: sim_trans)
    moreover have "own_waiting (maybeCompleteDiscoveryDrain s4)" if "own_waiting s"
    proof -
      have "own_waiting s2" using A D that same_waiting by metis
      then have "own_waiting s3" unfolding waiting_round [of s3] r3 by (simp add: own_waiting_def)
      then show ?thesis using same_waiting [OF q] complete_waits by metis
    qed
    ultimately show ?thesis by (simp add: drain)
  qed (simp add: beginDiscoveryDrain_with_def)
  then show ?thesis by (simp add: sound_def)
qed

lemma same_sound: "(\<And>s. same_round s (f s)) \<Longrightarrow> sound f"
  using same_sim same_waiting by (fastforce simp: sound_def)

lemma advance_sound:
  assumes "sound f"
  shows "sound (maybeAdvanceDiscovery_with env f d)"
  using soundD [OF drain_sound [OF assms]]
  by (simp add: sound_def maybeAdvanceDiscovery_with_def same_sim [OF same_begin_distance]
      same_sim [OF same_arm] same_waiting [OF same_begin_distance] same_waiting [OF same_arm])

lemma levels_sound: "sound (advance_levels n env)"
  by (induction n) (simp_all add: advance_sound same_sound)

lemma discovery_sound:
  "sound (maybeAdvanceDiscovery env d)" "sound (beginDiscoveryDrain env d)"
proof -
  have "maybeAdvanceDiscovery env d = maybeAdvanceDiscovery_with env (advance_levels 3 env) d"
    by (rule ext) (rule maybeAdvanceDiscovery_def)
  then show "sound (maybeAdvanceDiscovery env d)" by (simp only: advance_sound levels_sound)
  show "sound (beginDiscoveryDrain env d)"
    unfolding beginDiscoveryDrain_def three_levels by (rule drain_sound [OF levels_sound])
qed

section \<open>Flushing\<close>

definition due_ok :: "PendingDiscoveryTx list \<Rightarrow> 'd AppState \<Rightarrow> bool" where
  "due_ok ps s \<longleftrightarrow> (\<forall>p \<in> set ps. tx_localCert p \<longrightarrow>
     (tx_msgType p = kArrivalCertType \<longrightarrow> dr_localCert (ap_discovery s) \<noteq> NOT_ASSEMBLED) \<and>
     (tx_msgType p = kStoppedDistanceCertType \<longrightarrow> dr_localDistanceCert (ap_discovery s) \<noteq> NOT_ASSEMBLED))"

lemma flush_one_cases:
  "same_round s (flush_one p s) \<or>
   tx_localCert p \<and> \<not> flush_drops s p \<and> tx_msgType p = kArrivalCertType \<and>
     same_round (s\<lparr>ap_discovery := (ap_discovery s)\<lparr>dr_localCert := AIRED\<rparr>\<rparr>) (flush_one p s) \<or>
   tx_localCert p \<and> \<not> flush_drops s p \<and> tx_msgType p = kStoppedDistanceCertType \<and>
     same_round (s\<lparr>ap_discovery := (ap_discovery s)\<lparr>dr_localDistanceCert := AIRED\<rparr>\<rparr>) (flush_one p s)"
proof (cases "flush_drops s p")
  case False
  define s1 where "s1 = sendBFTMessageNow (tx_toReplicaId p) (tx_payload p) (tx_msgType p) s"
  have q: "same_round s s1" unfolding s1_def by (rule quiet_same [OF quiet_ops(6)])
  have upd: "same_round (s\<lparr>ap_discovery := (ap_discovery s)\<lparr>dr_localCert := x\<rparr>\<rparr>)
      (s1\<lparr>ap_discovery := (ap_discovery s1)\<lparr>dr_localCert := x\<rparr>\<rparr>)"
    "same_round (s\<lparr>ap_discovery := (ap_discovery s)\<lparr>dr_localDistanceCert := x\<rparr>\<rparr>)
      (s1\<lparr>ap_discovery := (ap_discovery s1)\<lparr>dr_localDistanceCert := x\<rparr>\<rparr>)" for x
    using q by (simp_all add: same_round_def round_of_def)
  have ne: "kArrivalCertType \<noteq> kStoppedDistanceCertType" by (simp add: msg_types)
  show ?thesis
    using False ne q upd(2) upd(1) same_trans [OF upd(1) quiet_same [OF quiet_ops(1)]]
    by (simp add: flush_one_def Let_def s1_def [symmetric])
qed (simp add: flush_one_def)

lemma flush_one_sim: "due_ok (p # ps) s \<Longrightarrow> sim s (flush_one p s) \<and> due_ok ps (flush_one p s)"
  using flush_one_cases [of s p]
proof (elim disjE conjE)
  assume d: "due_ok (p # ps) s" and l: "tx_localCert p" "tx_msgType p = kArrivalCertType"
    and q: "same_round (s\<lparr>ap_discovery := (ap_discovery s)\<lparr>dr_localCert := AIRED\<rparr>\<rparr>) (flush_one p s)" (is "same_round ?t _")
  have c: "dr_localCert (ap_discovery s) \<noteq> NOT_ASSEMBLED" using d l by (simp add: due_ok_def)
  have "round_rule (round_of s) (round_of ?t)" using c by (simp add: round_of_def round_rule.air_arrival)
  moreover have "round_inv s \<Longrightarrow> round_inv ?t" using c by (auto simp: round_inv_def)
  ultimately have "sim s ?t" by (rule sim_rule)
  then have "sim s (flush_one p s)" by (rule sim_trans [OF _ same_sim [OF q]])
  moreover have "due_ok ps ?t" using d by (simp add: due_ok_def)
  then have "due_ok ps (flush_one p s)" using q by (simp add: due_ok_def same_round_def round_of_def)
  ultimately show ?thesis ..
next
  assume d: "due_ok (p # ps) s" and l: "tx_localCert p" "tx_msgType p = kStoppedDistanceCertType"
    and q: "same_round (s\<lparr>ap_discovery := (ap_discovery s)\<lparr>dr_localDistanceCert := AIRED\<rparr>\<rparr>) (flush_one p s)" (is "same_round ?t _")
  have c: "dr_localDistanceCert (ap_discovery s) \<noteq> NOT_ASSEMBLED" using d l by (simp add: due_ok_def)
  have "round_rule (round_of s) (round_of ?t)" using c by (simp add: round_of_def round_rule.air_distance)
  moreover have "round_inv s \<Longrightarrow> round_inv ?t" using c by (auto simp: round_inv_def)
  ultimately have "sim s ?t" by (rule sim_rule)
  then have "sim s (flush_one p s)" by (rule sim_trans [OF _ same_sim [OF q]])
  moreover have "due_ok ps ?t" using d by (simp add: due_ok_def)
  then have "due_ok ps (flush_one p s)" using q by (simp add: due_ok_def same_round_def round_of_def)
  ultimately show ?thesis ..
next
  assume "due_ok (p # ps) s" and q: "same_round s (flush_one p s)"
  then show ?thesis using same_sim [OF q] by (simp add: due_ok_def same_round_def round_of_def)
qed

lemma flush_all_sim: "due_ok ps s \<Longrightarrow> sim s (flush_all ps s)"
proof (induction ps arbitrary: s)
  case (Cons p ps)
  then show ?case using flush_one_sim [OF Cons.prems] by (auto intro: sim_trans)
qed simp

lemma flush_sim: "sim s (flushDueDiscoveryTxs s)"
proof -
  let ?due = "filter (\<lambda>p. tx_fireTime p \<le> ap_now s) (ap_pending_txs s)"
  let ?s1 = "s\<lparr>ap_pending_txs := filter (\<lambda>p. \<not> tx_fireTime p \<le> ap_now s) (ap_pending_txs s)\<rparr>"
  have "same_round s ?s1"
    by (auto simp: same_round_def round_of_def own_queued_def retrying_def)
  moreover have "due_ok ?due ?s1" if "round_inv s"
    using that by (auto simp: due_ok_def round_inv_def own_queued_def)
  ultimately have "sim s (flush_all ?due ?s1)"
    using same_sim [of s ?s1] flush_all_sim [of ?due ?s1] by (auto simp: sim_def)
  then have "sim s (scheduleDiscoveryTxFlush (flush_all ?due ?s1))"
    by (rule sim_trans [OF _ same_sim [OF quiet_same [OF quiet_ops(4)]]])
  then show ?thesis
    unfolding flushDueDiscoveryTxs_def Let_def by (rule sim_trans [OF _ complete_sim])
qed

section \<open>The other operations\<close>

lemma note_sim: "sim s (noteDiscoveryIntent env carId s)"
proof -
  have arm: "sim (s\<lparr>ap_discovery := (ap_discovery s)\<lparr>dr_lastNewIntentAt := n\<rparr>\<rparr>)
      (armDiscoveryTimers env (s\<lparr>ap_discovery := (ap_discovery s)\<lparr>dr_lastNewIntentAt := n\<rparr>\<rparr>))" for s :: "'a AppState" and n
    by (rule same_sim [OF same_arm])
  have intent: "sim s (s\<lparr>ap_discovery := (ap_discovery s)\<lparr>dr_lastNewIntentAt := n\<rparr>\<rparr>)" for s :: "'a AppState" and n
    by (rule same_sim) (simp add: same_round_def round_of_def)
  define r where "r = (resetOrderCandidate s)\<lparr>ap_discovery := (ap_discovery (resetOrderCandidate s))\<lparr>dr_state := COLLECTING,
      dr_closeReason := CLOSE_NONE\<rparr>, ap_vc_trigger := None\<rparr>"
  have "sim s r" if "dr_state (ap_discovery s) = DRAINING_CERTS \<or> dr_state (ap_discovery s) = COMPLETE"
    using that round_rule.reopen
    by (intro sim_rule) (auto simp: r_def resetOrderCandidate_def round_of_def round_inv_def own_queued_def retrying_def)
  moreover have "sim r (r\<lparr>ap_announce_timer := x\<rparr>)" for x
    by (rule same_sim) (simp add: same_round_def round_of_def own_queued_def retrying_def)
  moreover define s1 where "s1 = (if dr_state (ap_discovery s) = DRAINING_CERTS \<or> dr_state (ap_discovery s) = COMPLETE
      then if ap_announce_timer r = None
        then r\<lparr>ap_announce_timer := Some (ap_now r + ev_announcement_interval env)\<rparr> else r
      else s)"
  ultimately have "sim s s1"
    using sim_trans [of s r] by (simp split: if_split)
  moreover have "noteDiscoveryIntent env carId s =
      (if carId = [] \<or> ap_propose_submitted s \<or> ap_order_applied s \<or> ap_current_phase s = DEPARTED then s
       else armDiscoveryTimers env (s1\<lparr>ap_discovery := (ap_discovery s1)\<lparr>dr_lastNewIntentAt := ap_now s1\<rparr>\<rparr>))"
    unfolding noteDiscoveryIntent_def Let_def r_def [symmetric] s1_def [symmetric] ..
  ultimately show ?thesis
    using sim_trans [OF _ sim_trans [OF intent arm], of s s1] by simp
qed

lemma retry_sim: "sim s (onCertRetryTimer env s)"
proof -
  let ?s0 = "s\<lparr>ap_cert_retry_timer := None\<rparr>"
  let ?s0' = "?s0\<lparr>ap_cert_retry_count := ap_cert_retry_count ?s0 + 1\<rparr>"
  let ?s1 = "sendBFTMessage env (- 1) (serializeArrivalCert (ap_cert_pending_retries ?s0)) kArrivalCertType True False ?s0'"
  have s0: "same_round s ?s0" by (simp add: same_round_def round_of_def)
  have "sim s ?s1" if "ac_carId (ap_cert_pending_retries s) \<noteq> []"
  proof -
    have "own_queued ?s1 \<subseteq> insert kArrivalCertType (own_queued s)"
      using own_send(1) [of env "- 1" "serializeArrivalCert (ap_cert_pending_retries ?s0)" kArrivalCertType True False ?s0']
      by simp
    then show ?thesis
      using that by (auto simp: sim_def round_inv_def round_of_def own_send(2) retrying_def msg_types)
  qed
  then show ?thesis
    by (simp add: onCertRetryTimer_def Let_def same_sim [OF s0]
        sim_trans [OF _ same_sim [OF quiet_same [OF quiet_ops(1)]]]
        sim_trans [OF _ same_sim [OF quiet_same [OF quiet_ops(7)]]])
qed

lemma deactivate_sim: "sim s (deactivateDiscovery s)"
proof -
  define s1 where "s1 = (cancelStoppedDistanceFinalizeTimer (cancelArrivalCertFinalizeTimer s))\<lparr>
      ap_deadline_timer := None, ap_settle_timer := None\<rparr>"
  define s2 where "s2 = stopStopZoneCertGossip (stopCertBroadcastRetries s1)"
  define s3 where "s3 = cancelPendingDiscoveryTxs s2"
  have "same_round s s1"
    by (simp add: s1_def cancelStoppedDistanceFinalizeTimer_def cancelStoppedDistanceAttestationRetry_def
        cancelArrivalCertFinalizeTimer_def same_round_def round_of_def own_queued_def retrying_def)
  moreover have "same_round s1 s2"
    unfolding s2_def by (rule quiet_same [OF quiet_trans [OF quiet_ops(1) quiet_ops(2)]])
  moreover have "same_round s2 s3"
    by (auto simp: s3_def cancelPendingDiscoveryTxs_def same_round_def round_of_def own_queued_def retrying_def)
  ultimately have "sim s s3"
    by (blast intro: sim_trans same_sim)
  moreover have "sim s3 (deactivateDiscovery s)"
    by (rule sim_rule)
      (simp_all add: deactivateDiscovery_def Let_def s1_def [symmetric] s2_def [symmetric] s3_def [symmetric]
        round_of_def round_rule.deactivate round_inv_def own_queued_def retrying_def)
  ultimately show ?thesis by (rule sim_trans)
qed

lemma restart_sim:
  assumes "own_queued s = {}" and "\<not> retrying s" and "ap_current_phase s \<noteq> DEPARTED" and "\<not> ap_is_departed s"
  shows "sim s (startDiscoveryRound env (s\<lparr>ap_cert_broadcast := False\<rparr>))"
proof -
  let ?s0 = "s\<lparr>ap_cert_broadcast := False\<rparr>"
  let ?s1 = "cancelStoppedDistanceFinalizeTimer (cancelArrivalCertFinalizeTimer ?s0)"
  define s2 where "s2 = resetOrderCandidate (?s1\<lparr>ap_my_received_distance_echoes := [], ap_local_distance_attestation := empty_attestation,
                 ap_stopped_distance_attestation_sent := False, ap_stopped_distance_cert_broadcast := False,
                 ap_attestation_retry_count := 0, ap_stopped_distance_collection_active := False,
                 ap_deadline_timer := None, ap_settle_timer := None,
                 ap_discovery := round_reset (ap_current_epoch ?s1) (ap_now ?s1)\<rparr>)"
  have r: "round_of s2 = (COLLECTING, NOT_ASSEMBLED, NOT_ASSEMBLED)"
    by (simp add: s2_def resetOrderCandidate_def round_reset_def round_of_def)
  have "own_queued s2 = {}" "\<not> retrying s2"
    using assms(1,2)
    by (simp_all add: s2_def resetOrderCandidate_def cancelStoppedDistanceFinalizeTimer_def
        cancelStoppedDistanceAttestationRetry_def cancelArrivalCertFinalizeTimer_def own_queued_def retrying_def)
  then have "round_inv s2"
    using r by (simp add: round_inv_def round_of_def)
  moreover have "round_rule (round_of s) (round_of s2)"
    unfolding r using round_rule.restart by (simp add: round_of_def)
  ultimately have "sim s s2" by (auto simp: sim_def)
  moreover have "startDiscoveryRound env ?s0 = (if ap_entered_stop_zone s2 then armDiscoveryTimers env s2 else s2)"
    using assms(3,4) by (simp add: startDiscoveryRound_def Let_def s2_def)
  ultimately show ?thesis
    by (simp add: sim_trans [OF _ same_sim [OF same_arm]])
qed

section \<open>The steps of a vehicle\<close>

text \<open>
  A step is one operation of the discovery protocol, or anything that leaves the round alone:
  time, reception of messages, sending of frames that are not own certificates. A round is
  started anew with the own queue empty, as \<open>beginPostCancelDiscovery\<close> does.
\<close>

inductive discovery_step :: "'d AppEnv \<Rightarrow> 'd AppState \<Rightarrow> 'd AppState \<Rightarrow> bool" for env where
  elsewhere: "same_round s t \<Longrightarrow> discovery_step env s t"
| new_intent: "discovery_step env s (noteDiscoveryIntent env carId s)"
| advance: "discovery_step env s (maybeAdvanceDiscovery env deadline s)"
| finalize_arrival: "discovery_step env s (finalizeLocalArrivalCert env s)"
| finalize_distance: "discovery_step env s (finalizeLocalStoppedDistanceCert env s)"
| retry: "discovery_step env s (onCertRetryTimer env s)"
| flush: "discovery_step env s (flushDueDiscoveryTxs s)"
| begin_distance: "discovery_step env s (beginStoppedDistanceCollection env s)"
| deactivate: "discovery_step env s (deactivateDiscovery s)"
| restart: "own_queued s = {} \<Longrightarrow> \<not> retrying s \<Longrightarrow> ap_current_phase s \<noteq> DEPARTED \<Longrightarrow> \<not> ap_is_departed s \<Longrightarrow>
    discovery_step env s (startDiscoveryRound env (s\<lparr>ap_cert_broadcast := False\<rparr>))"

lemma step_sim: "discovery_step env s t \<Longrightarrow> sim s t"
proof (induction rule: discovery_step.induct)
  case (finalize_arrival s)
  then show ?case unfolding finalizeLocalArrivalCert_def by (rule finalizeA_sound(1) [OF discovery_sound(1)])
next
  case (finalize_distance s)
  then show ?case unfolding finalizeLocalStoppedDistanceCert_def by (rule finalizeD_sound(1) [OF discovery_sound(1)])
qed (simp_all add: same_sim note_sim soundD(1) [OF discovery_sound(1)] retry_sim flush_sim
    same_begin_distance deactivate_sim restart_sim)

lemma steps_sim: "(discovery_step env)\<^sup>*\<^sup>* s t \<Longrightarrow> sim s t"
  by (induction rule: rtranclp_induct) (auto intro: sim_trans step_sim)

lemma start_inv: "round_inv (startDiscoveryRound env (initial_app server))"
  "round_of (startDiscoveryRound env (initial_app server)) = (COLLECTING, NOT_ASSEMBLED, NOT_ASSEMBLED)"
  by (simp_all add: startDiscoveryRound_def Let_def initial_app_def resetOrderCandidate_def round_inv_def round_of_def
      cancelStoppedDistanceFinalizeTimer_def cancelStoppedDistanceAttestationRetry_def
      cancelArrivalCertFinalizeTimer_def round_reset_def own_queued_def retrying_def empty_cert_def)

text \<open>
  C15: the discovery protocol refines the abstract round. From the first round on, whatever
  sequence of operations runs, the state of the round and of the two local certificates moves
  only along the rules of the abstract machine, and an own certificate is queued or retried
  only if it has been assembled in this round.
\<close>

theorem discovery_refines_round:
  assumes "(discovery_step env)\<^sup>*\<^sup>* (startDiscoveryRound env (initial_app server)) s"
  shows "round_rule\<^sup>*\<^sup>* (COLLECTING, NOT_ASSEMBLED, NOT_ASSEMBLED)
      (dr_state (ap_discovery s), dr_localCert (ap_discovery s), dr_localDistanceCert (ap_discovery s)) \<and> round_inv s"
  using steps_sim [OF assms] start_inv [of env server] by (simp add: sim_def round_of_def)

section \<open>Completion\<close>

definition closes_clean :: "'d AppState \<Rightarrow> 'd AppState \<Rightarrow> bool" where
  "closes_clean s t \<longleftrightarrow> (dr_state (ap_discovery s) \<noteq> COMPLETE \<and> dr_state (ap_discovery t) = COMPLETE \<longrightarrow>
     dr_localCert (ap_discovery t) \<noteq> QUEUED \<and> dr_localDistanceCert (ap_discovery t) \<noteq> QUEUED \<and>
     \<not> hasPendingDiscoveryCerts t (dr_epoch (ap_discovery t)))"

lemma same_clean: "same_round s t \<Longrightarrow> closes_clean s t"
  by (simp add: closes_clean_def same_round_def round_of_def)

lemma complete_clean:
  assumes "dr_state (ap_discovery s) \<noteq> COMPLETE"
  shows "closes_clean r (maybeCompleteDiscoveryDrain s)"
  using complete_cases [of s] assms
  by (auto simp: closes_clean_def finishDiscoveryRound_def evaluateOrderReadiness_call_def stopStopZoneCertGossip_def
      stopCertBroadcastRetries_def hasPendingDiscoveryCerts_def)

lemma drain_clean: "closes_clean s (beginDiscoveryDrain_with env f d s)"
proof (cases "dr_state (ap_discovery s) = COLLECTING")
  case True
  then show ?thesis
    by (simp add: beginDiscoveryDrain_with_def Let_def complete_clean)
qed (simp add: beginDiscoveryDrain_with_def closes_clean_def)

lemma advance_clean: "closes_clean s (maybeAdvanceDiscovery env d s)"
  by (simp add: maybeAdvanceDiscovery_def maybeAdvanceDiscovery_with_def drain_clean
      same_clean [OF same_begin_distance] same_clean [OF same_arm] same_clean [OF same_refl])

lemma open_clean: "dr_state (ap_discovery t) \<noteq> COMPLETE \<Longrightarrow> closes_clean s t"
  by (simp add: closes_clean_def)

lemma unmoved_clean: "dr_state (ap_discovery t) = dr_state (ap_discovery s) \<Longrightarrow> closes_clean s t"
  by (simp add: closes_clean_def)

lemma advance_idle: "dr_state (ap_discovery s) \<noteq> COLLECTING \<Longrightarrow> maybeAdvanceDiscovery env d s = s"
  by (simp add: maybeAdvanceDiscovery_def maybeAdvanceDiscovery_with_def)

text \<open>A publication followed by an advance never completes the round.\<close>

lemma published_clean:
  assumes "dr_state (ap_discovery t) = dr_state (ap_discovery s)"
    and "dr_localCert (ap_discovery t) = QUEUED \<or> dr_localDistanceCert (ap_discovery t) = QUEUED"
  shows "closes_clean s (maybeAdvanceDiscovery env False t)"
proof (cases "dr_state (ap_discovery t) = COLLECTING")
  case True
  then have "own_waiting t" using assms(2) by (simp add: own_waiting_def)
  then have "own_waiting (maybeAdvanceDiscovery env False t)"
    by (rule soundD(2) [OF discovery_sound(1)])
  then show ?thesis by (intro open_clean) (auto simp: own_waiting_def)
next
  case False
  then show ?thesis using assms(1) by (simp add: advance_idle unmoved_clean)
qed

lemma finalize_clean:
  "closes_clean s (finalizeLocalArrivalCert env s)" "closes_clean s (finalizeLocalStoppedDistanceCert env s)"
proof -
  show "closes_clean s (finalizeLocalArrivalCert env s)"
    unfolding finalizeLocalArrivalCert_def
  proof (rule finalizeA_step [of env s])
    fix cert
    let ?t = "publishArrivalCert env cert ((cancelArrivalCertFinalizeTimer s)\<lparr>ap_cert_broadcast := True\<rparr>)"
    assume f: "\<And>f. finalizeLocalArrivalCert_with env f s = f ?t"
    have "round_of ?t = (dr_state (ap_discovery s), QUEUED, dr_localDistanceCert (ap_discovery s))"
      unfolding published_arrival(1) by (simp add: cancelArrivalCertFinalizeTimer_def)
    then show "closes_clean s (finalizeLocalArrivalCert_with env (maybeAdvanceDiscovery env False) s)"
      unfolding f by (intro published_clean) (simp_all add: round_of_def)
  qed (simp add: unmoved_clean)
  show "closes_clean s (finalizeLocalStoppedDistanceCert env s)"
    unfolding finalizeLocalStoppedDistanceCert_def
  proof (rule finalizeD_step [of env s])
    fix cert
    let ?s1 = "cancelStoppedDistanceAttestationRetry (cancelStoppedDistanceFinalizeTimer s)"
    assume f: "\<And>f. finalizeLocalStoppedDistanceCert_with env f s = f (publishDistanceCert env cert ?s1)"
    have "round_of (publishDistanceCert env cert ?s1) =
        (dr_state (ap_discovery s), dr_localCert (ap_discovery s), QUEUED)"
      unfolding published_distance(1)
      by (simp add: cancelStoppedDistanceFinalizeTimer_def cancelStoppedDistanceAttestationRetry_def)
    then show "closes_clean s (finalizeLocalStoppedDistanceCert_with env (maybeAdvanceDiscovery env False) s)"
      unfolding f by (intro published_clean) (simp_all add: round_of_def)
  qed (simp_all add: same_clean [OF same_trans [OF same_cancel_timers(3) same_cancel_timers(2)]] unmoved_clean)
qed

lemma flushed_state: "dr_state (ap_discovery (flush_all ps s)) = dr_state (ap_discovery s)"
proof (induction ps arbitrary: s)
  case (Cons p ps)
  have "dr_state (ap_discovery (flush_one p s)) = dr_state (ap_discovery s)"
    using flush_one_cases [of s p] by (auto simp: same_round_def round_of_def)
  then show ?case using Cons by simp
qed simp

lemma flush_clean: "closes_clean s (flushDueDiscoveryTxs s)"
proof (cases "dr_state (ap_discovery s) = COMPLETE")
  case False
  have "dr_state (ap_discovery (scheduleDiscoveryTxFlush s)) = dr_state (ap_discovery s)" for s :: "'a AppState"
    using quiet_same [OF quiet_ops(4), of s] by (simp add: same_round_def round_of_def)
  then show ?thesis
    using False by (simp add: flushDueDiscoveryTxs_def Let_def complete_clean flushed_state)
qed (simp add: closes_clean_def)

lemma step_clean: "discovery_step env s t \<Longrightarrow> closes_clean s t"
proof (induction rule: discovery_step.induct)
  case (new_intent s carId)
  show ?case
    by (simp add: noteDiscoveryIntent_def Let_def resetOrderCandidate_def closes_clean_def armDiscoveryTimers_def)
next
  case (retry s)
  have "dr_state (ap_discovery (onCertRetryTimer env s)) = dr_state (ap_discovery s)"
    by (simp add: onCertRetryTimer_def Let_def)
  then show ?case by (rule unmoved_clean)
next
  case (deactivate s)
  show ?case by (rule open_clean) (simp add: deactivateDiscovery_def Let_def)
next
  case (restart s)
  then show ?case
    by (intro open_clean)
      (simp add: startDiscoveryRound_def Let_def resetOrderCandidate_def round_reset_def armDiscoveryTimers_def)
qed (simp_all add: same_clean advance_clean finalize_clean flush_clean same_begin_distance)

text \<open>
  C14: a round completes cleanly. The one step that completes it leaves no own certificate
  unaired and no certificate of the round in the radio queue; the own arrival certificate is
  on the air whenever it was assembled.
\<close>

theorem completion_drains_certificates:
  assumes "discovery_step env s t" and "dr_state (ap_discovery s) \<noteq> COMPLETE" and "dr_state (ap_discovery t) = COMPLETE"
  shows "dr_localCert (ap_discovery t) \<in> {NOT_ASSEMBLED, AIRED} \<and>
    dr_localDistanceCert (ap_discovery t) \<in> {NOT_ASSEMBLED, AIRED} \<and>
    (\<forall>p \<in> set (ap_pending_txs t). tx_epoch p = dr_epoch (ap_discovery t) \<longrightarrow>
       tx_msgType p \<noteq> kArrivalCertType \<and> tx_msgType p \<noteq> kStoppedDistanceCertType)"
  using step_clean [OF assms(1)] assms(2,3)
  by (cases "dr_localCert (ap_discovery t)"; cases "dr_localDistanceCert (ap_discovery t)")
    (auto simp: closes_clean_def hasPendingDiscoveryCerts_def list_ex_iff is_cert_type_def)

section \<open>Progress of the drain\<close>

definition own_frame :: "int \<Rightarrow> 'd AppState \<Rightarrow> PendingDiscoveryTx \<Rightarrow> bool" where
  "own_frame ty s p \<longleftrightarrow> tx_localCert p \<and> tx_msgType p = ty \<and> tx_epoch p = dr_epoch (ap_discovery s)"

lemma draining_flush_one:
  assumes "dr_state (ap_discovery s) = DRAINING_CERTS"
  shows "dr_state (ap_discovery (flush_one p s)) = DRAINING_CERTS"
    and "dr_epoch (ap_discovery (flush_one p s)) = dr_epoch (ap_discovery s)"
    and "ap_pending_txs (flush_one p s) = ap_pending_txs s"
    and "dr_localCert (ap_discovery (flush_one p s)) =
      (if own_frame kArrivalCertType s p then AIRED else dr_localCert (ap_discovery s))"
    and "dr_localDistanceCert (ap_discovery (flush_one p s)) =
      (if own_frame kStoppedDistanceCertType s p then AIRED else dr_localDistanceCert (ap_discovery s))"
  using assms
  by (simp_all add: flush_one_def flush_drops_def Let_def sendBFTMessageNow_def air_def stopCertBroadcastRetries_def
      own_frame_def msg_types)

lemma draining_flush_all:
  assumes "dr_state (ap_discovery s) = DRAINING_CERTS"
  shows "dr_state (ap_discovery (flush_all ps s)) = DRAINING_CERTS \<and>
    dr_epoch (ap_discovery (flush_all ps s)) = dr_epoch (ap_discovery s) \<and>
    ap_pending_txs (flush_all ps s) = ap_pending_txs s \<and>
    dr_localCert (ap_discovery (flush_all ps s)) =
      (if \<exists>p \<in> set ps. own_frame kArrivalCertType s p then AIRED else dr_localCert (ap_discovery s)) \<and>
    dr_localDistanceCert (ap_discovery (flush_all ps s)) =
      (if \<exists>p \<in> set ps. own_frame kStoppedDistanceCertType s p then AIRED else dr_localDistanceCert (ap_discovery s))"
  using assms
proof (induction ps arbitrary: s)
  case (Cons p ps)
  have "own_frame ty (flush_one p s) = own_frame ty s" for ty
    using draining_flush_one(2) [OF Cons.prems, of p] by (intro ext) (simp add: own_frame_def)
  with Cons.IH [OF draining_flush_one(1) [OF Cons.prems]] draining_flush_one(2-5) [OF Cons.prems, of p]
  show ?case by auto
qed simp

lemma all_due_flush_completes:
  assumes st: "dr_state (ap_discovery s) = DRAINING_CERTS"
    and due: "\<forall>p \<in> set (ap_pending_txs s). tx_fireTime p \<le> ap_now s"
    and arr: "dr_localCert (ap_discovery s) = QUEUED \<longrightarrow> (\<exists>p \<in> set (ap_pending_txs s). own_frame kArrivalCertType s p)"
    and dist: "dr_localDistanceCert (ap_discovery s) = QUEUED \<longrightarrow>
      (\<exists>p \<in> set (ap_pending_txs s). own_frame kStoppedDistanceCertType s p)"
  shows "dr_state (ap_discovery (flushDueDiscoveryTxs s)) = COMPLETE \<and>
    ap_pending_txs (flushDueDiscoveryTxs s) = [] \<and>
    last (ap_calls (flushDueDiscoveryTxs s)) = Call_evaluateOrderReadiness"
proof -
  have f: "filter (\<lambda>p. tx_fireTime p \<le> ap_now s) (ap_pending_txs s) = ap_pending_txs s"
    "filter (\<lambda>p. \<not> tx_fireTime p \<le> ap_now s) (ap_pending_txs s) = []"
    using due by (simp_all add: filter_id_conv filter_empty_conv)
  define t where "t = flush_all (ap_pending_txs s) (s\<lparr>ap_pending_txs := []\<rparr>)"
  have "own_frame ty (s\<lparr>ap_pending_txs := []\<rparr>) = own_frame ty s" for ty
    by (intro ext) (simp add: own_frame_def)
  then have t: "dr_state (ap_discovery t) = DRAINING_CERTS" "ap_pending_txs t = []"
    "dr_localCert (ap_discovery t) \<noteq> QUEUED" "dr_localDistanceCert (ap_discovery t) \<noteq> QUEUED"
    using draining_flush_all [of "s\<lparr>ap_pending_txs := []\<rparr>" "ap_pending_txs s"] st arr dist
    by (auto simp: t_def)
  then have "\<not> (localCertAssembled (ap_discovery t) \<and> \<not> localCertAired (ap_discovery t))"
    "\<not> (localDistanceCertAssembled (ap_discovery t) \<and> \<not> localDistanceCertAired (ap_discovery t))"
    by (cases "dr_localCert (ap_discovery t)"; cases "dr_localDistanceCert (ap_discovery t)";
        simp add: localCertAssembled_def localCertAired_def localDistanceCertAssembled_def localDistanceCertAired_def)+
  moreover have "flushDueDiscoveryTxs s = maybeCompleteDiscoveryDrain t"
    using t(2) by (simp add: flushDueDiscoveryTxs_def Let_def f t_def [symmetric] scheduleDiscoveryTxFlush_def)
  ultimately show ?thesis
    using t(1,2)
    by (simp add: maybeCompleteDiscoveryDrain_def Let_def hasPendingDiscoveryCerts_def finishDiscoveryRound_def
        evaluateOrderReadiness_call_def stopStopZoneCertGossip_def stopCertBroadcastRetries_def)
qed

text \<open>
  C25: the drain ends. When every frame of the radio queue is due and an own certificate that is
  not yet aired has its frame of this round in the queue, the next flush completes the round,
  empties the queue and asks for the evaluation of ORDER readiness.
\<close>

theorem drain_completes:
  assumes "dr_state (ap_discovery s) = DRAINING_CERTS"
    and "\<forall>p \<in> set (ap_pending_txs s). tx_fireTime p \<le> ap_now s"
    and "dr_localCert (ap_discovery s) = QUEUED \<longrightarrow> (\<exists>p \<in> set (ap_pending_txs s). own_frame kArrivalCertType s p)"
    and "dr_localDistanceCert (ap_discovery s) = QUEUED \<longrightarrow>
      (\<exists>p \<in> set (ap_pending_txs s). own_frame kStoppedDistanceCertType s p)"
  shows "dr_state (ap_discovery (flushDueDiscoveryTxs s)) = COMPLETE \<and>
    ap_pending_txs (flushDueDiscoveryTxs s) = [] \<and>
    last (ap_calls (flushDueDiscoveryTxs s)) = Call_evaluateOrderReadiness"
  by (rule all_due_flush_completes [OF assms])

section \<open>A lost certificate\<close>

text \<open>The own arrival certificate is neither aired, nor queued, nor retried.\<close>

definition lost :: "'d AppState \<Rightarrow> bool" where
  "lost s \<longleftrightarrow> dr_state (ap_discovery s) \<noteq> COMPLETE \<and> dr_localCert (ap_discovery s) = QUEUED \<and>
     ap_cert_broadcast s \<and> kArrivalCertType \<notin> own_queued s \<and> \<not> retrying s"

lemma same_lost: "same_round s t \<Longrightarrow> lost s \<Longrightarrow> lost t"
  by (auto simp: same_round_def lost_def round_of_def)

lemma lost_finalizeA: "lost s \<Longrightarrow> finalizeLocalArrivalCert_with env f s = s"
  by (simp add: lost_def finalizeLocalArrivalCert_with_def)

lemma lost_complete: "lost s \<Longrightarrow> maybeCompleteDiscoveryDrain s = s"
  using complete_cases [of s] by (auto simp: lost_def)

definition keeps_lost :: "('d AppState \<Rightarrow> 'd AppState) \<Rightarrow> bool" where
  "keeps_lost f \<longleftrightarrow> (\<forall>s. lost s \<longrightarrow> lost (f s))"

lemma lost_publish_distance: "lost s \<Longrightarrow> lost (publishDistanceCert env cert s)"
  using published_distance [of env cert s] by (auto simp: lost_def round_of_def msg_types)

lemma lost_finalizeD: "keeps_lost f \<Longrightarrow> lost s \<Longrightarrow> lost (finalizeLocalStoppedDistanceCert_with env f s)"
  by (rule finalizeD_step [of env s])
    (auto simp: keeps_lost_def intro: lost_publish_distance same_lost [OF same_cancel_timers(2)] same_lost [OF same_cancel_timers(3)])

lemma lost_drain: "keeps_lost f \<Longrightarrow> lost s \<Longrightarrow> lost (beginDiscoveryDrain_with env f d s)"
proof (cases "dr_state (ap_discovery s) = COLLECTING")
  case True
  assume f: "keeps_lost f" and l: "lost s"
  define s2 where "s2 = finalizeLocalStoppedDistanceCert_with env f s"
  define s3 where "s3 = s2\<lparr>ap_discovery := (ap_discovery s2)\<lparr>dr_state := DRAINING_CERTS,
                   dr_closeReason := (if d then DEADLINE else STABILIZED)\<rparr>,
                 ap_stopped_distance_collection_active := False, ap_deadline_timer := None,
                 ap_settle_timer := None, ap_announce_timer := None\<rparr>"
  have "lost s2" unfolding s2_def by (rule lost_finalizeD [OF f l])
  then have "lost s3" by (simp add: s3_def lost_def own_queued_def retrying_def)
  then have "lost (discardPendingDiscoveryNonCerts (stopStopZoneCertGossip s3))"
    by (rule same_lost [OF quiet_same [OF quiet_trans [OF quiet_ops(2) quiet_ops(5)]]])
  then show ?thesis
    using True by (simp add: beginDiscoveryDrain_with_def Let_def lost_finalizeA [OF l] s2_def s3_def lost_complete)
qed (simp add: beginDiscoveryDrain_with_def)

lemma lost_advance: "keeps_lost f \<Longrightarrow> lost s \<Longrightarrow> lost (maybeAdvanceDiscovery_with env f d s)"
  by (simp add: maybeAdvanceDiscovery_with_def lost_drain same_lost [OF same_begin_distance] same_lost [OF same_arm])

lemma lost_levels: "keeps_lost (advance_levels n env)"
  by (induction n) (simp_all add: keeps_lost_def lost_advance)

lemma lost_flush_all:
  assumes "\<forall>p \<in> set ps. tx_localCert p \<longrightarrow> tx_msgType p \<noteq> kArrivalCertType" and "lost s"
  shows "lost (flush_all ps s)"
  using assms
proof (induction ps arbitrary: s)
  case (Cons p ps)
  have "lost (s\<lparr>ap_discovery := (ap_discovery s)\<lparr>dr_localDistanceCert := AIRED\<rparr>\<rparr>)"
    using Cons.prems(2) by (simp add: lost_def)
  then have "lost (flush_one p s)"
    using flush_one_cases [of s p] Cons.prems by (auto intro: same_lost)
  then show ?case using Cons by simp
qed simp

lemma lost_flush:
  assumes "lost s"
  shows "lost (flushDueDiscoveryTxs s)"
proof -
  let ?s1 = "s\<lparr>ap_pending_txs := filter (\<lambda>p. \<not> tx_fireTime p \<le> ap_now s) (ap_pending_txs s)\<rparr>"
  have "lost ?s1" using assms by (auto simp: lost_def own_queued_def)
  then have "lost (flush_all (filter (\<lambda>p. tx_fireTime p \<le> ap_now s) (ap_pending_txs s)) ?s1)"
    using assms by (intro lost_flush_all) (auto simp: lost_def own_queued_def)
  from same_lost [OF quiet_same [OF quiet_ops(4)] this] show ?thesis
    by (simp add: flushDueDiscoveryTxs_def Let_def lost_complete)
qed

lemma lost_note: "lost s \<Longrightarrow> lost (noteDiscoveryIntent env carId s)"
proof -
  assume l: "lost s"
  have upd: "lost (s\<lparr>ap_discovery := (ap_discovery s)\<lparr>dr_lastNewIntentAt := n\<rparr>\<rparr>)" if "lost s" for s :: "'a AppState" and n
    using that by (simp add: lost_def)
  define r where "r = (resetOrderCandidate s)\<lparr>ap_discovery := (ap_discovery (resetOrderCandidate s))\<lparr>dr_state := COLLECTING,
      dr_closeReason := CLOSE_NONE\<rparr>, ap_vc_trigger := None\<rparr>"
  define s1 where "s1 = (if dr_state (ap_discovery s) = DRAINING_CERTS \<or> dr_state (ap_discovery s) = COMPLETE
      then if ap_announce_timer r = None
        then r\<lparr>ap_announce_timer := Some (ap_now r + ev_announcement_interval env)\<rparr> else r
      else s)"
  have "lost s1"
    using l by (simp add: s1_def r_def resetOrderCandidate_def lost_def own_queued_def retrying_def)
  then have "lost (armDiscoveryTimers env (s1\<lparr>ap_discovery := (ap_discovery s1)\<lparr>dr_lastNewIntentAt := ap_now s1\<rparr>\<rparr>))"
    by (intro same_lost [OF same_arm] upd)
  moreover have "noteDiscoveryIntent env carId s =
      (if carId = [] \<or> ap_propose_submitted s \<or> ap_order_applied s \<or> ap_current_phase s = DEPARTED then s
       else armDiscoveryTimers env (s1\<lparr>ap_discovery := (ap_discovery s1)\<lparr>dr_lastNewIntentAt := ap_now s1\<rparr>\<rparr>))"
    unfolding noteDiscoveryIntent_def Let_def r_def [symmetric] s1_def [symmetric] ..
  ultimately show ?thesis using l by simp
qed

lemma lost_retry: "lost s \<Longrightarrow> lost (onCertRetryTimer env s)"
proof -
  assume l: "lost s"
  then have "lost (s\<lparr>ap_cert_retry_timer := None\<rparr>)" by (simp add: lost_def)
  then have "lost (stopCertBroadcastRetries (s\<lparr>ap_cert_retry_timer := None\<rparr>))"
    by (rule same_lost [OF quiet_same [OF quiet_ops(1)]])
  then show ?thesis using l by (simp add: onCertRetryTimer_def Let_def lost_def retrying_def)
qed

lemma lost_deactivate: "lost s \<Longrightarrow> lost (deactivateDiscovery s)"
  by (simp add: deactivateDiscovery_def Let_def lost_def cancelStoppedDistanceFinalizeTimer_def
      cancelStoppedDistanceAttestationRetry_def cancelArrivalCertFinalizeTimer_def stopCertBroadcastRetries_def
      stopStopZoneCertGossip_def cancelPendingDiscoveryTxs_def own_queued_def retrying_def)

lemma lost_step:
  assumes "discovery_step env s t" and "dr_localCert (ap_discovery t) \<noteq> NOT_ASSEMBLED"
  shows "lost s \<Longrightarrow> lost t"
  using assms
proof (induction rule: discovery_step.induct)
  case (elsewhere s t)
  then show ?case using same_lost by blast
next
  case (advance s deadline)
  then show ?case unfolding maybeAdvanceDiscovery_def by (intro lost_advance lost_levels)
next
  case (finalize_arrival s)
  then show ?case by (simp add: finalizeLocalArrivalCert_def lost_finalizeA)
next
  case (finalize_distance s)
  then show ?case
    unfolding finalizeLocalStoppedDistanceCert_def three_levels by (intro lost_finalizeD lost_levels)
next
  case (restart s)
  then show ?case
    by (simp add: startDiscoveryRound_def Let_def resetOrderCandidate_def round_reset_def armDiscoveryTimers_def
        split: if_split_asm)
qed (simp_all add: lost_note lost_retry lost_flush lost_deactivate same_lost [OF same_begin_distance])

lemma lost_steps: "(\<lambda>s t. discovery_step env s t \<and> dr_localCert (ap_discovery t) \<noteq> NOT_ASSEMBLED)\<^sup>*\<^sup>* s t \<Longrightarrow> lost s \<Longrightarrow> lost t"
  by (induction rule: rtranclp_induct) (auto intro: lost_step)

lemma purge_lost:
  assumes "dr_state (ap_discovery s) = COLLECTING" and "\<not> ap_stopped_distance_collection_active s"
    and "dr_localCert (ap_discovery s) = QUEUED" and "ap_cert_broadcast s" and "ac_carId (ap_cert_pending_retries s) = []"
  shows "lost (beginStoppedDistanceCollection env s)"
  using assms
  by (auto simp: lost_def beginStoppedDistanceCollection_def Let_def own_queued_def retrying_def
      is_distance_type_def msg_types stopStopZoneCertGossip_def)

text \<open>
  C35: beginning the stopped-distance collection while the own arrival certificate still waits
  in the radio queue, and no retry of it is pending, loses it: its frame is purged and the
  round can no longer complete, whatever happens until a new round is started.
\<close>

theorem purged_certificate_blocks_round:
  assumes "dr_state (ap_discovery s) = COLLECTING" and "\<not> ap_stopped_distance_collection_active s"
    and "dr_localCert (ap_discovery s) = QUEUED" and "ap_cert_broadcast s" and "ac_carId (ap_cert_pending_retries s) = []"
    and "(\<lambda>s t. discovery_step env s t \<and> dr_localCert (ap_discovery t) \<noteq> NOT_ASSEMBLED)\<^sup>*\<^sup>*
      (beginStoppedDistanceCollection env s) t"
  shows "dr_state (ap_discovery t) \<noteq> COMPLETE \<and> dr_localCert (ap_discovery t) = QUEUED"
  using lost_steps [OF assms(6) purge_lost [OF assms(1-5)]] by (simp add: lost_def)

section \<open>Examples\<close>

definition demo_round :: "int AppState" where
  "demo_round = (startDiscoveryRound (sample_env 0) (initial_app sample_server))\<lparr>ap_entered_stop_zone := True\<rparr>"

definition demo_queued :: "int AppState" where
  "demo_queued = demo_round\<lparr>ap_discovery := (ap_discovery demo_round)\<lparr>dr_localCert := QUEUED\<rparr>,
     ap_cert_broadcast := True,
     ap_pending_txs := [\<lparr>tx_toReplicaId = - 1, tx_msgType = kArrivalCertType, tx_payload = [1], tx_fireTime = 0,
       tx_epoch = 0, tx_localCert = True, tx_witnessTraffic = False\<rparr>]\<rparr>"

definition demo_draining :: "int AppState" where
  "demo_draining = demo_queued\<lparr>ap_discovery := (ap_discovery demo_queued)\<lparr>dr_state := DRAINING_CERTS\<rparr>\<rparr>"

text \<open>A round with nothing to certify reaches its deadline and completes.\<close>

theorem discovery_refines_round_witness:
  "round_rule\<^sup>*\<^sup>* (COLLECTING, NOT_ASSEMBLED, NOT_ASSEMBLED) (COMPLETE, NOT_ASSEMBLED, NOT_ASSEMBLED)"
proof -
  let ?t = "maybeAdvanceDiscovery (sample_env 0) True demo_round"
  have "discovery_step (sample_env 0) (startDiscoveryRound (sample_env 0) (initial_app sample_server)) demo_round"
    by (rule elsewhere) (simp add: demo_round_def same_round_def round_of_def own_queued_def retrying_def)
  then have "(discovery_step (sample_env 0))\<^sup>*\<^sup>* (startDiscoveryRound (sample_env 0) (initial_app sample_server)) ?t"
    using advance [of "sample_env 0" demo_round True] by (meson converse_rtranclp_into_rtranclp r_into_rtranclp)
  from discovery_refines_round [OF this]
  have "round_rule\<^sup>*\<^sup>* (COLLECTING, NOT_ASSEMBLED, NOT_ASSEMBLED)
      (dr_state (ap_discovery ?t), dr_localCert (ap_discovery ?t), dr_localDistanceCert (ap_discovery ?t))" ..
  moreover have "(dr_state (ap_discovery ?t), dr_localCert (ap_discovery ?t), dr_localDistanceCert (ap_discovery ?t)) =
      (COMPLETE, NOT_ASSEMBLED, NOT_ASSEMBLED)"
    by code_simp
  ultimately show ?thesis by simp
qed

theorem completion_drains_certificates_witness:
  "dr_localCert (ap_discovery (flushDueDiscoveryTxs demo_draining)) \<in> {NOT_ASSEMBLED, AIRED}"
proof -
  have "dr_state (ap_discovery demo_draining) \<noteq> COMPLETE"
    "dr_state (ap_discovery (flushDueDiscoveryTxs demo_draining)) = COMPLETE"
    by code_simp+
  from completion_drains_certificates [OF discovery_step.flush [of "sample_env 0" demo_draining] this]
  show ?thesis by blast
qed

theorem drain_completes_witness:
  "dr_state (ap_discovery (flushDueDiscoveryTxs demo_draining)) = COMPLETE"
proof -
  have "dr_state (ap_discovery demo_draining) = DRAINING_CERTS"
    "\<forall>p \<in> set (ap_pending_txs demo_draining). tx_fireTime p \<le> ap_now demo_draining"
    "dr_localCert (ap_discovery demo_draining) = QUEUED \<longrightarrow>
      (\<exists>p \<in> set (ap_pending_txs demo_draining). own_frame kArrivalCertType demo_draining p)"
    "dr_localDistanceCert (ap_discovery demo_draining) = QUEUED \<longrightarrow>
      (\<exists>p \<in> set (ap_pending_txs demo_draining). own_frame kStoppedDistanceCertType demo_draining p)"
    by code_simp+
  from drain_completes [OF this] show ?thesis by blast
qed

theorem purged_certificate_blocks_round_witness:
  "dr_state (ap_discovery (maybeAdvanceDiscovery (sample_env 0) True
     (beginStoppedDistanceCollection (sample_env 0) demo_queued))) = DRAINING_CERTS \<and>
   dr_localCert (ap_discovery (maybeAdvanceDiscovery (sample_env 0) True
     (beginStoppedDistanceCollection (sample_env 0) demo_queued))) = QUEUED"
proof -
  let ?s = "beginStoppedDistanceCollection (sample_env 0) demo_queued"
  let ?t = "maybeAdvanceDiscovery (sample_env 0) True ?s"
  have c: "dr_state (ap_discovery demo_queued) = COLLECTING" "\<not> ap_stopped_distance_collection_active demo_queued"
    "dr_localCert (ap_discovery demo_queued) = QUEUED" "ap_cert_broadcast demo_queued"
    "ac_carId (ap_cert_pending_retries demo_queued) = []"
    by code_simp+
  have t: "dr_state (ap_discovery ?t) = DRAINING_CERTS" "dr_localCert (ap_discovery ?t) \<noteq> NOT_ASSEMBLED"
    by code_simp+
  have "(\<lambda>s t. discovery_step (sample_env 0) s t \<and> dr_localCert (ap_discovery t) \<noteq> NOT_ASSEMBLED)\<^sup>*\<^sup>* ?s ?t"
    using advance [of "sample_env 0" ?s True] t(2) by (simp add: r_into_rtranclp)
  from purged_certificate_blocks_round [OF c this] t(1) show ?thesis by simp
qed

end
