(* ===== verification/Arrival.thy ===== *)
theory Arrival
  imports Discovery
begin

text \<open>
  The witness side of arrival discovery (\<^verbatim>\<open>v2vbft/app/ResDBArrivalProtocol.cc\<close>): building and
  broadcasting the own announcement, evaluating the announcements of others, echoing,
  gossiping, collecting echoes for the own certificate and storing certificates. A handler
  returns \<open>None\<close> where decoding leaves with an exception.
\<close>

section \<open>Announcements and their identity\<close>

definition canonicalArrivalAnnouncementPayload :: "('d \<Rightarrow> string) \<Rightarrow> 'd ArrivalAnnouncement \<Rightarrow> string" where
  "canonicalArrivalAnnouncementPayload print_d ann =
     an_carId ann @ CHR ''|'' # to_string (an_epoch ann) @ CHR ''|'' # an_laneId ann @ CHR ''|'' #
     an_lane ann @ CHR ''|'' # to_string (an_physicalLaneIndex ann) @ CHR ''|'' #
     to_string (an_lateralClaimCm ann) @ CHR ''|'' # to_string (an_positionInLane ann) @ CHR ''|'' #
     dirToStr (an_direction ann) @ CHR ''|'' # bool_text (an_isAmbulance ann) @ CHR ''|'' #
     print_d (an_claimedArrivalTime ann) @ CHR ''|'' # toHex (an_ambulanceCertBytes ann) @ CHR ''|'' #
     toHex (an_ambulanceSigBytes ann)"

definition arrivalAnnouncementHash :: "'d AppEnv \<Rightarrow> 'd ArrivalAnnouncement \<Rightarrow> bytes" where
  "arrivalAnnouncementHash env ann = ev_hash env (serializeArrivalAnnouncement (ev_print_d env) ann)"

definition verifyArrivalAnnouncementOrigin :: "'d AppEnv \<Rightarrow> 'd ArrivalAnnouncement \<Rightarrow> bool" where
  "verifyArrivalAnnouncementOrigin env ann =
     (let origin = extractReplicaId (an_carId ann) in
      if origin < 0 \<or> an_signature ann = [] then False
      else case copyKey (ev_keys env) origin of None \<Rightarrow> False
      | Some pubKey \<Rightarrow> ev_verify env pubKey (to_bytes (canonicalArrivalAnnouncementPayload (ev_print_d env) ann))
          (take (length (an_signature ann) mod 256) (an_signature ann)))"

definition variantKey :: "int \<Rightarrow> string \<Rightarrow> string" where
  "variantKey epoch carId = to_string epoch @ CHR '':'' # carId"

definition cacheKey :: "int \<Rightarrow> string \<Rightarrow> bytes \<Rightarrow> string" where
  "cacheKey epoch carId claimHash = variantKey epoch carId @ CHR '':'' # hashHex claimHash"

definition ambulance_payload :: "'d ArrivalAnnouncement \<Rightarrow> string" where
  "ambulance_payload ann = an_carId ann @ CHR '':'' # an_lane ann @ CHR '':'' #
     to_string (an_positionInLane ann) @ CHR '':'' # dirToStr (an_direction ann) @ '':AMBULANCE''"

section \<open>Configured attackers\<close>

definition isExactFalseLaneClaim :: "'d AppEnv \<Rightarrow> 'd AppState \<Rightarrow> 'd ArrivalAnnouncement \<Rightarrow> bool" where
  "isExactFalseLaneClaim env s ann =
     (let target = extractReplicaId (an_carId ann) in
      0 \<le> target \<and> target < cf_total_vehicles (ev_cfg env) \<and>
      an_epoch ann = sint (ap_current_epoch s) \<and> an_laneId ann = ''BYZANTINE_FAKE_LANE'' \<and> an_lane ann = ''X'')"

definition shouldColludeOnFalseLane :: "'d AppEnv \<Rightarrow> 'd AppState \<Rightarrow> 'd ArrivalAnnouncement \<Rightarrow> bool" where
  "shouldColludeOnFalseLane env s ann =
     (if \<not> ev_is_byzantine env \<or> ev_byzantine_type env \<noteq> BYZANTINE_FALSE_LANE then False
      else isExactFalseLaneClaim env s ann \<and>
        cf_replicaId (ev_cfg env) \<in> set (ev_false_lane_colluder_ids env) \<and>
        extractReplicaId (an_carId ann) \<in> set (ev_false_lane_colluder_ids env))"

definition isPhase2AttackTarget :: "'d AppEnv \<Rightarrow> 'd AppState \<Rightarrow> 'd ArrivalAnnouncement \<Rightarrow> bool" where
  "isPhase2AttackTarget env s ann \<longleftrightarrow> ev_phase2_attack_kind env \<noteq> PHASE2_NONE \<and>
     extractReplicaId (an_carId ann) = ev_phase2_attack_target env \<and> an_epoch ann = sint (ap_current_epoch s)"

definition shouldPhase2Collude :: "'d AppEnv \<Rightarrow> 'd AppState \<Rightarrow> 'd ArrivalAnnouncement \<Rightarrow> bool" where
  "shouldPhase2Collude env s ann \<longleftrightarrow> isPhase2AttackTarget env s ann \<and>
     cf_replicaId (ev_cfg env) \<in> set (ev_phase2_evidence_colluder_ids env)"

section \<open>Gossip of announcements\<close>

definition discovery_open :: "'d AppState \<Rightarrow> bool" where
  "discovery_open s \<longleftrightarrow> dr_state (ap_discovery s) = COLLECTING \<and> \<not> ap_propose_submitted s \<and>
     \<not> ap_order_applied s \<and> \<not> ap_crashCommsDisabled s"

definition sendArrivalAnnouncementGossipPayload ::
  "'d AppEnv \<Rightarrow> string \<Rightarrow> u32 \<Rightarrow> bytes \<Rightarrow> 'd AppState \<Rightarrow> 'd AppState" where
  "sendArrivalAnnouncementGossipPayload env carId epoch announceBytes s =
     (if \<not> ev_gossip_enabled env \<or> announceBytes = [] \<or> carId = [] then s
      else if \<not> discovery_open s then s
      else let signedPayload = packSignedPacket (ev_sign env) (ev_pub_key env) (serializeAnnouncement epoch announceBytes)
        in if signedPayload = [] then s
           else sendBFTMessage env (- 1) signedPayload kArrivalAnnounceGossipType False False s)"

definition gossipArrivalAnnouncement ::
  "'d AppEnv \<Rightarrow> 'd ArrivalAnnouncement \<Rightarrow> bytes \<Rightarrow> 'd AppState \<Rightarrow> 'd AppState" where
  "gossipArrivalAnnouncement env ann announceBytes s =
     (if \<not> ev_gossip_enabled env \<or> announceBytes = [] \<or> an_carId ann = [] then s
      else if \<not> discovery_open s then s
      else let relay = announcement_tryRelay (word_of_int (an_epoch ann)) (an_carId ann) (ap_announcement_relay_tracker s);
               s1 = s\<lparr>ap_announcement_relay_tracker := snd relay\<rparr>
        in if \<not> fst relay then s1
           else sendArrivalAnnouncementGossipPayload env (an_carId ann) (word_of_int (an_epoch ann)) announceBytes s1)"

section \<open>Collecting echoes for the own certificate\<close>

definition armArrivalCertFinalizeTimer :: "'d AppEnv \<Rightarrow> 'd AppState \<Rightarrow> 'd AppState" where
  "armArrivalCertFinalizeTimer env s =
     (if ap_cert_broadcast s \<or> dr_state (ap_discovery s) \<noteq> COLLECTING \<or> ap_finalize_timer s \<noteq> None then s
      else let s1 = s\<lparr>ap_threshold_reached_at := ap_now s\<rparr> in
        if ev_collection_window env \<le> 0 then finalizeLocalArrivalCert env s1
        else s1\<lparr>ap_finalize_timer := Some (ap_now s + ev_collection_window env)\<rparr>)"

definition echo_matches :: "'d AppState \<Rightarrow> ArrivalEcho \<Rightarrow> VehicleState \<Rightarrow> bytes \<Rightarrow> bool" where
  "echo_matches s echo state claimHash \<longleftrightarrow> ae_epoch echo = sint (ap_current_epoch s) \<and>
     ae_lane echo = vs_lane state \<and> ae_physicalLaneIndex echo = vs_physicalLaneIndex state \<and>
     ae_lateralClaimCm echo = vs_lateralClaimCm state \<and> ae_positionInLane echo = vs_positionInLane state \<and>
     ae_direction echo = vs_direction state \<and> ae_isAmbulance echo = vs_isAmbulance state \<and>
     ae_claimHash echo = claimHash"

text \<open>The entry of \<open>my_received_echoes_\<close> is created by the access, before the duplicate check.\<close>

definition collectArrivalEcho :: "'d AppEnv \<Rightarrow> ArrivalEcho \<Rightarrow> 'd AppState \<Rightarrow> 'd AppState" where
  "collectArrivalEcho env echo s =
     (let car = localCar env in
      if ae_targetCarId echo \<noteq> car \<or> ap_cert_broadcast s \<or> \<not> discovery_open s \<or> ap_current_phase s = DEPARTED then s
      else if \<not> isArrivalSignerEligible (ev_cfg env) (ae_echoingReplicaId echo) \<or> ae_signatureLen echo = 0 then s
      else if \<not> key_matches (ev_keys env) (ae_echoingReplicaId echo) (ae_signerPubKey echo) then s
      else case om_get (ap_local_vehicle_states s) car of None \<Rightarrow> s | Some state \<Rightarrow>
        (case om_get (ap_local_claim_hashes s) car of None \<Rightarrow> s | Some claimHash \<Rightarrow>
          if \<not> echo_matches s echo state claimHash then s
          else if \<not> arrival_echo_verifies (ev_verify env) echo then s
          else let echoes = (case om_get (ap_my_received_echoes s) car of None \<Rightarrow> [] | Some es \<Rightarrow> es);
                   s1 = s\<lparr>ap_my_received_echoes := om_put car echoes (ap_my_received_echoes s)\<rparr>
            in if ae_echoingReplicaId echo \<in> set (map ae_echoingReplicaId echoes) then s1
               else if int (length echoes) \<ge> max 0 (cf_total_vehicles (ev_cfg env)) then s1
               else let echoes' = echoes @ [echo];
                        s2 = s1\<lparr>ap_my_received_echoes := om_put car echoes' (ap_my_received_echoes s1)\<rparr>
                 in if int (length echoes') < cert_fault_bound (ev_cfg env) + 1 then s2
                    else armArrivalCertFinalizeTimer env s2))"

definition handleArrivalEcho :: "'d AppEnv \<Rightarrow> bytes \<Rightarrow> 'd AppState \<Rightarrow> 'd AppState option" where
  "handleArrivalEcho env payload s =
     (if ap_stopped_distance_collection_active s then Some s
      else case deserializeArrivalEcho payload of None \<Rightarrow> None | Some echo \<Rightarrow>
        Some (if ae_targetCarId echo \<noteq> localCar env then s
              else if ap_cert_broadcast s then s
              else collectArrivalEcho env echo s))"

section \<open>The own announcement\<close>

definition unsigned_echo :: "'d AppEnv \<Rightarrow> 'd ArrivalAnnouncement \<Rightarrow> bytes \<Rightarrow> ObservedCue \<Rightarrow> ArrivalEcho" where
  "unsigned_echo env ann claimHash cue = \<lparr>ae_echoingReplicaId = cf_replicaId (ev_cfg env), ae_targetCarId = an_carId ann,
     ae_lane = an_lane ann, ae_positionInLane = an_positionInLane ann,
     ae_physicalLaneIndex = an_physicalLaneIndex ann, ae_lateralClaimCm = an_lateralClaimCm ann,
     ae_direction = an_direction ann, ae_observedCue = cue, ae_claimHash = claimHash,
     ae_isAmbulance = an_isAmbulance ann, ae_epoch = an_epoch ann, ae_signerPubKey = ev_pub_key env,
     ae_signature = replicate CRYPTO_SIG_MAX_BYTES 0, ae_signatureLen = 0\<rparr>"

definition signed_echo :: "'d AppEnv \<Rightarrow> ArrivalEcho \<Rightarrow> ArrivalEcho option" where
  "signed_echo env echo =
     (case ev_sign env (to_bytes (arrivalEchoSigningPayload echo)) of None \<Rightarrow> None
      | Some sig \<Rightarrow> Some (echo\<lparr>ae_signature := fst (store_signature sig), ae_signatureLen := snd (store_signature sig)\<rparr>))"

definition self_claim_plausible :: "'d AppEnv \<Rightarrow> 'd ArrivalAnnouncement \<Rightarrow> bool" where
  "self_claim_plausible env ann =
     (if cf_lane_observation_mode (ev_cfg env) = ADJACENT_LATERAL
      then (an_physicalLaneIndex ann = 0 \<or> an_physicalLaneIndex ann = 1) \<and>
        projectPhysicalLaneIndex (ev_cfg env) (an_lateralClaimCm ann) = an_physicalLaneIndex ann
      else an_physicalLaneIndex ann = 0 \<and> an_lateralClaimCm ann = 0)"

definition addLocalSelfAttestation :: "'d AppEnv \<Rightarrow> 'd ArrivalAnnouncement \<Rightarrow> 'd AppState \<Rightarrow> 'd AppState" where
  "addLocalSelfAttestation env ann s =
     (if \<not> ev_has_key env \<or> an_carId ann \<noteq> localCar env \<or> \<not> discovery_open s \<or> ap_current_phase s = DEPARTED then s
      else if \<not> self_claim_plausible env ann then s
      else case signed_echo env (unsigned_echo env ann (arrivalAnnouncementHash env ann) (cue_of_direction (an_direction ann)))
        of None \<Rightarrow> s | Some echo \<Rightarrow> collectArrivalEcho env echo s)"

definition attachAmbulanceCryptoToAnnouncement :: "'d AppEnv \<Rightarrow> 'd ArrivalAnnouncement \<Rightarrow> 'd ArrivalAnnouncement" where
  "attachAmbulanceCryptoToAnnouncement env ann =
     (let ann0 = ann\<lparr>an_isAmbulance := False, an_ambulanceCertBytes := [], an_ambulanceSigBytes := []\<rparr> in
      if \<not> ev_is_ambulance env then ann0
      else let ann1 = ann0\<lparr>an_isAmbulance := True, an_ambulanceCertBytes := ev_ambulance_cert env\<rparr> in
        if \<not> ev_has_ambulance_key env \<or> length (ev_ambulance_cert env) \<noteq> ev_vehicle_cert_size env then ann1
        else case ev_ambulance_sign env (to_bytes (ambulance_payload ann1)) of None \<Rightarrow> ann1
          | Some sig \<Rightarrow> ann1\<lparr>an_ambulanceSigBytes := sig\<rparr>)"

text \<open>\<open>std::toupper\<close> in the C locale, and the cardinal it stands for.\<close>

definition cardinal_lane :: "char \<Rightarrow> string" where
  "cardinal_lane c =
     (if c = CHR ''N'' \<or> c = CHR ''n'' then ''N'' else if c = CHR ''S'' \<or> c = CHR ''s'' then ''S''
      else if c = CHR ''E'' \<or> c = CHR ''e'' then ''E'' else if c = CHR ''W'' \<or> c = CHR ''w'' then ''W''
      else ''N'')"

text \<open>\<open>laneId.substr(0, rfind('_') + 1)\<close>, when there is an underscore.\<close>

definition lane_prefix :: "string \<Rightarrow> string option" where
  "lane_prefix laneId =
     (if CHR ''_'' \<in> set laneId then Some (rev (dropWhile (\<lambda>c. c \<noteq> CHR ''_'') (rev laneId))) else None)"

fun index_in :: "string list \<Rightarrow> string \<Rightarrow> int \<Rightarrow> int option" where
  "index_in [] x i = None"
| "index_in (y # ys) x i = (if y = x then Some i else index_in ys x (i + 1))"

definition physical_claim :: "'d AppEnv \<Rightarrow> int \<Rightarrow> 'd ArrivalAnnouncement \<Rightarrow> 'd ArrivalAnnouncement" where
  "physical_claim env now ann =
     (if cf_lane_observation_mode (ev_cfg env) \<noteq> ADJACENT_LATERAL then ann
      else let target = (ev_phase2_attack_kind env = FALSE_PHYSICAL_LANE \<and>
                 cf_replicaId (ev_cfg env) = ev_phase2_attack_target env);
               claim = ev_own_lateral_cm env now + (if target then ev_phase2_lateral_offset_cm env else 0);
               idx = projectPhysicalLaneIndex (ev_cfg env) claim
        in ann\<lparr>an_lateralClaimCm := claim, an_physicalLaneIndex := idx,
             an_laneId := (case lane_prefix (an_laneId ann) of None \<Rightarrow> an_laneId ann
               | Some p \<Rightarrow> if idx \<ge> 0 then p @ to_string idx else an_laneId ann)\<rparr>)"

definition own_claim :: "'d AppEnv \<Rightarrow> 'd AppState \<Rightarrow> 'd ArrivalAnnouncement" where
  "own_claim env s =
     (let me = cf_replicaId (ev_cfg env); laneId = ev_own_laneId env (ap_now s);
          lane = (if ev_intended_lane env \<in> {''N'', ''S'', ''E'', ''W''} then ev_intended_lane env
                  else if laneId \<noteq> [] then cardinal_lane (hd laneId) else ''N'');
          target = (me = ev_phase2_attack_target env);
          a0 = (empty_announcement (ev_zero_d env))\<lparr>an_carId := localCar env, an_laneId := laneId, an_lane := lane\<rparr>;
          a1 = physical_claim env (ap_now s) a0;
          a2 = (if ev_is_byzantine env \<and> ev_byzantine_type env = BYZANTINE_FALSE_LANE
                then a1\<lparr>an_laneId := ''BYZANTINE_FAKE_LANE'', an_lane := ''X''\<rparr> else a1);
          a3 = (if ev_phase2_attack_kind env = WRONG_APPROACH \<and> target
                then a2\<lparr>an_laneId := ''PHASE2_CLAIM_E'', an_lane := ''E''\<rparr> else a2);
          rank = (case index_in (ev_lane_queue env (ap_now s)) (localCar env) 1 of None \<Rightarrow> 1 | Some i \<Rightarrow> i);
          a4 = a3\<lparr>an_positionInLane := rank,
            an_direction := (if (ev_phase2_attack_kind env = FALSE_DIRECTION \<or>
                ev_phase2_attack_kind env = FALSE_PHYSICAL_LANE) \<and> target then DIR_RIGHT
              else strToDir (ev_intended_direction env)),
            an_isAmbulance := ev_is_ambulance env\<rparr>;
          a5 = (if ev_is_byzantine env \<and> ev_byzantine_type env = BYZANTINE_FAKE_AMBULANCE_FOLLOWER
                then a4\<lparr>an_isAmbulance := True\<rparr>
                else if ev_is_ambulance env then attachAmbulanceCryptoToAnnouncement env a4 else a4)
      in a5\<lparr>an_claimedArrivalTime := ev_sim_seconds env (ap_now s), an_epoch := sint (ap_current_epoch s)\<rparr>)"

definition sign_announcement :: "'d AppEnv \<Rightarrow> 'd ArrivalAnnouncement \<Rightarrow> 'd ArrivalAnnouncement" where
  "sign_announcement env ann =
     (if \<not> ev_has_key env then ann\<lparr>an_signature := []\<rparr>
      else case ev_sign env (to_bytes (canonicalArrivalAnnouncementPayload (ev_print_d env) ann)) of
        None \<Rightarrow> ann\<lparr>an_signature := []\<rparr> | Some sig \<Rightarrow> ann\<lparr>an_signature := sig\<rparr>)"

definition broadcast_key :: "u32 \<Rightarrow> string" where
  "broadcast_key epoch = to_string (uint epoch) @ '':broadcast''"

definition peer_key :: "u32 \<Rightarrow> int \<Rightarrow> string" where
  "peer_key epoch peerId = to_string (uint epoch) @ '':peer:'' @ to_string peerId"

definition send_announcement :: "'d AppEnv \<Rightarrow> int \<Rightarrow> 'd ArrivalAnnouncement \<Rightarrow> 'd AppState \<Rightarrow> 'd AppState" where
  "send_announcement env to ann s =
     sendBFTMessage env to (serializeArrivalAnnouncement (ev_print_d env) ann) kArrivalAnnounceType False False s"

definition peers :: "'d AppEnv \<Rightarrow> int list" where
  "peers env = filter (\<lambda>p. p \<noteq> cf_replicaId (ev_cfg env)) [0..cf_total_vehicles (ev_cfg env) - 1]"

fun resend_to_peers :: "'d AppEnv \<Rightarrow> int list \<Rightarrow> 'd AppState \<Rightarrow> 'd AppState" where
  "resend_to_peers env [] s = s"
| "resend_to_peers env (p # ps) s = resend_to_peers env ps
     (case om_get (ap_cached_local_announcements s) (peer_key (ap_current_epoch s) p) of None \<Rightarrow> s
      | Some a \<Rightarrow> send_announcement env p a s)"

fun equivocate_to_peers ::
  "'d AppEnv \<Rightarrow> 'd ArrivalAnnouncement \<Rightarrow> 'd ArrivalAnnouncement \<Rightarrow> int list \<Rightarrow> 'd AppState \<Rightarrow> 'd AppState" where
  "equivocate_to_peers env left right [] s = s"
| "equivocate_to_peers env left right (p # ps) s = equivocate_to_peers env left right ps
     (let a = (if p < cf_total_vehicles (ev_cfg env) div 2 then left else right) in
      send_announcement env p a (s\<lparr>ap_cached_local_announcements :=
        om_put (peer_key (ap_current_epoch s) p) a (ap_cached_local_announcements s)\<rparr>))"

definition claim_state :: "'d AppEnv \<Rightarrow> 'd ArrivalAnnouncement \<Rightarrow> VehicleState" where
  "claim_state env ann = \<lparr>vs_vehicleId = an_carId ann, vs_lane = an_lane ann, vs_positionInLane = an_positionInLane ann,
     vs_physicalLaneIndex = an_physicalLaneIndex ann, vs_lateralClaimCm = an_lateralClaimCm ann,
     vs_direction = an_direction ann, vs_isAmbulance = an_isAmbulance ann,
     vs_arrival_time_us = ev_arrival_us env (an_claimedArrivalTime ann)\<rparr>"

text \<open>Storing what was announced of a car, and whether its intent is new.\<close>

definition store_claim :: "string \<Rightarrow> VehicleState \<Rightarrow> bytes \<Rightarrow> 'd AppState \<Rightarrow> 'd AppState" where
  "store_claim carId vs claimHash s = s\<lparr>
     ap_local_vehicle_states := om_put carId vs (ap_local_vehicle_states s),
     ap_local_claim_hashes := om_put carId claimHash (ap_local_claim_hashes s),
     ap_arrival_announcements_received := os_insert carId (ap_arrival_announcements_received s),
     ap_observed_intent_cars := os_insert carId (ap_observed_intent_cars s)\<rparr>"

definition store_own_claim :: "'d AppEnv \<Rightarrow> 'd ArrivalAnnouncement \<Rightarrow> 'd AppState \<Rightarrow> 'd AppState" where
  "store_own_claim env ann s =
     (let car = localCar env;
          s1 = s\<lparr>ap_cached_local_announcements :=
            om_put (broadcast_key (ap_current_epoch s)) ann (ap_cached_local_announcements s)\<rparr>;
          s2 = store_claim car (claim_state env ann) (arrivalAnnouncementHash env ann) s1
      in addLocalSelfAttestation env ann
           (if os_new car (ap_observed_intent_cars s1) then noteDiscoveryIntent env car s2 else s2))"

definition announce_fresh :: "'d AppEnv \<Rightarrow> 'd AppState \<Rightarrow> 'd AppState" where
  "announce_fresh env s =
     (let ann = sign_announcement env (own_claim env s); s1 = store_own_claim env ann s in
      if ev_is_byzantine env \<and> ev_byzantine_type env = BYZANTINE_EQUIVOCATOR
      then equivocate_to_peers env
        (if an_direction ann \<noteq> DIR_LEFT then sign_announcement env (ann\<lparr>an_direction := DIR_LEFT\<rparr>) else ann)
        (if an_direction ann \<noteq> DIR_RIGHT then sign_announcement env (ann\<lparr>an_direction := DIR_RIGHT\<rparr>) else ann)
        (peers env) s1
      else send_announcement env (- 1) ann s1)"

definition broadcastArrivalAnnouncement :: "'d AppEnv \<Rightarrow> 'd AppState \<Rightarrow> 'd AppState" where
  "broadcastArrivalAnnouncement env s =
     (if ap_stopped_distance_collection_active s \<or> \<not> discovery_open s \<or> ap_current_phase s = DEPARTED then s
      else case om_get (ap_cached_local_announcements s) (broadcast_key (ap_current_epoch s)) of
        Some ann \<Rightarrow>
          if ev_is_byzantine env \<and> ev_byzantine_type env = BYZANTINE_EQUIVOCATOR
          then resend_to_peers env (peers env) s
          else send_announcement env (- 1) ann s
      | None \<Rightarrow> announce_fresh env s)"

section \<open>Echoing the announcements of others\<close>

definition sendArrivalEcho :: "'d AppEnv \<Rightarrow> 'd ArrivalAnnouncement \<Rightarrow> 'd AppState \<Rightarrow> 'd AppState" where
  "sendArrivalEcho env ann s =
     (if \<not> ev_has_key env \<or> \<not> discovery_open s \<or> ap_current_phase s = DEPARTED then s
      else let collusion = shouldColludeOnFalseLane env s ann;
               claimHash = arrivalAnnouncementHash env ann;
               key = cacheKey (an_epoch ann) (an_carId ann) claimHash
        in case om_get (ap_cached_arrival_echoes s) key of
          Some echo \<Rightarrow> sendBFTMessage env (- 1) (serializeArrivalEcho echo) kArrivalEchoType False True s
        | None \<Rightarrow>
            if key \<in> set (ap_cached_arrival_rejections s) then s
            else if \<not> collusion \<and> om_get (ap_arrival_perception_samples s) key = None
            then s\<lparr>ap_cached_arrival_rejections := os_insert key (ap_cached_arrival_rejections s)\<rparr>
            else let cue = (if collusion then cue_of_direction (an_direction ann)
                       else case om_get (ap_arrival_perception_samples s) key of None \<Rightarrow> CUE_UNKNOWN
                         | Some sample \<Rightarrow> ps_observedCue sample)
              in case signed_echo env (unsigned_echo env ann claimHash cue) of None \<Rightarrow> s
              | Some e \<Rightarrow>
                  let echo = (if ev_is_byzantine env \<and> ev_byzantine_type env = BYZANTINE_INVALID_SIG
                        then e\<lparr>ae_signature := replicate 4 0xDE @ drop 4 (ae_signature e), ae_signatureLen := 4\<rparr> else e);
                      s1 = s\<lparr>ap_cached_arrival_echoes := om_put key echo (ap_cached_arrival_echoes s)\<rparr>
                  in sendBFTMessage env (- 1) (serializeArrivalEcho echo) kArrivalEchoType False True s1)"

section \<open>Evaluating an announcement\<close>

text \<open>An honest witness binds itself to the first authenticated variant of a (target, epoch).\<close>

definition conflicting_variant :: "'d AppEnv \<Rightarrow> 'd ArrivalAnnouncement \<Rightarrow> bytes \<Rightarrow> 'd AppState \<Rightarrow> bool" where
  "conflicting_variant env ann claimHash s \<longleftrightarrow> \<not> ev_is_byzantine env \<and>
     (case om_get (ap_first_arrival_claim_hashes s) (variantKey (an_epoch ann) (an_carId ann)) of
        None \<Rightarrow> False | Some h \<Rightarrow> h \<noteq> claimHash)"

definition record_variant :: "'d AppEnv \<Rightarrow> 'd ArrivalAnnouncement \<Rightarrow> bytes \<Rightarrow> 'd AppState \<Rightarrow> 'd AppState" where
  "record_variant env ann claimHash s =
     (if ev_is_byzantine env then s
      else let vk = variantKey (an_epoch ann) (an_carId ann);
               variants = (case om_get (ap_claim_variants s) vk of None \<Rightarrow> [] | Some v \<Rightarrow> v);
               variants' = (if om_get variants (hashHex claimHash) = None
                 then om_put (hashHex claimHash) ann variants else variants)
        in s\<lparr>ap_claim_variants := om_put vk variants' (ap_claim_variants s),
             ap_first_arrival_claim_hashes :=
               (if om_get (ap_first_arrival_claim_hashes s) vk = None
                then om_put vk claimHash (ap_first_arrival_claim_hashes s) else ap_first_arrival_claim_hashes s),
             ap_cached_arrival_rejections :=
               (if conflicting_variant env ann claimHash s
                then os_insert (cacheKey (an_epoch ann) (an_carId ann) claimHash) (ap_cached_arrival_rejections s)
                else ap_cached_arrival_rejections s)\<rparr>)"

definition fabricated_sample :: "'d AppEnv \<Rightarrow> 'd AppState \<Rightarrow> 'd ArrivalAnnouncement \<Rightarrow> ArrivalPerceptionSample" where
  "fabricated_sample env s ann =
     (let approach = (case an_lane ann of [] \<Rightarrow> CHR ''?'' | c # _ \<Rightarrow> c); cue = cue_of_direction (an_direction ann) in
      empty_sample\<lparr>ps_detected := True, ps_trueApproach := approach, ps_observedApproach := approach,
        ps_observedCue := cue, ps_trueCue := cue, ps_knownCueSamples := 1,
        ps_lateralCoordinateValid := (cf_lane_observation_mode (ev_cfg env) = ADJACENT_LATERAL),
        ps_trueLateralCm := an_lateralClaimCm ann, ps_observedLateralCm := an_lateralClaimCm ann,
        ps_observedAt := ap_now s\<rparr>)"

definition fabricates :: "'d AppEnv \<Rightarrow> 'd AppState \<Rightarrow> 'd ArrivalAnnouncement \<Rightarrow> bool" where
  "fabricates env s ann \<longleftrightarrow> shouldColludeOnFalseLane env s ann \<or>
     (shouldPhase2Collude env s ann \<and>
      (ev_phase2_attack_kind env = WRONG_APPROACH \<or> ev_phase2_attack_kind env = FALSE_PHYSICAL_LANE))"

definition claim_sample :: "'d AppEnv \<Rightarrow> 'd AppState \<Rightarrow> 'd ArrivalAnnouncement \<Rightarrow> string \<Rightarrow> ArrivalPerceptionSample" where
  "claim_sample env s ann key =
     (if fabricates env s ann then fabricated_sample env s ann
      else let sample = (case om_get (ap_arrival_perception_samples s) key of
                 None \<Rightarrow> ev_observeArrival env (an_carId ann) (ap_now s) | Some sample \<Rightarrow> sample)
        in if shouldPhase2Collude env s ann \<and> ev_phase2_attack_kind env = FALSE_DIRECTION
           then sample\<lparr>ps_observedCue := CUE_RIGHT, ps_knownCueSamples := 1\<rparr> else sample)"

definition sample_supports :: "'d AppEnv \<Rightarrow> 'd ArrivalAnnouncement \<Rightarrow> ArrivalPerceptionSample \<Rightarrow> bool" where
  "sample_supports env ann sample =
     (let cardinalMatch = (ps_detected sample \<and> length (an_lane ann) = 1 \<and>
            ps_observedApproach sample = hd (an_lane ann));
          adjacentMode = (cf_lane_observation_mode (ev_cfg env) = ADJACENT_LATERAL);
          claimSemanticsValid = (\<not> adjacentMode \<or>
            ((an_physicalLaneIndex ann = 0 \<or> an_physicalLaneIndex ann = 1) \<and>
             projectPhysicalLaneIndex (ev_cfg env) (an_lateralClaimCm ann) = an_physicalLaneIndex ann));
          lateralMatch = (\<not> adjacentMode \<or> (ps_lateralCoordinateValid sample \<and> claimSemanticsValid \<and>
            \<bar>ps_observedLateralCm sample - an_lateralClaimCm ann\<bar> \<le> ev_lateral_tolerance_cm env))
      in cardinalMatch \<and> lateralMatch)"

definition claim_valid :: "'d AppEnv \<Rightarrow> 'd AppState \<Rightarrow> 'd ArrivalAnnouncement \<Rightarrow> string \<Rightarrow> bool" where
  "claim_valid env s ann key \<longleftrightarrow> fabricates env s ann \<or> sample_supports env ann (claim_sample env s ann key)"

definition effective_ambulance :: "'d AppEnv \<Rightarrow> 'd ArrivalAnnouncement \<Rightarrow> bool" where
  "effective_ambulance env ann =
     (if an_isAmbulance ann \<and> length (an_ambulanceCertBytes ann) = ev_vehicle_cert_size env
      then (if ev_verifyCert env (an_ambulanceCertBytes ann) \<noteq> ''ambulance'' then False
            else if an_ambulanceSigBytes ann \<noteq> [] \<and> length (an_ambulanceSigBytes ann) \<le> CRYPTO_SIG_MAX_BYTES
            then ev_verify env (ev_cert_public_key env (an_ambulanceCertBytes ann))
              (to_bytes (ambulance_payload ann)) (an_ambulanceSigBytes ann)
            else False)
      else if an_isAmbulance ann \<and> an_ambulanceCertBytes ann \<noteq> [] then False
      else an_isAmbulance ann)"

definition pending_relay :: "'d ArrivalAnnouncement \<Rightarrow> bytes \<Rightarrow> 'd AppState \<Rightarrow> 'd AppState" where
  "pending_relay ann announceBytes s = s\<lparr>ap_pending_relays :=
     om_put (word_of_int (an_epoch ann), an_carId ann)
       \<lparr>pr_carId = an_carId ann, pr_epoch = word_of_int (an_epoch ann), pr_serializedAnnounce = announceBytes,
         pr_firstRelayedAt = ap_now s, pr_relayCount = 0\<rparr> (ap_pending_relays s)\<rparr>"

definition reject_claim :: "'d AppEnv \<Rightarrow> 'd ArrivalAnnouncement \<Rightarrow> bytes \<Rightarrow> ArrivalPerceptionSample \<Rightarrow> 'd AppState \<Rightarrow> 'd AppState" where
  "reject_claim env ann claimHash sample s =
     (let s1 = s\<lparr>ap_cached_arrival_rejections :=
            os_insert (cacheKey (an_epoch ann) (an_carId ann) claimHash) (ap_cached_arrival_rejections s)\<rparr>
      in if \<not> ps_detected sample then s1
         else let vs = (claim_state env ann)\<lparr>vs_lane := cardinal_lane (ps_observedApproach sample), vs_isAmbulance := False\<rparr>;
                  s2 = store_claim (an_carId ann) vs claimHash s1
           in if os_new (an_carId ann) (ap_observed_intent_cars s1) then noteDiscoveryIntent env (an_carId ann) s2 else s2)"

definition accept_claim :: "'d AppEnv \<Rightarrow> 'd ArrivalAnnouncement \<Rightarrow> bytes \<Rightarrow> bytes \<Rightarrow> 'd AppState \<Rightarrow> 'd AppState" where
  "accept_claim env ann0 claimHash announceBytes s =
     (let eff = effective_ambulance env ann0; downgraded = (an_isAmbulance ann0 \<and> \<not> eff); car = an_carId ann0;
          ann = ann0\<lparr>an_isAmbulance := eff\<rparr>;
          s1 = s\<lparr>ap_uncertified_ambulance_claimers :=
              (if downgraded then os_insert car (ap_uncertified_ambulance_claimers s) else ap_uncertified_ambulance_claimers s),
            ap_cert_gate_rejected :=
              (if ev_enableAmbulanceCertGate env \<and> downgraded
               then os_insert car (ap_cert_gate_rejected s) else ap_cert_gate_rejected s)\<rparr>;
          s2 = store_claim car (claim_state env ann) claimHash s1;
          s3 = pending_relay ann announceBytes (s2\<lparr>ap_echoed_cars := os_insert car (ap_echoed_cars s2)\<rparr>);
          s4 = maybeTriggerEmergencyRollback env (an_isAmbulance ann) car s3;
          s5 = gossipArrivalAnnouncement env ann announceBytes (sendArrivalEcho env ann s4);
          s6 = (if os_new car (ap_observed_intent_cars s1) then noteDiscoveryIntent env car s5 else s5)
      in if dr_state (ap_discovery s6) \<noteq> DISCOVERY_INACTIVE then s6\<lparr>ap_current_phase := COLLECTING_CERTS\<rparr> else s6)"

definition evaluate_claim :: "'d AppEnv \<Rightarrow> 'd ArrivalAnnouncement \<Rightarrow> bytes \<Rightarrow> bytes \<Rightarrow> 'd AppState \<Rightarrow> 'd AppState" where
  "evaluate_claim env ann claimHash announceBytes s =
     (let key = cacheKey (an_epoch ann) (an_carId ann) claimHash in
      if om_get (ap_cached_arrival_echoes s) key \<noteq> None then
        (if om_get (ap_collected_certs s) (an_carId ann) = None \<and> \<not> ap_propose_submitted s \<and> \<not> ap_order_applied s
         then sendArrivalEcho env ann (pending_relay ann announceBytes s) else s)
      else if key \<in> set (ap_cached_arrival_rejections s) then s
      else let sample = claim_sample env s ann key;
               s1 = s\<lparr>ap_arrival_perception_samples := om_put key sample (ap_arrival_perception_samples s)\<rparr>
        in if \<not> claim_valid env s ann key then reject_claim env ann claimHash sample s1
           else accept_claim env ann claimHash announceBytes s1)"

definition process_announcement :: "'d AppEnv \<Rightarrow> 'd ArrivalAnnouncement \<Rightarrow> bytes \<Rightarrow> 'd AppState \<Rightarrow> 'd AppState" where
  "process_announcement env ann announceBytes s =
     (if an_carId ann = [] then s
      else if an_direction ann = DIR_UNKNOWN then s
      else if \<not> verifyArrivalAnnouncementOrigin env ann then s
      else if extractReplicaId (an_carId ann) = cf_replicaId (ev_cfg env) then s
      else let claimHash = arrivalAnnouncementHash env ann in
        if conflicting_variant env ann claimHash s then record_variant env ann claimHash s
        else evaluate_claim env ann claimHash announceBytes (record_variant env ann claimHash s))"

definition handleArrivalAnnouncement :: "'d AppEnv \<Rightarrow> bytes \<Rightarrow> 'd AppState \<Rightarrow> 'd AppState option" where
  "handleArrivalAnnouncement env announceBytes s =
     (if ap_stopped_distance_collection_active s then Some s
      else if \<not> discovery_open s \<or> ap_current_phase s = DEPARTED then Some s
      else case deserializeArrivalAnnouncement (ev_zero_d env) (ev_read_d env) announceBytes of None \<Rightarrow> None
        | Some ann \<Rightarrow> Some (process_announcement env ann announceBytes s))"

definition handleArrivalAnnouncementGossip :: "'d AppEnv \<Rightarrow> bytes \<Rightarrow> 'd AppState \<Rightarrow> 'd AppState option" where
  "handleArrivalAnnouncementGossip env payload s =
     (case unpackSignedPacket payload of None \<Rightarrow> Some s
      | Some view \<Rightarrow>
          if sp_resdbBytes view = [] then Some s
          else if \<not> ev_verify env (sp_pubKey view) (sp_resdbBytes view) (sp_sig view) then Some s
          else case parseAnnouncement (sp_resdbBytes view) of None \<Rightarrow> Some s
          | Some (epoch, announceBytes) \<Rightarrow>
              if gx_has_committed_order (ap_gx s) \<and> epoch \<le> gx_last_committed_epoch (ap_gx s) then Some s
              else if sint epoch < sint (ap_current_epoch s) then Some s
              else handleArrivalAnnouncement env announceBytes s)"

end
