(* ===== verification/Distance.thy ===== *)
theory Distance
  imports Arrival
begin

text \<open>
  Stopped-distance attestation (\<^verbatim>\<open>v2vbft/app/ResDBDistanceProtocol.cc\<close>): a stationary vehicle
  claims its distance to the stop line, witnesses echo the claims their perception supports,
  and the claimant certifies it with the echoes it collects. The handlers of received
  certificates of both kinds stand here, since an arrival certificate releases the waiting
  attestations of its car.
\<close>

section \<open>Claiming\<close>

definition distance_open :: "'d AppState \<Rightarrow> bool" where
  "distance_open s \<longleftrightarrow> discovery_open s \<and> ap_current_phase s \<noteq> DEPARTED"

definition scheduleStoppedDistanceAttestationRetry :: "'d AppEnv \<Rightarrow> 'd AppState \<Rightarrow> 'd AppState" where
  "scheduleStoppedDistanceAttestationRetry env s =
     (if ap_attestation_retry_timer s \<noteq> None \<or> \<not> ap_stopped_distance_attestation_sent s \<or>
         ap_stopped_distance_cert_broadcast s \<or> ap_attestation_retry_count s \<ge> ev_attestation_retry_max env \<or>
         \<not> distance_open s then s
      else s\<lparr>ap_attestation_retry_timer := Some (ap_now s + ev_attestation_retry_interval env)\<rparr>)"

definition retryStoppedDistanceAttestation :: "'d AppEnv \<Rightarrow> 'd AppState \<Rightarrow> 'd AppState" where
  "retryStoppedDistanceAttestation env s =
     (if \<not> ap_stopped_distance_attestation_sent s \<or> ap_stopped_distance_cert_broadcast s \<or> \<not> distance_open s \<or>
         ap_attestation_retry_count s \<ge> ev_attestation_retry_max env then s
      else let s1 = s\<lparr>ap_attestation_retry_count := ap_attestation_retry_count s + 1\<rparr>;
               s2 = sendBFTMessage env (- 1) (serializeStoppedDistanceAttestation (ap_local_distance_attestation s1))
                 kStoppedDistanceAttestationType False False s1
        in scheduleStoppedDistanceAttestationRetry env s2)"

definition claimed_distance :: "'d AppEnv \<Rightarrow> rat \<Rightarrow> int" where
  "claimed_distance env trueDistance =
     (let target = (ev_phase2_attack_kind env = FALSE_DISTANCE \<and>
            cf_replicaId (ev_cfg env) = ev_phase2_attack_target env)
      in round (max 0 (trueDistance + (if target then ev_phase2_distance_offset env else 0)) * 100))"

text \<open>
  \<open>ev_own_distance\<close> is the own distance to the stop line, \<open>None\<close> while the vehicle moves or is on
  no approach lane.
\<close>

definition maybeBroadcastStoppedDistanceAttestation :: "'d AppEnv \<Rightarrow> 'd AppState \<Rightarrow> 'd AppState" where
  "maybeBroadcastStoppedDistanceAttestation env s =
     (if ap_stopped_distance_attestation_sent s \<or> \<not> ap_entered_stop_zone s \<or> \<not> discovery_open s \<or>
         \<not> ev_has_key env then s
      else case ev_own_distance env (ap_now s) of None \<Rightarrow> s | Some trueDistance \<Rightarrow>
        (case om_get (ap_local_claim_hashes s) (localCar env) of None \<Rightarrow> s | Some claimHash \<Rightarrow>
          let att0 = \<lparr>sa_targetCarId = localCar env, sa_epoch = sint (ap_current_epoch s),
                sa_earlyClaimHash = claimHash, sa_distanceToStopCm = claimed_distance env trueDistance, sa_signature = []\<rparr>
          in case ev_sign env (to_bytes (canonicalStoppedDistanceAttestationPayload att0)) of None \<Rightarrow> s | Some sig \<Rightarrow>
            let att = att0\<lparr>sa_signature := sig\<rparr>;
                s1 = s\<lparr>ap_local_distance_attestation := att, ap_stopped_distance_attestation_sent := True,
                  ap_attestation_retry_count := 0\<rparr>;
                s2 = sendBFTMessage env (- 1) (serializeStoppedDistanceAttestation att)
                  kStoppedDistanceAttestationType False False s1;
                s3 = scheduleStoppedDistanceAttestationRetry env s2
            in if cert_fault_bound (ev_cfg env) + 1 \<le> 1 \<and> ap_distance_finalize_timer s3 = None
               then s3\<lparr>ap_distance_finalize_timer := Some (ap_now s3 + ev_collection_window env)\<rparr> else s3))"

section \<open>Witnessing\<close>

definition distance_bound :: "'d AppState \<Rightarrow> StoppedDistanceAttestation \<Rightarrow> bool" where
  "distance_bound s att \<longleftrightarrow>
     om_get (ap_local_claim_hashes s) (sa_targetCarId att) = Some (sa_earlyClaimHash att) \<or>
     (case om_get (ap_collected_certs s) (sa_targetCarId att) of None \<Rightarrow> False
      | Some cert \<Rightarrow> ac_claimHash cert = sa_earlyClaimHash att)"

definition attestation_key :: "StoppedDistanceAttestation \<Rightarrow> string" where
  "attestation_key att = sa_targetCarId att @ CHR '':'' # to_string (sa_epoch att) @ CHR '':'' # hashHex (sa_earlyClaimHash att)"

definition distance_sample_key :: "'d AppEnv \<Rightarrow> StoppedDistanceAttestation \<Rightarrow> bytes \<Rightarrow> string" where
  "distance_sample_key env att attHash = to_string (cf_replicaId (ev_cfg env)) @ CHR '':'' # sa_targetCarId att @
     CHR '':'' # to_string (sa_epoch att) @ CHR '':'' # hashHex attHash"

definition distance_colludes :: "'d AppEnv \<Rightarrow> StoppedDistanceAttestation \<Rightarrow> bool" where
  "distance_colludes env att \<longleftrightarrow> ev_phase2_attack_kind env = FALSE_DISTANCE \<and>
     extractReplicaId (sa_targetCarId att) = ev_phase2_attack_target env \<and>
     cf_replicaId (ev_cfg env) \<in> set (ev_phase2_evidence_colluder_ids env)"

definition distance_supported :: "'d AppEnv \<Rightarrow> StoppedDistanceAttestation \<Rightarrow> StoppedDistancePerceptionSample \<Rightarrow> bool" where
  "distance_supported env att sample \<longleftrightarrow> ss_detected sample \<and> ss_stationary sample \<and> ss_distanceValid sample \<and>
     \<bar>ss_observedCm sample - sa_distanceToStopCm att\<bar> \<le> ev_longitudinal_tolerance_cm env"

definition distance_echo_for :: "'d AppEnv \<Rightarrow> StoppedDistanceAttestation \<Rightarrow> bytes \<Rightarrow> StoppedDistanceEcho option" where
  "distance_echo_for env att attHash =
     (let echo = \<lparr>se_echoingReplicaId = cf_replicaId (ev_cfg env), se_targetCarId = sa_targetCarId att,
            se_epoch = sa_epoch att, se_earlyClaimHash = sa_earlyClaimHash att, se_attestationHash = attHash,
            se_distanceToStopCm = sa_distanceToStopCm att, se_signerPubKey = ev_pub_key env,
            se_signature = replicate CRYPTO_SIG_MAX_BYTES 0, se_signatureLen = 0\<rparr>
      in case ev_sign env (to_bytes (stoppedDistanceEchoSigningPayload echo)) of None \<Rightarrow> None
         | Some sig \<Rightarrow> Some (echo\<lparr>se_signature := fst (store_signature sig), se_signatureLen := snd (store_signature sig)\<rparr>))"

definition handleStoppedDistanceAttestation :: "'d AppEnv \<Rightarrow> bytes \<Rightarrow> 'd AppState \<Rightarrow> 'd AppState" where
  "handleStoppedDistanceAttestation env payload s =
     (let att = deserializeStoppedDistanceAttestation payload in
      if \<not> validateStoppedDistanceAttestation (ap_current_epoch s) (ev_keys env) (ev_verify env) att \<or>
         ap_propose_submitted s \<or> ap_order_applied s \<or> ap_current_phase s = DEPARTED then s
      else if \<not> distance_bound s att then
        (if om_get (ap_pending_distance_attestations s) (attestation_key att) = None
         then s\<lparr>ap_pending_distance_attestations :=
           om_put (attestation_key att) att (ap_pending_distance_attestations s)\<rparr> else s)
      else let attHash = stoppedDistanceAttestationHash (ev_hash env) att; key = distance_sample_key env att attHash in
        if om_get (ap_stopped_distance_samples s) key \<noteq> None then s
        else let sample = (if distance_colludes env att then empty_stopped_sample
                   else ev_observeStoppedDistance env (sa_targetCarId att) (ap_now s));
                 s1 = s\<lparr>ap_stopped_distance_samples := om_put key sample (ap_stopped_distance_samples s)\<rparr>
          in if \<not> distance_colludes env att \<and> \<not> distance_supported env att sample then s1
             else case distance_echo_for env att attHash of None \<Rightarrow> s1
               | Some echo \<Rightarrow> sendBFTMessage env (- 1) (serializeStoppedDistanceEcho echo)
                   kStoppedDistanceEchoType False True s1)"

text \<open>
  The loop erases an entry and handles it; the handler may put the same entry back, in front of
  the iterator, where the loop does not meet it again.
\<close>

fun process_pending ::
  "'d AppEnv \<Rightarrow> (string \<times> StoppedDistanceAttestation) list \<Rightarrow> 'd AppState \<Rightarrow> 'd AppState" where
  "process_pending env [] s = s"
| "process_pending env ((key, att) # rest) s = process_pending env rest
     (handleStoppedDistanceAttestation env (serializeStoppedDistanceAttestation att)
       (s\<lparr>ap_pending_distance_attestations := om_erase key (ap_pending_distance_attestations s)\<rparr>))"

definition processPendingStoppedDistanceAttestation :: "'d AppEnv \<Rightarrow> string \<Rightarrow> 'd AppState \<Rightarrow> 'd AppState" where
  "processPendingStoppedDistanceAttestation env carId s =
     process_pending env (filter (\<lambda>(k, att). sa_targetCarId att = carId) (ap_pending_distance_attestations s)) s"

section \<open>Collecting\<close>

definition distance_echo_matches :: "'d AppEnv \<Rightarrow> 'd AppState \<Rightarrow> StoppedDistanceEcho \<Rightarrow> bool" where
  "distance_echo_matches env s echo \<longleftrightarrow>
     (let att = ap_local_distance_attestation s in
      se_targetCarId echo = sa_targetCarId att \<and> se_epoch echo = sa_epoch att \<and>
      se_earlyClaimHash echo = sa_earlyClaimHash att \<and>
      se_attestationHash echo = stoppedDistanceAttestationHash (ev_hash env) att \<and>
      se_distanceToStopCm echo = sa_distanceToStopCm att)"

definition collectStoppedDistanceEcho :: "'d AppEnv \<Rightarrow> StoppedDistanceEcho \<Rightarrow> 'd AppState \<Rightarrow> 'd AppState" where
  "collectStoppedDistanceEcho env echo s =
     (if \<not> ap_stopped_distance_attestation_sent s \<or> ap_stopped_distance_cert_broadcast s \<or>
         \<not> distance_echo_matches env s echo \<or> se_signatureLen echo = 0 \<or>
         \<not> isArrivalSignerEligible (ev_cfg env) (se_echoingReplicaId echo) \<or>
         se_echoingReplicaId echo = cf_replicaId (ev_cfg env) \<or>
         \<not> key_matches (ev_keys env) (se_echoingReplicaId echo) (se_signerPubKey echo) then s
      else if \<not> ev_verify env (se_signerPubKey echo) (to_bytes (stoppedDistanceEchoSigningPayload echo))
          (take (unat (se_signatureLen echo)) (se_signature echo)) then s
      else if se_echoingReplicaId echo \<in> set (map se_echoingReplicaId (ap_my_received_distance_echoes s)) then s
      else if int (length (ap_my_received_distance_echoes s)) \<ge> max 0 (cf_total_vehicles (ev_cfg env) - 1) then s
      else let s1 = s\<lparr>ap_my_received_distance_echoes := ap_my_received_distance_echoes s @ [echo]\<rparr> in
        if 1 + int (length (ap_my_received_distance_echoes s1)) \<ge> cert_fault_bound (ev_cfg env) + 1 \<and>
           ap_distance_finalize_timer s1 = None
        then (cancelStoppedDistanceAttestationRetry s1)\<lparr>ap_distance_finalize_timer :=
          Some (ap_now s1 + ev_collection_window env)\<rparr>
        else s1)"

definition handleStoppedDistanceEcho :: "'d AppEnv \<Rightarrow> bytes \<Rightarrow> 'd AppState \<Rightarrow> 'd AppState" where
  "handleStoppedDistanceEcho env payload = collectStoppedDistanceEcho env (deserializeStoppedDistanceEcho payload)"

section \<open>Certificates received\<close>

definition handleStoppedDistanceCert :: "'d AppEnv \<Rightarrow> bytes \<Rightarrow> 'd AppState \<Rightarrow> 'd AppState" where
  "handleStoppedDistanceCert env payload s =
     (let cert = deserializeStoppedDistanceCert (cf_total_vehicles (ev_cfg env)) payload; att = sd_attestation cert in
      if \<not> validateStoppedDistanceCert (ev_cfg env) (ap_current_epoch s) (ev_hash env) (ev_keys env) (ev_verify env) cert
      then s
      else if om_get (ap_collected_distance_certs s) (sa_targetCarId att) \<noteq> None then s
      else case om_get (ap_collected_certs s) (sa_targetCarId att) of None \<Rightarrow> s
      | Some arrival \<Rightarrow>
          if ac_claimHash arrival \<noteq> sa_earlyClaimHash att then s
          else let s1 = s\<lparr>ap_collected_distance_certs :=
                     om_put (sa_targetCarId att) cert (ap_collected_distance_certs s)\<rparr>;
                   s2 = (if dr_state (ap_discovery s1) = COLLECTING
                     then sendBFTMessage env (- 1) (serializeStoppedDistanceCert cert) kStoppedDistanceCertType False False s1
                     else s1)
            in maybeAdvanceDiscovery env False s2)"

definition cert_state :: "ArrivalCert \<Rightarrow> VehicleState" where
  "cert_state cert = \<lparr>vs_vehicleId = ac_carId cert, vs_lane = ac_lane cert, vs_positionInLane = ac_positionInLane cert,
     vs_physicalLaneIndex = ac_physicalLaneIndex cert, vs_lateralClaimCm = ac_lateralClaimCm cert,
     vs_direction = ac_direction cert, vs_isAmbulance = ac_isAmbulance cert, vs_arrival_time_us = 0\<rparr>"

text \<open>Reconstructing the announcement of a certified car.\<close>

definition note_certified :: "'d AppEnv \<Rightarrow> ArrivalCert \<Rightarrow> 'd AppState \<Rightarrow> 'd AppState" where
  "note_certified env cert s =
     (if om_get (ap_local_vehicle_states s) (ac_carId cert) \<noteq> None then s
      else let s1 = s\<lparr>ap_local_vehicle_states := om_put (ac_carId cert) (cert_state cert) (ap_local_vehicle_states s),
                 ap_observed_intent_cars := os_insert (ac_carId cert) (ap_observed_intent_cars s)\<rparr>
        in if os_new (ac_carId cert) (ap_observed_intent_cars s) \<and> dr_state (ap_discovery s1) = COLLECTING
           then noteDiscoveryIntent env (ac_carId cert) s1 else s1)"

definition relay_cert :: "'d AppEnv \<Rightarrow> ArrivalCert \<Rightarrow> 'd AppState \<Rightarrow> 'd AppState" where
  "relay_cert env cert s =
     (if dr_state (ap_discovery s) \<noteq> COLLECTING then s
      else let relay = cert_tryRelay (ac_carId cert) (ap_cert_relay_tracker s);
               s1 = s\<lparr>ap_cert_relay_tracker := snd relay\<rparr>
        in if \<not> fst relay \<or> ev_cert_relay_silent env then s1
           else sendBFTMessage env (- 1) (serializeArrivalCert cert) kArrivalCertType False False s1)"

definition store_cert :: "'d AppEnv \<Rightarrow> ArrivalCert \<Rightarrow> 'd AppState \<Rightarrow> 'd AppState" where
  "store_cert env cert s =
     (let s1 = s\<lparr>ap_collected_certs := om_put (ac_carId cert) cert (ap_collected_certs s),
            ap_local_claim_hashes := om_put (ac_carId cert) (ac_claimHash cert) (ap_local_claim_hashes s)\<rparr>;
          s2 = processPendingStoppedDistanceAttestation env (ac_carId cert) s1;
          certPrimary = CertPrimary env s2;
          s3 = relay_cert env cert (note_certified env cert s2);
          s4 = (if ap_entered_stop_zone s3 \<and> dr_state (ap_discovery s3) = COLLECTING
            then startStopZoneCertGossip env (cf_replicaId (ev_cfg env) = certPrimary) s3 else s3)
      in maybeAdvanceDiscovery env False
           (maybeTriggerEmergencyRollback env (ac_isAmbulance cert) (ac_carId cert) s4))"

definition handleArrivalCert :: "'d AppEnv \<Rightarrow> bytes \<Rightarrow> 'd AppState \<Rightarrow> 'd AppState option" where
  "handleArrivalCert env payload s =
     (case deserializeArrivalCert payload of None \<Rightarrow> None
      | Some cert \<Rightarrow> Some
          (if ac_carId cert = [] then s
           else if \<not> validateArrivalCert (ev_cfg env) (ev_keys env) (ev_verify env) cert then s
           else if om_get (ap_collected_certs s) (ac_carId cert) \<noteq> None then s
           else store_cert env cert s))"

end
