(* ===== verification/Cancel.thy ===== *)
theory Cancel
  imports Distance
begin

text \<open>
  The CANCEL protocol of one vehicle (\<^verbatim>\<open>v2vbft/app/ResDBRollbackProtocol.cc\<close> and its timers in
  \<^verbatim>\<open>ResDBIntersectionApp.cc\<close>): collecting echoes, certificates and their retries, the local halt,
  the drain before the CANCEL proposal, the choice and rotation of the proposer, the commit of
  a CANCEL by consensus or by gossip, and the reset of the discovery state that begins the
  recovery epoch. Handlers that decode text return \<open>None\<close> where decoding throws.
\<close>

section \<open>Configuration\<close>

definition bftQuorumSize :: "int \<Rightarrow> int \<Rightarrow> int" where
  "bftQuorumSize n f =
     (if n \<le> 0 \<or> f < 0 \<or> f > (n - 1) div 3 then - 1 else max ((n + f + 2) div 2) 1)"

definition kMinPerEpochRollbackVoteN :: int where "kMinPerEpochRollbackVoteN = 4"

definition minRollbackVoteN :: "'d AppEnv \<Rightarrow> int" where
  "minRollbackVoteN env =
     (if ev_rollback_per_epoch env then kMinPerEpochRollbackVoteN
      else max 1 (3 * cert_fault_bound (ev_cfg env) + 1))"

definition minRollbackMembershipSize :: "'d AppEnv \<Rightarrow> 'd AppState \<Rightarrow> int" where
  "minRollbackMembershipSize env s =
     (if cx_expected_membership_size (ap_cx s) > 0
      then max (minRollbackVoteN env) (cx_expected_membership_size (ap_cx s)) else minRollbackVoteN env)"

text \<open>The delay in ticks and the state after the jitter draw.\<close>

definition backoffDelaySec :: "'d AppEnv \<Rightarrow> rat \<Rightarrow> rat \<Rightarrow> int \<Rightarrow> 'd AppState \<Rightarrow> int \<times> 'd AppState" where
  "backoffDelaySec env base cap attempt s =
     (let delay = base * ev_retry_factor env ^ nat (max attempt 0) in
      (ev_ticks env (if delay > cap then cap else delay) + ev_broadcast_jitter env (ap_draws s),
       s\<lparr>ap_draws := Suc (ap_draws s)\<rparr>))"

section \<open>The committed view\<close>

definition cancelElectorateCandidates :: "'d AppState \<Rightarrow> int list" where
  "cancelElectorateCandidates s = sort (gx_committed_vehicle_ids (ap_gx s))"

definition still_waiting :: "'d AppEnv \<Rightarrow> 'd AppState \<Rightarrow> int \<Rightarrow> bool" where
  "still_waiting env s rid \<longleftrightarrow> \<not> ev_hasCleared env (ap_now s) (veh rid)"

fun first_batch :: "(int \<Rightarrow> bool) \<Rightarrow> int list list \<Rightarrow> int \<Rightarrow> int" where
  "first_batch waiting [] i = - 1"
| "first_batch waiting (b # bs) i = (if list_ex waiting b then i else first_batch waiting bs (i + 1))"

definition perceivedActiveBatch :: "'d AppEnv \<Rightarrow> 'd AppState \<Rightarrow> int" where
  "perceivedActiveBatch env s = first_batch (still_waiting env s) (gx_committed_batches (ap_gx s)) 0"

fun next_waiting :: "(int \<Rightarrow> bool) \<Rightarrow> int list list \<Rightarrow> int list" where
  "next_waiting waiting [] = []"
| "next_waiting waiting (b # bs) =
     (case filter waiting b of [] \<Rightarrow> next_waiting waiting bs | w # ws \<Rightarrow> sort (w # ws))"

definition cancelLeaderCandidatesForBatch :: "'d AppEnv \<Rightarrow> 'd AppState \<Rightarrow> int \<Rightarrow> int list" where
  "cancelLeaderCandidatesForBatch env s activeBatch =
     (if activeBatch < 0 then []
      else next_waiting (still_waiting env s) (drop (nat activeBatch + 1) (gx_committed_batches (ap_gx s))))"

definition chooseCancelProposer :: "'d AppState \<Rightarrow> int \<times> 'd AppState" where
  "chooseCancelProposer s =
     (let cands = cx_leader_candidates (ap_cx s) in
      if cands = [] then (- 1, s)
      else let p = cands ! nat (cx_rotation_index (ap_cx s) mod int (length cands))
        in (p, s\<lparr>ap_cx := (ap_cx s)\<lparr>cx_primary := p\<rparr>\<rparr>))"

definition isRecallable :: "'d AppEnv \<Rightarrow> 'd AppState \<Rightarrow> bool" where
  "isRecallable env s =
     (if ap_current_phase s = DEPARTED \<or> ap_is_departed s then False
      else let t = ap_now s; inOrPast = ev_inOrPastConflictBox env t; dist = ev_distanceToIntersection env t;
               speed = ev_speed env t;
               decel = (if ev_braking_decel env \<le> 0 then 9 / 2 else ev_braking_decel env);
               brakingDistance = speed * speed / (2 * decel); alreadyStopped = (speed \<le> 1 / 10); g = ap_gx s;
               waitingForPriorBatch = (gx_my_batch_index g > 0 \<and> gx_preceding_batch_cars g \<noteq> [] \<and>
                 gx_poll_timer g \<noteq> None)
        in (\<not> inOrPast \<and> waitingForPriorBatch) \<or>
           (\<not> inOrPast \<and> (alreadyStopped \<or> dist > brakingDistance + ev_processing_margin env)))"

section \<open>Vehicle control and timers of others\<close>

definition call :: "Call \<Rightarrow> 'd AppState \<Rightarrow> 'd AppState" where
  "call c s = s\<lparr>ap_calls := ap_calls s @ [c]\<rparr>"

definition stopGossip :: "'d AppState \<Rightarrow> 'd AppState" where
  "stopGossip s = s\<lparr>ap_gx := (ap_gx s)\<lparr>gx_timer := None, gx_order_bytes := []\<rparr>\<rparr>"

text \<open>The vehicle halts while it can: the pending resume and the clearance poll are cancelled.\<close>

definition halt_if_recallable :: "'d AppState \<Rightarrow> 'd AppState" where
  "halt_if_recallable s =
     (if cx_local_recallable (ap_cx s) \<and> ap_current_phase s \<noteq> DEPARTED
      then call Call_stopVehicle (s\<lparr>ap_gx := (ap_gx s)\<lparr>gx_resume_timer := None, gx_poll_timer := None\<rparr>\<rparr>)
      else s)"

definition cancelClearCertCandidate :: "'d AppState \<Rightarrow> 'd AppState" where
  "cancelClearCertCandidate s = s\<lparr>ap_lx := (ap_lx s)\<lparr>lx_candidate_timer := None,
     lx_candidate := empty_clear_cert, lx_candidate_key := [], lx_candidate_rank := - 1\<rparr>\<rparr>"

definition cancelClearCertRelay :: "'d AppState \<Rightarrow> 'd AppState" where
  "cancelClearCertRelay s = s\<lparr>ap_lx := (ap_lx s)\<lparr>lx_relay_timer := None,
     lx_pending_relay := empty_clear_cert, lx_pending_relay_key := []\<rparr>\<rparr>"

section \<open>Incidents\<close>

definition incident_key :: "BlockedIncident \<Rightarrow> u32 \<times> u32" where
  "incident_key inc = (bi_cancelledEpoch inc, bi_executingBatch inc)"

definition registerBlockedIncidentIfCrash :: "CancelCert \<Rightarrow> 'd AppState \<Rightarrow> 'd AppState" where
  "registerBlockedIncidentIfCrash cert s =
     (if cc_reason cert \<noteq> reason_crash then s
      else case parseBlockedBatchRef (cc_reasonRef cert) of None \<Rightarrow> s
      | Some inc \<Rightarrow>
          if om_get (cx_incidents (ap_cx s)) (incident_key inc) \<noteq> None then s
          else s\<lparr>ap_cx := (ap_cx s)\<lparr>cx_incidents := om_put (incident_key inc)
            \<lparr>ir_state = BLOCKING, ir_blockedCertBytes = serializeCancelCert cert, ir_clearCertBytes = []\<rparr>
            (cx_incidents (ap_cx s))\<rparr>\<rparr>)"

definition validCancelCert :: "'d AppEnv \<Rightarrow> 'd AppState \<Rightarrow> CancelCert \<Rightarrow> bool" where
  "validCancelCert env s cert = validateCancelCert (cert_fault_bound (ev_cfg env))
     (set (gx_committed_vehicle_ids (ap_gx s))) (ev_keys env) (ev_verify env) cert"

section \<open>Retries of a certificate\<close>

definition cancelCertPropagationConfirmed :: "'d AppEnv \<Rightarrow> 'd AppState \<Rightarrow> string \<Rightarrow> bool" where
  "cancelCertPropagationConfirmed env s key =
     (case om_get (cx_cert_carriers (ap_cx s)) key of None \<Rightarrow> False
      | Some carriers \<Rightarrow> int (length carriers) \<ge> cert_fault_bound (ev_cfg env) + 1)"

definition stopCancelCertRetries :: "'d AppState \<Rightarrow> 'd AppState" where
  "stopCancelCertRetries s = s\<lparr>ap_cx := (ap_cx s)\<lparr>cx_cert_retry_timer := None,
     cx_cert_pending_retries := (cx_cert_pending_retries (ap_cx s))\<lparr>cc_echoes := []\<rparr>, cx_cert_retry_count := 0\<rparr>\<rparr>"

definition pending_cert_key :: "'d AppState \<Rightarrow> string" where
  "pending_cert_key s = (let c = cx_cert_pending_retries (ap_cx s) in
     cancelReasonKey (cc_cancelledEpoch c) (cc_reason c) (cc_reasonRef c))"

definition scheduleNextCancelCertRetry :: "'d AppEnv \<Rightarrow> 'd AppState \<Rightarrow> 'd AppState" where
  "scheduleNextCancelCertRetry env s =
     (if \<not> ev_enableRollback env \<or> cc_echoes (cx_cert_pending_retries (ap_cx s)) = [] then s
      else if cancelCertPropagationConfirmed env s (pending_cert_key s) then stopCancelCertRetries s
      else let (delay, s1) = backoffDelaySec env (ev_retry_base env) (ev_retry_cap env) (cx_cert_retry_count (ap_cx s)) s
        in if cx_cert_retry_timer (ap_cx s1) \<noteq> None then call Call_raise s1
           else s1\<lparr>ap_cx := (ap_cx s1)\<lparr>cx_cert_retry_timer := Some (ap_now s1 + delay)\<rparr>\<rparr>)"

definition onCancelCertRetryTimer :: "'d AppEnv \<Rightarrow> 'd AppState \<Rightarrow> 'd AppState" where
  "onCancelCertRetryTimer env s =
     (let s0 = s\<lparr>ap_cx := (ap_cx s)\<lparr>cx_cert_retry_timer := None\<rparr>\<rparr> in
      if cc_echoes (cx_cert_pending_retries (ap_cx s0)) = [] \<or>
         (\<not> cx_consensus_pending (ap_cx s0) \<and> \<not> cx_pending (ap_cx s0)) then stopCancelCertRetries s0
      else if cancelCertPropagationConfirmed env s0 (pending_cert_key s0) then stopCancelCertRetries s0
      else let s1 = s0\<lparr>ap_cx := (ap_cx s0)\<lparr>cx_cert_retry_count := cx_cert_retry_count (ap_cx s0) + 1\<rparr>\<rparr>;
               s2 = sendBFTMessage env (- 1) (serializeCancelCert (cx_cert_pending_retries (ap_cx s1)))
                 kCancelCertType False False s1
        in if ev_cancel_cert_retry_max env > 0 \<and> cx_cert_retry_count (ap_cx s2) \<ge> ev_cancel_cert_retry_max env
           then stopCancelCertRetries s2 else scheduleNextCancelCertRetry env s2)"

section \<open>Proposing a CANCEL\<close>

definition cancel_payload :: "'d AppEnv \<Rightarrow> 'd AppState \<Rightarrow> bytes" where
  "cancel_payload env s =
     (let c = ap_cx s; electors = cancelElectorateCandidates s in
      enc_cancel_hdr \<lparr>ch_cancelled_epoch = cx_cancelled_epoch c, ch_reason = word_of_int (cx_reason c),
        ch_justification_len = word_of_int (int (length (cx_cert_bytes c)))\<rparr> @
      cx_cert_bytes c @ put_i32 (cf_replicaId (ev_cfg env)) @ put_u32 (word_of_int (int (length electors))) @
      concat (map put_i32 electors))"

definition proposeCancel :: "'d AppEnv \<Rightarrow> 'd AppState \<Rightarrow> 'd AppState" where
  "proposeCancel env s =
     (if \<not> cx_consensus_pending (ap_cx s) \<or> cx_propose_submitted (ap_cx s) then snd (chooseCancelProposer s)
      else if cx_cert_bytes (ap_cx s) = [] then snd (chooseCancelProposer s)
      else let electors = cancelElectorateCandidates s; n = cf_total_vehicles (ev_cfg env);
               cancelQuorum = bftQuorumSize n (cert_fault_bound (ev_cfg env))
        in if electors = [] then s
           else if int (length electors) < cancelQuorum \<or> cancelQuorum < 0 then s
           else call (Call_triggerConsensus (cancel_payload env s))
             (s\<lparr>ap_cx := (ap_cx s)\<lparr>cx_propose_submitted := True\<rparr>, ap_propose_submitted := True\<rparr>))"

definition arm_cancel_lease :: "'d AppEnv \<Rightarrow> 'd AppState \<Rightarrow> 'd AppState" where
  "arm_cancel_lease env s =
     (if ev_enable_cancel_leader_failover env \<and> cx_vc_timer (ap_cx s) = None
      then s\<lparr>ap_cx := (ap_cx s)\<lparr>cx_vc_timer := Some (ap_now s + ev_rollback_vc_timeout env)\<rparr>\<rparr> else s)"

definition trySubmitCancelProposal :: "'d AppEnv \<Rightarrow> 'd AppState \<Rightarrow> 'd AppState" where
  "trySubmitCancelProposal env s0 =
     (let (proposer, s) = chooseCancelProposer s0 in
      if cx_state (ap_cx s) \<noteq> CANCEL_CONSENSUS then s
      else if \<not> cx_consensus_pending (ap_cx s) \<or> cx_propose_submitted (ap_cx s) then s
      else let s1 = arm_cancel_lease env s in
        if proposer \<noteq> cf_replicaId (ev_cfg env) then s1
        else if ev_suppress_initial_cancel_leader env \<and> cx_rotation_index (ap_cx s1) = 0
        then s1\<lparr>ap_cx := (ap_cx s1)\<lparr>cx_leader_attack_logged := True\<rparr>\<rparr>
        else if \<not> cx_local_recallable (ap_cx s1) then s1
        else proposeCancel env s1)"

definition onCancelVcTimer :: "'d AppEnv \<Rightarrow> 'd AppState \<Rightarrow> 'd AppState" where
  "onCancelVcTimer env s =
     (let s0 = s\<lparr>ap_cx := (ap_cx s)\<lparr>cx_vc_timer := None\<rparr>\<rparr>;
          s1 = snd (chooseCancelProposer s0);
          s2 = s1\<lparr>ap_cx := (ap_cx s1)\<lparr>cx_rotation_index := cx_rotation_index (ap_cx s1) + 1,
            cx_propose_submitted := False\<rparr>, ap_propose_submitted := False\<rparr>;
          s3 = snd (chooseCancelProposer s2)
      in trySubmitCancelProposal env s3)"

section \<open>The drain before the proposal\<close>

definition drain_ticks :: "'d AppEnv \<Rightarrow> int" where
  "drain_ticks env = max (ev_ticks env (5 / 100))
     (max (cf_total_vehicles (ev_cfg env) - 1) 0 * max (ev_viewAgreementSlot env) (ev_arrivalSlot env) +
      ev_jitter_max env + ev_ticks env (25 / 1000))"

definition beginCancelDrain :: "'d AppEnv \<Rightarrow> 'd AppState \<Rightarrow> 'd AppState" where
  "beginCancelDrain env s =
     (if \<not> cx_consensus_pending (ap_cx s) \<or> cx_state (ap_cx s) = CANCEL_COMMITTED then s
      else if cx_state (ap_cx s) = CANCEL_DRAINING \<or> cx_state (ap_cx s) = CANCEL_CONSENSUS then s
      else let active = perceivedActiveBatch env s; cands = cancelLeaderCandidatesForBatch env s active in
        s\<lparr>ap_cx := (ap_cx s)\<lparr>cx_state := CANCEL_DRAINING, cx_active_batch := active,
            cx_leader_candidates := cands,
            cx_primary := (case cands of [] \<Rightarrow> - 1 | c # _ \<Rightarrow> c),
            cx_drain_timer := Some (ap_now s + drain_ticks env)\<rparr>,
          ap_announce_timer := None\<rparr>)"

definition finishCancelDrain :: "'d AppEnv \<Rightarrow> 'd AppState \<Rightarrow> 'd AppState" where
  "finishCancelDrain env s =
     (if \<not> cx_consensus_pending (ap_cx s) \<or> cx_state (ap_cx s) \<noteq> CANCEL_DRAINING then s
      else trySubmitCancelProposal env (s\<lparr>ap_cx := (ap_cx s)\<lparr>cx_state := CANCEL_CONSENSUS\<rparr>\<rparr>))"

definition onCancelDrainTimer :: "'d AppEnv \<Rightarrow> 'd AppState \<Rightarrow> 'd AppState" where
  "onCancelDrainTimer env s = finishCancelDrain env (s\<lparr>ap_cx := (ap_cx s)\<lparr>cx_drain_timer := None\<rparr>\<rparr>)"

section \<open>Accepting a justification\<close>

definition handleValidCancelJustification ::
  "'d AppEnv \<Rightarrow> u32 \<Rightarrow> CancelReason \<Rightarrow> string \<Rightarrow> bytes \<Rightarrow> 'd AppState \<Rightarrow> 'd AppState" where
  "handleValidCancelJustification env cancelledEpoch reason reasonRef justification s =
     (if \<not> ev_enableRollback env then s
      else if (cx_consensus_pending (ap_cx s) \<or> cx_pending (ap_cx s)) \<and> cx_cancelled_epoch (ap_cx s) = cancelledEpoch
      then snd (chooseCancelProposer s)
      else if isEpochTombstoned s cancelledEpoch then s
      else let s1 = halt_if_recallable (s\<lparr>ap_cx := (ap_cx s)\<lparr>cx_local_recallable := isRecallable env s\<rparr>\<rparr>);
               s2 = s1\<lparr>ap_cx := (ap_cx s1)\<lparr>cx_cancelled_epoch := cancelledEpoch, cx_reason := reason,
                 cx_reason_ref := reasonRef, cx_cert_bytes := justification, cx_consensus_pending := True,
                 cx_propose_submitted := False, cx_rotation_index := 0, cx_leader_attack_logged := False,
                 cx_active_batch := - 1, cx_primary := - 1, cx_leader_candidates := [],
                 cx_cancel_initiated := True\<rparr>\<rparr>
        in beginCancelDrain env (stopGossip s2))"

definition broadcastCancelCert :: "'d AppEnv \<Rightarrow> CancelCert \<Rightarrow> 'd AppState \<Rightarrow> 'd AppState" where
  "broadcastCancelCert env cert s =
     (if \<not> validCancelCert env s cert then s
      else let key = cancelReasonKey (cc_cancelledEpoch cert) (cc_reason cert) (cc_reasonRef cert);
               s1 = registerBlockedIncidentIfCrash cert s;
               s2 = s1\<lparr>ap_cx := (ap_cx s1)\<lparr>cx_cert_seen := os_insert key (cx_cert_seen (ap_cx s1))\<rparr>\<rparr>;
               payload = serializeCancelCert cert;
               s3 = sendBFTMessage env (- 1) payload kCancelCertType False False s2;
               s4 = s3\<lparr>ap_cx := (ap_cx s3)\<lparr>cx_cert_pending_retries := cert, cx_cert_retry_count := 0\<rparr>\<rparr>;
               s5 = scheduleNextCancelCertRetry env s4
        in handleValidCancelJustification env (cc_cancelledEpoch cert) (cc_reason cert) (cc_reasonRef cert) payload s5)"

definition cancel_echo_verifies :: "'d AppEnv \<Rightarrow> CancelEcho \<Rightarrow> bool" where
  "cancel_echo_verifies env echo = ev_verify env (ce_signerPubKey echo)
     (to_bytes (signPayload (cancel_statement (ce_cancelledEpoch echo) (ce_reason echo) (ce_reasonRef echo))
       (ce_echoingReplicaId echo)))
     (take (unat (ce_signatureLen echo)) (ce_signature echo))"

definition cert_of_bucket :: "u32 \<Rightarrow> CancelReason \<Rightarrow> string \<Rightarrow> WitnessEcho list \<Rightarrow> CancelCert" where
  "cert_of_bucket epoch reason reasonRef bucket = \<lparr>cc_cancelledEpoch = epoch, cc_reason = reason,
     cc_reasonRef = reasonRef, cc_echoes = map (\<lambda>we. toCancelEcho we epoch reason reasonRef) bucket\<rparr>"

definition collectCancelEcho :: "'d AppEnv \<Rightarrow> CancelEcho \<Rightarrow> 'd AppState \<Rightarrow> 'd AppState" where
  "collectCancelEcho env echo s =
     (if ce_echoingReplicaId echo < 0 \<or> ce_signatureLen echo = 0 then s
      else if ce_reason echo \<noteq> reason_crash \<and> ce_reason echo \<noteq> reason_emergency then s
      else if \<not> cancel_echo_verifies env echo then s
      else let stmt = cancel_statement (ce_cancelledEpoch echo) (ce_reason echo) (ce_reasonRef echo);
               key = collectorKey stmt;
               added = collector_add stmt (cancelToWitnessEcho echo) (cx_echo_collector (ap_cx s));
               s1 = s\<lparr>ap_cx := (ap_cx s)\<lparr>cx_echo_collector := snd added\<rparr>\<rparr>
        in if \<not> fst added then s1
           else let bucket = (case collector_get (snd added) key of None \<Rightarrow> [] | Some es \<Rightarrow> es) in
             if int (length bucket) \<ge> cert_fault_bound (ev_cfg env) + 1 \<and> key \<notin> set (cx_cert_seen (ap_cx s1))
             then broadcastCancelCert env
               (cert_of_bucket (ce_cancelledEpoch echo) (ce_reason echo) (ce_reasonRef echo) bucket) s1
             else s1)"

definition handleCancelEcho :: "'d AppEnv \<Rightarrow> bytes \<Rightarrow> 'd AppState \<Rightarrow> 'd AppState option" where
  "handleCancelEcho env payload s =
     (if \<not> ev_enableRollback env then Some s
      else map_option (\<lambda>echo. collectCancelEcho env echo s) (deserializeCancelEcho payload))"

definition relay_cancel_cert :: "'d AppEnv \<Rightarrow> string \<Rightarrow> bytes \<Rightarrow> 'd AppState \<Rightarrow> 'd AppState" where
  "relay_cancel_cert env key payload s =
     (if os_new key (cx_cert_relayed (ap_cx s))
      then sendBFTMessage env (- 1) payload kCancelCertType False False
        (s\<lparr>ap_cx := (ap_cx s)\<lparr>cx_cert_relayed := os_insert key (cx_cert_relayed (ap_cx s))\<rparr>\<rparr>)
      else s)"

definition acceptCancelCert :: "'d AppEnv \<Rightarrow> int \<Rightarrow> CancelCert \<Rightarrow> 'd AppState \<Rightarrow> 'd AppState" where
  "acceptCancelCert env from_id cert s =
     (if cc_reasonRef cert = [] then s
      else if \<not> validCancelCert env s cert then s
      else let s1 = registerBlockedIncidentIfCrash cert s;
               key = cancelReasonKey (cc_cancelledEpoch cert) (cc_reason cert) (cc_reasonRef cert);
               payload = serializeCancelCert cert;
               carriers = (case om_get (cx_cert_carriers (ap_cx s1)) key of None \<Rightarrow> [] | Some cs \<Rightarrow> cs);
               firstSeen = os_new key (cx_cert_seen (ap_cx s1));
               s2 = s1\<lparr>ap_cx := (ap_cx s1)\<lparr>
                 cx_cert_carriers := om_put key (os_insert from_id carriers) (cx_cert_carriers (ap_cx s1)),
                 cx_cert_seen := os_insert key (cx_cert_seen (ap_cx s1))\<rparr>\<rparr>;
               s3 = relay_cancel_cert env key payload s2
        in if firstSeen \<or> \<not> cx_consensus_pending (ap_cx s3)
           then handleValidCancelJustification env (cc_cancelledEpoch cert) (cc_reason cert) (cc_reasonRef cert) payload s3
           else s3)"

definition handleCancelCert :: "'d AppEnv \<Rightarrow> int \<Rightarrow> bytes \<Rightarrow> 'd AppState \<Rightarrow> 'd AppState option" where
  "handleCancelCert env from_id payload s =
     (if \<not> ev_enableRollback env then Some s
      else map_option (\<lambda>cert. acceptCancelCert env from_id cert s) (deserializeCancelCert payload))"

definition maybeTriggerCrashRollback :: "'d AppEnv \<Rightarrow> string \<Rightarrow> 'd AppState \<Rightarrow> 'd AppState" where
  "maybeTriggerCrashRollback env reasonRef s =
     (if \<not> ev_enableRollback env \<or> \<not> gx_has_committed_order (ap_gx s) then s
      else sendCancelEcho env (gx_last_committed_epoch (ap_gx s)) reason_crash (cleanRef reasonRef) s)"

end
