(* ===== verification/CancelCommit.thy ===== *)
theory CancelCommit
  imports Cancel
begin

text \<open>
  The commit of a CANCEL (\<^verbatim>\<open>v2vbft/app/ResDBRollbackProtocol.cc\<close>): the decision of consensus and
  its gossip, the vote count by which a replica adopts the decision without consensus, and the
  transition to discovery of the recovery epoch.
\<close>

section \<open>References and gossip of a committed CANCEL\<close>

definition buildCancelCommitRef :: "'d AppState \<Rightarrow> u32 \<Rightarrow> bytes" where
  "buildCancelCommitRef s cancelledEpoch =
     (case om_get (cx_committed_cancels (ap_cx s)) cancelledEpoch of None \<Rightarrow> []
      | Some info \<Rightarrow> enc_commit_ref \<lparr>cr_cancelled_epoch = cancelledEpoch, cr_cancel_seq = ci_cancel_seq info,
          cr_payload_digest = ci_payload_digest info,
          cr_proof_len = word_of_int (int (length (ci_attestation_bytes info)))\<rparr> @ ci_attestation_bytes info)"

definition cancelGossipPropagationConfirmed :: "'d AppEnv \<Rightarrow> 'd AppState \<Rightarrow> bool" where
  "cancelGossipPropagationConfirmed env s =
     (let c = ap_cx s in
      if cx_gossip_bytes c = [] then False
      else acc_count (cx_gossip_acc c) (cx_gossip_epoch c) (cx_gossip_bytes c) \<ge> cert_fault_bound (ev_cfg env) + 1)"

definition send_cancel_gossip :: "'d AppEnv \<Rightarrow> u32 \<Rightarrow> bytes \<Rightarrow> 'd AppState \<Rightarrow> 'd AppState" where
  "send_cancel_gossip env epoch attestation s =
     (let signed = packSignedPacket (ev_sign env) (ev_pub_key env) (serialize_gossip epoch attestation) in
      if signed = [] then s else sendBFTMessage env (- 1) signed kCancelCommitGossipType False False s)"

definition triggerCancelCommitGossip :: "'d AppEnv \<Rightarrow> u32 \<Rightarrow> bytes \<Rightarrow> 'd AppState \<Rightarrow> 'd AppState" where
  "triggerCancelCommitGossip env cancelledEpoch attestation s =
     (if attestation = [] then s
      else let s1 = s\<lparr>ap_cx := (ap_cx s)\<lparr>cx_gossip_timer := None, cx_gossip_epoch := cancelledEpoch,
                 cx_gossip_bytes := attestation, cx_gossip_retry_count := 0\<rparr>\<rparr>;
               s2 = send_cancel_gossip env cancelledEpoch attestation s1;
               s3 = (if cancelGossipPropagationConfirmed env s2 then s2
                 else if ev_cancel_cert_retry_max env \<le> 0 \<or> cx_gossip_retry_count (ap_cx s2) < ev_cancel_cert_retry_max env
                 then (let (delay, s') = backoffDelaySec env (ev_gossip_retry_base env) (ev_gossip_retry_cap env)
                           (cx_gossip_retry_count (ap_cx s2)) s2
                       in s'\<lparr>ap_cx := (ap_cx s')\<lparr>cx_gossip_timer := Some (ap_now s' + delay)\<rparr>\<rparr>)
                 else s2)
        in s3\<lparr>ap_cx := (ap_cx s3)\<lparr>cx_gossip_retry_count := cx_gossip_retry_count (ap_cx s3) + 1\<rparr>\<rparr>)"

definition onCancelGossipTimer :: "'d AppEnv \<Rightarrow> 'd AppState \<Rightarrow> 'd AppState" where
  "onCancelGossipTimer env s =
     (let s0 = s\<lparr>ap_cx := (ap_cx s)\<lparr>cx_gossip_timer := None\<rparr>\<rparr> in
      if cx_gossip_bytes (ap_cx s0) = [] then s0
      else if cancelGossipPropagationConfirmed env s0 then s0\<lparr>ap_cx := (ap_cx s0)\<lparr>cx_gossip_bytes := []\<rparr>\<rparr>
      else let s1 = send_cancel_gossip env (cx_gossip_epoch (ap_cx s0)) (cx_gossip_bytes (ap_cx s0)) s0;
               n = cx_gossip_retry_count (ap_cx s1)
        in if ev_cancel_cert_retry_max env > 0 \<and> n + 1 \<ge> ev_cancel_cert_retry_max env
           then s1\<lparr>ap_cx := (ap_cx s1)\<lparr>cx_gossip_retry_count := n + 1, cx_gossip_bytes := []\<rparr>\<rparr>
           else (let (delay, s2) = backoffDelaySec env (ev_gossip_retry_base env) (ev_gossip_retry_cap env) n s1
                 in s2\<lparr>ap_cx := (ap_cx s2)\<lparr>cx_gossip_retry_count := n + 1,
                      cx_gossip_timer := Some (ap_now s2 + delay)\<rparr>\<rparr>))"

text \<open>The header is passed as the bytes of the struct, its padding included.\<close>

definition broadcastCancelCommitAttestation :: "'d AppEnv \<Rightarrow> bytes \<Rightarrow> 'd AppState \<Rightarrow> 'd AppState" where
  "broadcastCancelCommitAttestation env dh_bytes s =
     (if \<not> ev_gossip_enabled env \<or> \<not> ev_has_key env then s
      else triggerCancelCommitGossip env (dh_cancelled_epoch (dec_cancel_decision dh_bytes)) dh_bytes s)"

section \<open>The recovery epoch\<close>

text \<open>Everything discovery collected for the cancelled epoch is dropped.\<close>

definition clear_discovery :: "'d AppState \<Rightarrow> 'd AppState" where
  "clear_discovery s = s\<lparr>ap_collected_certs := [], ap_collected_distance_certs := [], ap_local_vehicle_states := [],
     ap_observed_intent_cars := [], ap_my_received_echoes := [], ap_my_received_distance_echoes := [],
     ap_stopped_distance_samples := [], ap_pending_distance_attestations := [],
     ap_local_distance_attestation := empty_attestation, ap_stopped_distance_attestation_sent := False,
     ap_stopped_distance_cert_broadcast := False, ap_attestation_retry_count := 0,
     ap_arrival_perception_samples := [], ap_cached_arrival_echoes := [], ap_cached_local_announcements := [],
     ap_cached_arrival_rejections := [], ap_local_claim_hashes := [], ap_first_arrival_claim_hashes := [],
     ap_claim_variants := [], ap_arrival_announcements_received := [], ap_echoed_cars := [],
     ap_announcement_relay_tracker := [], ap_cert_relay_tracker := [], ap_pending_relays := []\<rparr>"

definition begin_recovery_epoch :: "u32 \<Rightarrow> CancelReason \<Rightarrow> string \<Rightarrow> bytes \<Rightarrow> 'd AppState \<Rightarrow> 'd AppState" where
  "begin_recovery_epoch cancelledEpoch reason reasonRef justification s =
     (let s1 = s\<lparr>ap_cx := (ap_cx s)\<lparr>cx_pending := True, cx_cancelled_epoch := cancelledEpoch,
            cx_new_epoch := cancelledEpoch + 1, cx_reason := reason, cx_reason_ref := reasonRef,
            cx_justification := justification, cx_expected_membership_size := 0, cx_rotation_index := 0\<rparr>\<rparr>;
          s2 = resetOrderCandidate s1;
          s3 = s2\<lparr>ap_cx := (ap_cx s2)\<lparr>cx_fabricated_logged := False, cx_fabricated_active := False\<rparr>,
            ap_current_epoch := cx_new_epoch (ap_cx s2), ap_propose_submitted := False, ap_order_applied := False,
            ap_cert_broadcast := False\<rparr>;
          s4 = cancelPendingDiscoveryTxs (stopCertBroadcastRetries (cancelStoppedDistanceFinalizeTimer
            (cancelArrivalCertFinalizeTimer s3)));
          s5 = cancelClearCertRelay (cancelClearCertCandidate (clear_discovery s4))
      in s5\<lparr>ap_lx := (ap_lx s5)\<lparr>lx_candidate_keys := [], lx_tracker := []\<rparr>\<rparr>)"

definition reannounce :: "'d AppEnv \<Rightarrow> 'd AppState \<Rightarrow> 'd AppState" where
  "reannounce env s =
     (if cx_local_recallable (ap_cx s)
      then (let s1 = broadcastArrivalAnnouncement env s
            in s1\<lparr>ap_announce_timer := Some (ap_now s1 + ev_announcement_interval env)\<rparr>)
      else s)"

definition rearm_poll :: "'d AppEnv \<Rightarrow> 'd AppState \<Rightarrow> 'd AppState" where
  "rearm_poll env s =
     (if ev_enableRollback env \<and> gx_poll_timer (ap_gx s) = None
      then s\<lparr>ap_gx := (ap_gx s)\<lparr>gx_poll_timer := Some (ap_now s + ev_poll_period env +
             (cf_replicaId (ev_cfg env) * ev_poll_period env + ev_broadcast_jitter env (ap_draws s)))\<rparr>,
           ap_draws := Suc (ap_draws s)\<rparr>
      else s)"

definition beginPostCancelDiscovery ::
  "'d AppEnv \<Rightarrow> u32 \<Rightarrow> CancelReason \<Rightarrow> string \<Rightarrow> bytes \<Rightarrow> 'd AppState \<Rightarrow> 'd AppState" where
  "beginPostCancelDiscovery env cancelledEpoch reason reasonRef justification s =
     (if cx_pending (ap_cx s) \<and> cx_cancelled_epoch (ap_cx s) = cancelledEpoch then s
      else let s1 = halt_if_recallable (s\<lparr>ap_cx := (ap_cx s)\<lparr>cx_local_recallable := isRecallable env s\<rparr>\<rparr>);
               s2 = begin_recovery_epoch cancelledEpoch reason reasonRef justification s1
        in rearm_poll env (armDiscoveryTimers env (reannounce env (startDiscoveryRound env s2))))"

section \<open>Commit by consensus\<close>

definition committed_info :: "bool \<Rightarrow> ResdbCancelDecisionHdr \<Rightarrow> bytes \<Rightarrow> CommittedCancelInfo" where
  "committed_info adopted dh attestation = \<lparr>ci_cancel_seq = dh_cancel_seq dh, ci_payload_digest = dh_payload_digest dh,
     ci_attestation_bytes = attestation, ci_gossip_adopted = adopted\<rparr>"

definition record_commit :: "bool \<Rightarrow> ResdbCancelDecisionHdr \<Rightarrow> bytes \<Rightarrow> 'd AppState \<Rightarrow> 'd AppState" where
  "record_commit adopted dh attestation s = s\<lparr>ap_cx := (ap_cx s)\<lparr>
     cx_tombstoned_epochs := os_insert (dh_cancelled_epoch dh) (cx_tombstoned_epochs (ap_cx s)),
     cx_committed_cancels := om_put (dh_cancelled_epoch dh) (committed_info adopted dh attestation)
       (cx_committed_cancels (ap_cx s))\<rparr>\<rparr>"

definition handleCancelCommitDecision :: "'d AppEnv \<Rightarrow> bytes \<Rightarrow> 'd AppState \<Rightarrow> 'd AppState" where
  "handleCancelCommitDecision env dec s =
     (if length dec < sizeof_cancel_decision then s
      else let dh = dec_cancel_decision dec in
        if dh_magic dh \<noteq> RESDB_CANCEL_DECISION_MAGIC then s
        else let s1 = record_commit False dh dec (clearConsensusRetries s);
                 s2 = stopCancelCertRetries (s1\<lparr>ap_cx := (ap_cx s1)\<lparr>cx_consensus_pending := False,
                   cx_propose_submitted := False, cx_state := CANCEL_COMMITTED, cx_cancel_initiated := False\<rparr>\<rparr>);
                 s3 = s2\<lparr>ap_cx := (ap_cx s2)\<lparr>cx_vc_timer := None, cx_drain_timer := None\<rparr>\<rparr>;
                 s4 = s3\<lparr>ap_cx := (ap_cx s3)\<lparr>cx_justification := buildCancelCommitRef s3 (dh_cancelled_epoch dh)\<rparr>\<rparr>;
                 s5 = broadcastCancelCommitAttestation env (take sizeof_cancel_decision dec) s4
          in beginPostCancelDiscovery env (dh_cancelled_epoch dh) (cx_reason (ap_cx s5)) (cx_reason_ref (ap_cx s5))
               (cx_justification (ap_cx s5)) s5)"

section \<open>Commit by gossip\<close>

definition adoptCancelCommit :: "'d AppEnv \<Rightarrow> ResdbCancelDecisionHdr \<Rightarrow> bytes \<Rightarrow> 'd AppState \<Rightarrow> 'd AppState" where
  "adoptCancelCommit env dh attestation s =
     (let epoch = dh_cancelled_epoch dh;
          s1 = record_commit True dh attestation s;
          s2 = s1\<lparr>ap_cx := (ap_cx s1)\<lparr>cx_justification := buildCancelCommitRef s1 epoch,
            cx_consensus_pending := False, cx_propose_submitted := False, cx_state := CANCEL_COMMITTED\<rparr>\<rparr>;
          s3 = clearConsensusRetries s2;
          s4 = s3\<lparr>ap_cx := (ap_cx s3)\<lparr>cx_drain_timer := None\<rparr>\<rparr>;
          s5 = triggerCancelCommitGossip env epoch attestation s4;
          ref = (if cx_reason_ref (ap_cx s5) = [] then ''gossip-adopted'' else cx_reason_ref (ap_cx s5));
          s6 = beginPostCancelDiscovery env epoch (uint (dh_reason dh)) ref (cx_justification (ap_cx s5)) s5
      in call (Call_advanceExecutor epoch) s6)"

definition countCancelCommit :: "'d AppEnv \<Rightarrow> int \<Rightarrow> u32 \<Rightarrow> bytes \<Rightarrow> 'd AppState \<Rightarrow> 'd AppState" where
  "countCancelCommit env from_id cancelledEpoch attestation s =
     (if length attestation < sizeof_cancel_decision then s
      else let dh = dec_cancel_decision attestation in
        if dh_magic dh \<noteq> RESDB_CANCEL_DECISION_MAGIC \<or> dh_cancelled_epoch dh \<noteq> cancelledEpoch then s
        else let vote = acc_add from_id cancelledEpoch attestation (cert_fault_bound (ev_cfg env) + 1)
                   (cx_gossip_acc (ap_cx s));
                 s1 = s\<lparr>ap_cx := (ap_cx s)\<lparr>cx_gossip_acc := snd vote\<rparr>\<rparr>
          in if isEpochTombstoned s1 cancelledEpoch then s1
             else if \<not> fst vote then s1
             else adoptCancelCommit env dh attestation s1)"

definition handleCancelCommitGossip :: "'d AppEnv \<Rightarrow> int \<Rightarrow> bytes \<Rightarrow> 'd AppState \<Rightarrow> 'd AppState" where
  "handleCancelCommitGossip env from_id payload s =
     (if payload = [] then s
      else case unpackSignedPacket payload of None \<Rightarrow> s
      | Some view \<Rightarrow>
          if \<not> ev_verify env (sp_pubKey view) (sp_resdbBytes view) (sp_sig view) then s
          else case parse_gossip (sp_resdbBytes view) of None \<Rightarrow> s
          | Some (epoch, attestation) \<Rightarrow> countCancelCommit env from_id epoch attestation s)"

end
