(* ===== verification/Wait.thy ===== *)
theory Wait
  imports CancelCommit
begin

text \<open>
  The WAIT heartbeat of the recovery leader (\<^verbatim>\<open>v2vbft/app/ResDBRollbackProtocol.cc\<close>): while an
  incident of the cancelled epoch still blocks the box, the leader of the next ORDER sends a
  signed lease; a follower that accepts it puts off its suspicion of the leader until the lease
  ends. The ORDER candidate and the current ORDER primary stand here too.
\<close>

section \<open>The ORDER candidate and its primary\<close>

definition hasBlockingIncidentForEpoch :: "'d AppState \<Rightarrow> u32 \<Rightarrow> bool" where
  "hasBlockingIncidentForEpoch s cancelledEpoch \<longleftrightarrow>
     list_ex (\<lambda>(k, r). fst k = cancelledEpoch \<and> ir_state r \<noteq> CLEARED) (cx_incidents (ap_cx s))"

definition candidate_voters :: "'d AppEnv \<Rightarrow> bool \<Rightarrow> 'd AppState \<Rightarrow> int list" where
  "candidate_voters env recovery s =
     (let eligible = (\<lambda>rid. if recovery then shouldIncludeInRollbackMembership env s rid
            else 0 \<le> rid \<and> rid < cf_total_vehicles (ev_cfg env))
      in remdups_adj (sort (filter eligible (map extractReplicaId
           (filter (\<lambda>c. om_get (ap_collected_distance_certs s) c \<noteq> None) (om_keys (ap_collected_certs s)))))))"

definition recovery_round :: "'d AppState \<Rightarrow> bool" where
  "recovery_round s \<longleftrightarrow> cx_pending (ap_cx s) \<and> ap_current_epoch s = cx_new_epoch (ap_cx s)"

definition buildOrderCandidate :: "'d AppEnv \<Rightarrow> 'd AppState \<Rightarrow> OrderCandidate" where
  "buildOrderCandidate env s =
     (let c = ap_cx s; recovery = recovery_round s; voters = candidate_voters env recovery s in
      \<lparr>oc_epoch = ap_current_epoch s, oc_recovery = recovery,
        oc_cancelledEpoch = (if recovery then cx_cancelled_epoch c else 0), oc_rollbackReason = cx_reason c,
        oc_initialPrimary = (case voters of [] \<Rightarrow> - 1 | v # _ \<Rightarrow> v),
        oc_certs = ap_collected_certs s, oc_distanceCerts = ap_collected_distance_certs s,
        oc_vehicleStates = ap_local_vehicle_states s, oc_observedIntents = ap_observed_intent_cars s,
        oc_cancelJustification = (if recovery then cx_justification c else []),
        oc_clearCerts = (if recovery then map (\<lambda>(k, r). ir_clearCertBytes r)
          (filter (\<lambda>(k, r). fst k = cx_cancelled_epoch c \<and> ir_state r = CLEARED \<and> ir_clearCertBytes r \<noteq> [])
            (cx_incidents c)) else []),
        oc_voterIds = voters\<rparr>)"

definition currentOrderPrimary :: "'d AppEnv \<Rightarrow> 'd AppState \<Rightarrow> int" where
  "currentOrderPrimary env s =
     (if ap_order_vc_authoritative s then ResdbOmnetGetPrimary (ap_server s)
      else case ap_order_candidate s of Some c \<Rightarrow> oc_initialPrimary c | None \<Rightarrow> CertPrimary env s)"

section \<open>The heartbeat\<close>

record WaitHeartbeatPayload =
  wp_magic :: u32
  wp_version :: u16
  wp_cancelledEpoch :: u32
  wp_executingBatch :: u32
  wp_leaderId :: int
  wp_heartbeatIndex :: u32
  wp_sentAtSimUs :: u64
  wp_validUntilSimUs :: u64

definition kWaitHeartbeatMagic :: u32 where "kWaitHeartbeatMagic = 0x57414954"

definition sizeof_wait :: nat where "sizeof_wait = 40"

definition enc_wait :: "WaitHeartbeatPayload \<Rightarrow> bytes" where
  "enc_wait p = put_u32 (wp_magic p) @ put_u16 (wp_version p) @ put_u16 0 @ put_u32 (wp_cancelledEpoch p) @
     put_u32 (wp_executingBatch p) @ put_i32 (wp_leaderId p) @ put_u32 (wp_heartbeatIndex p) @
     put_u64 (wp_sentAtSimUs p) @ put_u64 (wp_validUntilSimUs p)"

definition dec_wait :: "bytes \<Rightarrow> WaitHeartbeatPayload" where
  "dec_wait bs = \<lparr>wp_magic = get_u32 bs 0, wp_version = get_u16 bs 4, wp_cancelledEpoch = get_u32 bs 8,
     wp_executingBatch = get_u32 bs 12, wp_leaderId = get_i32 bs 16, wp_heartbeatIndex = get_u32 bs 20,
     wp_sentAtSimUs = get_u64 bs 24, wp_validUntilSimUs = get_u64 bs 32\<rparr>"

interpretation waitc: fixed_codec enc_wait dec_wait sizeof_wait "\<lambda>p. in_i32 (wp_leaderId p)"
  by unfold_locales (simp_all add: enc_wait_def dec_wait_def sizeof_wait_def field_reads)

text \<open>Simulation time in microseconds, as an unsigned and back from a signed 64-bit integer.\<close>

definition time_us :: "'d AppEnv \<Rightarrow> int \<Rightarrow> u64" where
  "time_us env t = word_of_int (t div ev_ticks_per_us env)"

definition ticks_of_us :: "'d AppEnv \<Rightarrow> u64 \<Rightarrow> int" where
  "ticks_of_us env us = sint us * ev_ticks_per_us env"

definition waiting_incident :: "'d AppEnv \<Rightarrow> 'd AppState \<Rightarrow> (u32 \<times> u32) option" where
  "waiting_incident env s =
     (if \<not> ev_enableRollback env \<or> \<not> cx_pending (ap_cx s) then None
      else if dr_state (ap_discovery s) \<noteq> COMPLETE \<or> dr_epoch (ap_discovery s) \<noteq> cx_new_epoch (ap_cx s) then None
      else map_option fst (find (\<lambda>(k, r). fst k = cx_cancelled_epoch (ap_cx s) \<and> ir_state r = BLOCKING)
        (cx_incidents (ap_cx s))))"

definition sendWaitHeartbeat :: "'d AppEnv \<Rightarrow> u32 \<times> u32 \<Rightarrow> 'd AppState \<Rightarrow> 'd AppState" where
  "sendWaitHeartbeat env incident s =
     (if \<not> ev_has_key env then s
      else let p = \<lparr>wp_magic = kWaitHeartbeatMagic, wp_version = 1, wp_cancelledEpoch = fst incident,
                 wp_executingBatch = snd incident, wp_leaderId = cf_replicaId (ev_cfg env),
                 wp_heartbeatIndex = wx_leader_heartbeat_index (ap_wx s), wp_sentAtSimUs = time_us env (ap_now s),
                 wp_validUntilSimUs = time_us env (ap_now s + ev_wait_max_deferral env)\<rparr>;
               s1 = s\<lparr>ap_wx := (ap_wx s)\<lparr>wx_leader_heartbeat_index := wx_leader_heartbeat_index (ap_wx s) + 1\<rparr>\<rparr>;
               signed = packSignedPacket (ev_sign env) (ev_pub_key env) (enc_wait p)
        in if signed = [] then s1 else sendBFTMessage env (- 1) signed kWaitHeartbeatType False False s1)"

definition maybeSendWaitHeartbeat :: "'d AppEnv \<Rightarrow> 'd AppState \<Rightarrow> 'd AppState" where
  "maybeSendWaitHeartbeat env s =
     (let idle = s\<lparr>ap_wx := (ap_wx s)\<lparr>wx_send_timer := None, wx_leader_active := False\<rparr>\<rparr> in
      case waiting_incident env s of None \<Rightarrow> idle
      | Some incident \<Rightarrow>
          if currentOrderPrimary env s \<noteq> cf_replicaId (ev_cfg env) then idle
          else let s1 = (if \<not> wx_leader_active (ap_wx s)
                     then s\<lparr>ap_wx := (ap_wx s)\<lparr>wx_leader_heartbeat_index := 0, wx_leader_active := True\<rparr>\<rparr> else s);
                   s2 = sendWaitHeartbeat env incident s1
            in s2\<lparr>ap_wx := (ap_wx s2)\<lparr>wx_send_timer := Some (ap_now s2 + ev_wait_interval env)\<rparr>\<rparr>)"

section \<open>Accepting a heartbeat\<close>

definition wait_context_ok :: "'d AppEnv \<Rightarrow> 'd AppState \<Rightarrow> WaitHeartbeatPayload \<Rightarrow> bool" where
  "wait_context_ok env s p \<longleftrightarrow>
     isEpochTombstoned s (wp_cancelledEpoch p) \<and>
     (case om_get (cx_incidents (ap_cx s)) (wp_cancelledEpoch p, wp_executingBatch p) of
        None \<Rightarrow> False | Some r \<Rightarrow> ir_state r = BLOCKING) \<and>
     \<not> (ap_order_applied s \<and> ap_current_epoch s = wp_cancelledEpoch p + 1) \<and>
     dr_state (ap_discovery s) = COMPLETE \<and> dr_epoch (ap_discovery s) = wp_cancelledEpoch p + 1 \<and>
     wp_leaderId p = currentOrderPrimary env s"

definition wait_index_fresh :: "'d AppState \<Rightarrow> WaitHeartbeatPayload \<Rightarrow> bool" where
  "wait_index_fresh s p =
     (let w = wx_follower (ap_wx s) in
      \<not> (wf_active w \<and> wf_cancelledEpoch w = wp_cancelledEpoch p \<and> wf_executingBatch w = wp_executingBatch p \<and>
         wf_leaderId w = wp_leaderId p \<and> wp_heartbeatIndex p \<le> wf_lastHeartbeatIndex w))"

definition wait_lease_ok :: "'d AppEnv \<Rightarrow> 'd AppState \<Rightarrow> WaitHeartbeatPayload \<Rightarrow> bool" where
  "wait_lease_ok env s p =
     (let sentAt = ticks_of_us env (wp_sentAtSimUs p); validUntil = ticks_of_us env (wp_validUntilSimUs p) in
      \<not> sentAt > ap_now s + ev_wait_clock_skew env \<and> \<not> validUntil \<le> sentAt \<and>
      \<not> validUntil - sentAt > ev_wait_max_deferral env + ev_ticks_per_us env \<and> \<not> validUntil \<le> ap_now s)"

definition accept_wait :: "'d AppEnv \<Rightarrow> WaitHeartbeatPayload \<Rightarrow> 'd AppState \<Rightarrow> 'd AppState" where
  "accept_wait env p s =
     (let validUntil = ticks_of_us env (wp_validUntilSimUs p) in
      s\<lparr>ap_wx := (ap_wx s)\<lparr>wx_follower := \<lparr>wf_active = True, wf_cancelledEpoch = wp_cancelledEpoch p,
          wf_executingBatch = wp_executingBatch p, wf_leaderId = wp_leaderId p,
          wf_lastHeartbeatIndex = wp_heartbeatIndex p, wf_validUntil = validUntil\<rparr>,
        wx_expiry_timer := Some validUntil\<rparr>\<rparr>)"

definition handleWaitHeartbeat :: "'d AppEnv \<Rightarrow> bytes \<Rightarrow> 'd AppState \<Rightarrow> 'd AppState" where
  "handleWaitHeartbeat env payload s =
     (if \<not> ev_enableRollback env then s
      else case unpackSignedPacket payload of None \<Rightarrow> s
      | Some view \<Rightarrow>
          if length (sp_resdbBytes view) \<noteq> sizeof_wait then s
          else let p = dec_wait (sp_resdbBytes view) in
            if wp_magic p \<noteq> kWaitHeartbeatMagic \<or> wp_version p \<noteq> 1 then s
            else if \<not> key_matches (ev_keys env) (wp_leaderId p) (sp_pubKey view) then s
            else if \<not> ev_verify env (sp_pubKey view) (sp_resdbBytes view) (sp_sig view) then s
            else if \<not> wait_context_ok env s p then s
            else if \<not> wait_index_fresh s p then s
            else if \<not> wait_lease_ok env s p then s
            else accept_wait env p s)"

definition stopWait :: "'d AppState \<Rightarrow> 'd AppState" where
  "stopWait s = s\<lparr>ap_wx := (ap_wx s)\<lparr>wx_send_timer := None, wx_expiry_timer := None,
     wx_follower := initial_wait_follower, wx_leader_active := False\<rparr>\<rparr>"

definition onWaitSendTimer :: "'d AppEnv \<Rightarrow> 'd AppState \<Rightarrow> 'd AppState" where
  "onWaitSendTimer env s = maybeSendWaitHeartbeat env (s\<lparr>ap_wx := (ap_wx s)\<lparr>wx_send_timer := None\<rparr>\<rparr>)"

definition onWaitExpiryTimer :: "'d AppState \<Rightarrow> 'd AppState" where
  "onWaitExpiryTimer s = call Call_forceViewChange (s\<lparr>ap_wx := (ap_wx s)\<lparr>wx_expiry_timer := None,
     wx_follower := (wx_follower (ap_wx s))\<lparr>wf_active := False\<rparr>\<rparr>, ap_order_vc_requested := True\<rparr>)"

end
