(* ===== verification/Order.thy ===== *)
theory Order
  imports Wait
begin

text \<open>
  Proposing the ORDER of an epoch: the entries a proposer packs from its frozen candidate, the
  configured proposer attacks, the submission (\<^verbatim>\<open>v2vbft/app/ResDBDecision.cc\<close>), the snapshot of
  certificates that pre-verification asks a follower for, and the readiness gate that decides
  when the primary proposes and a follower starts its suspicion timer
  (\<^verbatim>\<open>ResDBRollbackProtocol.cc\<close>). Experiment metrology is left out.

  \<open>proposeAll\<close> re-evaluates readiness when it has no current candidate, and readiness proposes
  once it has built one; the two take each other as a parameter, and the second call never
  comes back, as \<open>propose_ignores_readiness\<close> shows.
\<close>

section \<open>Entries\<close>

definition entry_time :: "'d AppEnv \<Rightarrow> int \<Rightarrow> VehicleState option \<Rightarrow> u64" where
  "entry_time env now vs =
     (case vs of None \<Rightarrow> time_us env now
      | Some v \<Rightarrow> if vs_arrival_time_us v = 0 then time_us env now else vs_arrival_time_us v)"

definition signed_entry :: "'d AppEnv \<Rightarrow> int \<Rightarrow> int \<Rightarrow> byte \<Rightarrow> ArrivalCert \<Rightarrow> VehicleState option \<Rightarrow> ResdbVehicleEntry" where
  "signed_entry env now rid rank cert vs = \<lparr>ve_replica_id = rid, ve_sim_time_us = entry_time env now vs,
     ve_is_ambulance = (if ac_isAmbulance cert then 1 else 0), ve_lane = laneCode (ac_lane cert),
     ve_direction = directionCode (eligibleDirection (ev_cfg env) (ev_keys env) (ev_verify env) cert),
     ve_position_in_lane = rank, ve_cyber_status = 1,
     ve_physical_lane_index = word_of_int (ac_physicalLaneIndex cert), ve_lateral_claim_cm = ac_lateralClaimCm cert\<rparr>"

definition pack_eligible :: "'d AppEnv \<Rightarrow> bool \<Rightarrow> 'd AppState \<Rightarrow> int \<Rightarrow> bool \<Rightarrow> bool" where
  "pack_eligible env recovery s rid isAmbulance \<longleftrightarrow>
     (if recovery then shouldIncludeInRollbackMembership env s rid
      else 0 \<le> rid \<and> (rid < cf_total_vehicles (ev_cfg env) \<or> isAmbulance))"

fun pack_signed ::
  "'d AppEnv \<Rightarrow> bool \<Rightarrow> 'd AppState \<Rightarrow> OrderCandidate \<Rightarrow> ranks \<Rightarrow> (string \<times> ArrivalCert) list \<Rightarrow>
   ResdbVehicleEntry list" where
  "pack_signed env recovery s cand ranks [] = []"
| "pack_signed env recovery s cand ranks ((carId, cert) # certs) =
     (let rest = pack_signed env recovery s cand ranks certs; rid = extractReplicaId carId in
      if \<not> pack_eligible env recovery s rid (ac_isAmbulance cert) then rest
      else case (om_get (oc_distanceCerts cand) carId, om_get ranks carId) of
          (Some d, Some rank) \<Rightarrow>
            signed_entry env (ap_now s) rid rank cert (om_get (oc_vehicleStates cand) carId) # rest
        | _ \<Rightarrow> rest)"

definition quiet_entry :: "int \<Rightarrow> VehicleState \<Rightarrow> ResdbVehicleEntry" where
  "quiet_entry rid vs = \<lparr>ve_replica_id = rid, ve_sim_time_us = UINT64_MAX, ve_is_ambulance = 0,
     ve_lane = laneCode (vs_lane vs), ve_direction = 0,
     ve_position_in_lane = word_of_int (min (vs_positionInLane vs) 255), ve_cyber_status = 0,
     ve_physical_lane_index = 0, ve_lateral_claim_cm = 0\<rparr>"

fun pack_quiet ::
  "'d AppEnv \<Rightarrow> bool \<Rightarrow> 'd AppState \<Rightarrow> int set \<Rightarrow> (string \<times> VehicleState) list \<Rightarrow> ResdbVehicleEntry list" where
  "pack_quiet env recovery s present [] = []"
| "pack_quiet env recovery s present ((carId, vs) # states) =
     (let rest = pack_quiet env recovery s present states; rid = extractReplicaId carId in
      if \<not> pack_eligible env recovery s rid (vs_isAmbulance vs) then rest
      else if rid \<in> present then rest
      else quiet_entry rid vs # rest)"

definition order_entries :: "'d AppEnv \<Rightarrow> 'd AppState \<Rightarrow> OrderCandidate \<Rightarrow> ResdbVehicleEntry list" where
  "order_entries env s cand =
     (let ranks = deriveQueueRanks (oc_certs cand) (oc_distanceCerts cand);
          signed = pack_signed env (recovery_round s) s cand ranks (oc_certs cand)
      in signed @ pack_quiet env (recovery_round s) s (set (map ve_replica_id signed)) (oc_vehicleStates cand))"

section \<open>Proposer attacks\<close>

fun update_first :: "('e \<Rightarrow> bool) \<Rightarrow> ('e \<Rightarrow> 'e) \<Rightarrow> 'e list \<Rightarrow> 'e list" where
  "update_first p f [] = []"
| "update_first p f (e # es) = (if p e then f e # es else e # update_first p f es)"

definition applyByzantineFakeAmbulance :: "ResdbVehicleEntry list \<Rightarrow> ResdbVehicleEntry list" where
  "applyByzantineFakeAmbulance = update_first (\<lambda>e. ve_is_ambulance e = 0) (\<lambda>e. e\<lparr>ve_is_ambulance := 1\<rparr>)"

fun front_east :: "nat \<Rightarrow> ResdbVehicleEntry list \<Rightarrow> byte \<Rightarrow> nat option \<Rightarrow> nat option" where
  "front_east i [] best_pos best_i = best_i"
| "front_east i (e # es) best_pos best_i =
     (if ve_lane e = 2 \<and> ve_cyber_status e = 1 \<and> ve_position_in_lane e < best_pos
      then front_east (Suc i) es (ve_position_in_lane e) (Some i)
      else front_east (Suc i) es best_pos best_i)"

definition applyByzantineTamperLane :: "ResdbVehicleEntry list \<Rightarrow> ResdbVehicleEntry list" where
  "applyByzantineTamperLane es =
     (case front_east 0 es 255 None of None \<Rightarrow> es
      | Some i \<Rightarrow> es[i := (es ! i)\<lparr>ve_lane := 1, ve_position_in_lane := 0\<rparr>])"

definition applyByzantineUpgradeUnknownDirection :: "ResdbVehicleEntry list \<Rightarrow> ResdbVehicleEntry list" where
  "applyByzantineUpgradeUnknownDirection = update_first
     (\<lambda>e. ve_cyber_status e = 1 \<and> ve_direction e = directionCode DIR_UNKNOWN)
     (\<lambda>e. e\<lparr>ve_direction := directionCode DIR_STRAIGHT\<rparr>)"

definition applyByzantineTamperDistanceRank :: "ResdbVehicleEntry list \<Rightarrow> ResdbVehicleEntry list" where
  "applyByzantineTamperDistanceRank = update_first (\<lambda>e. ve_cyber_status e = 1)
     (\<lambda>e. e\<lparr>ve_position_in_lane := (if ve_position_in_lane e = 255 then 254 else ve_position_in_lane e + 1)\<rparr>)"

definition applyByzantineTamperPhysicalLane :: "ResdbVehicleEntry list \<Rightarrow> ResdbVehicleEntry list" where
  "applyByzantineTamperPhysicalLane = update_first
     (\<lambda>e. ve_cyber_status e = 1 \<and> \<not> ve_physical_lane_index e > 1)
     (\<lambda>e. let lane = (if ve_physical_lane_index e = 0 then 1 else 0) in
        e\<lparr>ve_physical_lane_index := lane, ve_lateral_claim_cm := (if lane = 0 then 0 else 320)\<rparr>)"

fun suppress_certs :: "int \<Rightarrow> nat \<Rightarrow> ResdbVehicleEntry list \<Rightarrow> ResdbVehicleEntry list" where
  "suppress_certs self k [] = []"
| "suppress_certs self k (e # es) =
     (if k = 0 \<or> ve_replica_id e = self \<or> ve_cyber_status e \<noteq> 1 \<or> ve_sim_time_us e = UINT64_MAX
      then e # suppress_certs self k es
      else e\<lparr>ve_cyber_status := 0, ve_sim_time_us := UINT64_MAX\<rparr> # suppress_certs self (k - 1) es)"

definition applyByzantineSuppressCerts :: "'d AppEnv \<Rightarrow> ResdbVehicleEntry list \<Rightarrow> ResdbVehicleEntry list" where
  "applyByzantineSuppressCerts env = suppress_certs (cf_replicaId (ev_cfg env)) (nat (cert_fault_bound (ev_cfg env) + 1))"

definition attacked_entries :: "'d AppEnv \<Rightarrow> ResdbVehicleEntry list \<Rightarrow> ResdbVehicleEntry list" where
  "attacked_entries env es =
     (if \<not> ev_is_byzantine env then es
      else case ev_byzantine_type env of
        BYZANTINE_FAKE_AMBULANCE \<Rightarrow> applyByzantineFakeAmbulance es
      | BYZANTINE_TAMPER_LANE \<Rightarrow> applyByzantineTamperLane es
      | BYZANTINE_UPGRADE_UNKNOWN_DIRECTION \<Rightarrow> applyByzantineUpgradeUnknownDirection es
      | BYZANTINE_TAMPER_DISTANCE_RANK \<Rightarrow> applyByzantineTamperDistanceRank es
      | BYZANTINE_TAMPER_PHYSICAL_LANE \<Rightarrow> applyByzantineTamperPhysicalLane es
      | BYZANTINE_SUPPRESS_CERTS \<Rightarrow> applyByzantineSuppressCerts env es
      | _ \<Rightarrow> es)"

section \<open>The proposal\<close>

definition forged_clear :: "'d AppState \<Rightarrow> ClearCert" where
  "forged_clear s = empty_clear_cert\<lparr>lc_cancelledEpoch := cx_cancelled_epoch (ap_cx s),
     lc_executingBatch := (case find (\<lambda>(k, r). fst k = cx_cancelled_epoch (ap_cx s)) (cx_incidents (ap_cx s)) of
       None \<Rightarrow> 0 | Some (k, r) \<Rightarrow> snd k)\<rparr>"

definition order_clear_certs :: "'d AppState \<Rightarrow> OrderCandidate \<Rightarrow> bytes list" where
  "order_clear_certs s cand =
     (if recovery_round s \<and> cx_fabricated_active (ap_cx s) \<and> oc_clearCerts cand = []
      then [serializeClearCert (forged_clear s)] else oc_clearCerts cand)"

definition evidence_trailer :: "bytes list \<Rightarrow> bytes" where
  "evidence_trailer certs =
     (if certs = [] then []
      else enc_evidence_hdr \<lparr>eh_magic = RESDB_ORDER_EVIDENCE_MAGIC, eh_version = 1,
          eh_n_clear_certs = word_of_int (int (length certs))\<rparr> @
        concat (map (\<lambda>c. put_u32 (word_of_int (int (length c))) @ c) certs))"

definition order_hdr :: "'d AppEnv \<Rightarrow> 'd AppState \<Rightarrow> nat \<Rightarrow> ResdbProposeHdr" where
  "order_hdr env s n = \<lparr>ph_epoch = ap_current_epoch s, ph_leader_id = cf_replicaId (ev_cfg env),
     ph_propose_sim_time_us = time_us env (ap_now s),
     ph_n_vehicles = word_of_int (int n) +
       (if ev_is_byzantine env \<and> ev_byzantine_type env = BYZANTINE_BAD_PROPOSAL then 1 else 0)\<rparr>"

definition order_payload :: "'d AppEnv \<Rightarrow> 'd AppState \<Rightarrow> OrderCandidate \<Rightarrow> bytes" where
  "order_payload env s cand =
     (let es = order_entries env s cand in
      enc_propose_hdr (order_hdr env s (length es)) @ concat (map enc_entry (attacked_entries env es)) @
        evidence_trailer (order_clear_certs s cand))"

definition submit_order :: "'d AppEnv \<Rightarrow> OrderCandidate \<Rightarrow> 'd AppState \<Rightarrow> 'd AppState" where
  "submit_order env cand s =
     (let s1 = (cancelArrivalCertFinalizeTimer (stopStopZoneCertGossip (stopCertBroadcastRetries s)))
            \<lparr>ap_propose_submitted := True, ap_current_phase := WAITING_FOR_CLEARANCE\<rparr>
      in if order_entries env s1 cand = [] then s1\<lparr>ap_propose_submitted := False\<rparr>
         else if ev_is_byzantine env \<and> ev_byzantine_type env = BYZANTINE_SILENT_PRIMARY then s1
         else call (Call_triggerConsensus (order_payload env s1 cand)) s1)"

definition install_cert_primary :: "'d AppEnv \<Rightarrow> OrderCandidate \<Rightarrow> 'd AppState \<Rightarrow> bool \<times> 'd AppState" where
  "install_cert_primary env cand s =
     (if ap_order_vc_authoritative s then (True, s)
      else let (rc, server) = PromotePrimaryFromCert (ev_server_replicas env) (oc_initialPrimary cand) (ap_server s)
        in (rc = 0, s\<lparr>ap_server := server\<rparr>))"

definition proposeAll_with :: "'d AppEnv \<Rightarrow> ('d AppState \<Rightarrow> 'd AppState) \<Rightarrow> 'd AppState \<Rightarrow> 'd AppState" where
  "proposeAll_with env readiness s =
     (let c = ap_cx s; rollbackOrderEpoch = (recovery_round s \<and> dr_state (ap_discovery s) = COMPLETE) in
      if cx_consensus_pending c then trySubmitCancelProposal env s
      else if cx_pending c \<and> \<not> rollbackOrderEpoch then s
      else if cx_cancel_initiated c \<and> \<not> rollbackOrderEpoch then s
      else if ap_propose_submitted s then s
      else if dr_state (ap_discovery s) \<noteq> COMPLETE then s
      else case ap_order_candidate s of None \<Rightarrow> readiness s
      | Some cand \<Rightarrow>
          if oc_epoch cand \<noteq> ap_current_epoch s then readiness s
          else if currentOrderPrimary env s < 0 then s
          else if currentOrderPrimary env s \<noteq> cf_replicaId (ev_cfg env) then s
          else case install_cert_primary env cand s of
              (False, s1) \<Rightarrow> s1
            | (True, s1) \<Rightarrow> submit_order env cand s1)"

section \<open>Readiness\<close>

definition armOrderSuspicionTimer :: "'d AppEnv \<Rightarrow> 'd AppState \<Rightarrow> 'd AppState" where
  "armOrderSuspicionTimer env s =
     (if ap_order_applied s \<or> ap_propose_submitted s \<or> ap_current_phase s = DEPARTED \<or>
         (cx_pending (ap_cx s) \<and> hasBlockingIncidentForEpoch s (cx_cancelled_epoch (ap_cx s))) then s
      else if ap_vc_trigger s \<noteq> None then s
      else s\<lparr>ap_vc_trigger := Some (ap_now s + ev_pbft_vc_timeout env)\<rparr>)"

definition fabricate_clearance :: "'d AppEnv \<Rightarrow> ('d AppState \<Rightarrow> 'd AppState) \<Rightarrow> 'd AppState \<Rightarrow> 'd AppState" where
  "fabricate_clearance env propose s =
     (if ev_inject_fabricated_clearance env \<and> \<not> cx_fabricated_logged (ap_cx s) \<and>
         CertPrimary env s = cf_replicaId (ev_cfg env)
      then let s1 = s\<lparr>ap_cx := (ap_cx s)\<lparr>cx_fabricated_logged := True, cx_fabricated_active := True\<rparr>\<rparr>;
               s2 = propose (s1\<lparr>ap_order_candidate := Some (buildOrderCandidate env s1)\<rparr>)
        in s2\<lparr>ap_cx := (ap_cx s2)\<lparr>cx_fabricated_active := False\<rparr>, ap_propose_submitted := False,
             ap_order_candidate := None\<rparr>
      else s)"

definition freeze_candidate :: "'d AppEnv \<Rightarrow> 'd AppState \<Rightarrow> 'd AppState" where
  "freeze_candidate env s =
     (case ap_order_candidate s of
        None \<Rightarrow> s\<lparr>ap_order_candidate := Some (buildOrderCandidate env s)\<rparr>
      | Some c \<Rightarrow> if oc_epoch c \<noteq> ap_current_epoch s
          then s\<lparr>ap_order_candidate := Some (buildOrderCandidate env s)\<rparr> else s)"

definition elect_and_propose :: "'d AppEnv \<Rightarrow> ('d AppState \<Rightarrow> 'd AppState) \<Rightarrow> OrderCandidate \<Rightarrow> 'd AppState \<Rightarrow> 'd AppState" where
  "elect_and_propose env propose cand s =
     (if recovery_round s \<and> int (length (oc_voterIds cand)) < minRollbackMembershipSize env s then s
      else case install_cert_primary env cand s of
          (False, s1) \<Rightarrow> s1
        | (True, s1) \<Rightarrow>
            let primary = currentOrderPrimary env s1 in
            if primary < 0 then s1
            else let s2 = stopWait s1 in
              if primary = cf_replicaId (ev_cfg env) then propose (s2\<lparr>ap_vc_trigger := None\<rparr>)
              else armOrderSuspicionTimer env s2)"

definition evaluateOrderReadiness_with :: "'d AppEnv \<Rightarrow> ('d AppState \<Rightarrow> 'd AppState) \<Rightarrow> 'd AppState \<Rightarrow> 'd AppState" where
  "evaluateOrderReadiness_with env propose s =
     (let c = ap_cx s in
      if ap_order_applied s \<or> ap_current_phase s = DEPARTED then s
      else if cx_consensus_pending c then s
      else if cx_cancel_initiated c then s
      else if dr_state (ap_discovery s) \<noteq> COMPLETE \<or> dr_epoch (ap_discovery s) \<noteq> ap_current_epoch s then s
      else if cx_pending c \<and> \<not> recovery_round s then s
      else if recovery_round s \<and> \<not> hasCommittedCancel s (cx_cancelled_epoch c) then s
      else if recovery_round s \<and> hasBlockingIncidentForEpoch s (cx_cancelled_epoch c)
        then maybeSendWaitHeartbeat env (fabricate_clearance env propose s)
      else let s1 = freeze_candidate env s in
        case ap_order_candidate s1 of None \<Rightarrow> s1 | Some cand \<Rightarrow> elect_and_propose env propose cand s1)"

definition evaluateOrderReadiness :: "'d AppEnv \<Rightarrow> 'd AppState \<Rightarrow> 'd AppState" where
  "evaluateOrderReadiness env = evaluateOrderReadiness_with env (proposeAll_with env (\<lambda>s. s))"

definition proposeAll :: "'d AppEnv \<Rightarrow> 'd AppState \<Rightarrow> 'd AppState" where
  "proposeAll env = proposeAll_with env (evaluateOrderReadiness env)"

text \<open>With a candidate of the current epoch, proposing does not come back to readiness.\<close>

definition has_candidate :: "'d AppState \<Rightarrow> bool" where
  "has_candidate s \<longleftrightarrow> (case ap_order_candidate s of None \<Rightarrow> False | Some c \<Rightarrow> oc_epoch c = ap_current_epoch s)"

lemma propose_ignores_readiness: "has_candidate s \<Longrightarrow> proposeAll_with env f s = proposeAll_with env g s"
  by (auto simp: proposeAll_with_def has_candidate_def Let_def split: option.splits)

section \<open>The snapshot pre-verification reads\<close>

definition snapshot_entry :: "'d AppEnv \<Rightarrow> 'd AppState \<Rightarrow> ranks \<Rightarrow> string \<times> ArrivalCert \<Rightarrow> ResdbCertEntry option" where
  "snapshot_entry env s ranks kv =
     (let (carId, cert) = kv in
      if \<not> length carId > 3 then None
      else case (om_get ranks carId, om_get (ap_collected_distance_certs s) carId, stoi (drop 3 carId)) of
          (Some rank, Some d, Some rid) \<Rightarrow> Some \<lparr>ce_replica_id = rid, ce_lane = laneCode (ac_lane cert),
            ce_position_in_lane = rank,
            ce_direction = directionCode (eligibleDirection (ev_cfg env) (ev_keys env) (ev_verify env) cert),
            ce_is_ambulance = (if ac_isAmbulance cert then 1 else 0),
            ce_physical_lane_index = word_of_int (ac_physicalLaneIndex cert),
            ce_lateral_claim_cm = ac_lateralClaimCm cert\<rparr>
        | _ \<Rightarrow> None)"

definition certSnapshotCallback :: "'d AppEnv \<Rightarrow> 'd AppState \<Rightarrow> nat \<Rightarrow> ResdbCertEntry list" where
  "certSnapshotCallback env s capacity =
     (let ranks = deriveQueueRanks (ap_collected_certs s) (ap_collected_distance_certs s) in
      take capacity (List.map_filter (snapshot_entry env s ranks) (ap_collected_certs s)))"

end
