(* ===== verification/OrderCorrect.thy ===== *)
theory OrderCorrect
  imports Order BridgeCorrect
begin

text \<open>
  The two ends of an ORDER meet: what an honest certified primary packs is accepted by every
  follower that holds the same certificates, and what the configured attacks turn it into is
  not. The lemmas on the packed entries come first, then the three groups of checks of
  pre-verification, then the classification of the payload.
\<close>

section \<open>What a replica holds\<close>

definition car_names :: "int \<Rightarrow> string set" where
  "car_names n = veh ` {0..<n}"

definition sound_view :: "'d AppEnv \<Rightarrow> 'd AppState \<Rightarrow> bool" where
  "sound_view env s \<longleftrightarrow>
     om_ok (ap_collected_certs s) \<and> om_ok (ap_local_vehicle_states s) \<and>
     set (om_keys (ap_collected_certs s)) \<subseteq> car_names (cf_total_vehicles (ev_cfg env)) \<and>
     set (om_keys (ap_local_vehicle_states s)) \<subseteq> car_names (cf_total_vehicles (ev_cfg env)) \<and>
     (\<forall>(c, cert) \<in> set (ap_collected_certs s).
        ac_physicalLaneIndex cert \<in> {0, 1} \<and> in_i32 (ac_lateralClaimCm cert)) \<and>
     (\<forall>(c, vs) \<in> set (ap_local_vehicle_states s). vs_arrival_time_us vs \<noteq> UINT64_MAX)"

definition small_clock :: "'d AppEnv \<Rightarrow> int \<Rightarrow> bool" where
  "small_clock env t \<longleftrightarrow> time_us env t \<noteq> 0 \<and> time_us env t < 2 ^ 32"

lemma in_car_names: "c \<in> car_names n \<longleftrightarrow> (\<exists>r. 0 \<le> r \<and> r < n \<and> c = veh r)"
  by (auto simp: car_names_def)

lemma replica_of_car:
  assumes "c \<in> car_names n" and "n \<le> 2 ^ 31"
  shows "0 \<le> extractReplicaId c \<and> extractReplicaId c < n \<and> c = veh (extractReplicaId c)"
  using assms by (auto simp: in_car_names in_i32_def)

lemma replica_inj:
  assumes "c \<in> car_names n" and "c' \<in> car_names n" and "n \<le> 2 ^ 31" and "extractReplicaId c = extractReplicaId c'"
  shows "c = c'"
  using replica_of_car [OF assms(1,3)] replica_of_car [OF assms(2,3)] assms(4) by simp

lemma om_in_iff: "om_ok m \<Longrightarrow> (k, v) \<in> set m \<longleftrightarrow> om_get m k = Some v"
  by (meson om_in_get om_get_Some_in)

section \<open>The packed entries\<close>

lemma pack_signed_iff:
  "e \<in> set (pack_signed env recovery s cand ranks certs) \<longleftrightarrow>
     (\<exists>c cert d rank. (c, cert) \<in> set certs \<and> pack_eligible env recovery s (extractReplicaId c) (ac_isAmbulance cert) \<and>
        om_get (oc_distanceCerts cand) c = Some d \<and> om_get ranks c = Some rank \<and>
        e = signed_entry env (ap_now s) (extractReplicaId c) rank cert (om_get (oc_vehicleStates cand) c))"
  by (induction certs) (auto simp: Let_def split: option.splits if_splits, blast+)

lemma pack_quiet_iff:
  "e \<in> set (pack_quiet env recovery s present states) \<longleftrightarrow>
     (\<exists>c vs. (c, vs) \<in> set states \<and> pack_eligible env recovery s (extractReplicaId c) (vs_isAmbulance vs) \<and>
        extractReplicaId c \<notin> present \<and> e = quiet_entry (extractReplicaId c) vs)"
  by (induction states) (auto simp: Let_def split: if_splits, blast+)

lemma signed_entry_id [simp]: "ve_replica_id (signed_entry env now r rank cert vs) = r"
  and quiet_entry_id [simp]: "ve_replica_id (quiet_entry r v) = r"
  by (simp_all add: signed_entry_def quiet_entry_def)

lemma distinct_pack_signed:
  assumes "distinct (map (extractReplicaId \<circ> fst) certs)"
  shows "distinct (map ve_replica_id (pack_signed env recovery s cand ranks certs))"
  using assms
proof (induction certs)
  case (Cons kv certs)
  obtain c cert where kv: "kv = (c, cert)" by force
  have "extractReplicaId c \<notin> ve_replica_id ` set (pack_signed env recovery s cand ranks certs)"
    using Cons.prems by (force simp: kv pack_signed_iff)
  with Cons show ?case by (simp add: kv Let_def split: option.splits)
qed simp

lemma distinct_pack_quiet:
  assumes "distinct (map (extractReplicaId \<circ> fst) states)"
  shows "distinct (map ve_replica_id (pack_quiet env recovery s present states))"
  using assms
proof (induction states)
  case (Cons kv states)
  obtain c vs where kv: "kv = (c, vs)" by force
  have "extractReplicaId c \<notin> ve_replica_id ` set (pack_quiet env recovery s present states)"
    using Cons.prems by (force simp: kv pack_quiet_iff)
  with Cons show ?case by (simp add: kv Let_def)
qed simp

lemma distinct_replicas:
  assumes "om_ok m" and "set (om_keys m) \<subseteq> car_names n" and "n \<le> 2 ^ 31"
  shows "distinct (map (extractReplicaId \<circ> fst) m)"
proof -
  have "distinct (map extractReplicaId (om_keys m))"
    using om_ok_distinct [OF assms(1)] assms(2,3)
    by (auto simp: distinct_map inj_on_def intro: replica_inj)
  then show ?thesis by (simp add: om_keys_def comp_assoc)
qed

lemma distinct_order_entries:
  assumes "om_ok (oc_certs cand)" and "om_ok (oc_vehicleStates cand)" and "n \<le> 2 ^ 31"
    and "set (om_keys (oc_certs cand)) \<subseteq> car_names n" and "set (om_keys (oc_vehicleStates cand)) \<subseteq> car_names n"
  shows "distinct (map ve_replica_id (order_entries env s cand))"
proof -
  have "ve_replica_id ` set (pack_quiet env r s P vs) \<inter> P = {}" for r P vs
    by (auto simp: pack_quiet_iff)
  then show ?thesis
    using distinct_pack_signed [OF distinct_replicas [OF assms(1,4,3)]]
      distinct_pack_quiet [OF distinct_replicas [OF assms(2,5,3)]]
    by (fastforce simp: order_entries_def Let_def)
qed

section \<open>A certified primary's round\<close>

definition certified_round :: "'d AppEnv \<Rightarrow> 'd AppState \<Rightarrow> OrderCandidate \<Rightarrow> bool" where
  "certified_round env s cand \<longleftrightarrow> sound_view env s \<and> \<not> ev_is_byzantine env \<and>
     cand = buildOrderCandidate env s \<and> oc_initialPrimary cand = cf_replicaId (ev_cfg env) \<and>
     0 \<le> cf_replicaId (ev_cfg env) \<and> cf_total_vehicles (ev_cfg env) \<le> 256 \<and> small_clock env (ap_now s)"

definition both_certs :: "'d AppState \<Rightarrow> string \<Rightarrow> bool" where
  "both_certs s c \<longleftrightarrow> om_get (ap_collected_certs s) c \<noteq> None \<and> om_get (ap_collected_distance_certs s) c \<noteq> None"

lemma in_voters:
  "v \<in> set (candidate_voters env recovery s) \<longleftrightarrow>
     (\<exists>c. both_certs s c \<and> v = extractReplicaId c \<and>
        (if recovery then shouldIncludeInRollbackMembership env s v else 0 \<le> v \<and> v < cf_total_vehicles (ev_cfg env)))"
  by (auto simp: candidate_voters_def Let_def both_certs_def om_get_None)

lemma sorted_voters: "sorted (candidate_voters env recovery s)"
  by (simp add: candidate_voters_def Let_def)

lemma head_is_least: "sorted xs \<Longrightarrow> (case xs of [] \<Rightarrow> - 1 | x # _ \<Rightarrow> x) = m \<Longrightarrow> (0::int) \<le> m \<Longrightarrow> m \<in> set xs \<and> (\<forall>x \<in> set xs. m \<le> x)"
  by (cases xs) auto

lemma certified_primary:
  assumes "certified_round env s cand"
  defines "n \<equiv> cf_total_vehicles (ev_cfg env)" and "me \<equiv> cf_replicaId (ev_cfg env)"
  shows "me \<in> set (candidate_voters env (recovery_round s) s)"
    and "v \<in> set (candidate_voters env (recovery_round s) s) \<Longrightarrow> me \<le> v"
    and "\<exists>c. both_certs s c \<and> me = extractReplicaId c" and "0 \<le> me \<and> me < n" and "n \<le> 2 ^ 31"
proof -
  have c: "oc_initialPrimary cand = (case candidate_voters env (recovery_round s) s of [] \<Rightarrow> - 1 | v # _ \<Rightarrow> v)"
    using assms(1) by (simp add: certified_round_def buildOrderCandidate_def Let_def)
  have least: "me \<in> set (candidate_voters env (recovery_round s) s) \<and>
      (\<forall>v \<in> set (candidate_voters env (recovery_round s) s). me \<le> v)"
    using assms(1) c by (intro head_is_least sorted_voters) (simp_all add: certified_round_def me_def)
  then show me: "me \<in> set (candidate_voters env (recovery_round s) s)"
    and "v \<in> set (candidate_voters env (recovery_round s) s) \<Longrightarrow> me \<le> v" by auto
  show n: "n \<le> 2 ^ 31"
    using assms(1) by (simp add: certified_round_def n_def)
  from me obtain car where car: "both_certs s car" "me = extractReplicaId car"
    unfolding in_voters by blast
  then show "\<exists>c. both_certs s c \<and> me = extractReplicaId c" by blast
  have "car \<in> car_names n"
    using assms(1) car(1) by (auto simp: certified_round_def sound_view_def both_certs_def om_get_None n_def)
  then show "0 \<le> me \<and> me < n"
    using replica_of_car [OF _ n] car(2) by simp
qed

lemma all_eligible:
  assumes "certified_round env s cand" and "0 \<le> r" and "r < cf_total_vehicles (ev_cfg env)"
  shows "pack_eligible env (recovery_round s) s r b"
proof -
  have "shouldIncludeInRollbackMembership env s (cf_replicaId (ev_cfg env))" if "recovery_round s"
    using certified_primary(1) [OF assms(1)] that by (auto simp: in_voters)
  with assms(2,3) show ?thesis
    by (auto simp: pack_eligible_def shouldIncludeInRollbackMembership_def)
qed

lemma candidate_fields:
  assumes "certified_round env s cand"
  shows "oc_certs cand = ap_collected_certs s" "oc_distanceCerts cand = ap_collected_distance_certs s"
    "oc_vehicleStates cand = ap_local_vehicle_states s"
  using assms by (simp_all add: certified_round_def buildOrderCandidate_def Let_def)

lemma view_keys:
  assumes "certified_round env s cand"
  defines "n \<equiv> cf_total_vehicles (ev_cfg env)"
  shows "om_ok (ap_collected_certs s)" "om_ok (ap_local_vehicle_states s)"
    "set (om_keys (ap_collected_certs s)) \<subseteq> car_names n" "set (om_keys (ap_local_vehicle_states s)) \<subseteq> car_names n"
  using assms by (auto simp: certified_round_def sound_view_def)

lemma entry_car:
  assumes "certified_round env s cand" and "(c, x) \<in> set m"
    and "set (om_keys m) \<subseteq> car_names (cf_total_vehicles (ev_cfg env))"
  shows "0 \<le> extractReplicaId c \<and> extractReplicaId c < cf_total_vehicles (ev_cfg env) \<and> c = veh (extractReplicaId c)"
  using assms(2,3) certified_primary(5) [OF assms(1)]
  by (intro replica_of_car) (force simp: om_keys_def)+

text \<open>The signed entries are the cars with both certificates, the quiet ones the rest.\<close>

definition signed_of :: "'d AppEnv \<Rightarrow> 'd AppState \<Rightarrow> string \<Rightarrow> ArrivalCert \<Rightarrow> byte \<Rightarrow> ResdbVehicleEntry" where
  "signed_of env s c cert rank =
     signed_entry env (ap_now s) (extractReplicaId c) rank cert (om_get (ap_local_vehicle_states s) c)"

lemma order_entries_iff:
  assumes "certified_round env s cand"
  defines "ranks \<equiv> deriveQueueRanks (ap_collected_certs s) (ap_collected_distance_certs s)"
  shows "e \<in> set (order_entries env s cand) \<longleftrightarrow>
    (\<exists>c cert rank. om_get (ap_collected_certs s) c = Some cert \<and> both_certs s c \<and> om_get ranks c = Some rank \<and>
       e = signed_of env s c cert rank) \<or>
    (\<exists>c vs. om_get (ap_local_vehicle_states s) c = Some vs \<and> \<not> both_certs s c \<and> e = quiet_entry (extractReplicaId c) vs)"
    (is "_ \<longleftrightarrow> ?signed e \<or> ?quiet e")
proof -
  note keys = view_keys [OF assms(1)] and elig = all_eligible [OF assms(1)]
  have elig_c: "pack_eligible env (recovery_round s) s (extractReplicaId c) b"
    if "om_get (ap_collected_certs s) c = Some cert" for c cert b
    using entry_car [OF assms(1) om_get_Some_in [OF that] keys(3)] by (blast intro: elig)
  have elig_v: "pack_eligible env (recovery_round s) s (extractReplicaId c) b"
    if "om_get (ap_local_vehicle_states s) c = Some vs" for c vs b
    using entry_car [OF assms(1) om_get_Some_in [OF that] keys(4)] by (blast intro: elig)
  define signed where "signed = pack_signed env (recovery_round s) s cand ranks (oc_certs cand)"
  have s: "x \<in> set signed \<longleftrightarrow> ?signed x" for x
  proof
    assume "x \<in> set signed"
    then obtain c cert d rank where "om_get (ap_collected_certs s) c = Some cert"
        "om_get (ap_collected_distance_certs s) c = Some d" "om_get ranks c = Some rank"
        "x = signed_of env s c cert rank"
      unfolding signed_def pack_signed_iff candidate_fields [OF assms(1)] om_in_iff [OF keys(1)] signed_of_def by blast
    then show "?signed x" unfolding both_certs_def by blast
  next
    assume "?signed x"
    then obtain c cert rank where c: "om_get (ap_collected_certs s) c = Some cert" "both_certs s c"
        "om_get ranks c = Some rank" "x = signed_of env s c cert rank" by blast
    then obtain d where "om_get (ap_collected_distance_certs s) c = Some d" by (auto simp: both_certs_def)
    then show "x \<in> set signed"
      unfolding signed_def pack_signed_iff candidate_fields [OF assms(1)] om_in_iff [OF keys(1)]
      using c elig_c [OF c(1)] unfolding signed_of_def by blast
  qed
  have rank: "om_get ranks c \<noteq> None" if "both_certs s c" for c
    using that queue_rank [OF keys(1), of c] by (auto simp: both_certs_def ranks_def)
  have present: "r \<in> ve_replica_id ` set signed \<longleftrightarrow> (\<exists>c. both_certs s c \<and> r = extractReplicaId c)" for r
  proof
    assume "\<exists>c. both_certs s c \<and> r = extractReplicaId c"
    then obtain c where c: "both_certs s c" "r = extractReplicaId c" by blast
    then obtain cert rk where "om_get (ap_collected_certs s) c = Some cert" "om_get ranks c = Some rk"
      using rank [OF c(1)] by (auto simp: both_certs_def)
    then have "signed_of env s c cert rk \<in> set signed" using c s by blast
    then show "r \<in> ve_replica_id ` set signed" using c(2) by (force simp: signed_of_def)
  qed (auto 4 3 simp: s signed_of_def)
  have same: "both_certs s c" if h: "om_get (ap_local_vehicle_states s) c = Some vs" "both_certs s c'"
      "extractReplicaId c = extractReplicaId c'" for c c' vs
  proof -
    obtain cert where cert: "om_get (ap_collected_certs s) c' = Some cert" using h(2) by (auto simp: both_certs_def)
    have "c = c'"
      using entry_car [OF assms(1) om_get_Some_in [OF cert] keys(3)]
        entry_car [OF assms(1) om_get_Some_in [OF h(1)] keys(4)] h(3) by metis
    then show ?thesis using h(2) by simp
  qed
  have present': "extractReplicaId c \<notin> ve_replica_id ` set signed \<longleftrightarrow> \<not> both_certs s c"
    if "om_get (ap_local_vehicle_states s) c = Some vs" for c vs
    using same [OF that] present by blast
  have q: "x \<in> set (pack_quiet env (recovery_round s) s (set (map ve_replica_id signed)) (oc_vehicleStates cand))
      \<longleftrightarrow> ?quiet x" for x
    unfolding pack_quiet_iff candidate_fields [OF assms(1)] om_in_iff [OF keys(2)] set_map
  proof
    assume "\<exists>c vs. om_get (ap_local_vehicle_states s) c = Some vs \<and>
        pack_eligible env (recovery_round s) s (extractReplicaId c) (vs_isAmbulance vs) \<and>
        extractReplicaId c \<notin> ve_replica_id ` set signed \<and> x = quiet_entry (extractReplicaId c) vs"
    then obtain c vs where c: "om_get (ap_local_vehicle_states s) c = Some vs"
        "extractReplicaId c \<notin> ve_replica_id ` set signed" "x = quiet_entry (extractReplicaId c) vs" by blast
    then show "?quiet x" using present' [OF c(1)] by blast
  next
    assume "?quiet x"
    then obtain c vs where c: "om_get (ap_local_vehicle_states s) c = Some vs" "\<not> both_certs s c"
        "x = quiet_entry (extractReplicaId c) vs" by blast
    then show "\<exists>c vs. om_get (ap_local_vehicle_states s) c = Some vs \<and>
        pack_eligible env (recovery_round s) s (extractReplicaId c) (vs_isAmbulance vs) \<and>
        extractReplicaId c \<notin> ve_replica_id ` set signed \<and> x = quiet_entry (extractReplicaId c) vs"
      using present' [OF c(1)] elig_v [OF c(1)] by blast
  qed
  have "deriveQueueRanks (oc_certs cand) (oc_distanceCerts cand) = ranks"
    by (simp add: ranks_def candidate_fields [OF assms(1)])
  then show ?thesis
    unfolding order_entries_def Let_def by (simp only: signed_def [symmetric] set_append Un_iff s q)
qed

section \<open>The fields of the entries\<close>

lemma rank_positive:
  assumes "om_ok certs" and "om_get (deriveQueueRanks certs distances) c = Some rank"
    and "om_get certs c = Some cert" and "om_get distances c = Some dc"
  shows "0 < unat rank"
proof -
  let ?k = "min (card {b. ahead_of certs distances b c} + 1) 255"
  have "rank = of_nat ?k" using queue_rank [OF assms(1,3,4)] assms(2) by simp
  moreover have "unat (of_nat ?k :: byte) = ?k"
    by (simp add: unat_of_nat min_def)
  ultimately show ?thesis by simp
qed

lemma signed_of_sound:
  assumes "certified_round env s cand" and "om_get (ap_collected_certs s) c = Some cert"
  shows "signed_voter (signed_of env s c cert rank)" "entry_fields_ok (signed_of env s c cert rank)"
    "wf_entry (signed_of env s c cert rank)"
proof -
  note r = certified_primary(5) [OF assms(1)]
  have view: "sound_view env s" and clock: "small_clock env (ap_now s)"
    using assms(1) by (simp_all add: certified_round_def)
  have c: "(c, cert) \<in> set (ap_collected_certs s)" by (rule om_get_Some_in [OF assms(2)])
  then have lane: "ac_physicalLaneIndex cert \<in> {0, 1}" "in_i32 (ac_lateralClaimCm cert)"
    using view by (auto simp: sound_view_def)
  have id: "in_i32 (extractReplicaId c)"
    using entry_car [OF assms(1) c view_keys(3) [OF assms(1)]] r by (auto simp: in_i32_def)
  have t0: "time_us env (ap_now s) \<noteq> 0" and t1: "time_us env (ap_now s) \<noteq> UINT64_MAX"
    using clock by (auto simp: small_clock_def UINT64_MAX_def)
  have "vs_arrival_time_us v \<noteq> UINT64_MAX" if "om_get (ap_local_vehicle_states s) c = Some v" for v
    using view om_get_Some_in [OF that] by (auto simp: sound_view_def)
  then have time: "entry_time env (ap_now s) (om_get (ap_local_vehicle_states s) c) \<noteq> 0"
      "entry_time env (ap_now s) (om_get (ap_local_vehicle_states s) c) \<noteq> UINT64_MAX"
    using t0 t1 by (auto simp: entry_time_def split: option.splits)
  have dir: "\<not> 3 < directionCode d" for d by (cases d) simp_all
  show "signed_voter (signed_of env s c cert rank)"
    using time by (simp add: signed_voter_def signed_of_def signed_entry_def)
  show "entry_fields_ok (signed_of env s c cert rank)"
    using time lane(1) dir by (auto simp: entry_fields_ok_def signed_of_def signed_entry_def)
  show "wf_entry (signed_of env s c cert rank)"
    using id lane(2) by (simp add: wf_entry_def signed_of_def signed_entry_def)
qed

lemma quiet_sound:
  assumes "certified_round env s cand" and "om_get (ap_local_vehicle_states s) c = Some vs"
  shows "\<not> signed_voter (quiet_entry (extractReplicaId c) vs)" "entry_fields_ok (quiet_entry (extractReplicaId c) vs)"
    "wf_entry (quiet_entry (extractReplicaId c) vs)"
proof -
  have "in_i32 (extractReplicaId c)"
    using entry_car [OF assms(1) om_get_Some_in [OF assms(2)] view_keys(4) [OF assms(1)]]
      certified_primary(5) [OF assms(1)] by (auto simp: in_i32_def)
  then show "wf_entry (quiet_entry (extractReplicaId c) vs)"
    by (simp add: wf_entry_def quiet_entry_def in_i32_def)
  show "entry_fields_ok (quiet_entry (extractReplicaId c) vs)"
    by (simp add: entry_fields_ok_def quiet_entry_def UINT64_MAX_def)
  show "\<not> signed_voter (quiet_entry (extractReplicaId c) vs)"
    by (simp add: signed_voter_def quiet_entry_def)
qed

lemma entry_cases:
  assumes "certified_round env s cand" and "e \<in> set (order_entries env s cand)"
  obtains (signed) c cert rank where "om_get (ap_collected_certs s) c = Some cert" "both_certs s c"
      "om_get (deriveQueueRanks (ap_collected_certs s) (ap_collected_distance_certs s)) c = Some rank"
      "e = signed_of env s c cert rank"
  | (quiet) c vs where "om_get (ap_local_vehicle_states s) c = Some vs" "\<not> both_certs s c"
      "e = quiet_entry (extractReplicaId c) vs"
  using assms(2) unfolding order_entries_iff [OF assms(1)] by blast

lemma entries_sound:
  assumes "certified_round env s cand" and "e \<in> set (order_entries env s cand)"
  shows "0 \<le> ve_replica_id e \<and> ve_replica_id e < cf_total_vehicles (ev_cfg env) \<and> entry_fields_ok e \<and> wf_entry e"
  using assms
proof (cases rule: entry_cases)
  case (signed c cert rank)
  then show ?thesis
    using signed_of_sound(2,3) [OF assms(1) signed(1)]
      entry_car [OF assms(1) om_get_Some_in [OF signed(1)] view_keys(3) [OF assms(1)]]
    by (simp add: signed_of_def)
next
  case (quiet c vs)
  then show ?thesis
    using quiet_sound(2,3) [OF assms(1) quiet(1)]
      entry_car [OF assms(1) om_get_Some_in [OF quiet(1)] view_keys(4) [OF assms(1)]] by simp
qed

lemma entries_distinct:
  assumes "certified_round env s cand"
  shows "distinct (map ve_replica_id (order_entries env s cand))"
  using view_keys [OF assms] certified_primary(5) [OF assms]
  by (intro distinct_order_entries) (simp_all add: candidate_fields [OF assms])

lemma entries_count:
  assumes "certified_round env s cand"
  shows "int (length (order_entries env s cand)) \<le> cf_total_vehicles (ev_cfg env)"
    and "length (order_entries env s cand) \<le> 256" and "order_entries env s cand \<noteq> []"
proof -
  let ?es = "order_entries env s cand" and ?n = "cf_total_vehicles (ev_cfg env)"
  have "length ?es = card (ve_replica_id ` set ?es)"
    using distinct_card [OF entries_distinct [OF assms]] by simp
  also have "\<dots> \<le> card {0..<?n}"
    using entries_sound [OF assms] by (intro card_mono) auto
  finally show le: "int (length ?es) \<le> ?n" using certified_primary(4) [OF assms] by (simp add: nat_less_iff le_nat_iff)
  with assms show "length ?es \<le> 256" by (simp add: certified_round_def)
  obtain c where c: "both_certs s c" using certified_primary(3) [OF assms] by blast
  then obtain cert dc where get: "om_get (ap_collected_certs s) c = Some cert"
      "om_get (ap_collected_distance_certs s) c = Some dc" by (auto simp: both_certs_def)
  obtain rank where "om_get (deriveQueueRanks (ap_collected_certs s) (ap_collected_distance_certs s)) c = Some rank"
    using queue_rank [OF view_keys(1) [OF assms] get] by blast
  then have "signed_of env s c cert rank \<in> set ?es"
    unfolding order_entries_iff [OF assms] using c get(1) by blast
  then show "?es \<noteq> []" by (metis empty_iff empty_set)
qed

section \<open>The payload an honest primary submits\<close>

lemma order_payload_honest:
  assumes "\<not> ev_is_byzantine env"
  shows "order_payload env s cand = enc_proposal (order_hdr env s (length (order_entries env s cand)))
    (order_entries env s cand) (evidence_trailer (order_clear_certs s cand))"
  using assms by (simp add: order_payload_def enc_proposal_def attacked_entries_def Let_def)

lemma honest_hdr:
  assumes "certified_round env s cand"
  defines "hdr \<equiv> order_hdr env s (length (order_entries env s cand))" and "data \<equiv> order_payload env s cand"
  shows "dec_propose_hdr data = hdr" and "ParseNormalProposal data = Some hdr"
    and "unat (ph_n_vehicles hdr) = length (order_entries env s cand)"
    and "sint (ph_n_vehicles hdr) = int (length (order_entries env s cand))"
    and "ph_leader_id hdr = cf_replicaId (ev_cfg env)" and "ph_epoch hdr = ap_current_epoch s"
    and "proposal_entries hdr data = order_entries env s cand"
    and "sizeof_propose_hdr + unat (ph_n_vehicles hdr) * sizeof_entry \<le> length data"
proof -
  note honest = assms(1) [unfolded certified_round_def, THEN conjunct2, THEN conjunct1]
  let ?es = "order_entries env s cand"
  have small: "length ?es \<le> 256" by (rule entries_count(2) [OF assms(1)])
  have n: "ph_n_vehicles hdr = of_nat (length ?es)"
    using honest by (simp add: hdr_def order_hdr_def)
  show u: "unat (ph_n_vehicles hdr) = length ?es"
    using small by (simp add: n unat_of_nat)
  show "sint (ph_n_vehicles hdr) = int (length ?es)"
    using u small by (simp add: sint_uint uint_nat signed_take_bit_int_eq_self)
  show l: "ph_leader_id hdr = cf_replicaId (ev_cfg env)" and "ph_epoch hdr = ap_current_epoch s"
    by (simp_all add: hdr_def order_hdr_def)
  have id: "in_i32 (ph_leader_id hdr)"
    using certified_primary(4,5) [OF assms(1)] by (simp add: l in_i32_def)
  have data: "data = enc_proposal hdr ?es (evidence_trailer (order_clear_certs s cand))"
    unfolding data_def hdr_def by (rule order_payload_honest [OF honest])
  show "dec_propose_hdr data = hdr"
    unfolding data enc_proposal_def by (rule dec_propose_hdr_enc [OF id])
  show "ParseNormalProposal data = Some hdr"
    unfolding data using id u small by (intro ParseNormalProposal_enc) simp_all
  show "proposal_entries hdr data = ?es"
    unfolding proposal_entries_def data u using entries_sound [OF assms(1)] by (intro dec_entries_proposal) simp
  show "sizeof_propose_hdr + unat (ph_n_vehicles hdr) * sizeof_entry \<le> length data"
    by (simp add: data enc_proposal_def u sizeof_propose_hdr_def sizeof_entry_def)
qed

lemma honest_membership:
  assumes "certified_round env s cand"
  defines "data \<equiv> order_payload env s cand" and "n \<equiv> cf_total_vehicles (ev_cfg env)"
  shows "membership_ok n (dec_propose_hdr data) data"
proof -
  note h = honest_hdr [OF assms(1)]
  have "ph_n_vehicles (dec_propose_hdr data) \<noteq> 0"
    using h(1,3) entries_count(3) [OF assms(1)] by (auto simp: data_def)
  then show ?thesis
    using h entries_count [OF assms(1)] entries_sound [OF assms(1)] entries_distinct [OF assms(1)]
      certified_primary(4) [OF assms(1)]
    by (simp add: membership_ok_def Let_def data_def n_def list_all_iff not_less not_le)
qed

lemma fold_min_least:
  assumes "m \<in> f ` set xs" and "\<forall>x \<in> set xs. m \<le> f x" and "m \<le> a"
  shows "fold (\<lambda>x acc. min acc (f x)) xs a = (m :: int)"
proof -
  have lower: "fold (\<lambda>x acc. min acc (f x)) ys b \<ge> m" if "\<forall>x \<in> set ys. m \<le> f x" "m \<le> b" for ys b
    using that by (induction ys arbitrary: b) simp_all
  have upper: "fold (\<lambda>x acc. min acc (f x)) ys b \<le> b" for ys b
  proof (induction ys arbitrary: b)
    case (Cons y ys)
    show ?case using Cons [of "min b (f y)"] by simp
  qed simp
  have mem: "fold (\<lambda>x acc. min acc (f x)) ys b \<le> f y" if "y \<in> set ys" for y ys b
    using that
  proof (induction ys arbitrary: b)
    case (Cons z ys)
    show ?case using Cons upper [of ys "min b (f z)"] by (cases "y = z") simp_all
  qed simp
  obtain x where "x \<in> set xs" "m = f x" using assms(1) by blast
  then show ?thesis using lower [OF assms(2,3)] mem [of x xs a] by simp
qed

lemma signed_slots:
  assumes "certified_round env s cand"
  defines "n \<equiv> cf_total_vehicles (ev_cfg env)"
  shows "ve_replica_id ` set (filter (signed_slot n) (order_entries env s cand)) =
    set (candidate_voters env (recovery_round s) s)"
proof -
  note keys = view_keys [OF assms(1)]
  have voter: "v \<in> set (candidate_voters env (recovery_round s) s) \<longleftrightarrow> (\<exists>c. both_certs s c \<and> v = extractReplicaId c)" for v
  proof
    assume "\<exists>c. both_certs s c \<and> v = extractReplicaId c"
    then obtain c cert where c: "both_certs s c" "v = extractReplicaId c" "(c, cert) \<in> set (ap_collected_certs s)"
      by (auto simp: both_certs_def dest: om_get_Some_in)
    have "0 \<le> v \<and> v < n" using entry_car [OF assms(1) c(3) keys(3)] c(2) by (simp add: n_def)
    moreover have "pack_eligible env (recovery_round s) s v True" using all_eligible [OF assms(1)] calculation n_def by blast
    ultimately show "v \<in> set (candidate_voters env (recovery_round s) s)"
      unfolding in_voters using c by (auto simp: pack_eligible_def n_def)
  qed (auto simp: in_voters)
  show ?thesis
  proof (rule set_eqI, rule iffI)
    fix v assume "v \<in> ve_replica_id ` set (filter (signed_slot n) (order_entries env s cand))"
    then obtain e where e: "e \<in> set (order_entries env s cand)" "signed_voter e" "v = ve_replica_id e"
      by (auto simp: signed_slot_def)
    from assms(1) e(1) show "v \<in> set (candidate_voters env (recovery_round s) s)"
    proof (cases rule: entry_cases)
      case (signed c cert rank)
      then show ?thesis unfolding voter using e(3) by (auto simp: signed_of_def)
    next
      case (quiet c vs)
      then show ?thesis using quiet_sound(1) [OF assms(1) quiet(1)] e(2) by simp
    qed
  next
    fix v assume "v \<in> set (candidate_voters env (recovery_round s) s)"
    then obtain c where c: "both_certs s c" "v = extractReplicaId c" unfolding voter by blast
    then obtain cert dc where get: "om_get (ap_collected_certs s) c = Some cert"
        "om_get (ap_collected_distance_certs s) c = Some dc" by (auto simp: both_certs_def)
    obtain rank where "om_get (deriveQueueRanks (ap_collected_certs s) (ap_collected_distance_certs s)) c = Some rank"
      using queue_rank [OF keys(1) get] by blast
    then have e: "signed_of env s c cert rank \<in> set (order_entries env s cand)"
      unfolding order_entries_iff [OF assms(1)] using c get(1) by blast
    have "signed_slot n (signed_of env s c cert rank)"
      using signed_of_sound(1) [OF assms(1) get(1)] entries_sound [OF assms(1) e] by (simp add: signed_slot_def n_def)
    then show "v \<in> ve_replica_id ` set (filter (signed_slot n) (order_entries env s cand))"
      using e c(2) by (force simp: signed_of_def)
  qed
qed

lemma honest_leader:
  assumes "certified_round env s cand"
  defines "data \<equiv> order_payload env s cand" and "n \<equiv> cf_total_vehicles (ev_cfg env)"
  shows "proposal_cert_primary n (order_entries env s cand) = cf_replicaId (ev_cfg env)"
    and "leader_is_cert_primary n (dec_propose_hdr data) data" and "leader_ok n (dec_propose_hdr data) data st"
proof -
  let ?me = "cf_replicaId (ev_cfg env)"
  note h = honest_hdr [OF assms(1)] and slots = signed_slots [OF assms(1)]
  have me: "?me \<le> INT32_MAX" "?me < INT32_MAX"
    using certified_primary(4) [OF assms(1)] assms(1) by (simp_all add: INT32_MAX_def certified_round_def)
  have "?me \<in> ve_replica_id ` set (filter (signed_slot n) (order_entries env s cand))"
    unfolding n_def slots by (rule certified_primary(1) [OF assms(1)])
  moreover have "\<forall>e \<in> set (filter (signed_slot n) (order_entries env s cand)). ?me \<le> ve_replica_id e"
    using slots certified_primary(2) [OF assms(1)] by (auto simp: n_def)
  ultimately show p: "proposal_cert_primary n (order_entries env s cand) = ?me"
    unfolding proposal_cert_primary_def by (rule fold_min_least [OF _ _ me(1)])
  have "leader_is_signed n ?me (order_entries env s cand)"
    using certified_primary(1) [OF assms(1)] slots by (force simp: leader_is_signed_def list_ex_iff n_def)
  then show "leader_is_cert_primary n (dec_propose_hdr data) data"
    using h p by (simp add: leader_is_cert_primary_def Let_def data_def)
  then show "leader_ok n (dec_propose_hdr data) data st"
    using h p me(2) by (simp add: leader_ok_def data_def)
qed

section \<open>The payload is classified as an ordinary ORDER\<close>

lemma high_word_zero: "v < 2 ^ 32 \<Longrightarrow> drop 4 (le_enc 8 v) = [0, 0, 0, 0]"
proof -
  assume "v < 2 ^ 32"
  then have z: "v div 256 div 256 div 256 div 256 = 0" by (simp flip: div_mult2_eq)
  have e: "(8 :: nat) = Suc (Suc (Suc (Suc (Suc (Suc (Suc (Suc 0)))))))" by simp
  show ?thesis unfolding e le_enc.simps z by simp
qed

lemma not_small_count:
  assumes "length pre = 16" and "0 < unat (ve_position_in_lane e)"
  shows "ParseNormalProposal (put_u32 n @ enc_entry e @ rest) = None"
proof -
  let ?bs = "put_u32 n @ enc_entry e @ rest"
  let ?v = "unat (ve_is_ambulance e) + 256 * (unat (ve_lane e) + 256 * (unat (ve_direction e) + 256 * unat (ve_position_in_lane e)))"
  have "take 4 (drop 16 ?bs) = [ve_is_ambulance e, ve_lane e, ve_direction e, ve_position_in_lane e]"
    by (simp add: enc_entry_def)
  define v where "v = ?v"
  from \<open>take 4 _ = _\<close> have n: "get_u32 ?bs 16 = of_nat v" by (simp add: get_u32_def v_def)
  have "unat (ve_is_ambulance e) < 256" "unat (ve_lane e) < 256" "unat (ve_direction e) < 256" "unat (ve_position_in_lane e) < 256"
    using unat_width_less [of "ve_is_ambulance e"] unat_width_less [of "ve_lane e"]
      unat_width_less [of "ve_direction e"] unat_width_less [of "ve_position_in_lane e"] by simp_all
  then have v: "v < 2 ^ 32" "10000 < v" using assms(2) by (simp_all add: v_def)
  then have "unat (get_u32 ?bs 16) = v" unfolding n by (simp add: unat_of_nat)
  then have "get_u32 ?bs 16 > 10000" using v(2) by (simp add: word_less_nat_alt)
  then show ?thesis by (simp add: ParseNormalProposal_def dec_propose_hdr_def Let_def)
qed

lemma first_entry_ranked:
  assumes "certified_round env s cand"
  obtains e es where "order_entries env s cand = e # es" and "0 < unat (ve_position_in_lane e)"
proof -
  let ?ranks = "deriveQueueRanks (ap_collected_certs s) (ap_collected_distance_certs s)"
  define signed where "signed = pack_signed env (recovery_round s) s cand ?ranks (ap_collected_certs s)"
  obtain rest where es: "order_entries env s cand = signed @ rest"
    by (simp add: order_entries_def Let_def candidate_fields [OF assms] signed_def)
  obtain c where c: "both_certs s c" using certified_primary(3) [OF assms] by blast
  then obtain cert dc where get: "om_get (ap_collected_certs s) c = Some cert"
      "om_get (ap_collected_distance_certs s) c = Some dc" by (auto simp: both_certs_def)
  note keys = view_keys [OF assms]
  have "pack_eligible env (recovery_round s) s (extractReplicaId c) (ac_isAmbulance cert)"
    using entry_car [OF assms om_get_Some_in [OF get(1)] keys(3)] by (blast intro: all_eligible [OF assms])
  moreover obtain rank where "om_get ?ranks c = Some rank"
    using queue_rank [OF keys(1) get] by blast
  ultimately have "signed_entry env (ap_now s) (extractReplicaId c) rank cert (om_get (oc_vehicleStates cand) c) \<in> set signed"
    unfolding signed_def pack_signed_iff candidate_fields(2) [OF assms] using get om_get_Some_in [OF get(1)] by blast
  then obtain e es where signed: "signed = e # es" by (cases signed) simp_all
  then have "e \<in> set signed" by simp
  then obtain c' cert' d' rank' where e: "(c', cert') \<in> set (ap_collected_certs s)"
      "om_get (ap_collected_distance_certs s) c' = Some d'" "om_get ?ranks c' = Some rank'"
      "e = signed_entry env (ap_now s) (extractReplicaId c') rank' cert' (om_get (oc_vehicleStates cand) c')"
    unfolding signed_def pack_signed_iff candidate_fields(2) [OF assms] by blast
  have "0 < unat rank'"
    by (rule rank_positive [OF keys(1) e(3) _ e(2)]) (rule om_in_get [OF keys(1) e(1)])
  then have "0 < unat (ve_position_in_lane e)" by (simp add: e(4) signed_entry_def)
  with that es signed show ?thesis by simp
qed

definition plain_view :: "bytes \<Rightarrow> ProposalView" where
  "plain_view data = empty_proposal_view\<lparr>pv_data := data, pv_raw_payload := data\<rparr>"

lemma plain_view_simps [simp]:
  "pv_data (plain_view data) = data" "\<not> is_rollback (plain_view data)" "\<not> is_cancel (plain_view data)"
  by (simp_all add: plain_view_def empty_proposal_view_def is_rollback_def is_cancel_def)

lemma starts_with_take:
  assumes "starts_with (take k xs) CANCEL_CERT_TAG"
  shows "starts_with xs CANCEL_CERT_TAG"
proof -
  have "12 \<le> length (take k xs)" by (rule starts_with_tag_length [OF assms])
  then have "min 12 k = 12" by simp
  moreover have "take (min 12 k) xs = CANCEL_CERT_TAG"
    using assms by (simp only: starts_with_tag take_take)
  ultimately show ?thesis by (simp only: starts_with_tag)
qed

lemma classified_plain:
  assumes "ParseNormalProposal data \<noteq> None" and "ParseNormalProposal (drop 16 data) = None"
    and "rh_justification_len (dec_rollback_hdr data) = 0"
  shows "UnwrapRollbackIfPresent data = (True, plain_view data)"
proof -
  have no_tag: "\<not> starts_with (take k (drop 12 data)) CANCEL_CERT_TAG" for k
  proof
    assume "starts_with (take k (drop 12 data)) CANCEL_CERT_TAG"
    then have "ParseNormalProposal data = None" by (rule cancel_not_normal [OF starts_with_take])
    then show False using assms(1) by contradiction
  qed
  have "LooksLikeCancelProposal data v = (False, v)" for v
    using no_tag by (simp add: LooksLikeCancelProposal_def Let_def sizeof_cancel_hdr_def)
  moreover have "(empty_proposal_view\<lparr>pv_data := data, pv_kind := kNormal, pv_cancel_electors := [],
            pv_cancel_leader_id := -1, pv_raw_payload := data\<rparr>) = plain_view data"
    by (simp add: plain_view_def empty_proposal_view_def)
  ultimately show ?thesis
    using assms by (simp add: UnwrapRollbackIfPresent_def Let_def sizeof_rollback_hdr_def)
qed

lemma honest_classified:
  assumes "certified_round env s cand"
  defines "data \<equiv> order_payload env s cand"
  shows "UnwrapRollbackIfPresent data = (True, plain_view data)"
proof -
  note h = honest_hdr [OF assms(1)]
  let ?hdr = "order_hdr env s (length (order_entries env s cand))"
  have honest: "\<not> ev_is_byzantine env" and clock: "time_us env (ap_now s) < 2 ^ 32"
    using assms(1) by (simp_all add: certified_round_def small_clock_def)
  obtain e es where es: "order_entries env s cand = e # es" "0 < unat (ve_position_in_lane e)"
    by (rule first_entry_ranked [OF assms(1)])
  define rest where "rest = concat (map enc_entry es) @ evidence_trailer (order_clear_certs s cand)"
  have data: "data = put_u32 (ph_epoch ?hdr) @ put_i32 (ph_leader_id ?hdr) @ put_u64 (ph_propose_sim_time_us ?hdr) @
      put_u32 (ph_n_vehicles ?hdr) @ enc_entry e @ rest"
    unfolding data_def order_payload_honest [OF honest] enc_proposal_def rest_def es(1) by (simp add: enc_propose_hdr_def)
  have "drop 16 data = put_u32 (ph_n_vehicles ?hdr) @ enc_entry e @ rest"
    unfolding data by simp
  then have "ParseNormalProposal (drop 16 data) = None"
    using not_small_count [OF _ es(2), of "replicate 16 0"] by simp
  moreover have "unat (ph_propose_sim_time_us ?hdr) < 2 ^ 32"
    using clock by (simp add: order_hdr_def word_less_nat_alt)
  then have "drop 4 (put_u64 (ph_propose_sim_time_us ?hdr)) = [0, 0, 0, 0]"
    unfolding put_u64_def by (rule high_word_zero)
  then have "take 4 (drop 12 data) = [0, 0, 0, 0]"
    unfolding data by simp
  then have "rh_justification_len (dec_rollback_hdr data) = 0"
    by (simp add: dec_rollback_hdr_def get_u32_def)
  ultimately show ?thesis using h(2) by (intro classified_plain) (simp_all add: data_def)
qed

section \<open>A follower with the same certificates\<close>

definition follower_of :: "'d AppEnv \<Rightarrow> 'd AppState \<Rightarrow> 'd AppEnv \<Rightarrow> 'd AppState \<Rightarrow> bool" where
  "follower_of env s env' s' \<longleftrightarrow>
     (\<exists>r. ev_cfg env' = (ev_cfg env)\<lparr>cf_replicaId := r\<rparr>) \<and> ev_keys env' = ev_keys env \<and>
     ev_verify env' = ev_verify env \<and> ap_collected_certs s' = ap_collected_certs s \<and>
     ap_collected_distance_certs s' = ap_collected_distance_certs s"

lemma support_scan_replica:
  "support_scan (cfg\<lparr>cf_replicaId := r\<rparr>) keys verify cert es seen k = support_scan cfg keys verify cert es seen k"
  by (induction es arbitrary: seen k) (simp_all add: isValidArrivalEchoForCert_def isArrivalSignerEligible_def)

lemma eligible_same:
  "follower_of env s env' s' \<Longrightarrow>
   eligibleDirection (ev_cfg env') (ev_keys env') (ev_verify env') cert =
   eligibleDirection (ev_cfg env) (ev_keys env) (ev_verify env) cert"
  by (auto simp: follower_of_def eligibleDirection_def directionSupport_def support_scan_replica
      physicalLaneAuthorizesDirection_def cert_fault_bound_def)

definition entry_cert :: "ResdbVehicleEntry \<Rightarrow> ResdbCertEntry" where
  "entry_cert e = \<lparr>ce_replica_id = ve_replica_id e, ce_lane = ve_lane e,
     ce_position_in_lane = ve_position_in_lane e, ce_direction = ve_direction e,
     ce_is_ambulance = ve_is_ambulance e, ce_physical_lane_index = ve_physical_lane_index e,
     ce_lateral_claim_cm = ve_lateral_claim_cm e\<rparr>"

lemma entry_cert_simps [simp]:
  "ce_replica_id (entry_cert e) = ve_replica_id e" "state_fields_match e (entry_cert e)"
  by (simp_all add: entry_cert_def state_fields_match_def)

lemma stoi_car: "in_i32 r \<Longrightarrow> stoi (drop 3 (veh r)) = Some r"
  by (simp add: veh_def)


lemma car_name_long: "in_i32 r \<Longrightarrow> \<not> length (veh r) \<le> 3"
  by (simp add: veh_def to_string_def)

lemma snapshot_entry_iff:
  assumes "certified_round env s cand" and "follower_of env s env' s'" and "(c, cert) \<in> set (ap_collected_certs s)"
  shows "snapshot_entry env' s' ranks (c, cert) = Some ce \<longleftrightarrow>
    both_certs s c \<and> (\<exists>rank. om_get ranks c = Some rank \<and> ce = entry_cert (signed_of env s c cert rank))"
proof -
  have car: "in_i32 (extractReplicaId c)" "c = veh (extractReplicaId c)"
    using entry_car [OF assms(1,3) view_keys(3) [OF assms(1)]] certified_primary(5) [OF assms(1)]
    by (auto simp: in_i32_def)
  have "stoi (drop 3 c) = Some (extractReplicaId c)" "\<not> length c \<le> 3"
    using stoi_car [OF car(1)] car_name_long [OF car(1)] car(2) by simp_all
  moreover have "om_get (ap_collected_certs s) c = Some cert"
    by (rule om_in_get [OF view_keys(1) [OF assms(1)] assms(3)])
  ultimately show ?thesis
    using assms(2) eligible_same [OF assms(2)]
    by (auto simp: snapshot_entry_def both_certs_def follower_of_def entry_cert_def signed_of_def signed_entry_def
        split: option.splits)
qed

lemma snapshot_iff:
  assumes "certified_round env s cand" and "follower_of env s env' s'"
  defines "ranks \<equiv> deriveQueueRanks (ap_collected_certs s) (ap_collected_distance_certs s)"
  shows "ce \<in> set (certSnapshotCallback env' s' 256) \<longleftrightarrow>
    (\<exists>c cert rank. om_get (ap_collected_certs s) c = Some cert \<and> both_certs s c \<and> om_get ranks c = Some rank \<and>
       ce = entry_cert (signed_of env s c cert rank))"
proof -
  note keys = view_keys [OF assms(1)] and same = assms(2) [unfolded follower_of_def]
  let ?n = "cf_total_vehicles (ev_cfg env)"
  have "length (ap_collected_certs s) = card (extractReplicaId ` set (om_keys (ap_collected_certs s)))"
    using distinct_card [OF distinct_replicas [OF keys(1,3) certified_primary(5) [OF assms(1)]]]
    by (simp add: om_keys_def image_image)
  also have "\<dots> \<le> card {0..<?n}"
    using keys(3) replica_of_car [OF _ certified_primary(5) [OF assms(1)]] by (intro card_mono) auto
  also have "\<dots> \<le> 256" using assms(1) by (auto simp: certified_round_def)
  finally have "length (ap_collected_certs s) \<le> 256" .
  moreover have "length (List.map_filter f xs) \<le> length xs" for f and xs :: "'x list"
    by (simp add: List.map_filter_def)
  ultimately have "length (List.map_filter (snapshot_entry env' s' ranks) (ap_collected_certs s)) \<le> 256"
    by (rule order_trans [rotated])
  then have "set (certSnapshotCallback env' s' 256) =
      set (List.map_filter (snapshot_entry env' s' ranks) (ap_collected_certs s))"
    using same by (simp add: certSnapshotCallback_def Let_def ranks_def)
  also have "\<dots> = {ce. \<exists>kv \<in> set (ap_collected_certs s). snapshot_entry env' s' ranks kv = Some ce}"
    by (force simp: List.map_filter_def)
  finally have "ce \<in> set (certSnapshotCallback env' s' 256) \<longleftrightarrow>
      (\<exists>c cert. (c, cert) \<in> set (ap_collected_certs s) \<and> snapshot_entry env' s' ranks (c, cert) = Some ce)" by auto
  also have "\<dots> \<longleftrightarrow> (\<exists>c cert. (c, cert) \<in> set (ap_collected_certs s) \<and> both_certs s c \<and>
      (\<exists>rank. om_get ranks c = Some rank \<and> ce = entry_cert (signed_of env s c cert rank)))"
    using snapshot_entry_iff [OF assms(1,2)] by blast
  also have "\<dots> \<longleftrightarrow> (\<exists>c cert rank. om_get (ap_collected_certs s) c = Some cert \<and> both_certs s c \<and>
      om_get ranks c = Some rank \<and> ce = entry_cert (signed_of env s c cert rank))"
    unfolding om_in_iff [OF keys(1)] by blast
  finally show ?thesis .
qed

lemma cert_scan_agrees:
  assumes "\<forall>ce \<in> set certs. \<forall>pe. pm (ce_replica_id ce) = Some pe \<longrightarrow>
      ve_cyber_status pe \<noteq> 0 \<and> ve_sim_time_us pe \<noteq> UINT64_MAX \<and> state_fields_match pe ce"
  shows "cert_scan pm certs k = Some k"
  using assms by (induction certs) (simp_all split: option.split)

lemma honest_certs:
  assumes "certified_round env s cand" and "follower_of env s env' s'"
  defines "data \<equiv> order_payload env s cand" and "n \<equiv> cf_total_vehicles (ev_cfg env)"
  shows "certs_ok n False True (Some (certSnapshotCallback env' s')) (dec_propose_hdr data) data"
proof -
  let ?es = "order_entries env s cand" and ?me = "cf_replicaId (ev_cfg env)" and ?certs = "certSnapshotCallback env' s' 256"
  note h = honest_hdr [OF assms(1)] and snap = snapshot_iff [OF assms(1,2)]
  note pm = proposal_map_get [OF entries_distinct [OF assms(1)]]
  have ids: "ce_replica_id ` set ?certs = set (candidate_voters env (recovery_round s) s)"
  proof -
    have "ce_replica_id ` set ?certs = ve_replica_id ` set (filter (signed_slot n) ?es)"
    proof (rule set_eqI, rule iffI)
      fix v assume "v \<in> ce_replica_id ` set ?certs"
      then obtain c cert rank where c: "om_get (ap_collected_certs s) c = Some cert" "both_certs s c"
          "om_get (deriveQueueRanks (ap_collected_certs s) (ap_collected_distance_certs s)) c = Some rank"
          "v = ve_replica_id (signed_of env s c cert rank)" unfolding image_iff Bex_def snap by auto
      then have e: "signed_of env s c cert rank \<in> set ?es" unfolding order_entries_iff [OF assms(1)] by blast
      have "signed_slot n (signed_of env s c cert rank)"
        using signed_of_sound(1) [OF assms(1) c(1)] entries_sound [OF assms(1) e] by (simp add: signed_slot_def n_def)
      then show "v \<in> ve_replica_id ` set (filter (signed_slot n) ?es)" using e c(4) by simp
    next
      fix v assume "v \<in> ve_replica_id ` set (filter (signed_slot n) ?es)"
      then obtain e where e: "e \<in> set ?es" "signed_voter e" "v = ve_replica_id e" by (auto simp: signed_slot_def)
      from assms(1) e(1) show "v \<in> ce_replica_id ` set ?certs"
      proof (cases rule: entry_cases)
        case (signed c cert rank)
        then have "entry_cert e \<in> set ?certs" unfolding snap by blast
        then show ?thesis using e(3) by force
      next
        case (quiet c vs)
        then show ?thesis using quiet_sound(1) [OF assms(1) quiet(1)] e(2) by simp
      qed
    qed
    then show ?thesis using signed_slots [OF assms(1)] by (simp add: n_def)
  qed
  have leader: "?me \<in> ce_replica_id ` set ?certs" "\<forall>ce \<in> set ?certs. ?me \<le> ce_replica_id ce"
    unfolding ids using certified_primary(1,2) [OF assms(1)] ids by auto
  have amb: "\<not> uncertified_ambulance (ce_replica_id ` set ?certs) e" if "e \<in> set ?es" for e
    using assms(1) that
  proof (cases rule: entry_cases)
    case (signed c cert rank)
    then have "entry_cert e \<in> set ?certs" unfolding snap by blast
    then have "ve_replica_id e \<in> ce_replica_id ` set ?certs" by force
    then show ?thesis
      using signed_of_sound(1) [OF assms(1) signed(1)] signed(4) by (auto simp: uncertified_ambulance_def signed_voter_def)
  qed (simp add: uncertified_ambulance_def quiet_entry_def)
  have "cert_scan (proposal_map ?es) ?certs 0 = Some 0"
  proof (rule cert_scan_agrees, intro ballI allI impI)
    fix ce pe assume ce: "ce \<in> set ?certs" and pe: "proposal_map ?es (ce_replica_id ce) = Some pe"
    obtain c cert rank where c: "om_get (ap_collected_certs s) c = Some cert" "both_certs s c"
          "om_get (deriveQueueRanks (ap_collected_certs s) (ap_collected_distance_certs s)) c = Some rank"
          "ce = entry_cert (signed_of env s c cert rank)" using ce unfolding snap by blast
    let ?e = "signed_of env s c cert rank"
    have "?e \<in> set ?es" unfolding order_entries_iff [OF assms(1)] using c by blast
    then have "proposal_map ?es (ce_replica_id ce) = Some ?e" unfolding pm by (simp add: c(4))
    then have "pe = ?e" using pe by simp
    then show "ve_cyber_status pe \<noteq> 0 \<and> ve_sim_time_us pe \<noteq> UINT64_MAX \<and> state_fields_match pe ce"
      using signed_of_sound(1) [OF assms(1) c(1)] by (simp add: c(4) signed_voter_def)
  qed
  moreover have "proposal_map ?es (ve_replica_id e) = Some e" if "e \<in> set ?es" for e
    unfolding pm using that by simp
  moreover have "0 \<le> (n - 1) sdiv 3"
    using certified_primary(4) [OF assms(1)] by (auto simp: signed_divide_int_def n_def sgn_if)
  ultimately show ?thesis
    using leader amb h by (fastforce simp: certs_ok_def Let_def data_def list_ex_iff not_less)
qed

section \<open>The verdict\<close>

lemma honest_proposal_checked:
  assumes "certified_round env s cand" and "follower_of env s env' s'"
    and "data = order_payload env s cand" and "hdr = dec_propose_hdr data" and "n = cf_total_vehicles (ev_cfg env)"
    and "parse_batch (rq_data req) = Some (data # ds)" and "rq_type req \<noteq> TYPE_OTHER"
    and "active = BuildEpochOrderViewCandidate (bs_faults st) hdr data n (Some req)"
  shows "PreVerify n parse_batch (Some (certSnapshotCallback env' s')) clear_fn req st =
    (if (ap_current_epoch s > 0 \<and> active = None) \<or>
        (ap_current_epoch s \<in> bs_recovery_epochs st \<and> \<not> clear_evidence_ok clear_fn hdr data)
     then Some (False, st)
     else install_order_view req active (\<not> leader_is_pbft_primary n hdr data st) (cf_replicaId (ev_cfg env)) st)"
proof -
  note h = honest_hdr [OF assms(1)]
  have sub: "order_submitted parse_batch req data (plain_view data)"
    using assms(3,6,7) honest_classified [OF assms(1)] by (auto simp: order_submitted_def)
  show ?thesis
    using h(1,5,6) honest_membership [OF assms(1)] honest_leader(2,3) [OF assms(1)] honest_certs [OF assms(1,2)]
    unfolding PreVerify_order [OF sub] PreVerifyOrder_def Let_def
    by (simp add: assms(3-5,8) requires_clear_evidence_def)
qed

text \<open>
  C2: the ORDER an honest certified primary packs is an ordinary proposal that passes every
  membership, field, leader and certificate check of each follower holding the same
  certificates; only a missing view of its epoch or missing CLEAR evidence can refuse it,
  otherwise the follower goes on to bind the view.
\<close>

theorem honest_proposal_accepted:
  assumes "certified_round env s cand" and "follower_of env s env' s'"
    and "data = order_payload env s cand" and "hdr = dec_propose_hdr data" and "n = cf_total_vehicles (ev_cfg env)"
    and "parse_batch (rq_data req) = Some (data # ds)" and "rq_type req \<noteq> TYPE_OTHER"
    and "active = BuildEpochOrderViewCandidate (bs_faults st) hdr data n (Some req)"
  shows "PreVerify n parse_batch (Some (certSnapshotCallback env' s')) clear_fn req st =
    (if (ap_current_epoch s > 0 \<and> active = None) \<or>
        (ap_current_epoch s \<in> bs_recovery_epochs st \<and> \<not> clear_evidence_ok clear_fn hdr data)
     then Some (False, st)
     else install_order_view req active (\<not> leader_is_pbft_primary n hdr data st) (cf_replicaId (ev_cfg env)) st)"
  by (rule honest_proposal_checked [where parse_batch = parse_batch and req = req, OF assms])

definition demo_scene :: "int AppState" where
  "demo_scene = (initial_app sample_server)\<lparr>ap_now := 5,
     ap_collected_certs := [(''veh0'', empty_cert\<lparr>ac_carId := ''veh0'', ac_lane := ''N'', ac_direction := DIR_STRAIGHT\<rparr>)],
     ap_collected_distance_certs := [(''veh0'', empty_distance_cert)],
     ap_local_vehicle_states := [(''veh0'', \<lparr>vs_vehicleId = ''veh0'', vs_lane = ''N'', vs_positionInLane = 1, vs_physicalLaneIndex = 0,
         vs_lateralClaimCm = 0, vs_direction = DIR_STRAIGHT, vs_isAmbulance = False,
         vs_arrival_time_us = 3\<rparr>),
       (''veh2'', \<lparr>vs_vehicleId = ''veh2'', vs_lane = ''E'', vs_positionInLane = 1, vs_physicalLaneIndex = 0,
         vs_lateralClaimCm = 0, vs_direction = DIR_STRAIGHT, vs_isAmbulance = False,
         vs_arrival_time_us = 4\<rparr>)]\<rparr>"

lemma demo_scene_round: "certified_round (sample_env 0) demo_scene (buildOrderCandidate (sample_env 0) demo_scene)"
  by code_simp

lemma demo_follower: "follower_of (sample_env 0) demo_scene (sample_env 1) demo_scene"
  by (simp add: follower_of_def sample_env_def sample_config_def)

theorem honest_proposal_accepted_witness:
  "\<exists>st'. PreVerify 4 demo_parse (Some (certSnapshotCallback (sample_env 1) demo_scene)) None
     (demo_pre_prepare (order_payload (sample_env 0) demo_scene (buildOrderCandidate (sample_env 0) demo_scene)))
     sample_server = Some (True, st')"
proof -
  let ?d = "order_payload (sample_env 0) demo_scene (buildOrderCandidate (sample_env 0) demo_scene)"
  have "PreVerify 4 demo_parse (Some (certSnapshotCallback (sample_env 1) demo_scene)) None (demo_pre_prepare ?d) sample_server =
      (if (ap_current_epoch demo_scene > 0 \<and> None = (None :: OmnetForcedView option)) \<or>
          (ap_current_epoch demo_scene \<in> bs_recovery_epochs sample_server \<and> \<not> clear_evidence_ok None (dec_propose_hdr ?d) ?d)
       then Some (False, sample_server)
       else install_order_view (demo_pre_prepare ?d) None
         (\<not> leader_is_pbft_primary 4 (dec_propose_hdr ?d) ?d sample_server) (cf_replicaId (ev_cfg (sample_env 0))) sample_server)"
    by (rule honest_proposal_accepted [OF demo_scene_round demo_follower refl refl, where ds = "[]"])
      (simp_all add: sample_env_def sample_config_def demo_parse_def demo_pre_prepare_def sample_server_def
        BuildEpochOrderViewCandidate_def configured_faults_def)
  then show ?thesis
    by (simp add: demo_scene_def initial_app_def sample_server_def install_order_view_def)
qed

end
