(* ===== verification/AttackCorrect.thy ===== *)
theory AttackCorrect
  imports OrderCorrect
begin

text \<open>
  The proposer attacks of \<^verbatim>\<open>v2vbft/app/ResDBDecision.cc\<close> against the pre-verification of the
  bridge: what a follower with the same certificates accepts of an attacked proposal. The
  first section shows that a payload whose header has a small clock can only be accepted as
  an ordinary ORDER, the second compares the attacked entries with the certificates.
\<close>

section \<open>An accepted payload is an ordinary ORDER\<close>

lemma high_bytes:
  assumes "unat (ph_propose_sim_time_us hdr) < 2 ^ 32"
  shows "take 4 (drop 12 (enc_propose_hdr hdr @ rest)) = [0, 0, 0, 0]"
proof -
  have "drop 4 (put_u64 (ph_propose_sim_time_us hdr)) = [0, 0, 0, 0]"
    unfolding put_u64_def by (rule high_word_zero [OF assms])
  then show ?thesis by (simp add: enc_propose_hdr_def)
qed

lemma unwrap_small_clock:
  assumes "data = enc_propose_hdr hdr @ rest" and "unat (ph_propose_sim_time_us hdr) < 2 ^ 32"
    and "UnwrapRollbackIfPresent data = (True, view)"
  shows "view = plain_view data \<or>
    is_rollback view \<and> \<not> is_cancel view \<and> rh_justification_len (pv_rollback view) = 0"
proof -
  note high = high_bytes [OF assms(2), of rest, folded assms(1)]
  have no_tag: "\<not> starts_with (take k (drop 12 data)) CANCEL_CERT_TAG" for k
  proof
    assume "starts_with (take k (drop 12 data)) CANCEL_CERT_TAG"
    then have "take 12 (drop 12 data) = CANCEL_CERT_TAG"
      using starts_with_take starts_with_tag by blast
    then have "take 4 (take 12 (drop 12 data)) = take 4 CANCEL_CERT_TAG" by simp
    then have "take 4 (drop 12 data) = [67, 65, 78, 67]" by (simp add: tag_bytes)
    then show False using high by simp
  qed
  have looks: "LooksLikeCancelProposal data v = (False, v)" for v
    using no_tag by (simp add: LooksLikeCancelProposal_def Let_def sizeof_cancel_hdr_def)
  have len: "rh_justification_len (dec_rollback_hdr data) = 0"
    by (simp add: dec_rollback_hdr_def get_u32_def high)
  have plain: "(empty_proposal_view\<lparr>pv_data := data, pv_kind := kNormal, pv_cancel_electors := [],
            pv_cancel_leader_id := -1, pv_raw_payload := data\<rparr>) = plain_view data"
    by (simp add: plain_view_def empty_proposal_view_def)
  show ?thesis
    using assms(3) unfolding UnwrapRollbackIfPresent_def Let_def looks plain prod.case
    by (auto simp: len is_rollback_def is_cancel_def split: if_split_asm option.split_asm)
qed

lemma accepted_plain:
  assumes "data = enc_propose_hdr hdr @ rest" and "unat (ph_propose_sim_time_us hdr) < 2 ^ 32"
    and "parse_batch (rq_data req) = Some (data # ds)" and "rq_type req \<noteq> TYPE_OTHER"
    and "PreVerify n parse_batch snap clear_fn req st = Some (True, st')"
  shows "order_submitted parse_batch req data (plain_view data)"
proof -
  obtain ok view where u: "UnwrapRollbackIfPresent data = (ok, view)" by force
  have "rq_type req = TYPE_PRE_PREPARE \<or> rq_type req = TYPE_NEW_TXNS"
    using assms(4) by (cases "rq_type req") simp_all
  then have pv: "(if ok then (if is_cancel view then PreVerifyCancel n view req st
      else PreVerifyOrder n snap clear_fn data view req st) else Some (False, st)) = Some (True, st')"
    using assms(3,5) u by (auto simp: PreVerify_def split: bool.splits if_split_asm)
  then have ok: "ok" by (auto split: if_split_asm)
  have "view = plain_view data"
  proof (rule ccontr)
    assume "view \<noteq> plain_view data"
    then have r: "is_rollback view" "\<not> is_cancel view" "rh_justification_len (pv_rollback view) = 0"
      using unwrap_small_clock [OF assms(1,2)] u ok by auto
    then have "StructurallyValidCancelJustification data (pv_rollback view)"
      using pv ok PreVerifyOrder_accepted(6) by simp
    then show False using r(3) by (simp add: StructurallyValidCancelJustification_def Let_def split: if_split_asm)
  qed
  then show ?thesis using u ok assms(3,4) by (auto simp: order_submitted_def)
qed

section \<open>Attacked entries\<close>

lemma update_first_cases:
  obtains "update_first p f es = es"
  | us e vs where "es = us @ e # vs" "p e" "update_first p f es = us @ f e # vs"
proof -
  have "update_first p f es = es \<or> (\<exists>us e vs. es = us @ e # vs \<and> p e \<and> update_first p f es = us @ f e # vs)"
  proof (induction es)
    case (Cons x es)
    show ?case
    proof (cases "p x")
      case True
      then show ?thesis by (intro disjI2 exI [of _ "[]"]) simp
    next
      case False
      from Cons show ?thesis
      proof (elim disjE exE conjE)
        fix us e vs assume "es = us @ e # vs" "p e" "update_first p f es = us @ f e # vs"
        then show ?thesis using False by (intro disjI2 exI [of _ "x # us"] exI [of _ e] exI [of _ vs]) simp
      qed (simp add: False)
    qed
  qed simp
  then show ?thesis using that by blast
qed

lemma front_east_found:
  "front_east k es pos best = Some j \<Longrightarrow>
     best = Some j \<or> k \<le> j \<and> j < k + length es \<and> ve_lane (es ! (j - k)) = 2 \<and> ve_cyber_status (es ! (j - k)) = 1"
proof (induction es arbitrary: k pos best)
  case (Cons e es)
  show ?case
  proof (cases "ve_lane e = 2 \<and> ve_cyber_status e = 1 \<and> ve_position_in_lane e < pos")
    case True
    then show ?thesis using Cons.IH [of "Suc k" "ve_position_in_lane e" "Some k"] Cons.prems
      by (auto simp: nth_Cons')
  next
    case False
    then show ?thesis using Cons.IH [of "Suc k" pos best] Cons.prems
      by (auto simp: nth_Cons' split: if_split_asm)
  qed
qed simp

definition attack_env :: "'d AppEnv \<Rightarrow> ByzantineType \<Rightarrow> 'd AppEnv" where
  "attack_env env b = env\<lparr>ev_is_byzantine := True, ev_byzantine_type := b\<rparr>"

lemma attack_env_simps [simp]:
  "ev_cfg (attack_env env b) = ev_cfg env" "time_us (attack_env env b) = time_us env"
  "ev_is_byzantine (attack_env env b)" "ev_byzantine_type (attack_env env b) = b"
  by (simp_all add: attack_env_def time_us_def fun_eq_iff)

lemma attack_env_pack [simp]:
  "pack_eligible (attack_env env b) = pack_eligible env" "signed_entry (attack_env env b) = signed_entry env"
  by (simp_all add: attack_env_def fun_eq_iff pack_eligible_def shouldIncludeInRollbackMembership_def
      signed_entry_def entry_time_def time_us_def split: option.split)

lemma attack_env_entries [simp]: "order_entries (attack_env env b) = order_entries env"
proof -
  have "pack_signed (attack_env env b) r s c rk certs = pack_signed env r s c rk certs" for r s c rk certs
    by (induction certs) (auto simp: Let_def split: option.splits)
  moreover have "pack_quiet (attack_env env b) r s P states = pack_quiet env r s P states" for r s P states
    by (induction states) (auto simp: Let_def)
  ultimately show ?thesis by (simp add: fun_eq_iff order_entries_def)
qed

lemma signed_in_snapshot:
  assumes "certified_round env s cand" and "follower_of env s env' s'"
    and "e \<in> set (order_entries env s cand)" and "signed_voter e"
  shows "entry_cert e \<in> set (certSnapshotCallback env' s' 256)"
  using assms(1,3)
proof (cases rule: entry_cases)
  case (signed c cert rank)
  then show ?thesis unfolding snapshot_iff [OF assms(1,2)] by blast
next
  case (quiet c vs)
  then show ?thesis using quiet_sound(1) [OF assms(1) quiet(1)] assms(4) by simp
qed

lemma quiet_or_signed:
  assumes "certified_round env s cand" and "e \<in> set (order_entries env s cand)"
  shows "signed_voter e \<or> ve_cyber_status e = 0 \<and> ve_is_ambulance e = 0"
  using assms
proof (cases rule: entry_cases)
  case (signed c cert rank)
  then show ?thesis using signed_of_sound(1) [OF assms(1) signed(1)] by simp
qed (simp add: quiet_entry_def)

text \<open>What acceptance says of entries that keep the ids of the honest ones.\<close>

lemma accepted_tampered:
  assumes "certified_round env s cand" and "follower_of env s env' s'"
    and "es = order_entries env s cand" and "n = cf_total_vehicles (ev_cfg env)"
    and "data = enc_proposal (order_hdr env s (length es')) es' trailer"
    and "map ve_replica_id es' = map ve_replica_id es" and "\<forall>e \<in> set es'. wf_entry e"
    and "parse_batch (rq_data req) = Some (data # ds)" and "rq_type req \<noteq> TYPE_OTHER"
    and "PreVerify n parse_batch (Some (certSnapshotCallback env' s')) clear_fn req st = Some (True, st')"
  shows "e \<in> set es \<Longrightarrow> signed_voter e \<Longrightarrow> e' \<in> set es' \<Longrightarrow> ve_replica_id e' = ve_replica_id e \<Longrightarrow>
      signed_voter e' \<Longrightarrow> state_fields_match e' (entry_cert e)"
    and "e' \<in> set es' \<Longrightarrow> ve_is_ambulance e' \<noteq> 0 \<Longrightarrow> ve_cyber_status e' \<noteq> 0"
    and "int (length (filter (suppressed es') (certSnapshotCallback env' s' 256))) \<le> (n - 1) div 3"
proof -
  let ?hdr = "order_hdr env s (length es')"
  have honest: "\<not> ev_is_byzantine env" and clock: "time_us env (ap_now s) < 2 ^ 32"
    using assms(1) by (simp_all add: certified_round_def small_clock_def)
  have len: "length es' = length es" using arg_cong [OF assms(6), of length] by simp
  note h = honest_hdr [OF assms(1), folded assms(3)]
  have small: "length es' \<le> 256" using entries_count(2) [OF assms(1)] len assms(3) by simp
  have time: "unat (ph_propose_sim_time_us ?hdr) < 2 ^ 32"
    using clock by (simp add: order_hdr_def word_less_nat_alt)
  have data: "data = enc_propose_hdr ?hdr @ concat (map enc_entry es') @ trailer"
    using assms(5) by (simp add: enc_proposal_def)
  note sub = accepted_plain [where parse_batch = parse_batch and req = req, OF data time assms(8-10)]
  have acc: "PreVerifyOrder n (Some (certSnapshotCallback env' s')) clear_fn data (plain_view data) req st = Some (True, st')"
    using assms(10) PreVerify_order [OF sub] by simp
  have id: "in_i32 (ph_leader_id ?hdr)"
    using certified_primary(4,5) [OF assms(1)] by (simp add: order_hdr_def in_i32_def)
  have hdr: "dec_propose_hdr data = ?hdr" unfolding data by (rule dec_propose_hdr_enc [OF id])
  have cnt: "unat (ph_n_vehicles ?hdr) = length es'"
    using h(3) len by (simp add: assms(3))
  have es': "proposal_entries (dec_propose_hdr data) data = es'"
    unfolding hdr proposal_entries_def cnt by (subst assms(5)) (rule dec_entries_proposal [OF assms(7)])
  note mem = PreVerifyOrder_accepted(1) [OF acc, simplified]
  note c = certs_okD [OF PreVerifyOrder_accepted(4) [OF acc, simplified] membership_okD(1,5) [OF mem], unfolded es']
  show "state_fields_match e' (entry_cert e)" if h: "e \<in> set es" "signed_voter e" "e' \<in> set es'"
      "ve_replica_id e' = ve_replica_id e" "signed_voter e'"
  proof (rule c(4))
    show "entry_cert e \<in> set (certSnapshotCallback env' s' 256)"
      using h(1,2) unfolding assms(3) by (rule signed_in_snapshot [OF assms(1,2)])
    show "e' \<in> set es'" "ce_replica_id (entry_cert e) = ve_replica_id e'" "ve_cyber_status e' \<noteq> 0"
      "ve_sim_time_us e' \<noteq> UINT64_MAX"
      using h by (simp_all add: signed_voter_def)
  qed
  show "ve_cyber_status e' \<noteq> 0" if "e' \<in> set es'" "ve_is_ambulance e' \<noteq> 0" using c(3) [OF that] by simp
  show "int (length (filter (suppressed es') (certSnapshotCallback env' s' 256))) \<le> (n - 1) div 3" by (rule c(5))
qed

lemma suppress_member:
  "e \<in> set es \<Longrightarrow> e \<in> set (suppress_certs self k es) \<or>
     signed_voter e \<and> e\<lparr>ve_cyber_status := 0, ve_sim_time_us := UINT64_MAX\<rparr> \<in> set (suppress_certs self k es)"
  by (induction self k es rule: suppress_certs.induct) (auto simp: signed_voter_def)

lemma attack_shape:
  "map ve_replica_id (suppress_certs self k es) = map ve_replica_id es"
  "\<forall>e \<in> set es. wf_entry e \<Longrightarrow> \<forall>e \<in> set (suppress_certs self k es). wf_entry e"
  by (induction self k es rule: suppress_certs.induct) (auto simp: wf_entry_def)

lemma certs_match_same:
  assumes "state_fields_match e' (entry_cert e)" and "ve_replica_id e' = ve_replica_id e"
    and "ve_cyber_status e' = ve_cyber_status e" and "ve_sim_time_us e' = ve_sim_time_us e"
  shows "e' = (e :: ResdbVehicleEntry)"
  using assms by (simp add: state_fields_match_def entry_cert_def)

text \<open>One entry changed in the fields that certificates pin down: the change is undone or refused.\<close>

lemma one_entry_refused:
  assumes "certified_round env s cand" and "follower_of env s env' s'"
    and "es = order_entries env s cand" and "n = cf_total_vehicles (ev_cfg env)"
    and "es = us @ e # vs" and "es' = us @ g # vs"
    and "ve_replica_id g = ve_replica_id e" and "ve_cyber_status g = ve_cyber_status e"
    and "ve_sim_time_us g = ve_sim_time_us e" and "wf_entry g"
    and "data = enc_proposal (order_hdr env s (length es')) es' trailer"
    and "parse_batch (rq_data req) = Some (data # ds)" and "rq_type req \<noteq> TYPE_OTHER"
    and "PreVerify n parse_batch (Some (certSnapshotCallback env' s')) clear_fn req st = Some (True, st')"
    and "ve_cyber_status e \<noteq> 0 \<or> ve_is_ambulance g \<noteq> 0"
  shows "g = e"
proof -
  have es: "e \<in> set es" "g \<in> set es'" by (simp_all add: assms(5,6))
  have wf: "\<forall>e \<in> set es'. wf_entry e"
  proof -
    have "\<forall>x \<in> set es. wf_entry x" using entries_sound [OF assms(1)] assms(3) by blast
    then show ?thesis using assms(5,6,10) by auto
  qed
  have ids: "map ve_replica_id es' = map ve_replica_id es" by (simp add: assms(5-7))
  note a = accepted_tampered [where parse_batch = parse_batch and req = req,
      OF assms(1-4,11) ids wf assms(12-14)]
  have "ve_cyber_status e \<noteq> 0" using assms(8,15) a(2) [OF es(2)] by auto
  then have v: "signed_voter e" using quiet_or_signed [OF assms(1)] es(1) assms(3) by blast
  then have "signed_voter g" using assms(8,9) by (simp add: signed_voter_def)
  then show ?thesis
    using certs_match_same a(1) [OF es(1) v es(2) assms(7)] assms(7-9) by blast
qed

definition field_attack :: "ByzantineType \<Rightarrow> bool" where
  "field_attack b \<longleftrightarrow> b \<in> {BYZANTINE_FAKE_AMBULANCE, BYZANTINE_TAMPER_LANE,
     BYZANTINE_UPGRADE_UNKNOWN_DIRECTION, BYZANTINE_TAMPER_DISTANCE_RANK, BYZANTINE_TAMPER_PHYSICAL_LANE}"

definition same_voter :: "ResdbVehicleEntry \<Rightarrow> ResdbVehicleEntry \<Rightarrow> bool" where
  "same_voter e g \<longleftrightarrow> ve_replica_id g = ve_replica_id e \<and> ve_cyber_status g = ve_cyber_status e \<and>
     ve_sim_time_us g = ve_sim_time_us e \<and> (wf_entry e \<longrightarrow> wf_entry g) \<and>
     (ve_cyber_status e \<noteq> 0 \<or> ve_is_ambulance g \<noteq> 0)"

lemma update_first_one:
  assumes "\<And>e. p e \<Longrightarrow> same_voter e (f e)"
  shows "update_first p f es = es \<or>
    (\<exists>us e vs g. es = us @ e # vs \<and> update_first p f es = us @ g # vs \<and> same_voter e g)"
  by (rule update_first_cases [of p f es]) (use assms in blast)+

lemma field_attack_one_entry:
  assumes "field_attack b" and "es' = attacked_entries (attack_env env b) es"
  shows "es' = es \<or> (\<exists>us e vs g. es = us @ e # vs \<and> es' = us @ g # vs \<and> same_voter e g)"
proof -
  consider "b = BYZANTINE_FAKE_AMBULANCE" | "b = BYZANTINE_TAMPER_LANE" | "b = BYZANTINE_UPGRADE_UNKNOWN_DIRECTION"
    | "b = BYZANTINE_TAMPER_DISTANCE_RANK" | "b = BYZANTINE_TAMPER_PHYSICAL_LANE"
    using assms(1) by (auto simp: field_attack_def)
  then show ?thesis
  proof cases
    case 1
    then have e: "es' = applyByzantineFakeAmbulance es" by (simp add: assms(2) attacked_entries_def)
    show ?thesis unfolding e applyByzantineFakeAmbulance_def
      by (rule update_first_one) (simp add: same_voter_def wf_entry_def)
  next
    case 2
    show ?thesis
    proof (cases "front_east 0 es 255 None")
      case None
      then show ?thesis by (simp add: assms(2) 2 attacked_entries_def applyByzantineTamperLane_def)
    next
      case (Some i)
      then have i: "i < length es" "ve_cyber_status (es ! i) = 1"
        using front_east_found [OF Some] by simp_all
      let ?g = "(es ! i)\<lparr>ve_lane := 1, ve_position_in_lane := 0\<rparr>"
      have "es' = take i es @ ?g # drop (Suc i) es"
        using i(1) Some by (simp add: assms(2) 2 attacked_entries_def applyByzantineTamperLane_def upd_conv_take_nth_drop)
      moreover have "es = take i es @ es ! i # drop (Suc i) es" by (rule id_take_nth_drop [OF i(1)])
      moreover have "same_voter (es ! i) ?g" using i(2) by (simp add: same_voter_def wf_entry_def)
      ultimately show ?thesis by blast
    qed
  next
    case 3
    then have e: "es' = applyByzantineUpgradeUnknownDirection es" by (simp add: assms(2) attacked_entries_def)
    show ?thesis unfolding e applyByzantineUpgradeUnknownDirection_def
      by (rule update_first_one) (simp add: same_voter_def wf_entry_def)
  next
    case 4
    then have e: "es' = applyByzantineTamperDistanceRank es" by (simp add: assms(2) attacked_entries_def)
    show ?thesis unfolding e applyByzantineTamperDistanceRank_def
      by (rule update_first_one) (simp add: same_voter_def wf_entry_def)
  next
    case 5
    then have e: "es' = applyByzantineTamperPhysicalLane es" by (simp add: assms(2) attacked_entries_def)
    show ?thesis unfolding e applyByzantineTamperPhysicalLane_def
      by (rule update_first_one) (simp add: same_voter_def wf_entry_def Let_def in_i32_def)
  qed
qed

lemma attack_payload:
  assumes "b \<noteq> BYZANTINE_BAD_PROPOSAL" and "certified_round env s cand"
  shows "\<exists>trailer. order_payload (attack_env env b) s cand =
    enc_proposal (order_hdr env s (length (order_entries env s cand)))
      (attacked_entries (attack_env env b) (order_entries env s cand)) trailer"
  using assms by (auto simp: order_payload_def enc_proposal_def order_hdr_def Let_def certified_round_def)

lemma field_attack_refused:
  assumes "certified_round env s cand" and "follower_of env s env' s'" and "field_attack b"
    and "es = order_entries env s cand" and "n = cf_total_vehicles (ev_cfg env)"
    and "data = order_payload (attack_env env b) s cand"
    and "parse_batch (rq_data req) = Some (data # ds)" and "rq_type req \<noteq> TYPE_OTHER"
    and "PreVerify n parse_batch (Some (certSnapshotCallback env' s')) clear_fn req st = Some (True, st')"
  shows "attacked_entries (attack_env env b) es = es"
proof -
  define es' where "es' = attacked_entries (attack_env env b) es"
  have "b \<noteq> BYZANTINE_BAD_PROPOSAL" using assms(3) by (auto simp: field_attack_def)
  from attack_payload [OF this assms(1)] obtain trailer where
    data: "data = enc_proposal (order_hdr env s (length es)) es' trailer"
    by (auto simp: assms(4,6) es'_def)
  from field_attack_one_entry [OF assms(3) es'_def] show ?thesis
  proof (elim disjE exE conjE)
    fix us e vs g assume c: "es = us @ e # vs" "es' = us @ g # vs" "same_voter e g"
    note v = c(3) [unfolded same_voter_def]
    have wf: "wf_entry g" using entries_sound [OF assms(1), of e] c(1) v by (simp add: assms(4))
    have d: "data = enc_proposal (order_hdr env s (length es')) es' trailer" using data c(1,2) by simp
    have "g = e"
      using v by (intro one_entry_refused [where parse_batch = parse_batch and req = req,
        OF assms(1,2,4,5) c(1,2) _ _ _ wf d assms(7-9)]) simp_all
    then show ?thesis using c(1,2) by (simp add: es'_def)
  qed (simp add: es'_def)
qed

lemma suppression_bounded:
  assumes "certified_round env s cand" and "follower_of env s env' s'"
    and "es = order_entries env s cand" and "n = cf_total_vehicles (ev_cfg env)"
    and "data = order_payload (attack_env env BYZANTINE_SUPPRESS_CERTS) s cand"
    and "es' = attacked_entries (attack_env env BYZANTINE_SUPPRESS_CERTS) es"
    and "parse_batch (rq_data req) = Some (data # ds)" and "rq_type req \<noteq> TYPE_OTHER"
    and "PreVerify n parse_batch (Some (certSnapshotCallback env' s')) clear_fn req st = Some (True, st')"
  shows "int (card (set es - set es')) \<le> (n - 1) div 3"
proof -
  let ?certs = "certSnapshotCallback env' s' 256"
  obtain self k where es': "es' = suppress_certs self k es"
    by (simp add: assms(6) attacked_entries_def applyByzantineSuppressCerts_def)
  have ids: "map ve_replica_id es' = map ve_replica_id es" unfolding es' by (rule attack_shape)
  have wf: "\<forall>e \<in> set es'. wf_entry e"
    unfolding es' using entries_sound [OF assms(1)] by (intro attack_shape) (simp add: assms(3))
  obtain trailer where "data = enc_proposal (order_hdr env s (length es)) es' trailer"
    using attack_payload [OF _ assms(1), of BYZANTINE_SUPPRESS_CERTS] by (auto simp: assms(3,5,6))
  then have data: "data = enc_proposal (order_hdr env s (length es')) es' trailer"
    using arg_cong [OF ids, of length] by simp
  note bound = accepted_tampered(3) [where parse_batch = parse_batch and req = req,
      OF assms(1-4) data ids wf assms(7-9)]
  have sub: "entry_cert ` (set es - set es') \<subseteq> set (filter (suppressed es') ?certs)"
  proof
    fix ce assume "ce \<in> entry_cert ` (set es - set es')"
    then obtain e where e: "e \<in> set es" "e \<notin> set es'" "ce = entry_cert e" by blast
    then have s: "signed_voter e" "e\<lparr>ve_cyber_status := 0, ve_sim_time_us := UINT64_MAX\<rparr> \<in> set es'"
      using suppress_member [OF e(1)] es' by blast+
    have "suppressed es' ce" unfolding suppressed_def
      by (rule bexI [OF _ s(2)]) (simp add: e(3))
    moreover have "ce \<in> set ?certs"
      using e(1) s(1) unfolding e(3) assms(3) by (rule signed_in_snapshot [OF assms(1,2)])
    ultimately show "ce \<in> set (filter (suppressed es') ?certs)" by simp
  qed
  have "inj_on entry_cert (set es)"
  proof (rule inj_onI)
    fix x y assume xy: "x \<in> set es" "y \<in> set es" "entry_cert x = entry_cert y"
    then have "ve_replica_id x = ve_replica_id y" by (simp add: entry_cert_def)
    moreover have "inj_on ve_replica_id (set es)"
      using entries_distinct [OF assms(1)] by (simp add: assms(3) distinct_map)
    ultimately show "x = y" using xy(1,2) by (simp add: inj_on_def)
  qed
  then have "card (set es - set es') = card (entry_cert ` (set es - set es'))"
    by (intro card_image [symmetric]) (auto intro: inj_on_subset)
  also have "\<dots> \<le> card (set (filter (suppressed es') ?certs))" by (rule card_mono [OF _ sub]) simp
  also have "\<dots> \<le> length (filter (suppressed es') ?certs)" by (rule card_length)
  finally show ?thesis using bound by simp
qed

lemma bad_count_refused:
  assumes "certified_round env s cand" and "n = cf_total_vehicles (ev_cfg env)"
    and "data = order_payload (attack_env env BYZANTINE_BAD_PROPOSAL) s cand"
    and "parse_batch (rq_data req) = Some (data # ds)" and "rq_type req \<noteq> TYPE_OTHER"
  shows "PreVerify n parse_batch snap clear_fn req st \<noteq> Some (True, st')"
proof
  assume acc: "PreVerify n parse_batch snap clear_fn req st = Some (True, st')"
  define es where "es = order_entries env s cand"
  define hdr where "hdr = order_hdr (attack_env env BYZANTINE_BAD_PROPOSAL) s (length es)"
  define certs where "certs = order_clear_certs s cand"
  have data: "data = enc_propose_hdr hdr @ concat (map enc_entry es) @ evidence_trailer certs"
    by (simp add: assms(3) order_payload_def hdr_def es_def certs_def attacked_entries_def Let_def)
  have small: "length es \<le> 256" unfolding es_def by (rule entries_count(2) [OF assms(1)])
  have n: "unat (ph_n_vehicles hdr) = Suc (length es)"
  proof -
    have "ph_n_vehicles hdr = of_nat (Suc (length es))" by (simp add: hdr_def order_hdr_def)
    then show ?thesis using small by (simp only: unat_of_nat) simp
  qed
  have clock: "unat (ph_propose_sim_time_us hdr) < 2 ^ 32"
    using assms(1) by (simp add: hdr_def order_hdr_def certified_round_def small_clock_def word_less_nat_alt)
  have id: "in_i32 (ph_leader_id hdr)"
    using certified_primary(4,5) [OF assms(1)] by (simp add: hdr_def order_hdr_def in_i32_def)
  have hdr: "dec_propose_hdr data = hdr" unfolding data by (rule dec_propose_hdr_enc [OF id])
  note sub = accepted_plain [where parse_batch = parse_batch and req = req, OF data clock assms(4,5) acc]
  have "PreVerifyOrder n snap clear_fn data (plain_view data) req st = Some (True, st')"
    using acc PreVerify_order [OF sub] by simp
  from PreVerifyOrder_accepted(1) [OF this] have mem: "membership_ok n hdr data" by (simp add: hdr)
  have "certs \<noteq> []"
  proof
    assume "certs = []"
    then have "length data = sizeof_propose_hdr + length es * sizeof_entry"
      by (simp add: data evidence_trailer_def sizeof_propose_hdr_def sizeof_entry_def)
    then show False using membership_okD(3) [OF mem] n by (simp add: sizeof_entry_def)
  qed
  then obtain r where "evidence_trailer certs = put_u32 RESDB_ORDER_EVIDENCE_MAGIC @ r"
    by (simp add: evidence_trailer_def enc_evidence_hdr_def)
  then have last: "drop (sizeof_propose_hdr + length es * sizeof_entry) data = put_u32 RESDB_ORDER_EVIDENCE_MAGIC @ r"
    by (simp add: data sizeof_propose_hdr_def sizeof_entry_def)
  have "dec_entry (put_u32 RESDB_ORDER_EVIDENCE_MAGIC @ r) \<in> set (proposal_entries hdr data)"
    unfolding proposal_entries_def dec_entries_def n using last by (simp add: image_iff)
  from membership_okD(2) [OF mem this] have "get_i32 (put_u32 RESDB_ORDER_EVIDENCE_MAGIC @ r) 0 < n"
    by (simp add: dec_entry_def)
  moreover have "get_i32 (put_u32 RESDB_ORDER_EVIDENCE_MAGIC @ r) 0 = 0x4F455631"
    by (simp add: get_i32_def get_head RESDB_ORDER_EVIDENCE_MAGIC_def)
  ultimately show False using assms(1,2) by (simp add: certified_round_def)
qed

text \<open>
  C3: followers that hold the proposer's certificates defeat every configured proposer
  attack: a proposal with a corrupted vehicle count is never accepted; one whose entry fields
  were tampered with (ambulance flag, lane, direction, queue rank or physical lane) is accepted
  only when the attack found nothing to change; and an accepted proposal suppresses at most
  \<open>(n - 1) div 3\<close> certified vehicles.
\<close>

theorem proposer_attacks_refused:
  assumes "certified_round env s cand" and "follower_of env s env' s'"
    and "es = order_entries env s cand" and "n = cf_total_vehicles (ev_cfg env)"
    and "data = order_payload (attack_env env b) s cand" and "es' = attacked_entries (attack_env env b) es"
    and "parse_batch (rq_data req) = Some (data # ds)" and "rq_type req \<noteq> TYPE_OTHER"
    and "PreVerify n parse_batch (Some (certSnapshotCallback env' s')) clear_fn req st = Some (True, st')"
  shows "b \<noteq> BYZANTINE_BAD_PROPOSAL \<and> (field_attack b \<longrightarrow> es' = es) \<and>
    (b = BYZANTINE_SUPPRESS_CERTS \<longrightarrow> int (card (set es - set es')) \<le> (n - 1) div 3)"
proof (intro conjI impI notI)
  assume b: "b = BYZANTINE_BAD_PROPOSAL"
  show False
    using bad_count_refused [where parse_batch = parse_batch and req = req, OF assms(1,4) assms(5) [unfolded b] assms(7,8)]
      assms(9) by blast
next
  assume "field_attack b"
  then show "es' = es"
    unfolding assms(6) by (rule field_attack_refused [where parse_batch = parse_batch and req = req,
      OF assms(1,2) _ assms(3-5,7-9)])
next
  assume b: "b = BYZANTINE_SUPPRESS_CERTS"
  show "int (card (set es - set es')) \<le> (n - 1) div 3"
    by (rule suppression_bounded [where parse_batch = parse_batch and req = req,
      OF assms(1-4) assms(5) [unfolded b] assms(6) [unfolded b] assms(7-9)])
qed

text \<open>The lane attack on a scene without an east-bound vehicle changes nothing and is accepted.\<close>

lemma demo_attack_accepted:
  "case PreVerify 4 demo_parse (Some (certSnapshotCallback (sample_env 1) demo_scene)) None
     (demo_pre_prepare (order_payload (attack_env (sample_env 0) BYZANTINE_TAMPER_LANE) demo_scene
        (buildOrderCandidate (sample_env 0) demo_scene))) sample_server of
     Some (ok, st') \<Rightarrow> ok | None \<Rightarrow> False"
  by code_simp

theorem proposer_attacks_refused_witness:
  "attacked_entries (attack_env (sample_env 0) BYZANTINE_TAMPER_LANE)
     (order_entries (sample_env 0) demo_scene (buildOrderCandidate (sample_env 0) demo_scene)) =
   order_entries (sample_env 0) demo_scene (buildOrderCandidate (sample_env 0) demo_scene)"
proof -
  let ?cand = "buildOrderCandidate (sample_env 0) demo_scene"
  let ?d = "order_payload (attack_env (sample_env 0) BYZANTINE_TAMPER_LANE) demo_scene ?cand"
  obtain st' where acc: "PreVerify 4 demo_parse (Some (certSnapshotCallback (sample_env 1) demo_scene)) None
      (demo_pre_prepare ?d) sample_server = Some (True, st')"
    using accepted_state [OF demo_attack_accepted] .
  have n: "4 = cf_total_vehicles (ev_cfg (sample_env 0))" by (simp add: sample_env_def sample_config_def)
  have p: "demo_parse (rq_data (demo_pre_prepare ?d)) = Some (?d # [])" "rq_type (demo_pre_prepare ?d) \<noteq> TYPE_OTHER"
    by (simp_all add: demo_parse_def demo_pre_prepare_def)
  have "field_attack BYZANTINE_TAMPER_LANE" by (simp add: field_attack_def)
  then show ?thesis
    using proposer_attacks_refused [where parse_batch = demo_parse and req = "demo_pre_prepare ?d",
      OF demo_scene_round demo_follower refl n refl refl p acc] by simp
qed

text \<open>The ambulance attack on the same scene is refused.\<close>

lemma demo_attack_refused:
  "\<exists>st'. PreVerify 4 demo_parse (Some (certSnapshotCallback (sample_env 1) demo_scene)) None
     (demo_pre_prepare (order_payload (attack_env (sample_env 0) BYZANTINE_FAKE_AMBULANCE) demo_scene
        (buildOrderCandidate (sample_env 0) demo_scene))) sample_server = Some (False, st')"
proof -
  have "case PreVerify 4 demo_parse (Some (certSnapshotCallback (sample_env 1) demo_scene)) None
     (demo_pre_prepare (order_payload (attack_env (sample_env 0) BYZANTINE_FAKE_AMBULANCE) demo_scene
        (buildOrderCandidate (sample_env 0) demo_scene))) sample_server of
     Some (ok, st') \<Rightarrow> \<not> ok | None \<Rightarrow> False" by code_simp
  then show ?thesis by (auto split: option.splits prod.splits)
qed

end
