(* ===== verification/WaitCorrect.thy ===== *)
theory WaitCorrect
  imports Wait
begin

text \<open>
  The WAIT lease: what a follower accepts is authenticated, bounded in time and cannot be
  replayed, and the heartbeat of an honest leader is accepted by every follower that agrees
  on the recovery round.
\<close>

section \<open>Acceptance\<close>

text \<open>The checks of the handler, for the payload \<open>p\<close> of the packet.\<close>

definition wait_accepts :: "'d AppEnv \<Rightarrow> bytes \<Rightarrow> 'd AppState \<Rightarrow> WaitHeartbeatPayload \<Rightarrow> bool" where
  "wait_accepts env payload s p \<longleftrightarrow> ev_enableRollback env \<and>
     (\<exists>view. unpackSignedPacket payload = Some view \<and> length (sp_resdbBytes view) = sizeof_wait \<and>
        p = dec_wait (sp_resdbBytes view) \<and> key_matches (ev_keys env) (wp_leaderId p) (sp_pubKey view) \<and>
        ev_verify env (sp_pubKey view) (sp_resdbBytes view) (sp_sig view)) \<and>
     wp_magic p = kWaitHeartbeatMagic \<and> wp_version p = 1 \<and>
     wait_context_ok env s p \<and> wait_index_fresh s p \<and> wait_lease_ok env s p"

lemma accepts_handled: "wait_accepts env payload s p \<Longrightarrow> handleWaitHeartbeat env payload s = accept_wait env p s"
  by (auto simp: wait_accepts_def handleWaitHeartbeat_def Let_def)

lemma handle_wait_cases:
  obtains (accepted) p where "wait_accepts env payload s p" "handleWaitHeartbeat env payload s = accept_wait env p s"
  | (ignored) "handleWaitHeartbeat env payload s = s" "\<nexists>p. wait_accepts env payload s p"
proof (cases "\<exists>p. wait_accepts env payload s p")
  case True
  then obtain p where "wait_accepts env payload s p" ..
  then show ?thesis using accepts_handled by (intro accepted)
next
  case False
  have "handleWaitHeartbeat env payload s = s"
  proof (rule ccontr)
    assume "handleWaitHeartbeat env payload s \<noteq> s"
    then obtain view where "unpackSignedPacket payload = Some view"
        "wait_accepts env payload s (dec_wait (sp_resdbBytes view))"
      by (auto simp: wait_accepts_def handleWaitHeartbeat_def Let_def split: option.split_asm if_split_asm)
    then show False using False by blast
  qed
  then show ?thesis using False by (rule ignored)
qed

lemma accepted_once:
  assumes "wait_accepts env payload s p"
  shows "\<not> wait_accepts env payload (accept_wait env p s) q"
  using assms by (auto simp: wait_accepts_def accept_wait_def wait_index_fresh_def Let_def)

lemma lease_bounds:
  assumes "wait_lease_ok env s p"
  shows "ap_now s < ticks_of_us env (wp_validUntilSimUs p)"
    and "ticks_of_us env (wp_validUntilSimUs p) \<le>
      ap_now s + ev_wait_clock_skew env + ev_wait_max_deferral env + ev_ticks_per_us env"
  using assms by (auto simp: wait_lease_ok_def Let_def)


section \<open>An honest leader's heartbeat\<close>

definition heartbeat :: "'d AppEnv \<Rightarrow> u32 \<times> u32 \<Rightarrow> 'd AppState \<Rightarrow> WaitHeartbeatPayload" where
  "heartbeat env incident s = \<lparr>wp_magic = kWaitHeartbeatMagic, wp_version = 1, wp_cancelledEpoch = fst incident,
     wp_executingBatch = snd incident, wp_leaderId = cf_replicaId (ev_cfg env),
     wp_heartbeatIndex = wx_leader_heartbeat_index (ap_wx s), wp_sentAtSimUs = time_us env (ap_now s),
     wp_validUntilSimUs = time_us env (ap_now s + ev_wait_max_deferral env)\<rparr>"

definition heartbeat_packet :: "'d AppEnv \<Rightarrow> u32 \<times> u32 \<Rightarrow> 'd AppState \<Rightarrow> bytes" where
  "heartbeat_packet env incident s = packSignedPacket (ev_sign env) (ev_pub_key env) (enc_wait (heartbeat env incident s))"

lemma send_heartbeat:
  assumes "ev_has_key env" and "heartbeat_packet env incident s \<noteq> []"
  shows "sendWaitHeartbeat env incident s = sendBFTMessage env (- 1) (heartbeat_packet env incident s) kWaitHeartbeatType False False
    (s\<lparr>ap_wx := (ap_wx s)\<lparr>wx_leader_heartbeat_index := wx_leader_heartbeat_index (ap_wx s) + 1\<rparr>\<rparr>)"
  using assms by (simp add: sendWaitHeartbeat_def heartbeat_packet_def heartbeat_def Let_def)

text \<open>The signer is the key the follower has registered for the leader.\<close>

definition link_ok :: "'d AppEnv \<Rightarrow> 'd AppEnv \<Rightarrow> bytes \<Rightarrow> bool" where
  "link_ok env env' msg \<longleftrightarrow> ev_has_key env \<and> ev_enableRollback env' \<and> ev_ticks_per_us env' = ev_ticks_per_us env \<and>
     0 < ev_ticks_per_us env \<and> ev_wait_max_deferral env' = ev_wait_max_deferral env \<and>
     length (ev_pub_key env) = CRYPTO_PUBKEY_BYTES \<and> in_i32 (cf_replicaId (ev_cfg env)) \<and>
     key_matches (ev_keys env') (cf_replicaId (ev_cfg env)) (ev_pub_key env) \<and>
     (case ev_sign env msg of None \<Rightarrow> False
      | Some sig \<Rightarrow> 0 < length sig \<and> length sig \<le> CRYPTO_SIG_MAX_BYTES \<and> ev_verify env' (ev_pub_key env) msg sig)"

lemma floor_lease:
  fixes t d u :: int
  assumes "0 < u" and "0 \<le> d"
  shows "((t + d) div u) * u - (t div u) * u \<le> d + u" and "(t div u) * u \<le> t"
    and "t + d - u < ((t + d) div u) * u"
proof -
  have a: "(t div u) * u = t - t mod u" "((t + d) div u) * u = t + d - (t + d) mod u"
    by (simp_all add: minus_mod_eq_div_mult)
  have "0 \<le> t mod u" "t mod u < u" "0 \<le> (t + d) mod u" "(t + d) mod u < u" using assms(1) by simp_all
  then show "((t + d) div u) * u - (t div u) * u \<le> d + u" "(t div u) * u \<le> t" "t + d - u < ((t + d) div u) * u"
    unfolding a by linarith+
qed


lemma ticks_time_us:
  assumes "0 < ev_ticks_per_us env" and "0 \<le> t" and "t < 2 ^ 62"
  shows "ticks_of_us env (time_us env t) = (t div ev_ticks_per_us env) * ev_ticks_per_us env"
proof -
  let ?k = "t div ev_ticks_per_us env"
  have "0 \<le> ?k" using assms by (simp add: pos_imp_zdiv_nonneg_iff)
  moreover have "?k * 1 \<le> ?k * ev_ticks_per_us env" using assms(1) calculation by (intro mult_left_mono) simp_all
  then have "?k \<le> t" using floor_lease(2) [OF assms(1), of 0 t] by simp
  ultimately have "sint (word_of_int ?k :: u64) = ?k"
    using assms(3) by (simp add: sint_sbintrunc' signed_take_bit_int_eq_self)
  then show ?thesis by (simp add: ticks_of_us_def time_us_def)
qed

lemma honest_heartbeat:
  assumes "link_ok env env' (enc_wait p)" and "p = heartbeat env incident s"
    and "wait_context_ok env' s' p" and "wait_index_fresh s' p"
    and "0 \<le> ap_now s" and "ap_now s + ev_wait_max_deferral env < 2 ^ 62"
    and "ev_ticks_per_us env \<le> ev_wait_max_deferral env"
    and "ap_now s \<le> ap_now s' + ev_wait_clock_skew env'"
    and "ap_now s' \<le> ap_now s + ev_wait_max_deferral env - ev_ticks_per_us env"
  shows "wait_accepts env' (heartbeat_packet env incident s) s' p"
    and "ticks_of_us env' (wp_validUntilSimUs p) \<le> ap_now s + ev_wait_max_deferral env"
proof -
  let ?u = "ev_ticks_per_us env" and ?d = "ev_wait_max_deferral env" and ?t = "ap_now s"
  have l: "0 < ?u" "ev_ticks_per_us env' = ?u" "ev_wait_max_deferral env' = ?d"
    using assms(1) by (simp_all add: link_ok_def)
  have us: "ticks_of_us env' x = ticks_of_us env x" for x by (simp add: ticks_of_us_def l)
  have sent: "ticks_of_us env' (wp_sentAtSimUs p) = (?t div ?u) * ?u"
    using assms(5-7) l(1) unfolding us by (simp add: assms(2) heartbeat_def ticks_time_us)
  have valid: "ticks_of_us env' (wp_validUntilSimUs p) = ((?t + ?d) div ?u) * ?u"
    using assms(5-7) l(1) unfolding us by (simp add: assms(2) heartbeat_def ticks_time_us)
  note b = floor_lease [OF l(1), of ?d ?t]
  show "ticks_of_us env' (wp_validUntilSimUs p) \<le> ?t + ?d"
    unfolding valid using floor_lease(2) [OF l(1), of "?d" "?t + ?d"] assms(7) l(1) by simp
  have grow: "(?t div ?u) * ?u < ((?t + ?d) div ?u) * ?u"
  proof -
    have "?t div ?u < (?t + ?u) div ?u" using l(1) by simp
    also have "\<dots> \<le> (?t + ?d) div ?u" using assms(7) l(1) by (intro zdiv_mono1) simp_all
    finally show ?thesis using l(1) by simp
  qed
  have lease: "wait_lease_ok env' s' p"
    unfolding wait_lease_ok_def Let_def sent valid l using b assms(7-9) grow l(1) by linarith
  obtain sig where sig: "ev_sign env (enc_wait p) = Some sig" "0 < length sig" "length sig \<le> CRYPTO_SIG_MAX_BYTES"
      "ev_verify env' (ev_pub_key env) (enc_wait p) sig"
    using assms(1) by (auto simp: link_ok_def split: option.splits)
  have ne: "enc_wait p \<noteq> []" using waitc.length_enc [of p] by (auto simp: sizeof_wait_def)
  have pkt: "heartbeat_packet env incident s = ev_pub_key env @ [of_nat (length sig)] @ sig @ enc_wait p"
    using ne sig(1) by (simp add: heartbeat_packet_def packSignedPacket_def assms(2))
  have view: "unpackSignedPacket (heartbeat_packet env incident s) =
      Some \<lparr>sp_pubKey = ev_pub_key env, sp_sig = sig, sp_resdbBytes = enc_wait p\<rparr>"
    unfolding pkt using assms(1) sig by (intro unpack_packed) (simp_all add: link_ok_def)
  have dec: "dec_wait (enc_wait p) = p"
    using waitc.dec_enc [of p "[]"] assms(1) by (simp add: assms(2) heartbeat_def link_ok_def)
  have len: "length (enc_wait p) = sizeof_wait" by (rule waitc.length_enc)
  show "wait_accepts env' (heartbeat_packet env incident s) s' p"
    unfolding wait_accepts_def
    using view dec len assms(1,3,4) sig(4) lease by (auto simp: link_ok_def assms(2) heartbeat_def)
qed


definition demo_waiting :: "int AppState" where
  "demo_waiting = (let s = initial_app sample_server in
     s\<lparr>ap_now := 1000, ap_current_epoch := 1, ap_order_vc_authoritative := True,
       ap_discovery := (ap_discovery s)\<lparr>dr_state := COMPLETE, dr_epoch := 1\<rparr>,
       ap_cx := (ap_cx s)\<lparr>cx_pending := True, cx_new_epoch := 1, cx_tombstoned_epochs := [0],
         cx_incidents := [((0, 1), \<lparr>ir_state = BLOCKING, ir_blockedCertBytes = [], ir_clearCertBytes = []\<rparr>)]\<rparr>\<rparr>)"

lemma demo_wait_checks:
  "link_ok (sample_env 0) (sample_env 1) (enc_wait (heartbeat (sample_env 0) (0, 1) demo_waiting)) \<and>
   wait_context_ok (sample_env 1) demo_waiting (heartbeat (sample_env 0) (0, 1) demo_waiting) \<and>
   wait_index_fresh demo_waiting (heartbeat (sample_env 0) (0, 1) demo_waiting)"
  by code_simp



end
