(* ===== verification/ReadyCorrect.thy ===== *)
theory ReadyCorrect
  imports OrderCorrect
begin

text \<open>
  The readiness gate: when the evaluation of ORDER readiness hands a payload to consensus, and
  what state the vehicle is in then.
\<close>

section \<open>Submissions\<close>

fun submissions :: "Call list \<Rightarrow> bytes list" where
  "submissions [] = []"
| "submissions (Call_triggerConsensus p # cs) = p # submissions cs"
| "submissions (_ # cs) = submissions cs"

lemma submissions_append [simp]: "submissions (cs @ ds) = submissions cs @ submissions ds"
  by (induction cs rule: submissions.induct) simp_all

abbreviation submitted :: "'d AppState \<Rightarrow> bytes list" where
  "submitted s \<equiv> submissions (ap_calls s)"

lemma submitted_flush [simp]: "submitted (scheduleDiscoveryTxFlush s) = submitted s"
  by (simp add: scheduleDiscoveryTxFlush_def Let_def split: list.split option.split)

lemma submitted_send [simp]: "submitted (sendBFTMessage env r p t l w s) = submitted s"
  by (simp add: sendBFTMessage_def enqueueDiscoveryTx_def air_def Let_def)

lemma submitted_wait [simp]:
  "submitted (sendWaitHeartbeat env inc s) = submitted s" "submitted (maybeSendWaitHeartbeat env s) = submitted s"
  "submitted (stopWait s) = submitted s"
  by (simp_all add: sendWaitHeartbeat_def maybeSendWaitHeartbeat_def stopWait_def Let_def split: option.split)

lemma submitted_ready [simp]:
  "submitted (armOrderSuspicionTimer env s) = submitted s" "submitted (freeze_candidate env s) = submitted s"
  "submitted (stopStopZoneCertGossip s) = submitted s" "submitted (stopCertBroadcastRetries s) = submitted s"
  "submitted (cancelArrivalCertFinalizeTimer s) = submitted s" 
  by (simp_all add: armOrderSuspicionTimer_def freeze_candidate_def stopStopZoneCertGossip_def
      stopCertBroadcastRetries_def cancelArrivalCertFinalizeTimer_def Let_def split: option.split)

section \<open>What a payload depends on\<close>

definition same_scene :: "'d AppState \<Rightarrow> 'd AppState \<Rightarrow> bool" where
  "same_scene s t \<longleftrightarrow> ap_now s = ap_now t \<and> ap_current_epoch s = ap_current_epoch t \<and> ap_cx s = ap_cx t \<and>
     ap_is_departed s = ap_is_departed t \<and> (ap_current_phase s = DEPARTED \<longleftrightarrow> ap_current_phase t = DEPARTED)"

lemma same_include: "same_scene s t \<Longrightarrow> shouldIncludeInRollbackMembership env s = shouldIncludeInRollbackMembership env t"
  by (simp add: same_scene_def shouldIncludeInRollbackMembership_def fun_eq_iff)

lemma same_entries:
  assumes "same_scene s t"
  shows "order_entries env s cand = order_entries env t cand"
proof -
  have e: "pack_eligible env r s = pack_eligible env r t" for r
    using same_include [OF assms] by (simp add: pack_eligible_def fun_eq_iff)
  have "pack_signed env r s c rk certs = pack_signed env r t c rk certs" for r c rk certs
    using assms by (induction certs) (auto simp: e Let_def same_scene_def split: option.splits)
  moreover have "pack_quiet env r s P states = pack_quiet env r t P states" for r P states
    by (induction states) (auto simp: e Let_def)
  moreover have "recovery_round s = recovery_round t" using assms by (simp add: recovery_round_def same_scene_def)
  ultimately show ?thesis by (simp add: order_entries_def)
qed

lemma same_payload:
  assumes "same_scene s t"
  shows "order_payload env s cand = order_payload env t cand"
  using same_entries [OF assms] assms
  by (simp add: order_payload_def order_hdr_def order_clear_certs_def forged_clear_def recovery_round_def same_scene_def)

section \<open>The gate\<close>

lemma submit_order_cases:
  assumes "ap_current_phase s \<noteq> DEPARTED"
  shows "submitted (submit_order env cand s) = submitted s \<or>
    submitted (submit_order env cand s) = submitted s @ [order_payload env s cand] \<and>
    order_entries env s cand \<noteq> [] \<and> ap_propose_submitted (submit_order env cand s)"
proof -
  let ?s1 = "(cancelArrivalCertFinalizeTimer (stopStopZoneCertGossip (stopCertBroadcastRetries s)))
            \<lparr>ap_propose_submitted := True, ap_current_phase := WAITING_FOR_CLEARANCE\<rparr>"
  have same: "same_scene ?s1 s"
    using assms by (simp add: same_scene_def cancelArrivalCertFinalizeTimer_def stopStopZoneCertGossip_def stopCertBroadcastRetries_def)
  have "submitted ?s1 = submitted s" by simp
  then show ?thesis
    using same_entries [OF same, of env cand] same_payload [OF same, of env cand]
    by (auto simp: submit_order_def Let_def call_def)
qed


lemma install_primary_frame:
  assumes "install_cert_primary env cand s = (ok, s1)"
  shows "\<exists>server. s1 = s\<lparr>ap_server := server\<rparr>"
proof (cases "ap_order_vc_authoritative s")
  case True
  with assms have "s1 = s\<lparr>ap_server := ap_server s\<rparr>" by (simp add: install_cert_primary_def)
  then show ?thesis ..
qed (use assms in \<open>auto simp: install_cert_primary_def split: prod.splits\<close>)

text \<open>Proposing with a candidate of the current epoch and no cancellation under way.\<close>

lemma propose_cases:
  fixes env :: "'d AppEnv" and f :: "'d AppState \<Rightarrow> 'd AppState"
  assumes "ap_order_candidate s = Some cand" and "oc_epoch cand = ap_current_epoch s"
    and "\<not> cx_consensus_pending (ap_cx s)" and "ap_current_phase s \<noteq> DEPARTED"
  defines "s' \<equiv> proposeAll_with env f s"
  shows "submitted s' = submitted s \<or>
    submitted s' = submitted s @ [order_payload env s cand] \<and> order_entries env s cand \<noteq> [] \<and>
    ap_propose_submitted s' \<and> \<not> ap_propose_submitted s \<and>
    currentOrderPrimary env s = cf_replicaId (ev_cfg env) \<and> dr_state (ap_discovery s) = COMPLETE"
proof (cases "s' = s")
  case False
  then have c: "\<not> ap_propose_submitted s" "dr_state (ap_discovery s) = COMPLETE"
      "currentOrderPrimary env s = cf_replicaId (ev_cfg env)"
      "s' = (case install_cert_primary env cand s of (False, s1) \<Rightarrow> s1 | (True, s1) \<Rightarrow> submit_order env cand s1)"
    using assms(1-3) by (auto simp: s'_def proposeAll_with_def Let_def split: if_split_asm)
  obtain ok s1 where i: "install_cert_primary env cand s = (ok, s1)" by force
  then obtain server where s1: "s1 = s\<lparr>ap_server := server\<rparr>" using install_primary_frame by blast
  have "same_scene s1 s" by (simp add: s1 same_scene_def)
  then have "order_payload env s1 cand = order_payload env s cand" "order_entries env s1 cand = order_entries env s cand"
    by (rule same_payload, rule same_entries)
  then show ?thesis
    using c i submit_order_cases [of s1 env cand] assms(4) by (cases ok) (auto simp: s1)
qed simp

definition order_ready :: "'d AppEnv \<Rightarrow> 'd AppState \<Rightarrow> OrderCandidate \<Rightarrow> bool" where
  "order_ready env s cand \<longleftrightarrow>
     \<not> ap_order_applied s \<and> \<not> ap_propose_submitted s \<and> ap_current_phase s \<noteq> DEPARTED \<and>
     \<not> cx_consensus_pending (ap_cx s) \<and> \<not> cx_cancel_initiated (ap_cx s) \<and>
     dr_state (ap_discovery s) = COMPLETE \<and> dr_epoch (ap_discovery s) = ap_current_epoch s \<and>
     (cx_pending (ap_cx s) \<longrightarrow> ap_current_epoch s = cx_new_epoch (ap_cx s) \<and>
        hasCommittedCancel s (cx_cancelled_epoch (ap_cx s)) \<and>
        \<not> hasBlockingIncidentForEpoch s (cx_cancelled_epoch (ap_cx s)) \<and>
        minRollbackMembershipSize env s \<le> int (length (oc_voterIds cand))) \<and>
     ap_order_candidate (freeze_candidate env s) = Some cand \<and> oc_epoch cand = ap_current_epoch s \<and>
     order_entries env s cand \<noteq> []"

lemma freeze_some:
  obtains cand where "freeze_candidate env s = s\<lparr>ap_order_candidate := Some cand\<rparr>" "oc_epoch cand = ap_current_epoch s"
proof (cases "ap_order_candidate s")
  case None
  have "oc_epoch (buildOrderCandidate env s) = ap_current_epoch s" by (simp add: buildOrderCandidate_def Let_def)
  then show ?thesis using None by (intro that) (simp_all add: freeze_candidate_def)
next
  case (Some c)
  show ?thesis
  proof (cases "oc_epoch c = ap_current_epoch s")
    case True
    then show ?thesis using Some by (intro that [of c]) (simp_all add: freeze_candidate_def)
  next
    case False
    have "oc_epoch (buildOrderCandidate env s) = ap_current_epoch s" by (simp add: buildOrderCandidate_def Let_def)
    then show ?thesis using Some False by (intro that) (simp_all add: freeze_candidate_def)
  qed
qed

lemma readiness_cases:
  fixes env :: "'d AppEnv" and s :: "'d AppState"
  assumes "\<not> ev_inject_fabricated_clearance env"
  defines "s' \<equiv> evaluateOrderReadiness env s"
  shows "submitted s' = submitted s \<or>
    (\<exists>cand. submitted s' = submitted s @ [order_payload env s cand] \<and> ap_propose_submitted s' \<and> order_ready env s cand)"
proof -
  let ?c = "ap_cx s" and ?propose = "proposeAll_with env (\<lambda>s. s)"
  have fab: "fabricate_clearance env p s = s" for p using assms(1) by (simp add: fabricate_clearance_def)
  show ?thesis
  proof (cases "ap_order_applied s \<or> ap_current_phase s = DEPARTED \<or> cx_consensus_pending ?c \<or> cx_cancel_initiated ?c \<or>
      dr_state (ap_discovery s) \<noteq> COMPLETE \<or> dr_epoch (ap_discovery s) \<noteq> ap_current_epoch s \<or>
      (cx_pending ?c \<and> \<not> recovery_round s) \<or> (recovery_round s \<and> \<not> hasCommittedCancel s (cx_cancelled_epoch ?c)) \<or>
      (recovery_round s \<and> hasBlockingIncidentForEpoch s (cx_cancelled_epoch ?c))")
    case True
    then have "submitted s' = submitted s"
      by (auto simp: s'_def evaluateOrderReadiness_def evaluateOrderReadiness_with_def Let_def fab)
    then show ?thesis ..
  next
    case False
    obtain cand where fr: "freeze_candidate env s = s\<lparr>ap_order_candidate := Some cand\<rparr>" "oc_epoch cand = ap_current_epoch s"
      by (rule freeze_some)
    define s1 where "s1 = s\<lparr>ap_order_candidate := Some cand\<rparr>"
    have s': "s' = elect_and_propose env ?propose cand s1"
      using False unfolding s'_def evaluateOrderReadiness_def evaluateOrderReadiness_with_def Let_def fr(1) s1_def [symmetric]
      by (auto simp: s1_def)
    obtain ok s2 where i: "install_cert_primary env cand s1 = (ok, s2)" by force
    then obtain server where s2: "s2 = s1\<lparr>ap_server := server\<rparr>" using install_primary_frame by blast
    show ?thesis
    proof (cases "\<not> (recovery_round s1 \<and> int (length (oc_voterIds cand)) < minRollbackMembershipSize env s1) \<and>
        ok \<and> currentOrderPrimary env s2 = cf_replicaId (ev_cfg env) \<and> 0 \<le> currentOrderPrimary env s2")
      case True
      define s3 where "s3 = (stopWait s2)\<lparr>ap_vc_trigger := None\<rparr>"
      have "s' = ?propose s3" using True i by (auto simp: s' elect_and_propose_def Let_def s3_def)
      moreover have "ap_order_candidate s3 = Some cand" "oc_epoch cand = ap_current_epoch s3"
          "\<not> cx_consensus_pending (ap_cx s3)" "ap_current_phase s3 \<noteq> DEPARTED"
        using False fr(2) by (simp_all add: s3_def s2 s1_def stopWait_def)
      note propose_cases [OF this, of env "\<lambda>s. s"]
      moreover have same: "same_scene s3 s" by (simp add: s3_def s2 s1_def stopWait_def same_scene_def)
      note same_payload [OF same, of env cand] same_entries [OF same, of env cand]
      moreover have "submitted s3 = submitted s" "ap_propose_submitted s3 = ap_propose_submitted s"
        by (simp_all add: s3_def s2 s1_def stopWait_def)
      moreover have "recovery_round s1 = recovery_round s" "minRollbackMembershipSize env s1 = minRollbackMembershipSize env s"
        by (simp_all add: s1_def recovery_round_def minRollbackMembershipSize_def)
      ultimately show ?thesis
        using True False fr by (auto simp: order_ready_def recovery_round_def not_less)
    next
      case False
      have "submitted s2 = submitted s" "submitted s1 = submitted s" by (simp_all add: s2 s1_def)
      moreover have "s' = s1 \<or> s' = s2 \<or> s' = armOrderSuspicionTimer env (stopWait s2)"
        using False i by (cases ok) (auto simp: s' elect_and_propose_def Let_def)
      ultimately have "submitted s' = submitted s" by auto
      then show ?thesis ..
    qed
  qed
qed

definition ready_scene :: "int AppState" where
  "ready_scene = demo_scene\<lparr>ap_discovery := (ap_discovery demo_scene)\<lparr>dr_state := COMPLETE, dr_epoch := ap_current_epoch demo_scene\<rparr>\<rparr>"

lemma ready_scene_submits: "submitted ready_scene = []" "submitted (evaluateOrderReadiness (sample_env 0) ready_scene) \<noteq> []"
  by code_simp+

text \<open>
  C12: the readiness gate is the only thing between discovery and consensus, and it is tight.
  Evaluating readiness either hands nothing to consensus, or hands it exactly one payload: the
  ORDER packed from the frozen candidate of the current epoch, with at least one entry.  In the
  second case discovery of this epoch is complete, no order was applied and none was submitted
  before, no CANCEL is being initiated or decided, and in a recovery round the CANCEL of the old
  epoch is committed, none of its incidents still blocks and the candidate is large enough.
\<close>

theorem readiness_gate:
  fixes env :: "'d AppEnv"
  assumes "\<not> ev_inject_fabricated_clearance env"
  shows "submitted (evaluateOrderReadiness env s) = submitted s \<or>
    (\<exists>cand. submitted (evaluateOrderReadiness env s) = submitted s @ [order_payload env s cand] \<and>
       ap_propose_submitted (evaluateOrderReadiness env s) \<and> order_ready env s cand)"
  by (rule readiness_cases [OF assms])

theorem readiness_gate_witness:
  "\<exists>cand. submitted (evaluateOrderReadiness (sample_env 0) ready_scene) = [order_payload (sample_env 0) ready_scene cand] \<and>
     order_ready (sample_env 0) ready_scene cand"
proof -
  have "\<not> ev_inject_fabricated_clearance (sample_env 0)" by (simp add: sample_env_def)
  note readiness_gate [OF this, of ready_scene]
  then show ?thesis using ready_scene_submits by auto
qed

end
