(* ===== verification/Relay.thy ===== *)
theory Relay
  imports Cancel "HOL-Library.Product_Lexorder"
begin

text \<open>
  Consensus traffic of one vehicle (\<^verbatim>\<open>v2vbft/app/ResDBTransport.cc\<close>): the queue of outgoing
  packets, the bounded retransmission of the own PRE-PREPARE, PREPARE and COMMIT packets
  (\<open>ConsensusRetryManager\<close>), the reception of consensus packets, and their relay to replicas out
  of range, which stops once enough authenticated carriers were heard.

  Decoding a packet and counting its verified votes belong to the consensus library; they are
  the functions \<open>ev_packet_info\<close> and \<open>ev_vote_progress\<close> of the environment. An empty carrier set
  that a lookup would create is not kept, since only the size of a set is ever read.
\<close>

section \<open>Sending\<close>

definition consensus_air :: "'d AppEnv \<Rightarrow> int \<Rightarrow> bytes \<Rightarrow> 'd AppState \<Rightarrow> 'd AppState" where
  "consensus_air env toReplicaId packet s =
     air toReplicaId kResdbConsensusMsgType packet
       (ap_now s + cf_replicaId (ev_cfg env) * ev_broadcastSlot env + ev_broadcast_jitter env (ap_draws s))
       (s\<lparr>ap_draws := Suc (ap_draws s)\<rparr>)"

definition enqueueOutbound :: "int \<Rightarrow> bytes \<Rightarrow> 'd AppState \<Rightarrow> 'd AppState" where
  "enqueueOutbound toReplicaId data s =
     (if data = [] then s
      else if ap_current_phase s = DEPARTED \<or> ap_is_departed s then s
      else if ap_crashCommsDisabled s then s
      else if list_ex (\<lambda>p. snd p = data) (rl_outbound (ap_rx s)) then s
      else s\<lparr>ap_rx := (ap_rx s)\<lparr>rl_outbound := rl_outbound (ap_rx s) @ [(toReplicaId, data)]\<rparr>\<rparr>)"

definition sendConsensusBytes :: "'d AppEnv \<Rightarrow> int \<Rightarrow> bytes \<Rightarrow> 'd AppState \<Rightarrow> 'd AppState" where
  "sendConsensusBytes env toReplicaId bytes s =
     (if bytes = [] \<or> \<not> ev_has_key env \<or> ap_current_phase s = DEPARTED then s
      else let packet = packSignedPacket (ev_sign env) (ev_pub_key env) bytes in
        if packet = [] then s else consensus_air env toReplicaId packet s)"

section \<open>Retransmission of the own packets\<close>

text \<open>Remembering a COMMIT forgets the two earlier phases of its instance.\<close>

definition retry_key :: "ResdbPacketRequestInfo \<Rightarrow> ConsensusRetryKey" where
  "retry_key info = (pi_current_view info, pi_seq info, pi_request_hash info)"

definition remember ::
  "bytes \<Rightarrow> ResdbPacketRequestInfo \<Rightarrow> (ConsensusRetryKey, (int, ConsensusRetryPacket) omap) omap \<Rightarrow>
   bool \<times> (ConsensusRetryKey, (int, ConsensusRetryPacket) omap) omap" where
  "remember bytes info instances =
     (let phases = (case om_get instances (retry_key info) of None \<Rightarrow> [] | Some ps \<Rightarrow> ps);
          kept = (if pi_type info = 5 then om_erase 4 (om_erase 3 phases) else phases)
      in if om_get kept (pi_type info) \<noteq> None then (False, om_put (retry_key info) kept instances)
         else (True, om_put (retry_key info)
           (om_put (pi_type info) \<lparr>rp_resdbBytes = bytes, rp_type = pi_type info, rp_attempts = 0\<rparr> kept) instances))"

definition arm_retry :: "'d AppEnv \<Rightarrow> 'd AppState \<Rightarrow> 'd AppState" where
  "arm_retry env s =
     (if rl_instances (ap_rx s) \<noteq> [] \<and> rl_retry_timer (ap_rx s) = None
      then s\<lparr>ap_rx := (ap_rx s)\<lparr>rl_retry_timer := Some (ap_now s + ev_consensus_retry_interval env)\<rparr>\<rparr> else s)"

definition rememberConsensusRetry :: "'d AppEnv \<Rightarrow> bytes \<Rightarrow> ResdbPacketRequestInfo \<Rightarrow> 'd AppState \<Rightarrow> 'd AppState" where
  "rememberConsensusRetry env bytes info s =
     (if \<not> pi_parse_ok info \<or> bytes = [] \<or> ev_consensus_retry_max env = 0 then s
      else if pi_type info < 3 \<or> pi_type info > 5 then s
      else if pi_sender_id info \<noteq> cf_replicaId (ev_cfg env) + 1 then s
      else arm_retry env (s\<lparr>ap_rx := (ap_rx s)\<lparr>rl_instances :=
             snd (remember bytes info (rl_instances (ap_rx s)))\<rparr>\<rparr>))"

definition configured_consensus_quorum :: "'d AppEnv \<Rightarrow> int" where
  "configured_consensus_quorum env =
     (if cf_tolerated_faults (ev_cfg env) \<ge> 0
      then bftQuorumSize (cf_total_vehicles (ev_cfg env)) (cf_tolerated_faults (ev_cfg env)) else - 1)"

text \<open>A PRE-PREPARE has done its work when enough PREPAREs are verified, a PREPARE when enough COMMITs are.\<close>

definition progressVoteType :: "int \<Rightarrow> int" where
  "progressVoteType type = (if type = 3 then 4 else if type = 4 then 5 else - 1)"

definition phase_quorum_reached :: "'d AppEnv \<Rightarrow> int \<Rightarrow> bytes \<Rightarrow> int \<Rightarrow> bool" where
  "phase_quorum_reached env now raw type =
     (let (rc, count, forcedQuorum) =
            (if progressVoteType type > 0 then ev_vote_progress env now raw (progressVoteType type) else (- 1, 0, - 1));
          quorum = (if forcedQuorum > 0 then forcedQuorum else configured_consensus_quorum env)
      in rc = 0 \<and> quorum > 0 \<and> count \<ge> quorum)"

definition retry_stops :: "'d AppEnv \<Rightarrow> int \<Rightarrow> ConsensusRetryPacket \<Rightarrow> bool" where
  "retry_stops env now p \<longleftrightarrow> phase_quorum_reached env now (rp_resdbBytes p) (rp_type p) \<or>
     (ev_consensus_retry_max env > 0 \<and> rp_attempts p \<ge> ev_consensus_retry_max env)"

text \<open>The packets sent again, with their attempts counted, and what remains.\<close>

fun retry_phases ::
  "(ConsensusRetryPacket \<Rightarrow> bool) \<Rightarrow> (int, ConsensusRetryPacket) omap \<Rightarrow>
   ConsensusRetryPacket list \<times> (int, ConsensusRetryPacket) omap" where
  "retry_phases stops [] = ([], [])"
| "retry_phases stops ((k, p) # ps) =
     (let (sends, rest) = retry_phases stops ps; p' = p\<lparr>rp_attempts := rp_attempts p + 1\<rparr>
      in if stops p then (sends, rest) else (p' # sends, (k, p') # rest))"

fun retry_instances ::
  "(ConsensusRetryPacket \<Rightarrow> bool) \<Rightarrow> (ConsensusRetryKey, (int, ConsensusRetryPacket) omap) omap \<Rightarrow>
   ConsensusRetryPacket list \<times> (ConsensusRetryKey, (int, ConsensusRetryPacket) omap) omap" where
  "retry_instances stops [] = ([], [])"
| "retry_instances stops ((k, phases) # insts) =
     (let (sends, left) = retry_phases stops phases; (sends', rest) = retry_instances stops insts
      in (sends @ sends', if left = [] then rest else (k, left) # rest))"

definition retryConsensusPackets :: "'d AppEnv \<Rightarrow> 'd AppState \<Rightarrow> 'd AppState" where
  "retryConsensusPackets env s =
     (if ap_current_phase s = DEPARTED \<or> rl_instances (ap_rx s) = [] then s
      else let (sends, left) = retry_instances (retry_stops env (ap_now s)) (rl_instances (ap_rx s));
               s1 = s\<lparr>ap_rx := (ap_rx s)\<lparr>rl_instances := left\<rparr>\<rparr>
        in arm_retry env (fold (\<lambda>p. sendConsensusBytes env (- 1) (rp_resdbBytes p)) sends s1))"

definition onConsensusRetryTimer :: "'d AppEnv \<Rightarrow> 'd AppState \<Rightarrow> 'd AppState" where
  "onConsensusRetryTimer env s = retryConsensusPackets env (s\<lparr>ap_rx := (ap_rx s)\<lparr>rl_retry_timer := None\<rparr>\<rparr>)"

section \<open>Draining the outgoing queue\<close>

definition drain_packet :: "'d AppEnv \<Rightarrow> int \<times> bytes \<Rightarrow> 'd AppState \<Rightarrow> 'd AppState" where
  "drain_packet env pkt s =
     (if snd pkt = [] \<or> \<not> ev_has_key env then s
      else let packet = packSignedPacket (ev_sign env) (ev_pub_key env) (snd pkt) in
        if packet = [] then s
        else consensus_air env (fst pkt) packet (rememberConsensusRetry env (snd pkt) (ev_packet_info env (snd pkt)) s))"

definition drainOutboundQueue :: "'d AppEnv \<Rightarrow> 'd AppState \<Rightarrow> 'd AppState" where
  "drainOutboundQueue env s =
     (if rl_outbound (ap_rx s) = [] then s
      else let s1 = s\<lparr>ap_rx := (ap_rx s)\<lparr>rl_outbound := []\<rparr>\<rparr> in
        if ap_crashCommsDisabled s1 then s1 else fold (drain_packet env) (rl_outbound (ap_rx s)) s1)"

section \<open>Relaying the packets of others\<close>

definition isConsensusRelayEligible :: "ResdbPacketRequestInfo \<Rightarrow> bool" where
  "isConsensusRelayEligible info \<longleftrightarrow> pi_parse_ok info \<and> (pi_type info = 3 \<or> pi_type info = 4 \<or> pi_type info = 5)"

definition consensusRelayKey :: "'d AppEnv \<Rightarrow> bytes \<Rightarrow> ResdbPacketRequestInfo \<Rightarrow> string" where
  "consensusRelayKey env data info =
     to_string (pi_type info) @ CHR '':'' # to_string (uint (pi_current_view info)) @ CHR '':'' #
     to_string (uint (pi_seq info)) @ CHR '':'' # to_string (pi_sender_id info) @ CHR '':'' # toHex (ev_hash env data)"

definition consensusRelayCarrierThreshold :: "'d AppEnv \<Rightarrow> int" where
  "consensusRelayCarrierThreshold env =
     (let f = (if cf_tolerated_faults (ev_cfg env) \<ge> 0 then cf_tolerated_faults (ev_cfg env)
            else max 0 ((cf_total_vehicles (ev_cfg env) - 1) div 3))
      in max 1 (min (ev_relay_carrier_cap env) (f + 1)))"

definition consensusRelayRank :: "'d AppEnv \<Rightarrow> ResdbPacketRequestInfo \<Rightarrow> int" where
  "consensusRelayRank env info =
     (let n = max 1 (cf_total_vehicles (ev_cfg env));
          original = (if pi_sender_id info > 0 then pi_sender_id info - 1 else 0)
      in (cf_replicaId (ev_cfg env) - original - 1 + n) smod n)"

definition consensusRelayCarrierIsAuthenticated :: "'d AppEnv \<Rightarrow> int \<Rightarrow> bytes \<Rightarrow> bool" where
  "consensusRelayCarrierIsAuthenticated env carrier pubKey \<longleftrightarrow>
     0 \<le> carrier \<and> carrier < cf_total_vehicles (ev_cfg env) \<and> key_matches (ev_keys env) carrier pubKey"

definition relay_carriers :: "'d AppState \<Rightarrow> string \<Rightarrow> int list" where
  "relay_carriers s key = (case om_get (rl_carriers (ap_rx s)) key of None \<Rightarrow> [] | Some cs \<Rightarrow> cs)"

fun earliest_relay :: "int \<Rightarrow> (string, PendingConsensusRelay) omap \<Rightarrow> int" where
  "earliest_relay t [] = t"
| "earliest_relay t ((k, p) # ps) = earliest_relay (if pc_fireTime p < t then pc_fireTime p else t) ps"

definition scheduleConsensusRelayFlush :: "'d AppState \<Rightarrow> 'd AppState" where
  "scheduleConsensusRelayFlush s =
     (case rl_pending (ap_rx s) of [] \<Rightarrow> s
      | p # ps \<Rightarrow> let next = earliest_relay (pc_fireTime (snd p)) (p # ps) in
          (case rl_timer (ap_rx s) of
             Some t \<Rightarrow> if t \<le> next then s else s\<lparr>ap_rx := (ap_rx s)\<lparr>rl_timer := Some next\<rparr>\<rparr>
           | None \<Rightarrow> s\<lparr>ap_rx := (ap_rx s)\<lparr>rl_timer := Some next\<rparr>\<rparr>))"

definition observeConsensusRelayCarrier :: "'d AppEnv \<Rightarrow> string \<Rightarrow> int \<Rightarrow> 'd AppState \<Rightarrow> 'd AppState" where
  "observeConsensusRelayCarrier env key carrier s =
     (if key = [] \<or> carrier < 0 then s
      else if \<not> os_new carrier (relay_carriers s key) then s
      else let s1 = s\<lparr>ap_rx := (ap_rx s)\<lparr>rl_carriers :=
                 om_put key (os_insert carrier (relay_carriers s key)) (rl_carriers (ap_rx s))\<rparr>\<rparr>
        in if int (length (relay_carriers s1 key)) < consensusRelayCarrierThreshold env then s1
           else if om_get (rl_pending (ap_rx s1)) key = None then s1
           else scheduleConsensusRelayFlush (s1\<lparr>ap_rx := (ap_rx s1)\<lparr>
             rl_pending := om_erase key (rl_pending (ap_rx s1)), rl_timer := None\<rparr>\<rparr>))"

definition consensusRelayPhaseComplete :: "'d AppEnv \<Rightarrow> int \<Rightarrow> bytes \<Rightarrow> ResdbPacketRequestInfo \<Rightarrow> bool" where
  "consensusRelayPhaseComplete env now raw info \<longleftrightarrow>
     \<not> (progressVoteType (pi_type info) < 0 \<or> raw = []) \<and> phase_quorum_reached env now raw (pi_type info)"

definition scheduleConsensusRelay ::
  "'d AppEnv \<Rightarrow> string \<Rightarrow> bytes \<Rightarrow> ResdbPacketRequestInfo \<Rightarrow> u32 \<Rightarrow> 'd AppState \<Rightarrow> 'd AppState" where
  "scheduleConsensusRelay env key data info relayEpoch s =
     (if key = [] \<or> data = [] \<or> om_get (rl_pending (ap_rx s)) key \<noteq> None then s
      else if (if pi_sender_id info > 0 then pi_sender_id info - 1 else - 1) = cf_replicaId (ev_cfg env) then s
      else if int (length (relay_carriers s key)) \<ge> consensusRelayCarrierThreshold env then s
      else let rank = consensusRelayRank env info;
               delay = max 0 (ev_relay_base_delay env + rank * ev_relay_slot env)
        in scheduleConsensusRelayFlush (s\<lparr>ap_rx := (ap_rx s)\<lparr>rl_pending := om_put key
             \<lparr>pc_raw = data, pc_info = info, pc_fireTime = ap_now s + delay, pc_relayEpoch = relayEpoch,
               pc_rank = rank\<rparr> (rl_pending (ap_rx s))\<rparr>\<rparr>))"

definition relay_stops :: "'d AppEnv \<Rightarrow> 'd AppState \<Rightarrow> string \<Rightarrow> PendingConsensusRelay \<Rightarrow> bool" where
  "relay_stops env s key p \<longleftrightarrow>
     int (length (relay_carriers s key)) \<ge> consensusRelayCarrierThreshold env \<or>
     ap_current_phase s = DEPARTED \<or> ap_crashCommsDisabled s \<or> pc_relayEpoch p < ap_current_epoch s \<or>
     consensusRelayPhaseComplete env (ap_now s) (pc_raw p) (pc_info p)"

definition flush_relay :: "'d AppEnv \<Rightarrow> string \<times> PendingConsensusRelay \<Rightarrow> 'd AppState \<Rightarrow> 'd AppState" where
  "flush_relay env kp s =
     (let (key, p) = kp in
      if relay_stops env s key p then s
      else let packet = packSignedPacket (ev_sign env) (ev_pub_key env) (serializeConsensusRelay (pc_relayEpoch p) (pc_raw p))
        in if packet = [] then s else sendBFTMessageNow (- 1) packet kResdbConsensusRelayType s)"

definition flushDueConsensusRelays :: "'d AppEnv \<Rightarrow> 'd AppState \<Rightarrow> 'd AppState" where
  "flushDueConsensusRelays env s =
     (let due = filter (\<lambda>kp. pc_fireTime (snd kp) \<le> ap_now s) (rl_pending (ap_rx s));
          s1 = s\<lparr>ap_rx := (ap_rx s)\<lparr>rl_pending := filter (\<lambda>kp. \<not> pc_fireTime (snd kp) \<le> ap_now s) (rl_pending (ap_rx s))\<rparr>\<rparr>
      in scheduleConsensusRelayFlush (fold (flush_relay env) due s1))"

definition onConsensusRelayTimer :: "'d AppEnv \<Rightarrow> 'd AppState \<Rightarrow> 'd AppState" where
  "onConsensusRelayTimer env s = flushDueConsensusRelays env (s\<lparr>ap_rx := (ap_rx s)\<lparr>rl_timer := None\<rparr>\<rparr>)"

definition maybeRelayResdbConsensusBytes ::
  "'d AppEnv \<Rightarrow> bytes \<Rightarrow> ResdbPacketRequestInfo \<Rightarrow> u32 \<Rightarrow> 'd AppState \<Rightarrow> 'd AppState" where
  "maybeRelayResdbConsensusBytes env data info relayEpoch s =
     (if \<not> ev_gossip_enabled env \<or> ap_current_phase s = DEPARTED \<or> data = [] then s
      else if \<not> isConsensusRelayEligible info then s
      else let key = consensusRelayKey env data info in
        if \<not> os_new key (rl_seen (ap_rx s)) then s
        else scheduleConsensusRelay env key data info relayEpoch
          (s\<lparr>ap_rx := (ap_rx s)\<lparr>rl_seen := os_insert key (rl_seen (ap_rx s))\<rparr>\<rparr>))"

section \<open>Receiving\<close>

definition handleResdbConsensusMessage :: "'d AppEnv \<Rightarrow> int \<Rightarrow> int \<Rightarrow> bytes \<Rightarrow> 'd AppState \<Rightarrow> 'd AppState" where
  "handleResdbConsensusMessage env from_id to_id payload s =
     (if to_id \<noteq> - 1 \<and> to_id \<noteq> cf_replicaId (ev_cfg env) then s
      else if payload = [] then s
      else case unpackSignedPacket payload of None \<Rightarrow> s
      | Some view \<Rightarrow>
          if sp_resdbBytes view = [] then s
          else if \<not> ev_verify env (sp_pubKey view) (sp_resdbBytes view) (sp_sig view) then s
          else let primary = ResdbOmnetGetPrimary (ap_server s);
                   s1 = (if primary \<ge> 0 \<and> from_id = primary then stopCertBroadcastRetries s else s);
                   s2 = call (Call_deliverPacket from_id (sp_resdbBytes view)) s1
            in maybeRelayResdbConsensusBytes env (sp_resdbBytes view) (ev_packet_info env (sp_resdbBytes view))
                 (ap_current_epoch s2) s2)"

definition deliver_relayed ::
  "'d AppEnv \<Rightarrow> int \<Rightarrow> u32 \<Rightarrow> bytes \<Rightarrow> ResdbPacketRequestInfo \<Rightarrow> 'd AppState \<Rightarrow> 'd AppState" where
  "deliver_relayed env carrier epoch raw info s =
     maybeRelayResdbConsensusBytes env raw info epoch
       (call (Call_deliverPacket (if pi_sender_id info > 0 then pi_sender_id info - 1 else carrier) raw) s)"

definition handleResdbConsensusRelay :: "'d AppEnv \<Rightarrow> int \<Rightarrow> bytes \<Rightarrow> 'd AppState \<Rightarrow> 'd AppState" where
  "handleResdbConsensusRelay env carrier payload s =
     (if payload = [] then s
      else case unpackSignedPacket payload of None \<Rightarrow> s
      | Some view \<Rightarrow>
          if sp_resdbBytes view = [] then s
          else if \<not> consensusRelayCarrierIsAuthenticated env carrier (sp_pubKey view) \<or>
             \<not> ev_verify env (sp_pubKey view) (sp_resdbBytes view) (sp_sig view) then s
          else case parseConsensusRelay (sp_resdbBytes view) of None \<Rightarrow> s
          | Some (epoch, raw) \<Rightarrow>
              if sint epoch < sint (ap_current_epoch s) then s
              else let info = ev_packet_info env raw; key = consensusRelayKey env raw info in
                if \<not> isConsensusRelayEligible info then s
                else let s1 = observeConsensusRelayCarrier env key carrier s in
                  if key \<in> set (rl_seen (ap_rx s1)) then s1
                  else deliver_relayed env carrier epoch raw info s1)"

end
