(* ===== verification/RelayCorrect.thy ===== *)
theory RelayCorrect
  imports Relay
begin

text \<open>
  Consensus traffic: retransmission of the own packets ends within a fixed number of ticks and
  a fixed number of frames, and the relay duty for the packets of others rotates without two
  replicas sharing a slot.
\<close>

section \<open>Retransmission\<close>

definition packets :: "(ConsensusRetryKey, (int, ConsensusRetryPacket) omap) omap \<Rightarrow> ConsensusRetryPacket list" where
  "packets insts = concat (map (\<lambda>(k, phases). map snd phases) insts)"

abbreviation bump :: "ConsensusRetryPacket \<Rightarrow> ConsensusRetryPacket" where
  "bump p \<equiv> p\<lparr>rp_attempts := rp_attempts p + 1\<rparr>"

lemma retry_phases_eq:
  "retry_phases stops ps = (map bump (filter (\<lambda>p. \<not> stops p) (map snd ps)), snd (retry_phases stops ps))"
  "map snd (snd (retry_phases stops ps)) = map bump (filter (\<lambda>p. \<not> stops p) (map snd ps))"
  by (induction stops ps rule: retry_phases.induct) (simp_all add: Let_def case_prod_beta prod_eq_iff)

lemma retry_instances_eq:
  "fst (retry_instances stops insts) = map bump (filter (\<lambda>p. \<not> stops p) (packets insts))"
  "packets (snd (retry_instances stops insts)) = map bump (filter (\<lambda>p. \<not> stops p) (packets insts))"
  "[] \<notin> snd ` set (snd (retry_instances stops insts))"
proof (induction stops insts rule: retry_instances.induct)
  case (2 stops k phases insts)
  obtain sends left where r: "retry_phases stops phases = (sends, left)" by force
  have e: "sends = map bump (filter (\<lambda>p. \<not> stops p) (map snd phases))" "map snd left = sends"
    using retry_phases_eq [of stops phases] r by auto
  {
    case 1
    then show ?case using 2 r e by (simp add: packets_def case_prod_beta)
  next
    case 2
    then show ?case using "2.IH" r e by (auto simp: packets_def case_prod_beta)
  next
    case 3
    then show ?case using "2.IH" r by (auto simp: case_prod_beta)
  }
qed (simp_all add: packets_def)

lemma no_packets: "packets insts = [] \<Longrightarrow> [] \<notin> snd ` set insts \<Longrightarrow> insts = []"
  by (cases insts) (auto simp: packets_def)

text \<open>How many frames the kept packets may still cost.\<close>

definition budget :: "'d AppEnv \<Rightarrow> ConsensusRetryPacket list \<Rightarrow> nat" where
  "budget env ps = sum_list (map (\<lambda>p. nat (ev_consensus_retry_max env - rp_attempts p)) ps)"

lemma budget_pays:
  assumes "\<forall>p \<in> set ps. \<not> stops p \<longrightarrow> rp_attempts p < ev_consensus_retry_max env"
  shows "length (filter (\<lambda>p. \<not> stops p) ps) + budget env (map bump (filter (\<lambda>p. \<not> stops p) ps)) \<le> budget env ps"
  using assms by (induction ps) (auto simp: budget_def)

fun consensus_frames :: "Call list \<Rightarrow> nat" where
  "consensus_frames [] = 0"
| "consensus_frames (Call_airTx r t p a # cs) = (if t = kResdbConsensusMsgType then 1 else 0) + consensus_frames cs"
| "consensus_frames (_ # cs) = consensus_frames cs"

lemma consensus_frames_append [simp]: "consensus_frames (cs @ ds) = consensus_frames cs + consensus_frames ds"
  by (induction cs rule: consensus_frames.induct) simp_all

lemma send_frames:
  "consensus_frames (ap_calls (sendConsensusBytes env r p s)) \<le> consensus_frames (ap_calls s) + 1"
  "ap_rx (sendConsensusBytes env r p s) = ap_rx s" "ap_now (sendConsensusBytes env r p s) = ap_now s"
  "ap_current_phase (sendConsensusBytes env r p s) = ap_current_phase s"
  by (auto simp: sendConsensusBytes_def consensus_air_def air_def Let_def)

abbreviation resend :: "'d AppEnv \<Rightarrow> ConsensusRetryPacket list \<Rightarrow> 'd AppState \<Rightarrow> 'd AppState" where
  "resend env \<equiv> fold (\<lambda>p. sendConsensusBytes env (- 1) (rp_resdbBytes p))"

lemma fold_send_frames:
  "ap_rx (resend env ps s) = ap_rx s" "ap_current_phase (resend env ps s) = ap_current_phase s"
  by (induction ps arbitrary: s) (simp_all add: send_frames)

lemma fold_send_count: "consensus_frames (ap_calls (resend env ps s)) \<le> consensus_frames (ap_calls s) + length ps"
proof (induction ps arbitrary: s)
  case (Cons p ps)
  show ?case
    using Cons [of "sendConsensusBytes env (- 1) (rp_resdbBytes p) s"] send_frames(1) [of env "- 1" "rp_resdbBytes p" s] by simp
qed simp

text \<open>One tick on the kept packets, the frames and the phase of the vehicle.\<close>

lemma tick:
  fixes s :: "'d AppState" and env :: "'d AppEnv"
  assumes "ap_current_phase s \<noteq> DEPARTED"
  defines "t \<equiv> onConsensusRetryTimer env s" and "ps \<equiv> packets (rl_instances (ap_rx s))"
  obtains now where "packets (rl_instances (ap_rx t)) = map bump (filter (\<lambda>p. \<not> retry_stops env now p) ps)"
    and "consensus_frames (ap_calls t) \<le> consensus_frames (ap_calls s) + length (filter (\<lambda>p. \<not> retry_stops env now p) ps)"
    and "ap_current_phase t \<noteq> DEPARTED" and "[] \<notin> snd ` set (rl_instances (ap_rx t))"
proof (cases "rl_instances (ap_rx s) = []")
  case True
  then show thesis
    using assms(1) by (intro that) (simp_all add: t_def ps_def onConsensusRetryTimer_def retryConsensusPackets_def packets_def)
next
  case False
  let ?r = "retry_instances (retry_stops env (ap_now s)) (rl_instances (ap_rx s))"
  define s1 where "s1 = s\<lparr>ap_rx := (ap_rx s)\<lparr>rl_retry_timer := None, rl_instances := snd ?r\<rparr>\<rparr>"
  have t: "t = arm_retry env (fold (\<lambda>p. sendConsensusBytes env (- 1) (rp_resdbBytes p)) (fst ?r) s1)"
    using False assms(1) by (simp add: t_def onConsensusRetryTimer_def retryConsensusPackets_def Let_def case_prod_beta s1_def)
  have arm: "rl_instances (ap_rx (arm_retry env r)) = rl_instances (ap_rx r)" "ap_calls (arm_retry env r) = ap_calls r"
    "ap_current_phase (arm_retry env r) = ap_current_phase r" for r
    by (simp_all add: arm_retry_def)
  show thesis
  proof (rule that [of "ap_now s"])
    show "packets (rl_instances (ap_rx t)) = map bump (filter (\<lambda>p. \<not> retry_stops env (ap_now s) p) ps)"
      by (simp add: t arm fold_send_frames s1_def retry_instances_eq ps_def)
    show "consensus_frames (ap_calls t) \<le> consensus_frames (ap_calls s) + length (filter (\<lambda>p. \<not> retry_stops env (ap_now s) p) ps)"
      using fold_send_count [of env "fst ?r" s1] by (simp add: t arm s1_def retry_instances_eq(1) ps_def)
    show "ap_current_phase t \<noteq> DEPARTED" using assms(1) by (simp add: t arm fold_send_frames s1_def)
    show "[] \<notin> snd ` set (rl_instances (ap_rx t))" by (simp add: t arm fold_send_frames s1_def retry_instances_eq(3))
  qed
qed

lemma ticks:
  fixes s :: "'d AppState" and env :: "'d AppEnv"
  assumes "ap_current_phase s \<noteq> DEPARTED" and "0 < ev_consensus_retry_max env"
  defines "t k \<equiv> (onConsensusRetryTimer env ^^ k) s"
  shows "ap_current_phase (t k) \<noteq> DEPARTED \<and>
    consensus_frames (ap_calls (t k)) + budget env (packets (rl_instances (ap_rx (t k)))) \<le>
      consensus_frames (ap_calls s) + budget env (packets (rl_instances (ap_rx s))) \<and>
    ((\<forall>p \<in> set (packets (rl_instances (ap_rx s))). 0 \<le> rp_attempts p) \<longrightarrow>
      (\<forall>p \<in> set (packets (rl_instances (ap_rx (t k)))). int k \<le> rp_attempts p \<and> rp_attempts p \<le> ev_consensus_retry_max env \<or> k = 0))"
proof (induction k)
  case 0
  then show ?case using assms(1) by (simp add: t_def)
next
  case (Suc k)
  let ?ps = "packets (rl_instances (ap_rx (t k)))"
  have "ap_current_phase (t k) \<noteq> DEPARTED" using Suc by simp
  then obtain now where n: "packets (rl_instances (ap_rx (t (Suc k)))) = map bump (filter (\<lambda>p. \<not> retry_stops env now p) ?ps)"
      "consensus_frames (ap_calls (t (Suc k))) \<le> consensus_frames (ap_calls (t k)) + length (filter (\<lambda>p. \<not> retry_stops env now p) ?ps)"
      "ap_current_phase (t (Suc k)) \<noteq> DEPARTED"
    by (rule tick [of "t k" env]) (simp add: t_def)
  have go: "\<forall>p \<in> set ?ps. \<not> retry_stops env now p \<longrightarrow> rp_attempts p < ev_consensus_retry_max env"
    using assms(2) by (simp add: retry_stops_def)
  have "length (filter (\<lambda>p. \<not> retry_stops env now p) ?ps) + budget env (packets (rl_instances (ap_rx (t (Suc k))))) \<le> budget env ?ps"
    unfolding n(1) by (rule budget_pays [OF go])
  moreover have "(\<forall>p \<in> set (packets (rl_instances (ap_rx s))). 0 \<le> rp_attempts p) \<longrightarrow>
      (\<forall>p \<in> set (packets (rl_instances (ap_rx (t (Suc k))))). int (Suc k) \<le> rp_attempts p \<and> rp_attempts p \<le> ev_consensus_retry_max env)"
    unfolding n(1) using Suc go by (cases k) (auto simp: t_def)
  ultimately show ?case using n(2,3) Suc by auto
qed

text \<open>
  C27: retransmission of consensus packets ends. With a bound \<open>m\<close> on the attempts, the retry
  timer sends at most as many frames as the kept packets have attempts left, however often it
  fires, and after \<open>m + 1\<close> firings nothing is kept, whether or not the other replicas answer.
\<close>

theorem retransmission_ends:
  assumes "ap_current_phase s \<noteq> DEPARTED" and "0 < ev_consensus_retry_max env"
    and "\<forall>p \<in> set (packets (rl_instances (ap_rx s))). 0 \<le> rp_attempts p"
  shows "consensus_frames (ap_calls ((onConsensusRetryTimer env ^^ k) s)) \<le>
      consensus_frames (ap_calls s) + budget env (packets (rl_instances (ap_rx s))) \<and>
    rl_instances (ap_rx ((onConsensusRetryTimer env ^^ (nat (ev_consensus_retry_max env) + 1)) s)) = []"
proof
  show "consensus_frames (ap_calls ((onConsensusRetryTimer env ^^ k) s)) \<le>
      consensus_frames (ap_calls s) + budget env (packets (rl_instances (ap_rx s)))"
    using ticks [OF assms(1,2), of k] by simp
next
  let ?m = "nat (ev_consensus_retry_max env)"
  let ?t = "(onConsensusRetryTimer env ^^ ?m) s"
  have m: "\<forall>p \<in> set (packets (rl_instances (ap_rx ?t))). ev_consensus_retry_max env \<le> rp_attempts p"
    using ticks [OF assms(1,2), of ?m] assms(2,3) by auto
  have "ap_current_phase ?t \<noteq> DEPARTED" using ticks [OF assms(1,2), of ?m] by simp
  then obtain now where n: "packets (rl_instances (ap_rx (onConsensusRetryTimer env ?t))) =
        map bump (filter (\<lambda>p. \<not> retry_stops env now p) (packets (rl_instances (ap_rx ?t))))"
      "[] \<notin> snd ` set (rl_instances (ap_rx (onConsensusRetryTimer env ?t)))"
    by (rule tick)
  have "packets (rl_instances (ap_rx (onConsensusRetryTimer env ?t))) = []"
    unfolding n(1) using m assms(2) by (auto simp: retry_stops_def filter_empty_conv)
  then show "rl_instances (ap_rx ((onConsensusRetryTimer env ^^ (?m + 1)) s)) = []"
    using no_packets [OF _ n(2)] by simp
qed

text \<open>Vehicle 0 has sent a PRE-PREPARE.\<close>

definition sending_scene :: "int AppState" where
  "sending_scene = drainOutboundQueue (sample_env 0) (enqueueOutbound (- 1) [3, 1, 1] (initial_app sample_server))"

theorem retransmission_ends_witness:
  "rl_instances (ap_rx sending_scene) \<noteq> [] \<and>
   rl_instances (ap_rx ((onConsensusRetryTimer (sample_env 0) ^^ 9) sending_scene)) = []"
proof -
  have h: "ap_current_phase sending_scene \<noteq> DEPARTED" "0 < ev_consensus_retry_max (sample_env 0)"
    "\<forall>p \<in> set (packets (rl_instances (ap_rx sending_scene))). 0 \<le> rp_attempts p"
    "nat (ev_consensus_retry_max (sample_env 0)) + 1 = 9" "rl_instances (ap_rx sending_scene) \<noteq> []"
    by code_simp+
  show ?thesis using retransmission_ends [OF h(1-3), unfolded h(4)] h(5) by simp
qed

section \<open>The duty to relay\<close>

lemma smod_nonneg: "0 \<le> a \<Longrightarrow> 0 < n \<Longrightarrow> a smod n = (a :: int) mod n"
  by (simp add: signed_modulo_int_def sgn_if)

lemma rank_cases:
  assumes "0 \<le> cf_replicaId (ev_cfg env)" and "cf_replicaId (ev_cfg env) < cf_total_vehicles (ev_cfg env)"
    and "1 \<le> pi_sender_id info" and "pi_sender_id info \<le> cf_total_vehicles (ev_cfg env)"
  shows "consensusRelayRank env info = cf_replicaId (ev_cfg env) - pi_sender_id info +
    (if pi_sender_id info \<le> cf_replicaId (ev_cfg env) then 0 else cf_total_vehicles (ev_cfg env))"
proof -
  let ?r = "cf_replicaId (ev_cfg env)" and ?n = "cf_total_vehicles (ev_cfg env)" and ?s = "pi_sender_id info"
  have "(?r - ?s + ?n) mod ?n = ?r - ?s + (if ?s \<le> ?r then 0 else ?n)"
  proof (cases "?s \<le> ?r")
    case False
    then have "(?r - ?s + ?n) mod ?n = ?r - ?s + ?n" using assms by (intro mod_pos_pos_trivial) simp_all
    then show ?thesis using False by (simp del: mod_add_self2)
  qed (use assms in \<open>simp add: mod_pos_pos_trivial\<close>)
  then show ?thesis using assms by (simp add: consensusRelayRank_def smod_nonneg)
qed

text \<open>
  The duty to relay a packet rotates around its sender. Every replica has a rank of its
  own, its distance after the sender, so no two replicas are due in the same slot; the next
  replica comes first and the sender itself last.
\<close>

theorem relay_duty_rotates:
  fixes env env' :: "'d AppEnv"
  defines "n \<equiv> cf_total_vehicles (ev_cfg env)" and "r \<equiv> cf_replicaId (ev_cfg env)" and "r' \<equiv> cf_replicaId (ev_cfg env')"
  assumes "cf_total_vehicles (ev_cfg env') = n" and "0 \<le> r" and "r < n" and "0 \<le> r'" and "r' < n"
    and "1 \<le> pi_sender_id info" and "pi_sender_id info \<le> n"
  shows "0 \<le> consensusRelayRank env info \<and> consensusRelayRank env info < n \<and>
    (consensusRelayRank env info = consensusRelayRank env' info \<longleftrightarrow> r = r') \<and>
    (pi_sender_id info + consensusRelayRank env info) mod n = r \<and>
    (consensusRelayRank env info = n - 1 \<longleftrightarrow> r = pi_sender_id info - 1)"
proof -
  have "consensusRelayRank env info = r - pi_sender_id info + (if pi_sender_id info \<le> r then 0 else n)"
    "consensusRelayRank env' info = r' - pi_sender_id info + (if pi_sender_id info \<le> r' then 0 else n)"
    using rank_cases [of env info] rank_cases [of env' info] assms by simp_all
  then show ?thesis using assms(5-10) by auto
qed

theorem relay_duty_rotates_witness:
  "map (\<lambda>r. consensusRelayRank (sample_env r) (sample_packet_info [3, 1, 2])) [0, 1, 2, 3] = [2, 3, 0, 1] \<and>
   consensusRelayRank (sample_env 0) (sample_packet_info [3, 1, 2]) \<noteq> consensusRelayRank (sample_env 3) (sample_packet_info [3, 1, 2])"
proof -
  let ?i = "sample_packet_info [3, 1, 2]"
  have "map (\<lambda>r. consensusRelayRank (sample_env r) ?i) [0, 1, 2, 3] = [2, 3, 0, 1]" by code_simp
  moreover have "consensusRelayRank (sample_env 0) ?i \<noteq> consensusRelayRank (sample_env 3) ?i"
    using relay_duty_rotates [of "sample_env 3" "sample_env 0" ?i] by (simp add: sample_env_def sample_config_def sample_packet_info_def)
  ultimately show ?thesis ..
qed

end
