(* ===== verification/Clear.thy ===== *)
theory Clear
  imports Order
begin

text \<open>
  The CLEAR protocol (\<^verbatim>\<open>v2vbft/app/ResDBRollbackProtocol.cc\<close>, timers in
  \<^verbatim>\<open>ResDBIntersectionApp.cc\<close>): echoing an empty conflict box, assembling a certificate, the
  ranked delay before broadcasting or relaying it, carriers and their confirmation, and the
  transition of an incident to CLEARED.
\<close>

section \<open>Who propagates, and in which order\<close>

definition clear_key :: "u32 \<Rightarrow> u32 \<Rightarrow> string" where
  "clear_key epoch batch = collectorKey (clear_statement epoch batch)"

definition clearSemanticKey :: "u32 \<Rightarrow> u32 \<Rightarrow> string" where
  "clearSemanticKey cancelledEpoch executingBatch =
     ''CLEAR:'' @ to_string (uint cancelledEpoch) @ CHR '':'' # to_string (uint executingBatch)"

definition clearPropagationMembers :: "'d AppEnv \<Rightarrow> 'd AppState \<Rightarrow> int list" where
  "clearPropagationMembers env s =
     (let certified = remdups_adj (sort (filter (\<lambda>rid. 0 \<le> rid \<and> shouldIncludeInRollbackMembership env s rid)
            (map extractReplicaId (om_keys (ap_collected_certs s)))))
      in if certified = []
         then filter (shouldIncludeInRollbackMembership env s) [0..cf_total_vehicles (ev_cfg env) - 1]
         else certified)"

definition position :: "int \<Rightarrow> int list \<Rightarrow> int" where
  "position x xs = (if x \<in> set xs then int (length (takeWhile (\<lambda>y. y \<noteq> x) xs)) else - 1)"

definition clearPropagationRank :: "'d AppEnv \<Rightarrow> 'd AppState \<Rightarrow> int" where
  "clearPropagationRank env s =
     (let members = clearPropagationMembers env s; primary = CertPrimary env s;
          ordered = (if primary \<ge> 0 \<and> primary \<in> set members then primary # remove1 primary members else members)
      in position (cf_replicaId (ev_cfg env)) ordered)"

definition clearCarrierIsActiveMember :: "'d AppEnv \<Rightarrow> 'd AppState \<Rightarrow> int \<Rightarrow> bool" where
  "clearCarrierIsActiveMember env s replicaId \<longleftrightarrow> replicaId \<in> set (clearPropagationMembers env s)"

definition clearPropagationThreshold :: "'d AppEnv \<Rightarrow> int" where
  "clearPropagationThreshold env = cert_fault_bound (ev_cfg env) + 1"

definition clearPropagationConfirmed :: "'d AppEnv \<Rightarrow> 'd AppState \<Rightarrow> string \<Rightarrow> bool" where
  "clearPropagationConfirmed env s key = propagation_confirmed (lx_tracker (ap_lx s)) key (clearPropagationThreshold env)"

definition incident_cleared :: "'d AppState \<Rightarrow> u32 \<times> u32 \<Rightarrow> bool" where
  "incident_cleared s k =
     (case om_get (cx_incidents (ap_cx s)) k of None \<Rightarrow> False | Some r \<Rightarrow> ir_state r = CLEARED)"

definition clear_resolved :: "'d AppState \<Rightarrow> u32 \<Rightarrow> u32 \<Rightarrow> bool" where
  "clear_resolved s epoch batch \<longleftrightarrow> incident_cleared s (epoch, batch) \<or>
     clear_key epoch batch \<in> set (lx_cert_seen (ap_lx s)) \<or> clear_key epoch batch \<in> set (lx_candidate_keys (ap_lx s))"

section \<open>Echoes\<close>

definition sendClearEcho :: "'d AppEnv \<Rightarrow> u32 \<Rightarrow> u32 \<Rightarrow> 'd AppState \<Rightarrow> 'd AppState" where
  "sendClearEcho env cancelledEpoch executingBatch s =
     (if \<not> ev_enableRollback env \<or> \<not> ev_has_key env then s
      else if clear_resolved s cancelledEpoch executingBatch then s
      else let stmt = clear_statement cancelledEpoch executingBatch; key = collectorKey stmt;
               me = cf_replicaId (ev_cfg env)
        in if \<not> os_new key (lx_echo_sent (ap_lx s)) then s
           else let s1 = s\<lparr>ap_lx := (ap_lx s)\<lparr>lx_echo_sent := os_insert key (lx_echo_sent (ap_lx s))\<rparr>\<rparr> in
             case ev_sign env (to_bytes (signPayload stmt me)) of None \<Rightarrow> s1
             | Some sig \<Rightarrow>
                 let echo = \<lparr>le_echoingReplicaId = me, le_cancelledEpoch = cancelledEpoch,
                       le_executingBatch = executingBatch, le_signerPubKey = ev_pub_key env,
                       le_signature = fst (store_signature sig), le_signatureLen = snd (store_signature sig)\<rparr>;
                     s2 = sendBFTMessage env (- 1) (serializeClearEcho echo) kClearEchoType False False s1
                 in s2\<lparr>ap_lx := (ap_lx s2)\<lparr>lx_echo_collector :=
                      snd (collector_add stmt (clearToWitnessEcho echo) (lx_echo_collector (ap_lx s2)))\<rparr>\<rparr>)"

definition scheduleClearCertCandidate :: "'d AppEnv \<Rightarrow> ClearCert \<Rightarrow> 'd AppState \<Rightarrow> 'd AppState" where
  "scheduleClearCertCandidate env cert s =
     (if \<not> ev_enableRollback env \<or> lc_echoes cert = [] then s
      else let key = clear_key (lc_cancelledEpoch cert) (lc_executingBatch cert); rank = clearPropagationRank env s in
        if key \<in> set (lx_cert_seen (ap_lx s)) \<or> key \<in> set (lx_candidate_keys (ap_lx s)) then s
        else if rank < 0 then s
        else s\<lparr>ap_lx := (ap_lx s)\<lparr>lx_candidate_keys := os_insert key (lx_candidate_keys (ap_lx s)),
          lx_candidate := cert, lx_candidate_key := clearSemanticKey (lc_cancelledEpoch cert) (lc_executingBatch cert),
          lx_candidate_rank := rank,
          lx_candidate_timer := Some (ap_now s + rank * max 0 (ev_clear_candidate_slot env))\<rparr>\<rparr>)"

definition clear_cert_of_bucket :: "u32 \<Rightarrow> u32 \<Rightarrow> WitnessEcho list \<Rightarrow> ClearCert" where
  "clear_cert_of_bucket epoch batch bucket = \<lparr>lc_cancelledEpoch = epoch, lc_executingBatch = batch,
     lc_echoes = map (\<lambda>we. toClearEcho we epoch batch) bucket\<rparr>"

definition clear_echo_verifies :: "'d AppEnv \<Rightarrow> ClearEcho \<Rightarrow> bool" where
  "clear_echo_verifies env echo = ev_verify env (le_signerPubKey echo)
     (to_bytes (signPayload (clear_statement (le_cancelledEpoch echo) (le_executingBatch echo)) (le_echoingReplicaId echo)))
     (take (unat (le_signatureLen echo)) (le_signature echo))"

definition collectClearEcho :: "'d AppEnv \<Rightarrow> ClearEcho \<Rightarrow> 'd AppState \<Rightarrow> 'd AppState" where
  "collectClearEcho env echo s =
     (let e = le_cancelledEpoch echo; b = le_executingBatch echo in
      if le_echoingReplicaId echo < 0 \<or> le_signatureLen echo = 0 then s
      else if clear_resolved s e b then s
      else if \<not> key_matches (ev_keys env) (le_echoingReplicaId echo) (le_signerPubKey echo) then s
      else if \<not> clear_echo_verifies env echo then s
      else let added = collector_add (clear_statement e b) (clearToWitnessEcho echo) (lx_echo_collector (ap_lx s));
               s1 = s\<lparr>ap_lx := (ap_lx s)\<lparr>lx_echo_collector := snd added\<rparr>\<rparr>
        in if \<not> fst added then s1
           else let bucket = (case collector_get (snd added) (clear_key e b) of None \<Rightarrow> [] | Some es \<Rightarrow> es) in
             if int (length bucket) \<ge> cert_fault_bound (ev_cfg env) + 1 \<and> clear_key e b \<notin> set (lx_cert_seen (ap_lx s1))
             then scheduleClearCertCandidate env (clear_cert_of_bucket e b bucket) s1 else s1)"

definition handleClearEcho :: "'d AppEnv \<Rightarrow> bytes \<Rightarrow> 'd AppState \<Rightarrow> 'd AppState option" where
  "handleClearEcho env payload s =
     (if \<not> ev_enableRollback env then Some s
      else map_option (\<lambda>echo. collectClearEcho env echo s) (deserializeClearEcho payload))"

section \<open>Carriers, relays and retries\<close>

definition sendClearCertCarrier :: "'d AppEnv \<Rightarrow> ClearCert \<Rightarrow> 'd AppState \<Rightarrow> 'd AppState" where
  "sendClearCertCarrier env cert s =
     (let signed = packSignedPacket (ev_sign env) (ev_pub_key env) (serializeClearCert cert) in
      if signed = [] then s else sendBFTMessage env (- 1) signed kClearCertType False False s)"

definition observe_carrier :: "string \<Rightarrow> int \<Rightarrow> 'd AppState \<Rightarrow> 'd AppState" where
  "observe_carrier key carrier s =
     s\<lparr>ap_lx := (ap_lx s)\<lparr>lx_tracker := snd (observeAuthenticated key carrier (lx_tracker (ap_lx s)))\<rparr>\<rparr>"

definition scheduleClearCertRelay :: "'d AppEnv \<Rightarrow> ClearCert \<Rightarrow> string \<Rightarrow> 'd AppState \<Rightarrow> 'd AppState" where
  "scheduleClearCertRelay env cert key s =
     (if clearPropagationConfirmed env s key \<or> ap_order_applied s \<or> ap_propose_submitted s then s
      else if \<not> os_new key (lx_cert_relayed (ap_lx s)) then s
      else let s1 = s\<lparr>ap_lx := (ap_lx s)\<lparr>lx_cert_relayed := os_insert key (lx_cert_relayed (ap_lx s))\<rparr>\<rparr>;
               rank = clearPropagationRank env s1
        in if rank < 0 then s1
           else s1\<lparr>ap_lx := (ap_lx s1)\<lparr>lx_pending_relay := cert, lx_pending_relay_key := key,
             lx_relay_timer := Some (ap_now s1 + (rank + 1) * max 0 (ev_clear_candidate_slot env))\<rparr>\<rparr>)"

definition stopClearCertRetries :: "'d AppState \<Rightarrow> 'd AppState" where
  "stopClearCertRetries s = s\<lparr>ap_lx := (ap_lx s)\<lparr>lx_retry_timer := None,
     lx_pending_retries := (lx_pending_retries (ap_lx s))\<lparr>lc_echoes := []\<rparr>, lx_retry_count := 0\<rparr>\<rparr>"

definition scheduleNextClearCertRetry :: "'d AppEnv \<Rightarrow> 'd AppState \<Rightarrow> 'd AppState" where
  "scheduleNextClearCertRetry env s =
     (if \<not> ev_enableRollback env \<or> lc_echoes (lx_pending_retries (ap_lx s)) = [] then s
      else let (delay, s1) = backoffDelaySec env (ev_retry_base env) (ev_retry_cap env) (lx_retry_count (ap_lx s)) s
        in if lx_retry_timer (ap_lx s1) \<noteq> None then call Call_raise s1
           else s1\<lparr>ap_lx := (ap_lx s1)\<lparr>lx_retry_timer := Some (ap_now s1 + delay)\<rparr>\<rparr>)"

definition onClearCertRetryTimer :: "'d AppEnv \<Rightarrow> 'd AppState \<Rightarrow> 'd AppState" where
  "onClearCertRetryTimer env s =
     (let s0 = s\<lparr>ap_lx := (ap_lx s)\<lparr>lx_retry_timer := None\<rparr>\<rparr>; cert = lx_pending_retries (ap_lx s0) in
      if lc_echoes cert = [] \<or> incident_cleared s0 (lc_cancelledEpoch cert, lc_executingBatch cert)
      then stopClearCertRetries s0
      else let s1 = sendClearCertCarrier env cert
                 (s0\<lparr>ap_lx := (ap_lx s0)\<lparr>lx_retry_count := lx_retry_count (ap_lx s0) + 1\<rparr>\<rparr>)
        in if ev_cancel_cert_retry_max env > 0 \<and> lx_retry_count (ap_lx s1) \<ge> ev_cancel_cert_retry_max env
           then stopClearCertRetries s1 else scheduleNextClearCertRetry env s1)"

section \<open>Clearing an incident\<close>

definition mark_cleared :: "u32 \<times> u32 \<Rightarrow> bytes \<Rightarrow> IncidentRecord \<Rightarrow> 'd AppState \<Rightarrow> 'd AppState" where
  "mark_cleared k clearCertBytes r s = s\<lparr>ap_cx := (ap_cx s)\<lparr>cx_incidents :=
     om_put k (r\<lparr>ir_state := CLEARED, ir_clearCertBytes := clearCertBytes\<rparr>) (cx_incidents (ap_cx s))\<rparr>\<rparr>"

definition onIncidentCleared :: "'d AppEnv \<Rightarrow> u32 \<times> u32 \<Rightarrow> bytes \<Rightarrow> 'd AppState \<Rightarrow> 'd AppState" where
  "onIncidentCleared env k clearCertBytes s =
     (case om_get (cx_incidents (ap_cx s)) k of None \<Rightarrow> s
      | Some r \<Rightarrow>
          if ir_state r = CLEARED then s
          else let s1 = stopWait (cancelClearCertCandidate (stopClearCertRetries (mark_cleared k clearCertBytes r s))) in
            if cx_pending (ap_cx s1) \<and> cx_cancelled_epoch (ap_cx s1) = fst k then evaluateOrderReadiness env s1 else s1)"

definition validClearCert :: "'d AppEnv \<Rightarrow> 'd AppState \<Rightarrow> ClearCert \<Rightarrow> bool" where
  "validClearCert env s cert = validateClearCert (cert_fault_bound (ev_cfg env))
     (set (gx_committed_vehicle_ids (ap_gx s))) (ev_keys env) (ev_verify env) cert"

definition broadcastClearCert :: "'d AppEnv \<Rightarrow> ClearCert \<Rightarrow> 'd AppState \<Rightarrow> 'd AppState" where
  "broadcastClearCert env cert s =
     (if \<not> validClearCert env s cert then s
      else let e = lc_cancelledEpoch cert; b = lc_executingBatch cert;
               s1 = s\<lparr>ap_lx := (ap_lx s)\<lparr>lx_cert_seen := os_insert (clear_key e b) (lx_cert_seen (ap_lx s))\<rparr>\<rparr>;
               s2 = observe_carrier (clearSemanticKey e b) (cf_replicaId (ev_cfg env)) s1
        in onIncidentCleared env (e, b) (serializeClearCert cert) (sendClearCertCarrier env cert s2))"

definition onClearCandidateTimer :: "'d AppEnv \<Rightarrow> 'd AppState \<Rightarrow> 'd AppState" where
  "onClearCandidateTimer env s =
     (let s0 = s\<lparr>ap_lx := (ap_lx s)\<lparr>lx_candidate_timer := None\<rparr>\<rparr>; cert = lx_candidate (ap_lx s0) in
      if lc_echoes cert = [] then s0
      else if incident_cleared s0 (lc_cancelledEpoch cert, lc_executingBatch cert) \<or> ap_order_applied s0
      then cancelClearCertCandidate s0
      else broadcastClearCert env cert s0)"

definition onClearRelayTimer :: "'d AppEnv \<Rightarrow> 'd AppState \<Rightarrow> 'd AppState" where
  "onClearRelayTimer env s =
     (let s0 = s\<lparr>ap_lx := (ap_lx s)\<lparr>lx_relay_timer := None\<rparr>\<rparr>; cert = lx_pending_relay (ap_lx s0);
          key = lx_pending_relay_key (ap_lx s0)
      in if lc_echoes cert = [] then s0
         else if clearPropagationConfirmed env s0 key \<or> ap_order_applied s0 \<or> ap_propose_submitted s0
         then cancelClearCertRelay s0
         else let s1 = sendClearCertCarrier env cert (observe_carrier key (cf_replicaId (ev_cfg env)) s0)
           in s1\<lparr>ap_lx := (ap_lx s1)\<lparr>lx_pending_relay := empty_clear_cert, lx_pending_relay_key := []\<rparr>\<rparr>)"

definition acceptClearCert :: "'d AppEnv \<Rightarrow> int \<Rightarrow> bytes \<Rightarrow> ClearCert \<Rightarrow> 'd AppState \<Rightarrow> 'd AppState" where
  "acceptClearCert env carrier rawCert cert s =
     (let e = lc_cancelledEpoch cert; b = lc_executingBatch cert; key = clearSemanticKey e b;
          s1 = observe_carrier key carrier s;
          s2 = s1\<lparr>ap_lx := (ap_lx s1)\<lparr>lx_cert_seen := os_insert (clear_key e b) (lx_cert_seen (ap_lx s1))\<rparr>\<rparr>;
          s3 = onIncidentCleared env (e, b) rawCert (cancelClearCertCandidate s2)
      in if clearPropagationConfirmed env s3 key then cancelClearCertRelay s3
         else scheduleClearCertRelay env cert key s3)"

definition handleClearCert :: "'d AppEnv \<Rightarrow> int \<Rightarrow> bytes \<Rightarrow> 'd AppState \<Rightarrow> 'd AppState option" where
  "handleClearCert env carrier payload s =
     (if \<not> ev_enableRollback env then Some s
      else case unpackSignedPacket payload of None \<Rightarrow> Some s
      | Some view \<Rightarrow>
          if \<not> clearCarrierIsActiveMember env s carrier \<or> \<not> key_matches (ev_keys env) carrier (sp_pubKey view) \<or>
             \<not> ev_verify env (sp_pubKey view) (sp_resdbBytes view) (sp_sig view) then Some s
          else case deserializeClearCert (sp_resdbBytes view) of None \<Rightarrow> None
          | Some cert \<Rightarrow>
              Some (if lc_echoes cert = [] then s
                    else if \<not> validClearCert env s cert then s
                    else acceptClearCert env carrier (sp_resdbBytes view) cert s))"

section \<open>Perception of crashes and clearance\<close>

text \<open>One tick of the clearance poll: the dwell of stopped cars ahead, then of the empty box.\<close>

definition watch_target :: "'d AppEnv \<Rightarrow> int \<Rightarrow> int \<Rightarrow> 'd AppState \<Rightarrow> 'd AppState" where
  "watch_target env b rid s =
     (if rid = cf_replicaId (ev_cfg env) then s
      else let car = veh rid; c = ap_cx s; now = ap_now s in
        if \<not> (\<not> ev_hasCleared env now car \<and> ev_inBox env now car \<and> ev_halted env now car)
        then s\<lparr>ap_cx := c\<lparr>cx_crash_dwell_since := om_erase car (cx_crash_dwell_since c)\<rparr>\<rparr>
        else case om_get (cx_crash_dwell_since c) car of
          None \<Rightarrow> s\<lparr>ap_cx := c\<lparr>cx_crash_dwell_since := om_put car now (cx_crash_dwell_since c)\<rparr>\<rparr>
        | Some t \<Rightarrow>
            if now - t < ev_crash_dwell env then s
            else if car \<in> set (cx_crash_echoed_targets c) then s
            else let s1 = maybeTriggerCrashRollback env
                   (formatBlockedBatchRef (gx_last_committed_epoch (ap_gx s)) (word_of_int b)) s
              in s1\<lparr>ap_cx := (ap_cx s1)\<lparr>cx_crash_echoed_targets := os_insert car (cx_crash_echoed_targets (ap_cx s1))\<rparr>\<rparr>)"

fun watch_batches :: "'d AppEnv \<Rightarrow> (int \<times> int) list \<Rightarrow> 'd AppState \<Rightarrow> 'd AppState" where
  "watch_batches env [] s = s"
| "watch_batches env ((b, rid) # ts) s = watch_batches env ts (watch_target env b rid s)"

definition targets_ahead :: "'d AppState \<Rightarrow> (int \<times> int) list" where
  "targets_ahead s = concat (map (\<lambda>(b, rids). map (Pair (int b)) rids)
     (zip [0..<nat (gx_my_batch_index (ap_gx s))] (gx_committed_batches (ap_gx s))))"

definition watch_incident :: "'d AppEnv \<Rightarrow> u32 \<times> u32 \<Rightarrow> IncidentRecord \<Rightarrow> 'd AppState \<Rightarrow> 'd AppState" where
  "watch_incident env k r s =
     (if ir_state r \<noteq> BLOCKING \<or> k \<in> set (lx_echoed_incidents (ap_lx s)) then s
      else if ev_anyInBox env (ap_now s)
      then s\<lparr>ap_lx := (ap_lx s)\<lparr>lx_dwell_since := om_erase k (lx_dwell_since (ap_lx s))\<rparr>\<rparr>
      else case om_get (lx_dwell_since (ap_lx s)) k of
        None \<Rightarrow> s\<lparr>ap_lx := (ap_lx s)\<lparr>lx_dwell_since := om_put k (ap_now s) (lx_dwell_since (ap_lx s))\<rparr>\<rparr>
      | Some t \<Rightarrow>
          if ap_now s - t < ev_clear_dwell env then s
          else let s1 = sendClearEcho env (fst k) (snd k) s
            in s1\<lparr>ap_lx := (ap_lx s1)\<lparr>lx_echoed_incidents := os_insert k (lx_echoed_incidents (ap_lx s1))\<rparr>\<rparr>)"

fun watch_incidents :: "'d AppEnv \<Rightarrow> ((u32 \<times> u32) \<times> IncidentRecord) list \<Rightarrow> 'd AppState \<Rightarrow> 'd AppState" where
  "watch_incidents env [] s = s"
| "watch_incidents env ((k, r) # ks) s = watch_incidents env ks (watch_incident env k r s)"

definition perceive :: "'d AppEnv \<Rightarrow> 'd AppState \<Rightarrow> 'd AppState" where
  "perceive env s =
     (if \<not> ev_enableRollback env then s
      else let s1 = watch_batches env (targets_ahead s) s
        in watch_incidents env (cx_incidents (ap_cx s1)) s1)"

definition rearm_poll_timer :: "'d AppEnv \<Rightarrow> 'd AppState \<Rightarrow> 'd AppState" where
  "rearm_poll_timer env s = s\<lparr>ap_gx := (ap_gx s)\<lparr>gx_poll_timer := Some (ap_now s + ev_poll_period env)\<rparr>\<rparr>"

definition onPollTimer :: "'d AppEnv \<Rightarrow> 'd AppState \<Rightarrow> 'd AppState" where
  "onPollTimer env s0 =
     (let s = perceive env (s0\<lparr>ap_gx := (ap_gx s0)\<lparr>gx_poll_timer := None\<rparr>\<rparr>); g = ap_gx s in
      if gx_my_batch_index g \<le> 0 \<or> gx_preceding_batch_cars g = [] then s
      else let all_cleared = list_all (\<lambda>rid. ev_hasCleared env (ap_now s) (veh rid)) (gx_preceding_batch_cars g);
               timedOut = (gx_clearance_started g \<ge> 0 \<and> ap_now s - gx_clearance_started g \<ge> ev_clearance_timeout env)
        in if all_cleared \<or> timedOut then
             (if cx_pending (ap_cx s) \<or> cx_consensus_pending (ap_cx s) then rearm_poll_timer env s
              else call (Call_resumeVehicle (gx_my_batch_index g)) s)
           else rearm_poll_timer env s)"

definition onResumeTimer :: "'d AppState \<Rightarrow> 'd AppState" where
  "onResumeTimer s0 =
     (let s = s0\<lparr>ap_gx := (ap_gx s0)\<lparr>gx_resume_timer := None\<rparr>\<rparr> in
      if cx_pending (ap_cx s) \<or> cx_consensus_pending (ap_cx s) then s
      else call (Call_resumeVehicle (gx_resume_position (ap_gx s))) s)"

end
