(* ===== verification/Decision.thy ===== *)
theory Decision
  imports Clear SchedulerOrder
begin

text \<open>
  Committed orders (\<^verbatim>\<open>v2vbft/app/ResDBDecision.cc\<close>: \<open>processOrders\<close>, \<open>onOrderDecided\<close>) and what
  surrounds them in \<^verbatim>\<open>ResDBIntersectionApp.cc\<close>: the gossip of a decision, its adoption by
  \<open>f + 1\<close> votes, the view-change trigger and the two safety timeouts. \<open>None\<close> is an exception
  thrown while decoding a CLEAR certificate.
\<close>

section \<open>Decision gossip\<close>

definition kDecisionGossipType :: int where "kDecisionGossipType = 9"

definition decisionGossipPropagationConfirmed :: "'d AppEnv \<Rightarrow> 'd AppState \<Rightarrow> bool" where
  "decisionGossipPropagationConfirmed env s =
     (let g = ap_gx s in
      if gx_order_bytes g = [] then False
      else acc_count (gx_acc g) (gx_epoch g) (gx_order_bytes g) \<ge> cert_fault_bound (ev_cfg env) + 1)"

definition scheduleNextGossip :: "'d AppEnv \<Rightarrow> 'd AppState \<Rightarrow> 'd AppState" where
  "scheduleNextGossip env s =
     (let g = ap_gx s in
      if \<not> ev_gossip_enabled env \<or> gx_order_bytes g = [] then s
      else if ev_gossip_max_retries env > 0 \<and> gx_retry_count g \<ge> ev_gossip_max_retries env then stopGossip s
      else s\<lparr>ap_gx := g\<lparr>gx_timer := Some (ap_now s + ev_gossip_initial_interval env * 2 ^ nat (gx_retry_count g))\<rparr>\<rparr>)"

definition cancel_active_for :: "'d AppState \<Rightarrow> u32 \<Rightarrow> bool" where
  "cancel_active_for s epoch \<longleftrightarrow> isEpochTombstoned s epoch \<or>
     (cx_consensus_pending (ap_cx s) \<and> epoch = cx_cancelled_epoch (ap_cx s))"

definition send_decision_gossip :: "'d AppEnv \<Rightarrow> u32 \<Rightarrow> bytes \<Rightarrow> 'd AppState \<Rightarrow> 'd AppState" where
  "send_decision_gossip env epoch ob s =
     (let signed = packSignedPacket (ev_sign env) (ev_pub_key env) (serialize_gossip epoch ob) in
      if signed = [] then s else sendBFTMessage env (- 1) signed kDecisionGossipType False False s)"

definition bump_gossip :: "'d AppState \<Rightarrow> 'd AppState" where
  "bump_gossip s = s\<lparr>ap_gx := (ap_gx s)\<lparr>gx_retry_count := gx_retry_count (ap_gx s) + 1\<rparr>\<rparr>"

definition triggerGossip :: "'d AppEnv \<Rightarrow> u32 \<Rightarrow> bytes \<Rightarrow> 'd AppState \<Rightarrow> 'd AppState" where
  "triggerGossip env epoch ob s =
     (if ob = [] then s
      else if cancel_active_for s epoch then s
      else let s1 = s\<lparr>ap_gx := (ap_gx s)\<lparr>gx_timer := None, gx_epoch := epoch, gx_order_bytes := ob,
                 gx_retry_count := 0\<rparr>\<rparr>
        in scheduleNextGossip env (bump_gossip (send_decision_gossip env epoch ob s1)))"

definition onGossipTimer :: "'d AppEnv \<Rightarrow> 'd AppState \<Rightarrow> 'd AppState" where
  "onGossipTimer env s0 =
     (let s = s0\<lparr>ap_gx := (ap_gx s0)\<lparr>gx_timer := None\<rparr>\<rparr>; g = ap_gx s in
      if gx_order_bytes g = [] then s
      else if cancel_active_for s (gx_epoch g) then stopGossip s
      else if decisionGossipPropagationConfirmed env s then stopGossip s
      else scheduleNextGossip env (bump_gossip (send_decision_gossip env (gx_epoch g) (gx_order_bytes g) s)))"

definition enqueue_order :: "bytes \<Rightarrow> 'd AppState \<Rightarrow> 'd AppState" where
  "enqueue_order dec s = s\<lparr>ap_gx := (ap_gx s)\<lparr>gx_pending_orders := gx_pending_orders (ap_gx s) @ [dec]\<rparr>\<rparr>"

definition onOrderDecided :: "bytes \<Rightarrow> 'd AppState \<Rightarrow> 'd AppState" where
  "onOrderDecided dec s = (if dec = [] then s else enqueue_order dec s)"

definition applyGossipOrder :: "'d AppEnv \<Rightarrow> bytes \<Rightarrow> u32 \<Rightarrow> 'd AppState \<Rightarrow> 'd AppState" where
  "applyGossipOrder env ob epoch s =
     (if ap_order_applied s then s
      else if ev_hasCompleted env (ap_now s) epoch then s
      else if isEpochTombstoned s epoch then s
      else let s1 = enqueue_order ob s;
               s2 = stopGossip (s1\<lparr>ap_gx := (ap_gx s1)\<lparr>gx_last_committed_epoch := epoch,
                 gx_has_committed_order := True, gx_committed_order_bytes := ob\<rparr>\<rparr>)
        in s2\<lparr>ap_gx := (ap_gx s2)\<lparr>gx_acc := acc_reset (gx_acc (ap_gx s2))\<rparr>, ap_cert_relay_tracker := [],
             ap_announcement_relay_tracker := []\<rparr>)"

definition countDecision :: "'d AppEnv \<Rightarrow> int \<Rightarrow> u32 \<Rightarrow> bytes \<Rightarrow> 'd AppState \<Rightarrow> 'd AppState" where
  "countDecision env from_id epoch ob s =
     (if isEpochTombstoned s epoch then s
      else if gx_has_committed_order (ap_gx s) \<and> epoch \<le> gx_last_committed_epoch (ap_gx s) then s
      else if ev_hasCompleted env (ap_now s) epoch then s
      else let vote = acc_add from_id epoch ob (cert_fault_bound (ev_cfg env) + 1) (gx_acc (ap_gx s));
               s1 = s\<lparr>ap_gx := (ap_gx s)\<lparr>gx_acc := snd vote\<rparr>\<rparr>
        in if ap_order_applied s1 then s1
           else if fst vote then applyGossipOrder env ob epoch s1 else s1)"

definition handleDecisionGossip :: "'d AppEnv \<Rightarrow> int \<Rightarrow> bytes \<Rightarrow> 'd AppState \<Rightarrow> 'd AppState" where
  "handleDecisionGossip env from_id payload s =
     (if payload = [] then s
      else case unpackSignedPacket payload of None \<Rightarrow> s
      | Some view \<Rightarrow>
          if sp_resdbBytes view = [] then s
          else if \<not> ev_verify env (sp_pubKey view) (sp_resdbBytes view) (sp_sig view) then s
          else case parse_gossip (sp_resdbBytes view) of None \<Rightarrow> s
          | Some (epoch, ob) \<Rightarrow> countDecision env from_id epoch ob s)"

section \<open>Applying a committed order\<close>

text \<open>The decisions are read by \<open>dec_decisions\<close> of \<open>SchedulerOrder\<close>.\<close>

definition batch_members :: "ResdbVehicleDecision list \<Rightarrow> nat \<Rightarrow> int list" where
  "batch_members ds b = map vd_replica_id (filter (\<lambda>d. unat (vd_batch_index d) = b) ds)"

definition adopt_view :: "ResdbOrderHdr \<Rightarrow> ResdbVehicleDecision list \<Rightarrow> 'd AppState \<Rightarrow> 'd AppState" where
  "adopt_view ohdr ds s = s\<lparr>ap_gx := (ap_gx s)\<lparr>
     gx_committed_batches := map (batch_members ds) [0..<unat (oh_n_batches ohdr)],
     gx_committed_vehicle_ids := remdups_adj (sort (map vd_replica_id ds))\<rparr>\<rparr>"

text \<open>The certificates of the evidence trailer; a length that runs past the end stops the loop.\<close>

fun trailer_certs :: "nat \<Rightarrow> nat \<Rightarrow> bytes \<Rightarrow> bytes list" where
  "trailer_certs 0 off dec = []"
| "trailer_certs (Suc k) off dec =
     (if off + 4 > length dec then []
      else let certLen = unat (get_u32 dec off) in
        if off + 4 + certLen > length dec then []
        else take certLen (drop (off + 4) dec) # trailer_certs k (off + 4 + certLen) dec)"

definition clear_trailer :: "nat \<Rightarrow> bytes \<Rightarrow> bytes list" where
  "clear_trailer decisions_end dec =
     (if length dec < decisions_end + sizeof_evidence_hdr then []
      else let ehdr = dec_evidence_hdr (drop decisions_end dec) in
        if eh_magic ehdr \<noteq> RESDB_ORDER_EVIDENCE_MAGIC then []
        else trailer_certs (unat (eh_n_clear_certs ehdr)) (decisions_end + sizeof_evidence_hdr) dec)"

fun adopt_clear :: "'d AppEnv \<Rightarrow> bytes list \<Rightarrow> 'd AppState \<Rightarrow> 'd AppState option" where
  "adopt_clear env [] s = Some s"
| "adopt_clear env (c # cs) s =
     (case deserializeClearCert c of None \<Rightarrow> None
      | Some cert \<Rightarrow> adopt_clear env cs
          (if lc_echoes cert = [] \<or> \<not> validClearCert env s cert then s
           else onIncidentCleared env (lc_cancelledEpoch cert, lc_executingBatch cert) c s))"

definition finish_recovery :: "'d AppState \<Rightarrow> 'd AppState" where
  "finish_recovery s =
     (let s1 = s\<lparr>ap_cx := (ap_cx s)\<lparr>cx_pending := False, cx_state := CANCEL_INACTIVE, cx_active_batch := - 1,
            cx_primary := - 1, cx_leader_candidates := [], cx_cancel_initiated := False\<rparr>\<rparr>
      in resetOrderCandidate (stopWait (cancelClearCertRelay (cancelClearCertCandidate
           (stopClearCertRetries (stopCancelCertRetries s1))))))"

definition my_batch_of :: "int \<Rightarrow> ResdbVehicleDecision list \<Rightarrow> int" where
  "my_batch_of me ds = (case find (\<lambda>d. vd_replica_id d = me) ds of None \<Rightarrow> - 1 | Some d \<Rightarrow> sint (vd_batch_index d))"

definition start_batch :: "'d AppEnv \<Rightarrow> int \<Rightarrow> ResdbVehicleDecision list \<Rightarrow> u32 \<Rightarrow> bytes \<Rightarrow> 'd AppState \<Rightarrow> 'd AppState" where
  "start_batch env my_batch ds epoch dec s =
     (let s1 = stopCertBroadcastRetries (s\<lparr>ap_order_applied := True\<rparr>);
          s2 = (if ev_gossip_enabled env \<and> gx_order_bytes (ap_gx s1) = [] then triggerGossip env epoch dec s1 else s1);
          s3 = s2\<lparr>ap_current_phase := EXECUTING, ap_gx := (ap_gx s2)\<lparr>gx_my_batch_index := my_batch,
            gx_preceding_batch_cars := (if my_batch > 0
              then map vd_replica_id (filter (\<lambda>d. sint (vd_batch_index d) = my_batch - 1) ds) else [])\<rparr>\<rparr>
      in if my_batch = 0 then call (Call_resumeVehicle 0) s3
         else s3\<lparr>ap_gx := (ap_gx s3)\<lparr>gx_clearance_started := ap_now s3,
           gx_poll_timer := Some (ap_now s3 + ev_poll_period env)\<rparr>\<rparr>)"

definition apply_schedule :: "'d AppEnv \<Rightarrow> ResdbOrderHdr \<Rightarrow> ResdbVehicleDecision list \<Rightarrow> bytes \<Rightarrow> 'd AppState \<Rightarrow> 'd AppState" where
  "apply_schedule env ohdr ds dec s =
     (let s1 = deactivateDiscovery (s\<lparr>ap_gx := (ap_gx s)\<lparr>gx_has_committed_order := True\<rparr>\<rparr>);
          s2 = s1\<lparr>ap_gx := (ap_gx s1)\<lparr>gx_last_committed_epoch := oh_epoch ohdr, gx_committed_order_bytes := dec,
            gx_stop_sign_timer := None, gx_consensus_timer := None\<rparr>, ap_vc_trigger := None\<rparr>;
          my_batch = my_batch_of (cf_replicaId (ev_cfg env)) ds
      in if my_batch < 0
         then (if oh_epoch ohdr = ap_current_epoch s2 then s2\<lparr>ap_order_applied := True\<rparr> else s2)
         else start_batch env my_batch ds (oh_epoch ohdr) dec s2)"

text \<open>
  The check of the applied order against this replica's own certificates (\<open>detectUnsafeBatch\<close>,
  with the safe pairs of the scheduler). An alarm changes neither the certificates nor the epoch,
  so the alarms of an order are listed first and raised one after the other.
\<close>

definition cert_codes :: "'d AppState \<Rightarrow> int \<Rightarrow> (byte \<times> byte) option" where
  "cert_codes s rid = map_option (\<lambda>c. (laneCode (ac_lane c), directionCode (ac_direction c)))
     (om_get (ap_collected_certs s) (veh rid))"

fun member_pairs :: "int list \<Rightarrow> (int \<times> int) list" where
  "member_pairs [] = []"
| "member_pairs (a # as) = map (Pair a) as @ member_pairs as"

definition unsafe_pair :: "'d AppState \<Rightarrow> int \<times> int \<Rightarrow> bool" where
  "unsafe_pair s ab =
     (case (cert_codes s (fst ab), cert_codes s (snd ab)) of
        (Some (la, da), Some (lb, db)) \<Rightarrow> \<not> IsSafeToBatch la da lb db
      | _ \<Rightarrow> False)"

definition unsafe_ref :: "'d AppState \<Rightarrow> nat \<Rightarrow> int \<times> int \<Rightarrow> string" where
  "unsafe_ref s b ab = ''unsafe_batch:'' @ to_string (uint (ap_current_epoch s)) @ '':'' @ to_string (int b) @
     '':veh'' @ to_string (min (fst ab) (snd ab)) @ ''+veh'' @ to_string (max (fst ab) (snd ab))"

definition unsafe_refs :: "'d AppState \<Rightarrow> ResdbVehicleDecision list \<Rightarrow> nat \<Rightarrow> string list" where
  "unsafe_refs s ds n = concat (map (\<lambda>b. map (unsafe_ref s b)
     (filter (unsafe_pair s) (member_pairs (batch_members ds b)))) [0..<n])"

definition detectUnsafeBatch :: "'d AppEnv \<Rightarrow> ResdbVehicleDecision list \<Rightarrow> nat \<Rightarrow> 'd AppState \<Rightarrow> 'd AppState" where
  "detectUnsafeBatch env ds n s = fold (maybeTriggerCrashRollback env) (unsafe_refs s ds n) s"

definition commit_order :: "'d AppEnv \<Rightarrow> ResdbOrderHdr \<Rightarrow> bytes \<Rightarrow> 'd AppState \<Rightarrow> 'd AppState option" where
  "commit_order env ohdr dec s =
     (let ds = dec_decisions (unat (oh_n_vehicles ohdr)) dec;
          decisions_end = sizeof_order_hdr + unat (oh_n_vehicles ohdr) * sizeof_decision;
          s1 = adopt_view ohdr ds (clearConsensusRetries s)
      in case adopt_clear env (clear_trailer decisions_end dec) s1 of None \<Rightarrow> None
         | Some s2 \<Rightarrow>
             let s3 = (if cx_pending (ap_cx s2) \<and> oh_epoch ohdr = cx_new_epoch (ap_cx s2)
                   then finish_recovery s2 else s2)
             in Some (if cx_pending (ap_cx s3) \<and> oh_epoch ohdr = cx_cancelled_epoch (ap_cx s3) then s3
                      else apply_schedule env ohdr ds dec (detectUnsafeBatch env ds (unat (oh_n_batches ohdr)) s3)))"

definition process_order :: "'d AppEnv \<Rightarrow> bytes \<Rightarrow> 'd AppState \<Rightarrow> 'd AppState option" where
  "process_order env dec s =
     (if length dec \<ge> sizeof_cancel_decision \<and> dh_magic (dec_cancel_decision dec) = RESDB_CANCEL_DECISION_MAGIC
      then Some (handleCancelCommitDecision env dec s)
      else if length dec < sizeof_order_hdr then Some s
      else let ohdr = dec_order_hdr dec in
        if ev_hasCompleted env (ap_now s) (oh_epoch ohdr) then Some s
        else if isEpochTombstoned s (oh_epoch ohdr) then Some s
        else if ap_order_applied s \<and> oh_epoch ohdr \<le> ap_current_epoch s then Some s
        else if length dec < sizeof_order_hdr + unat (oh_n_vehicles ohdr) * sizeof_decision then Some s
        else commit_order env ohdr dec s)"

fun process_all :: "'d AppEnv \<Rightarrow> bytes list \<Rightarrow> 'd AppState \<Rightarrow> 'd AppState option" where
  "process_all env [] s = Some s"
| "process_all env (dec # decs) s =
     (case process_order env dec s of None \<Rightarrow> None | Some s1 \<Rightarrow> process_all env decs s1)"

definition processOrders :: "'d AppEnv \<Rightarrow> 'd AppState \<Rightarrow> 'd AppState option" where
  "processOrders env s = process_all env (gx_pending_orders (ap_gx s)) (s\<lparr>ap_gx := (ap_gx s)\<lparr>gx_pending_orders := []\<rparr>\<rparr>)"

section \<open>Timers that give up on consensus\<close>

definition force_view_change :: "'d AppEnv \<Rightarrow> 'd AppState \<Rightarrow> 'd AppState" where
  "force_view_change env s =
     (if ap_order_applied s then s
      else if cx_consensus_pending (ap_cx s) then s
      else if cx_pending (ap_cx s) \<and> hasBlockingIncidentForEpoch s (cx_cancelled_epoch (ap_cx s))
      then maybeSendWaitHeartbeat env s
      else call Call_forceViewChange (s\<lparr>ap_order_vc_requested := True\<rparr>))"

definition onVcTrigger :: "'d AppEnv \<Rightarrow> 'd AppState \<Rightarrow> 'd AppState option" where
  "onVcTrigger env s = map_option (force_view_change env) (processOrders env (s\<lparr>ap_vc_trigger := None\<rparr>))"

definition fail_safe :: "'d AppEnv \<Rightarrow> 'd AppState \<Rightarrow> 'd AppState" where
  "fail_safe env s =
     (if ap_order_applied s then s
      else if cx_pending (ap_cx s) \<or> cx_consensus_pending (ap_cx s) then s
      else if ev_enableRollback env then evaluateOrderReadiness env s
      else call (Call_resumeVehicle 0) (s\<lparr>ap_order_applied := True, ap_current_phase := EXECUTING\<rparr>))"

definition onStopSignTimeout :: "'d AppEnv \<Rightarrow> 'd AppState \<Rightarrow> 'd AppState option" where
  "onStopSignTimeout env s =
     map_option (fail_safe env) (processOrders env (s\<lparr>ap_gx := (ap_gx s)\<lparr>gx_stop_sign_timer := None\<rparr>\<rparr>))"

definition onConsensusTimeout :: "'d AppEnv \<Rightarrow> 'd AppState \<Rightarrow> 'd AppState option" where
  "onConsensusTimeout env s =
     map_option (fail_safe env) (processOrders env (s\<lparr>ap_gx := (ap_gx s)\<lparr>gx_consensus_timer := None\<rparr>\<rparr>))"

end
