(* ===== verification/Vehicle.thy ===== *)
theory Vehicle
  imports Decision Relay
begin

text \<open>
  One vehicle as a whole (\<^verbatim>\<open>v2vbft/app/ResDBIntersectionApp.cc\<close>): the dispatch of received frames
  (\<open>onWSM\<close>) and of timers (\<open>handleSelfMsg\<close>), the poll of the consensus server, arrival in the stop
  zone (\<open>handlePositionUpdate\<close>), departure and the radio silence after a crash
  (\<^verbatim>\<open>ResDBTraCI.cc\<close>: \<open>disableCrashComms\<close>). The step relation at the end is the transition system
  of the vehicle: whatever frames, decisions and timers reach it, in any order.
\<close>

section \<open>Frames\<close>

record Frame =
  fr_from :: int
  fr_to :: int
  fr_type :: int
  fr_payload :: bytes

text \<open>Consensus traffic postpones the view-change trigger, a decided order removes it.\<close>

definition touch_vc_trigger :: "'d AppEnv \<Rightarrow> 'd AppState \<Rightarrow> 'd AppState" where
  "touch_vc_trigger env s =
     (if ap_vc_trigger s = None then s
      else if ap_order_applied s \<or> gx_pending_orders (ap_gx s) \<noteq> [] then s\<lparr>ap_vc_trigger := None\<rparr>
      else s\<lparr>ap_vc_trigger := Some (ap_now s + ev_pbft_vc_timeout env)\<rparr>)"

definition addressed :: "'d AppEnv \<Rightarrow> Frame \<Rightarrow> bool" where
  "addressed env fr \<longleftrightarrow> fr_to fr = cf_replicaId (ev_cfg env) \<or> fr_to fr = - 1"

definition dispatch_frame :: "'d AppEnv \<Rightarrow> Frame \<Rightarrow> 'd AppState \<Rightarrow> 'd AppState option" where
  "dispatch_frame env fr s =
     (let type = fr_type fr; payload = fr_payload fr in
      if type = kArrivalAnnounceType then handleArrivalAnnouncement env payload s
      else if type = kArrivalEchoType then (if addressed env fr then handleArrivalEcho env payload s else Some s)
      else if type = kArrivalCertType then handleArrivalCert env payload s
      else if type = kStoppedDistanceAttestationType then Some (handleStoppedDistanceAttestation env payload s)
      else if type = kStoppedDistanceEchoType
        then Some (if addressed env fr then handleStoppedDistanceEcho env payload s else s)
      else if type = kStoppedDistanceCertType then Some (handleStoppedDistanceCert env payload s)
      else if type = kDecisionGossipType then Some (handleDecisionGossip env (fr_from fr) payload s)
      else if type = kArrivalAnnounceGossipType then handleArrivalAnnouncementGossip env payload s
      else if type = kResdbConsensusRelayType
        then Some (touch_vc_trigger env (handleResdbConsensusRelay env (fr_from fr) payload s))
      else if type = kCancelEchoType then handleCancelEcho env payload s
      else if type = kCancelCertType then handleCancelCert env (fr_from fr) payload s
      else if type = kCancelCommitGossipType then Some (handleCancelCommitGossip env (fr_from fr) payload s)
      else if type = kClearEchoType then handleClearEcho env payload s
      else if type = kClearCertType then handleClearCert env (fr_from fr) payload s
      else if type = kWaitHeartbeatType then Some (handleWaitHeartbeat env payload s)
      else if type = kResdbConsensusMsgType
        then Some (touch_vc_trigger env (handleResdbConsensusMessage env (fr_from fr) (fr_to fr) payload s))
      else Some s)"

definition onWSM :: "'d AppEnv \<Rightarrow> Frame \<Rightarrow> 'd AppState \<Rightarrow> 'd AppState option" where
  "onWSM env fr s =
     (if fr_from fr = cf_replicaId (ev_cfg env) then Some s
      else if ap_current_phase s = DEPARTED then Some s
      else if ap_crashCommsDisabled s then Some s
      else dispatch_frame env fr s)"

section \<open>Timers\<close>

text \<open>
  The announcement timer is the one whose object the code deletes and tests for null: \<open>None\<close> is no
  object, a past time an object that is not scheduled. If the announcement itself ended the
  round, the object is gone (or a new one is scheduled) and scheduling it raises.
\<close>

definition unscheduled :: "'d AppState \<Rightarrow> int option" where
  "unscheduled s = Some (ap_now s - 1)"

definition onAnnounceTimer :: "'d AppEnv \<Rightarrow> 'd AppState \<Rightarrow> 'd AppState" where
  "onAnnounceTimer env s0 =
     (let s = s0\<lparr>ap_announce_timer := unscheduled s0\<rparr> in
      if cx_pending (ap_cx s) \<and> \<not> cx_local_recallable (ap_cx s) then s\<lparr>ap_announce_timer := None\<rparr>
      else if \<not> ap_cert_broadcast s \<and> dr_state (ap_discovery s) = COLLECTING
      then (let s1 = broadcastArrivalAnnouncement env s
            in if ap_announce_timer s1 = unscheduled s0
               then s1\<lparr>ap_announce_timer := Some (ap_now s1 + ev_announcement_interval env)\<rparr>
               else call Call_raise s1)
      else s\<lparr>ap_announce_timer := None\<rparr>)"

definition onDeadlineTimer :: "'d AppEnv \<Rightarrow> 'd AppState \<Rightarrow> 'd AppState" where
  "onDeadlineTimer env s = maybeAdvanceDiscovery env True (s\<lparr>ap_deadline_timer := None\<rparr>)"

definition onSettleTimer :: "'d AppEnv \<Rightarrow> 'd AppState \<Rightarrow> 'd AppState" where
  "onSettleTimer env s = maybeAdvanceDiscovery env False (s\<lparr>ap_settle_timer := None\<rparr>)"

definition onAttestationRetryTimer :: "'d AppEnv \<Rightarrow> 'd AppState \<Rightarrow> 'd AppState" where
  "onAttestationRetryTimer env s = retryStoppedDistanceAttestation env (s\<lparr>ap_attestation_retry_timer := None\<rparr>)"

text \<open>The primary the consensus server reports is compared with the last one seen.\<close>

definition primary_changed :: "'d AppEnv \<Rightarrow> int \<Rightarrow> 'd AppState \<Rightarrow> 'd AppState" where
  "primary_changed env current s =
     (let s1 = s\<lparr>ap_last_known_primary := current\<rparr>;
          initial = (case ap_order_candidate s1 of Some c \<Rightarrow> oc_initialPrimary c | None \<Rightarrow> CertPrimary env s1);
          complete = (dr_state (ap_discovery s1) = COMPLETE);
          s2 = (if ap_order_vc_requested s1 \<or> (complete \<and> current \<noteq> initial)
                then s1\<lparr>ap_order_vc_authoritative := True\<rparr> else s1);
          open_round = (complete \<and> \<not> ap_order_applied s2 \<and> ap_current_phase s2 \<noteq> DEPARTED);
          s3 = (if current \<noteq> cf_replicaId (ev_cfg env) \<and> open_round then armOrderSuspicionTimer env s2 else s2);
          uncertified = (case ap_order_candidate s3 of None \<Rightarrow> False
            | Some c \<Rightarrow> \<not> binary_search (oc_voterIds c) current)
      in if open_round \<and> uncertified
         then call Call_forceViewChange (s3\<lparr>ap_order_vc_requested := True\<rparr>)
         else if current = cf_replicaId (ev_cfg env) \<and> open_round then evaluateOrderReadiness env s3
         else s3)"

definition poll_primary :: "'d AppEnv \<Rightarrow> 'd AppState \<Rightarrow> 'd AppState" where
  "poll_primary env s =
     (let current = ResdbOmnetGetPrimary (ap_server s) in
      if current = ap_last_known_primary s then s else primary_changed env current s)"

definition onTransportPoll :: "'d AppEnv \<Rightarrow> 'd AppState \<Rightarrow> 'd AppState option" where
  "onTransportPoll env s = map_option (poll_primary env) (processOrders env (drainOutboundQueue env s))"

datatype Timer = T_announce | T_cert_retry | T_finalize | T_distance_finalize | T_attestation_retry | T_flush
  | T_cert_gossip | T_gossip | T_cancel_gossip | T_cancel_cert_retry | T_clear_cert_retry | T_clear_candidate
  | T_clear_relay | T_wait_send | T_wait_expiry | T_deadline | T_settle | T_vc_trigger | T_cancel_vc
  | T_cancel_drain | T_stop_sign | T_consensus_timeout | T_resume | T_poll | T_consensus_retry | T_consensus_relay

text \<open>When a timer is due.\<close>

fun timer_time :: "Timer \<Rightarrow> 'd AppState \<Rightarrow> int option" where
  "timer_time T_announce s = ap_announce_timer s"
| "timer_time T_cert_retry s = ap_cert_retry_timer s"
| "timer_time T_finalize s = ap_finalize_timer s"
| "timer_time T_distance_finalize s = ap_distance_finalize_timer s"
| "timer_time T_attestation_retry s = ap_attestation_retry_timer s"
| "timer_time T_flush s = ap_flush_timer s"
| "timer_time T_cert_gossip s = ap_cert_gossip_timer s"
| "timer_time T_gossip s = gx_timer (ap_gx s)"
| "timer_time T_cancel_gossip s = cx_gossip_timer (ap_cx s)"
| "timer_time T_cancel_cert_retry s = cx_cert_retry_timer (ap_cx s)"
| "timer_time T_clear_cert_retry s = lx_retry_timer (ap_lx s)"
| "timer_time T_clear_candidate s = lx_candidate_timer (ap_lx s)"
| "timer_time T_clear_relay s = lx_relay_timer (ap_lx s)"
| "timer_time T_wait_send s = wx_send_timer (ap_wx s)"
| "timer_time T_wait_expiry s = wx_expiry_timer (ap_wx s)"
| "timer_time T_deadline s = ap_deadline_timer s"
| "timer_time T_settle s = ap_settle_timer s"
| "timer_time T_vc_trigger s = ap_vc_trigger s"
| "timer_time T_cancel_vc s = cx_vc_timer (ap_cx s)"
| "timer_time T_cancel_drain s = cx_drain_timer (ap_cx s)"
| "timer_time T_stop_sign s = gx_stop_sign_timer (ap_gx s)"
| "timer_time T_consensus_timeout s = gx_consensus_timer (ap_gx s)"
| "timer_time T_resume s = gx_resume_timer (ap_gx s)"
| "timer_time T_poll s = gx_poll_timer (ap_gx s)"
| "timer_time T_consensus_retry s = rl_retry_timer (ap_rx s)"
| "timer_time T_consensus_relay s = rl_timer (ap_rx s)"

fun handleSelfMsg :: "'d AppEnv \<Rightarrow> Timer \<Rightarrow> 'd AppState \<Rightarrow> 'd AppState option" where
  "handleSelfMsg env T_announce s = Some (onAnnounceTimer env s)"
| "handleSelfMsg env T_cert_retry s = Some (onCertRetryTimer env s)"
| "handleSelfMsg env T_finalize s = Some (onArrivalFinalizeTimer env s)"
| "handleSelfMsg env T_distance_finalize s = Some (onDistanceFinalizeTimer env s)"
| "handleSelfMsg env T_attestation_retry s = Some (onAttestationRetryTimer env s)"
| "handleSelfMsg env T_flush s = Some (onFlushTimer s)"
| "handleSelfMsg env T_cert_gossip s = Some (onCertGossipTimer env s)"
| "handleSelfMsg env T_gossip s = Some (onGossipTimer env s)"
| "handleSelfMsg env T_cancel_gossip s = Some (onCancelGossipTimer env s)"
| "handleSelfMsg env T_cancel_cert_retry s = Some (onCancelCertRetryTimer env s)"
| "handleSelfMsg env T_clear_cert_retry s = Some (onClearCertRetryTimer env s)"
| "handleSelfMsg env T_clear_candidate s = Some (onClearCandidateTimer env s)"
| "handleSelfMsg env T_clear_relay s = Some (onClearRelayTimer env s)"
| "handleSelfMsg env T_wait_send s = Some (onWaitSendTimer env s)"
| "handleSelfMsg env T_wait_expiry s = Some (onWaitExpiryTimer s)"
| "handleSelfMsg env T_deadline s = Some (onDeadlineTimer env s)"
| "handleSelfMsg env T_settle s = Some (onSettleTimer env s)"
| "handleSelfMsg env T_vc_trigger s = onVcTrigger env s"
| "handleSelfMsg env T_cancel_vc s = Some (onCancelVcTimer env s)"
| "handleSelfMsg env T_cancel_drain s = Some (onCancelDrainTimer env s)"
| "handleSelfMsg env T_stop_sign s = onStopSignTimeout env s"
| "handleSelfMsg env T_consensus_timeout s = onConsensusTimeout env s"
| "handleSelfMsg env T_resume s = Some (onResumeTimer s)"
| "handleSelfMsg env T_poll s = Some (onPollTimer env s)"
| "handleSelfMsg env T_consensus_retry s = Some (onConsensusRetryTimer env s)"
| "handleSelfMsg env T_consensus_relay s = Some (onConsensusRelayTimer env s)"

section \<open>Position, departure, crash\<close>

fun send_pending_relays :: "'d AppEnv \<Rightarrow> ((u32 \<times> string) \<times> PendingRelay) list \<Rightarrow> 'd AppState \<Rightarrow> 'd AppState" where
  "send_pending_relays env [] s = s"
| "send_pending_relays env ((k, pr) # prs) s = send_pending_relays env prs
     (if pr_relayCount pr \<ge> 3 \<or> om_get (ap_collected_certs s) (pr_carId pr) \<noteq> None then s
      else sendArrivalAnnouncementGossipPayload env (pr_carId pr) (pr_epoch pr) (pr_serializedAnnounce pr) s)"

definition enter_stop_zone :: "'d AppEnv \<Rightarrow> 'd AppState \<Rightarrow> 'd AppState" where
  "enter_stop_zone env s =
     (let s1 = s\<lparr>ap_entered_stop_zone := True, ap_current_phase := WAITING_FOR_CLEARANCE\<rparr>;
          s2 = (send_pending_relays env (ap_pending_relays s1) s1)\<lparr>ap_pending_relays := []\<rparr>;
          s3 = call Call_stopVehicle (startStopZoneCertGossip env True s2);
          s4 = s3\<lparr>ap_gx := (ap_gx s3)\<lparr>gx_stop_sign_timer := Some (ap_now s3 + ev_stop_sign_timeout env),
            gx_consensus_timer := Some (ap_now s3 + ev_consensus_timeout env)\<rparr>\<rparr>
      in maybeAdvanceDiscovery env False (armDiscoveryTimers env s4))"

definition handlePositionUpdate :: "'d AppEnv \<Rightarrow> 'd AppState \<Rightarrow> 'd AppState" where
  "handlePositionUpdate env s0 =
     (let s = (if ap_entered_stop_zone s0 \<and> \<not> ap_stopped_distance_attestation_sent s0 \<and>
            \<not> ap_propose_submitted s0 \<and> \<not> ap_order_applied s0
            then maybeBroadcastStoppedDistanceAttestation env s0 else s0);
          dist = ev_distanceToIntersection env (ap_now s)
      in if ap_order_applied s then s
         else if dist \<ge> ev_stop_distance env \<or> dist \<le> 0 then s
         else if ap_entered_stop_zone s then s
         else enter_stop_zone env s)"

definition recordIntersectionDeparture :: "'d AppState \<Rightarrow> 'd AppState" where
  "recordIntersectionDeparture s =
     (if ap_is_departed s then s
      else let s1 = clearConsensusRetries (s\<lparr>ap_is_departed := True, ap_current_phase := DEPARTED\<rparr>);
               s2 = call (Call_markReplicaInactive (ap_current_epoch s1 + 1)) (deactivateDiscovery s1)
        in s2\<lparr>ap_rx := (ap_rx s2)\<lparr>rl_outbound := []\<rparr>\<rparr>)"

definition disableCrashComms :: "'d AppState \<Rightarrow> 'd AppState" where
  "disableCrashComms s =
     (if ap_crashCommsDisabled s then s
      else let s1 = cancelStoppedDistanceFinalizeTimer (cancelArrivalCertFinalizeTimer (s\<lparr>ap_crashCommsDisabled := True\<rparr>));
               s2 = s1\<lparr>ap_rx := (ap_rx s1)\<lparr>rl_outbound := []\<rparr>, ap_pending_txs := [], ap_flush_timer := None\<rparr>;
               s3 = clearConsensusRetries (cancelClearCertRelay (cancelClearCertCandidate
                 (stopClearCertRetries (stopCancelCertRetries (stopCertBroadcastRetries s2)))));
               halted = (if ap_announce_timer s3 = None then None else unscheduled s3)
        in call Call_setPbftSilent (s3\<lparr>
             ap_gx := (ap_gx s3)\<lparr>gx_timer := None, gx_resume_timer := None, gx_poll_timer := None\<rparr>,
             ap_cx := (ap_cx s3)\<lparr>cx_gossip_timer := None\<rparr>, ap_cert_gossip_timer := None,
             ap_announce_timer := halted\<rparr>))"

section \<open>The transition system\<close>

text \<open>
  The components of discovery record their last action, the evaluation of readiness, as a call;
  it is carried out before the event ends.
\<close>

definition settle :: "'d AppEnv \<Rightarrow> 'd AppState \<Rightarrow> 'd AppState" where
  "settle env s =
     (if Call_evaluateOrderReadiness \<in> set (ap_calls s)
      then evaluateOrderReadiness env (s\<lparr>ap_calls := filter (\<lambda>c. c \<noteq> Call_evaluateOrderReadiness) (ap_calls s)\<rparr>)
      else s)"

text \<open>
  The consensus server runs on threads of its own: it hands packets to the outgoing queue,
  delivers decisions, and its own state changes between events. The first announcement and
  the poll of the server are events whose times are left open.
\<close>

inductive vehicle_step :: "'d AppEnv \<Rightarrow> 'd AppState \<Rightarrow> 'd AppState \<Rightarrow> bool" for env where
  passes: "ap_now s \<le> t \<Longrightarrow> vehicle_step env s (s\<lparr>ap_now := t\<rparr>)"
| server: "vehicle_step env s (s\<lparr>ap_server := st\<rparr>)"
| outbound: "vehicle_step env s (enqueueOutbound to_id data s)"
| decided: "vehicle_step env s (onOrderDecided dec s)"
| frame: "onWSM env fr s = Some t \<Longrightarrow> vehicle_step env s (settle env t)"
| timer: "timer_time tm s = Some (ap_now s) \<Longrightarrow> handleSelfMsg env tm s = Some t \<Longrightarrow> vehicle_step env s (settle env t)"
| poll: "onTransportPoll env s = Some t \<Longrightarrow> vehicle_step env s (settle env t)"
| announce: "vehicle_step env s (settle env (broadcastArrivalAnnouncement env s))"
| position: "vehicle_step env s (settle env (handlePositionUpdate env s))"
| departure: "vehicle_step env s (recordIntersectionDeparture s)"
| crash: "vehicle_step env s (disableCrashComms s)"

text \<open>The state after initialisation: the first round is open and the announcement timer armed.\<close>

definition initial_vehicle :: "'d AppEnv \<Rightarrow> BridgeState \<Rightarrow> 'd AppState" where
  "initial_vehicle env server =
     (let s = startDiscoveryRound env ((initial_app server)\<lparr>ap_last_known_primary := ResdbOmnetGetPrimary server\<rparr>)
      in s\<lparr>ap_announce_timer := Some (ap_now s + ev_announcement_interval env)\<rparr>)"

end
