(* ===== verification/Road.thy ===== *)
theory Road
  imports AppState
begin

text \<open>
  What the program reads of the road (\<^verbatim>\<open>v2vbft/app/ResDBTraCI.cc\<close>). SUMO is behind the TraCI
  interface: a \<open>Traffic\<close> is what its queries return at one time, and a query about a vehicle or a
  lane it does not know throws. \<open>None\<close> for the traffic is a vehicle without mobility or command
  interface. Positions, lengths and speeds are rationals, and an infinite speed is \<open>None\<close>.
\<close>

section \<open>The simulator's answers\<close>

record Car =
  car_id :: string
  car_road :: string
  car_lane :: string
  car_pos :: rat
  car_speed :: rat
  car_lane_index :: int
  car_xy :: "rat \<times> rat"
  car_left :: bool
  car_right :: bool
  car_emergency :: bool

record Traffic =
  tr_cars :: "Car list"
  tr_lane_length :: "string \<Rightarrow> rat option"
  tr_lane_shape :: "string \<Rightarrow> (rat \<times> rat) list option"

definition traci_vehicle :: "Traffic \<Rightarrow> string \<Rightarrow> Car option" where
  "traci_vehicle tr carId = find (\<lambda>c. car_id c = carId) (tr_cars tr)"

definition toupper :: "char \<Rightarrow> char" where
  "toupper c = (let n = of_char c :: nat in if 97 \<le> n \<and> n \<le> 122 then char_of (n - 32) else c)"

text \<open>Outgoing edges are C2N, C2S, C2E and C2W; a lane inside the junction begins with a colon.\<close>

fun onDepartureLeg :: "string \<Rightarrow> bool" where
  "onDepartureLeg (a # b # _) \<longleftrightarrow> toupper a = CHR ''C'' \<and> toupper b = CHR ''2''"
| "onDepartureLeg _ \<longleftrightarrow> False"

definition internal_lane :: "string \<Rightarrow> bool" where
  "internal_lane lane \<longleftrightarrow> lane \<noteq> [] \<and> hd lane = CHR '':''"

section \<open>Where a vehicle is\<close>

definition kFarAway :: rat where "kFarAway = 10000000000"

definition getDistanceToIntersection :: "int \<Rightarrow> Traffic option \<Rightarrow> rat" where
  "getDistanceToIntersection me rd =
     (case rd of None \<Rightarrow> kFarAway | Some tr \<Rightarrow>
       (case traci_vehicle tr (veh me) of None \<Rightarrow> kFarAway | Some c \<Rightarrow>
         if car_lane c = [] \<or> internal_lane (car_lane c) then 0
         else case tr_lane_length tr (car_lane c) of None \<Rightarrow> kFarAway
           | Some len \<Rightarrow> max 0 (len - car_pos c)))"

text \<open>The caller tests first whether the vehicle has departed.\<close>

definition isInOrPastConflictBox :: "int \<Rightarrow> Traffic option \<Rightarrow> bool" where
  "isInOrPastConflictBox me rd =
     (case rd of None \<Rightarrow> True | Some tr \<Rightarrow>
       (case traci_vehicle tr (veh me) of None \<Rightarrow> True
        | Some c \<Rightarrow> car_lane c = [] \<or> internal_lane (car_lane c) \<or> onDepartureLeg (car_road c)))"

definition kMinMetersOnDeparture :: rat where "kMinMetersOnDeparture = 3"

definition vehicleHasClearedIntersectionTraCI :: "Traffic option \<Rightarrow> string \<Rightarrow> bool" where
  "vehicleHasClearedIntersectionTraCI rd carId =
     (case rd of None \<Rightarrow> False | Some tr \<Rightarrow>
       if carId \<notin> set (map car_id (tr_cars tr)) then True
       else case traci_vehicle tr carId of None \<Rightarrow> True | Some c \<Rightarrow>
         if car_lane c = [] then False
         else if internal_lane (car_lane c) then False
         else onDepartureLeg (car_road c) \<and> car_pos c \<ge> kMinMetersOnDeparture)"

definition vehicleInConflictBoxTraCI :: "Traffic option \<Rightarrow> string \<Rightarrow> bool" where
  "vehicleInConflictBoxTraCI rd carId =
     (case rd of None \<Rightarrow> False | Some tr \<Rightarrow>
       if carId \<notin> set (map car_id (tr_cars tr)) then False
       else case traci_vehicle tr carId of None \<Rightarrow> False | Some c \<Rightarrow> internal_lane (car_lane c))"

definition anyVehicleInConflictBoxTraCI :: "Traffic option \<Rightarrow> bool" where
  "anyVehicleInConflictBoxTraCI rd =
     (case rd of None \<Rightarrow> False | Some tr \<Rightarrow> list_ex (\<lambda>vid.
       case traci_vehicle tr vid of None \<Rightarrow> True | Some c \<Rightarrow> internal_lane (car_lane c)) (map car_id (tr_cars tr)))"

definition vehicleSpeedTraCI :: "Traffic option \<Rightarrow> string \<Rightarrow> rat option" where
  "vehicleSpeedTraCI rd carId =
     (case rd of None \<Rightarrow> None | Some tr \<Rightarrow>
       if carId \<notin> set (map car_id (tr_cars tr)) then None
       else map_option car_speed (traci_vehicle tr carId))"

definition vehicleDistanceToStopTraCI :: "Traffic option \<Rightarrow> string \<Rightarrow> rat" where
  "vehicleDistanceToStopTraCI rd carId =
     (case rd of None \<Rightarrow> - 1 | Some tr \<Rightarrow>
       (case traci_vehicle tr carId of None \<Rightarrow> - 1 | Some c \<Rightarrow>
         if car_lane c = [] \<or> internal_lane (car_lane c) then - 1
         else case tr_lane_length tr (car_lane c) of None \<Rightarrow> - 1
           | Some len \<Rightarrow> max 0 (len - car_pos c)))"

text \<open>The own speed of the recall test, 0 when it cannot be read.\<close>

definition own_speed :: "int \<Rightarrow> Traffic option \<Rightarrow> rat" where
  "own_speed me rd = (case vehicleSpeedTraCI rd (veh me) of None \<Rightarrow> 0 | Some v \<Rightarrow> v)"

definition crash_speed_eps :: rat where "crash_speed_eps = 1 / 10"

definition distance_stationary_speed_mps :: rat where "distance_stationary_speed_mps = 1 / 10"

definition vehicle_halted :: "Traffic option \<Rightarrow> string \<Rightarrow> bool" where
  "vehicle_halted rd carId = (case vehicleSpeedTraCI rd carId of None \<Rightarrow> False | Some v \<Rightarrow> v < crash_speed_eps)"

text \<open>The own stopping distance that is attested: stationary and on an approach lane.\<close>

definition own_stopped_distance :: "int \<Rightarrow> Traffic option \<Rightarrow> rat option" where
  "own_stopped_distance me rd =
     (case vehicleSpeedTraCI rd (veh me) of None \<Rightarrow> None | Some v \<Rightarrow>
       if v > distance_stationary_speed_mps then None
       else case rd of None \<Rightarrow> None | Some tr \<Rightarrow>
         (case traci_vehicle tr (veh me) of None \<Rightarrow> None | Some c \<Rightarrow>
           if car_lane c = [] \<or> internal_lane (car_lane c) then None
           else map_option (\<lambda>len. max 0 (len - car_pos c)) (tr_lane_length tr (car_lane c))))"

definition own_laneId :: "int \<Rightarrow> Traffic option \<Rightarrow> string" where
  "own_laneId me rd = (case rd of None \<Rightarrow> [] | Some tr \<Rightarrow>
     (case traci_vehicle tr (veh me) of None \<Rightarrow> [] | Some c \<Rightarrow> car_lane c))"

section \<open>The queue of the own lane\<close>

record LaneView =
  lv_discovered :: bool
  lv_lane_id :: string
  lv_queue :: "string list"
  lv_car_ahead :: string
  lv_car_ahead_stop_pos :: rat

definition initial_lane_view :: LaneView where
  "initial_lane_view = \<lparr>lv_discovered = False, lv_lane_id = [], lv_queue = [], lv_car_ahead = [], lv_car_ahead_stop_pos = - 1\<rparr>"

definition in_lane :: "Traffic \<Rightarrow> string \<Rightarrow> (rat \<times> string) list" where
  "in_lane tr lane = map (\<lambda>c. (car_pos c, car_id c)) (filter (\<lambda>c. car_lane c = lane) (tr_cars tr))"

text \<open>The search for the immediate leader; \<open>None\<close> is the infinite \<open>bestAbove\<close>.\<close>

fun leader_scan :: "rat \<Rightarrow> (rat \<times> string) list \<Rightarrow> (rat \<times> string) option \<Rightarrow> (rat \<times> string) option" where
  "leader_scan mypos [] best = best"
| "leader_scan mypos ((pos, cid) # cars) best =
     leader_scan mypos cars
       (if pos > mypos \<and> (case best of None \<Rightarrow> True | Some (b, _) \<Rightarrow> pos < b) then Some (pos, cid) else best)"

text \<open>The vehicle is present: a query that throws leaves \<open>discoverLane\<close> and is not caught there.\<close>

definition discoverLane :: "int \<Rightarrow> Traffic \<Rightarrow> LaneView \<Rightarrow> LaneView option" where
  "discoverLane me tr lv =
     (if lv_discovered lv then Some lv
      else case traci_vehicle tr (veh me) of None \<Rightarrow> None
      | Some c \<Rightarrow>
          let cars = in_lane tr (car_lane c); lead = leader_scan (car_pos c) cars None
          in Some \<lparr>lv_discovered = True, lv_lane_id = car_lane c,
               lv_queue = map snd (sort_key (\<lambda>p. - fst p) cars),
               lv_car_ahead = (case lead of None \<Rightarrow> [] | Some (_, cid) \<Rightarrow> cid),
               lv_car_ahead_stop_pos = (case lead of None \<Rightarrow> - 1 | Some (pos, _) \<Rightarrow> pos)\<rparr>)"

end
