(* ===== verification/Perception.thy ===== *)
theory Perception
  imports Road Arrival
begin

text \<open>
  The noisy view of another vehicle (\<^verbatim>\<open>v2vbft/app/ResDBPerception.cc\<close>): the approach sampled from a
  confusion matrix, the indicator cue, the lateral coordinate in the frame of the lane pair and
  the stopped distance. The random number generator is a parameter, the result of its \<open>k\<close>-th use;
  the number of uses is the state (\<open>random_draw_count_\<close>). So is \<open>std::hypot\<close>, which rounds.
\<close>

section \<open>Configuration\<close>

record Rng =
  rg_double :: "nat \<Rightarrow> rat"
  rg_int :: "nat \<Rightarrow> nat \<Rightarrow> nat"
  rg_normal :: "nat \<Rightarrow> rat \<Rightarrow> rat"

record Sensor =
  pc_rng :: "Rng option"
  pc_hypot :: "rat \<Rightarrow> rat \<Rightarrow> rat"
  pc_matrix :: "rat list"
  pc_approach_sigma :: rat
  pc_signal_error :: rat
  pc_lateral_sigma :: rat
  pc_longitudinal_sigma :: rat
  pc_adjacent :: bool
  pc_separation :: rat

section \<open>Sampling\<close>

definition readNativeCue :: "Car \<Rightarrow> ObservedCue" where
  "readNativeCue c =
     (if car_emergency c \<or> (car_left c \<and> car_right c) then CUE_UNKNOWN
      else if car_left c then CUE_LEFT else if car_right c then CUE_RIGHT else CUE_STRAIGHT)"

definition approachIndex :: "char \<Rightarrow> int" where
  "approachIndex c = (if c = CHR ''N'' then 0 else if c = CHR ''S'' then 1 else if c = CHR ''E'' then 2
     else if c = CHR ''W'' then 3 else - 1)"

definition approachChar :: "nat \<Rightarrow> char" where
  "approachChar i = (if i < 4 then [CHR ''N'', CHR ''S'', CHR ''E'', CHR ''W''] ! i else CHR ''?'')"

definition matrix_row :: "Sensor \<Rightarrow> nat \<Rightarrow> rat list" where
  "matrix_row pc row = take 4 (drop (row * 4) (pc_matrix pc))"

definition identity_row :: "Sensor \<Rightarrow> nat \<Rightarrow> bool" where
  "identity_row pc row \<longleftrightarrow> list_all (\<lambda>col.
     \<bar>matrix_row pc row ! col - (if col = row then 1 else 0)\<bar> \<le> 1 / 1000000000000) [0..<4]"

fun pick_column :: "rat \<Rightarrow> rat \<Rightarrow> nat \<Rightarrow> rat list \<Rightarrow> char" where
  "pick_column draw cumulative col [] = CHR ''?''"
| "pick_column draw cumulative col (p # ps) =
     (if draw \<le> cumulative + p \<or> col = 3 then approachChar col
      else pick_column draw (cumulative + p) (col + 1) ps)"

definition sampleApproach :: "Sensor \<Rightarrow> char \<Rightarrow> nat \<Rightarrow> char \<times> nat" where
  "sampleApproach pc truth n =
     (if approachIndex truth < 0 then (CHR ''?'', n)
      else let row = nat (approachIndex truth) in
        if pc_approach_sigma pc = 0 \<and> identity_row pc row then (truth, n)
        else case pc_rng pc of None \<Rightarrow> (CHR ''?'', n)
          | Some rng \<Rightarrow> (pick_column (rg_double rng n) 0 0 (matrix_row pc row), n + 1))"

definition sampleCue :: "Sensor \<Rightarrow> ObservedCue \<Rightarrow> nat \<Rightarrow> ObservedCue \<times> nat" where
  "sampleCue pc truth n =
     (if truth = CUE_UNKNOWN \<or> pc_signal_error pc = 0 then (truth, n)
      else case pc_rng pc of None \<Rightarrow> (CUE_UNKNOWN, n)
        | Some rng \<Rightarrow>
            if rg_double rng n \<ge> pc_signal_error pc then (truth, n + 1)
            else (filter (\<lambda>cue. cue \<noteq> truth) [CUE_STRAIGHT, CUE_LEFT, CUE_RIGHT] ! rg_int rng (n + 1) 2, n + 2))"

definition sampleGaussian :: "Sensor \<Rightarrow> rat \<Rightarrow> nat \<Rightarrow> rat \<times> nat" where
  "sampleGaussian pc sigma n =
     (if sigma = 0 then (0, n)
      else case pc_rng pc of None \<Rightarrow> (0, n) | Some rng \<Rightarrow> (rg_normal rng n sigma, n + 1))"

section \<open>The frame of a lane pair\<close>

record LaneFrame =
  lf_origin :: "rat \<times> rat"
  lf_normal :: "rat \<times> rat"
  lf_separation :: rat

definition deriveAdjacentLaneFrame :: "Sensor \<Rightarrow> Traffic option \<Rightarrow> string \<Rightarrow> LaneFrame option" where
  "deriveAdjacentLaneFrame pc rd laneId =
     (case rd of None \<Rightarrow> None | Some tr \<Rightarrow>
       if laneId = [] \<or> internal_lane laneId then None
       else case lane_prefix laneId of None \<Rightarrow> None | Some laneBase \<Rightarrow>
         (case (tr_lane_shape tr (laneBase @ ''0''), tr_lane_shape tr (laneBase @ ''1'')) of
            (Some (lane0 # _), Some (lane1 # _)) \<Rightarrow>
              let dx = fst lane1 - fst lane0; dy = snd lane1 - snd lane0; separation = pc_hypot pc dx dy
              in if separation \<le> 0 then None
                 else Some \<lparr>lf_origin = lane0, lf_normal = (dx / separation, dy / separation), lf_separation = separation\<rparr>
          | _ \<Rightarrow> None))"

definition lateral_coordinate :: "LaneFrame \<Rightarrow> rat \<times> rat \<Rightarrow> rat" where
  "lateral_coordinate fr p =
     (fst p - fst (lf_origin fr)) * fst (lf_normal fr) + (snd p - snd (lf_origin fr)) * snd (lf_normal fr)"

text \<open>\<open>std::llround\<close>, half away from zero, and the cast to 32 bits.\<close>

definition centimetres :: "rat \<Rightarrow> int" where
  "centimetres m =
     (let q = m * 100; r = (if q \<ge> 0 then \<lfloor>q + 1 / 2\<rfloor> else - \<lfloor>1 / 2 - q\<rfloor>) in sint (word_of_int r :: u32))"

definition ownLateralClaimCm :: "Sensor \<Rightarrow> int \<Rightarrow> Traffic option \<Rightarrow> int" where
  "ownLateralClaimCm pc me rd =
     (if \<not> pc_adjacent pc then 0
      else case rd of None \<Rightarrow> 0 | Some tr \<Rightarrow>
        (case traci_vehicle tr (veh me) of None \<Rightarrow> 0 | Some c \<Rightarrow>
          (case deriveAdjacentLaneFrame pc rd (car_lane c) of None \<Rightarrow> 0
           | Some fr \<Rightarrow> centimetres (lateral_coordinate fr (car_xy c)))))"

section \<open>Observation\<close>

text \<open>The approach: the first letter of the road, of the lane when the road names none.\<close>

definition true_approach :: "Car \<Rightarrow> char option" where
  "true_approach c =
     (case car_road c of [] \<Rightarrow> None | r # _ \<Rightarrow>
       if approachIndex (toupper r) \<ge> 0 then Some (toupper r)
       else case car_lane c of [] \<Rightarrow> None
         | l # _ \<Rightarrow> if approachIndex (toupper l) \<ge> 0 then Some (toupper l) else None)"

definition observe_lateral ::
  "Sensor \<Rightarrow> Traffic option \<Rightarrow> Car \<Rightarrow> ArrivalPerceptionSample \<Rightarrow> nat \<Rightarrow> (ArrivalPerceptionSample \<times> nat) option" where
  "observe_lateral pc rd c sample n =
     (if \<not> pc_adjacent pc then Some (sample, n)
      else case deriveAdjacentLaneFrame pc rd (car_lane c) of None \<Rightarrow> None
      | Some fr \<Rightarrow>
          if \<bar>lf_separation fr - pc_separation pc\<bar> > 1 / 100 then None
          else let lateral = lateral_coordinate fr (car_xy c); (noise, n1) = sampleGaussian pc (pc_lateral_sigma pc) n
            in Some (sample\<lparr>ps_trueLateralCm := centimetres lateral, ps_observedLateralCm := centimetres (lateral + noise),
                 ps_lateralCoordinateValid := True\<rparr>, n1))"

definition observe_cue :: "Sensor \<Rightarrow> Car \<Rightarrow> ArrivalPerceptionSample \<Rightarrow> nat \<Rightarrow> ArrivalPerceptionSample \<times> nat" where
  "observe_cue pc c sample n =
     (let (cue, n1) = sampleCue pc (readNativeCue c) n
      in (sample\<lparr>ps_trueCue := readNativeCue c, ps_observedCue := cue,
            ps_knownCueSamples := (if cue = CUE_UNKNOWN then 0 else 1)\<rparr>, n1))"

text \<open>The length of an approach lane is read before the cue, and an exception leaves the sample as it is.\<close>

definition observeArrival ::
  "Sensor \<Rightarrow> Traffic option \<Rightarrow> string \<Rightarrow> int \<Rightarrow> nat \<Rightarrow> ArrivalPerceptionSample \<times> nat" where
  "observeArrival pc rd carId now n =
     (let s0 = empty_sample\<lparr>ps_observedAt := now\<rparr> in
      case rd of None \<Rightarrow> (s0, n) | Some tr \<Rightarrow>
        (case traci_vehicle tr carId of None \<Rightarrow> (s0, n) | Some c \<Rightarrow>
          (case true_approach c of None \<Rightarrow> (s0, n) | Some approach \<Rightarrow>
            let (seen, n1) = sampleApproach pc approach n;
                s1 = s0\<lparr>ps_detected := True, ps_trueApproach := approach, ps_observedApproach := seen\<rparr>
            in case observe_lateral pc rd c s1 n1 of None \<Rightarrow> (s1, n1)
            | Some (s2, n2) \<Rightarrow>
                if car_lane c \<noteq> [] \<and> \<not> internal_lane (car_lane c) \<and> tr_lane_length tr (car_lane c) = None then (s2, n2)
                else observe_cue pc c s2 n2)))"

definition observeStoppedDistance ::
  "Sensor \<Rightarrow> Traffic option \<Rightarrow> string \<Rightarrow> nat \<Rightarrow> StoppedDistancePerceptionSample \<times> nat" where
  "observeStoppedDistance pc rd carId n =
     (case rd of None \<Rightarrow> (empty_stopped_sample, n) | Some tr \<Rightarrow>
       (case traci_vehicle tr carId of None \<Rightarrow> (empty_stopped_sample, n) | Some c \<Rightarrow>
         let s1 = empty_stopped_sample\<lparr>ss_detected := True, ss_stationary := (car_speed c \<le> distance_stationary_speed_mps)\<rparr>
         in if car_lane c = [] \<or> internal_lane (car_lane c) then (s1, n)
            else case tr_lane_length tr (car_lane c) of None \<Rightarrow> (s1, n)
              | Some len \<Rightarrow>
                  let (noise, n1) = sampleGaussian pc (pc_longitudinal_sigma pc) n;
                      observed = max 0 (max 0 (len - car_pos c) + noise)
                  in (s1\<lparr>ss_observedCm := centimetres observed, ss_distanceValid := True\<rparr>, n1)))"

section \<open>Validating the configuration\<close>

text \<open>
  The arguments of \<open>configure\<close>, with the numbers read from the matrix text; \<open>None\<close> is a
  \<open>cRuntimeError\<close>, which stops the simulation.
\<close>

definition stochastic_row :: "rat list \<Rightarrow> bool" where
  "stochastic_row ps \<longleftrightarrow> list_all (\<lambda>p. 0 \<le> p \<and> p \<le> 1) ps \<and> \<bar>sum_list ps - 1\<bar> \<le> 1 / 1000000000"

definition configured_frame :: "Sensor \<Rightarrow> int \<Rightarrow> Traffic option \<Rightarrow> Sensor option" where
  "configured_frame pc me rd =
     (if \<not> pc_adjacent pc then Some pc
      else case rd of None \<Rightarrow> None | Some tr \<Rightarrow>
        (case traci_vehicle tr (veh me) of None \<Rightarrow> None | Some c \<Rightarrow>
          (case deriveAdjacentLaneFrame pc rd (car_lane c) of None \<Rightarrow> None
           | Some fr \<Rightarrow>
               if \<bar>lf_separation fr - pc_separation pc\<bar> > 1 / 100 then None
               else if pc_hypot pc (fst (lf_normal fr)) (snd (lf_normal fr)) \<le> 0 then None
               else Some (pc\<lparr>pc_separation := lf_separation fr\<rparr>))))"

definition configure :: "Sensor \<Rightarrow> int \<Rightarrow> Traffic option \<Rightarrow> Sensor option" where
  "configure pc0 me rd =
     (case configured_frame pc0 me rd of None \<Rightarrow> None | Some pc \<Rightarrow>
       if pc_approach_sigma pc < 0 then None
       else if pc_signal_error pc < 0 \<or> pc_signal_error pc > 1 then None
       else if pc_lateral_sigma pc < 0 \<or> pc_longitudinal_sigma pc < 0 then None
       else if pc_adjacent pc \<and> pc_separation pc \<le> 0 then None
       else if length (pc_matrix pc) \<noteq> 16 then None
       else if list_all (\<lambda>row. stochastic_row (matrix_row pc row)) [0..<4] then Some pc else None)"

section \<open>A vehicle that senses the road\<close>

text \<open>
  The environment of replica \<open>me\<close> when the road at time \<open>t\<close> is \<open>rd t\<close>: the queries of
  \<open>ResDBTraCI.cc\<close> and the observations of its sensor, of which \<open>uses\<close> counts the random numbers
  drawn before.
\<close>

definition road_env :: "(int \<Rightarrow> Traffic option) \<Rightarrow> 'd AppEnv \<Rightarrow> 'd AppEnv" where
  "road_env rd env = (let me = cf_replicaId (ev_cfg env) in env\<lparr>
     ev_hasCleared := (\<lambda>t. vehicleHasClearedIntersectionTraCI (rd t)),
     ev_inBox := (\<lambda>t. vehicleInConflictBoxTraCI (rd t)), ev_anyInBox := (\<lambda>t. anyVehicleInConflictBoxTraCI (rd t)),
     ev_halted := (\<lambda>t. vehicle_halted (rd t)), ev_inOrPastConflictBox := (\<lambda>t. isInOrPastConflictBox me (rd t)),
     ev_distanceToIntersection := (\<lambda>t. getDistanceToIntersection me (rd t)), ev_speed := (\<lambda>t. own_speed me (rd t)),
     ev_own_distance := (\<lambda>t. own_stopped_distance me (rd t)), ev_own_laneId := (\<lambda>t. own_laneId me (rd t))\<rparr>)"

definition sensor_env ::
  "Sensor \<Rightarrow> (int \<Rightarrow> Traffic option) \<Rightarrow> (string \<Rightarrow> int \<Rightarrow> nat) \<Rightarrow> 'd AppEnv \<Rightarrow> 'd AppEnv" where
  "sensor_env pc rd uses env = (let me = cf_replicaId (ev_cfg env) in (road_env rd env)\<lparr>
     ev_cfg := (ev_cfg env)\<lparr>cf_adjacent_lateral_enabled := pc_adjacent pc, cf_adjacent_lane_separation_m := pc_separation pc\<rparr>,
     ev_observeArrival := (\<lambda>carId t. fst (observeArrival pc (rd t) carId t (uses carId t))),
     ev_observeStoppedDistance := (\<lambda>carId t. fst (observeStoppedDistance pc (rd t) carId (uses carId t))),
     ev_own_lateral_cm := (\<lambda>t. ownLateralClaimCm pc me (rd t))\<rparr>)"

end
