(* ===== verification/RoadCorrect.thy ===== *)
theory RoadCorrect
  imports Perception
begin

text \<open>
  What the queries of the road say: the position a vehicle announces counts the vehicles ahead
  of it in its lane, and a vehicle that has cleared the intersection is not in the box.
\<close>

section \<open>Clearance and the box\<close>

lemma in_box_not_cleared:
  "vehicleInConflictBoxTraCI rd carId \<Longrightarrow> \<not> vehicleHasClearedIntersectionTraCI rd carId"
  by (auto simp: vehicleInConflictBoxTraCI_def vehicleHasClearedIntersectionTraCI_def internal_lane_def
      split: option.splits if_splits)

lemma cleared_iff:
  "vehicleHasClearedIntersectionTraCI rd carId \<longleftrightarrow> (\<exists>tr. rd = Some tr \<and>
     (case traci_vehicle tr carId of None \<Rightarrow> True
      | Some c \<Rightarrow> car_lane c \<noteq> [] \<and> \<not> internal_lane (car_lane c) \<and> onDepartureLeg (car_road c) \<and> car_pos c \<ge> 3))"
proof -
  have "carId \<notin> set (map car_id (tr_cars tr)) \<longleftrightarrow> traci_vehicle tr carId = None" for tr
    by (auto simp: traci_vehicle_def find_None_iff)
  then show ?thesis
    by (auto simp: vehicleHasClearedIntersectionTraCI_def kMinMetersOnDeparture_def split: option.splits)
qed

section \<open>The lane queue\<close>

lemma index_in_nth:
  "distinct xs \<Longrightarrow> k < length xs \<Longrightarrow> index_in xs (xs ! k) i = Some (i + int k)"
proof (induction xs arbitrary: i k)
  case (Cons x xs)
  then show ?case by (cases k) auto
qed simp

lemma leader_scan_None: "leader_scan m xs best = None \<longleftrightarrow> best = None \<and> (\<forall>p\<in>set xs. fst p \<le> m)"
  by (induction m xs best rule: leader_scan.induct) auto

lemma leader_scan_Some:
  assumes "leader_scan m xs best = Some q"
  shows "(q \<in> set xs \<and> fst q > m \<or> best = Some q) \<and> (\<forall>p\<in>set xs. fst p > m \<longrightarrow> fst q \<le> fst p) \<and>
    (\<forall>b. best = Some b \<longrightarrow> fst q \<le> fst b)"
  using assms
proof (induction m xs best rule: leader_scan.induct)
  case (2 m pos cid cars best)
  define best' where "best' = (if pos > m \<and> (case best of None \<Rightarrow> True | Some (b, _) \<Rightarrow> pos < b) then Some (pos, cid) else best)"
  have "leader_scan m cars best' = Some q" using "2.prems" by (simp add: best'_def)
  note IH = "2.IH" [OF this [unfolded best'_def], folded best'_def]
  show ?case using IH by (cases best) (auto simp: best'_def split: if_splits)
qed auto

text \<open>Cars of one lane at different places, sorted with the front first.\<close>

definition front_first :: "(rat \<times> string) list \<Rightarrow> bool" where
  "front_first ys \<longleftrightarrow> sorted_wrt (\<lambda>p q. fst p > fst q) ys"

lemma sort_front_first:
  assumes "distinct xs" and "inj_on fst (set xs)"
  shows "front_first (sort_key (\<lambda>p. - fst p) xs)"
proof -
  let ?ys = "sort_key (\<lambda>p. - fst p :: rat) xs"
  have d: "distinct ?ys" using assms(1) by simp
  have s: "sorted_wrt (\<lambda>p q. - fst p \<le> - fst q) ?ys"
    using sorted_sort_key [of "\<lambda>p. - fst p" xs] by (simp add: sorted_map)
  have "fst (?ys ! i) > fst (?ys ! j)" if "i < j" "j < length ?ys" for i j
  proof -
    have "?ys ! i \<in> set xs" "?ys ! j \<in> set xs" using that nth_mem [of _ ?ys] by simp_all
    moreover have "?ys ! i \<noteq> ?ys ! j" using d that by (simp add: nth_eq_iff_index_eq)
    ultimately have "fst (?ys ! i) \<noteq> fst (?ys ! j)" using inj_onD [OF assms(2)] by blast
    moreover have "- fst (?ys ! i) \<le> - fst (?ys ! j)" using s that by (simp add: sorted_wrt_iff_nth_less)
    ultimately show ?thesis by simp
  qed
  then show ?thesis by (simp add: front_first_def sorted_wrt_iff_nth_less)
qed

lemma ahead_take:
  assumes "front_first ys" and "k < length ys"
  shows "{p \<in> set ys. fst p > fst (ys ! k)} = set (take k ys)"
proof -
  have s: "\<And>i j. i < j \<Longrightarrow> j < length ys \<Longrightarrow> fst (ys ! i) > fst (ys ! j)"
    using assms(1) by (simp add: front_first_def sorted_wrt_iff_nth_less)
  show ?thesis
  proof (intro set_eqI iffI)
    fix p assume "p \<in> {p \<in> set ys. fst p > fst (ys ! k)}"
    then obtain i where "i < length ys" "p = ys ! i" "fst p > fst (ys ! k)" by (auto simp: in_set_conv_nth)
    moreover from this have "i < k" using s [of k i] by (cases i k rule: linorder_cases) auto
    ultimately show "p \<in> set (take k ys)" using assms(2) by (auto simp: in_set_conv_nth intro!: exI [of _ i])
  next
    fix p assume "p \<in> set (take k ys)"
    then obtain i where "i < k" "p = ys ! i" using assms(2) by (auto simp: in_set_conv_nth)
    then show "p \<in> {p \<in> set ys. fst p > fst (ys ! k)}" using s [of i k] assms(2) by auto
  qed
qed

lemma lane_cars:
  assumes "distinct (map car_id (tr_cars tr))" and "inj_on car_pos {d \<in> set (tr_cars tr). car_lane d = lane}"
  shows "distinct (map snd (in_lane tr lane))" "inj_on fst (set (in_lane tr lane))"
proof -
  have "map snd (in_lane tr lane) = map car_id (filter (\<lambda>c. car_lane c = lane) (tr_cars tr))"
    by (simp add: in_lane_def comp_def)
  then show "distinct (map snd (in_lane tr lane))" using assms(1) by (simp add: distinct_map_filter)
  show "inj_on fst (set (in_lane tr lane))"
    using assms(2) by (auto simp: in_lane_def inj_on_def)
qed

text \<open>The number of vehicles of the same lane that are closer to the intersection.\<close>

definition cars_ahead :: "Traffic \<Rightarrow> Car \<Rightarrow> Car set" where
  "cars_ahead tr c = {d \<in> set (tr_cars tr). car_lane d = car_lane c \<and> car_pos d > car_pos c}"

lemma ahead_card:
  assumes "inj_on car_pos {d \<in> set (tr_cars tr). car_lane d = car_lane c}"
  shows "card {p \<in> set (in_lane tr (car_lane c)). fst p > car_pos c} = card (cars_ahead tr c)"
proof -
  have "{p \<in> set (in_lane tr (car_lane c)). fst p > car_pos c} = (\<lambda>d. (car_pos d, car_id d)) ` cars_ahead tr c"
    by (auto simp: in_lane_def cars_ahead_def)
  moreover have "inj_on (\<lambda>d. (car_pos d, car_id d)) (cars_ahead tr c)"
    using assms by (auto simp: inj_on_def cars_ahead_def)
  ultimately show ?thesis by (simp add: card_image)
qed

lemma discovered_queue:
  assumes "discoverLane me tr lv = Some lv'" and "\<not> lv_discovered lv" and "traci_vehicle tr (veh me) = Some c"
    and "distinct (map car_id (tr_cars tr))" and "inj_on car_pos {d \<in> set (tr_cars tr). car_lane d = car_lane c}"
  obtains ys where "front_first ys" and "set ys = set (in_lane tr (car_lane c))" and "lv_queue lv' = map snd ys"
    and "distinct (map snd ys)" and "card (cars_ahead tr c) < length ys"
    and "ys ! card (cars_ahead tr c) = (car_pos c, veh me)"
proof -
  define xs ys where "xs = in_lane tr (car_lane c)" and "ys = sort_key (\<lambda>p. - fst p) xs"
  have d: "distinct (map snd xs)" "inj_on fst (set xs)" using lane_cars [OF assms(4,5)] by (simp_all add: xs_def)
  then have ff: "front_first ys" unfolding ys_def by (intro sort_front_first) (simp_all add: distinct_map)
  have ds: "distinct (map snd ys)" using d(1) by (simp add: ys_def distinct_map)
  have c: "c \<in> set (tr_cars tr)" "car_id c = veh me"
    using assms(3) by (auto simp: traci_vehicle_def find_Some_iff)
  then have "(car_pos c, veh me) \<in> set ys" by (auto simp: ys_def xs_def in_lane_def)
  then obtain k where k: "k < length ys" "ys ! k = (car_pos c, veh me)" by (auto simp: in_set_conv_nth)
  have "card (set (take k ys)) = k" using ds k(1) by (simp add: distinct_card distinct_map)
  then have "card (cars_ahead tr c) = k"
    using ahead_take [OF ff k(1)] ahead_card [OF assms(5)] k(2) by (simp add: ys_def xs_def)
  moreover have "lv_queue lv' = map snd ys"
    using assms(1-3) by (auto simp: discoverLane_def Let_def ys_def xs_def)
  ultimately show thesis using that [of ys] ff ds k by (simp add: ys_def xs_def)
qed

lemma lane_queue_rank:
  assumes "discoverLane me tr lv = Some lv'" and "\<not> lv_discovered lv" and "traci_vehicle tr (veh me) = Some c"
    and "distinct (map car_id (tr_cars tr))" and "inj_on car_pos {d \<in> set (tr_cars tr). car_lane d = car_lane c}"
  shows "index_in (lv_queue lv') (veh me) 1 = Some (1 + int (card (cars_ahead tr c)))"
proof -
  obtain ys where ys: "lv_queue lv' = map snd ys" "distinct (map snd ys)" "card (cars_ahead tr c) < length ys"
    "ys ! card (cars_ahead tr c) = (car_pos c, veh me)"
    using discovered_queue [OF assms] by metis
  then show ?thesis using index_in_nth [of "map snd ys" "card (cars_ahead tr c)" 1] by simp
qed

lemma car_ahead_precedes:
  assumes "discoverLane me tr lv = Some lv'" and "\<not> lv_discovered lv" and "traci_vehicle tr (veh me) = Some c"
    and "distinct (map car_id (tr_cars tr))" and "inj_on car_pos {d \<in> set (tr_cars tr). car_lane d = car_lane c}"
  shows "lv_car_ahead lv' = (if cars_ahead tr c = {} then [] else lv_queue lv' ! (card (cars_ahead tr c) - 1))"
proof -
  let ?k = "card (cars_ahead tr c)"
  obtain ys where ys: "front_first ys" "set ys = set (in_lane tr (car_lane c))" "lv_queue lv' = map snd ys"
    "?k < length ys" "ys ! ?k = (car_pos c, veh me)"
    using discovered_queue [OF assms] by metis
  define lead where "lead = leader_scan (car_pos c) (in_lane tr (car_lane c)) None"
  have l: "lv_car_ahead lv' = (case lead of None \<Rightarrow> [] | Some (_, cid) \<Rightarrow> cid)"
    using assms(1-3) by (auto simp: discoverLane_def Let_def lead_def)
  have fin: "finite (cars_ahead tr c)" by (simp add: cars_ahead_def)
  have above: "{p \<in> set ys. fst p > car_pos c} = set (take ?k ys)" using ahead_take [OF ys(1,4)] ys(5) by simp
  show ?thesis
  proof (cases "?k = 0")
    case True
    then have "lead = None" using above ys(2) by (auto simp: lead_def leader_scan_None not_less)
    then show ?thesis using True fin l by simp
  next
    case False
    have s: "\<And>i j. i < j \<Longrightarrow> j < length ys \<Longrightarrow> fst (ys ! i) > fst (ys ! j)"
      using ys(1) by (simp add: front_first_def sorted_wrt_iff_nth_less)
    have m: "ys ! (?k - 1) \<in> set ys" "fst (ys ! (?k - 1)) > car_pos c"
      using False ys(4,5) s [of "?k - 1" ?k] by auto
    then have "lead \<noteq> None" using ys(2) by (auto simp: lead_def leader_scan_None not_le)
    then obtain q where q: "lead = Some q" "q \<in> set ys" "fst q > car_pos c" "fst q \<le> fst (ys ! (?k - 1))"
      using leader_scan_Some [of "car_pos c" "in_lane tr (car_lane c)" None] m ys(2) by (auto simp: lead_def)
    then have "q \<in> set (take ?k ys)" using above by auto
    then obtain i where i: "i < ?k" "q = ys ! i" using ys(4) by (auto simp: in_set_conv_nth)
    have "?k - 1 < length ys" using ys(4) by linarith
    then have "\<not> i < ?k - 1" using s [of i "?k - 1"] i(2) q(4) by auto
    then have "i = ?k - 1" using i(1) by linarith
    then show ?thesis using l q(1) i(2) ys(3,4) False fin by (auto simp: case_prod_beta)
  qed
qed

section \<open>The announced position\<close>

lemma own_claim_position:
  "an_positionInLane (own_claim env s) =
     (case index_in (ev_lane_queue env (ap_now s)) (localCar env) 1 of None \<Rightarrow> 1 | Some i \<Rightarrow> i)"
proof -
  let ?rank = "case index_in (ev_lane_queue env (ap_now s)) (localCar env) 1 of None \<Rightarrow> 1 | Some i \<Rightarrow> i"
  have attach: "an_positionInLane (attachAmbulanceCryptoToAnnouncement env a) = an_positionInLane a" for a
    by (simp add: attachAmbulanceCryptoToAnnouncement_def Let_def split: option.split)
  have "\<exists>b1 b2 a d m t e. own_claim env s =
      (let a4 = a\<lparr>an_positionInLane := ?rank, an_direction := d, an_isAmbulance := m\<rparr>
       in (if b1 then a4\<lparr>an_isAmbulance := True\<rparr>
           else if b2 then attachAmbulanceCryptoToAnnouncement env a4 else a4)\<lparr>an_claimedArrivalTime := t, an_epoch := e\<rparr>)"
    unfolding own_claim_def Let_def by (intro exI) (rule refl)
  then show ?thesis by (auto simp: Let_def attach)
qed

text \<open>
  C28: the position a vehicle announces is its place in the physical queue. When the lane queue
  was discovered on a road whose vehicles are distinct and stand at different places, the
  announced position is one plus the number of vehicles of the same lane that are closer to the
  intersection, and the leader that \<open>discoverLane\<close> finds by its own search is exactly the vehicle
  right before this one in the sorted queue, none when it is at the front.
\<close>

theorem announced_position_counts_ahead:
  assumes "discoverLane (cf_replicaId (ev_cfg env)) tr initial_lane_view = Some lv"
    and "ev_lane_queue env (ap_now s) = lv_queue lv" and "traci_vehicle tr (localCar env) = Some c"
    and "distinct (map car_id (tr_cars tr))" and "inj_on car_pos {d \<in> set (tr_cars tr). car_lane d = car_lane c}"
  shows "an_positionInLane (own_claim env s) = 1 + int (card (cars_ahead tr c)) \<and>
    lv_car_ahead lv = (if cars_ahead tr c = {} then [] else lv_queue lv ! (card (cars_ahead tr c) - 1))"
proof -
  have "\<not> lv_discovered initial_lane_view" by (simp add: initial_lane_view_def)
  moreover have "localCar env = veh (cf_replicaId (ev_cfg env))" by (simp add: localCar_def)
  ultimately show ?thesis
    using lane_queue_rank [OF assms(1)] car_ahead_precedes [OF assms(1)] assms(2-5) by (simp add: own_claim_position)
qed

definition queue_car :: "int \<Rightarrow> rat \<Rightarrow> Car" where
  "queue_car r p = \<lparr>car_id = veh r, car_road = ''N2C'', car_lane = ''N2C_0'', car_pos = p, car_speed = 0,
     car_lane_index = 0, car_xy = (0, p), car_left = False, car_right = False, car_emergency = False\<rparr>"

definition queue_road :: Traffic where
  "queue_road = \<lparr>tr_cars = [queue_car 0 70, queue_car 2 80, queue_car 1 90], tr_lane_length = (\<lambda>l. Some 100),
     tr_lane_shape = (\<lambda>l. None)\<rparr>"

definition queue_env :: "int AppEnv" where
  "queue_env = (sample_env 0)\<lparr>ev_lane_queue := (\<lambda>t. [''veh1'', ''veh2'', ''veh0''])\<rparr>"

text \<open>Vehicle 0 is the third of its lane, behind vehicle 2.\<close>

theorem announced_position_counts_ahead_witness:
  "an_positionInLane (own_claim queue_env (initial_app sample_server)) = 3 \<and>
   (\<exists>lv. discoverLane 0 queue_road initial_lane_view = Some lv \<and> lv_car_ahead lv = ''veh2'')"
proof -
  have env: "cf_replicaId (ev_cfg queue_env) = 0" "localCar queue_env = ''veh0''"
    "traci_vehicle queue_road ''veh0'' = Some (queue_car 0 70)" "distinct (map car_id (tr_cars queue_road))" by code_simp+
  obtain lv where lv: "discoverLane 0 queue_road initial_lane_view = Some lv" "lv_queue lv = [''veh1'', ''veh2'', ''veh0'']"
  proof -
    have "map_option lv_queue (discoverLane 0 queue_road initial_lane_view) = Some [''veh1'', ''veh2'', ''veh0'']" by code_simp
    then show thesis using that by (auto simp: map_option_case split: option.split_asm)
  qed
  have inj: "inj_on car_pos {d \<in> set (tr_cars queue_road). car_lane d = car_lane (queue_car 0 70)}"
    by (auto simp: queue_road_def queue_car_def inj_on_def)
  have ahead: "cars_ahead queue_road (queue_car 0 70) = {queue_car 2 80, queue_car 1 90}"
    by (auto simp: cars_ahead_def queue_road_def queue_car_def)
  moreover have "queue_car 2 80 \<noteq> queue_car 1 90" by (simp add: queue_car_def)
  ultimately have "card (cars_ahead queue_road (queue_car 0 70)) = 2" by simp
  then show ?thesis
    using announced_position_counts_ahead [of queue_env queue_road lv "initial_app sample_server" "queue_car 0 70"]
      env lv inj ahead by (simp add: queue_env_def)
qed

end
