(* ===== verification/EchoCorrect.thy ===== *)
theory EchoCorrect
  imports DiscoveryRefine RoadCorrect
begin

text \<open>
  What a witness signs: an echo of an announcement is built from the perception sample of the
  announced vehicle, once for every announcement.
\<close>

section \<open>The cached echoes\<close>

abbreviation echoes_of :: "'d AppState \<Rightarrow> (string, ArrivalEcho) omap" where
  "echoes_of s \<equiv> ap_cached_arrival_echoes s"

lemmas core_echoes = core_eq(26)

lemma echo_frames [simp]:
  "echoes_of (sendBFTMessage env r p ty l w s) = echoes_of s"
  "echoes_of (maybeTriggerEmergencyRollback env amb car s) = echoes_of s"
  "echoes_of (gossipArrivalAnnouncement env ann b s) = echoes_of s"
  "echoes_of (noteDiscoveryIntent env car s) = echoes_of s"
  by (rule core_echoes, simp, rule core_echoes, simp)
    (simp_all add: gossipArrivalAnnouncement_def sendArrivalAnnouncementGossipPayload_def core_echoes [OF core_send(2)]
      noteDiscoveryIntent_def armDiscoveryTimers_def resetOrderCandidate_def Let_def)

section \<open>A correct witness\<close>

definition correct_witness :: "'d AppEnv \<Rightarrow> bool" where
  "correct_witness env \<longleftrightarrow> \<not> ev_is_byzantine env \<and> cf_replicaId (ev_cfg env) \<notin> set (ev_phase2_evidence_colluder_ids env)"

lemma correct_witness_simps:
  assumes "correct_witness env"
  shows "\<not> shouldColludeOnFalseLane env s ann" "\<not> shouldPhase2Collude env s ann" "\<not> fabricates env s ann"
    "\<not> ev_is_byzantine env"
  using assms by (simp_all add: correct_witness_def shouldColludeOnFalseLane_def shouldPhase2Collude_def fabricates_def)

text \<open>A witness that has seen nothing of the target in the epoch of the announcement.\<close>

definition claim_key :: "'d AppEnv \<Rightarrow> 'd ArrivalAnnouncement \<Rightarrow> string" where
  "claim_key env ann = cacheKey (an_epoch ann) (an_carId ann) (arrivalAnnouncementHash env ann)"

definition unseen :: "'d AppEnv \<Rightarrow> 'd ArrivalAnnouncement \<Rightarrow> 'd AppState \<Rightarrow> bool" where
  "unseen env ann s \<longleftrightarrow> om_get (ap_first_arrival_claim_hashes s) (variantKey (an_epoch ann) (an_carId ann)) = None \<and>
     om_get (echoes_of s) (claim_key env ann) = None \<and> claim_key env ann \<notin> set (ap_cached_arrival_rejections s) \<and>
     om_get (ap_arrival_perception_samples s) (claim_key env ann) = None"

definition listening :: "'d AppEnv \<Rightarrow> 'd ArrivalAnnouncement \<Rightarrow> 'd AppState \<Rightarrow> bool" where
  "listening env ann s \<longleftrightarrow> discovery_open s \<and> ap_current_phase s \<noteq> DEPARTED \<and>
     an_carId ann \<noteq> [] \<and> an_direction ann \<noteq> DIR_UNKNOWN \<and> verifyArrivalAnnouncementOrigin env ann \<and>
     extractReplicaId (an_carId ann) \<noteq> cf_replicaId (ev_cfg env)"

lemma core_claims:
  assumes "core s = core t"
  shows "ap_arrival_perception_samples s = ap_arrival_perception_samples t"
    "ap_cached_arrival_rejections s = ap_cached_arrival_rejections t"
    "discovery_open s = discovery_open t" "ap_current_phase s = ap_current_phase t" "echoes_of s = echoes_of t"
proof -
  have "ap_arrival_perception_samples (core u) = ap_arrival_perception_samples u"
    "ap_cached_arrival_rejections (core u) = ap_cached_arrival_rejections u" "discovery_open (core u) = discovery_open u" for u
    by (simp_all add: core_def discovery_open_def)
  then show "ap_arrival_perception_samples s = ap_arrival_perception_samples t"
    "ap_cached_arrival_rejections s = ap_cached_arrival_rejections t" "discovery_open s = discovery_open t"
    using assms by metis+
qed (rule core_eq(2,26) [OF assms])+

text \<open>Accepting a claim sends the echo in a state that agrees on everything the echo depends on.\<close>

lemma accept_claim_echoes:
  obtains q where "echoes_of (accept_claim env ann h b s) =
      echoes_of (sendArrivalEcho env (ann\<lparr>an_isAmbulance := effective_ambulance env ann\<rparr>) q)"
    and "ap_arrival_perception_samples q = ap_arrival_perception_samples s" "ap_cached_arrival_rejections q = ap_cached_arrival_rejections s"
    and "discovery_open q = discovery_open s" "ap_current_phase q = ap_current_phase s" "echoes_of q = echoes_of s"
proof -
  define eff car a where "eff = effective_ambulance env ann" and "car = an_carId ann" and "a = ann\<lparr>an_isAmbulance := eff\<rparr>"
  define s3 where "s3 = (let downgraded = (an_isAmbulance ann \<and> \<not> eff);
      s1 = s\<lparr>ap_uncertified_ambulance_claimers :=
          (if downgraded then os_insert car (ap_uncertified_ambulance_claimers s) else ap_uncertified_ambulance_claimers s),
        ap_cert_gate_rejected :=
          (if ev_enableAmbulanceCertGate env \<and> downgraded then os_insert car (ap_cert_gate_rejected s) else ap_cert_gate_rejected s)\<rparr>;
      s2 = store_claim car (claim_state env a) h s1
    in pending_relay a b (s2\<lparr>ap_echoed_cars := os_insert car (ap_echoed_cars s2)\<rparr>))"
  define q where "q = maybeTriggerEmergencyRollback env eff car s3"
  have s3: "ap_arrival_perception_samples s3 = ap_arrival_perception_samples s"
    "ap_cached_arrival_rejections s3 = ap_cached_arrival_rejections s"
    "discovery_open s3 = discovery_open s" "ap_current_phase s3 = ap_current_phase s" "echoes_of s3 = echoes_of s"
    by (simp_all add: s3_def Let_def pending_relay_def store_claim_def discovery_open_def)
  have q: "core q = core s3" by (simp add: q_def)
  have "echoes_of (accept_claim env ann h b s) = echoes_of (sendArrivalEcho env a q)"
    by (simp add: accept_claim_def Let_def q_def s3_def a_def eff_def car_def)
  then show thesis
    using that [of q] core_claims [OF q] s3 by (simp add: a_def eff_def)
qed

lemma sendArrivalEcho_fresh:
  assumes "correct_witness env" and "ev_has_key env" and "discovery_open s" and "ap_current_phase s \<noteq> DEPARTED"
    and "om_get (echoes_of s) (claim_key env ann) = None" and "claim_key env ann \<notin> set (ap_cached_arrival_rejections s)"
    and "om_get (ap_arrival_perception_samples s) (claim_key env ann) = Some sample"
    and "signed_echo env (unsigned_echo env ann (arrivalAnnouncementHash env ann) (ps_observedCue sample)) = Some e"
  shows "echoes_of (sendArrivalEcho env ann s) = om_put (claim_key env ann) e (echoes_of s)"
  using assms(2-) correct_witness_simps [OF assms(1)]
  by (simp add: sendArrivalEcho_def claim_key_def [symmetric] Let_def)

text \<open>Without a sample of exactly this announcement nothing is signed.\<close>

lemma sendArrivalEcho_unsampled:
  assumes "correct_witness env" and "om_get (ap_arrival_perception_samples s) (claim_key env ann) = None"
  shows "echoes_of (sendArrivalEcho env ann s) = echoes_of s"
  using assms correct_witness_simps [OF assms(1)]
  by (simp add: sendArrivalEcho_def claim_key_def [symmetric] Let_def split: option.split)

text \<open>An announcement that reaches perception.\<close>

definition sampled :: "'d AppEnv \<Rightarrow> 'd ArrivalAnnouncement \<Rightarrow> 'd AppState \<Rightarrow> 'd AppState" where
  "sampled env ann s = (let r = record_variant env ann (arrivalAnnouncementHash env ann) s
     in r\<lparr>ap_arrival_perception_samples := om_put (claim_key env ann)
       (ev_observeArrival env (an_carId ann) (ap_now s)) (ap_arrival_perception_samples r)\<rparr>)"

lemma sampled_fields:
  assumes "correct_witness env" and "unseen env ann s"
  shows "echoes_of (sampled env ann s) = echoes_of s" "ap_cached_arrival_rejections (sampled env ann s) = ap_cached_arrival_rejections s"
    "ap_arrival_perception_samples (sampled env ann s) =
      om_put (claim_key env ann) (ev_observeArrival env (an_carId ann) (ap_now s)) (ap_arrival_perception_samples s)"
    "discovery_open (sampled env ann s) = discovery_open s" "ap_current_phase (sampled env ann s) = ap_current_phase s"
  using assms correct_witness_simps [OF assms(1)]
  by (simp_all add: sampled_def record_variant_def conflicting_variant_def unseen_def Let_def discovery_open_def)

lemma supported_is_accepted:
  assumes w: "correct_witness env" and u: "unseen env ann s" and l: "listening env ann s"
    and sup: "sample_supports env ann (ev_observeArrival env (an_carId ann) (ap_now s))"
  shows "process_announcement env ann b s = accept_claim env ann (arrivalAnnouncementHash env ann) b (sampled env ann s)"
proof -
  note c = correct_witness_simps [OF w]
  define r where "r = record_variant env ann (arrivalAnnouncementHash env ann) s"
  have nc: "\<not> conflicting_variant env ann (arrivalAnnouncementHash env ann) s"
    using u by (simp add: conflicting_variant_def unseen_def)
  have r: "echoes_of r = echoes_of s" "ap_cached_arrival_rejections r = ap_cached_arrival_rejections s"
    "ap_arrival_perception_samples r = ap_arrival_perception_samples s" "ap_now r = ap_now s"
    using nc by (simp_all add: r_def record_variant_def Let_def c)
  have "claim_sample env r ann (claim_key env ann) = ev_observeArrival env (an_carId ann) (ap_now s)"
    using u r by (simp add: claim_sample_def c unseen_def)
  then show ?thesis
    using l u r nc sup
    by (simp add: process_announcement_def listening_def evaluate_claim_def unseen_def r_def [symmetric] sampled_def
        claim_valid_def c claim_key_def [symmetric] Let_def)
qed

lemma accepted_echo:
  assumes w: "correct_witness env" and u: "unseen env ann s" and l: "listening env ann s"
    and sup: "sample_supports env ann (ev_observeArrival env (an_carId ann) (ap_now s))"
    and amb: "effective_ambulance env ann = an_isAmbulance ann" and key: "ev_has_key env"
    and echo: "signed_echo env (unsigned_echo env ann (arrivalAnnouncementHash env ann)
      (ps_observedCue (ev_observeArrival env (an_carId ann) (ap_now s)))) = Some e"
  shows "echoes_of (process_announcement env ann b s) = om_put (claim_key env ann) e (echoes_of s)"
proof -
  note f = sampled_fields [OF w u]
  have same: "ann\<lparr>an_isAmbulance := effective_ambulance env ann\<rparr> = ann" using amb by simp
  obtain q where q: "echoes_of (accept_claim env ann (arrivalAnnouncementHash env ann) b (sampled env ann s)) =
      echoes_of (sendArrivalEcho env ann q)"
    "ap_arrival_perception_samples q = om_put (claim_key env ann) (ev_observeArrival env (an_carId ann) (ap_now s))
      (ap_arrival_perception_samples s)"
    "ap_cached_arrival_rejections q = ap_cached_arrival_rejections s"
    "discovery_open q = discovery_open s" "ap_current_phase q = ap_current_phase s" "echoes_of q = echoes_of s"
    using accept_claim_echoes [of env ann "arrivalAnnouncementHash env ann" b "sampled env ann s"] unfolding f same by metis
  have "echoes_of (sendArrivalEcho env ann q) = om_put (claim_key env ann) e (echoes_of q)"
    using u l by (intro sendArrivalEcho_fresh [OF w key _ _ _ _ _ echo])
      (simp_all add: q unseen_def listening_def om_get_put)
  then show ?thesis
    unfolding supported_is_accepted [OF w u l sup] q(1) by (simp add: q)
qed

section \<open>Exact perception\<close>

definition exact_sensor :: "Sensor \<Rightarrow> char \<Rightarrow> bool" where
  "exact_sensor pc a \<longleftrightarrow> pc_approach_sigma pc = 0 \<and> identity_row pc (nat (approachIndex a)) \<and> pc_lateral_sigma pc = 0"

text \<open>The lateral frame of the lane a vehicle is on, with the configured separation.\<close>

definition usable_frame :: "Sensor \<Rightarrow> Traffic \<Rightarrow> Car \<Rightarrow> LaneFrame \<Rightarrow> bool" where
  "usable_frame pc tr c fr \<longleftrightarrow> deriveAdjacentLaneFrame pc (Some tr) (car_lane c) = Some fr \<and>
     \<bar>lf_separation fr - pc_separation pc\<bar> \<le> 1 / 100"

lemma true_approach_index: "true_approach c = Some a \<Longrightarrow> approachIndex a \<ge> 0"
  by (auto simp: true_approach_def split: list.splits if_splits)

lemma observe_cue_fields:
  "ps_detected (fst (observe_cue pc c smp n)) = ps_detected smp"
  "ps_observedApproach (fst (observe_cue pc c smp n)) = ps_observedApproach smp"
  "ps_lateralCoordinateValid (fst (observe_cue pc c smp n)) = ps_lateralCoordinateValid smp"
  "ps_observedLateralCm (fst (observe_cue pc c smp n)) = ps_observedLateralCm smp"
  by (simp_all add: observe_cue_def split: prod.split)

lemma exact_observation:
  assumes "exact_sensor pc a" and "traci_vehicle tr car = Some c" and "true_approach c = Some a"
    and smp: "smp = fst (observeArrival pc (Some tr) car now n)"
  shows "ps_detected smp" and "ps_observedApproach smp = a"
    and "pc_adjacent pc \<Longrightarrow> usable_frame pc tr c fr \<Longrightarrow> ps_lateralCoordinateValid smp \<and>
      ps_observedLateralCm smp = centimetres (lateral_coordinate fr (car_xy c))"
proof -
  have a: "sampleApproach pc a n = (a, n)"
    using assms(1) true_approach_index [OF assms(3)] by (simp add: sampleApproach_def exact_sensor_def)
  define s1 where "s1 = empty_sample\<lparr>ps_observedAt := now, ps_detected := True, ps_trueApproach := a, ps_observedApproach := a\<rparr>"
  have smp: "smp = (case observe_lateral pc (Some tr) c s1 n of None \<Rightarrow> s1
      | Some (s2, n2) \<Rightarrow> if car_lane c \<noteq> [] \<and> \<not> internal_lane (car_lane c) \<and> tr_lane_length tr (car_lane c) = None
          then s2 else fst (observe_cue pc c s2 n2))"
    using assms(2,3) a by (simp add: smp observeArrival_def Let_def s1_def split: option.split prod.split)
  have "ps_detected s2 \<and> ps_observedApproach s2 = a" if "observe_lateral pc (Some tr) c s1 n = Some (s2, n2)" for s2 n2
    using that by (auto simp: observe_lateral_def s1_def Let_def split: if_split_asm option.split_asm prod.split_asm)
  then show "ps_detected smp" "ps_observedApproach smp = a"
    by (auto simp: smp s1_def observe_cue_fields split: option.split)
  assume "pc_adjacent pc" "usable_frame pc tr c fr"
  then obtain s2 n2 where "observe_lateral pc (Some tr) c s1 n = Some (s2, n2)" "ps_lateralCoordinateValid s2"
      "ps_observedLateralCm s2 = centimetres (lateral_coordinate fr (car_xy c))"
    using assms(1) by (auto simp: observe_lateral_def usable_frame_def exact_sensor_def sampleGaussian_def Let_def)
  then show "ps_lateralCoordinateValid smp \<and> ps_observedLateralCm smp = centimetres (lateral_coordinate fr (car_xy c))"
    by (simp add: smp observe_cue_fields)
qed

section \<open>Honest claims\<close>

definition honest_claimant :: "'d AppEnv \<Rightarrow> bool" where
  "honest_claimant env \<longleftrightarrow> \<not> ev_is_byzantine env \<and> cf_replicaId (ev_cfg env) \<noteq> ev_phase2_attack_target env \<and>
     \<not> ev_is_ambulance env"

lemma honest_own_claim:
  assumes "honest_claimant env" and "ev_intended_lane env \<in> {''N'', ''S'', ''E'', ''W''}"
  shows "an_carId (own_claim env s) = localCar env" "an_lane (own_claim env s) = ev_intended_lane env"
    "\<not> an_isAmbulance (own_claim env s)"
    "cf_lane_observation_mode (ev_cfg env) = ADJACENT_LATERAL \<Longrightarrow>
      an_lateralClaimCm (own_claim env s) = ev_own_lateral_cm env (ap_now s) \<and>
      an_physicalLaneIndex (own_claim env s) = projectPhysicalLaneIndex (ev_cfg env) (ev_own_lateral_cm env (ap_now s))"
  using assms by (simp_all add: own_claim_def honest_claimant_def physical_claim_def Let_def)

lemma signed_fields [simp]:
  "an_carId (sign_announcement env ann) = an_carId ann" "an_lane (sign_announcement env ann) = an_lane ann"
  "an_isAmbulance (sign_announcement env ann) = an_isAmbulance ann"
  "an_ambulanceCertBytes (sign_announcement env ann) = an_ambulanceCertBytes ann"
  "an_lateralClaimCm (sign_announcement env ann) = an_lateralClaimCm ann"
  "an_physicalLaneIndex (sign_announcement env ann) = an_physicalLaneIndex ann"
  by (simp_all add: sign_announcement_def split: option.split)

lemma signed_echo_fields:
  assumes "signed_echo env (unsigned_echo env ann h cue) = Some e"
  shows "ae_targetCarId e = an_carId ann \<and> ae_lane e = an_lane ann \<and> ae_lateralClaimCm e = an_lateralClaimCm ann \<and>
    ae_direction e = an_direction ann \<and> ae_isAmbulance e = an_isAmbulance ann \<and> ae_epoch e = an_epoch ann \<and>
    ae_claimHash e = h \<and> ae_observedCue e = cue \<and> ae_echoingReplicaId e = cf_replicaId (ev_cfg env)"
  using assms by (auto simp: signed_echo_def unsigned_echo_def split: option.split_asm)

lemma signing_echo: "(\<And>m. ev_sign env m \<noteq> None) \<Longrightarrow> \<exists>e. signed_echo env (unsigned_echo env ann h cue) = Some e"
  by (simp add: signed_echo_def split: option.split)

lemma received_announcement:
  assumes "listening env ann s" and "\<not> ap_stopped_distance_collection_active s"
    and "announcement_wf print_d ann" and "ev_read_d env (print_d (an_claimedArrivalTime ann)) = Some (an_claimedArrivalTime ann)"
  shows "handleArrivalAnnouncement env (serializeArrivalAnnouncement print_d ann) s =
    Some (process_announcement env ann (serializeArrivalAnnouncement print_d ann) s)"
  using assms(1,2) announcement_decoded [OF assms(3), where read_d = "ev_read_d env", OF assms(4)]
  by (simp add: handleArrivalAnnouncement_def listening_def)

text \<open>The vehicle of the claim is seen by the witness where the claimant sees itself.\<close>

definition seen_alike :: "Sensor \<Rightarrow> Traffic \<Rightarrow> Traffic \<Rightarrow> string \<Rightarrow> char \<Rightarrow> bool" where
  "seen_alike pc tr tr' car a \<longleftrightarrow> (\<exists>c c'. traci_vehicle tr car = Some c \<and> traci_vehicle tr' car = Some c' \<and>
     true_approach c' = Some a \<and> car_lane c' = car_lane c \<and> car_xy c' = car_xy c \<and>
     (pc_adjacent pc \<longrightarrow> (\<exists>fr. usable_frame pc tr c fr \<and> usable_frame pc tr' c' fr)))"

lemma honest_claim_supported:
  fixes pc :: Sensor and rd rd' :: "int \<Rightarrow> Traffic option" and env env' :: "'d AppEnv"
  assumes E: "E = sensor_env pc rd uses env" and W: "W = sensor_env pc rd' uses' env'"
    and ann: "ann = sign_announcement E (own_claim E s)" and claimant: "honest_claimant E"
    and lane: "ev_intended_lane E = [a]"
    and road: "rd (ap_now s) = Some tr" "rd' t = Some tr'" "seen_alike pc tr tr' (localCar E) a"
    and sensor: "exact_sensor pc a"
    and mode: "cf_lane_observation_mode (ev_cfg E) = cf_lane_observation_mode (ev_cfg W)"
      "cf_lane_observation_mode (ev_cfg E) = ADJACENT_LATERAL \<longleftrightarrow> pc_adjacent pc"
    and side: "projectPhysicalLaneIndex (ev_cfg E) (ev_own_lateral_cm E (ap_now s)) \<noteq> - 1"
    and tol: "ev_lateral_tolerance_cm W \<ge> 0"
  shows "sample_supports W ann (ev_observeArrival W (an_carId ann) t)"
proof -
  obtain c c' where c: "traci_vehicle tr (localCar E) = Some c" "traci_vehicle tr' (localCar E) = Some c'"
      "true_approach c' = Some a" "car_lane c' = car_lane c" "car_xy c' = car_xy c"
      "pc_adjacent pc \<Longrightarrow> \<exists>fr. usable_frame pc tr c fr \<and> usable_frame pc tr' c' fr"
    using road(3) by (auto simp: seen_alike_def)
  have "approachIndex a \<ge> 0" by (rule true_approach_index [OF c(3)])
  then have "ev_intended_lane E \<in> {''N'', ''S'', ''E'', ''W''}" using lane by (auto simp: approachIndex_def split: if_splits)
  note own = honest_own_claim [OF claimant this, of s]
  have fields: "an_carId ann = localCar E" "an_lane ann = [a]" using own lane by (simp_all add: ann)
  have smp: "ev_observeArrival W (localCar E) t = fst (observeArrival pc (Some tr') (localCar E) t (uses' (localCar E) t))"
    using road(2) by (simp add: W sensor_env_def Let_def)
  note obs = exact_observation [OF sensor c(2,3) smp]
  show ?thesis
  proof (cases "pc_adjacent pc")
    case False
    then have "cf_lane_observation_mode (ev_cfg W) \<noteq> ADJACENT_LATERAL" using mode by simp
    then show ?thesis using obs(1,2) fields by (simp add: sample_supports_def Let_def)
  next
    case True
    then have m: "cf_lane_observation_mode (ev_cfg E) = ADJACENT_LATERAL" "cf_lane_observation_mode (ev_cfg W) = ADJACENT_LATERAL"
      using mode by simp_all
    obtain fr where fr: "usable_frame pc tr c fr" "usable_frame pc tr' c' fr" using c(6) [OF True] by blast
    have me: "localCar E = veh (cf_replicaId (ev_cfg env))"
      by (simp add: localCar_def E sensor_env_def Let_def)
    have "ev_own_lateral_cm E (ap_now s) = centimetres (lateral_coordinate fr (car_xy c))"
      using True c(1) fr(1) road(1) unfolding me
      by (simp add: E sensor_env_def Let_def ownLateralClaimCm_def usable_frame_def)
    moreover have "projectPhysicalLaneIndex (ev_cfg W) x = projectPhysicalLaneIndex (ev_cfg E) x" for x
      by (simp add: projectPhysicalLaneIndex_def E W sensor_env_def Let_def)
    moreover have "projectPhysicalLaneIndex (ev_cfg E) x \<noteq> - 1 \<Longrightarrow>
        projectPhysicalLaneIndex (ev_cfg E) x = 0 \<or> projectPhysicalLaneIndex (ev_cfg E) x = 1" for x
      by (simp add: projectPhysicalLaneIndex_def Let_def split: if_splits)
    ultimately show ?thesis
      using obs(1,2) obs(3) [OF True fr(2)] own(4) [OF m(1)] fields side tol m(2) c(5)
      by (simp add: sample_supports_def Let_def ann)
  qed
qed

section \<open>The theorems\<close>


text \<open>Two lanes at 3.2 metres; vehicle 0 stands 10 cm from the middle of the first one, on approach N.\<close>

definition lane_road :: Traffic where
  "lane_road = \<lparr>tr_cars = [\<lparr>car_id = ''veh0'', car_road = ''N2C'', car_lane = ''N2C_0'', car_pos = 60, car_speed = 0,
       car_lane_index = 0, car_xy = (1 / 10, 40), car_left = False, car_right = True, car_emergency = False\<rparr>],
     tr_lane_length = (\<lambda>l. Some 100),
     tr_lane_shape = (\<lambda>l. if l = ''N2C_0'' then Some [(0, 100), (0, 0)] else if l = ''N2C_1'' then Some [(16 / 5, 100), (16 / 5, 0)]
       else None)\<rparr>"

definition lane_sensor :: Sensor where
  "lane_sensor = \<lparr>pc_rng = None, pc_hypot = (\<lambda>x y. \<bar>x\<bar> + \<bar>y\<bar>), pc_matrix = [1, 0, 0, 0, 0, 1, 0, 0, 0, 0, 1, 0, 0, 0, 0, 1],
     pc_approach_sigma = 0, pc_signal_error = 0, pc_lateral_sigma = 0, pc_longitudinal_sigma = 0,
     pc_adjacent = True, pc_separation = 16 / 5\<rparr>"

definition lane_env :: "int \<Rightarrow> int AppEnv" where
  "lane_env r = sensor_env lane_sensor (\<lambda>t. Some lane_road) (\<lambda>c t. 0)
     ((sample_env r)\<lparr>ev_cfg := (sample_config r)\<lparr>cf_lane_observation_mode := ADJACENT_LATERAL\<rparr>, ev_intended_direction := ''R''\<rparr>)"

definition lane_claim :: "int ArrivalAnnouncement" where
  "lane_claim = sign_announcement (lane_env 0) (own_claim (lane_env 0) (startDiscoveryRound (lane_env 0) (initial_app sample_server)))"

definition lane_witness :: "int AppState" where
  "lane_witness = startDiscoveryRound (lane_env 1) (initial_app sample_server)"

lemma lane_facts:
  "honest_claimant (lane_env 0)" "ev_intended_lane (lane_env 0) = ''N''" "exact_sensor lane_sensor CHR ''N''"
  "cf_lane_observation_mode (ev_cfg (lane_env 0)) = cf_lane_observation_mode (ev_cfg (lane_env 1))"
  "cf_lane_observation_mode (ev_cfg (lane_env 0)) = ADJACENT_LATERAL \<longleftrightarrow> pc_adjacent lane_sensor"
  "projectPhysicalLaneIndex (ev_cfg (lane_env 0)) (ev_own_lateral_cm (lane_env 0) (ap_now (startDiscoveryRound (lane_env 0) (initial_app sample_server)))) = 0"
  "ev_lateral_tolerance_cm (lane_env 1) \<ge> 0" "correct_witness (lane_env 1)" "unseen (lane_env 1) lane_claim lane_witness"
  "listening (lane_env 1) lane_claim lane_witness" "\<not> ap_stopped_distance_collection_active lane_witness" "ev_has_key (lane_env 1)"
  "announcement_wf (ev_print_d (lane_env 0)) lane_claim"
  "ev_read_d (lane_env 1) (ev_print_d (lane_env 0) (an_claimedArrivalTime lane_claim)) = Some (an_claimedArrivalTime lane_claim)"
  "an_lateralClaimCm lane_claim = 10"
  by code_simp+

lemma lane_seen: "seen_alike lane_sensor lane_road lane_road ''veh0'' CHR ''N''"
proof -
  let ?c = "hd (tr_cars lane_road)" and ?fr = "\<lparr>lf_origin = (0, 100), lf_normal = (1, 0), lf_separation = 16 / 5\<rparr>"
  have "traci_vehicle lane_road ''veh0'' = Some ?c" "true_approach ?c = Some (CHR ''N'')" "usable_frame lane_sensor lane_road ?c ?fr"
    by code_simp+
  then show ?thesis unfolding seen_alike_def by blast
qed


section \<open>The certificate gate\<close>

lemma fake_own_claim:
  assumes "ev_is_byzantine env" and "ev_byzantine_type env = BYZANTINE_FAKE_AMBULANCE_FOLLOWER"
  shows "an_isAmbulance (own_claim env s)" "an_ambulanceCertBytes (own_claim env s) = []"
  using assms by (simp_all add: own_claim_def physical_claim_def empty_announcement_def Let_def split: option.split)


definition liar_env :: "int AppEnv" where
  "liar_env = (sample_env 2)\<lparr>ev_is_byzantine := True, ev_byzantine_type := BYZANTINE_FAKE_AMBULANCE_FOLLOWER\<rparr>"

definition liar_claim :: "int ArrivalAnnouncement" where
  "liar_claim = sign_announcement liar_env (own_claim liar_env (initial_app sample_server))"

definition gate_env :: "int AppEnv" where
  "gate_env = (sample_env 1)\<lparr>ev_observeArrival := (\<lambda>c t. empty_sample\<lparr>ps_detected := True, ps_observedApproach := CHR ''N''\<rparr>)\<rparr>"

definition gate_witness :: "int AppState" where
  "gate_witness = startDiscoveryRound gate_env (initial_app sample_server)"


end
