(* ===== verification/Claims.thy ===== *)
theory Claims
  imports EchoCorrect
begin

text \<open>
  One variant per witness: the echoes a correct witness keeps, the first variant it bound
  itself to and the samples it took stay consistent when an announcement is processed.
\<close>

section \<open>Keys\<close>

lemma variantKey_inj: "variantKey e c = variantKey e' c' \<longleftrightarrow> e = e' \<and> c = c'"
proof
  assume eq: "variantKey e c = variantKey e' c'"
  have "cut_at CHR '':'' (variantKey x y) = Some (to_string x, y)" for x y
    unfolding variantKey_def by (rule cut_at_delim) simp
  from this [of e c] this [of e' c'] show "e = e' \<and> c = c'" unfolding eq by (simp add: to_string_eq)
qed simp

lemma cacheKey_inj: "cacheKey e c h = cacheKey e' c' h' \<longleftrightarrow> e = e' \<and> c = c' \<and> h = h'"
proof
  assume eq: "cacheKey e c h = cacheKey e' c' h'"
  have "cut_at CHR '':'' (rev (cacheKey x y z)) = Some (rev (hashHex z), rev (variantKey x y))" for x y z
    unfolding cacheKey_def by (simp add: hashHex_def)
  from this [of e c h] this [of e' c' h'] have "hashHex h = hashHex h'" "variantKey e c = variantKey e' c'"
    unfolding eq by simp_all
  then show "e = e' \<and> c = c' \<and> h = h'"
    using toHex_inj by (auto simp: hashHex_def variantKey_inj)
qed simp

section \<open>The invariant\<close>

type_synonym ClaimView =
  "(string, ArrivalEcho) omap \<times> (string, bytes) omap \<times> (string, ArrivalPerceptionSample) omap"

definition claims :: "'d AppState \<Rightarrow> ClaimView" where
  "claims s = (ap_cached_arrival_echoes s, ap_first_arrival_claim_hashes s, ap_arrival_perception_samples s)"

fun claims_wf :: "ClaimView \<Rightarrow> bool" where
  "claims_wf (echoes, firsts, samples) \<longleftrightarrow>
     (\<forall>k e. om_get echoes k = Some e \<longrightarrow> k = cacheKey (ae_epoch e) (ae_targetCarId e) (ae_claimHash e) \<and>
        om_get firsts (variantKey (ae_epoch e) (ae_targetCarId e)) = Some (ae_claimHash e)) \<and>
     (\<forall>ep c h. om_get samples (cacheKey ep c h) \<noteq> None \<longrightarrow> om_get firsts (variantKey ep c) = Some h)"

lemma claims_empty [simp]: "claims_wf ([], [], [])"
  by (simp add: om_get_def)

lemma claims_wf_bind:
  assumes "claims_wf (E, F, S)" and "om_get F k = None"
  shows "claims_wf (E, om_put k h F, S)"
proof -
  have "h' = h" if "om_get S (cacheKey ep c h') \<noteq> None" "k = variantKey ep c" for ep c h'
    using assms that by fastforce
  then show ?thesis using assms by (fastforce simp: om_get_put)
qed

lemma claims_wf_sample:
  assumes "claims_wf (E, F, S)" and "om_get F (variantKey ep c) = Some h"
  shows "claims_wf (E, F, om_put (cacheKey ep c h) smp S)"
  using assms by (auto simp: om_get_put cacheKey_inj)

lemma claims_wf_echo:
  assumes "claims_wf (E, F, S)" and "om_get S (cacheKey ep c h) \<noteq> None"
    and "ae_epoch e = ep" and "ae_targetCarId e = c" and "ae_claimHash e = h"
  shows "claims_wf (om_put (cacheKey ep c h) e E, F, S)"
  using assms by (auto simp: om_get_put)

section \<open>Announcements\<close>

lemma core_claims_view:
  assumes "core s = core t"
  shows "claims s = claims t"
proof -
  have "claims (core u) = claims u" for u :: "'d AppState" by (simp add: claims_def core_def)
  then show ?thesis using assms by metis
qed

lemma claims_frames [simp]:
  "claims (sendBFTMessage env r p ty l w s) = claims s"
  "claims (maybeTriggerEmergencyRollback env amb car s) = claims s"
  "claims (gossipArrivalAnnouncement env a b s) = claims s"
  "claims (noteDiscoveryIntent env car s) = claims s"
  "claims (store_claim car vs h s) = claims s" "claims (pending_relay a b s) = claims s"
proof -
  show send: "claims (sendBFTMessage env r p ty l w s) = claims s" for r p ty l w s by (rule core_claims_view) simp
  show "claims (maybeTriggerEmergencyRollback env amb car s) = claims s" by (rule core_claims_view) simp
  have "claims (s\<lparr>ap_announcement_relay_tracker := tr\<rparr>) = claims s" for tr by (simp add: claims_def)
  then show "claims (gossipArrivalAnnouncement env a b s) = claims s"
    by (simp add: gossipArrivalAnnouncement_def sendArrivalAnnouncementGossipPayload_def send Let_def)
qed (simp_all add: claims_def noteDiscoveryIntent_def armDiscoveryTimers_def resetOrderCandidate_def Let_def
    store_claim_def pending_relay_def)

lemma sendArrivalEcho_claims:
  assumes "\<not> ev_is_byzantine env" and "claims_wf (claims s)"
  shows "claims_wf (claims (sendArrivalEcho env ann s))"
proof -
  let ?h = "arrivalAnnouncementHash env ann"
  let ?key = "cacheKey (an_epoch ann) (an_carId ann) ?h"
  have nc: "\<not> shouldColludeOnFalseLane env s ann" using assms(1) by (simp add: shouldColludeOnFalseLane_def)
  have "claims_wf (om_put ?key e (ap_cached_arrival_echoes s), ap_first_arrival_claim_hashes s, ap_arrival_perception_samples s)"
    if "signed_echo env (unsigned_echo env ann ?h cue) = Some e" "om_get (ap_arrival_perception_samples s) ?key \<noteq> None" for e cue
    using assms(2) that signed_echo_fields [OF that(1)] by (intro claims_wf_echo) (simp_all add: claims_def)
  moreover have "claims (s\<lparr>ap_cached_arrival_rejections := r\<rparr>) = claims s" for r by (simp add: claims_def)
  moreover have "claims (s\<lparr>ap_cached_arrival_echoes := E\<rparr>) = (E, ap_first_arrival_claim_hashes s, ap_arrival_perception_samples s)"
    for E by (simp add: claims_def)
  ultimately show ?thesis
    using assms nc by (simp add: sendArrivalEcho_def Let_def split: option.split)
qed

lemma accept_claim_claims:
  fixes env :: "'d AppEnv"
  assumes "\<not> ev_is_byzantine env" and "claims_wf (claims s)"
  shows "claims_wf (claims (accept_claim env ann h b s))"
proof -
  define s1 where "s1 = s\<lparr>ap_uncertified_ambulance_claimers :=
      (if an_isAmbulance ann \<and> \<not> effective_ambulance env ann then os_insert (an_carId ann) (ap_uncertified_ambulance_claimers s)
       else ap_uncertified_ambulance_claimers s),
    ap_cert_gate_rejected :=
      (if ev_enableAmbulanceCertGate env \<and> (an_isAmbulance ann \<and> \<not> effective_ambulance env ann)
       then os_insert (an_carId ann) (ap_cert_gate_rejected s) else ap_cert_gate_rejected s)\<rparr>"
  have "claims s1 = claims s" by (simp add: s1_def claims_def)
  moreover have "claims (u\<lparr>ap_echoed_cars := x\<rparr>) = claims u" "claims (u\<lparr>ap_current_phase := p\<rparr>) = claims u"
    for u :: "'d AppState" and x p
    by (simp_all add: claims_def)
  ultimately show ?thesis
    unfolding accept_claim_def Let_def s1_def [symmetric]
    using assms by (simp add: sendArrivalEcho_claims)
qed

lemma reject_claim_claims [simp]: "claims (reject_claim env ann h smp s) = claims s"
proof -
  have "claims (s\<lparr>ap_cached_arrival_rejections := r\<rparr>) = claims s" for r by (simp add: claims_def)
  then show ?thesis by (simp add: reject_claim_def Let_def)
qed

lemma evaluate_claim_claims:
  assumes "\<not> ev_is_byzantine env" and "claims_wf (claims s)"
    and "om_get (ap_first_arrival_claim_hashes s) (variantKey (an_epoch ann) (an_carId ann)) = Some h"
  shows "claims_wf (claims (evaluate_claim env ann h b s))"
proof -
  let ?key = "cacheKey (an_epoch ann) (an_carId ann) h"
  have "claims (s\<lparr>ap_arrival_perception_samples := S\<rparr>) = (ap_cached_arrival_echoes s, ap_first_arrival_claim_hashes s, S)" for S
    by (simp add: claims_def)
  moreover have "claims_wf (ap_cached_arrival_echoes s, ap_first_arrival_claim_hashes s, om_put ?key smp (ap_arrival_perception_samples s))" for smp
    using assms(2,3) unfolding claims_def by (rule claims_wf_sample)
  ultimately have "claims_wf (claims (s\<lparr>ap_arrival_perception_samples := om_put ?key smp (ap_arrival_perception_samples s)\<rparr>))" for smp
    by simp
  then show ?thesis
    using assms(1,2) by (simp add: evaluate_claim_def Let_def sendArrivalEcho_claims accept_claim_claims)
qed

lemma record_variant_claims:
  assumes "\<not> ev_is_byzantine env" and "claims_wf (claims s)"
  shows "claims_wf (claims (record_variant env ann h s))"
    and "\<not> conflicting_variant env ann h s \<Longrightarrow>
      om_get (ap_first_arrival_claim_hashes (record_variant env ann h s)) (variantKey (an_epoch ann) (an_carId ann)) = Some h"
proof -
  let ?vk = "variantKey (an_epoch ann) (an_carId ann)"
  have "claims (record_variant env ann h s) = (ap_cached_arrival_echoes s,
      (if om_get (ap_first_arrival_claim_hashes s) ?vk = None then om_put ?vk h (ap_first_arrival_claim_hashes s)
       else ap_first_arrival_claim_hashes s), ap_arrival_perception_samples s)"
    using assms(1) by (simp add: record_variant_def claims_def Let_def)
  then show "claims_wf (claims (record_variant env ann h s))"
    using assms(2) claims_wf_bind by (simp add: claims_def)
  show "\<not> conflicting_variant env ann h s \<Longrightarrow> om_get (ap_first_arrival_claim_hashes (record_variant env ann h s)) ?vk = Some h"
    using assms(1) by (auto simp: record_variant_def conflicting_variant_def Let_def om_get_put)
qed

lemma process_announcement_claims:
  assumes "\<not> ev_is_byzantine env" and "claims_wf (claims s)"
  shows "claims_wf (claims (process_announcement env ann b s))"
  using assms record_variant_claims [OF assms] evaluate_claim_claims [OF assms(1)]
  by (simp add: process_announcement_def Let_def)

end
