(* ===== verification/Frames.thy ===== *)
theory Frames
  imports Vehicle Claims
begin

text \<open>
  What the operations of a vehicle leave alone. Most of them change neither the record of
  incidents and cancelled epochs, nor resume the vehicle, nor touch the consensus traffic, nor
  use the radio after a crash. This is one equation per operation on the
  projection \<open>aspect\<close>; the few operations that do change one of these are compared by a
  preorder, \<open>evolves\<close>, that says in which direction.
\<close>

section \<open>The projection\<close>

fun aired :: "Call list \<Rightarrow> Call list" where
  "aired [] = []"
| "aired (Call_airTx r t p a # cs) = Call_airTx r t p a # aired cs"
| "aired (_ # cs) = aired cs"

fun resumptions :: "Call list \<Rightarrow> int list" where
  "resumptions [] = []"
| "resumptions (Call_resumeVehicle p # cs) = p # resumptions cs"
| "resumptions (_ # cs) = resumptions cs"

lemma aired_append [simp]: "aired (cs @ ds) = aired cs @ aired ds"
  by (induction cs rule: aired.induct) simp_all

lemma resumptions_append [simp]: "resumptions (cs @ ds) = resumptions cs @ resumptions ds"
  by (induction cs rule: resumptions.induct) simp_all

record Aspect =
  as_crashed :: bool
  as_aired :: "Call list"
  as_incidents :: "(u32 \<times> u32, IncidentRecord) omap"
  as_tombstones :: "u32 list"
  as_commits :: "(u32, CommittedCancelInfo) omap"
  as_resumed :: "int list"
  as_traffic :: RelayCtx
  as_claims :: ClaimView

definition fate :: "CancelCtx \<Rightarrow> (u32 \<times> u32, IncidentRecord) omap \<times> u32 list \<times> (u32, CommittedCancelInfo) omap" where
  "fate c = (cx_incidents c, cx_tombstoned_epochs c, cx_committed_cancels c)"

definition aspect :: "'d AppState \<Rightarrow> Aspect" where
  "aspect s = \<lparr>as_crashed = ap_crashCommsDisabled s,
     as_aired = (if ap_crashCommsDisabled s then aired (ap_calls s) else []),
     as_incidents = cx_incidents (ap_cx s), as_tombstones = cx_tombstoned_epochs (ap_cx s),
     as_commits = cx_committed_cancels (ap_cx s), as_resumed = resumptions (ap_calls s),
     as_traffic = ap_rx s, as_claims = claims s\<rparr>"

lemma claims_same [simp]:
  "claims (s\<lparr>ap_now := y0\<rparr>) = claims s"
  "claims (s\<lparr>ap_current_phase := y1\<rparr>) = claims s"
  "claims (s\<lparr>ap_is_departed := y2\<rparr>) = claims s"
  "claims (s\<lparr>ap_entered_stop_zone := y3\<rparr>) = claims s"
  "claims (s\<lparr>ap_propose_submitted := y4\<rparr>) = claims s"
  "claims (s\<lparr>ap_order_applied := y5\<rparr>) = claims s"
  "claims (s\<lparr>ap_current_epoch := y6\<rparr>) = claims s"
  "claims (s\<lparr>ap_lx := y7\<rparr>) = claims s"
  "claims (s\<lparr>ap_gx := y8\<rparr>) = claims s"
  "claims (s\<lparr>ap_wx := y9\<rparr>) = claims s"
  "claims (s\<lparr>ap_last_known_primary := y10\<rparr>) = claims s"
  "claims (s\<lparr>ap_server := y11\<rparr>) = claims s"
  "claims (s\<lparr>ap_discovery := y12\<rparr>) = claims s"
  "claims (s\<lparr>ap_stopped_distance_collection_active := y13\<rparr>) = claims s"
  "claims (s\<lparr>ap_collected_certs := y14\<rparr>) = claims s"
  "claims (s\<lparr>ap_collected_distance_certs := y15\<rparr>) = claims s"
  "claims (s\<lparr>ap_local_vehicle_states := y16\<rparr>) = claims s"
  "claims (s\<lparr>ap_local_claim_hashes := y17\<rparr>) = claims s"
  "claims (s\<lparr>ap_my_received_echoes := y18\<rparr>) = claims s"
  "claims (s\<lparr>ap_my_received_distance_echoes := y19\<rparr>) = claims s"
  "claims (s\<lparr>ap_stopped_distance_samples := y20\<rparr>) = claims s"
  "claims (s\<lparr>ap_pending_distance_attestations := y21\<rparr>) = claims s"
  "claims (s\<lparr>ap_local_distance_attestation := y22\<rparr>) = claims s"
  "claims (s\<lparr>ap_stopped_distance_attestation_sent := y23\<rparr>) = claims s"
  "claims (s\<lparr>ap_stopped_distance_cert_broadcast := y24\<rparr>) = claims s"
  "claims (s\<lparr>ap_attestation_retry_count := y25\<rparr>) = claims s"
  "claims (s\<lparr>ap_cached_arrival_rejections := y26\<rparr>) = claims s"
  "claims (s\<lparr>ap_claim_variants := y27\<rparr>) = claims s"
  "claims (s\<lparr>ap_cached_local_announcements := y28\<rparr>) = claims s"
  "claims (s\<lparr>ap_observed_intent_cars := y29\<rparr>) = claims s"
  "claims (s\<lparr>ap_arrival_announcements_received := y30\<rparr>) = claims s"
  "claims (s\<lparr>ap_echoed_cars := y31\<rparr>) = claims s"
  "claims (s\<lparr>ap_uncertified_ambulance_claimers := y32\<rparr>) = claims s"
  "claims (s\<lparr>ap_cert_gate_rejected := y33\<rparr>) = claims s"
  "claims (s\<lparr>ap_cert_broadcast := y34\<rparr>) = claims s"
  "claims (s\<lparr>ap_cert_pending_retries := y35\<rparr>) = claims s"
  "claims (s\<lparr>ap_cert_retry_count := y36\<rparr>) = claims s"
  "claims (s\<lparr>ap_threshold_reached_at := y37\<rparr>) = claims s"
  "claims (s\<lparr>ap_cert_gossip_deadline := y38\<rparr>) = claims s"
  "claims (s\<lparr>ap_cert_relay_tracker := y39\<rparr>) = claims s"
  "claims (s\<lparr>ap_announcement_relay_tracker := y40\<rparr>) = claims s"
  "claims (s\<lparr>ap_pending_relays := y41\<rparr>) = claims s"
  "claims (s\<lparr>ap_order_candidate := y42\<rparr>) = claims s"
  "claims (s\<lparr>ap_order_vc_requested := y43\<rparr>) = claims s"
  "claims (s\<lparr>ap_order_vc_authoritative := y44\<rparr>) = claims s"
  "claims (s\<lparr>ap_deadline_timer := y45\<rparr>) = claims s"
  "claims (s\<lparr>ap_settle_timer := y46\<rparr>) = claims s"
  "claims (s\<lparr>ap_announce_timer := y47\<rparr>) = claims s"
  "claims (s\<lparr>ap_finalize_timer := y48\<rparr>) = claims s"
  "claims (s\<lparr>ap_distance_finalize_timer := y49\<rparr>) = claims s"
  "claims (s\<lparr>ap_attestation_retry_timer := y50\<rparr>) = claims s"
  "claims (s\<lparr>ap_cert_retry_timer := y51\<rparr>) = claims s"
  "claims (s\<lparr>ap_cert_gossip_timer := y52\<rparr>) = claims s"
  "claims (s\<lparr>ap_vc_trigger := y53\<rparr>) = claims s"
  "claims (s\<lparr>ap_flush_timer := y54\<rparr>) = claims s"
  "claims (s\<lparr>ap_pending_txs := y55\<rparr>) = claims s"
  "claims (s\<lparr>ap_sequenceNumber := y56\<rparr>) = claims s"
  "claims (s\<lparr>ap_sentMessages := y57\<rparr>) = claims s"
  "claims (s\<lparr>ap_draws := y58\<rparr>) = claims s"
  "claims (s\<lparr>ap_cx := y59\<rparr>) = claims s"
  "claims (s\<lparr>ap_rx := y60\<rparr>) = claims s"
  "claims (s\<lparr>ap_calls := y61\<rparr>) = claims s"
  "claims (s\<lparr>ap_crashCommsDisabled := y62\<rparr>) = claims s"
  by (simp_all add: claims_def)

lemma aspect_update [simp]:
  "aspect (s\<lparr>ap_now := x0\<rparr>) = aspect s"
  "aspect (s\<lparr>ap_current_phase := x1\<rparr>) = aspect s"
  "aspect (s\<lparr>ap_is_departed := x2\<rparr>) = aspect s"
  "aspect (s\<lparr>ap_entered_stop_zone := x3\<rparr>) = aspect s"
  "aspect (s\<lparr>ap_propose_submitted := x4\<rparr>) = aspect s"
  "aspect (s\<lparr>ap_order_applied := x5\<rparr>) = aspect s"
  "aspect (s\<lparr>ap_current_epoch := x6\<rparr>) = aspect s"
  "aspect (s\<lparr>ap_lx := x7\<rparr>) = aspect s"
  "aspect (s\<lparr>ap_gx := x8\<rparr>) = aspect s"
  "aspect (s\<lparr>ap_wx := x9\<rparr>) = aspect s"
  "aspect (s\<lparr>ap_last_known_primary := x10\<rparr>) = aspect s"
  "aspect (s\<lparr>ap_server := x11\<rparr>) = aspect s"
  "aspect (s\<lparr>ap_discovery := x12\<rparr>) = aspect s"
  "aspect (s\<lparr>ap_stopped_distance_collection_active := x13\<rparr>) = aspect s"
  "aspect (s\<lparr>ap_collected_certs := x14\<rparr>) = aspect s"
  "aspect (s\<lparr>ap_collected_distance_certs := x15\<rparr>) = aspect s"
  "aspect (s\<lparr>ap_local_vehicle_states := x16\<rparr>) = aspect s"
  "aspect (s\<lparr>ap_local_claim_hashes := x17\<rparr>) = aspect s"
  "aspect (s\<lparr>ap_my_received_echoes := x18\<rparr>) = aspect s"
  "aspect (s\<lparr>ap_my_received_distance_echoes := x19\<rparr>) = aspect s"
  "aspect (s\<lparr>ap_stopped_distance_samples := x20\<rparr>) = aspect s"
  "aspect (s\<lparr>ap_pending_distance_attestations := x21\<rparr>) = aspect s"
  "aspect (s\<lparr>ap_local_distance_attestation := x22\<rparr>) = aspect s"
  "aspect (s\<lparr>ap_stopped_distance_attestation_sent := x23\<rparr>) = aspect s"
  "aspect (s\<lparr>ap_stopped_distance_cert_broadcast := x24\<rparr>) = aspect s"
  "aspect (s\<lparr>ap_attestation_retry_count := x25\<rparr>) = aspect s"
  "aspect (s\<lparr>ap_cached_arrival_rejections := x28\<rparr>) = aspect s"
  "aspect (s\<lparr>ap_claim_variants := x30\<rparr>) = aspect s"
  "aspect (s\<lparr>ap_cached_local_announcements := x31\<rparr>) = aspect s"
  "aspect (s\<lparr>ap_observed_intent_cars := x32\<rparr>) = aspect s"
  "aspect (s\<lparr>ap_arrival_announcements_received := x33\<rparr>) = aspect s"
  "aspect (s\<lparr>ap_echoed_cars := x34\<rparr>) = aspect s"
  "aspect (s\<lparr>ap_uncertified_ambulance_claimers := x35\<rparr>) = aspect s"
  "aspect (s\<lparr>ap_cert_gate_rejected := x36\<rparr>) = aspect s"
  "aspect (s\<lparr>ap_cert_broadcast := x37\<rparr>) = aspect s"
  "aspect (s\<lparr>ap_cert_pending_retries := x38\<rparr>) = aspect s"
  "aspect (s\<lparr>ap_cert_retry_count := x39\<rparr>) = aspect s"
  "aspect (s\<lparr>ap_threshold_reached_at := x40\<rparr>) = aspect s"
  "aspect (s\<lparr>ap_cert_gossip_deadline := x41\<rparr>) = aspect s"
  "aspect (s\<lparr>ap_cert_relay_tracker := x42\<rparr>) = aspect s"
  "aspect (s\<lparr>ap_announcement_relay_tracker := x43\<rparr>) = aspect s"
  "aspect (s\<lparr>ap_pending_relays := x44\<rparr>) = aspect s"
  "aspect (s\<lparr>ap_order_candidate := x45\<rparr>) = aspect s"
  "aspect (s\<lparr>ap_order_vc_requested := x46\<rparr>) = aspect s"
  "aspect (s\<lparr>ap_order_vc_authoritative := x47\<rparr>) = aspect s"
  "aspect (s\<lparr>ap_deadline_timer := x48\<rparr>) = aspect s"
  "aspect (s\<lparr>ap_settle_timer := x49\<rparr>) = aspect s"
  "aspect (s\<lparr>ap_announce_timer := x50\<rparr>) = aspect s"
  "aspect (s\<lparr>ap_finalize_timer := x51\<rparr>) = aspect s"
  "aspect (s\<lparr>ap_distance_finalize_timer := x52\<rparr>) = aspect s"
  "aspect (s\<lparr>ap_attestation_retry_timer := x53\<rparr>) = aspect s"
  "aspect (s\<lparr>ap_cert_retry_timer := x54\<rparr>) = aspect s"
  "aspect (s\<lparr>ap_cert_gossip_timer := x55\<rparr>) = aspect s"
  "aspect (s\<lparr>ap_vc_trigger := x56\<rparr>) = aspect s"
  "aspect (s\<lparr>ap_flush_timer := x57\<rparr>) = aspect s"
  "aspect (s\<lparr>ap_pending_txs := x58\<rparr>) = aspect s"
  "aspect (s\<lparr>ap_sequenceNumber := x59\<rparr>) = aspect s"
  "aspect (s\<lparr>ap_sentMessages := x60\<rparr>) = aspect s"
  "aspect (s\<lparr>ap_draws := x61\<rparr>) = aspect s"
  by (simp_all add: aspect_def)

lemma aspect_cancel [simp]: "fate c = fate (ap_cx s) \<Longrightarrow> aspect (s\<lparr>ap_cx := c\<rparr>) = aspect s"
  by (simp add: aspect_def fate_def)

lemma aspect_calls [simp]:
  "aired cs = aired (ap_calls s) \<Longrightarrow> resumptions cs = resumptions (ap_calls s) \<Longrightarrow> aspect (s\<lparr>ap_calls := cs\<rparr>) = aspect s"
  by (simp add: aspect_def)

lemma fate_update [simp]:
  "fate (c\<lparr>cx_state := x0\<rparr>) = fate c"
  "fate (c\<lparr>cx_consensus_pending := x1\<rparr>) = fate c"
  "fate (c\<lparr>cx_propose_submitted := x2\<rparr>) = fate c"
  "fate (c\<lparr>cx_active_batch := x3\<rparr>) = fate c"
  "fate (c\<lparr>cx_primary := x4\<rparr>) = fate c"
  "fate (c\<lparr>cx_leader_candidates := x5\<rparr>) = fate c"
  "fate (c\<lparr>cx_leader_attack_logged := x6\<rparr>) = fate c"
  "fate (c\<lparr>cx_cert_bytes := x7\<rparr>) = fate c"
  "fate (c\<lparr>cx_pending := x8\<rparr>) = fate c"
  "fate (c\<lparr>cx_cancel_initiated := x9\<rparr>) = fate c"
  "fate (c\<lparr>cx_cancelled_epoch := x10\<rparr>) = fate c"
  "fate (c\<lparr>cx_new_epoch := x11\<rparr>) = fate c"
  "fate (c\<lparr>cx_reason := x12\<rparr>) = fate c"
  "fate (c\<lparr>cx_reason_ref := x13\<rparr>) = fate c"
  "fate (c\<lparr>cx_justification := x14\<rparr>) = fate c"
  "fate (c\<lparr>cx_local_recallable := x15\<rparr>) = fate c"
  "fate (c\<lparr>cx_expected_membership_size := x16\<rparr>) = fate c"
  "fate (c\<lparr>cx_rotation_index := x17\<rparr>) = fate c"
  "fate (c\<lparr>cx_gossip_acc := x18\<rparr>) = fate c"
  "fate (c\<lparr>cx_gossip_retry_count := x19\<rparr>) = fate c"
  "fate (c\<lparr>cx_gossip_epoch := x20\<rparr>) = fate c"
  "fate (c\<lparr>cx_gossip_bytes := x21\<rparr>) = fate c"
  "fate (c\<lparr>cx_echo_collector := x22\<rparr>) = fate c"
  "fate (c\<lparr>cx_echo_sent := x23\<rparr>) = fate c"
  "fate (c\<lparr>cx_cert_seen := x24\<rparr>) = fate c"
  "fate (c\<lparr>cx_cert_relayed := x25\<rparr>) = fate c"
  "fate (c\<lparr>cx_cert_carriers := x26\<rparr>) = fate c"
  "fate (c\<lparr>cx_cert_pending_retries := x27\<rparr>) = fate c"
  "fate (c\<lparr>cx_cert_retry_count := x28\<rparr>) = fate c"
  "fate (c\<lparr>cx_cert_retry_timer := x29\<rparr>) = fate c"
  "fate (c\<lparr>cx_drain_timer := x30\<rparr>) = fate c"
  "fate (c\<lparr>cx_vc_timer := x31\<rparr>) = fate c"
  "fate (c\<lparr>cx_gossip_timer := x32\<rparr>) = fate c"
  "fate (c\<lparr>cx_fabricated_logged := x33\<rparr>) = fate c"
  "fate (c\<lparr>cx_fabricated_active := x34\<rparr>) = fate c"
  "fate (c\<lparr>cx_crash_dwell_since := x35\<rparr>) = fate c"
  "fate (c\<lparr>cx_crash_echoed_targets := x36\<rparr>) = fate c"
  by (simp_all add: fate_def)

lemma aspect_call [simp]:
  "aspect (call Call_stopVehicle s) = aspect s" "aspect (call (Call_triggerConsensus p) s) = aspect s"
  "aspect (call (Call_advanceExecutor e) s) = aspect s" "aspect (call (Call_applyOrder p) s) = aspect s"
  "aspect (call (Call_deliverPacket r p) s) = aspect s" "aspect (call Call_setPbftSilent s) = aspect s"
  "aspect (call (Call_markReplicaInactive e) s) = aspect s" "aspect (call Call_forceViewChange s) = aspect s"
  "aspect (call Call_raise s) = aspect s" "aspect (evaluateOrderReadiness_call s) = aspect s"
  by (simp_all add: call_def evaluateOrderReadiness_call_def)

lemma aspect_air [simp]: "\<not> ap_crashCommsDisabled s \<Longrightarrow> aspect (air r t p a s) = aspect s"
  by (simp add: air_def aspect_def)

section \<open>Frame rules\<close>

lemma fold_frame [simp]: "(\<And>x s. aspect (f x s) = aspect s) \<Longrightarrow> aspect (fold f xs s) = aspect s"
  by (induction xs arbitrary: s) simp_all

lemma stopCertBroadcastRetries_frame [simp]:
  "aspect (stopCertBroadcastRetries s) = aspect s"
  by (simp_all add: stopCertBroadcastRetries_def Let_def case_prod_beta split: option.split list.split)

lemma stopStopZoneCertGossip_frame [simp]:
  "aspect (stopStopZoneCertGossip s) = aspect s"
  by (simp_all add: stopStopZoneCertGossip_def Let_def case_prod_beta split: option.split list.split)

lemma sendBFTMessageNow_frame [simp]:
  "aspect (sendBFTMessageNow x0 x1 x2 s) = aspect s"
  by (simp_all add: sendBFTMessageNow_def Let_def case_prod_beta split: option.split list.split)

lemma scheduleDiscoveryTxFlush_frame [simp]:
  "aspect (scheduleDiscoveryTxFlush s) = aspect s"
  by (simp_all add: scheduleDiscoveryTxFlush_def Let_def case_prod_beta split: option.split list.split)

lemma enqueueDiscoveryTx_frame [simp]:
  "aspect (enqueueDiscoveryTx x0 x1 x2 x3 x4 x5 s) = aspect s"
  by (simp_all add: enqueueDiscoveryTx_def Let_def case_prod_beta split: option.split list.split)

lemma cancelPendingDiscoveryTxs_frame [simp]:
  "aspect (cancelPendingDiscoveryTxs s) = aspect s"
  by (simp_all add: cancelPendingDiscoveryTxs_def Let_def case_prod_beta split: option.split list.split)

lemma discardPendingDiscoveryNonCerts_frame [simp]:
  "aspect (discardPendingDiscoveryNonCerts s) = aspect s"
  by (simp_all add: discardPendingDiscoveryNonCerts_def Let_def case_prod_beta split: option.split list.split)

lemma finishDiscoveryRound_frame [simp]:
  "aspect (finishDiscoveryRound s) = aspect s"
  by (simp_all add: finishDiscoveryRound_def Let_def case_prod_beta split: option.split list.split)

lemma maybeCompleteDiscoveryDrain_frame [simp]:
  "aspect (maybeCompleteDiscoveryDrain s) = aspect s"
  by (simp_all add: maybeCompleteDiscoveryDrain_def Let_def case_prod_beta split: option.split list.split)

lemma flush_one_frame [simp]:
  "aspect (flush_one x0 s) = aspect s"
  by (simp_all add: flush_one_def Let_def case_prod_beta split: option.split list.split)

lemma flush_all_frame [simp]:
  "aspect (flush_all x0 s) = aspect s"
  by (induction x0 s rule: flush_all.induct) (simp_all add: Let_def case_prod_beta split: option.split list.split)

lemma flushDueDiscoveryTxs_frame [simp]:
  "aspect (flushDueDiscoveryTxs s) = aspect s"
  by (simp_all add: flushDueDiscoveryTxs_def Let_def case_prod_beta split: option.split list.split)

lemma sendBFTMessage_frame [simp]:
  "aspect (sendBFTMessage env x1 x2 x3 x4 x5 s) = aspect s"
  by (simp_all add: sendBFTMessage_def Let_def case_prod_beta split: option.split list.split)

lemma resetOrderCandidate_frame [simp]:
  "aspect (resetOrderCandidate s) = aspect s"
  by (simp_all add: resetOrderCandidate_def Let_def case_prod_beta split: option.split list.split)

lemma cancelArrivalCertFinalizeTimer_frame [simp]:
  "aspect (cancelArrivalCertFinalizeTimer s) = aspect s"
  by (simp_all add: cancelArrivalCertFinalizeTimer_def Let_def case_prod_beta split: option.split list.split)

lemma cancelStoppedDistanceAttestationRetry_frame [simp]:
  "aspect (cancelStoppedDistanceAttestationRetry s) = aspect s"
  by (simp_all add: cancelStoppedDistanceAttestationRetry_def Let_def case_prod_beta split: option.split list.split)

lemma cancelStoppedDistanceFinalizeTimer_frame [simp]:
  "aspect (cancelStoppedDistanceFinalizeTimer s) = aspect s"
  by (simp_all add: cancelStoppedDistanceFinalizeTimer_def Let_def case_prod_beta split: option.split list.split)

lemma armDiscoveryTimers_frame [simp]:
  "aspect (armDiscoveryTimers env s) = aspect s"
  by (simp_all add: armDiscoveryTimers_def Let_def case_prod_beta split: option.split list.split)

lemma startDiscoveryRound_frame [simp]:
  "aspect (startDiscoveryRound env s) = aspect s"
  by (simp_all add: startDiscoveryRound_def Let_def case_prod_beta split: option.split list.split)

lemma noteDiscoveryIntent_frame [simp]:
  "aspect (noteDiscoveryIntent env x1 s) = aspect s"
  by (simp_all add: noteDiscoveryIntent_def Let_def case_prod_beta split: option.split list.split)

lemma deactivateDiscovery_frame [simp]:
  "aspect (deactivateDiscovery s) = aspect s"
  by (simp_all add: deactivateDiscovery_def Let_def case_prod_beta split: option.split list.split)

lemma beginStoppedDistanceCollection_frame [simp]:
  "aspect (beginStoppedDistanceCollection env s) = aspect s"
  by (simp_all add: beginStoppedDistanceCollection_def Let_def case_prod_beta split: option.split list.split)

lemma scheduleNextCertRetry_frame [simp]:
  "aspect (scheduleNextCertRetry env s) = aspect s"
  by (simp_all add: scheduleNextCertRetry_def Let_def case_prod_beta split: option.split list.split)

lemma send_certs_frame [simp]:
  "aspect (send_certs env x1 s) = aspect s"
  by (induction env x1 s rule: send_certs.induct) (simp_all add: Let_def case_prod_beta split: option.split list.split)

lemma broadcastCollectedCerts_frame [simp]:
  "aspect (broadcastCollectedCerts env s) = aspect s"
  by (simp_all add: broadcastCollectedCerts_def Let_def case_prod_beta split: option.split list.split)

lemma scheduleNextStopZoneCertGossip_frame [simp]:
  "aspect (scheduleNextStopZoneCertGossip env s) = aspect s"
  by (simp_all add: scheduleNextStopZoneCertGossip_def Let_def case_prod_beta split: option.split list.split)

lemma startStopZoneCertGossip_frame [simp]:
  "aspect (startStopZoneCertGossip env x1 s) = aspect s"
  by (simp_all add: startStopZoneCertGossip_def Let_def case_prod_beta split: option.split list.split)

lemma beginWitnessing_frame [simp]:
  "aspect (beginWitnessing s) = aspect s"
  by (simp_all add: beginWitnessing_def Let_def case_prod_beta split: option.split list.split)

lemma sendCancelEcho_frame [simp]:
  "aspect (sendCancelEcho env x1 x2 x3 s) = aspect s"
  by (simp_all add: sendCancelEcho_def Let_def case_prod_beta split: option.split list.split)

lemma maybeTriggerEmergencyRollback_frame [simp]:
  "aspect (maybeTriggerEmergencyRollback env x1 x2 s) = aspect s"
  by (simp_all add: maybeTriggerEmergencyRollback_def Let_def case_prod_beta split: option.split list.split)

lemma publishArrivalCert_frame [simp]:
  "aspect (publishArrivalCert env x1 s) = aspect s"
  by (simp_all add: publishArrivalCert_def Let_def case_prod_beta split: option.split list.split)

lemma broadcastArrivalCert_with_frame [simp]:
  assumes [simp]: "\<And>s. aspect (f s) = aspect s"
  shows "aspect (broadcastArrivalCert_with env f x2 s) = aspect s"
  by (simp_all add: broadcastArrivalCert_with_def Let_def case_prod_beta split: option.split list.split)

lemma finalizeLocalArrivalCert_with_frame [simp]:
  assumes [simp]: "\<And>s. aspect (f s) = aspect s"
  shows "aspect (finalizeLocalArrivalCert_with env f s) = aspect s"
  by (simp_all add: finalizeLocalArrivalCert_with_def Let_def case_prod_beta split: option.split list.split)

lemma publishDistanceCert_frame [simp]:
  "aspect (publishDistanceCert env x1 s) = aspect s"
  by (simp_all add: publishDistanceCert_def Let_def case_prod_beta split: option.split list.split)

lemma finalizeLocalStoppedDistanceCert_with_frame [simp]:
  assumes [simp]: "\<And>s. aspect (f s) = aspect s"
  shows "aspect (finalizeLocalStoppedDistanceCert_with env f s) = aspect s"
  by (simp_all add: finalizeLocalStoppedDistanceCert_with_def Let_def case_prod_beta split: option.split list.split)

lemma beginDiscoveryDrain_with_frame [simp]:
  assumes [simp]: "\<And>s. aspect (f s) = aspect s"
  shows "aspect (beginDiscoveryDrain_with env f x2 s) = aspect s"
  by (simp_all add: beginDiscoveryDrain_with_def Let_def case_prod_beta split: option.split list.split)

lemma maybeAdvanceDiscovery_with_frame [simp]:
  assumes [simp]: "\<And>s. aspect (f s) = aspect s"
  shows "aspect (maybeAdvanceDiscovery_with env f x2 s) = aspect s"
  by (simp_all add: maybeAdvanceDiscovery_with_def Let_def case_prod_beta split: option.split list.split)

lemma advance_levels_frame [simp]:
  "aspect (advance_levels x0 env s) = aspect s"
  by (induction x0 env s rule: advance_levels.induct) (simp_all add: Let_def case_prod_beta split: option.split list.split)

lemma maybeAdvanceDiscovery_frame [simp]:
  "aspect (maybeAdvanceDiscovery env x1 s) = aspect s"
  by (simp_all add: maybeAdvanceDiscovery_def Let_def case_prod_beta split: option.split list.split)

lemma beginDiscoveryDrain_frame [simp]:
  "aspect (beginDiscoveryDrain env x1 s) = aspect s"
  by (simp_all add: beginDiscoveryDrain_def Let_def case_prod_beta split: option.split list.split)

lemma finalizeLocalArrivalCert_frame [simp]:
  "aspect (finalizeLocalArrivalCert env s) = aspect s"
  by (simp_all add: finalizeLocalArrivalCert_def Let_def case_prod_beta split: option.split list.split)

lemma broadcastArrivalCert_frame [simp]:
  "aspect (broadcastArrivalCert env x1 s) = aspect s"
  by (simp_all add: broadcastArrivalCert_def Let_def case_prod_beta split: option.split list.split)

lemma finalizeLocalStoppedDistanceCert_frame [simp]:
  "aspect (finalizeLocalStoppedDistanceCert env s) = aspect s"
  by (simp_all add: finalizeLocalStoppedDistanceCert_def Let_def case_prod_beta split: option.split list.split)

lemma onCertRetryTimer_frame [simp]:
  "aspect (onCertRetryTimer env s) = aspect s"
  by (simp_all add: onCertRetryTimer_def Let_def case_prod_beta split: option.split list.split)

lemma onCertGossipTimer_frame [simp]:
  "aspect (onCertGossipTimer env s) = aspect s"
  by (simp_all add: onCertGossipTimer_def Let_def case_prod_beta split: option.split list.split)

lemma onArrivalFinalizeTimer_frame [simp]:
  "aspect (onArrivalFinalizeTimer env s) = aspect s"
  by (simp_all add: onArrivalFinalizeTimer_def Let_def case_prod_beta split: option.split list.split)

lemma onDistanceFinalizeTimer_frame [simp]:
  "aspect (onDistanceFinalizeTimer env s) = aspect s"
  by (simp_all add: onDistanceFinalizeTimer_def Let_def case_prod_beta split: option.split list.split)

lemma onFlushTimer_frame [simp]:
  "aspect (onFlushTimer s) = aspect s"
  by (simp_all add: onFlushTimer_def Let_def case_prod_beta split: option.split list.split)

lemma sendArrivalAnnouncementGossipPayload_frame [simp]:
  "aspect (sendArrivalAnnouncementGossipPayload env x1 x2 x3 s) = aspect s"
  by (simp_all add: sendArrivalAnnouncementGossipPayload_def Let_def case_prod_beta split: option.split list.split)

lemma gossipArrivalAnnouncement_frame [simp]:
  "aspect (gossipArrivalAnnouncement env x1 x2 s) = aspect s"
  by (simp_all add: gossipArrivalAnnouncement_def Let_def case_prod_beta split: option.split list.split)

lemma armArrivalCertFinalizeTimer_frame [simp]:
  "aspect (armArrivalCertFinalizeTimer env s) = aspect s"
  by (simp_all add: armArrivalCertFinalizeTimer_def Let_def case_prod_beta split: option.split list.split)

lemma collectArrivalEcho_frame [simp]:
  "aspect (collectArrivalEcho env x1 s) = aspect s"
  by (simp_all add: collectArrivalEcho_def Let_def case_prod_beta split: option.split list.split)

lemma handleArrivalEcho_frame:
  "handleArrivalEcho env x1 s = Some t \<Longrightarrow> aspect t = aspect s"
  by (auto simp: handleArrivalEcho_def Let_def case_prod_beta split: option.split_asm if_split_asm list.split_asm)

lemma addLocalSelfAttestation_frame [simp]:
  "aspect (addLocalSelfAttestation env x1 s) = aspect s"
  by (simp_all add: addLocalSelfAttestation_def Let_def case_prod_beta split: option.split list.split)

lemma send_announcement_frame [simp]:
  "aspect (send_announcement env x1 x2 s) = aspect s"
  by (simp_all add: send_announcement_def Let_def case_prod_beta split: option.split list.split)

lemma resend_to_peers_frame [simp]:
  "aspect (resend_to_peers env x1 s) = aspect s"
  by (induction env x1 s rule: resend_to_peers.induct) (simp_all add: Let_def case_prod_beta split: option.split list.split)

lemma equivocate_to_peers_frame [simp]:
  "aspect (equivocate_to_peers env x1 x2 x3 s) = aspect s"
  by (induction env x1 x2 x3 s rule: equivocate_to_peers.induct) (simp_all add: Let_def case_prod_beta split: option.split list.split)

lemma store_claim_frame [simp]:
  "aspect (store_claim x0 x1 x2 s) = aspect s"
  by (simp_all add: store_claim_def Let_def case_prod_beta split: option.split list.split)

lemma store_own_claim_frame [simp]:
  "aspect (store_own_claim env x1 s) = aspect s"
  by (simp_all add: store_own_claim_def Let_def case_prod_beta split: option.split list.split)

lemma announce_fresh_frame [simp]:
  "aspect (announce_fresh env s) = aspect s"
  by (simp_all add: announce_fresh_def Let_def case_prod_beta split: option.split list.split)

lemma broadcastArrivalAnnouncement_frame [simp]:
  "aspect (broadcastArrivalAnnouncement env s) = aspect s"
  by (simp_all add: broadcastArrivalAnnouncement_def Let_def case_prod_beta split: option.split list.split)

text \<open>The operations on announcements leave everything but the claims alone.\<close>

lemma claims_update [simp]:
  "(aspect (s\<lparr>ap_arrival_perception_samples := x\<rparr>))\<lparr>as_claims := c\<rparr> = (aspect s)\<lparr>as_claims := c\<rparr>"
  "(aspect (s\<lparr>ap_cached_arrival_echoes := y\<rparr>))\<lparr>as_claims := c\<rparr> = (aspect s)\<lparr>as_claims := c\<rparr>"
  "(aspect (s\<lparr>ap_first_arrival_claim_hashes := z\<rparr>))\<lparr>as_claims := c\<rparr> = (aspect s)\<lparr>as_claims := c\<rparr>"
  by (simp_all add: aspect_def)

lemma sendArrivalEcho_frame [simp]:
  "(aspect (sendArrivalEcho env x1 s))\<lparr>as_claims := c\<rparr> = (aspect s)\<lparr>as_claims := c\<rparr>"
  by (simp_all add: sendArrivalEcho_def Let_def case_prod_beta split: option.split list.split)

lemma record_variant_frame [simp]:
  "(aspect (record_variant env x1 x2 s))\<lparr>as_claims := c\<rparr> = (aspect s)\<lparr>as_claims := c\<rparr>"
  by (simp_all add: record_variant_def Let_def case_prod_beta split: option.split list.split)

lemma pending_relay_frame [simp]:
  "aspect (pending_relay x0 x1 s) = aspect s"
  by (simp_all add: pending_relay_def Let_def case_prod_beta split: option.split list.split)

lemma reject_claim_frame [simp]:
  "aspect (reject_claim env x1 x2 x3 s) = aspect s"
  by (simp_all add: reject_claim_def Let_def case_prod_beta split: option.split list.split)

lemma accept_claim_frame [simp]:
  "(aspect (accept_claim env x1 x2 x3 s))\<lparr>as_claims := c\<rparr> = (aspect s)\<lparr>as_claims := c\<rparr>"
  by (simp_all add: accept_claim_def Let_def case_prod_beta split: option.split list.split)

lemma evaluate_claim_frame [simp]:
  "(aspect (evaluate_claim env x1 x2 x3 s))\<lparr>as_claims := c\<rparr> = (aspect s)\<lparr>as_claims := c\<rparr>"
  by (simp_all add: evaluate_claim_def Let_def case_prod_beta split: option.split list.split)

lemma process_announcement_frame [simp]:
  "(aspect (process_announcement env x1 x2 s))\<lparr>as_claims := c\<rparr> = (aspect s)\<lparr>as_claims := c\<rparr>"
  by (simp_all add: process_announcement_def Let_def case_prod_beta split: option.split list.split)

lemma handleArrivalAnnouncement_frame:
  "handleArrivalAnnouncement env x1 s = Some t \<Longrightarrow> (aspect t)\<lparr>as_claims := c\<rparr> = (aspect s)\<lparr>as_claims := c\<rparr>"
  by (auto simp: handleArrivalAnnouncement_def Let_def case_prod_beta split: option.split_asm if_split_asm list.split_asm)

lemma handleArrivalAnnouncementGossip_frame:
  "handleArrivalAnnouncementGossip env x1 s = Some t \<Longrightarrow> (aspect t)\<lparr>as_claims := c\<rparr> = (aspect s)\<lparr>as_claims := c\<rparr>"
  by (auto simp: handleArrivalAnnouncementGossip_def Let_def case_prod_beta dest: handleArrivalAnnouncement_frame
      split: option.split_asm if_split_asm)

lemma scheduleStoppedDistanceAttestationRetry_frame [simp]:
  "aspect (scheduleStoppedDistanceAttestationRetry env s) = aspect s"
  by (simp_all add: scheduleStoppedDistanceAttestationRetry_def Let_def case_prod_beta split: option.split list.split)

lemma retryStoppedDistanceAttestation_frame [simp]:
  "aspect (retryStoppedDistanceAttestation env s) = aspect s"
  by (simp_all add: retryStoppedDistanceAttestation_def Let_def case_prod_beta split: option.split list.split)

lemma maybeBroadcastStoppedDistanceAttestation_frame [simp]:
  "aspect (maybeBroadcastStoppedDistanceAttestation env s) = aspect s"
  by (simp_all add: maybeBroadcastStoppedDistanceAttestation_def Let_def case_prod_beta split: option.split list.split)

lemma handleStoppedDistanceAttestation_frame [simp]:
  "aspect (handleStoppedDistanceAttestation env x1 s) = aspect s"
  by (simp_all add: handleStoppedDistanceAttestation_def Let_def case_prod_beta split: option.split list.split)

lemma process_pending_frame [simp]:
  "aspect (process_pending env x1 s) = aspect s"
  by (induction env x1 s rule: process_pending.induct) (simp_all add: Let_def case_prod_beta split: option.split list.split)

lemma processPendingStoppedDistanceAttestation_frame [simp]:
  "aspect (processPendingStoppedDistanceAttestation env x1 s) = aspect s"
  by (simp_all add: processPendingStoppedDistanceAttestation_def Let_def case_prod_beta split: option.split list.split)

lemma collectStoppedDistanceEcho_frame [simp]:
  "aspect (collectStoppedDistanceEcho env x1 s) = aspect s"
  by (simp_all add: collectStoppedDistanceEcho_def Let_def case_prod_beta split: option.split list.split)

lemma handleStoppedDistanceEcho_frame [simp]:
  "aspect (handleStoppedDistanceEcho env x1 s) = aspect s"
  by (simp_all add: handleStoppedDistanceEcho_def Let_def case_prod_beta split: option.split list.split)

lemma handleStoppedDistanceCert_frame [simp]:
  "aspect (handleStoppedDistanceCert env x1 s) = aspect s"
  by (simp_all add: handleStoppedDistanceCert_def Let_def case_prod_beta split: option.split list.split)

lemma note_certified_frame [simp]:
  "aspect (note_certified env x1 s) = aspect s"
  by (simp_all add: note_certified_def Let_def case_prod_beta split: option.split list.split)

lemma relay_cert_frame [simp]:
  "aspect (relay_cert env x1 s) = aspect s"
  by (simp_all add: relay_cert_def Let_def case_prod_beta split: option.split list.split)

lemma store_cert_frame [simp]:
  "aspect (store_cert env x1 s) = aspect s"
  by (simp_all add: store_cert_def Let_def case_prod_beta split: option.split list.split)

lemma handleArrivalCert_frame:
  "handleArrivalCert env x1 s = Some t \<Longrightarrow> aspect t = aspect s"
  by (auto simp: handleArrivalCert_def Let_def case_prod_beta split: option.split_asm if_split_asm list.split_asm)

lemma backoffDelaySec_frame [simp]:
  "aspect (snd (backoffDelaySec env x1 x2 x3 s)) = aspect s"
  by (simp_all add: backoffDelaySec_def Let_def case_prod_beta split: option.split list.split)

lemma chooseCancelProposer_frame [simp]:
  "aspect (snd (chooseCancelProposer s)) = aspect s"
  by (simp_all add: chooseCancelProposer_def Let_def case_prod_beta split: option.split list.split)

lemma stopGossip_frame [simp]:
  "aspect (stopGossip s) = aspect s"
  by (simp_all add: stopGossip_def Let_def case_prod_beta split: option.split list.split)

lemma halt_if_recallable_frame [simp]:
  "aspect (halt_if_recallable s) = aspect s"
  by (simp_all add: halt_if_recallable_def Let_def case_prod_beta split: option.split list.split)

lemma cancelClearCertCandidate_frame [simp]:
  "aspect (cancelClearCertCandidate s) = aspect s"
  by (simp_all add: cancelClearCertCandidate_def Let_def case_prod_beta split: option.split list.split)

lemma cancelClearCertRelay_frame [simp]:
  "aspect (cancelClearCertRelay s) = aspect s"
  by (simp_all add: cancelClearCertRelay_def Let_def case_prod_beta split: option.split list.split)

lemma stopCancelCertRetries_frame [simp]:
  "aspect (stopCancelCertRetries s) = aspect s"
  by (simp_all add: stopCancelCertRetries_def Let_def case_prod_beta split: option.split list.split)

lemma scheduleNextCancelCertRetry_frame [simp]:
  "aspect (scheduleNextCancelCertRetry env s) = aspect s"
  by (simp_all add: scheduleNextCancelCertRetry_def Let_def case_prod_beta split: option.split list.split)

lemma onCancelCertRetryTimer_frame [simp]:
  "aspect (onCancelCertRetryTimer env s) = aspect s"
  by (simp_all add: onCancelCertRetryTimer_def Let_def case_prod_beta split: option.split list.split)

lemma proposeCancel_frame [simp]:
  "aspect (proposeCancel env s) = aspect s"
  by (simp_all add: proposeCancel_def Let_def case_prod_beta split: option.split list.split)

lemma arm_cancel_lease_frame [simp]:
  "aspect (arm_cancel_lease env s) = aspect s"
  by (simp_all add: arm_cancel_lease_def Let_def case_prod_beta split: option.split list.split)

lemma trySubmitCancelProposal_frame [simp]:
  "aspect (trySubmitCancelProposal env s) = aspect s"
  by (simp_all add: trySubmitCancelProposal_def Let_def case_prod_beta split: option.split list.split)

lemma onCancelVcTimer_frame [simp]:
  "aspect (onCancelVcTimer env s) = aspect s"
  by (simp_all add: onCancelVcTimer_def Let_def case_prod_beta split: option.split list.split)

lemma beginCancelDrain_frame [simp]:
  "aspect (beginCancelDrain env s) = aspect s"
  by (simp_all add: beginCancelDrain_def Let_def case_prod_beta split: option.split list.split)

lemma finishCancelDrain_frame [simp]:
  "aspect (finishCancelDrain env s) = aspect s"
  by (simp_all add: finishCancelDrain_def Let_def case_prod_beta split: option.split list.split)

lemma onCancelDrainTimer_frame [simp]:
  "aspect (onCancelDrainTimer env s) = aspect s"
  by (simp_all add: onCancelDrainTimer_def Let_def case_prod_beta split: option.split list.split)

lemma handleValidCancelJustification_frame [simp]:
  "aspect (handleValidCancelJustification env x1 x2 x3 x4 s) = aspect s"
  by (simp_all add: handleValidCancelJustification_def Let_def case_prod_beta split: option.split list.split)

lemma relay_cancel_cert_frame [simp]:
  "aspect (relay_cancel_cert env x1 x2 s) = aspect s"
  by (simp_all add: relay_cancel_cert_def Let_def case_prod_beta split: option.split list.split)

lemma maybeTriggerCrashRollback_frame [simp]:
  "aspect (maybeTriggerCrashRollback env x1 s) = aspect s"
  by (simp_all add: maybeTriggerCrashRollback_def Let_def case_prod_beta split: option.split list.split)

lemma detectUnsafeBatch_frame [simp]:
  "aspect (detectUnsafeBatch env ds n s) = aspect s"
  by (simp add: detectUnsafeBatch_def)

lemma send_cancel_gossip_frame [simp]:
  "aspect (send_cancel_gossip env x1 x2 s) = aspect s"
  by (simp_all add: send_cancel_gossip_def Let_def case_prod_beta split: option.split list.split)

lemma triggerCancelCommitGossip_frame [simp]:
  "aspect (triggerCancelCommitGossip env x1 x2 s) = aspect s"
  by (simp_all add: triggerCancelCommitGossip_def Let_def case_prod_beta split: option.split list.split)

lemma onCancelGossipTimer_frame [simp]:
  "aspect (onCancelGossipTimer env s) = aspect s"
  by (simp_all add: onCancelGossipTimer_def Let_def case_prod_beta split: option.split list.split)

lemma broadcastCancelCommitAttestation_frame [simp]:
  "aspect (broadcastCancelCommitAttestation env x1 s) = aspect s"
  by (simp_all add: broadcastCancelCommitAttestation_def Let_def case_prod_beta split: option.split list.split)

lemma clear_discovery_frame [simp]:
  "aspect (clear_discovery s) = (aspect s)\<lparr>as_claims := ([], [], [])\<rparr>"
  by (simp add: clear_discovery_def aspect_def claims_def)

lemma begin_recovery_epoch_frame [simp]:
  "aspect (begin_recovery_epoch x0 x1 x2 x3 s) = (aspect s)\<lparr>as_claims := ([], [], [])\<rparr>"
  by (simp_all add: begin_recovery_epoch_def Let_def)

lemma reannounce_frame [simp]:
  "aspect (reannounce env s) = aspect s"
  by (simp_all add: reannounce_def Let_def case_prod_beta split: option.split list.split)

lemma rearm_poll_frame [simp]:
  "aspect (rearm_poll env s) = aspect s"
  by (simp_all add: rearm_poll_def Let_def case_prod_beta split: option.split list.split)

lemma beginPostCancelDiscovery_frame [simp]:
  "aspect (beginPostCancelDiscovery env x1 x2 x3 x4 s) =
     (if cx_pending (ap_cx s) \<and> cx_cancelled_epoch (ap_cx s) = x1 then aspect s
      else (aspect s)\<lparr>as_claims := ([], [], [])\<rparr>)"
  by (simp_all add: beginPostCancelDiscovery_def Let_def case_prod_beta split: option.split list.split)

lemma sendWaitHeartbeat_frame [simp]:
  "aspect (sendWaitHeartbeat env x1 s) = aspect s"
  by (simp_all add: sendWaitHeartbeat_def Let_def case_prod_beta split: option.split list.split)

lemma maybeSendWaitHeartbeat_frame [simp]:
  "aspect (maybeSendWaitHeartbeat env s) = aspect s"
  by (simp_all add: maybeSendWaitHeartbeat_def Let_def case_prod_beta split: option.split list.split)

lemma accept_wait_frame [simp]:
  "aspect (accept_wait env x1 s) = aspect s"
  by (simp_all add: accept_wait_def Let_def case_prod_beta split: option.split list.split)

lemma handleWaitHeartbeat_frame [simp]:
  "aspect (handleWaitHeartbeat env x1 s) = aspect s"
  by (simp_all add: handleWaitHeartbeat_def Let_def case_prod_beta split: option.split list.split)

lemma stopWait_frame [simp]:
  "aspect (stopWait s) = aspect s"
  by (simp_all add: stopWait_def Let_def case_prod_beta split: option.split list.split)

lemma onWaitSendTimer_frame [simp]:
  "aspect (onWaitSendTimer env s) = aspect s"
  by (simp_all add: onWaitSendTimer_def Let_def case_prod_beta split: option.split list.split)

lemma onWaitExpiryTimer_frame [simp]:
  "aspect (onWaitExpiryTimer s) = aspect s"
  by (simp_all add: onWaitExpiryTimer_def Let_def case_prod_beta split: option.split list.split)

lemma submit_order_frame [simp]:
  "aspect (submit_order env x1 s) = aspect s"
  by (simp_all add: submit_order_def Let_def case_prod_beta split: option.split list.split)

lemma install_cert_primary_frame [simp]:
  "aspect (snd (install_cert_primary env x1 s)) = aspect s"
  by (simp_all add: install_cert_primary_def Let_def case_prod_beta split: option.split list.split)

lemma proposeAll_with_frame [simp]:
  assumes [simp]: "\<And>s. aspect (f s) = aspect s"
  shows "aspect (proposeAll_with env f s) = aspect s"
  by (simp_all add: proposeAll_with_def Let_def case_prod_beta split: option.split bool.split)

lemma armOrderSuspicionTimer_frame [simp]:
  "aspect (armOrderSuspicionTimer env s) = aspect s"
  by (simp_all add: armOrderSuspicionTimer_def Let_def case_prod_beta split: option.split list.split)

lemma fabricate_clearance_frame [simp]:
  assumes [simp]: "\<And>s. aspect (f s) = aspect s"
  shows "aspect (fabricate_clearance env f s) = aspect s"
  by (simp_all add: fabricate_clearance_def Let_def case_prod_beta split: option.split list.split)

lemma freeze_candidate_frame [simp]:
  "aspect (freeze_candidate env s) = aspect s"
  by (simp_all add: freeze_candidate_def Let_def case_prod_beta split: option.split list.split)

lemma elect_and_propose_frame [simp]:
  assumes [simp]: "\<And>s. aspect (f s) = aspect s"
  shows "aspect (elect_and_propose env f x2 s) = aspect s"
  by (simp_all add: elect_and_propose_def Let_def case_prod_beta split: option.split bool.split)

lemma evaluateOrderReadiness_with_frame [simp]:
  assumes [simp]: "\<And>s. aspect (f s) = aspect s"
  shows "aspect (evaluateOrderReadiness_with env f s) = aspect s"
  by (simp_all add: evaluateOrderReadiness_with_def Let_def case_prod_beta split: option.split bool.split)

lemma evaluateOrderReadiness_frame [simp]:
  "aspect (evaluateOrderReadiness env s) = aspect s"
  by (simp_all add: evaluateOrderReadiness_def Let_def case_prod_beta split: option.split list.split)

lemma proposeAll_frame [simp]:
  "aspect (proposeAll env s) = aspect s"
  by (simp_all add: proposeAll_def Let_def case_prod_beta split: option.split list.split)

lemma sendClearEcho_frame [simp]:
  "aspect (sendClearEcho env x1 x2 s) = aspect s"
  by (simp_all add: sendClearEcho_def Let_def case_prod_beta split: option.split list.split)

lemma scheduleClearCertCandidate_frame [simp]:
  "aspect (scheduleClearCertCandidate env x1 s) = aspect s"
  by (simp_all add: scheduleClearCertCandidate_def Let_def case_prod_beta split: option.split list.split)

lemma collectClearEcho_frame [simp]:
  "aspect (collectClearEcho env x1 s) = aspect s"
  by (simp_all add: collectClearEcho_def Let_def case_prod_beta split: option.split list.split)

lemma handleClearEcho_frame:
  "handleClearEcho env x1 s = Some t \<Longrightarrow> aspect t = aspect s"
  by (auto simp: handleClearEcho_def Let_def case_prod_beta split: option.split_asm if_split_asm list.split_asm)

lemma sendClearCertCarrier_frame [simp]:
  "aspect (sendClearCertCarrier env x1 s) = aspect s"
  by (simp_all add: sendClearCertCarrier_def Let_def case_prod_beta split: option.split list.split)

lemma observe_carrier_frame [simp]:
  "aspect (observe_carrier x0 x1 s) = aspect s"
  by (simp_all add: observe_carrier_def Let_def case_prod_beta split: option.split list.split)

lemma scheduleClearCertRelay_frame [simp]:
  "aspect (scheduleClearCertRelay env x1 x2 s) = aspect s"
  by (simp_all add: scheduleClearCertRelay_def Let_def case_prod_beta split: option.split list.split)

lemma stopClearCertRetries_frame [simp]:
  "aspect (stopClearCertRetries s) = aspect s"
  by (simp_all add: stopClearCertRetries_def Let_def case_prod_beta split: option.split list.split)

lemma scheduleNextClearCertRetry_frame [simp]:
  "aspect (scheduleNextClearCertRetry env s) = aspect s"
  by (simp_all add: scheduleNextClearCertRetry_def Let_def case_prod_beta split: option.split list.split)

lemma onClearCertRetryTimer_frame [simp]:
  "aspect (onClearCertRetryTimer env s) = aspect s"
  by (simp_all add: onClearCertRetryTimer_def Let_def case_prod_beta split: option.split list.split)

lemma onClearRelayTimer_frame [simp]:
  "aspect (onClearRelayTimer env s) = aspect s"
  by (simp_all add: onClearRelayTimer_def Let_def case_prod_beta split: option.split list.split)

lemma watch_target_frame [simp]:
  "aspect (watch_target env x1 x2 s) = aspect s"
  by (simp_all add: watch_target_def Let_def case_prod_beta split: option.split list.split)

lemma watch_batches_frame [simp]:
  "aspect (watch_batches env x1 s) = aspect s"
  by (induction env x1 s rule: watch_batches.induct) (simp_all add: Let_def case_prod_beta split: option.split list.split)

lemma watch_incident_frame [simp]:
  "aspect (watch_incident env x1 x2 s) = aspect s"
  by (simp_all add: watch_incident_def Let_def case_prod_beta split: option.split list.split)

lemma watch_incidents_frame [simp]:
  "aspect (watch_incidents env x1 s) = aspect s"
  by (induction env x1 s rule: watch_incidents.induct) (simp_all add: Let_def case_prod_beta split: option.split list.split)

lemma perceive_frame [simp]:
  "aspect (perceive env s) = aspect s"
  by (simp_all add: perceive_def Let_def case_prod_beta split: option.split list.split)

lemma rearm_poll_timer_frame [simp]:
  "aspect (rearm_poll_timer env s) = aspect s"
  by (simp_all add: rearm_poll_timer_def Let_def case_prod_beta split: option.split list.split)

lemma scheduleNextGossip_frame [simp]:
  "aspect (scheduleNextGossip env s) = aspect s"
  by (simp_all add: scheduleNextGossip_def Let_def case_prod_beta split: option.split list.split)

lemma send_decision_gossip_frame [simp]:
  "aspect (send_decision_gossip env x1 x2 s) = aspect s"
  by (simp_all add: send_decision_gossip_def Let_def case_prod_beta split: option.split list.split)

lemma bump_gossip_frame [simp]:
  "aspect (bump_gossip s) = aspect s"
  by (simp_all add: bump_gossip_def Let_def case_prod_beta split: option.split list.split)

lemma triggerGossip_frame [simp]:
  "aspect (triggerGossip env x1 x2 s) = aspect s"
  by (simp_all add: triggerGossip_def Let_def case_prod_beta split: option.split list.split)

lemma onGossipTimer_frame [simp]:
  "aspect (onGossipTimer env s) = aspect s"
  by (simp_all add: onGossipTimer_def Let_def case_prod_beta split: option.split list.split)

lemma enqueue_order_frame [simp]:
  "aspect (enqueue_order x0 s) = aspect s"
  by (simp_all add: enqueue_order_def Let_def case_prod_beta split: option.split list.split)

lemma onOrderDecided_frame [simp]:
  "aspect (onOrderDecided x0 s) = aspect s"
  by (simp_all add: onOrderDecided_def Let_def case_prod_beta split: option.split list.split)

lemma applyGossipOrder_frame [simp]:
  "aspect (applyGossipOrder env x1 x2 s) = aspect s"
  by (simp_all add: applyGossipOrder_def Let_def case_prod_beta split: option.split list.split)

lemma countDecision_frame [simp]:
  "aspect (countDecision env x1 x2 x3 s) = aspect s"
  by (simp_all add: countDecision_def Let_def case_prod_beta split: option.split list.split)

lemma handleDecisionGossip_frame [simp]:
  "aspect (handleDecisionGossip env x1 x2 s) = aspect s"
  by (simp_all add: handleDecisionGossip_def Let_def case_prod_beta split: option.split list.split)

lemma adopt_view_frame [simp]:
  "aspect (adopt_view x0 x1 s) = aspect s"
  by (simp_all add: adopt_view_def Let_def case_prod_beta split: option.split list.split)

lemma finish_recovery_frame [simp]:
  "aspect (finish_recovery s) = aspect s"
  by (simp_all add: finish_recovery_def Let_def case_prod_beta split: option.split list.split)

lemma force_view_change_frame [simp]:
  "aspect (force_view_change env s) = aspect s"
  by (simp_all add: force_view_change_def Let_def case_prod_beta split: option.split list.split)

lemma flush_relay_frame [simp]:
  "aspect (flush_relay env x1 s) = aspect s"
  by (simp_all add: flush_relay_def Let_def case_prod_beta split: option.split list.split)

lemma touch_vc_trigger_frame [simp]:
  "aspect (touch_vc_trigger env s) = aspect s"
  by (simp_all add: touch_vc_trigger_def Let_def case_prod_beta split: option.split list.split)

lemma onAnnounceTimer_frame [simp]:
  "aspect (onAnnounceTimer env s) = aspect s"
  by (simp_all add: onAnnounceTimer_def Let_def case_prod_beta split: option.split list.split)

lemma onDeadlineTimer_frame [simp]:
  "aspect (onDeadlineTimer env s) = aspect s"
  by (simp_all add: onDeadlineTimer_def Let_def case_prod_beta split: option.split list.split)

lemma onSettleTimer_frame [simp]:
  "aspect (onSettleTimer env s) = aspect s"
  by (simp_all add: onSettleTimer_def Let_def case_prod_beta split: option.split list.split)

lemma onAttestationRetryTimer_frame [simp]:
  "aspect (onAttestationRetryTimer env s) = aspect s"
  by (simp_all add: onAttestationRetryTimer_def Let_def case_prod_beta split: option.split list.split)

lemma primary_changed_frame [simp]:
  "aspect (primary_changed env x1 s) = aspect s"
  by (simp_all add: primary_changed_def Let_def case_prod_beta split: option.split list.split)

lemma poll_primary_frame [simp]:
  "aspect (poll_primary env s) = aspect s"
  by (simp_all add: poll_primary_def Let_def case_prod_beta split: option.split list.split)

lemma send_pending_relays_frame [simp]:
  "aspect (send_pending_relays env x1 s) = aspect s"
  by (induction env x1 s rule: send_pending_relays.induct) (simp_all add: Let_def case_prod_beta split: option.split list.split)

lemma enter_stop_zone_frame [simp]:
  "aspect (enter_stop_zone env s) = aspect s"
  by (simp_all add: enter_stop_zone_def Let_def case_prod_beta split: option.split list.split)

lemma handlePositionUpdate_frame [simp]:
  "aspect (handlePositionUpdate env s) = aspect s"
  by (simp_all add: handlePositionUpdate_def Let_def case_prod_beta split: option.split list.split)

end
