(* ===== verification/RelayInvariant.thy ===== *)
theory RelayInvariant
  imports Relay
begin

text \<open>
  Well-formedness of the consensus traffic of a vehicle, kept by every operation on it.
\<close>

section \<open>Well-formedness\<close>

definition outbound_ok :: "(int \<times> bytes) list \<Rightarrow> bool" where
  "outbound_ok q \<longleftrightarrow> distinct (map snd q) \<and> [] \<notin> snd ` set q"

definition packet_ok :: "'d AppEnv \<Rightarrow> int \<Rightarrow> ConsensusRetryPacket \<Rightarrow> bool" where
  "packet_ok env type p \<longleftrightarrow> 3 \<le> type \<and> type \<le> 5 \<and> rp_type p = type \<and> rp_resdbBytes p \<noteq> [] \<and> 0 \<le> rp_attempts p \<and>
     (0 < ev_consensus_retry_max env \<longrightarrow> rp_attempts p \<le> ev_consensus_retry_max env)"

definition phases_ok :: "'d AppEnv \<Rightarrow> (int, ConsensusRetryPacket) omap \<Rightarrow> bool" where
  "phases_ok env ps \<longleftrightarrow> om_ok ps \<and> (\<forall>(type, p) \<in> set ps. packet_ok env type p)"

definition retries_ok :: "'d AppEnv \<Rightarrow> (ConsensusRetryKey, (int, ConsensusRetryPacket) omap) omap \<Rightarrow> bool" where
  "retries_ok env insts \<longleftrightarrow> om_ok insts \<and> (\<forall>(k, ps) \<in> set insts. ps \<noteq> [] \<and> phases_ok env ps)"

definition carrier_set_ok :: "'d AppEnv \<Rightarrow> int list \<Rightarrow> bool" where
  "carrier_set_ok env cs \<longleftrightarrow> sorted_wrt (<) cs \<and>
     (\<forall>c \<in> set cs. 0 \<le> c \<and> c < cf_total_vehicles (ev_cfg env) \<and> (\<exists>pub. key_matches (ev_keys env) c pub))"

definition carriers_ok :: "'d AppEnv \<Rightarrow> (string, int list) omap \<Rightarrow> bool" where
  "carriers_ok env m \<longleftrightarrow> om_ok m \<and> (\<forall>(k, cs) \<in> set m. carrier_set_ok env cs)"

text \<open>A packet waiting to be relayed is one of the agreement phases, seen, not the own, and timed.\<close>

definition pending_ok :: "'d AppEnv \<Rightarrow> string list \<Rightarrow> string \<Rightarrow> PendingConsensusRelay \<Rightarrow> bool" where
  "pending_ok env seen k p \<longleftrightarrow> k \<in> set seen \<and> pc_raw p \<noteq> [] \<and> pc_info p = ev_packet_info env (pc_raw p) \<and>
     isConsensusRelayEligible (pc_info p) \<and> k = consensusRelayKey env (pc_raw p) (pc_info p) \<and>
     \<not> (0 < pi_sender_id (pc_info p) \<and> pi_sender_id (pc_info p) = cf_replicaId (ev_cfg env) + 1)"

definition timed :: "RelayCtx \<Rightarrow> bool" where
  "timed r \<longleftrightarrow> (\<forall>(k, p) \<in> set (rl_pending r). \<exists>t. rl_timer r = Some t \<and> t \<le> pc_fireTime p)"

definition relay_core :: "'d AppEnv \<Rightarrow> RelayCtx \<Rightarrow> bool" where
  "relay_core env r \<longleftrightarrow> outbound_ok (rl_outbound r) \<and> retries_ok env (rl_instances r) \<and>
     sorted_wrt (<) (rl_seen r) \<and> carriers_ok env (rl_carriers r) \<and> om_ok (rl_pending r) \<and>
     (\<forall>(k, p) \<in> set (rl_pending r). pending_ok env (rl_seen r) k p)"

definition relay_wf :: "'d AppEnv \<Rightarrow> RelayCtx \<Rightarrow> bool" where
  "relay_wf env r \<longleftrightarrow> relay_core env r \<and> timed r"

lemma relay_wf_initial: "relay_wf env initial_relay"
  by (simp add: relay_wf_def relay_core_def timed_def initial_relay_def outbound_ok_def retries_ok_def carriers_ok_def
      om.inv_empty)

section \<open>Ordered maps by their entries\<close>

lemma set_om_put: "om_ok m \<Longrightarrow> set (om_put k v m) = insert (k, v) {e \<in> set m. fst e \<noteq> k}"
proof (rule set_eqI)
  fix e :: "'a \<times> 'b" assume "om_ok m"
  then have "e \<in> set (om_put k v m) \<longleftrightarrow> om_get (om_put k v m) (fst e) = Some (snd e)"
    "e \<in> set m \<longleftrightarrow> om_get m (fst e) = Some (snd e)"
    by (metis om_in_get om_get_Some_in om_ok_put prod.collapse)+
  then show "e \<in> set (om_put k v m) \<longleftrightarrow> e \<in> insert (k, v) {e \<in> set m. fst e \<noteq> k}"
    by (cases e) (auto simp: om_get_put)
qed

lemma om_put_some: "om_put k v m \<noteq> []"
  by (induction k v m rule: om_put.induct) simp_all

lemma set_om_erase [simp]: "set (om_erase k m) = {e \<in> set m. fst e \<noteq> k}"
  by (auto simp: om_erase_def)

lemma om_ok_filter: "om_ok m \<Longrightarrow> om_ok (filter P m)"
  unfolding om_ok_def sorted_wrt_map by (rule sorted_wrt_filter)

section \<open>Retransmission\<close>

lemma retries_get:
  assumes "retries_ok env insts" and "om_get insts k = Some ps"
  shows "phases_ok env ps"
  using assms om_get_Some_in [OF assms(2)] by (auto simp: retries_ok_def)

lemma phases_empty [simp]: "phases_ok env []"
  by (simp add: phases_ok_def om.inv_empty)

lemma phases_erase: "phases_ok env ps \<Longrightarrow> phases_ok env (om_erase t ps)"
  by (auto simp: phases_ok_def om_ok_erase)

lemma phases_put: "phases_ok env ps \<Longrightarrow> packet_ok env t p \<Longrightarrow> phases_ok env (om_put t p ps)"
  by (auto simp: phases_ok_def om_ok_put set_om_put)

lemma remember_ok:
  assumes "retries_ok env insts" and "bytes \<noteq> []" and "3 \<le> pi_type info" and "pi_type info \<le> 5"
  shows "retries_ok env (snd (remember bytes info insts))"
proof -
  let ?ps = "case om_get insts (retry_key info) of None \<Rightarrow> [] | Some ps \<Rightarrow> ps"
  let ?kept = "if pi_type info = 5 then om_erase 4 (om_erase 3 ?ps) else ?ps"
  let ?p = "\<lparr>rp_resdbBytes = bytes, rp_type = pi_type info, rp_attempts = 0\<rparr>"
  have kept: "phases_ok env ?kept"
    using retries_get [OF assms(1)] by (auto simp: phases_erase split: option.split)
  have p: "packet_ok env (pi_type info) ?p" using assms(2-4) by (simp add: packet_ok_def)
  have put: "retries_ok env (om_put (retry_key info) ps insts)" if "phases_ok env ps" "ps \<noteq> []" for ps
    using assms(1) that by (auto simp: retries_ok_def om_ok_put set_om_put)
  show ?thesis
  proof (cases "om_get ?kept (pi_type info) = None")
    case True
    then show ?thesis using put [OF phases_put [OF kept p]] by (simp add: remember_def Let_def om_put_some)
  next
    case False
    then have "?kept \<noteq> []" by (auto simp: om_get_def)
    then show ?thesis using False put [OF kept] by (auto simp: remember_def Let_def)
  qed
qed

lemma retry_phases_keys: "set (map fst (snd (retry_phases stops ps))) \<subseteq> set (map fst ps)"
  by (induction stops ps rule: retry_phases.induct) (auto simp: Let_def case_prod_beta)

lemma retry_phases_ok:
  assumes "phases_ok env ps" and "\<forall>p. \<not> stops p \<longrightarrow> 0 < ev_consensus_retry_max env \<longrightarrow> rp_attempts p < ev_consensus_retry_max env"
  shows "phases_ok env (snd (retry_phases stops ps))"
  using assms(1)
proof (induction ps)
  case (Cons e ps)
  obtain k p where e: "e = (k, p)" by (cases e)
  have ps: "phases_ok env ps" using Cons.prems by (simp add: phases_ok_def om_ok_def)
  have "\<forall>k' \<in> set (map fst (snd (retry_phases stops ps))). k < k'"
    using Cons.prems retry_phases_keys [of stops ps] unfolding phases_ok_def om_ok_def e by fastforce
  then show ?case
    using Cons.IH [OF ps] Cons.prems assms(2) by (auto simp: e Let_def case_prod_beta phases_ok_def om_ok_def packet_ok_def)
qed simp

lemma retry_instances_keys: "set (map fst (snd (retry_instances stops insts))) \<subseteq> set (map fst insts)"
proof (induction insts)
  case (Cons e insts)
  then show ?case by (cases e) (auto simp: case_prod_beta)
qed simp

lemma retry_instances_ok:
  assumes "retries_ok env insts" and "\<forall>p. \<not> stops p \<longrightarrow> 0 < ev_consensus_retry_max env \<longrightarrow> rp_attempts p < ev_consensus_retry_max env"
  shows "retries_ok env (snd (retry_instances stops insts))"
  using assms(1)
proof (induction insts)
  case (Cons e insts)
  obtain k ps where e: "e = (k, ps)" by (cases e)
  have tl: "retries_ok env insts" using Cons.prems by (simp add: retries_ok_def om_ok_def)
  have "\<forall>k' \<in> set (map fst (snd (retry_instances stops insts))). k < k'"
    using Cons.prems retry_instances_keys [of stops insts] unfolding retries_ok_def om_ok_def e by fastforce
  moreover have "phases_ok env (snd (retry_phases stops ps))"
    using Cons.prems retry_phases_ok [OF _ assms(2)] by (auto simp: retries_ok_def e)
  ultimately show ?case
    using Cons.IH [OF tl] by (auto simp: e case_prod_beta retries_ok_def om_ok_def)
qed (simp add: retries_ok_def om.inv_empty)

lemma retry_timer_irrelevant [simp]: "relay_wf env (r\<lparr>rl_retry_timer := t\<rparr>) = relay_wf env r"
  by (simp add: relay_wf_def relay_core_def timed_def)

lemma arm_retry_wf [simp]: "relay_wf env (ap_rx (arm_retry env s)) = relay_wf env (ap_rx s)"
  by (simp add: arm_retry_def)

lemma retries_wf: "relay_wf env r \<Longrightarrow> retries_ok env insts \<Longrightarrow> relay_wf env (r\<lparr>rl_instances := insts\<rparr>)"
  by (simp add: relay_wf_def relay_core_def timed_def)

lemma outbound_wf: "relay_wf env r \<Longrightarrow> outbound_ok q \<Longrightarrow> relay_wf env (r\<lparr>rl_outbound := q\<rparr>)"
  by (simp add: relay_wf_def relay_core_def timed_def)

lemma rememberConsensusRetry_wf:
  "relay_wf env (ap_rx s) \<Longrightarrow> relay_wf env (ap_rx (rememberConsensusRetry env bytes info s))"
  using remember_ok [of env "rl_instances (ap_rx s)" bytes info]
  by (simp add: rememberConsensusRetry_def retries_wf relay_wf_def [of env "ap_rx s"] relay_core_def [of env "ap_rx s"] not_less)

lemma consensus_air_rx [simp]: "ap_rx (consensus_air env r p s) = ap_rx s"
  by (simp add: consensus_air_def air_def)

lemma drain_packet_wf: "relay_wf env (ap_rx s) \<Longrightarrow> relay_wf env (ap_rx (drain_packet env p s))"
  by (simp add: drain_packet_def Let_def rememberConsensusRetry_wf)

lemma drainOutboundQueue_wf:
  assumes "relay_wf env (ap_rx s)"
  shows "relay_wf env (ap_rx (drainOutboundQueue env s))"
proof -
  have "relay_wf env (ap_rx s) \<Longrightarrow> relay_wf env (ap_rx (fold (drain_packet env) ps s))" for ps s
    by (induction ps arbitrary: s) (simp_all add: drain_packet_wf)
  then show ?thesis using assms by (simp add: drainOutboundQueue_def Let_def outbound_wf outbound_ok_def)
qed

lemma enqueueOutbound_wf: "relay_wf env (ap_rx s) \<Longrightarrow> relay_wf env (ap_rx (enqueueOutbound r data s))"
  by (auto simp: enqueueOutbound_def relay_wf_def relay_core_def timed_def outbound_ok_def list_ex_iff)

lemma retry_wf:
  assumes "relay_wf env (ap_rx s)"
  shows "relay_wf env (ap_rx (onConsensusRetryTimer env s))"
proof -
  have send: "ap_rx (fold (\<lambda>p. sendConsensusBytes env (- 1) (rp_resdbBytes p)) ps s) = ap_rx s" for ps s
    by (induction ps arbitrary: s) (simp_all add: sendConsensusBytes_def Let_def)
  have "retries_ok env (snd (retry_instances (retry_stops env (ap_now s)) (rl_instances (ap_rx s))))"
    using assms by (intro retry_instances_ok) (auto simp: relay_wf_def relay_core_def retry_stops_def)
  then show ?thesis
    using assms by (simp add: onConsensusRetryTimer_def retryConsensusPackets_def Let_def case_prod_beta send retries_wf)
qed

lemma clear_retries_wf: "relay_wf env (ap_rx s) \<Longrightarrow> relay_wf env (ap_rx (clearConsensusRetries s))"
  by (simp add: clearConsensusRetries_def cancelPendingConsensusRelays_def relay_wf_def relay_core_def timed_def
      retries_ok_def om.inv_empty)

section \<open>Relays\<close>

lemma earliest_relay_le: "earliest_relay t ps \<le> t \<and> (\<forall>(k, p) \<in> set ps. earliest_relay t ps \<le> pc_fireTime p)"
  by (induction t ps rule: earliest_relay.induct) force+

lemma flush_timer_wf:
  assumes "relay_core env (ap_rx s)"
  shows "relay_wf env (ap_rx (scheduleConsensusRelayFlush s))"
proof (cases "rl_pending (ap_rx s)")
  case Nil
  then show ?thesis using assms by (simp add: scheduleConsensusRelayFlush_def relay_wf_def timed_def)
next
  case (Cons p ps)
  have "\<forall>(k, q) \<in> set (p # ps). earliest_relay (pc_fireTime (snd p)) (p # ps) \<le> pc_fireTime q"
    using earliest_relay_le by blast
  then show ?thesis
    using assms Cons
    by (fastforce simp: scheduleConsensusRelayFlush_def Let_def relay_wf_def relay_core_def timed_def split: option.split)
qed

lemma carriers_get: "carriers_ok env (rl_carriers (ap_rx s)) \<Longrightarrow> carrier_set_ok env (relay_carriers s key)"
  using om_get_Some_in [of "rl_carriers (ap_rx s)" key]
  by (auto simp: carriers_ok_def relay_carriers_def carrier_set_ok_def [of env "[]"] split: option.split)

lemma observe_wf:
  assumes "relay_wf env (ap_rx s)" and "consensusRelayCarrierIsAuthenticated env carrier pub"
  shows "relay_wf env (ap_rx (observeConsensusRelayCarrier env key carrier s))"
proof -
  define r where "r = (ap_rx s)\<lparr>rl_carriers := om_put key (os_insert carrier (relay_carriers s key)) (rl_carriers (ap_rx s))\<rparr>"
  have c: "carriers_ok env (rl_carriers (ap_rx s))" using assms(1) by (simp add: relay_wf_def relay_core_def)
  have "carrier_set_ok env (os_insert carrier (relay_carriers s key))"
    using carriers_get [OF c, of key] assms(2)
    by (auto simp: carrier_set_ok_def os_insert_sorted consensusRelayCarrierIsAuthenticated_def)
  then have "carriers_ok env (rl_carriers r)"
    using c by (auto simp: r_def carriers_ok_def om_ok_put set_om_put)
  then have r: "relay_wf env r" using assms(1) by (simp add: r_def relay_wf_def relay_core_def timed_def)
  then have "relay_core env (r\<lparr>rl_pending := om_erase key (rl_pending r), rl_timer := None\<rparr>)"
    by (simp add: relay_wf_def relay_core_def om_ok_erase)
  then show ?thesis
    using assms(1) r by (simp add: observeConsensusRelayCarrier_def Let_def r_def [symmetric] flush_timer_wf)
qed

lemma scheduleConsensusRelay_wf:
  assumes "relay_wf env (ap_rx s)" and "key = consensusRelayKey env data info" and "info = ev_packet_info env data"
    and "isConsensusRelayEligible info" and "key \<in> set (rl_seen (ap_rx s))"
  shows "relay_wf env (ap_rx (scheduleConsensusRelay env key data info relayEpoch s))"
  using assms
  by (auto simp: scheduleConsensusRelay_def Let_def relay_wf_def [of env "ap_rx s"] relay_core_def om_ok_put set_om_put pending_ok_def
      intro!: flush_timer_wf)

lemma maybeRelay_wf:
  assumes "relay_wf env (ap_rx s)"
  shows "relay_wf env (ap_rx (maybeRelayResdbConsensusBytes env data (ev_packet_info env data) relayEpoch s))"
proof -
  let ?key = "consensusRelayKey env data (ev_packet_info env data)"
  have "relay_wf env ((ap_rx s)\<lparr>rl_seen := os_insert ?key (rl_seen (ap_rx s))\<rparr>)"
    using assms by (auto simp: relay_wf_def relay_core_def timed_def os_insert_sorted pending_ok_def)
  then show ?thesis
    using assms by (simp add: maybeRelayResdbConsensusBytes_def Let_def scheduleConsensusRelay_wf)
qed

lemma relay_message_wf: "relay_wf env (ap_rx s) \<Longrightarrow> relay_wf env (ap_rx (handleResdbConsensusMessage env from_id to_id p s))"
  by (simp add: handleResdbConsensusMessage_def Let_def maybeRelay_wf call_def stopCertBroadcastRetries_def split: option.split)

lemma relay_relay_wf: "relay_wf env (ap_rx s) \<Longrightarrow> relay_wf env (ap_rx (handleResdbConsensusRelay env carrier p s))"
  by (auto simp: handleResdbConsensusRelay_def Let_def deliver_relayed_def maybeRelay_wf call_def observe_wf split: option.split)

lemma relay_timer_wf:
  assumes "relay_wf env (ap_rx s)"
  shows "relay_wf env (ap_rx (onConsensusRelayTimer env s))"
proof -
  have send: "ap_rx (fold (flush_relay env) ps s) = ap_rx s" for ps s
    by (induction ps arbitrary: s) (simp_all add: flush_relay_def Let_def sendBFTMessageNow_def air_def split: prod.split)
  have "relay_core env (ap_rx s)" using assms by (simp add: relay_wf_def)
  then show ?thesis
    unfolding onConsensusRelayTimer_def flushDueConsensusRelays_def Let_def
    by (intro flush_timer_wf) (auto simp: send relay_core_def om_ok_filter)
qed

end
