(* ===== verification/CancelCorrect.thy ===== *)
theory CancelCorrect
  imports Decision
begin

text \<open>
  The start of a cancellation and the choice of its proposer: what a vehicle needs to see before
  it begins to cancel an epoch, how the timeouts pass the proposal on from one waiting vehicle to
  the next, and when nobody is left to propose.
\<close>

section \<open>What sending leaves alone\<close>

lemma air_cancel [simp]: "ap_cx (air r t p a s) = ap_cx s" "ap_gx (air r t p a s) = ap_gx s"
  by (simp_all add: air_def)

lemma send_cancel [simp]: "ap_cx (sendBFTMessage env r p t l w s) = ap_cx s"
  by (simp add: sendBFTMessage_def enqueueDiscoveryTx_def scheduleDiscoveryTxFlush_def Let_def split: list.split option.split)

lemma call_cancel [simp]: "ap_cx (call c s) = ap_cx s"
  by (simp add: call_def)

text \<open>The operations on certificates do not start a cancellation by themselves.\<close>

lemma certificate_pending [simp]:
  "cx_consensus_pending (ap_cx (registerBlockedIncidentIfCrash cert s)) = cx_consensus_pending (ap_cx s)"
  "cx_consensus_pending (ap_cx (scheduleNextCancelCertRetry env s)) = cx_consensus_pending (ap_cx s)"
  "cx_consensus_pending (ap_cx (relay_cancel_cert env key p s)) = cx_consensus_pending (ap_cx s)"
  by (simp_all add: registerBlockedIncidentIfCrash_def scheduleNextCancelCertRetry_def stopCancelCertRetries_def
      backoffDelaySec_def relay_cancel_cert_def Let_def split: option.split)

section \<open>A cancellation starts on a certificate\<close>

lemma choose_pending [simp]:
  "cx_consensus_pending (ap_cx (snd (chooseCancelProposer s))) = cx_consensus_pending (ap_cx s)"
  by (simp add: chooseCancelProposer_def Let_def)

lemma begin_drain_keeps:
  "cx_cancelled_epoch (ap_cx (beginCancelDrain env s)) = cx_cancelled_epoch (ap_cx s)"
  "cx_reason (ap_cx (beginCancelDrain env s)) = cx_reason (ap_cx s)"
  "cx_reason_ref (ap_cx (beginCancelDrain env s)) = cx_reason_ref (ap_cx s)"
  by (simp_all add: beginCancelDrain_def Let_def)

lemma justification_starts:
  assumes "\<not> cx_consensus_pending (ap_cx s)" and "cx_consensus_pending (ap_cx t)"
    and "t = handleValidCancelJustification env epoch reason ref cert s"
  shows "cx_cancelled_epoch (ap_cx t) = epoch \<and> cx_reason (ap_cx t) = reason \<and> cx_reason_ref (ap_cx t) = ref"
  using assms by (auto simp: handleValidCancelJustification_def Let_def begin_drain_keeps stopGossip_def split: if_split_asm)

definition certified_by :: "'d AppEnv \<Rightarrow> 'd AppState \<Rightarrow> 'd AppState \<Rightarrow> bool" where
  "certified_by env s t \<longleftrightarrow> (\<exists>cert. validCancelCert env s cert \<and> cc_cancelledEpoch cert = cx_cancelled_epoch (ap_cx t) \<and>
     cc_reason cert = cx_reason (ap_cx t) \<and> cc_reasonRef cert = cx_reason_ref (ap_cx t))"

lemma broadcast_starts:
  assumes "\<not> cx_consensus_pending (ap_cx s)" and "cx_consensus_pending (ap_cx (broadcastCancelCert env cert s))"
  shows "certified_by env s (broadcastCancelCert env cert s)"
proof -
  have "validCancelCert env s cert" using assms by (auto simp: broadcastCancelCert_def split: if_split_asm)
  then show ?thesis
    using assms justification_starts [OF _ _ refl, of _ env "cc_cancelledEpoch cert" "cc_reason cert" "cc_reasonRef cert"]
    unfolding certified_by_def by (intro exI [of _ cert]) (auto simp: broadcastCancelCert_def Let_def)
qed

lemma accept_shape:
  assumes "P s" and "\<And>v. cx_consensus_pending (ap_cx v) = cx_consensus_pending (ap_cx s) \<Longrightarrow> P v"
    and "\<And>v. cx_consensus_pending (ap_cx v) = cx_consensus_pending (ap_cx s) \<Longrightarrow>
      P (handleValidCancelJustification env (cc_cancelledEpoch cert) (cc_reason cert) (cc_reasonRef cert) (serializeCancelCert cert) v)"
  shows "P (acceptCancelCert env from_id cert s)"
  using assms by (simp add: acceptCancelCert_def Let_def)

lemma collect_shape:
  assumes "P s" and "\<And>v. ap_gx v = ap_gx s \<Longrightarrow> cx_consensus_pending (ap_cx v) = cx_consensus_pending (ap_cx s) \<Longrightarrow> P v"
    and "\<And>v cert. ap_gx v = ap_gx s \<Longrightarrow> cx_consensus_pending (ap_cx v) = cx_consensus_pending (ap_cx s) \<Longrightarrow>
      P (broadcastCancelCert env cert v)"
  shows "P (collectCancelEcho env echo s)"
  using assms by (simp add: collectCancelEcho_def Let_def)

lemma accept_starts:
  assumes "\<not> cx_consensus_pending (ap_cx s)" and "cx_consensus_pending (ap_cx (acceptCancelCert env from_id cert s))"
  shows "certified_by env s (acceptCancelCert env from_id cert s)"
proof -
  have "validCancelCert env s cert" using assms by (auto simp: acceptCancelCert_def split: if_split_asm)
  moreover have "cx_consensus_pending (ap_cx (acceptCancelCert env from_id cert s)) \<longrightarrow>
      cx_cancelled_epoch (ap_cx (acceptCancelCert env from_id cert s)) = cc_cancelledEpoch cert \<and>
      cx_reason (ap_cx (acceptCancelCert env from_id cert s)) = cc_reason cert \<and>
      cx_reason_ref (ap_cx (acceptCancelCert env from_id cert s)) = cc_reasonRef cert"
    by (rule accept_shape) (use assms(1) in \<open>auto dest!: justification_starts [OF _ _ refl, rotated]\<close>)
  ultimately show ?thesis using assms(2) unfolding certified_by_def by (intro exI [of _ cert]) simp
qed

lemma collect_starts:
  assumes "\<not> cx_consensus_pending (ap_cx s)" and "cx_consensus_pending (ap_cx (collectCancelEcho env echo s))"
  shows "certified_by env s (collectCancelEcho env echo s)"
proof -
  have "cx_consensus_pending (ap_cx (collectCancelEcho env echo s)) \<longrightarrow> certified_by env s (collectCancelEcho env echo s)"
  proof (rule collect_shape)
    fix v :: "'a AppState" and cert
    assume v: "ap_gx v = ap_gx s" "cx_consensus_pending (ap_cx v) = cx_consensus_pending (ap_cx s)"
    then have "validCancelCert env v = validCancelCert env s" by (auto simp: validCancelCert_def)
    then show "cx_consensus_pending (ap_cx (broadcastCancelCert env cert v)) \<longrightarrow>
        certified_by env s (broadcastCancelCert env cert v)"
      using v assms(1) broadcast_starts [of v env cert] by (simp add: certified_by_def)
  qed (use assms(1) in auto)
  then show ?thesis using assms(2) by simp
qed

text \<open>
  C5: no vehicle is halted for nothing. A vehicle that begins to cancel an epoch, on a
  certificate it receives or on the echoes it collects, cancels what some correct member of the
  committed view has itself signed: the very epoch, reason and incident it now records. At
  most \<open>f\<close> members are faulty and no signature of a correct member can be forged.
\<close>

theorem cancel_has_correct_witness:
  assumes "handleCancelCert env from_id payload s = Some t \<or> handleCancelEcho env payload s = Some t"
    and "\<not> cx_consensus_pending (ap_cx s)" and "cx_consensus_pending (ap_cx t)"
    and "0 \<le> cert_fault_bound (ev_cfg env)"
    and "int (card (set (gx_committed_vehicle_ids (ap_gx s)) \<inter> Bad)) \<le> cert_fault_bound (ev_cfg env)"
    and "\<forall>i k msg sig. i \<notin> Bad \<and> key_matches (ev_keys env) i k \<and> ev_verify env k msg sig \<longrightarrow> msg \<in> signed_by i"
  shows "\<exists>i \<in> set (gx_committed_vehicle_ids (ap_gx s)). i \<notin> Bad \<and>
    to_bytes (signPayload (cancel_statement (cx_cancelled_epoch (ap_cx t)) (cx_reason (ap_cx t)) (cx_reason_ref (ap_cx t))) i)
      \<in> signed_by i"
proof -
  have "certified_by env s t"
    using assms(1-3) accept_starts [of s env from_id] collect_starts [of s env]
    by (auto simp: handleCancelCert_def handleCancelEcho_def split: if_split_asm)
  then obtain cert where "cc_cancelledEpoch cert = cx_cancelled_epoch (ap_cx t)" "cc_reason cert = cx_reason (ap_cx t)"
    "cc_reasonRef cert = cx_reason_ref (ap_cx t)" "validCancelCert env s cert"
    by (auto simp: certified_by_def)
  then show ?thesis
    using valid_witness_signer [OF _ assms(4) finite_set assms(5,6)]
    by (metis validCancelCert_def validateCancelCert_def)
qed

text \<open>Vehicle 3 of the view of all four receives the certificate that vehicles 0 and 1 have signed.\<close>

definition blocked_cert :: CancelCert where
  "blocked_cert = \<lparr>cc_cancelledEpoch = 0, cc_reason = reason_crash, cc_reasonRef = ''blocked_batch:0:0'', cc_echoes = map (\<lambda>i.
     \<lparr>ce_echoingReplicaId = i, ce_cancelledEpoch = 0, ce_reason = reason_crash, ce_reasonRef = ''blocked_batch:0:0'',
       ce_signerPubKey = sample_key i, ce_signature = resize CRYPTO_SIG_MAX_BYTES [word_of_int (10 + i)],
       ce_signatureLen = 1\<rparr>) [0, 1]\<rparr>"

definition blocked_statement :: bytes where
  "blocked_statement = to_bytes (signPayload (cancel_statement 0 reason_crash ''blocked_batch:0:0'') 1)"

definition witness_env :: "int AppEnv" where
  "witness_env = (sample_env 3)\<lparr>ev_verify := (\<lambda>k m s. s = [hd k] \<and> (hd k = 10 \<or> hd k = 11 \<and> m = blocked_statement))\<rparr>"

definition committed_scene :: "int AppState" where
  "committed_scene = (let s = initial_app sample_server
     in s\<lparr>ap_gx := (ap_gx s)\<lparr>gx_committed_vehicle_ids := [0, 1, 2, 3], gx_committed_batches := [[0], [3, 2], [1]]\<rparr>\<rparr>)"

theorem cancel_has_correct_witness_witness:
  "\<exists>i \<in> {0, 1, 2, 3}. i \<noteq> (0 :: int) \<and> to_bytes (signPayload (cancel_statement 0 reason_crash ''blocked_batch:0:0'') i) =
     blocked_statement"
proof -
  have run: "case handleCancelCert witness_env 2 (serializeCancelCert blocked_cert) committed_scene of None \<Rightarrow> False
    | Some t \<Rightarrow> cx_consensus_pending (ap_cx t) \<and> cx_cancelled_epoch (ap_cx t) = 0 \<and> cx_reason (ap_cx t) = reason_crash \<and>
        cx_reason_ref (ap_cx t) = ''blocked_batch:0:0''"
    by code_simp
  then obtain t where t: "handleCancelCert witness_env 2 (serializeCancelCert blocked_cert) committed_scene = Some t"
    "cx_consensus_pending (ap_cx t)" "cx_cancelled_epoch (ap_cx t) = 0" "cx_reason (ap_cx t) = reason_crash"
    "cx_reason_ref (ap_cx t) = ''blocked_batch:0:0''"
    by (auto split: option.split_asm)
  have ids: "gx_committed_vehicle_ids (ap_gx committed_scene) = [0, 1, 2, 3]" "cert_fault_bound (ev_cfg witness_env) = 1"
    "\<not> cx_consensus_pending (ap_cx committed_scene)" "ev_keys witness_env = map (\<lambda>i. (i, sample_key i)) [0, 1, 2, 3]"
    "hd (sample_key 1) = 11"
    by code_simp+
  have "\<forall>i k msg sig. i \<notin> {0} \<and> key_matches (ev_keys witness_env) i k \<and> ev_verify witness_env k msg sig \<longrightarrow>
      msg \<in> (if i = 1 then {blocked_statement} else {})"
    unfolding ids(4) by (auto simp: key_matches_def om_get_def witness_env_def sample_key_def split: if_split_asm)
  moreover have "int (card (set (gx_committed_vehicle_ids (ap_gx committed_scene)) \<inter> {0})) \<le> 1" by (simp add: ids)
  ultimately show ?thesis
    using cancel_has_correct_witness [of witness_env 2 _ committed_scene t "{0}" "\<lambda>i. if i = 1 then {blocked_statement} else {}"]
      t ids by (fastforce split: if_split_asm)
qed

section \<open>The proposer\<close>

text \<open>The lease of the proposer expires \<open>k\<close> times, each time when its timer is due.\<close>

fun lease_expirations :: "'d AppEnv \<Rightarrow> nat \<Rightarrow> 'd AppState \<Rightarrow> 'd AppState" where
  "lease_expirations env 0 s = s"
| "lease_expirations env (Suc k) s =
     (case cx_vc_timer (ap_cx (lease_expirations env k s)) of None \<Rightarrow> lease_expirations env k s
      | Some t \<Rightarrow> onCancelVcTimer env ((lease_expirations env k s)\<lparr>ap_now := t\<rparr>))"

text \<open>What a lease leaves unchanged: the cancellation itself and the list of candidates.\<close>

definition leasing :: "int list \<Rightarrow> 'd AppState \<Rightarrow> int \<Rightarrow> 'd AppState \<Rightarrow> bool" where
  "leasing cands s k t \<longleftrightarrow> cx_state (ap_cx t) = CANCEL_CONSENSUS \<and> cx_consensus_pending (ap_cx t) \<and>
     cx_leader_candidates (ap_cx t) = cands \<and> cx_rotation_index (ap_cx t) = k \<and>
     cx_primary (ap_cx t) = cands ! nat (k mod int (length cands)) \<and> cx_vc_timer (ap_cx t) \<noteq> None \<and>
     cx_cert_bytes (ap_cx t) = cx_cert_bytes (ap_cx s) \<and> cx_cancelled_epoch (ap_cx t) = cx_cancelled_epoch (ap_cx s) \<and>
     cx_reason (ap_cx t) = cx_reason (ap_cx s) \<and> cx_local_recallable (ap_cx t) = cx_local_recallable (ap_cx s) \<and>
     gx_committed_vehicle_ids (ap_gx t) = gx_committed_vehicle_ids (ap_gx s)"

lemma leasing_payload: "leasing cands s k t \<Longrightarrow> cancel_payload env t = cancel_payload env s"
  by (simp add: leasing_def cancel_payload_def cancelElectorateCandidates_def Let_def)

lemma submit_leases:
  assumes "ev_enable_cancel_leader_failover env" and "cands \<noteq> []"
    and "cx_state (ap_cx t) = CANCEL_CONSENSUS" "cx_consensus_pending (ap_cx t)" "\<not> cx_propose_submitted (ap_cx t)"
    and "cx_leader_candidates (ap_cx t) = cands" "cx_rotation_index (ap_cx t) = k"
    and "cx_cert_bytes (ap_cx t) = cx_cert_bytes (ap_cx s)" "cx_cancelled_epoch (ap_cx t) = cx_cancelled_epoch (ap_cx s)"
    and "cx_reason (ap_cx t) = cx_reason (ap_cx s)" "cx_local_recallable (ap_cx t) = cx_local_recallable (ap_cx s)"
    and "gx_committed_vehicle_ids (ap_gx t) = gx_committed_vehicle_ids (ap_gx s)"
  shows "leasing cands s k (trySubmitCancelProposal env t)"
  using assms
  by (simp add: trySubmitCancelProposal_def chooseCancelProposer_def arm_cancel_lease_def proposeCancel_def leasing_def call_def Let_def)

lemma expiration_leases:
  assumes "ev_enable_cancel_leader_failover env" and "cands \<noteq> []" and "leasing cands s k t"
  shows "leasing cands s (k + 1) (onCancelVcTimer env (t\<lparr>ap_now := now\<rparr>))"
  using assms(3) unfolding onCancelVcTimer_def Let_def
  by (intro submit_leases assms(1,2)) (simp_all add: chooseCancelProposer_def leasing_def assms(2) Let_def)

lemma expirations_lease:
  assumes "ev_enable_cancel_leader_failover env" and "cands \<noteq> []" and "leasing cands s 0 t"
  shows "leasing cands s (int k) (lease_expirations env k t)"
proof (induction k)
  case (Suc k)
  then obtain now where "cx_vc_timer (ap_cx (lease_expirations env k t)) = Some now" by (auto simp: leasing_def)
  then show ?case using expiration_leases [OF assms(1,2) Suc, of now] by (simp add: ac_simps)
qed (simp add: assms(3))

lemma own_lease_submits:
  assumes "ev_enable_cancel_leader_failover env" and "leasing cands s k t" and "cands \<noteq> []" and "0 \<le> k"
    and "cands ! nat ((k + 1) mod int (length cands)) = cf_replicaId (ev_cfg env)"
    and "cx_local_recallable (ap_cx s)" and "cx_cert_bytes (ap_cx s) \<noteq> []" and "cancelElectorateCandidates s \<noteq> []"
    and "0 \<le> bftQuorumSize (cf_total_vehicles (ev_cfg env)) (cert_fault_bound (ev_cfg env))"
    and "bftQuorumSize (cf_total_vehicles (ev_cfg env)) (cert_fault_bound (ev_cfg env)) \<le> int (length (cancelElectorateCandidates s))"
  shows "Call_triggerConsensus (cancel_payload env s) \<in> set (ap_calls (onCancelVcTimer env (t\<lparr>ap_now := now\<rparr>)))"
  using assms
  by (simp add: onCancelVcTimer_def trySubmitCancelProposal_def chooseCancelProposer_def arm_cancel_lease_def proposeCancel_def
      leasing_def call_def Let_def cancel_payload_def cancelElectorateCandidates_def)

text \<open>
  C13: a cancellation does not depend on one proposer. When the drain ends, the waiting
  vehicles take turns: after \<open>k\<close> expired leases every vehicle with the same candidates looks to
  candidate number \<open>k\<close> modulo their number and its lease is running, so within as many
  expirations as there are candidates every candidate that is still recallable, holds the
  certificate and sees a quorum of electors hands the CANCEL to consensus, whatever the others do.
\<close>

theorem cancel_leader_failover:
  assumes "ev_enable_cancel_leader_failover env" and "cx_state (ap_cx s) = CANCEL_DRAINING"
    and "cx_consensus_pending (ap_cx s)" and "\<not> cx_propose_submitted (ap_cx s)" and "cx_rotation_index (ap_cx s) = 0"
    and "cands = cx_leader_candidates (ap_cx s)" and "cf_replicaId (ev_cfg env) \<in> set cands"
    and "cx_local_recallable (ap_cx s)" and "cx_cert_bytes (ap_cx s) \<noteq> []" and "cancelElectorateCandidates s \<noteq> []"
    and "0 \<le> bftQuorumSize (cf_total_vehicles (ev_cfg env)) (cert_fault_bound (ev_cfg env))"
    and "bftQuorumSize (cf_total_vehicles (ev_cfg env)) (cert_fault_bound (ev_cfg env)) \<le> int (length (cancelElectorateCandidates s))"
  shows "(\<forall>k. cx_primary (ap_cx (lease_expirations env k (onCancelDrainTimer env s))) = cands ! (k mod length cands)) \<and>
    (\<exists>k \<le> length cands. Call_triggerConsensus (cancel_payload env s) \<in>
      set (ap_calls (lease_expirations env k (onCancelDrainTimer env s))))"
proof
  have ne: "cands \<noteq> []" using assms(7) by auto
  have "leasing cands s 0 (onCancelDrainTimer env s)"
    using assms(2-6) unfolding onCancelDrainTimer_def finishCancelDrain_def
    by (simp, intro submit_leases assms(1)) (use ne in auto)
  note lease = expirations_lease [OF assms(1) ne this]
  show "\<forall>k. cx_primary (ap_cx (lease_expirations env k (onCancelDrainTimer env s))) = cands ! (k mod length cands)"
    using lease by (simp add: leasing_def nat_mod_as_int)
  obtain j where j: "j < length cands" "cands ! j = cf_replicaId (ev_cfg env)"
    using assms(7) by (auto simp: in_set_conv_nth)
  define k where "k = (if j = 0 then length cands - 1 else j - 1)"
  have k: "Suc k \<le> length cands" "(k + 1) mod length cands = j" using j(1) by (auto simp: k_def)
  then have turn: "cands ! nat ((int k + 1) mod int (length cands)) = cf_replicaId (ev_cfg env)"
    using j(2) by (simp add: nat_mod_as_int ac_simps)
  obtain now where "cx_vc_timer (ap_cx (lease_expirations env k (onCancelDrainTimer env s))) = Some now"
    using lease [of k] by (auto simp: leasing_def)
  then have "Call_triggerConsensus (cancel_payload env s) \<in> set (ap_calls (lease_expirations env (Suc k) (onCancelDrainTimer env s)))"
    using own_lease_submits [OF assms(1) lease ne _ turn assms(8-12)] by simp
  with k(1) show "\<exists>k \<le> length cands. Call_triggerConsensus (cancel_payload env s) \<in>
      set (ap_calls (lease_expirations env k (onCancelDrainTimer env s)))" by blast
qed

text \<open>Vehicle 3 waits in the second batch while the drain of the cancellation of epoch 0 ends.\<close>

definition draining_scene :: "int AppState" where
  "draining_scene = handleValidCancelJustification (sample_env 3) 0 reason_crash ''blocked_batch:0:0'' [1] committed_scene"

definition cancel_view where
  "cancel_view s = (let c = ap_cx s in
     (cx_state c, cx_consensus_pending c, cx_propose_submitted c, cx_rotation_index c, cx_leader_candidates c,
      cx_local_recallable c, cx_cert_bytes c, cx_cancelled_epoch c, cx_tombstoned_epochs c, cx_committed_cancels c, gx_committed_vehicle_ids (ap_gx s)))"

lemma draining_view: "cancel_view draining_scene = (CANCEL_DRAINING, True, False, 0, [2, 3], True, [1], 0, [], [], [0, 1, 2, 3])"
  by code_simp

lemmas draining_facts = draining_view [unfolded cancel_view_def Let_def prod.inject]

theorem cancel_leader_failover_witness:
  "\<exists>k \<le> 2. Call_triggerConsensus (cancel_payload (sample_env 3) draining_scene) \<in>
     set (ap_calls (lease_expirations (sample_env 3) k (onCancelDrainTimer (sample_env 3) draining_scene)))"
proof -
  have env: "ev_enable_cancel_leader_failover (sample_env 3)" "cf_replicaId (ev_cfg (sample_env 3)) = 3"
    "bftQuorumSize (cf_total_vehicles (ev_cfg (sample_env 3))) (cert_fault_bound (ev_cfg (sample_env 3))) = 3"
    by code_simp+
  have "sort [0, 1, 2, 3] = [0, 1, 2, 3 :: int]" by simp
  then show ?thesis
    using cancel_leader_failover [of "sample_env 3" draining_scene "[2, 3]"] draining_facts
    by (simp add: env cancelElectorateCandidates_def numeral_2_eq_2)
qed

section \<open>A second cancellation\<close>

text \<open>No candidate is left, and nothing a lease or the drain does changes that.\<close>

definition leaderless :: "'d AppState \<Rightarrow> bool" where
  "leaderless s \<longleftrightarrow> cx_leader_candidates (ap_cx s) = [] \<and> cx_consensus_pending (ap_cx s)"

definition cancel_timers :: "'d AppEnv \<Rightarrow> bool \<Rightarrow> int \<Rightarrow> 'd AppState \<Rightarrow> 'd AppState" where
  "cancel_timers env drain t s =
     (if drain then onCancelDrainTimer env (s\<lparr>ap_now := t\<rparr>) else onCancelVcTimer env (s\<lparr>ap_now := t\<rparr>))"

lemma leaderless_submit:
  assumes "leaderless s" and "0 \<le> cf_replicaId (ev_cfg env)"
  shows "leaderless (trySubmitCancelProposal env s) \<and> ap_calls (trySubmitCancelProposal env s) = ap_calls s"
  using assms by (simp add: trySubmitCancelProposal_def chooseCancelProposer_def arm_cancel_lease_def leaderless_def Let_def)

lemma leaderless_timer:
  assumes "leaderless s" and "0 \<le> cf_replicaId (ev_cfg env)"
  shows "leaderless (cancel_timers env drain t s) \<and> ap_calls (cancel_timers env drain t s) = ap_calls s"
  using assms(1) leaderless_submit [OF _ assms(2)]
  by (simp add: cancel_timers_def onCancelDrainTimer_def finishCancelDrain_def onCancelVcTimer_def chooseCancelProposer_def Let_def)
    (simp add: leaderless_def)

text \<open>
  C37: a second cancellation has no proposer. When the certificate of another epoch arrives
  before the recovery of the first has ended, the vehicle records it and clears its
  candidates, but the drain that would choose new ones returns at once: from then on neither the
  drain timer nor any expired lease makes this vehicle propose, and the cancellation stays pending.
\<close>

theorem second_cancel_leaderless:
  assumes "ev_enableRollback env" and "cx_state (ap_cx s) \<in> {CANCEL_DRAINING, CANCEL_CONSENSUS, CANCEL_COMMITTED}"
    and "cx_cancelled_epoch (ap_cx s) \<noteq> epoch" and "\<not> isEpochTombstoned s epoch" and "0 \<le> cf_replicaId (ev_cfg env)"
    and "t = handleValidCancelJustification env epoch reason ref cert s"
  shows "cx_cancelled_epoch (ap_cx t) = epoch \<and> cx_consensus_pending (ap_cx (fold (\<lambda>(d, now). cancel_timers env d now) events t)) \<and>
    ap_calls (fold (\<lambda>(d, now). cancel_timers env d now) events t) = ap_calls t"
proof -
  have "leaderless t \<and> cx_cancelled_epoch (ap_cx t) = epoch"
    using assms by (auto simp: handleValidCancelJustification_def beginCancelDrain_def leaderless_def stopGossip_def
        halt_if_recallable_def Let_def)
  moreover have "leaderless u \<Longrightarrow> leaderless (fold (\<lambda>(d, now). cancel_timers env d now) events u) \<and>
      ap_calls (fold (\<lambda>(d, now). cancel_timers env d now) events u) = ap_calls u" for u
    by (induction events arbitrary: u) (auto simp: leaderless_timer [OF _ assms(5)])
  ultimately show ?thesis by (simp add: leaderless_def)
qed

text \<open>The cancellation of epoch 0 is still draining when the certificate of epoch 1 arrives.\<close>

theorem second_cancel_leaderless_witness:
  "ap_calls (cancel_timers (sample_env 3) False 9000 (handleValidCancelJustification (sample_env 3) 1 reason_crash ''x'' [1] draining_scene)) =
   ap_calls (handleValidCancelJustification (sample_env 3) 1 reason_crash ''x'' [1] draining_scene)"
proof -
  have "ev_enableRollback (sample_env 3)" "0 \<le> cf_replicaId (ev_cfg (sample_env 3))" by code_simp+
  then show ?thesis
    using second_cancel_leaderless [of "sample_env 3" draining_scene 1, OF _ _ _ _ _ refl, where events = "[(False, 9000)]"]
      draining_facts by (simp add: isEpochTombstoned_def om_get_def)
qed

end
