(* ===== verification/VehicleCorrect.thy ===== *)
theory VehicleCorrect
  imports Frames RelayInvariant CancelCorrect
begin

text \<open>
  Invariants of a vehicle over everything that can happen to it: radio silence after a crash,
  and the permanence of cancelled epochs and cleared incidents.
\<close>

section \<open>Evolution\<close>

definition incidents_kept :: "(u32 \<times> u32, IncidentRecord) omap \<Rightarrow> (u32 \<times> u32, IncidentRecord) omap \<Rightarrow> bool" where
  "incidents_kept m m' \<longleftrightarrow> (\<forall>k r. om_get m k = Some r \<longrightarrow> (\<exists>r'. om_get m' k = Some r' \<and>
     ir_blockedCertBytes r' = ir_blockedCertBytes r \<and> (ir_state r = CLEARED \<longrightarrow> r' = r)))"

definition evolves :: "'d AppEnv \<Rightarrow> Aspect \<Rightarrow> Aspect \<Rightarrow> bool" where
  "evolves env a b \<longleftrightarrow>
     (as_crashed a \<and> rl_instances (as_traffic a) = [] \<longrightarrow>
        as_crashed b \<and> rl_instances (as_traffic b) = [] \<and> as_aired b = as_aired a) \<and>
     (relay_wf env (as_traffic a) \<longrightarrow> relay_wf env (as_traffic b)) \<and>
     set (as_tombstones a) \<subseteq> set (as_tombstones b) \<and>
     (\<forall>e. om_get (as_commits a) e \<noteq> None \<longrightarrow> om_get (as_commits b) e \<noteq> None) \<and>
     incidents_kept (as_incidents a) (as_incidents b) \<and>
     (\<not> ev_is_byzantine env \<longrightarrow> claims_wf (as_claims a) \<longrightarrow> claims_wf (as_claims b))"

text \<open>The same without resuming the vehicle.\<close>

definition steady :: "'d AppEnv \<Rightarrow> Aspect \<Rightarrow> Aspect \<Rightarrow> bool" where
  "steady env a b \<longleftrightarrow> evolves env a b \<and> as_resumed b = as_resumed a"

lemma incidents_kept_trans: "incidents_kept m m' \<Longrightarrow> incidents_kept m' m'' \<Longrightarrow> incidents_kept m m''"
  unfolding incidents_kept_def by metis

lemma evolves_refl [simp]: "evolves env a a"
  by (simp add: evolves_def incidents_kept_def)

lemma evolves_trans:
  assumes "evolves env a b" and "evolves env b c"
  shows "evolves env a c"
proof -
  have "incidents_kept (as_incidents a) (as_incidents c)"
    using assms incidents_kept_trans unfolding evolves_def by blast
  moreover have "set (as_tombstones a) \<subseteq> set (as_tombstones c)"
    using assms unfolding evolves_def by blast
  moreover have "\<forall>e. om_get (as_commits a) e \<noteq> None \<longrightarrow> om_get (as_commits c) e \<noteq> None"
    using assms unfolding evolves_def by blast
  ultimately show ?thesis using assms by (simp add: evolves_def)
qed

lemma steady_refl [simp]: "steady env a a"
  by (simp add: steady_def)

lemma steady_trans: "steady env a b \<Longrightarrow> steady env b c \<Longrightarrow> steady env a c"
  unfolding steady_def using evolves_trans by force

lemma steady_evolves: "steady env a b \<Longrightarrow> evolves env a b"
  by (simp add: steady_def)

text \<open>The operations that change an aspect, each as a rule that prolongs an evolution.\<close>

lemma clear_retries_steady: "steady env (aspect s) (aspect (clearConsensusRetries s))"
proof -
  have "relay_wf env (as_traffic (aspect s)) \<longrightarrow> relay_wf env (as_traffic (aspect (clearConsensusRetries s)))"
    by (simp add: aspect_def clear_retries_wf)
  then show ?thesis
    by (auto simp: steady_def evolves_def incidents_kept_def aspect_def clearConsensusRetries_def cancelPendingConsensusRelays_def)
qed

lemma register_steady: "steady env (aspect s) (aspect (registerBlockedIncidentIfCrash cert s))"
  by (auto simp: steady_def evolves_def incidents_kept_def aspect_def registerBlockedIncidentIfCrash_def om_get_put split: option.split)

lemma record_commit_steady: "steady env (aspect s) (aspect (record_commit b dh att s))"
  by (auto simp: steady_def evolves_def incidents_kept_def aspect_def record_commit_def om_get_put)

lemma mark_cleared_steady:
  "om_get (cx_incidents (ap_cx s)) k = Some r \<Longrightarrow> ir_state r \<noteq> CLEARED \<Longrightarrow> steady env (aspect s) (aspect (mark_cleared k c r s))"
  by (auto simp: steady_def evolves_def incidents_kept_def aspect_def mark_cleared_def om_get_put)

lemma resume_evolves: "evolves env (aspect s) (aspect (call (Call_resumeVehicle p) s))"
  by (auto simp: evolves_def incidents_kept_def aspect_def call_def)

lemma claims_steady:
  "(\<not> ev_is_byzantine env \<Longrightarrow> claims_wf (as_claims a) \<Longrightarrow> claims_wf c) \<Longrightarrow> steady env a (a\<lparr>as_claims := c\<rparr>)"
  by (simp add: steady_def evolves_def incidents_kept_def)

lemma forget_claims: "steady env a (a\<lparr>as_claims := ([], [], [])\<rparr>)"
  by (rule claims_steady) (rule claims_empty)

lemmas steady_steps [simp] = steady_trans [OF _ forget_claims] steady_trans [OF _ clear_retries_steady] steady_trans [OF _ register_steady]
  steady_trans [OF _ record_commit_steady]

lemmas evolves_steps [simp] = evolves_trans [OF _ steady_evolves [OF forget_claims]] evolves_trans [OF _ resume_evolves] evolves_trans [OF _ steady_evolves [OF clear_retries_steady]]
  evolves_trans [OF _ steady_evolves [OF register_steady]] evolves_trans [OF _ steady_evolves [OF record_commit_steady]]

section \<open>Cancellation and clearance\<close>

lemma broadcastCancelCert_steady: "steady env (aspect s) (aspect (broadcastCancelCert env cert s))"
  by (simp add: broadcastCancelCert_def Let_def)

lemma collectCancelEcho_steady: "steady env (aspect s) (aspect (collectCancelEcho env echo s))"
  by (simp add: collectCancelEcho_def Let_def steady_trans [OF _ broadcastCancelCert_steady])

lemma handleCancelEcho_steady: "handleCancelEcho env p s = Some t \<Longrightarrow> steady env (aspect s) (aspect t)"
  using collectCancelEcho_steady by (auto simp: handleCancelEcho_def split: if_split_asm)

lemma acceptCancelCert_steady: "steady env (aspect s) (aspect (acceptCancelCert env from_id cert s))"
  by (simp add: acceptCancelCert_def Let_def)

lemma handleCancelCert_steady: "handleCancelCert env from_id p s = Some t \<Longrightarrow> steady env (aspect s) (aspect t)"
  using acceptCancelCert_steady by (auto simp: handleCancelCert_def split: if_split_asm)

lemma handleCancelCommitDecision_steady: "steady env (aspect s) (aspect (handleCancelCommitDecision env dec s))"
  by (simp add: handleCancelCommitDecision_def Let_def)

lemma handleCancelCommitGossip_steady: "steady env (aspect s) (aspect (handleCancelCommitGossip env from_id p s))"
  by (simp add: handleCancelCommitGossip_def countCancelCommit_def adoptCancelCommit_def Let_def split: option.split)

lemma onIncidentCleared_steady: "steady env (aspect s) (aspect (onIncidentCleared env k c s))"
  by (simp add: onIncidentCleared_def Let_def mark_cleared_steady split: option.split)

lemmas cleared_steps [simp] = steady_trans [OF _ onIncidentCleared_steady] evolves_trans [OF _ steady_evolves [OF onIncidentCleared_steady]]

lemma broadcastClearCert_steady: "steady env (aspect s) (aspect (broadcastClearCert env cert s))"
  by (simp add: broadcastClearCert_def Let_def)

lemma onClearCandidateTimer_steady: "steady env (aspect s) (aspect (onClearCandidateTimer env s))"
  by (simp add: onClearCandidateTimer_def Let_def steady_trans [OF _ broadcastClearCert_steady])

lemma handleClearCert_steady: "handleClearCert env carrier p s = Some t \<Longrightarrow> steady env (aspect s) (aspect t)"
  by (auto simp: handleClearCert_def acceptClearCert_def Let_def split: if_split_asm option.split_asm)

lemma adopt_clear_steady: "adopt_clear env cs s = Some t \<Longrightarrow> steady env (aspect s) (aspect t)"
proof (induction cs arbitrary: s)
  case (Cons c cs)
  then obtain cert where "adopt_clear env cs (if lc_echoes cert = [] \<or> \<not> validClearCert env s cert then s
      else onIncidentCleared env (lc_cancelledEpoch cert, lc_executingBatch cert) c s) = Some t"
    by (auto split: option.split_asm)
  from Cons.IH [OF this] show ?case
    using steady_trans [OF onIncidentCleared_steady] by (auto split: if_split_asm)
qed simp

section \<open>Decisions\<close>

lemma start_batch_evolves: "evolves env (aspect s) (aspect (start_batch env b ds e dec s))"
  by (simp add: start_batch_def Let_def)

lemma apply_schedule_evolves: "evolves env (aspect s) (aspect (apply_schedule env ohdr ds dec s))"
  by (simp add: apply_schedule_def Let_def evolves_trans [OF _ start_batch_evolves])

lemma commit_order_evolves:
  assumes "commit_order env ohdr dec s = Some t"
  shows "evolves env (aspect s) (aspect t)"
proof -
  obtain s2 where a: "adopt_clear env (clear_trailer (sizeof_order_hdr + unat (oh_n_vehicles ohdr) * sizeof_decision) dec)
      (adopt_view ohdr (dec_decisions (unat (oh_n_vehicles ohdr)) dec) (clearConsensusRetries s)) = Some s2"
    using assms by (auto simp: commit_order_def Let_def split: option.split_asm)
  have "evolves env (aspect s) (aspect s2)"
    using steady_evolves [OF adopt_clear_steady [OF a]] evolves_trans [OF steady_evolves [OF clear_retries_steady]] by simp
  then show ?thesis
    using assms a by (auto simp: commit_order_def Let_def evolves_trans [OF _ apply_schedule_evolves])
qed

lemma process_order_evolves: "process_order env dec s = Some t \<Longrightarrow> evolves env (aspect s) (aspect t)"
  using commit_order_evolves steady_evolves [OF handleCancelCommitDecision_steady]
  by (auto simp: process_order_def Let_def split: if_split_asm)

lemma process_all_evolves: "process_all env decs s = Some t \<Longrightarrow> evolves env (aspect s) (aspect t)"
  using process_order_evolves evolves_trans
  by (induction env decs s rule: process_all.induct) (force split: option.split_asm)+

lemma processOrders_evolves: "processOrders env s = Some t \<Longrightarrow> evolves env (aspect s) (aspect t)"
  using process_all_evolves by (fastforce simp: processOrders_def)

lemma fail_safe_evolves: "evolves env (aspect s) (aspect (fail_safe env s))"
  by (simp add: fail_safe_def)

lemma timeout_evolves:
  "onVcTrigger env s = Some t \<Longrightarrow> evolves env (aspect s) (aspect t)"
  "onStopSignTimeout env s = Some t \<Longrightarrow> evolves env (aspect s) (aspect t)"
  "onConsensusTimeout env s = Some t \<Longrightarrow> evolves env (aspect s) (aspect t)"
  by (auto simp: onVcTrigger_def onStopSignTimeout_def onConsensusTimeout_def
      dest!: processOrders_evolves intro: evolves_trans [OF _ fail_safe_evolves])

section \<open>Retransmission\<close>

text \<open>Packets are only retransmitted when some are kept, and only kept by a vehicle that can send.\<close>

lemma evolves_loud:
  assumes "\<not> (as_crashed a \<and> rl_instances (as_traffic a) = [])" and "as_tombstones b = as_tombstones a"
    and "as_commits b = as_commits a" and "as_incidents b = as_incidents a" and "as_claims b = as_claims a"
    and "relay_wf env (as_traffic a) \<longrightarrow> relay_wf env (as_traffic b)"
  shows "evolves env a b"
  using assms by (auto simp: evolves_def incidents_kept_def)

lemma consensus_air_fate [simp]: "fate (ap_cx (consensus_air env r p s)) = fate (ap_cx s)"
  "resumptions (ap_calls (consensus_air env r p s)) = resumptions (ap_calls s)"
  "ap_crashCommsDisabled (consensus_air env r p s) = ap_crashCommsDisabled s"
  "claims (consensus_air env r p s) = claims s"
  by (simp_all add: consensus_air_def air_def)

lemma sendConsensusBytes_fate [simp]: "fate (ap_cx (sendConsensusBytes env r p s)) = fate (ap_cx s)"
  "resumptions (ap_calls (sendConsensusBytes env r p s)) = resumptions (ap_calls s)"
  "claims (sendConsensusBytes env r p s) = claims s"
  by (simp_all add: sendConsensusBytes_def Let_def)

lemma fold_fate:
  assumes "\<And>x s. fate (ap_cx (f x s)) = fate (ap_cx s)" and "\<And>x s. resumptions (ap_calls (f x s)) = resumptions (ap_calls s)"
    and "\<And>x s. claims (f x s) = claims s"
  shows "fate (ap_cx (fold f xs s)) = fate (ap_cx s)" "resumptions (ap_calls (fold f xs s)) = resumptions (ap_calls s)"
    "claims (fold f xs s) = claims s"
  by (induction xs arbitrary: s) (simp_all add: assms)

lemma arm_retry_fate [simp]: "fate (ap_cx (arm_retry env s)) = fate (ap_cx s)"
  "resumptions (ap_calls (arm_retry env s)) = resumptions (ap_calls s)"
  "claims (arm_retry env s) = claims s"
  by (simp_all add: arm_retry_def)

lemma retry_fate:
  "fate (ap_cx (onConsensusRetryTimer env s)) = fate (ap_cx s)"
  "resumptions (ap_calls (onConsensusRetryTimer env s)) = resumptions (ap_calls s)"
  "claims (onConsensusRetryTimer env s) = claims s"
  by (simp_all add: onConsensusRetryTimer_def retryConsensusPackets_def Let_def case_prod_beta fold_fate)

lemma loud_steady:
  assumes "\<not> (ap_crashCommsDisabled s \<and> rl_instances (ap_rx s) = [])" and "fate (ap_cx t) = fate (ap_cx s)"
    and "resumptions (ap_calls t) = resumptions (ap_calls s)" and "claims t = claims s"
    and "relay_wf env (ap_rx s) \<longrightarrow> relay_wf env (ap_rx t)"
  shows "steady env (aspect s) (aspect t)"
  unfolding steady_def using assms by (auto simp: aspect_def fate_def intro!: evolves_loud)

lemma retry_steady: "steady env (aspect s) (aspect (onConsensusRetryTimer env s))"
proof (cases "rl_instances (ap_rx s) = []")
  case True
  then show ?thesis
    by (simp add: onConsensusRetryTimer_def retryConsensusPackets_def steady_def evolves_def incidents_kept_def aspect_def)
next
  case False
  then show ?thesis by (intro loud_steady) (simp_all add: retry_fate retry_wf)
qed

lemma drain_packet_fate [simp]: "fate (ap_cx (drain_packet env p s)) = fate (ap_cx s)"
  "resumptions (ap_calls (drain_packet env p s)) = resumptions (ap_calls s)"
  "claims (drain_packet env p s) = claims s"
  by (simp_all add: drain_packet_def Let_def rememberConsensusRetry_def)

lemma drain_steady: "steady env (aspect s) (aspect (drainOutboundQueue env s))"
proof (cases "ap_crashCommsDisabled s")
  case True
  then show ?thesis
    by (simp add: drainOutboundQueue_def steady_def evolves_def incidents_kept_def aspect_def outbound_wf outbound_ok_def)
next
  case False
  then have "fate (ap_cx (drainOutboundQueue env s)) = fate (ap_cx s)"
    "resumptions (ap_calls (drainOutboundQueue env s)) = resumptions (ap_calls s)"
    "claims (drainOutboundQueue env s) = claims s"
    by (simp_all add: drainOutboundQueue_def Let_def fold_fate)
  then show ?thesis using False by (intro loud_steady) (simp_all add: drainOutboundQueue_wf)
qed

text \<open>The relay operations change the traffic and nothing else.\<close>

definition calm :: "'d AppState \<Rightarrow> Aspect" where
  "calm s = (aspect s)\<lparr>as_traffic := initial_relay\<rparr>"

lemma calm_frame [simp]:
  "calm (s\<lparr>ap_rx := r\<rparr>) = calm s" "calm (stopCertBroadcastRetries s) = calm s" "calm (flush_relay env kp s) = calm s"
  "calm (call (Call_deliverPacket c p) s) = calm s" "calm (s\<lparr>ap_vc_trigger := v\<rparr>) = calm s"
  by (simp_all add: calm_def) (simp add: aspect_def)

lemma instances_frame [simp]:
  "rl_instances (ap_rx (stopCertBroadcastRetries s)) = rl_instances (ap_rx s)"
  "rl_instances (ap_rx (flush_relay env kp s)) = rl_instances (ap_rx s)"
  "rl_instances (ap_rx (call c s)) = rl_instances (ap_rx s)"
  by (simp_all add: stopCertBroadcastRetries_def flush_relay_def sendBFTMessageNow_def air_def call_def Let_def split: prod.split)

lemma relays_calm [simp]:
  "calm (scheduleConsensusRelayFlush s) = calm s \<and> rl_instances (ap_rx (scheduleConsensusRelayFlush s)) = rl_instances (ap_rx s)"
  by (simp add: scheduleConsensusRelayFlush_def Let_def split: list.split option.split)

lemma relay_parts_calm [simp]:
  "calm (observeConsensusRelayCarrier env key c s) = calm s \<and>
   rl_instances (ap_rx (observeConsensusRelayCarrier env key c s)) = rl_instances (ap_rx s)"
  "calm (maybeRelayResdbConsensusBytes env data info e s) = calm s \<and>
   rl_instances (ap_rx (maybeRelayResdbConsensusBytes env data info e s)) = rl_instances (ap_rx s)"
  "calm (fold (flush_relay env) ps s) = calm s \<and> rl_instances (ap_rx (fold (flush_relay env) ps s)) = rl_instances (ap_rx s)"
  by (simp add: observeConsensusRelayCarrier_def Let_def,
      simp add: maybeRelayResdbConsensusBytes_def scheduleConsensusRelay_def Let_def,
      induction ps arbitrary: s, simp_all)

lemma calm_steady:
  assumes "calm t = calm s \<and> rl_instances (ap_rx t) = rl_instances (ap_rx s)"
    and "relay_wf env (ap_rx s) \<Longrightarrow> relay_wf env (ap_rx t)"
  shows "steady env (aspect s) (aspect t)"
proof -
  have "as_crashed (calm t) = as_crashed (calm s)" "as_aired (calm t) = as_aired (calm s)"
    "as_incidents (calm t) = as_incidents (calm s)" "as_tombstones (calm t) = as_tombstones (calm s)"
    "as_commits (calm t) = as_commits (calm s)" "as_resumed (calm t) = as_resumed (calm s)"
    "as_claims (calm t) = as_claims (calm s)"
    using assms(1) by simp_all
  moreover have "as_traffic (aspect s) = ap_rx s" "as_traffic (aspect t) = ap_rx t" by (simp_all add: aspect_def)
  ultimately show ?thesis
    using assms by (simp add: steady_def evolves_def incidents_kept_def calm_def)
qed

lemma relay_steady:
  "steady env (aspect s) (aspect (handleResdbConsensusRelay env carrier p s))"
  "steady env (aspect s) (aspect (handleResdbConsensusMessage env from_id to_id p s))"
  "steady env (aspect s) (aspect (onConsensusRelayTimer env s))"
  "steady env (aspect s) (aspect (enqueueOutbound r data s))"
proof -
  show "steady env (aspect s) (aspect (handleResdbConsensusRelay env carrier p s))"
    by (rule calm_steady [OF _ relay_relay_wf])
      (simp_all add: handleResdbConsensusRelay_def deliver_relayed_def Let_def split: option.split)
  show "steady env (aspect s) (aspect (handleResdbConsensusMessage env from_id to_id p s))"
    by (rule calm_steady [OF _ relay_message_wf])
      (simp_all add: handleResdbConsensusMessage_def Let_def split: option.split)
  show "steady env (aspect s) (aspect (onConsensusRelayTimer env s))"
    by (rule calm_steady [OF _ relay_timer_wf]) (simp_all add: onConsensusRelayTimer_def flushDueConsensusRelays_def Let_def)
  show "steady env (aspect s) (aspect (enqueueOutbound r data s))"
    by (rule calm_steady [OF _ enqueueOutbound_wf]) (simp_all add: enqueueOutbound_def)
qed

section \<open>Every step\<close>

lemma settle_frame [simp]: "aspect (settle env s) = aspect s"
proof -
  have "aired (filter (\<lambda>c. c \<noteq> Call_evaluateOrderReadiness) cs) = aired cs"
    "resumptions (filter (\<lambda>c. c \<noteq> Call_evaluateOrderReadiness) cs) = resumptions cs" for cs
    by (induction cs rule: aired.induct; simp) (induction cs rule: resumptions.induct; simp)
  then show ?thesis by (simp add: settle_def)
qed

lemma same_steady: "aspect t = aspect s \<Longrightarrow> steady env (aspect s) (aspect t)"
  by simp

lemma announcement_steady:
  assumes "handleArrivalAnnouncement env p s = Some t"
  shows "steady env (aspect s) (aspect t)"
proof -
  have "claims_wf (claims t)" if "\<not> ev_is_byzantine env" "claims_wf (claims s)"
    using assms process_announcement_claims [OF that] that
    by (auto simp: handleArrivalAnnouncement_def split: if_split_asm option.split_asm)
  moreover have "(aspect t)\<lparr>as_claims := ([], [], [])\<rparr> = (aspect s)\<lparr>as_claims := ([], [], [])\<rparr>"
    by (rule handleArrivalAnnouncement_frame [OF assms])
  then have "aspect t = (aspect s)\<lparr>as_claims := as_claims (aspect t)\<rparr>"
    by (cases "aspect t", cases "aspect s") simp
  moreover have "as_claims (aspect s) = claims s" "as_claims (aspect t) = claims t" by (simp_all add: aspect_def)
  ultimately show ?thesis by (metis claims_steady)
qed

lemma announcement_gossip_steady: "handleArrivalAnnouncementGossip env p s = Some t \<Longrightarrow> steady env (aspect s) (aspect t)"
  using announcement_steady by (fastforce simp: handleArrivalAnnouncementGossip_def split: option.split_asm if_split_asm prod.split_asm)

lemma frame_steady:
  assumes "onWSM env fr s = Some t"
  shows "steady env (aspect s) (aspect t)"
proof -
  note handlers = handleArrivalEcho_frame handleArrivalCert_frame handleClearEcho_frame
  have "dispatch_frame env fr s = Some t \<Longrightarrow> steady env (aspect s) (aspect t)"
    by (auto simp: dispatch_frame_def Let_def handleCancelCommitGossip_steady relay_steady split: if_split_asm
        intro: same_steady dest: handlers announcement_steady announcement_gossip_steady handleCancelEcho_steady handleCancelCert_steady handleClearCert_steady)
  then show ?thesis using assms by (auto simp: onWSM_def split: if_split_asm)
qed

lemma drop_outbound_steady: "steady env (aspect s) (aspect (s\<lparr>ap_rx := (ap_rx s)\<lparr>rl_outbound := []\<rparr>\<rparr>))"
  by (rule calm_steady) (simp_all add: outbound_wf outbound_ok_def)

lemma departure_steady: "steady env (aspect s) (aspect (recordIntersectionDeparture s))"
  by (simp add: recordIntersectionDeparture_def Let_def steady_trans [OF _ drop_outbound_steady])

lemma timer_evolves:
  assumes "handleSelfMsg env tm s = Some t"
  shows "evolves env (aspect s) (aspect t)"
proof (cases tm)
  case T_clear_candidate
  then show ?thesis using assms steady_evolves [OF onClearCandidateTimer_steady] by auto
next
  case T_consensus_retry
  then show ?thesis using assms steady_evolves [OF retry_steady] by auto
next
  case T_consensus_relay
  then show ?thesis using assms steady_evolves [OF relay_steady(3)] by auto
next
  case T_resume
  then show ?thesis using assms by (auto simp: onResumeTimer_def Let_def)
next
  case T_poll
  then show ?thesis using assms by (auto simp: onPollTimer_def Let_def)
qed (use assms timeout_evolves in auto)

text \<open>A crash empties the traffic.\<close>

definition no_traffic :: "RelayCtx \<Rightarrow> RelayCtx" where
  "no_traffic r = r\<lparr>rl_outbound := [], rl_instances := [], rl_retry_timer := None, rl_pending := [], rl_timer := None\<rparr>"

lemma aspect_traffic: "aspect (s\<lparr>ap_rx := r\<rparr>) = (aspect s)\<lparr>as_traffic := r\<rparr>"
  "ap_rx s = as_traffic (aspect s)"
  by (simp_all add: aspect_def)

lemma clear_retries_aspect: "aspect (clearConsensusRetries s) =
    (aspect s)\<lparr>as_traffic := (as_traffic (aspect s))\<lparr>rl_instances := [], rl_retry_timer := None, rl_pending := [], rl_timer := None\<rparr>\<rparr>"
  by (simp add: aspect_def clearConsensusRetries_def cancelPendingConsensusRelays_def)

lemma crash_aspect:
  assumes "\<not> ap_crashCommsDisabled s"
  shows "aspect (disableCrashComms s) = (aspect s)\<lparr>as_crashed := True, as_aired := aired (ap_calls s),
    as_traffic := no_traffic (ap_rx s)\<rparr>"
proof -
  have "aspect (s\<lparr>ap_crashCommsDisabled := True\<rparr>) = (aspect s)\<lparr>as_crashed := True, as_aired := aired (ap_calls s)\<rparr>"
    by (simp add: aspect_def)
  then show ?thesis
    using assms by (simp add: disableCrashComms_def Let_def aspect_traffic clear_retries_aspect no_traffic_def)
qed

lemma crash_steady: "steady env (aspect s) (aspect (disableCrashComms s))"
proof (cases "ap_crashCommsDisabled s")
  case True
  then show ?thesis by (simp add: disableCrashComms_def)
next
  case False
  have "relay_wf env (ap_rx s) \<longrightarrow> relay_wf env (no_traffic (ap_rx s))"
    by (simp add: no_traffic_def relay_wf_def relay_core_def timed_def outbound_ok_def retries_ok_def om.inv_empty)
  moreover have "\<not> as_crashed (aspect s)" "as_traffic (aspect s) = ap_rx s" using False by (simp_all add: aspect_def)
  ultimately show ?thesis by (simp add: crash_aspect [OF False] steady_def evolves_def incidents_kept_def)
qed

lemma step_evolves: "vehicle_step env s t \<Longrightarrow> evolves env (aspect s) (aspect t)"
proof (induction rule: vehicle_step.cases)
  case (poll s t)
  then have "evolves env (aspect s) (aspect t)"
    by (auto simp: onTransportPoll_def dest!: processOrders_evolves intro: evolves_trans [OF steady_evolves [OF drain_steady]])
  with poll show ?case by simp
qed (auto simp: steady_evolves [OF frame_steady] steady_evolves [OF departure_steady] steady_evolves [OF crash_steady]
    steady_evolves [OF relay_steady(4)] timer_evolves)

lemma steps_evolve: "(vehicle_step env)\<^sup>*\<^sup>* s t \<Longrightarrow> evolves env (aspect s) (aspect t)"
  by (induction rule: rtranclp_induct) (auto intro: evolves_trans step_evolves)

section \<open>Resuming\<close>

definition cancel_active :: "'d AppState \<Rightarrow> bool" where
  "cancel_active s \<longleftrightarrow> cx_pending (ap_cx s) \<or> cx_consensus_pending (ap_cx s)"

lemma cancel_active_update [simp]:
  "cx_pending c = cx_pending (ap_cx s) \<Longrightarrow> cx_consensus_pending c = cx_consensus_pending (ap_cx s) \<Longrightarrow>
   cancel_active (s\<lparr>ap_cx := c\<rparr>) = cancel_active s"
  "cancel_active (s\<lparr>ap_lx := l\<rparr>) = cancel_active s" "cancel_active (s\<lparr>ap_gx := g\<rparr>) = cancel_active s"
  "cancel_active (sendBFTMessage env r p ty loc w s) = cancel_active s"
  by (simp_all add: cancel_active_def)

lemma echo_active [simp]:
  "cancel_active (sendCancelEcho env e r ref s) = cancel_active s" "cancel_active (sendClearEcho env e b s) = cancel_active s"
  by (simp_all add: sendCancelEcho_def sendClearEcho_def beginWitnessing_def Let_def split: option.split)

lemma watch_active [simp]:
  "cancel_active (watch_target env b r s) = cancel_active s" "cancel_active (watch_incident env k rec s) = cancel_active s"
  by (simp_all add: watch_target_def watch_incident_def maybeTriggerCrashRollback_def Let_def split: option.split)

lemma detectUnsafeBatch_active [simp]: "cancel_active (detectUnsafeBatch env ds n s) = cancel_active s"
proof -
  have "cancel_active (fold (maybeTriggerCrashRollback env) refs s) = cancel_active s" for refs s
    by (induction refs arbitrary: s) (simp_all add: maybeTriggerCrashRollback_def)
  then show ?thesis by (simp add: detectUnsafeBatch_def)
qed

lemma perceive_active [simp]: "cancel_active (perceive env s) = cancel_active s"
proof -
  have "cancel_active (watch_batches env ts s) = cancel_active s" for ts s
    by (induction env ts s rule: watch_batches.induct) simp_all
  moreover have "cancel_active (watch_incidents env ks s) = cancel_active s" for ks s
    by (induction env ks s rule: watch_incidents.induct) simp_all
  ultimately show ?thesis by (simp add: perceive_def Let_def)
qed

lemma poll_steady: "cancel_active s \<Longrightarrow> aspect (onPollTimer env s) = aspect s"
proof -
  assume "cancel_active s"
  then have "cancel_active (perceive env (s\<lparr>ap_gx := (ap_gx s)\<lparr>gx_poll_timer := None\<rparr>\<rparr>))" by simp
  then show ?thesis by (simp add: onPollTimer_def cancel_active_def Let_def)
qed

lemma no_orders:
  "gx_pending_orders (ap_gx s) = [] \<Longrightarrow> processOrders env s = Some (s\<lparr>ap_gx := (ap_gx s)\<lparr>gx_pending_orders := []\<rparr>\<rparr>)"
  by (simp add: processOrders_def)

lemma fail_safe_active: "cancel_active s \<Longrightarrow> fail_safe env s = s"
  by (simp add: fail_safe_def cancel_active_def)

lemma timer_steady:
  assumes "handleSelfMsg env tm s = Some t" and "cancel_active s" and "gx_pending_orders (ap_gx s) = []"
  shows "steady env (aspect s) (aspect t)"
proof (cases tm)
  case T_clear_candidate
  then show ?thesis using assms(1) onClearCandidateTimer_steady by auto
next
  case T_consensus_retry
  then show ?thesis using assms(1) retry_steady by auto
next
  case T_consensus_relay
  then show ?thesis using assms(1) relay_steady(3) by auto
next
  case T_resume
  then show ?thesis using assms(1,2) by (auto simp: onResumeTimer_def Let_def cancel_active_def)
next
  case T_poll
  then show ?thesis using assms(1) poll_steady [OF assms(2)] by auto
qed (use assms in \<open>auto simp: onVcTrigger_def onStopSignTimeout_def onConsensusTimeout_def no_orders fail_safe_active\<close>)

lemma drain_orders [simp]: "ap_gx (drainOutboundQueue env s) = ap_gx s"
proof -
  have "ap_gx (fold (drain_packet env) ps s) = ap_gx s" for ps s
    by (induction ps arbitrary: s)
      (simp_all add: drain_packet_def Let_def consensus_air_def rememberConsensusRetry_def arm_retry_def)
  then show ?thesis by (simp add: drainOutboundQueue_def Let_def)
qed

lemma step_steady:
  assumes "vehicle_step env s t" and "cancel_active s" and "gx_pending_orders (ap_gx s) = []"
  shows "steady env (aspect s) (aspect t)"
  using assms
proof (induction rule: vehicle_step.cases)
  case (poll s t)
  then have "steady env (aspect s) (aspect t)"
    using drain_steady [of env s] by (auto simp: onTransportPoll_def no_orders)
  with poll show ?case by simp
qed (auto simp: frame_steady departure_steady crash_steady relay_steady(4) timer_steady)

section \<open>The theorems\<close>

lemma resumptions_aspect: "as_resumed (aspect s) = resumptions (ap_calls s)"
  by (simp add: aspect_def)



text \<open>
  C22: what recovery rests on is never taken back. Along every run of a vehicle a cancelled
  epoch stays tombstoned and its commit stays recorded, an incident keeps the certificate that
  registered it, and a cleared incident stays cleared with the same evidence.
\<close>

theorem incidents_permanent:
  assumes "(vehicle_step env)\<^sup>*\<^sup>* s t"
  shows "(isEpochTombstoned s e \<longrightarrow> isEpochTombstoned t e) \<and> (hasCommittedCancel s e \<longrightarrow> hasCommittedCancel t e) \<and>
    (\<forall>k r. om_get (cx_incidents (ap_cx s)) k = Some r \<longrightarrow>
      (\<exists>r'. om_get (cx_incidents (ap_cx t)) k = Some r' \<and> ir_blockedCertBytes r' = ir_blockedCertBytes r \<and>
        (ir_state r = CLEARED \<longrightarrow> r' = r)))"
  using steps_evolve [OF assms]
  by (auto simp: evolves_def incidents_kept_def aspect_def isEpochTombstoned_def hasCommittedCancel_def)

definition cleared_incident :: IncidentRecord where
  "cleared_incident = \<lparr>ir_state = CLEARED, ir_blockedCertBytes = [1], ir_clearCertBytes = [2]\<rparr>"

text \<open>Vehicle 0 in the recovery of epoch 0, whose incident in batch 2 is cleared.\<close>

definition recovering_scene :: "int AppState" where
  "recovering_scene = (let s = initial_vehicle (sample_env 0) sample_server
     in s\<lparr>ap_current_epoch := 1, ap_cx := (ap_cx s)\<lparr>cx_pending := True, cx_new_epoch := 1, cx_tombstoned_epochs := [0],
       cx_incidents := [((0, 2), cleared_incident)]\<rparr>\<rparr>)"

theorem incidents_permanent_witness:
  "om_get (cx_incidents (ap_cx (settle (sample_env 0) (handlePositionUpdate (sample_env 0) recovering_scene)))) (0, 2) =
     Some cleared_incident"
proof -
  have "vehicle_step (sample_env 0) recovering_scene (settle (sample_env 0) (handlePositionUpdate (sample_env 0) recovering_scene))"
    by (rule vehicle_step.position)
  moreover have "om_get (cx_incidents (ap_cx recovering_scene)) (0, 2) = Some cleared_incident" by code_simp
  ultimately show ?thesis
    using incidents_permanent [OF r_into_rtranclp, of "sample_env 0" recovering_scene] by (fastforce simp: cleared_incident_def)
qed

lemma tombstone_kept:
  assumes "(vehicle_step env)\<^sup>*\<^sup>* s t" and "isEpochTombstoned s e"
  shows "isEpochTombstoned t e"
  using steps_evolve [OF assms(1)] assms(2)
  by (auto simp: evolves_def aspect_def isEpochTombstoned_def split: if_split_asm)

definition is_order_of :: "u32 \<Rightarrow> bytes \<Rightarrow> bool" where
  "is_order_of e dec \<longleftrightarrow> oh_epoch (dec_order_hdr dec) = e \<and>
     \<not> (length dec \<ge> sizeof_cancel_decision \<and> dh_magic (dec_cancel_decision dec) = RESDB_CANCEL_DECISION_MAGIC)"

text \<open>
  C9: an order of a cancelled epoch is dead. Once the CANCEL of an epoch is committed, no
  decided or gossiped ORDER of that epoch is applied, adopted or passed on by this vehicle at
  any later time.
\<close>

theorem cancelled_order_dead:
  assumes "isEpochTombstoned s e" and "(vehicle_step env)\<^sup>*\<^sup>* s t" and "is_order_of e dec"
  shows "process_order env dec t = Some t \<and> applyGossipOrder env dec e t = t \<and>
    countDecision env from_id e dec t = t \<and> triggerGossip env e dec t = t"
  using tombstone_kept [OF assms(2,1)] assms(3)
  by (auto simp: process_order_def Let_def is_order_of_def applyGossipOrder_def countDecision_def triggerGossip_def
      cancel_active_for_def)

definition zero_order :: bytes where
  "zero_order = enc_order_hdr \<lparr>oh_epoch = 0, oh_n_vehicles = 0, oh_n_batches = 0\<rparr>"

theorem cancelled_order_dead_witness:
  "process_order (sample_env 0) zero_order
     (settle (sample_env 0) (handlePositionUpdate (sample_env 0) recovering_scene)) =
   Some (settle (sample_env 0) (handlePositionUpdate (sample_env 0) recovering_scene))"
proof -
  have "vehicle_step (sample_env 0) recovering_scene (settle (sample_env 0) (handlePositionUpdate (sample_env 0) recovering_scene))"
    by (rule vehicle_step.position)
  moreover have "isEpochTombstoned recovering_scene 0" "is_order_of 0 zero_order" by code_simp+
  ultimately show ?thesis
    using cancelled_order_dead [OF _ r_into_rtranclp, of recovering_scene 0 "sample_env 0"] by blast
qed

text \<open>
  C21: while a CANCEL is being decided or recovered from, a vehicle is not resumed. Whatever
  happens to it, no event resumes the vehicle as long as no decided order is waiting to be
  processed: neither the clearance poll, nor a pending resume, nor the two safety timeouts.
\<close>

theorem no_resume_while_cancelling:
  assumes "vehicle_step env s t" and "cancel_active s" and "gx_pending_orders (ap_gx s) = []"
  shows "resumptions (ap_calls t) = resumptions (ap_calls s)"
  using step_steady [OF assms] by (simp add: steady_def resumptions_aspect)

text \<open>Everyone ahead has cleared the intersection, and the poll of vehicle 0 in batch 1 is due.\<close>

definition polling_scene :: "int AppState" where
  "polling_scene = (let s = recovering_scene
     in s\<lparr>ap_gx := (ap_gx s)\<lparr>gx_my_batch_index := 1, gx_preceding_batch_cars := [1], gx_poll_timer := Some 0\<rparr>\<rparr>)"

definition cleared_env :: "int AppEnv" where
  "cleared_env = (sample_env 0)\<lparr>ev_hasCleared := (\<lambda>t c. True)\<rparr>"

theorem no_resume_while_cancelling_witness:
  "resumptions (ap_calls (settle cleared_env (onPollTimer cleared_env polling_scene))) = []"
proof -
  have "vehicle_step cleared_env polling_scene (settle cleared_env (onPollTimer cleared_env polling_scene))"
    by (rule vehicle_step.timer [of T_poll]) (simp_all, code_simp)
  moreover have "cancel_active polling_scene" "gx_pending_orders (ap_gx polling_scene) = []" "ap_calls polling_scene = []"
    by code_simp+
  ultimately show ?thesis using no_resume_while_cancelling [of cleared_env polling_scene] by simp
qed

text \<open>
  C26: the consensus traffic of a vehicle is well-formed at all times. In every state that a
  vehicle can reach, whatever frames, decisions and timers it sees: a packet waits at most once
  in the outgoing queue; every packet kept for retransmission belongs to an agreement phase,
  is kept under its own type and was not sent more often than configured; the carriers counted for
  a relay are distinct members with known keys; and every relay that is pending is of a packet
  that was seen, is eligible, is not the own, and is due no earlier than the armed timer.
\<close>

theorem consensus_traffic_wf:
  fixes env :: "'d AppEnv"
  assumes "(vehicle_step env)\<^sup>*\<^sup>* (initial_vehicle env server) t"
  shows "relay_wf env (ap_rx t)"
proof -
  have "aspect (initial_vehicle env server) = aspect (initial_app server :: 'd AppState)"
    by (simp add: initial_vehicle_def Let_def)
  then have "as_traffic (aspect (initial_vehicle env server)) = initial_relay"
    by (simp add: aspect_def initial_app_def)
  then have "relay_wf env (as_traffic (aspect (initial_vehicle env server)))" by (simp add: relay_wf_initial)
  then show ?thesis using steps_evolve [OF assms] by (simp add: evolves_def aspect_def)
qed

theorem consensus_traffic_wf_witness:
  "relay_wf (sample_env 0) (ap_rx (enqueueOutbound 2 [1, 2] (initial_vehicle (sample_env 0) sample_server)))"
  by (rule consensus_traffic_wf [OF r_into_rtranclp, OF vehicle_step.outbound])

section \<open>An order decided while its epoch is being cancelled\<close>

lemma gossip_cancel [simp]: "ap_cx (triggerGossip env e dec s) = ap_cx s"
  by (simp add: triggerGossip_def scheduleNextGossip_def bump_gossip_def send_decision_gossip_def stopGossip_def Let_def)

lemma stop_cancel [simp]: "ap_cx (stopCertBroadcastRetries s) = ap_cx s" "ap_cx (deactivateDiscovery s) = ap_cx s"
  by (simp_all add: stopCertBroadcastRetries_def deactivateDiscovery_def cancelPendingDiscoveryTxs_def Let_def
      stopStopZoneCertGossip_def cancelStoppedDistanceFinalizeTimer_def cancelArrivalCertFinalizeTimer_def
      cancelStoppedDistanceAttestationRetry_def)

lemma first_batch_resumes:
  "resumptions (ap_calls (start_batch env 0 ds e dec s)) = resumptions (ap_calls s) @ [0]"
  "ap_cx (start_batch env 0 ds e dec s) = ap_cx s"
proof -
  define s3 where "s3 = (let s1 = stopCertBroadcastRetries (s\<lparr>ap_order_applied := True\<rparr>);
      s2 = (if ev_gossip_enabled env \<and> gx_order_bytes (ap_gx s1) = [] then triggerGossip env e dec s1 else s1)
    in s2\<lparr>ap_current_phase := EXECUTING, ap_gx := (ap_gx s2)\<lparr>gx_my_batch_index := 0, gx_preceding_batch_cars := []\<rparr>\<rparr>)"
  have "start_batch env 0 ds e dec s = call (Call_resumeVehicle 0) s3"
    by (simp add: start_batch_def s3_def Let_def)
  moreover have "aspect s3 = aspect s" "ap_cx s3 = ap_cx s" by (simp_all add: s3_def Let_def)
  ultimately show "resumptions (ap_calls (start_batch env 0 ds e dec s)) = resumptions (ap_calls s) @ [0]"
    "ap_cx (start_batch env 0 ds e dec s) = ap_cx s"
    using resumptions_aspect [of s3] resumptions_aspect [of s] by (simp_all add: call_def)
qed

text \<open>
  C38: a decided order overtakes the cancellation of its own epoch. While the CANCEL of an
  epoch is still being decided the epoch is not tombstoned, so an ORDER of it that arrives late
  is applied: a vehicle of the first batch, which had halted on the CANCEL certificate, is
  resumed into the intersection although its cancellation is active.
\<close>

theorem late_order_resumes_halted_vehicle:
  assumes "cx_consensus_pending (ap_cx s)" and "\<not> cx_pending (ap_cx s)" and "\<not> isEpochTombstoned s e"
    and "\<not> ap_order_applied s" and "\<not> ev_hasCompleted env (ap_now s) e" and "is_order_of e dec"
    and "length dec = sizeof_order_hdr + unat (oh_n_vehicles (dec_order_hdr dec)) * sizeof_decision"
    and "my_batch_of (cf_replicaId (ev_cfg env)) (dec_decisions (unat (oh_n_vehicles (dec_order_hdr dec))) dec) = 0"
  shows "\<exists>t. process_order env dec s = Some t \<and> cancel_active t \<and>
    resumptions (ap_calls t) = resumptions (ap_calls s) @ [0]"
proof -
  let ?ohdr = "dec_order_hdr dec" and ?ds = "dec_decisions (unat (oh_n_vehicles (dec_order_hdr dec))) dec"
  define s1 where "s1 = adopt_view ?ohdr ?ds (clearConsensusRetries s)"
  have s1: "ap_cx s1 = ap_cx s" "resumptions (ap_calls s1) = resumptions (ap_calls s)"
    by (simp_all add: s1_def adopt_view_def clearConsensusRetries_def cancelPendingConsensusRelays_def)
  define d where "d = detectUnsafeBatch env ?ds (unat (oh_n_batches ?ohdr)) s1"
  have d: "cancel_active d" "aspect d = aspect s1"
    using assms(1) s1(1) by (simp_all add: d_def) (simp add: cancel_active_def)
  define t where "t = apply_schedule env ?ohdr ?ds dec d"
  have "clear_trailer (sizeof_order_hdr + unat (oh_n_vehicles ?ohdr) * sizeof_decision) dec = []"
    using assms(7) by (simp add: clear_trailer_def sizeof_evidence_hdr_def)
  then have "commit_order env ?ohdr dec s = Some t"
    using assms(2) s1(1) by (simp add: commit_order_def Let_def s1_def [symmetric] d_def [symmetric] t_def)
  then have "process_order env dec s = Some t"
    using assms(3-7) by (auto simp: process_order_def is_order_of_def)
  moreover define s2 where "s2 = (let d = deactivateDiscovery (d\<lparr>ap_gx := (ap_gx d)\<lparr>gx_has_committed_order := True\<rparr>\<rparr>)
    in d\<lparr>ap_gx := (ap_gx d)\<lparr>gx_last_committed_epoch := oh_epoch ?ohdr, gx_committed_order_bytes := dec,
        gx_stop_sign_timer := None, gx_consensus_timer := None\<rparr>, ap_vc_trigger := None\<rparr>)"
  have "t = start_batch env 0 ?ds (oh_epoch ?ohdr) dec s2"
    using assms(8) by (simp add: t_def s2_def apply_schedule_def Let_def)
  then have "ap_cx t = ap_cx s2" "resumptions (ap_calls t) = resumptions (ap_calls s2) @ [0]"
    by (simp_all add: first_batch_resumes)
  moreover have "ap_cx s2 = ap_cx d" "aspect s2 = aspect s1"
    using d(2) by (simp_all add: s2_def Let_def)
  ultimately show ?thesis
    using d(1) s1(2) resumptions_aspect [of s2] resumptions_aspect [of s1] by (auto simp: cancel_active_def)
qed

text \<open>Vehicle 0, halted by a CANCEL of epoch 0, receives the order of epoch 0 that lets it go first.\<close>

definition halted_scene :: "int AppState" where
  "halted_scene = (let s = initial_vehicle (sample_env 0) sample_server
     in handleValidCancelJustification (sample_env 0) 0 reason_crash ''blocked_batch:0:0'' [1] s)"

definition late_order :: bytes where
  "late_order = enc_order_hdr \<lparr>oh_epoch = 0, oh_n_vehicles = 1, oh_n_batches = 1\<rparr> @
     enc_decision \<lparr>vd_replica_id = 0, vd_batch_index = 0\<rparr>"

theorem late_order_resumes_halted_vehicle_witness:
  "Call_stopVehicle \<in> set (ap_calls halted_scene) \<and>
   (\<exists>t. process_order (sample_env 0) late_order halted_scene = Some t \<and> cancel_active t \<and> resumptions (ap_calls t) = [0])"
proof -
  have c: "Call_stopVehicle \<in> set (ap_calls halted_scene)" "resumptions (ap_calls halted_scene) = []"
    by code_simp+
  have h: "cx_consensus_pending (ap_cx halted_scene)" "\<not> cx_pending (ap_cx halted_scene)" "\<not> isEpochTombstoned halted_scene 0"
    "\<not> ap_order_applied halted_scene" "\<not> ev_hasCompleted (sample_env 0) (ap_now halted_scene) 0" "is_order_of 0 late_order"
    "length late_order = sizeof_order_hdr + unat (oh_n_vehicles (dec_order_hdr late_order)) * sizeof_decision"
    "my_batch_of (cf_replicaId (ev_cfg (sample_env 0))) (dec_decisions (unat (oh_n_vehicles (dec_order_hdr late_order))) late_order) = 0"
    by code_simp+
  show ?thesis using late_order_resumes_halted_vehicle [OF h] c by simp
qed

end
