(* ===== verification/VariantCorrect.thy ===== *)
theory VariantCorrect
  imports VehicleCorrect
begin

text \<open>
  A correct witness vouches for one claim of a vehicle in a round: the invariant of
  \<open>Claims\<close> over every run of a vehicle, and an equivocating claimant as its example.
\<close>

lemma initial_claims: "claims (initial_vehicle env server) = ([], [], [])"
proof -
  have "claims (initial_vehicle env server) = as_claims (aspect (initial_vehicle env server))" by (simp add: aspect_def)
  also have "\<dots> = as_claims (aspect (initial_app server :: 'a AppState))" by (simp add: initial_vehicle_def Let_def)
  finally show ?thesis by (simp add: aspect_def claims_def initial_app_def)
qed

lemma reachable_claims:
  assumes "\<not> ev_is_byzantine env" and "(vehicle_step env)\<^sup>*\<^sup>* (initial_vehicle env server) s"
  shows "claims_wf (claims s)"
proof -
  have "as_claims (aspect u) = claims u" for u :: "'a AppState" by (simp add: aspect_def)
  then show ?thesis
    using steps_evolve [OF assms(2)] assms(1) claims_empty initial_claims [of env server] unfolding evolves_def by metis
qed


text \<open>Vehicle 0 announces 10 cm and then 40 cm beside the middle of its lane; vehicle 1 hears both.\<close>

definition second_claim :: "int ArrivalAnnouncement" where
  "second_claim = sign_announcement (lane_env 0) (lane_claim\<lparr>an_lateralClaimCm := 40\<rparr>)"

definition announce_frame :: "int ArrivalAnnouncement \<Rightarrow> Frame" where
  "announce_frame ann = \<lparr>fr_from = 0, fr_to = - 1, fr_type = kArrivalAnnounceType,
     fr_payload = serializeArrivalAnnouncement (ev_print_d (lane_env 0)) ann\<rparr>"

definition first_heard :: "int AppState" where
  "first_heard = settle (lane_env 1) (the (onWSM (lane_env 1) (announce_frame lane_claim)
     (initial_vehicle (lane_env 1) sample_server)))"

definition both_heard :: "int AppState" where
  "both_heard = settle (lane_env 1) (the (onWSM (lane_env 1) (announce_frame second_claim) first_heard))"

definition kept_echo :: ArrivalEcho where
  "kept_echo = the (om_get (ap_cached_arrival_echoes both_heard) (claim_key (lane_env 1) lane_claim))"

text \<open>What is read off that run, evaluated once.\<close>

definition variant_view :: "int AppState \<Rightarrow> (int \<times> string) option \<times> nat list" where
  "variant_view s = (map_option (\<lambda>e. (ae_epoch e, ae_targetCarId e)) (om_get (ap_cached_arrival_echoes s) (claim_key (lane_env 1) lane_claim)),
     map (length \<circ> snd) (ap_claim_variants s))"

definition hear :: "int ArrivalAnnouncement \<Rightarrow> int AppState \<Rightarrow> int AppState option" where
  "hear ann s = map_option (settle (lane_env 1)) (onWSM (lane_env 1) (announce_frame ann) s)"

lemma hear_view:
  "map_option variant_view (Option.bind (hear lane_claim (initial_vehicle (lane_env 1) sample_server)) (hear second_claim)) =
   Some (Some (0, ''veh0''), [2])"
  by code_simp

lemma both_heard_facts:
  "onWSM (lane_env 1) (announce_frame lane_claim) (initial_vehicle (lane_env 1) sample_server) \<noteq> None"
  "onWSM (lane_env 1) (announce_frame second_claim) first_heard \<noteq> None"
  "variant_view both_heard = (Some (0, ''veh0''), [2])"
  using hear_view by (auto simp: bind_eq_Some_conv hear_def first_heard_def both_heard_def)


end
