(* ===== verification/ResumeCorrect.thy ===== *)
theory ResumeCorrect
  imports VehicleCorrect DiscoveryRefine RoadCorrect
begin

text \<open>
  Why a vehicle moves. Every event that releases it into the intersection is traced to a
  decided order, to what it sees on the road, or to a timeout.
\<close>

section \<open>Decided orders\<close>

abbreviation order_decisions :: "bytes \<Rightarrow> ResdbVehicleDecision list" where
  "order_decisions dec \<equiv> dec_decisions (unat (oh_n_vehicles (dec_order_hdr dec))) dec"

text \<open>A live order that lets replica \<open>me\<close> go first.\<close>

definition releases :: "int \<Rightarrow> 'd AppState \<Rightarrow> bytes \<Rightarrow> bool" where
  "releases me s dec \<longleftrightarrow> \<not> isEpochTombstoned s (oh_epoch (dec_order_hdr dec)) \<and> my_batch_of me (order_decisions dec) = 0"

lemma releases_update [simp]:
  "releases me (s\<lparr>ap_gx := g\<rparr>) = releases me s" "releases me (s\<lparr>ap_vc_trigger := v\<rparr>) = releases me s"
  by (simp_all add: fun_eq_iff releases_def isEpochTombstoned_def)

lemma steady_resumed: "steady env (aspect s) (aspect t) \<Longrightarrow> resumptions (ap_calls t) = resumptions (ap_calls s)"
  by (simp add: steady_def resumptions_aspect)

lemma frame_resumed: "aspect t = aspect s \<Longrightarrow> resumptions (ap_calls t) = resumptions (ap_calls s)"
  by (metis resumptions_aspect)

lemma start_batch_waits:
  assumes "b \<noteq> 0"
  shows "resumptions (ap_calls (start_batch env b ds e dec s)) = resumptions (ap_calls s)"
proof -
  have "aspect (start_batch env b ds e dec s) = aspect s"
    using assms by (simp add: start_batch_def Let_def)
  then show ?thesis by (rule frame_resumed)
qed

lemma apply_schedule_resumes:
  assumes "my_batch_of (cf_replicaId (ev_cfg env)) ds \<noteq> 0"
  shows "resumptions (ap_calls (apply_schedule env ohdr ds dec s)) = resumptions (ap_calls s)"
proof -
  define s2 where "s2 = (let d = deactivateDiscovery (s\<lparr>ap_gx := (ap_gx s)\<lparr>gx_has_committed_order := True\<rparr>\<rparr>)
    in d\<lparr>ap_gx := (ap_gx d)\<lparr>gx_last_committed_epoch := oh_epoch ohdr, gx_committed_order_bytes := dec,
        gx_stop_sign_timer := None, gx_consensus_timer := None\<rparr>, ap_vc_trigger := None\<rparr>)"
  have "aspect s2 = aspect s" by (simp add: s2_def Let_def)
  then have "resumptions (ap_calls s2) = resumptions (ap_calls s)" by (rule frame_resumed)
  moreover have "apply_schedule env ohdr ds dec s = (if my_batch_of (cf_replicaId (ev_cfg env)) ds < 0
      then (if oh_epoch ohdr = ap_current_epoch s2 then s2\<lparr>ap_order_applied := True\<rparr> else s2)
      else start_batch env (my_batch_of (cf_replicaId (ev_cfg env)) ds) ds (oh_epoch ohdr) dec s2)"
    by (simp add: apply_schedule_def s2_def Let_def)
  ultimately show ?thesis using assms by (simp add: start_batch_waits)
qed

lemma commit_order_resumes:
  assumes "commit_order env ohdr dec s = Some t"
    and "my_batch_of (cf_replicaId (ev_cfg env)) (dec_decisions (unat (oh_n_vehicles ohdr)) dec) \<noteq> 0"
  shows "resumptions (ap_calls t) = resumptions (ap_calls s)"
proof -
  let ?ds = "dec_decisions (unat (oh_n_vehicles ohdr)) dec"
  obtain s2 where a: "adopt_clear env (clear_trailer (sizeof_order_hdr + unat (oh_n_vehicles ohdr) * sizeof_decision) dec)
      (adopt_view ohdr ?ds (clearConsensusRetries s)) = Some s2"
    using assms(1) by (auto simp: commit_order_def Let_def split: option.split_asm)
  define s3 where "s3 = (if cx_pending (ap_cx s2) \<and> oh_epoch ohdr = cx_new_epoch (ap_cx s2) then finish_recovery s2 else s2)"
  have t: "t = (if cx_pending (ap_cx s3) \<and> oh_epoch ohdr = cx_cancelled_epoch (ap_cx s3) then s3
      else apply_schedule env ohdr ?ds dec (detectUnsafeBatch env ?ds (unat (oh_n_batches ohdr)) s3))"
    using assms(1) a unfolding commit_order_def Let_def s3_def by (auto split: if_splits)
  have "steady env (aspect s) (aspect s2)"
    using steady_trans [OF clear_retries_steady] adopt_clear_steady [OF a] by simp
  moreover have "aspect s3 = aspect s2" by (simp add: s3_def finish_recovery_frame)
  ultimately have "resumptions (ap_calls s3) = resumptions (ap_calls s)"
    using steady_resumed frame_resumed by metis
  moreover have "resumptions (ap_calls (detectUnsafeBatch env ?ds n s3)) = resumptions (ap_calls s3)" for n
    by (rule frame_resumed) simp
  ultimately show ?thesis using t apply_schedule_resumes [OF assms(2)] by simp
qed

lemma process_order_resumes:
  assumes "process_order env dec s = Some t" and "resumptions (ap_calls t) \<noteq> resumptions (ap_calls s)"
  shows "releases (cf_replicaId (ev_cfg env)) s dec"
  using assms commit_order_resumes [of env "dec_order_hdr dec" dec s t]
    steady_resumed [OF handleCancelCommitDecision_steady]
  by (auto simp: process_order_def releases_def Let_def split: if_split_asm)

lemma process_all_resumes:
  assumes "process_all env decs s = Some t" and "resumptions (ap_calls t) \<noteq> resumptions (ap_calls s)"
  shows "\<exists>dec\<in>set decs. releases (cf_replicaId (ev_cfg env)) s dec"
  using assms
proof (induction decs arbitrary: s)
  case (Cons dec decs)
  obtain s1 where s1: "process_order env dec s = Some s1" "process_all env decs s1 = Some t"
    using Cons.prems(1) by (auto split: option.split_asm)
  show ?case
  proof (cases "resumptions (ap_calls s1) = resumptions (ap_calls s)")
    case True
    then obtain d where d: "d \<in> set decs" "releases (cf_replicaId (ev_cfg env)) s1 d"
      using Cons.IH [OF s1(2)] Cons.prems(2) by auto
    have "isEpochTombstoned s e \<Longrightarrow> isEpochTombstoned s1 e" for e
      using process_order_evolves [OF s1(1)] by (auto simp: evolves_def aspect_def isEpochTombstoned_def split: if_split_asm)
    then have "releases (cf_replicaId (ev_cfg env)) s d" using d(2) by (auto simp: releases_def)
    then show ?thesis using d(1) by auto
  next
    case False
    then show ?thesis using process_order_resumes [OF s1(1)] by auto
  qed
qed simp

lemma processOrders_resumes:
  assumes "processOrders env s = Some t" and "resumptions (ap_calls t) \<noteq> resumptions (ap_calls s)"
  shows "\<exists>dec\<in>set (gx_pending_orders (ap_gx s)). releases (cf_replicaId (ev_cfg env)) s dec"
  using process_all_resumes [of env "gx_pending_orders (ap_gx s)" "s\<lparr>ap_gx := (ap_gx s)\<lparr>gx_pending_orders := []\<rparr>\<rparr>" t] assms
  by (simp add: processOrders_def)

section \<open>The clearance poll\<close>

lemma crash_echo_gx: "ap_gx (sendCancelEcho env e r ref s) = ap_gx s" "ap_now (sendCancelEcho env e r ref s) = ap_now s"
  "ap_gx (sendClearEcho env a b s) = ap_gx s" "ap_now (sendClearEcho env a b s) = ap_now s"
  using core_eq(9,1) [OF core_sendCancelEcho [of env e r ref s]]
  by (simp_all add: sendClearEcho_def sendBFTMessage_def enqueueDiscoveryTx_def scheduleDiscoveryTxFlush_def air_def Let_def
      split: option.split list.split)

lemma watch_gx [simp]:
  "ap_gx (watch_target env b r s) = ap_gx s" "ap_now (watch_target env b r s) = ap_now s"
  "ap_gx (watch_incident env k rec s) = ap_gx s" "ap_now (watch_incident env k rec s) = ap_now s"
  by (simp_all add: watch_target_def watch_incident_def maybeTriggerCrashRollback_def crash_echo_gx Let_def split: option.split)

lemma perceive_gx: "ap_gx (perceive env s) = ap_gx s" "ap_now (perceive env s) = ap_now s"
proof -
  have "ap_gx (watch_batches env ts s) = ap_gx s \<and> ap_now (watch_batches env ts s) = ap_now s" for ts s
    by (induction env ts s rule: watch_batches.induct) simp_all
  moreover have "ap_gx (watch_incidents env ks s) = ap_gx s \<and> ap_now (watch_incidents env ks s) = ap_now s" for ks s
    by (induction env ks s rule: watch_incidents.induct) simp_all
  ultimately show "ap_gx (perceive env s) = ap_gx s" "ap_now (perceive env s) = ap_now s"
    by (simp_all add: perceive_def Let_def)
qed

text \<open>The batch ahead is gone, or the wait for it has timed out.\<close>

definition way_is_free :: "'d AppEnv \<Rightarrow> 'd AppState \<Rightarrow> bool" where
  "way_is_free env s \<longleftrightarrow> gx_my_batch_index (ap_gx s) > 0 \<and> gx_preceding_batch_cars (ap_gx s) \<noteq> [] \<and>
     ((\<forall>rid\<in>set (gx_preceding_batch_cars (ap_gx s)). ev_hasCleared env (ap_now s) (veh rid)) \<or>
      (gx_clearance_started (ap_gx s) \<ge> 0 \<and> ap_now s - gx_clearance_started (ap_gx s) \<ge> ev_clearance_timeout env))"

lemma poll_resumes:
  assumes "resumptions (ap_calls (onPollTimer env s)) \<noteq> resumptions (ap_calls s)"
  shows "\<not> cancel_active s \<and> way_is_free env s"
proof -
  define p where "p = perceive env (s\<lparr>ap_gx := (ap_gx s)\<lparr>gx_poll_timer := None\<rparr>\<rparr>)"
  have "aspect p = aspect s" by (simp add: p_def)
  then have r: "resumptions (ap_calls p) = resumptions (ap_calls s)" by (rule frame_resumed)
  have g: "ap_gx p = (ap_gx s)\<lparr>gx_poll_timer := None\<rparr>" "ap_now p = ap_now s" by (simp_all add: p_def perceive_gx)
  have c: "cancel_active p = cancel_active s" by (simp add: p_def)
  show ?thesis
    using assms r g c unfolding onPollTimer_def p_def [symmetric]
    by (auto simp: Let_def way_is_free_def cancel_active_def list_all_iff rearm_poll_timer_def split: if_split_asm)
qed

section \<open>Every step\<close>

definition fails_safe :: "'d AppEnv \<Rightarrow> 'd AppState \<Rightarrow> bool" where
  "fails_safe env s \<longleftrightarrow> \<not> ev_enableRollback env \<and>
     (gx_stop_sign_timer (ap_gx s) = Some (ap_now s) \<or> gx_consensus_timer (ap_gx s) = Some (ap_now s))"

definition may_resume :: "'d AppEnv \<Rightarrow> 'd AppState \<Rightarrow> bool" where
  "may_resume env s \<longleftrightarrow>
     (\<exists>dec\<in>set (gx_pending_orders (ap_gx s)). releases (cf_replicaId (ev_cfg env)) s dec) \<or>
     (gx_poll_timer (ap_gx s) = Some (ap_now s) \<and> \<not> cancel_active s \<and> way_is_free env s) \<or>
     (gx_resume_timer (ap_gx s) = Some (ap_now s) \<and> \<not> cancel_active s) \<or> fails_safe env s"

lemma fail_safe_resumes:
  "resumptions (ap_calls (fail_safe env s)) \<noteq> resumptions (ap_calls s) \<Longrightarrow> \<not> ev_enableRollback env"
  using frame_resumed [OF evaluateOrderReadiness_frame, of env s] by (auto simp: fail_safe_def split: if_split_asm)

lemma timeout_resumes:
  assumes "map_option (fail_safe env) (processOrders env (s\<lparr>ap_gx := g\<rparr>)) = Some t"
    and "gx_pending_orders g = gx_pending_orders (ap_gx s)"
    and "resumptions (ap_calls t) \<noteq> resumptions (ap_calls s)"
  shows "(\<exists>dec\<in>set (gx_pending_orders (ap_gx s)). releases (cf_replicaId (ev_cfg env)) s dec) \<or> \<not> ev_enableRollback env"
proof -
  obtain u where u: "processOrders env (s\<lparr>ap_gx := g\<rparr>) = Some u" "t = fail_safe env u" using assms(1) by auto
  then show ?thesis
    using processOrders_resumes [OF u(1)] fail_safe_resumes [of env u] u(2) assms(2,3)
    by (cases "resumptions (ap_calls u) = resumptions (ap_calls s)") auto
qed

lemma vc_trigger_resumes:
  assumes "onVcTrigger env s = Some t" and "resumptions (ap_calls t) \<noteq> resumptions (ap_calls s)"
  shows "\<exists>dec\<in>set (gx_pending_orders (ap_gx s)). releases (cf_replicaId (ev_cfg env)) s dec"
proof -
  obtain u where u: "processOrders env (s\<lparr>ap_vc_trigger := None\<rparr>) = Some u" "t = force_view_change env u"
    using assms(1) by (auto simp: onVcTrigger_def)
  have "resumptions (ap_calls t) = resumptions (ap_calls u)"
    by (rule frame_resumed) (simp add: u(2) force_view_change_def)
  then show ?thesis
    using processOrders_resumes [OF u(1)] assms(2) by auto
qed

lemma timer_resumes:
  assumes "timer_time tm s = Some (ap_now s)" and "handleSelfMsg env tm s = Some t"
    and "resumptions (ap_calls t) \<noteq> resumptions (ap_calls s)"
  shows "may_resume env s"
proof (cases tm)
  case T_vc_trigger
  then show ?thesis using assms vc_trigger_resumes by (auto simp: may_resume_def)
next
  case T_stop_sign
  then show ?thesis using assms timeout_resumes [where s = s and g = "(ap_gx s)\<lparr>gx_stop_sign_timer := None\<rparr>"]
    by (auto simp: may_resume_def onStopSignTimeout_def fails_safe_def)
next
  case T_consensus_timeout
  then show ?thesis using assms timeout_resumes [where s = s and g = "(ap_gx s)\<lparr>gx_consensus_timer := None\<rparr>"]
    by (auto simp: may_resume_def onConsensusTimeout_def fails_safe_def)
next
  case T_resume
  then show ?thesis using assms by (auto simp: may_resume_def onResumeTimer_def Let_def cancel_active_def split: if_split_asm)
next
  case T_poll
  then show ?thesis using assms poll_resumes by (auto simp: may_resume_def)
next
  case T_clear_candidate
  then show ?thesis using assms steady_resumed [OF onClearCandidateTimer_steady] by auto
next
  case T_consensus_retry
  then show ?thesis using assms by (auto simp: retry_fate)
next
  case T_consensus_relay
  then show ?thesis using assms steady_resumed [OF relay_steady(3)] by auto
qed (use assms frame_resumed [of t s] in auto)

lemma settle_resumed: "resumptions (ap_calls (settle env s)) = resumptions (ap_calls s)"
  by (rule frame_resumed) simp

lemma transport_poll_resumes:
  assumes "onTransportPoll env s = Some t" and "resumptions (ap_calls t) \<noteq> resumptions (ap_calls s)"
  shows "may_resume env s"
proof -
  obtain u where u: "processOrders env (drainOutboundQueue env s) = Some u" "t = poll_primary env u"
    using assms(1) by (auto simp: onTransportPoll_def)
  have "resumptions (ap_calls t) = resumptions (ap_calls u)"
    by (rule frame_resumed) (simp add: u(2))
  moreover have "resumptions (ap_calls (drainOutboundQueue env s)) = resumptions (ap_calls s)"
    by (rule steady_resumed [OF drain_steady])
  moreover have "isEpochTombstoned s e \<Longrightarrow> isEpochTombstoned (drainOutboundQueue env s) e" for e
    using steady_evolves [OF drain_steady, of env s]
    by (auto simp: evolves_def aspect_def isEpochTombstoned_def split: if_split_asm)
  ultimately show ?thesis
    using processOrders_resumes [OF u(1)] assms(2) by (auto simp: may_resume_def releases_def)
qed

lemma step_resumes:
  assumes "vehicle_step env s t" and "resumptions (ap_calls t) \<noteq> resumptions (ap_calls s)"
  shows "may_resume env s"
  using assms
proof (induction rule: vehicle_step.cases)
  case (frame fr s t)
  then show ?case using steady_resumed [OF frame_steady] by (auto simp: settle_resumed)
next
  case (timer tm s t)
  then show ?case using timer_resumes by (auto simp: settle_resumed)
next
  case (poll s t)
  then show ?case using transport_poll_resumes by (auto simp: settle_resumed)
next
  case (departure s)
  then show ?case using steady_resumed [OF departure_steady] by auto
next
  case (crash s)
  then show ?case using steady_resumed [OF crash_steady] by auto
next
  case (announce s)
  then show ?case using frame_resumed [OF broadcastArrivalAnnouncement_frame, of env s] by (simp add: settle_resumed)
next
  case (position s)
  then show ?case using frame_resumed [OF handlePositionUpdate_frame, of env s] by (simp add: settle_resumed)
next
  case outbound
  then show ?case by (simp add: steady_resumed [OF relay_steady(4)])
next
  case decided
  then show ?case by (auto simp: onOrderDecided_def enqueue_order_def split: if_split_asm)
qed simp_all

section \<open>The theorem\<close>

definition out_of_the_way :: "Traffic \<Rightarrow> int \<Rightarrow> bool" where
  "out_of_the_way tr rid \<longleftrightarrow> (case traci_vehicle tr (veh rid) of None \<Rightarrow> True
     | Some c \<Rightarrow> \<not> internal_lane (car_lane c) \<and> onDepartureLeg (car_road c) \<and> car_pos c \<ge> 3)"

text \<open>
  C6: a vehicle is released into the intersection only with a reason that it can see. If a step
  of a vehicle that reads the road resumes it, then a decided order of a live epoch puts it in
  the first batch; or the clearance poll is due, no cancellation is active, and every vehicle of
  the batch ahead has left the road network or is at least three metres down a departure leg
  (or the clearance timeout has passed since the order was applied); or a pending resume was
  due with no cancellation active; or, with rollback disabled, a safety timeout fired.
\<close>

theorem resumption_justified:
  assumes "vehicle_step (road_env rd env) s t" and "resumptions (ap_calls t) \<noteq> resumptions (ap_calls s)"
  shows "(\<exists>dec\<in>set (gx_pending_orders (ap_gx s)). \<not> isEpochTombstoned s (oh_epoch (dec_order_hdr dec)) \<and>
      my_batch_of (cf_replicaId (ev_cfg env)) (order_decisions dec) = 0) \<or>
    (gx_poll_timer (ap_gx s) = Some (ap_now s) \<and> \<not> cancel_active s \<and> gx_my_batch_index (ap_gx s) > 0 \<and>
      ((\<exists>tr. rd (ap_now s) = Some tr \<and> list_all (out_of_the_way tr) (gx_preceding_batch_cars (ap_gx s))) \<or>
       gx_clearance_started (ap_gx s) \<ge> 0 \<and> ap_now s - gx_clearance_started (ap_gx s) \<ge> ev_clearance_timeout env)) \<or>
    (gx_resume_timer (ap_gx s) = Some (ap_now s) \<and> \<not> cancel_active s) \<or>
    (\<not> ev_enableRollback env \<and>
      (gx_stop_sign_timer (ap_gx s) = Some (ap_now s) \<or> gx_consensus_timer (ap_gx s) = Some (ap_now s)))"
proof -
  have e: "ev_hasCleared (road_env rd env) = (\<lambda>t. vehicleHasClearedIntersectionTraCI (rd t))"
    "ev_clearance_timeout (road_env rd env) = ev_clearance_timeout env" "ev_cfg (road_env rd env) = ev_cfg env"
    "ev_enableRollback (road_env rd env) = ev_enableRollback env"
    by (simp_all add: road_env_def Let_def)
  have "\<exists>tr. rd (ap_now s) = Some tr \<and> list_all (out_of_the_way tr) (gx_preceding_batch_cars (ap_gx s))"
    if free: "gx_preceding_batch_cars (ap_gx s) \<noteq> []" "\<forall>rid\<in>set (gx_preceding_batch_cars (ap_gx s)).
      vehicleHasClearedIntersectionTraCI (rd (ap_now s)) (veh rid)"
  proof -
    obtain tr where "rd (ap_now s) = Some tr" using free by (auto simp: cleared_iff neq_Nil_conv)
    then show ?thesis
      using free(2) by (auto simp: cleared_iff list_all_iff out_of_the_way_def split: option.split)
  qed
  then show ?thesis
    using step_resumes [OF assms] unfolding may_resume_def way_is_free_def fails_safe_def releases_def e by blast
qed

text \<open>Vehicle 1 has left on C2E: the poll of vehicle 0, in the second batch, lets it go.\<close>

definition open_road :: Traffic where
  "open_road = \<lparr>tr_cars = [\<lparr>car_id = ''veh1'', car_road = ''C2E'', car_lane = ''C2E_0'', car_pos = 5, car_speed = 8,
       car_lane_index = 0, car_xy = (0, 0), car_left = False, car_right = False, car_emergency = False\<rparr>],
     tr_lane_length = (\<lambda>l. Some 100), tr_lane_shape = (\<lambda>l. None)\<rparr>"

definition waiting_scene :: "int AppState" where
  "waiting_scene = (let s = initial_vehicle (sample_env 0) sample_server
     in s\<lparr>ap_order_applied := True, ap_gx := (ap_gx s)\<lparr>gx_my_batch_index := 1, gx_preceding_batch_cars := [1],
       gx_poll_timer := Some 0\<rparr>\<rparr>)"

theorem resumption_justified_witness:
  "resumptions (ap_calls (settle (road_env (\<lambda>t. Some open_road) (sample_env 0))
     (onPollTimer (road_env (\<lambda>t. Some open_road) (sample_env 0)) waiting_scene))) = [1] \<and>
   \<not> cancel_active waiting_scene"
proof -
  let ?E = "road_env (\<lambda>t. Some open_road) (sample_env 0)"
  have r: "resumptions (ap_calls (settle ?E (onPollTimer ?E waiting_scene))) = [1]"
    "resumptions (ap_calls waiting_scene) = []" "gx_pending_orders (ap_gx waiting_scene) = []"
    "gx_resume_timer (ap_gx waiting_scene) = None" "ev_enableRollback (sample_env 0)"
    by code_simp+
  have "vehicle_step ?E waiting_scene (settle ?E (onPollTimer ?E waiting_scene))"
    by (rule vehicle_step.timer [of T_poll]) (simp_all, code_simp)
  from resumption_justified [OF this] show ?thesis using r by auto
qed

end
