(* ===== verification/UnsafeCorrect.thy ===== *)
theory UnsafeCorrect
  imports VehicleCorrect OrderCorrect
begin

text \<open>
  The check of the applied order against the own certificates: it stays silent on orders the
  replica accepted itself, and on the first order of a run it cannot speak at all.
\<close>

section \<open>Silence on accepted orders\<close>

lemma member_pairs_nth:
  "ab \<in> set (member_pairs as) \<Longrightarrow> \<exists>i j. i < j \<and> j < length as \<and> ab = (as ! i, as ! j)"
proof (induction as)
  case (Cons a as)
  then consider b where "b \<in> set as" "ab = (a, b)" | "ab \<in> set (member_pairs as)" by auto
  then show ?case
  proof cases
    case 1
    then obtain j where "j < length as" "b = as ! j" by (auto simp: in_set_conv_nth)
    then show ?thesis using 1 by (intro exI [of _ 0] exI [of _ "Suc j"]) simp
  next
    case 2
    then obtain i j where "i < j" "j < length as" "ab = (as ! i, as ! j)" using Cons.IH by auto
    then show ?thesis by (intro exI [of _ "Suc i"] exI [of _ "Suc j"]) simp
  qed
qed simp

lemma filter_nth_less:
  assumes "i < j" and "j < length (filter P xs)"
  shows "\<exists>k l. k < l \<and> l < length xs \<and> filter P xs ! i = xs ! k \<and> filter P xs ! j = xs ! l \<and> P (xs ! k) \<and> P (xs ! l)"
  using assms
proof (induction xs arbitrary: i j)
  case (Cons x xs)
  show ?case
  proof (cases "P x \<and> i = 0")
    case True
    then have "filter P (x # xs) ! j \<in> set (filter P xs)"
      using Cons.prems by (cases j) (simp_all del: set_filter)
    then obtain l where "l < length xs" "filter P (x # xs) ! j = xs ! l" "P (xs ! l)" by (auto simp: in_set_conv_nth)
    then show ?thesis using True by (intro exI [of _ 0] exI [of _ "Suc l"]) simp
  next
    case False
    define d where "d = (if P x then 1 else 0 :: nat)"
    have "i - d < j - d" "j - d < length (filter P xs)" using Cons.prems False by (auto simp: d_def split: if_splits)
    then obtain k l where "k < l" "l < length xs" "filter P xs ! (i - d) = xs ! k" "filter P xs ! (j - d) = xs ! l"
      "P (xs ! k)" "P (xs ! l)"
      using Cons.IH by blast
    then show ?thesis using False Cons.prems
      by (intro exI [of _ "Suc k"] exI [of _ "Suc l"]) (auto simp: d_def nth_Cons' split: if_splits)
  qed
qed simp

lemma batch_pair:
  assumes "ab \<in> set (member_pairs (batch_members ds b))"
  obtains i j where "i < j" and "j < length ds" and "vd_batch_index (ds ! i) = vd_batch_index (ds ! j)"
    and "ab = (vd_replica_id (ds ! i), vd_replica_id (ds ! j))"
proof -
  obtain i j where ij: "i < j" "j < length (filter (\<lambda>d. unat (vd_batch_index d) = b) ds)"
      "ab = (vd_replica_id (filter (\<lambda>d. unat (vd_batch_index d) = b) ds ! i),
             vd_replica_id (filter (\<lambda>d. unat (vd_batch_index d) = b) ds ! j))"
    using member_pairs_nth [OF assms] by (auto simp: batch_members_def)
  from filter_nth_less [OF ij(1,2)] ij(3) that show thesis by (metis word_unat_eq_iff)
qed

text \<open>The view of a voter: every certified vehicle also has its distance certificate.\<close>

definition complete_view :: "'d AppState \<Rightarrow> bool" where
  "complete_view s \<longleftrightarrow> om_ok (ap_collected_certs s) \<and> length (ap_collected_certs s) \<le> 256 \<and>
     (\<forall>c. om_get (ap_collected_certs s) c \<noteq> None \<longrightarrow> om_get (ap_collected_distance_certs s) c \<noteq> None)"

lemma snapshot_covers:
  assumes "complete_view s" and "om_get (ap_collected_certs s) (veh r) = Some cert" and "in_i32 r"
  shows "\<exists>ce\<in>set (certSnapshotCallback env s 256). ce_replica_id ce = r \<and> ce_lane ce = laneCode (ac_lane cert) \<and>
    ce_direction ce = directionCode (eligibleDirection (ev_cfg env) (ev_keys env) (ev_verify env) cert)"
proof -
  let ?ranks = "deriveQueueRanks (ap_collected_certs s) (ap_collected_distance_certs s)"
  obtain dc where dc: "om_get (ap_collected_distance_certs s) (veh r) = Some dc"
    using assms(1,2) by (auto simp: complete_view_def)
  obtain rank where "om_get ?ranks (veh r) = Some rank"
    using queue_rank [OF _ assms(2) dc] assms(1) by (auto simp: complete_view_def)
  then obtain ce where ce: "snapshot_entry env s ?ranks (veh r, cert) = Some ce" "ce_replica_id ce = r"
      "ce_lane ce = laneCode (ac_lane cert)"
      "ce_direction ce = directionCode (eligibleDirection (ev_cfg env) (ev_keys env) (ev_verify env) cert)"
    using dc stoi_car [OF assms(3)] car_name_long [OF assms(3)] by (simp add: snapshot_entry_def)
  have "(veh r, cert) \<in> set (ap_collected_certs s)"
    using om_in_iff [of "ap_collected_certs s" "veh r" cert] assms(1,2) by (simp add: complete_view_def)
  moreover have "length (List.map_filter f xs) \<le> length xs" for f and xs :: "'x list"
    by (simp add: List.map_filter_def)
  then have "length (List.map_filter (snapshot_entry env s ?ranks) (ap_collected_certs s)) \<le> 256"
    using assms(1) order_trans unfolding complete_view_def by blast
  ultimately have "ce \<in> set (certSnapshotCallback env s 256)"
    using ce(1) by (force simp: certSnapshotCallback_def List.map_filter_def Let_def)
  then show ?thesis using ce by blast
qed

text \<open>A co-batched entry has the codes of the own certificate.\<close>

lemma entry_codes:
  assumes "complete_view s" and "cert_codes s (ve_replica_id e) = Some codes" and "in_i32 (ve_replica_id e)"
    and "\<forall>ce \<in> set (certSnapshotCallback env s 256). ce_replica_id ce = ve_replica_id e \<longrightarrow> state_fields_match e ce"
    and "ve_direction e \<in> {0, 2}"
  shows "codes = (ve_lane e, ve_direction e)"
proof -
  obtain cert where cert: "om_get (ap_collected_certs s) (veh (ve_replica_id e)) = Some cert"
      "codes = (laneCode (ac_lane cert), directionCode (ac_direction cert))"
    using assms(2) by (auto simp: cert_codes_def)
  obtain ce where ce: "ce \<in> set (certSnapshotCallback env s 256)" "ce_replica_id ce = ve_replica_id e"
      "ce_lane ce = laneCode (ac_lane cert)"
      "ce_direction ce = directionCode (eligibleDirection (ev_cfg env) (ev_keys env) (ev_verify env) cert)"
    using snapshot_covers [OF assms(1) cert(1) assms(3)] by blast
  have m: "ve_lane e = laneCode (ac_lane cert)"
      "ve_direction e = directionCode (eligibleDirection (ev_cfg env) (ev_keys env) (ev_verify env) cert)"
    using assms(4) ce by (auto simp: state_fields_match_def)
  then have "eligibleDirection (ev_cfg env) (ev_keys env) (ev_verify env) cert = ac_direction cert"
    using assms(5) by (auto simp: eligibleDirection_def split: if_splits)
  then show ?thesis using cert(2) m by simp
qed


text \<open>Replicas 0 and 1 go straight on the opposite approaches N and S; replica 0 proposes, and
  directions need no support by cues.\<close>

definition pair_env :: "int \<Rightarrow> int AppEnv" where
  "pair_env r = (sample_env r)\<lparr>ev_cfg := (sample_config r)\<lparr>cf_direction_eligibility_enabled := False\<rparr>\<rparr>"

definition pair_scene :: "int AppState" where
  "pair_scene = demo_scene\<lparr>
     ap_collected_certs := [(''veh0'', empty_cert\<lparr>ac_carId := ''veh0'', ac_lane := ''N'', ac_direction := DIR_STRAIGHT\<rparr>),
       (''veh1'', empty_cert\<lparr>ac_carId := ''veh1'', ac_lane := ''S'', ac_direction := DIR_STRAIGHT\<rparr>)],
     ap_collected_distance_certs := [(''veh0'', empty_distance_cert), (''veh1'', empty_distance_cert)]\<rparr>"

definition pair_proposal :: bytes where
  "pair_proposal = order_payload (pair_env 0) pair_scene (buildOrderCandidate (pair_env 0) pair_scene)"

definition pair_entries :: "ResdbVehicleEntry list" where
  "pair_entries = proposal_entries (dec_propose_hdr pair_proposal) pair_proposal"

definition pair_decisions :: "ResdbVehicleDecision list" where
  "pair_decisions = dec_decisions (length pair_entries) (fst (ExecuteData False (\<lambda>b. b) False pair_proposal {}))"

lemma pair_round: "certified_round (pair_env 0) pair_scene (buildOrderCandidate (pair_env 0) pair_scene)"
  by code_simp

lemma pair_follower: "follower_of (pair_env 0) pair_scene (pair_env 1) pair_scene"
  by (simp add: follower_of_def pair_env_def sample_env_def sample_config_def)

lemma pair_accepted:
  "\<exists>st'. PreVerify 4 demo_parse (Some (certSnapshotCallback (pair_env 1) pair_scene)) None
     (demo_pre_prepare pair_proposal) sample_server = Some (True, st')"
proof -
  have "PreVerify 4 demo_parse (Some (certSnapshotCallback (pair_env 1) pair_scene)) None (demo_pre_prepare pair_proposal) sample_server =
      (if (ap_current_epoch pair_scene > 0 \<and> None = (None :: OmnetForcedView option)) \<or>
          (ap_current_epoch pair_scene \<in> bs_recovery_epochs sample_server \<and>
           \<not> clear_evidence_ok None (dec_propose_hdr pair_proposal) pair_proposal)
       then Some (False, sample_server)
       else install_order_view (demo_pre_prepare pair_proposal) None
         (\<not> leader_is_pbft_primary 4 (dec_propose_hdr pair_proposal) pair_proposal sample_server)
         (cf_replicaId (ev_cfg (pair_env 0))) sample_server)"
    by (rule honest_proposal_checked [OF pair_round pair_follower pair_proposal_def refl, where ds = "[]"])
      (simp_all add: pair_env_def sample_env_def sample_config_def demo_parse_def demo_pre_prepare_def sample_server_def
        BuildEpochOrderViewCandidate_def configured_faults_def)
  then show ?thesis
    by (simp add: pair_scene_def demo_scene_def initial_app_def sample_server_def install_order_view_def)
qed


section \<open>The first order\<close>

lemma no_alarm_before_commit:
  "\<not> gx_has_committed_order (ap_gx s) \<Longrightarrow> detectUnsafeBatch env ds n s = s"
proof -
  assume h: "\<not> gx_has_committed_order (ap_gx s)"
  have "fold (maybeTriggerCrashRollback env) refs s = s" for refs
    using h by (induction refs) (simp_all add: maybeTriggerCrashRollback_def)
  then show ?thesis by (simp add: detectUnsafeBatch_def)
qed

text \<open>
  C39: the alarm is mute on the first order of a run. The check runs before the order is noted
  as committed, and raising an alarm requires a committed order; so a replica whose own
  certificates show that its batch is unsafe applies its first order, drives off in the first
  batch, and leaves its cancellation state as it was: no CANCEL echo, no witnessing.
\<close>

theorem first_unsafe_order_unreported:
  assumes "\<not> gx_has_committed_order (ap_gx s)" and "\<not> cx_pending (ap_cx s)" and "\<not> isEpochTombstoned s e"
    and "\<not> ap_order_applied s" and "\<not> ev_hasCompleted env (ap_now s) e" and "is_order_of e dec"
    and "length dec = sizeof_order_hdr + unat (oh_n_vehicles (dec_order_hdr dec)) * sizeof_decision"
    and "ds = dec_decisions (unat (oh_n_vehicles (dec_order_hdr dec))) dec"
    and "my_batch_of (cf_replicaId (ev_cfg env)) ds = 0"
    and "unsafe_refs s ds (unat (oh_n_batches (dec_order_hdr dec))) \<noteq> []"
  shows "\<exists>t. process_order env dec s = Some t \<and> ap_cx t = ap_cx s \<and>
    resumptions (ap_calls t) = resumptions (ap_calls s) @ [0]"
proof -
  let ?ohdr = "dec_order_hdr dec"
  define s1 where "s1 = adopt_view ?ohdr ds (clearConsensusRetries s)"
  have s1: "ap_cx s1 = ap_cx s" "resumptions (ap_calls s1) = resumptions (ap_calls s)"
    "\<not> gx_has_committed_order (ap_gx s1)"
    using assms(1) by (simp_all add: s1_def adopt_view_def clearConsensusRetries_def cancelPendingConsensusRelays_def)
  define t where "t = apply_schedule env ?ohdr ds dec s1"
  have "clear_trailer (sizeof_order_hdr + unat (oh_n_vehicles ?ohdr) * sizeof_decision) dec = []"
    using assms(7) by (simp add: clear_trailer_def sizeof_evidence_hdr_def)
  then have "commit_order env ?ohdr dec s = Some t"
    using assms(2) s1 by (simp add: commit_order_def Let_def assms(8) [symmetric] s1_def [symmetric] no_alarm_before_commit t_def)
  then have "process_order env dec s = Some t"
    using assms(3-7) by (auto simp: process_order_def is_order_of_def)
  moreover define s2 where "s2 = (let d = deactivateDiscovery (s1\<lparr>ap_gx := (ap_gx s1)\<lparr>gx_has_committed_order := True\<rparr>\<rparr>)
    in d\<lparr>ap_gx := (ap_gx d)\<lparr>gx_last_committed_epoch := oh_epoch ?ohdr, gx_committed_order_bytes := dec,
        gx_stop_sign_timer := None, gx_consensus_timer := None\<rparr>, ap_vc_trigger := None\<rparr>)"
  have "t = start_batch env 0 ds (oh_epoch ?ohdr) dec s2"
    using assms(9) by (simp add: t_def s2_def apply_schedule_def Let_def)
  then have "ap_cx t = ap_cx s2" "resumptions (ap_calls t) = resumptions (ap_calls s2) @ [0]"
    by (simp_all add: first_batch_resumes)
  moreover have "ap_cx s2 = ap_cx s1" "aspect s2 = aspect s1" by (simp_all add: s2_def Let_def)
  ultimately show ?thesis
    using s1 resumptions_aspect [of s2] resumptions_aspect [of s1] by auto
qed

text \<open>Replica 0 and replica 1, both certified on approach N, are put into one batch.\<close>

definition clash_scene :: "int AppState" where
  "clash_scene = (initial_vehicle (sample_env 0) sample_server)\<lparr>
     ap_collected_certs := [(''veh0'', empty_cert\<lparr>ac_carId := ''veh0'', ac_lane := ''N''\<rparr>),
       (''veh1'', empty_cert\<lparr>ac_carId := ''veh1'', ac_lane := ''N''\<rparr>)]\<rparr>"

definition clash_order :: bytes where
  "clash_order = enc_order_hdr \<lparr>oh_epoch = 0, oh_n_vehicles = 2, oh_n_batches = 1\<rparr> @
     enc_decision \<lparr>vd_replica_id = 0, vd_batch_index = 0\<rparr> @ enc_decision \<lparr>vd_replica_id = 1, vd_batch_index = 0\<rparr>"

definition clash_facts :: "bool \<times> bool \<times> bool \<times> bool \<times> bool \<times> bool \<times> bool \<times> int \<times> bool" where
  "clash_facts = (let s = clash_scene; ds = dec_decisions 2 clash_order in
     (gx_has_committed_order (ap_gx s), cx_pending (ap_cx s), isEpochTombstoned s 0, ap_order_applied s,
      is_order_of 0 clash_order, length clash_order = sizeof_order_hdr + 2 * sizeof_decision,
      oh_n_vehicles (dec_order_hdr clash_order) = 2 \<and> oh_n_batches (dec_order_hdr clash_order) = 1,
      my_batch_of 0 ds, unsafe_refs s ds 1 = [''unsafe_batch:0:0:veh0+veh1'']))"

lemma clash_facts: "clash_facts = (False, False, False, False, True, True, True, 0, True)"
  by code_simp

theorem first_unsafe_order_unreported_witness:
  "\<exists>t. process_order (sample_env 0) clash_order clash_scene = Some t \<and> ap_cx t = ap_cx clash_scene \<and>
     resumptions (ap_calls t) = resumptions (ap_calls clash_scene) @ [0]"
proof -
  note f = clash_facts [unfolded clash_facts_def Let_def prod.inject]
  have n: "unat (oh_n_vehicles (dec_order_hdr clash_order)) = 2" "unat (oh_n_batches (dec_order_hdr clash_order)) = 1"
    using f by simp_all
  have "\<not> ev_hasCompleted (sample_env 0) (ap_now clash_scene) 0" "cf_replicaId (ev_cfg (sample_env 0)) = 0"
    by (simp_all add: sample_env_def sample_config_def)
  then show ?thesis
    using f by (intro first_unsafe_order_unreported [where e = 0 and ds = "dec_decisions 2 clash_order"]) (simp_all add: n)
qed

end
