(* ===== verification/Spec2Isabelle.thy ===== *)
theory Spec2Isabelle
  imports QueueRanks EvidenceCorrect DiscoveryRefine AttackCorrect WaitCorrect ReadyCorrect RelayCorrect VehicleCorrect
    RoadCorrect EchoCorrect VariantCorrect ResumeCorrect UnsafeCorrect
begin

text \<open>
  PicaBFT: vehicles agree on the order in which they cross an intersection.

  \<^bold>\<open>The program.\<close> Every vehicle runs one \<open>ResDBIntersectionApp\<close> (\<^verbatim>\<open>src/src/v2vbft/app\<close>) inside an
  OMNeT++/Veins simulation, and one in-process ResilientDB replica reached through a C interface
  (\<^verbatim>\<open>src/bridge\<close>). A vehicle announces its lane and direction, its neighbours perceive it and echo
  the claim with a signature, and \<open>f + 1\<close> echoes form an arrival certificate; stopped
  vehicles certify their distance to the stop line in the same way. When discovery is complete the
  primary packs the certified vehicles into an ORDER, PBFT decides it, every replica derives the
  same batches from it, and the vehicles of a batch cross when the batch before has cleared.
  If a vehicle blocks the intersection, \<open>f + 1\<close> witnesses certify a CANCEL of the epoch, PBFT
  decides it, discovery starts over in the next epoch, and the new ORDER has to carry a CLEAR
  certificate of the incident.

  \<^bold>\<open>Conventions.\<close> Machine integers of the wire formats are words (\<open>u8\<close>, \<open>u16\<close>, \<open>u32\<close>, \<open>u64\<close>), other
  \<open>int\<close>s are \<open>int\<close> where their range is bounded by the configuration. Byte vectors are lists of
  bytes. \<open>std::map\<close> and \<open>std::set\<close> are sorted association lists and lists (\<open>OrdMap\<close>), because their
  iteration order is observable. Simulation time is counted in ticks (\<open>int\<close>), a timer is the
  option of its due time. Handlers are functions on the record \<open>AppState\<close>; what a handler
  asks of others (the radio, the consensus server, the vehicle) is appended to \<open>ap_calls\<close>
  in order. A handler that decodes text without an exception handler returns an option, \<open>None\<close> being
  the exception. \<open>Call_raise\<close> marks a \<open>scheduleAt\<close> on a timer that is already scheduled or deleted.
  Code outside the repository, and what comes from the road, is a field of the environment
  \<open>AppEnv\<close>: signatures, hashes, printing of doubles, random draws, the parsing of
  ResilientDB packets and its count of votes. What a vehicle reads of the road is a field too;
  \<open>road_env\<close> and \<open>sensor_env\<close> set these fields to the modelled queries and observations. The
  environment is fixed during a run; what varies with time is a function of the time. Logging and measurement are left out.

  \<^bold>\<open>Theories and sources.\<close>
  \<^item> \<open>Prelude\<close>, \<open>OrdMap\<close>, \<open>TextCodec\<close>, \<open>AppUtil\<close>: byte codecs (the locale \<open>fixed_codec\<close>), ordered
    maps (the locale \<open>keyed_store\<close>), decimal and hexadecimal text, \<^verbatim>\<open>ResDBUtil.cc\<close>.
  \<^item> \<open>Wire\<close>, \<open>V2VWire\<close>: the structs of \<^verbatim>\<open>resdb_omnet_bridge.h\<close> and the signed packets of
    \<^verbatim>\<open>ResdbV2VWire.h\<close>, each an interpretation of \<open>fixed_codec\<close> or with its own round trip.
  \<^item> \<open>Scheduler\<close>, \<open>SchedulerCorrect\<close>, \<open>SchedulerOrder\<close>: \<^verbatim>\<open>resdb_intersection_scheduler.cc\<close>; the
    batches partition the proposal, are free of conflicts and respect the lanes, and an
    ambulance waits only for its own lane.
  \<^item> \<open>ForcedView\<close>: \<^verbatim>\<open>omnet_forced_view.h\<close>; quorums of an installed view intersect in a correct member
    (the locale \<open>bft_quorum\<close>).
  \<^item> \<open>Proposal\<close>, \<open>Bridge\<close>, \<open>PreVerify\<close>, \<open>Executor\<close> with \<open>ProposalCorrect\<close> and \<open>BridgeCorrect\<close>:
    \<^verbatim>\<open>resdb_omnet_bridge.cc\<close>; the classification of payloads, the pre-verification of PBFT requests
    against the voter's certificates, the views it installs, and the executor.
  \<^item> \<open>Gossip\<close>, \<open>WitnessCert\<close>, \<open>SignedQuorum\<close>, \<open>Evidence\<close>, \<open>EvidenceCorrect\<close>: relays that act once (the
    locale \<open>once_tracker\<close>), gossip accumulators, witness statements and certificates, CANCEL and CLEAR
    certificates. The locale \<open>signed_quorum\<close> counts distinct verified signers and is interpreted for
    arrival, direction, distance and witness certificates.
  \<^item> \<open>ArrivalCodec\<close>, \<open>ArrivalCert\<close>, \<open>DistanceCert\<close>, \<open>QueueRanks\<close>: formats and validation of arrival and
    distance certificates, the right to a direction, the ranks in the lane queues.
  \<^item> \<open>AppState\<close>, \<open>Transport\<close>, \<open>Discovery\<close>, \<open>Arrival\<close>, \<open>Distance\<close>: the state of the application, the
    queue of discovery frames (\<^verbatim>\<open>ResDBTransport.cc\<close>), the discovery round, arrival claims and echoes
    (\<^verbatim>\<open>ResDBArrivalProtocol.cc\<close>) and stopped distances (\<^verbatim>\<open>ResDBDistanceProtocol.cc\<close>); \<open>DiscoveryCorrect\<close>
    and \<open>DiscoveryRefine\<close> prove that the round terminates, refines an abstract machine of three states
    and closes only with its certificates on the air.
  \<^item> \<open>Road\<close>, \<open>Perception\<close>, \<open>RoadCorrect\<close>, \<open>EchoCorrect\<close>: the queries of the road and the lane queue
    (\<^verbatim>\<open>ResDBTraCI.cc\<close>) over \<open>Traffic\<close>, a record of what SUMO answers at one time, and the noisy
    perception of another vehicle (\<^verbatim>\<open>ResDBPerception.cc\<close>). The announced position is the place in the
    physical queue; a correct witness with an exact sensor echoes an honest claim; the certificate gate lets
    an ambulance claim without a certificate through.
  \<^item> \<open>Cancel\<close>, \<open>CancelCommit\<close>, \<open>Wait\<close>, \<open>Order\<close>, \<open>Clear\<close>, \<open>Decision\<close>: cancellation and recovery
    (\<^verbatim>\<open>ResDBRollbackProtocol.cc\<close>), the wait lease, the packing of an ORDER and the attacks a
    configured faulty proposer mounts, clearance, and the application of decisions (\<^verbatim>\<open>ResDBDecision.cc\<close>).
    \<open>CancelCorrect\<close>, \<open>WaitCorrect\<close>, \<open>OrderCorrect\<close>, \<open>AttackCorrect\<close> and \<open>ReadyCorrect\<close> hold their
    theorems; \<open>OrderCorrect\<close> and \<open>AttackCorrect\<close> join the application to the pre-verification of the bridge.
  \<^item> \<open>Relay\<close>, \<open>RelayCorrect\<close>, \<open>RelayInvariant\<close>: the radio transport of PBFT packets, their retransmission
    and their relays (\<^verbatim>\<open>ResDBTransport.cc\<close>).
  \<^item> \<open>Vehicle\<close>, \<open>Frames\<close>, \<open>VehicleCorrect\<close>: the dispatch of frames and timers (\<^verbatim>\<open>ResDBIntersectionApp.cc\<close>),
    position updates, departure and crash, and the step relation \<open>vehicle_step\<close> of a vehicle. \<open>Frames\<close>
    has one equation for every operation that leaves the projection \<open>aspect\<close> alone;
    \<open>VehicleCorrect\<close> compares the remaining ones by the preorder \<open>evolves\<close> and lifts the
    result to all runs.
  \<^item> \<open>Claims\<close>, \<open>VariantCorrect\<close>: the echoes, first variants and samples of a witness stay consistent, so it
    never vouches for two variants of a claim in a round.
  \<^item> \<open>ResumeCorrect\<close>, \<open>UnsafeCorrect\<close>: why a vehicle is released into the intersection, traced to the order
    or to the road it sees; and the check of an applied order against the own certificates, which
    never fires on an order the replica accepted and cannot fire on the first order of a run.

  \<^bold>\<open>Bounds.\<close> The mutual recursion of the discovery round is cut after three levels, which
  \<open>discovery_recursion_bounded\<close> shows to satisfy the recursion for every state. The evaluation of
  readiness and the proposal call each other once; a second nested evaluation finds the proposal
  submitted. In the components of discovery the final evaluation of readiness is recorded as a call;
  \<open>settle\<close> carries it out before the event of \<open>vehicle_step\<close> ends.

  \<^bold>\<open>Not modelled.\<close> SUMO itself: commands to it are calls, its answers the record \<open>Traffic\<close>, in which
  positions and speeds are rationals. In \<^verbatim>\<open>ResDBTraCI.cc\<close> the controlled indicator signals and the trace
  of the attack experiments are left out, as are the functions that nothing calls
  (\<open>countRollbackPerceivedVehicles\<close>, \<open>isApproachingIntersection\<close>, \<open>checkIfDeparted\<close>, \<open>verifyCarPosition\<close>),
  and in \<^verbatim>\<open>ResDBDecision.cc\<close> the classification of attack outcomes for the log. Construction, parameters and
  measurement in \<open>initialize\<close> and \<open>finish\<close>, timers that only measure, and logging are left
  out, as are the threads and sockets of the bridge. The modules of \<^verbatim>\<open>src/fourway\<close> are earlier
  applications. ResilientDB itself, Veins and the copies of the application and of the bridge below
  \<^verbatim>\<open>src/veins-veins-5.3.1\<close> and \<^verbatim>\<open>src/incubator-resilientdb\<close> are third-party code or duplicates.
\<close>

end
